(* ===== verification/Prelude.thy ===== *)
theory Prelude
  imports Main "HOL-Library.Char_ord" "HOL-Library.List_Lexorder"
    "HOL-Library.Signed_Division" "HOL-Library.Code_Target_Nat"
begin

section \<open>Shared vocabulary of the development\<close>

text \<open>
  What every component uses: error values and results, the byte-string functions of Go's
  \<open>strings\<close> and \<open>strconv\<close> packages the sources call, signed 64-bit arithmetic, and
  rows of a database table with the statements \<open>SELECT\<close>, \<open>UPDATE\<close> and \<open>DELETE\<close> on them.
  A Go string is a \<open>string\<close> (a list of bytes); case folding and white space are those of
  ASCII.
\<close>

named_theorems result_simps \<open>rewrite rules for results of fallible operations\<close>
named_theorems table_simps \<open>rewrite rules for table statements\<close>

subsection \<open>Errors and results\<close>

text \<open>
  The sentinel errors that the code tests with \<open>errors.Is\<close> are constructors of their own.
  Every other error is an \<open>ErrMsg\<close> with the literal part of its message (the interpolated
  values are dropped), and \<open>ErrWrap\<close> is \<open>errors.Join\<close> or a \<open>%w\<close> wrapping.
\<close>

datatype error =
    ErrNoRows
  | ErrNotExist
  | ErrConstraint
  | ErrStartUncertain
  | ErrStartRejected
  | ErrCreateRejected
  | ErrMsg string
  | ErrWrap error error

fun errors_is :: "error \<Rightarrow> error \<Rightarrow> bool" where
  "errors_is (ErrWrap a b) t = (ErrWrap a b = t \<or> errors_is a t \<or> errors_is b t)"
| "errors_is e t = (e = t)"

text \<open>\<open>err.Error()\<close>.\<close>

fun error_text :: "error \<Rightarrow> string" where
  "error_text ErrNoRows = ''sql: no rows in result set''"
| "error_text ErrNotExist = ''file does not exist''"
| "error_text ErrConstraint = ''constraint failed''"
| "error_text ErrStartUncertain = ''VM start outcome is unknown; resources retained''"
| "error_text ErrStartRejected = ''start rejected before runtime admission''"
| "error_text ErrCreateRejected = ''create rejected before allocation''"
| "error_text (ErrMsg m) = m"
| "error_text (ErrWrap a b) = error_text a @ '': '' @ error_text b"

type_synonym 'a result = "error + 'a"

definition bindR :: "'a result \<Rightarrow> ('a \<Rightarrow> 'b result) \<Rightarrow> 'b result" where
  "bindR r k = (case r of Inl e \<Rightarrow> Inl e | Inr x \<Rightarrow> k x)"

definition failIf :: "bool \<Rightarrow> error \<Rightarrow> unit result" where
  "failIf c e = (if c then Inl e else Inr ())"

text \<open>\<open>fmt.Errorf("context: %w", err)\<close> around a fallible call.\<close>

definition wrapE :: "string \<Rightarrow> 'a result \<Rightarrow> 'a result" where
  "wrapE ctx r = (case r of Inl e \<Rightarrow> Inl (ErrWrap (ErrMsg ctx) e) | Inr x \<Rightarrow> Inr x)"

lemma wrapE_simps [simp, result_simps]:
  "wrapE c (Inr x) = Inr x"
  "wrapE c (Inl e) = Inl (ErrWrap (ErrMsg c) e)"
  "wrapE c r = Inr y \<longleftrightarrow> r = Inr y"
  by (auto simp: wrapE_def split: sum.splits)

lemma bindR_simps [simp, result_simps]:
  "bindR (Inl e) k = Inl e"
  "bindR (Inr x) k = k x"
  by (simp_all add: bindR_def)

lemma bindR_Inr_iff [result_simps]:
  "bindR r k = Inr y \<longleftrightarrow> (\<exists>x. r = Inr x \<and> k x = Inr y)"
  by (cases r) auto

lemma bindR_Inl_iff [result_simps]:
  "bindR r k = Inl e \<longleftrightarrow> r = Inl e \<or> (\<exists>x. r = Inr x \<and> k x = Inl e)"
  by (cases r) auto

lemma failIf_simps [simp, result_simps]:
  "failIf c e = Inr u \<longleftrightarrow> \<not> c"
  "failIf c e = Inl e' \<longleftrightarrow> c \<and> e' = e"
  by (auto simp: failIf_def)

lemma bindR_failIf [simp]:
  "bindR (failIf c e) k = (if c then Inl e else k ())"
  by (simp add: failIf_def)

fun mapR :: "('a \<Rightarrow> 'b result) \<Rightarrow> 'a list \<Rightarrow> 'b list result" where
  "mapR f [] = Inr []"
| "mapR f (x # xs) = bindR (f x) (\<lambda>y. bindR (mapR f xs) (\<lambda>ys. Inr (y # ys)))"

lemma mapR_map: "(\<And>x. x \<in> set xs \<Longrightarrow> f x = Inr (g x)) \<Longrightarrow> mapR f xs = Inr (map g xs)"
  by (induction xs) auto

lemma mapR_Inr_set:
  "mapR f xs = Inr ys \<Longrightarrow> x \<in> set xs \<Longrightarrow> \<exists>y \<in> set ys. f x = Inr y"
  by (induction xs arbitrary: ys) (auto simp: bindR_Inr_iff)

lemma mapR_Inr_set_rev:
  "mapR f xs = Inr ys \<Longrightarrow> y \<in> set ys \<Longrightarrow> \<exists>x \<in> set xs. f x = Inr y"
  by (induction xs arbitrary: ys) (auto simp: bindR_Inr_iff)

lemma mapR_length: "mapR f xs = Inr ys \<Longrightarrow> length ys = length xs"
  by (induction xs arbitrary: ys) (auto simp: bindR_Inr_iff)

subsection \<open>Byte strings\<close>

definition is_space :: "char \<Rightarrow> bool" where
  "is_space c = (c \<in> {CHR '' '', CHR 0x09, CHR 0x0A, CHR 0x0B, CHR 0x0C, CHR 0x0D})"

definition is_digit :: "char \<Rightarrow> bool" where
  "is_digit c = (48 \<le> (of_char c :: nat) \<and> (of_char c :: nat) \<le> 57)"

definition digit_val :: "char \<Rightarrow> nat" where
  "digit_val c = of_char c - 48"

definition digit_char :: "nat \<Rightarrow> char" where
  "digit_char n = char_of (48 + n mod 10)"

text \<open>\<open>strings.TrimSpace\<close>, \<open>strings.ToLower\<close>, \<open>strings.EqualFold\<close>, \<open>strings.HasPrefix\<close>,
  \<open>strings.HasSuffix\<close>, \<open>strings.Cut\<close>.\<close>

definition TrimSpace :: "string \<Rightarrow> string" where
  "TrimSpace s = rev (dropWhile is_space (rev (dropWhile is_space s)))"

definition lower_char :: "char \<Rightarrow> char" where
  "lower_char c = (let n = (of_char c :: nat) in if 65 \<le> n \<and> n \<le> 90 then char_of (n + 32) else c)"

definition ToLower :: "string \<Rightarrow> string" where
  "ToLower s = map lower_char s"

definition EqualFold :: "string \<Rightarrow> string \<Rightarrow> bool" where
  "EqualFold a b = (ToLower a = ToLower b)"

definition HasPrefix :: "string \<Rightarrow> string \<Rightarrow> bool" where
  "HasPrefix s p = (take (length p) s = p)"

definition HasSuffix :: "string \<Rightarrow> string \<Rightarrow> bool" where
  "HasSuffix s p = (length p \<le> length s \<and> drop (length s - length p) s = p)"

definition TrimSuffix :: "string \<Rightarrow> string \<Rightarrow> string" where
  "TrimSuffix s p = (if HasSuffix s p then take (length s - length p) s else s)"

definition CutChar :: "string \<Rightarrow> char \<Rightarrow> string \<times> string \<times> bool" where
  "CutChar s c = (let a = takeWhile (\<lambda>x. x \<noteq> c) s; r = dropWhile (\<lambda>x. x \<noteq> c) s
     in case r of [] \<Rightarrow> (s, [], False) | _ # t \<Rightarrow> (a, t, True))"

lemma TrimSpace_no_space:
  "(\<And>c. c \<in> set s \<Longrightarrow> \<not> is_space c) \<Longrightarrow> TrimSpace s = s"
proof -
  assume ns: "\<And>c. c \<in> set s \<Longrightarrow> \<not> is_space c"
  have id: "dropWhile is_space t = t" if "set t = set s" for t
    using ns that by (cases t) auto
  show ?thesis using id[of s] id[of "rev s"] by (simp add: TrimSpace_def)
qed

lemma EqualFold_refl [simp]: "EqualFold s s"
  by (simp add: EqualFold_def)

lemma EqualFold_sym: "EqualFold a b \<longleftrightarrow> EqualFold b a"
  by (auto simp: EqualFold_def)

lemma EqualFold_trans: "EqualFold a b \<Longrightarrow> EqualFold b c \<Longrightarrow> EqualFold a c"
  by (simp add: EqualFold_def)

lemma digit_char_is_digit [simp]: "is_digit (digit_char n)"
  by (simp add: is_digit_def digit_char_def)

lemma digit_val_char [simp]: "n < 10 \<Longrightarrow> digit_val (digit_char n) = n"
  by (simp add: digit_val_def digit_char_def)

subsection \<open>Signed 64-bit arithmetic\<close>

text \<open>
  Go's \<open>int64\<close> and \<open>int\<close> (on the 64-bit hosts the program targets) are mathematical integers
  brought back into range by \<open>wrap64\<close> after each operation that can overflow. Division and
  remainder truncate towards zero (\<open>sdiv\<close> and \<open>smod\<close> of \<open>Signed_Division\<close>).
\<close>

type_synonym int64 = int

definition max_int64 :: int where
  "max_int64 = 9223372036854775807"

definition wrap64 :: "int \<Rightarrow> int" where
  "wrap64 x = (x + 9223372036854775808) mod 18446744073709551616 - 9223372036854775808"

definition in64 :: "int \<Rightarrow> bool" where
  "in64 x \<longleftrightarrow> - 9223372036854775808 \<le> x \<and> x \<le> 9223372036854775807"

lemma wrap64_in64 [simp]: "in64 (wrap64 x)"
proof -
  have "0 \<le> (x + 9223372036854775808) mod 18446744073709551616"
    and "(x + 9223372036854775808) mod 18446744073709551616 < (18446744073709551616 :: int)"
    by simp_all
  then show ?thesis by (simp add: in64_def wrap64_def)
qed

lemma wrap64_id: "in64 x \<Longrightarrow> wrap64 x = x"
  by (simp add: in64_def wrap64_def)

lemma sdiv_pos: "0 \<le> a \<Longrightarrow> 0 < b \<Longrightarrow> a sdiv b = (a :: int) div b"
  by (cases "a = 0") (simp_all add: signed_divide_int_def)

lemma smod_pos: "0 \<le> a \<Longrightarrow> 0 < b \<Longrightarrow> a smod b = (a :: int) mod b"
  by (cases "a = 0") (simp_all add: signed_modulo_int_def)

text \<open>\<open>strconv.ParseInt(s, 10, 64)\<close>: an optional sign and at least one digit, in range.\<close>

fun digits_val :: "nat \<Rightarrow> string \<Rightarrow> nat" where
  "digits_val acc [] = acc"
| "digits_val acc (c # cs) = digits_val (10 * acc + digit_val c) cs"

definition ParseInt :: "string \<Rightarrow> int64 result" where
  "ParseInt s =
     (let neg = HasPrefix s ''-''; signed = neg \<or> HasPrefix s ''+'';
          ds = (if signed then tl s else s);
          v = int (digits_val 0 ds); r = (if neg then - v else v)
      in if ds = [] \<or> \<not> list_all is_digit ds then Inl (ErrMsg ''invalid syntax'')
         else if \<not> in64 r then Inl (ErrMsg ''value out of range'')
         else Inr r)"

lemma ParseInt_in64: "ParseInt s = Inr v \<Longrightarrow> in64 v"
  by (auto simp: ParseInt_def Let_def split: if_splits)

subsection \<open>Rows of a table\<close>

text \<open>
  A table is the list of its rows in insertion order. \<open>row_find\<close> is a \<open>SELECT\<close> of one row,
  \<open>row_update\<close> and \<open>row_delete\<close> are \<open>UPDATE\<close> and \<open>DELETE\<close> with a \<open>WHERE\<close> clause,
  \<open>row_count\<close> is \<open>COUNT(*)\<close> and also what \<open>RowsAffected\<close> reports of an update.
\<close>

definition row_find :: "('r \<Rightarrow> bool) \<Rightarrow> 'r list \<Rightarrow> 'r option" where
  "row_find p t = find p t"

definition row_exists :: "('r \<Rightarrow> bool) \<Rightarrow> 'r list \<Rightarrow> bool" where
  "row_exists p t = list_ex p t"

definition row_count :: "('r \<Rightarrow> bool) \<Rightarrow> 'r list \<Rightarrow> nat" where
  "row_count p t = length (filter p t)"

definition row_update :: "('r \<Rightarrow> bool) \<Rightarrow> ('r \<Rightarrow> 'r) \<Rightarrow> 'r list \<Rightarrow> 'r list" where
  "row_update p f t = map (\<lambda>r. if p r then f r else r) t"

definition row_delete :: "('r \<Rightarrow> bool) \<Rightarrow> 'r list \<Rightarrow> 'r list" where
  "row_delete p t = filter (\<lambda>r. \<not> p r) t"

text \<open>\<open>INSERT\<close> of a row that must not clash with an existing one.\<close>

definition row_insert :: "('r \<Rightarrow> bool) \<Rightarrow> 'r \<Rightarrow> 'r list \<Rightarrow> 'r list result" where
  "row_insert clash r t = (if row_exists clash t then Inl ErrConstraint else Inr (t @ [r]))"

text \<open>The column \<open>k\<close> is a key of the table: no two rows agree on it.\<close>

definition is_key :: "('r \<Rightarrow> 'k) \<Rightarrow> 'r list \<Rightarrow> bool" where
  "is_key k t = distinct (map k t)"

lemma row_exists_iff [table_simps]: "row_exists p t \<longleftrightarrow> (\<exists>r \<in> set t. p r)"
  by (simp add: row_exists_def list_ex_iff)

lemma row_insert_Inr [table_simps]:
  "row_insert clash r t = Inr t' \<longleftrightarrow> (\<forall>x \<in> set t. \<not> clash x) \<and> t' = t @ [r]"
  by (auto simp: row_insert_def row_exists_iff)

lemma row_find_Some: "row_find p t = Some r \<Longrightarrow> r \<in> set t \<and> p r"
  by (auto simp: row_find_def find_Some_iff)

lemma row_find_None [table_simps]: "row_find p t = None \<longleftrightarrow> (\<forall>r \<in> set t. \<not> p r)"
  by (auto simp: row_find_def find_None_iff)

lemma row_find_Nil [simp]: "row_find p [] = None"
  by (simp add: row_find_def)

lemma row_find_Cons [simp]: "row_find p (x # xs) = (if p x then Some x else row_find p xs)"
  by (simp add: row_find_def)

lemma row_find_append:
  "row_find p (xs @ ys) = (case row_find p xs of Some r \<Rightarrow> Some r | None \<Rightarrow> row_find p ys)"
  by (induction xs) auto

lemma row_find_unique:
  assumes "r \<in> set t" "p r" "\<And>x. x \<in> set t \<Longrightarrow> p x \<Longrightarrow> x = r"
  shows "row_find p t = Some r"
proof (cases "row_find p t")
  case None
  with assms(1,2) show ?thesis by (simp add: row_find_None)
next
  case (Some x)
  from row_find_Some[OF Some] have "x = r" by (blast intro: assms(3))
  with Some show ?thesis by simp
qed

lemma set_row_update [table_simps]:
  "set (row_update p f t) = (\<lambda>r. if p r then f r else r) ` set t"
  by (simp add: row_update_def)

lemma row_update_mem: "r \<in> set t \<Longrightarrow> p r \<Longrightarrow> f r \<in> set (row_update p f t)"
  by (auto simp: row_update_def)

lemma set_row_delete [table_simps]: "set (row_delete p t) = {r \<in> set t. \<not> p r}"
  by (simp add: row_delete_def)

lemma row_count_0 [table_simps]: "row_count p t = 0 \<longleftrightarrow> (\<forall>r \<in> set t. \<not> p r)"
  by (auto simp: row_count_def filter_empty_conv)

lemma row_count_pos: "0 < row_count p t \<longleftrightarrow> (\<exists>r \<in> set t. p r)"
  using row_count_0[of p t] by auto

lemma row_count_oneE:
  assumes "row_count p t = 1"
  obtains r where "r \<in> set t" "p r"
  using assms row_count_pos[of p t] by auto

lemma row_find_update_key:
  assumes "\<And>r. p r \<Longrightarrow> k (f r) = k r"
  shows "row_find (\<lambda>r. k r = x) (row_update p f t) =
    map_option (\<lambda>r. if p r then f r else r) (row_find (\<lambda>r. k r = x) t)"
  using assms by (induction t) (auto simp: row_update_def)

lemma is_key_Nil [simp]: "is_key k []"
  by (simp add: is_key_def)

lemma is_key_append1 [table_simps]:
  "is_key k (t @ [r]) \<longleftrightarrow> is_key k t \<and> (\<forall>x \<in> set t. k x \<noteq> k r)"
  unfolding is_key_def by (simp add: image_iff) metis

lemma is_key_update:
  assumes "is_key k t" "\<And>r. r \<in> set t \<Longrightarrow> p r \<Longrightarrow> k (f r) = k r"
  shows "is_key k (row_update p f t)"
proof -
  have "map k (row_update p f t) = map k t"
    using assms(2) by (auto simp: row_update_def)
  with assms(1) show ?thesis by (simp add: is_key_def)
qed

lemma is_key_delete: "is_key k t \<Longrightarrow> is_key k (row_delete p t)"
  by (simp add: is_key_def row_delete_def distinct_map_filter)

lemma is_key_eq:
  "is_key k t \<Longrightarrow> x \<in> set t \<Longrightarrow> y \<in> set t \<Longrightarrow> k x = k y \<Longrightarrow> x = y"
  by (auto simp: is_key_def distinct_map dest: inj_onD)

lemma row_find_key:
  "is_key k t \<Longrightarrow> r \<in> set t \<Longrightarrow> row_find (\<lambda>x. k x = k r) t = Some r"
  by (induction t) (auto simp: is_key_def)

lemma row_find_key_iff:
  "is_key k t \<Longrightarrow> row_find (\<lambda>x. k x = v) t = Some r \<longleftrightarrow> r \<in> set t \<and> k r = v"
  using row_find_key row_find_Some by fastforce

lemma row_count_key_le1:
  assumes "is_key k t" "\<And>r. p r \<Longrightarrow> k r = v"
  shows "row_count p t \<le> 1"
proof -
  have "distinct (map k (filter p t))"
    using assms(1) by (simp add: is_key_def distinct_map_filter)
  moreover have "set (map k (filter p t)) \<subseteq> {v}" using assms(2) by auto
  ultimately have "length (map k (filter p t)) \<le> card {v}"
    by (metis card_mono distinct_card finite.emptyI finite.insertI)
  then show ?thesis by (simp add: row_count_def)
qed

subsection \<open>Dead ends of a graph\<close>

lemma rtranclp_dead_end:
  assumes "\<And>z. R x z \<Longrightarrow> z = x"
  shows "R\<^sup>*\<^sup>* x y \<longleftrightarrow> y = x"
proof
  show "y = x" if "R\<^sup>*\<^sup>* x y" using that by induction (use assms in auto)
qed simp

lemma rtranclp_no_entry:
  assumes "\<And>z. R z y \<Longrightarrow> z = y"
  shows "R\<^sup>*\<^sup>* x y \<longleftrightarrow> x = y"
  using rtranclp_dead_end[of "R\<inverse>\<inverse>" y x] assms by (auto simp: rtranclp_conversep)

end
