(* ===== verification/GoTime.thy ===== *)
theory GoTime
  imports Prelude
begin

section \<open>Timestamps and their stored text\<close>

text \<open>
  \<^verbatim>\<open>timeString\<close>, \<^verbatim>\<open>parseTime\<close> and \<^verbatim>\<open>nullableTime\<close> of src/internal/store/sqlite.go.
  A \<open>time\<close> is a \<open>time.Time\<close> seen in UTC: the civil date and the time of day to the
  nanosecond. The store writes every instant as \<open>RFC3339Nano\<close> text in UTC, in which
  trailing zeros of the fraction are dropped, and reads it back with \<open>time.Parse\<close>. A numeric
  zone offset, which \<open>timeString\<close> never writes, is not read.
\<close>

record time =
  tYear :: nat
  tMonth :: nat
  tDay :: nat
  tHour :: nat
  tMin :: nat
  tSec :: nat
  tNano :: nat

definition zero_time :: time where
  "zero_time = \<lparr>tYear = 1, tMonth = 1, tDay = 1, tHour = 0, tMin = 0, tSec = 0, tNano = 0\<rparr>"

definition IsZero :: "time \<Rightarrow> bool" where
  "IsZero t = (t = zero_time)"

definition leap_year :: "nat \<Rightarrow> bool" where
  "leap_year y = (y mod 4 = 0 \<and> (y mod 100 \<noteq> 0 \<or> y mod 400 = 0))"

definition days_in :: "nat \<Rightarrow> nat \<Rightarrow> nat" where
  "days_in y m = (if m = 2 then (if leap_year y then 29 else 28)
     else if m \<in> {4, 6, 9, 11} then 30 else 31)"

text \<open>The instants a calendar clock can show, up to the last four-digit year.\<close>

definition valid_time :: "time \<Rightarrow> bool" where
  "valid_time t \<longleftrightarrow> tYear t < 10000 \<and> 1 \<le> tMonth t \<and> tMonth t \<le> 12 \<and>
     1 \<le> tDay t \<and> tDay t \<le> days_in (tYear t) (tMonth t) \<and>
     tHour t < 24 \<and> tMin t < 60 \<and> tSec t < 60 \<and> tNano t < 1000000000"

text \<open>\<open>time.Before\<close>: the chronological order.\<close>

definition Before :: "time \<Rightarrow> time \<Rightarrow> bool" where
  "Before a b = ([tYear a, tMonth a, tDay a, tHour a, tMin a, tSec a, tNano a]
     < [tYear b, tMonth b, tDay b, tHour b, tMin b, tSec b, tNano b])"

subsection \<open>Formatting\<close>

text \<open>\<open>pad w n\<close> is the last \<open>w\<close> decimal digits of \<open>n\<close>, with leading zeros.\<close>

fun pad :: "nat \<Rightarrow> nat \<Rightarrow> string" where
  "pad 0 n = []"
| "pad (Suc w) n = pad w (n div 10) @ [digit_char n]"

definition strip_zeros :: "string \<Rightarrow> string" where
  "strip_zeros s = rev (dropWhile (\<lambda>c. c = CHR ''0'') (rev s))"

definition fraction :: "nat \<Rightarrow> string" where
  "fraction n = (let ds = strip_zeros (pad 9 n) in if ds = [] then [] else CHR ''.'' # ds)"

definition format_time :: "time \<Rightarrow> string" where
  "format_time t = pad 4 (tYear t) @ ''-'' @ pad 2 (tMonth t) @ ''-'' @ pad 2 (tDay t) @ ''T'' @
     pad 2 (tHour t) @ '':'' @ pad 2 (tMin t) @ '':'' @ pad 2 (tSec t) @ fraction (tNano t) @ ''Z''"

definition timeString :: "time \<Rightarrow> time \<Rightarrow> string" where
  "timeString now t = format_time (if IsZero t then now else t)"

definition nullableTime :: "time \<Rightarrow> time option \<Rightarrow> string option" where
  "nullableTime now t = (case t of None \<Rightarrow> None
     | Some u \<Rightarrow> if IsZero u then None else Some (timeString now u))"

subsection \<open>Parsing\<close>

text \<open>\<open>number w s\<close> reads exactly \<open>w\<close> digits; \<open>expect\<close> reads one given byte.\<close>

definition number :: "nat \<Rightarrow> string \<Rightarrow> (nat \<times> string) option" where
  "number w s = (let ds = take w s in
     if length ds = w \<and> list_all is_digit ds then Some (digits_val 0 ds, drop w s) else None)"

definition expect :: "char \<Rightarrow> string \<Rightarrow> string option" where
  "expect c s = (case s of [] \<Rightarrow> None | x # xs \<Rightarrow> if x = c then Some xs else None)"

definition nano_val :: "string \<Rightarrow> nat" where
  "nano_val ds = (let d = take 9 ds in digits_val 0 d * 10 ^ (9 - length d))"

definition parse_fraction :: "string \<Rightarrow> nat \<times> string" where
  "parse_fraction s = (case s of
       c # d # r \<Rightarrow> if c = CHR ''.'' \<and> is_digit d
         then (nano_val (takeWhile is_digit (d # r)), dropWhile is_digit (d # r)) else (0, s)
     | _ \<Rightarrow> (0, s))"

definition parse_time_opt :: "string \<Rightarrow> time option" where
  "parse_time_opt s =
     Option.bind (number 4 s) (\<lambda>(y, s). Option.bind (expect (CHR ''-'') s) (\<lambda>s.
     Option.bind (number 2 s) (\<lambda>(mo, s). Option.bind (expect (CHR ''-'') s) (\<lambda>s.
     Option.bind (number 2 s) (\<lambda>(d, s). Option.bind (expect (CHR ''T'') s) (\<lambda>s.
     Option.bind (number 2 s) (\<lambda>(h, s). Option.bind (expect (CHR '':'') s) (\<lambda>s.
     Option.bind (number 2 s) (\<lambda>(mi, s). Option.bind (expect (CHR '':'') s) (\<lambda>s.
     Option.bind (number 2 s) (\<lambda>(se, s).
       let (n, s) = parse_fraction s;
           t = \<lparr>tYear = y, tMonth = mo, tDay = d, tHour = h, tMin = mi, tSec = se, tNano = n\<rparr>
       in if s = ''Z'' \<and> valid_time t then Some t else None)))))))))))"

definition parseTime :: "string \<Rightarrow> time result" where
  "parseTime s = (case parse_time_opt s of
     None \<Rightarrow> Inl (ErrMsg ''parse timestamp'') | Some t \<Rightarrow> Inr t)"

subsection \<open>What is written is read back\<close>

lemma length_pad [simp]: "length (pad w n) = w"
  by (induction w n rule: pad.induct) auto

lemma all_digits_pad [simp]: "list_all is_digit (pad w n)"
  by (induction w n rule: pad.induct) auto

lemma digits_val_append:
  "digits_val a (xs @ ys) = digits_val (digits_val a xs) ys"
  by (induction xs arbitrary: a) auto

lemma digits_val_pad: "n < 10 ^ w \<Longrightarrow> digits_val 0 (pad w n) = n"
proof (induction w arbitrary: n)
  case 0
  then show ?case by simp
next
  case (Suc w)
  have "n div 10 < 10 ^ w" using Suc.prems by (simp add: less_mult_imp_div_less)
  moreover have "digit_val (digit_char n) = n mod 10"
    by (simp add: digit_val_def digit_char_def)
  ultimately show ?case using Suc.IH[of "n div 10"] by (simp add: digits_val_append)
qed

lemma number_pad: "n < 10 ^ w \<Longrightarrow> number w (pad w n @ s) = Some (n, s)"
  by (simp add: number_def digits_val_pad)

lemma digits_val_zeros: "digits_val a (replicate k (CHR ''0'')) = a * 10 ^ k"
  by (induction k arbitrary: a) (simp_all add: digit_val_def)

lemma strip_zeros_split:
  "\<exists>k. s = strip_zeros s @ replicate k (CHR ''0'')"
proof -
  let ?z = "\<lambda>c. c = CHR ''0''"
  have "rev (takeWhile ?z (rev s) @ dropWhile ?z (rev s)) = s" by simp
  then have "s = strip_zeros s @ rev (takeWhile ?z (rev s))"
    by (simp only: rev_append strip_zeros_def)
  moreover have "replicate (length (takeWhile ?z (rev s))) (CHR ''0'') = takeWhile ?z (rev s)"
    by (rule replicate_length_same) (blast dest: set_takeWhileD)
  ultimately show ?thesis by (metis rev_replicate)
qed

lemma nano_val_strip:
  assumes "n < 10 ^ 9"
  shows "nano_val (strip_zeros (pad 9 n)) = n"
proof -
  obtain k where k: "pad 9 n = strip_zeros (pad 9 n) @ replicate k (CHR ''0'')"
    using strip_zeros_split by blast
  then have len: "length (strip_zeros (pad 9 n)) + k = 9"
    by (metis length_append length_pad length_replicate)
  have "n = digits_val 0 (strip_zeros (pad 9 n)) * 10 ^ k"
    using digits_val_pad[OF assms] k by (metis digits_val_append digits_val_zeros)
  moreover have "k = 9 - length (strip_zeros (pad 9 n))"
    and "take 9 (strip_zeros (pad 9 n)) = strip_zeros (pad 9 n)" using len by simp_all
  ultimately show ?thesis by (simp only: nano_val_def Let_def)
qed

lemma set_strip_zeros: "set (strip_zeros s) \<subseteq> set s"
  unfolding strip_zeros_def by (metis set_dropWhileD set_rev subsetI)

lemma Z_not_digit [simp]: "\<not> is_digit (CHR ''Z'')"
  by (simp add: is_digit_def)

lemma parse_fraction_fraction:
  assumes "n < 10 ^ 9"
  shows "parse_fraction (fraction n @ ''Z'') = (n, ''Z'')"
proof (cases "strip_zeros (pad 9 n)")
  case Nil
  then have "n = 0" using nano_val_strip[OF assms] by (simp add: nano_val_def)
  with Nil show ?thesis by (simp add: fraction_def parse_fraction_def)
next
  case (Cons d r)
  have dig: "\<forall>c \<in> set (d # r). is_digit c"
    using set_strip_zeros[of "pad 9 n"] all_digits_pad[of 9 n] Cons by (auto simp: list_all_iff)
  then have "takeWhile is_digit ((d # r) @ ''Z'') = d # r"
    and "dropWhile is_digit ((d # r) @ ''Z'') = ''Z''"
    by (subst takeWhile_append2, auto)+
  with dig Cons nano_val_strip[OF assms] show ?thesis
    by (simp add: fraction_def parse_fraction_def)
qed

theorem parse_format_time:
  assumes "valid_time t"
  shows "parse_time_opt (format_time t) = Some t"
proof -
  have b: "tYear t < 10 ^ 4" "tMonth t < 10 ^ 2" "tDay t < 10 ^ 2" "tHour t < 10 ^ 2"
      "tMin t < 10 ^ 2" "tSec t < 10 ^ 2" "tNano t < 10 ^ 9"
    using assms by (auto simp: valid_time_def days_in_def split: if_splits)
  have num: "\<And>w n s. n < 10 ^ w \<Longrightarrow> number w (pad w n @ s) = Some (n, s)"
    by (rule number_pad)
  note n = num[OF b(1)] num[OF b(2)] num[OF b(3)] num[OF b(4)] num[OF b(5)] num[OF b(6)]
  have eta: "\<lparr>tYear = tYear t, tMonth = tMonth t, tDay = tDay t, tHour = tHour t,
      tMin = tMin t, tSec = tSec t, tNano = tNano t\<rparr> = t" by simp
  show ?thesis
    using parse_fraction_fraction[OF b(7)] assms
    by (simp add: parse_time_opt_def format_time_def n expect_def Let_def eta del: pad.simps)
qed

lemma parseTime_timeString:
  assumes "valid_time t" "valid_time now"
  shows "parseTime (timeString now t) = Inr (if IsZero t then now else t)"
  using assms by (simp add: parseTime_def timeString_def parse_format_time)

lemma format_time_inj:
  "valid_time a \<Longrightarrow> valid_time b \<Longrightarrow> format_time a = format_time b \<Longrightarrow> a = b"
  by (metis option.inject parse_format_time)

end
