(* ===== verification/Model.thy ===== *)
theory Model
  imports GoTime
begin

section \<open>The data model\<close>

text \<open>
  The package src/internal/model: the records the service, the provisioner and the store
  exchange. A record that carries instants is parametric in their type: \<open>time\<close> in the
  program's memory, the stored text in a table. The lifecycle states, the workload phases and
  the migration phases, which the code writes as string constants, are datatypes.
\<close>

datatype inst_state =
    StateProvisioning | StateReady | StateStopping | StateStopped | StateFailed
  | StateAwaitingTailnet | StateAwaitingGuest | StateDeleting | StateDeleted

definition KindVM :: string where "KindVM = ''vm''"
definition KindOrb :: string where "KindOrb = ''orb''"
definition MemoryModeFixed :: string where "MemoryModeFixed = ''fixed''"
definition MemoryModePool :: string where "MemoryModePool = ''pool''"

record Actor =
  UserLogin :: string
  DisplayName :: string
  NodeName :: string
  RemoteAddr :: string
  SSHUser :: string

definition NormalizeMemoryMode :: "string \<Rightarrow> string" where
  "NormalizeMemoryMode mode =
     (if EqualFold (TrimSpace mode) MemoryModePool then MemoryModePool else MemoryModeFixed)"

record 't instance_of =
  iID :: string
  iName :: string
  iKind :: string
  iImage :: string
  iState :: inst_state
  iCreatedAt :: 't
  iCreatedByUser :: string
  iCreatedByNode :: string
  iVCPUCount :: int64
  iMemoryMiB :: int64
  iMemoryMode :: string
  iMemoryPoolID :: string
  iRootFSSizeBytes :: int64
  iRootFSPath :: string
  iKernelPath :: string
  iInitrdPath :: string
  iSocketPath :: string
  iLogPath :: string
  iSerialLogPath :: string
  iTapDevice :: string
  iGuestMAC :: string
  iNetworkCIDR :: string
  iHostAddr :: string
  iGuestAddr :: string
  iGatewayAddr :: string
  iFirecrackerPID :: int
  iStartRequestID :: string
  iStartBootID :: string
  iTailnetNodeID :: string
  iTailscaleName :: string
  iTailscaleIP :: string
  iLastError :: string
  iDeletedAt :: "'t option"
  iUpdatedAt :: 't

type_synonym Instance = "time instance_of"

definition KindName :: "('t, 'm) instance_of_scheme \<Rightarrow> string" where
  "KindName i = (if iKind i = [] then KindVM else iKind i)"

definition NormalizedMemoryMode :: "('t, 'm) instance_of_scheme \<Rightarrow> string" where
  "NormalizedMemoryMode i = NormalizeMemoryMode (iMemoryMode i)"

definition ImageName :: "('t, 'm) instance_of_scheme \<Rightarrow> string" where
  "ImageName i = (if iImage i = [] then ''arch'' else iImage i)"

definition UsesMemoryPool :: "('t, 'm) instance_of_scheme \<Rightarrow> bool" where
  "UsesMemoryPool i \<longleftrightarrow> NormalizedMemoryMode i = MemoryModePool \<and> TrimSpace (iMemoryPoolID i) \<noteq> []"

text \<open>The zero value of \<open>model.Instance\<close>, from which the code builds partial instances.\<close>

definition empty_instance :: Instance where
  "empty_instance = \<lparr>iID = [], iName = [], iKind = [], iImage = [], iState = StateProvisioning,
     iCreatedAt = zero_time, iCreatedByUser = [], iCreatedByNode = [], iVCPUCount = 0,
     iMemoryMiB = 0, iMemoryMode = [], iMemoryPoolID = [], iRootFSSizeBytes = 0,
     iRootFSPath = [], iKernelPath = [], iInitrdPath = [], iSocketPath = [], iLogPath = [],
     iSerialLogPath = [], iTapDevice = [], iGuestMAC = [], iNetworkCIDR = [], iHostAddr = [],
     iGuestAddr = [], iGatewayAddr = [], iFirecrackerPID = 0, iStartRequestID = [],
     iStartBootID = [], iTailnetNodeID = [], iTailscaleName = [], iTailscaleIP = [],
     iLastError = [], iDeletedAt = None, iUpdatedAt = zero_time\<rparr>"

record 't memory_pool_of =
  pID :: string
  pName :: string
  pReservedBytes :: int64
  pCreatedAt :: 't
  pUpdatedAt :: 't
  pCreatedByUser :: string
  pCreatedByNode :: string

type_synonym MemoryPool = "time memory_pool_of"

record 't instance_event_of =
  evID :: nat
  evInstanceID :: string
  evCreatedAt :: 't
  evType :: string
  evMessage :: string
  evPayload :: string

type_synonym InstanceEvent = "time instance_event_of"

record 't command_audit_of =
  caCreatedAt :: 't
  caActorUser :: string
  caActorDisplayName :: string
  caActorNode :: string
  caRemoteAddr :: string
  caSSHUser :: string
  caCommand :: string
  caArgsJSON :: string
  caAllowed :: bool
  caReason :: string
  caDurationMS :: int64
  caErrorText :: string

type_synonym CommandAudit = "time command_audit_of"

record 't authz_decision_of =
  adCreatedAt :: 't
  adActorUser :: string
  adActorNode :: string
  adRemoteAddr :: string
  adAction :: string
  adAllowed :: bool
  adReason :: string

type_synonym AuthzDecision = "time authz_decision_of"

subsection \<open>Integrations\<close>

record 't integration_of =
  igID :: string
  igName :: string
  igKind :: string
  igTargetURL :: string
  igAuthMode :: string
  igBearerEnv :: string
  igBasicUser :: string
  igBasicPasswordEnv :: string
  igHeadersJSON :: string
  igCreatedAt :: 't
  igUpdatedAt :: 't

type_synonym Integration = "time integration_of"

record 't binding_of =
  bdInstanceID :: string
  bdIntegrationID :: string
  bdCreatedAt :: 't
  bdCreatedByUser :: string
  bdCreatedByNode :: string

type_synonym InstanceIntegrationBinding = "time binding_of"

subsection \<open>Migrations and imports\<close>

datatype migration_phase = Preparing | Prepared | Completed | Aborted

record Migration =
  mgInstanceID :: string
  mgToken :: string
  mgTarget :: string
  mgWasRunning :: bool
  mgPhase :: migration_phase
  mgMemoryPoolName :: string
  mgFixedMemory :: bool

datatype import_phase = Importing | Imported

record ImportReceipt =
  irInstanceID :: string
  irToken :: string
  irSourceInstanceID :: string
  irExportedAt :: string
  irPhase :: import_phase

subsection \<open>Proof of a completed deletion\<close>

record CleanupReceipt =
  crVersion :: int
  crBackendID :: string
  crKind :: string
  crImage :: string
  crRequestID :: string
  crActor :: string
  crInstanceID :: string
  crName :: string
  crCreatedAt :: time
  crCreatedByUser :: string
  crCreatedByNode :: string
  crAuthKeyDisposition :: string
  crTailnetNodeID :: string
  crTailnetDisposition :: string
  crRetainedTemplates :: "string list option"
  crIngressClosed :: bool
  crGatewaysAbsent :: bool
  crRuntimeAbsent :: bool
  crJailerAbsent :: bool
  crCgroupAbsent :: bool
  crNetworkAbsent :: bool
  crTapDevice :: string
  crNetworkCIDR :: string
  crInstanceDir :: string
  crRootFSPath :: string
  crBackupsDir :: string
  crStorageAbsent :: bool
  crBackupsAbsent :: bool
  crSnapshotsAbsent :: bool
  crDeletedAt :: time

definition ValidCopyScope :: "CleanupReceipt \<Rightarrow> bool" where
  "ValidCopyScope r \<longleftrightarrow>
     crVersion r = 3 \<and> crBackupsAbsent r \<and> crSnapshotsAbsent r \<and> crRetainedTemplates r \<noteq> None \<or>
     crVersion r = 4 \<and> crBackupsAbsent r \<and> \<not> crSnapshotsAbsent r \<and> crRetainedTemplates r = None \<or>
     crVersion r = 5 \<and> \<not> crSnapshotsAbsent r \<and> crRetainedTemplates r = None \<and>
       (crKind r = KindOrb \<or> crKind r = KindVM) \<and> \<not> crBackupsAbsent r"

subsection \<open>Memory modes are normalised once\<close>

lemma NormalizeMemoryMode_cases:
  "NormalizeMemoryMode m = MemoryModePool \<or> NormalizeMemoryMode m = MemoryModeFixed"
  by (simp add: NormalizeMemoryMode_def)

lemma pool_not_fixed [simp]: "MemoryModePool \<noteq> MemoryModeFixed" "MemoryModeFixed \<noteq> MemoryModePool"
  by (simp_all add: MemoryModePool_def MemoryModeFixed_def)

lemma NormalizeMemoryMode_const [simp]:
  "NormalizeMemoryMode MemoryModePool = MemoryModePool"
  "NormalizeMemoryMode MemoryModeFixed = MemoryModeFixed"
  by code_simp+

lemma NormalizeMemoryMode_idem [simp]:
  "NormalizeMemoryMode (NormalizeMemoryMode m) = NormalizeMemoryMode m"
  using NormalizeMemoryMode_cases[of m] by auto

lemma vm_not_orb [simp]: "KindVM \<noteq> KindOrb" "KindOrb \<noteq> KindVM" "KindVM \<noteq> []" "KindOrb \<noteq> []"
  by (simp_all add: KindVM_def KindOrb_def)

end
