(* ===== verification/Store.thy ===== *)
theory Store
  imports Model
begin

section \<open>The store: instances, pools, events and integrations\<close>

text \<open>
  src/internal/store/sqlite.go. The database is the record of its tables; a table is the list of
  its rows. An operation returns an error or the new database: every statement runs in a
  transaction of its own or in an explicit one that is rolled back on error, so an operation
  that fails leaves the tables as they were. Primary keys, \<open>UNIQUE\<close> and \<open>CHECK\<close> constraints
  are enforced, foreign keys are not (the program never turns \<open>foreign_keys\<close> on). The engine's
  own failures (I/O, a cancelled context) are an error with an unchanged database and are not
  spelled out. \<open>now\<close> is the clock where the code reads it.
\<close>

subsection \<open>Schema\<close>

record instance_row = "string instance_of" +
  iStoppedSince :: "string option"

record pool_resize_row =
  rzPoolID :: string
  rzRequestID :: string
  rzSizeBytes :: int64
  rzRunning :: bool

datatype req_phase =
    PhAdmitted | PhExecuting | PhDone | PhFailed | PhCancelled | PhInterrupted | PhRejected

record LifecycleRequest =
  rqID :: string
  rqActor :: string
  rqCommand :: string
  rqName :: string
  rqArguments :: string
  rqPhase :: req_phase
  rqExitCode :: int

record fence_row =
  fnInstanceID :: string
  fnRequestID :: string

record receipt_row =
  rcRequestID :: string
  rcActor :: string
  rcReceipt :: CleanupReceipt

record key_row =
  ekInstanceID :: string
  ekKeyID :: string

record bootstrap_row =
  obInstanceID :: string
  obCreatedAt :: string
  obGeneration :: int64

record db =
  lifecycle_requests :: "LifecycleRequest list"
  enrollment_keys :: "key_row list"
  cleanup_receipts :: "receipt_row list"
  cleanup_fences :: "fence_row list"
  orb_bootstrap :: "bootstrap_row list"
  migrations :: "Migration list"
  import_receipts :: "ImportReceipt list"
  instances :: "instance_row list"
  memory_pools :: "string memory_pool_of list"
  memory_pool_resizes :: "pool_resize_row list"
  instance_events :: "string instance_event_of list"
  event_sequence :: nat
  commands :: "string command_audit_of list"
  authz_decisions :: "string authz_decision_of list"
  integrations :: "string integration_of list"
  instance_integrations :: "string binding_of list"

definition empty_db :: db where
  "empty_db = \<lparr>lifecycle_requests = [], enrollment_keys = [], cleanup_receipts = [],
     cleanup_fences = [], orb_bootstrap = [], migrations = [], import_receipts = [],
     instances = [], memory_pools = [], memory_pool_resizes = [], instance_events = [],
     event_sequence = 0, commands = [], authz_decisions = [], integrations = [],
     instance_integrations = []\<rparr>"

text \<open>The two triggers that date the last stop of an instance, and the one data statement of
  \<open>migrate\<close>, which dates the stopped rows of an older database.\<close>

definition stopped_insert :: "instance_row \<Rightarrow> instance_row" where
  "stopped_insert r = (if iState r = StateStopped then r\<lparr>iStoppedSince := Some (iUpdatedAt r)\<rparr> else r)"

definition stopped_update :: "instance_row \<Rightarrow> instance_row \<Rightarrow> instance_row" where
  "stopped_update old r = (if iState old \<noteq> iState r
     then r\<lparr>iStoppedSince := (if iState r = StateStopped then Some (iUpdatedAt r) else None)\<rparr> else r)"

definition migrate :: "time \<Rightarrow> db \<Rightarrow> db" where
  "migrate now d = d\<lparr>instances := row_update (\<lambda>r. iState r = StateStopped \<and> iStoppedSince r = None)
     (\<lambda>r. r\<lparr>iStoppedSince := Some (timeString now now)\<rparr>) (instances d)\<rparr>"

subsection \<open>Rows and values\<close>

definition normalizeInstanceMemory :: "Instance \<Rightarrow> Instance" where
  "normalizeInstanceMemory i =
     (let i = i\<lparr>iMemoryMode := NormalizeMemoryMode (iMemoryMode i)\<rparr>
      in if iMemoryMode i \<noteq> MemoryModePool then i\<lparr>iMemoryPoolID := []\<rparr> else i)"

definition instance_to_row :: "time \<Rightarrow> Instance \<Rightarrow> instance_row" where
  "instance_to_row now i = \<lparr>iID = iID i, iName = iName i, iKind = KindName i, iImage = iImage i,
     iState = iState i, iCreatedAt = timeString now (iCreatedAt i),
     iCreatedByUser = iCreatedByUser i, iCreatedByNode = iCreatedByNode i,
     iVCPUCount = iVCPUCount i, iMemoryMiB = iMemoryMiB i, iMemoryMode = iMemoryMode i,
     iMemoryPoolID = iMemoryPoolID i, iRootFSSizeBytes = iRootFSSizeBytes i,
     iRootFSPath = iRootFSPath i, iKernelPath = iKernelPath i, iInitrdPath = iInitrdPath i,
     iSocketPath = iSocketPath i, iLogPath = iLogPath i, iSerialLogPath = iSerialLogPath i,
     iTapDevice = iTapDevice i, iGuestMAC = iGuestMAC i, iNetworkCIDR = iNetworkCIDR i,
     iHostAddr = iHostAddr i, iGuestAddr = iGuestAddr i, iGatewayAddr = iGatewayAddr i,
     iFirecrackerPID = iFirecrackerPID i, iStartRequestID = iStartRequestID i,
     iStartBootID = iStartBootID i, iTailnetNodeID = iTailnetNodeID i,
     iTailscaleName = iTailscaleName i, iTailscaleIP = iTailscaleIP i,
     iLastError = iLastError i, iDeletedAt = nullableTime now (iDeletedAt i),
     iUpdatedAt = timeString now (iUpdatedAt i), iStoppedSince = None\<rparr>"

definition scanInstance :: "instance_row \<Rightarrow> Instance result" where
  "scanInstance r =
     bindR (parseTime (iCreatedAt r)) (\<lambda>created.
     bindR (parseTime (iUpdatedAt r)) (\<lambda>updated.
     bindR (case iDeletedAt r of None \<Rightarrow> Inr None
            | Some s \<Rightarrow> bindR (parseTime s) (\<lambda>t. Inr (Some t))) (\<lambda>deleted.
     Inr (normalizeInstanceMemory \<lparr>iID = iID r, iName = iName r, iKind = iKind r,
       iImage = iImage r, iState = iState r, iCreatedAt = created,
       iCreatedByUser = iCreatedByUser r, iCreatedByNode = iCreatedByNode r,
       iVCPUCount = iVCPUCount r, iMemoryMiB = iMemoryMiB r, iMemoryMode = iMemoryMode r,
       iMemoryPoolID = iMemoryPoolID r, iRootFSSizeBytes = iRootFSSizeBytes r,
       iRootFSPath = iRootFSPath r, iKernelPath = iKernelPath r, iInitrdPath = iInitrdPath r,
       iSocketPath = iSocketPath r, iLogPath = iLogPath r, iSerialLogPath = iSerialLogPath r,
       iTapDevice = iTapDevice r, iGuestMAC = iGuestMAC r, iNetworkCIDR = iNetworkCIDR r,
       iHostAddr = iHostAddr r, iGuestAddr = iGuestAddr r, iGatewayAddr = iGatewayAddr r,
       iFirecrackerPID = iFirecrackerPID r, iStartRequestID = iStartRequestID r,
       iStartBootID = iStartBootID r, iTailnetNodeID = iTailnetNodeID r,
       iTailscaleName = iTailscaleName r, iTailscaleIP = iTailscaleIP r,
       iLastError = iLastError r, iDeletedAt = deleted, iUpdatedAt = updated\<rparr>))))"

definition pool_to_row :: "time \<Rightarrow> MemoryPool \<Rightarrow> string memory_pool_of" where
  "pool_to_row now p = \<lparr>pID = pID p, pName = pName p, pReservedBytes = pReservedBytes p,
     pCreatedAt = timeString now (pCreatedAt p), pUpdatedAt = timeString now (pUpdatedAt p),
     pCreatedByUser = pCreatedByUser p, pCreatedByNode = pCreatedByNode p\<rparr>"

definition scanMemoryPool :: "string memory_pool_of \<Rightarrow> MemoryPool result" where
  "scanMemoryPool r =
     bindR (parseTime (pCreatedAt r)) (\<lambda>created.
     bindR (parseTime (pUpdatedAt r)) (\<lambda>updated.
     Inr \<lparr>pID = pID r, pName = pName r, pReservedBytes = pReservedBytes r,
       pCreatedAt = created, pUpdatedAt = updated, pCreatedByUser = pCreatedByUser r,
       pCreatedByNode = pCreatedByNode r\<rparr>))"

definition scanIntegration :: "string integration_of \<Rightarrow> Integration result" where
  "scanIntegration r =
     bindR (parseTime (igCreatedAt r)) (\<lambda>created.
     bindR (parseTime (igUpdatedAt r)) (\<lambda>updated.
     Inr \<lparr>igID = igID r, igName = igName r, igKind = igKind r, igTargetURL = igTargetURL r,
       igAuthMode = igAuthMode r, igBearerEnv = igBearerEnv r, igBasicUser = igBasicUser r,
       igBasicPasswordEnv = igBasicPasswordEnv r, igHeadersJSON = igHeadersJSON r,
       igCreatedAt = created, igUpdatedAt = updated\<rparr>))"

subsection \<open>Instances\<close>

definition valid_kind :: "string \<Rightarrow> bool" where
  "valid_kind k \<longleftrightarrow> k = KindVM \<or> k = KindOrb"

definition CreateInstance :: "time \<Rightarrow> Instance \<Rightarrow> db \<Rightarrow> db result" where
  "CreateInstance now inst d =
     (let inst = normalizeInstanceMemory inst; row = stopped_insert (instance_to_row now inst) in
      bindR (wrapE ''insert instance'' (failIf (\<not> valid_kind (iKind row)) ErrConstraint)) (\<lambda>_.
      bindR (wrapE ''insert instance''
        (row_insert (\<lambda>r. iID r = iID row \<or> iName r = iName row) row (instances d))) (\<lambda>rows.
      let d = d\<lparr>instances := rows\<rparr> in
      Inr (if KindName inst = KindOrb \<and> \<not> row_exists (\<lambda>b. obInstanceID b = iID inst) (orb_bootstrap d)
        then d\<lparr>orb_bootstrap := orb_bootstrap d @
          [\<lparr>obInstanceID = iID inst, obCreatedAt = timeString now (iCreatedAt inst), obGeneration = 0\<rparr>]\<rparr>
        else d))))"

definition update_columns :: "time \<Rightarrow> Instance \<Rightarrow> instance_row \<Rightarrow> instance_row" where
  "update_columns now i r = r\<lparr>iState := iState i, iUpdatedAt := timeString now (iUpdatedAt i),
     iVCPUCount := iVCPUCount i, iMemoryMiB := iMemoryMiB i, iMemoryMode := iMemoryMode i,
     iMemoryPoolID := iMemoryPoolID i, iRootFSSizeBytes := iRootFSSizeBytes i,
     iRootFSPath := iRootFSPath i, iKernelPath := iKernelPath i, iInitrdPath := iInitrdPath i,
     iSocketPath := iSocketPath i, iLogPath := iLogPath i, iSerialLogPath := iSerialLogPath i,
     iTapDevice := iTapDevice i, iGuestMAC := iGuestMAC i, iNetworkCIDR := iNetworkCIDR i,
     iHostAddr := iHostAddr i, iGuestAddr := iGuestAddr i, iGatewayAddr := iGatewayAddr i,
     iFirecrackerPID := iFirecrackerPID i, iTailscaleName := iTailscaleName i,
     iTailscaleIP := iTailscaleIP i, iLastError := iLastError i,
     iDeletedAt := nullableTime now (iDeletedAt i), iStartRequestID := iStartRequestID i,
     iStartBootID := iStartBootID i, iTailnetNodeID := iTailnetNodeID i, iImage := iImage i,
     iKind := KindName i\<rparr>"

definition UpdateInstance :: "time \<Rightarrow> Instance \<Rightarrow> db \<Rightarrow> db result" where
  "UpdateInstance now inst d =
     (let inst = normalizeInstanceMemory inst; named = (\<lambda>r. iName r = iName inst) in
      bindR (wrapE ''update instance''
        (failIf (row_exists named (instances d) \<and> \<not> valid_kind (KindName inst)) ErrConstraint)) (\<lambda>_.
      Inr (d\<lparr>instances := row_update named
        (\<lambda>r. stopped_update r (update_columns now inst r)) (instances d)\<rparr>)))"

definition runtime_match :: "time \<Rightarrow> Instance \<Rightarrow> instance_row \<Rightarrow> bool" where
  "runtime_match now observed r \<longleftrightarrow> iID r = iID observed \<and> iName r = iName observed \<and>
     iState r = iState observed \<and> iFirecrackerPID r = iFirecrackerPID observed \<and>
     iUpdatedAt r = timeString now (iUpdatedAt observed) \<and>
     iTailscaleName r = iTailscaleName observed \<and> iTailscaleIP r = iTailscaleIP observed \<and>
     iStartRequestID r = iStartRequestID observed \<and> iDeletedAt r = None"

definition UpdateInstanceRuntime :: "time \<Rightarrow> Instance \<Rightarrow> Instance \<Rightarrow> db \<Rightarrow> db result" where
  "UpdateInstanceRuntime now observed updated d =
     (let p = runtime_match now observed in
      bindR (failIf (row_count p (instances d) \<noteq> 1)
        (ErrMsg ''instance changed during readiness verification; retry'')) (\<lambda>_.
      Inr (d\<lparr>instances := row_update p
        (\<lambda>r. stopped_update r (r\<lparr>iState := iState updated, iTailscaleName := iTailscaleName updated,
           iTailscaleIP := iTailscaleIP updated, iLastError := iLastError updated,
           iUpdatedAt := timeString now (iUpdatedAt updated), iTailnetNodeID := iTailnetNodeID updated,
           iFirecrackerPID := iFirecrackerPID updated\<rparr>)) (instances d)\<rparr>)))"

definition GetInstance :: "string \<Rightarrow> db \<Rightarrow> Instance result" where
  "GetInstance name d = (case row_find (\<lambda>r. iName r = name) (instances d) of
     None \<Rightarrow> Inl ErrNoRows | Some r \<Rightarrow> scanInstance r)"

definition FindInstance :: "string \<Rightarrow> db \<Rightarrow> Instance option result" where
  "FindInstance name d = (case GetInstance name d of
     Inr inst \<Rightarrow> Inr (Some inst)
   | Inl e \<Rightarrow> if errors_is e ErrNoRows then Inr None else Inl e)"

definition DeleteInstance :: "string \<Rightarrow> db \<Rightarrow> db result" where
  "DeleteInstance name d =
     bindR (FindInstance name d) (\<lambda>found. case found of
       None \<Rightarrow> Inr d
     | Some inst \<Rightarrow> Inr (d\<lparr>
         instance_integrations := row_delete (\<lambda>b. bdInstanceID b = iID inst) (instance_integrations d),
         instance_events := row_delete (\<lambda>e. evInstanceID e = iID inst) (instance_events d),
         migrations := row_delete (\<lambda>m. mgInstanceID m = iID inst) (migrations d),
         import_receipts := row_delete (\<lambda>r. irInstanceID r = iID inst) (import_receipts d),
         instances := row_delete (\<lambda>r. iName r = name) (instances d)\<rparr>))"

definition ListInstances :: "bool \<Rightarrow> db \<Rightarrow> Instance list result" where
  "ListInstances includeDeleted d =
     mapR scanInstance (sort_key iCreatedAt
       (filter (\<lambda>r. includeDeleted \<or> iState r \<noteq> StateDeleted) (instances d)))"

text \<open>\<open>StoppedSince\<close> reports the zero time unless the instance is still stopped.\<close>

definition StoppedSince :: "string \<Rightarrow> db \<Rightarrow> time result" where
  "StoppedSince instID d =
     (case row_find (\<lambda>r. iID r = instID \<and> iState r = StateStopped \<and> iFirecrackerPID r = 0 \<and>
         iDeletedAt r = None) (instances d) of
       None \<Rightarrow> Inr zero_time
     | Some r \<Rightarrow> (case iStoppedSince r of None \<Rightarrow> Inr zero_time | Some s \<Rightarrow> parseTime s))"

subsection \<open>Memory pools\<close>

definition CreateMemoryPool :: "time \<Rightarrow> MemoryPool \<Rightarrow> db \<Rightarrow> db result" where
  "CreateMemoryPool now pool d =
     bindR (wrapE ''insert memory pool'' (row_insert
       (\<lambda>r. pID r = pID pool \<or> pName r = pName pool) (pool_to_row now pool) (memory_pools d))) (\<lambda>rows.
     Inr (d\<lparr>memory_pools := rows\<rparr>))"

definition GetMemoryPoolByName :: "string \<Rightarrow> db \<Rightarrow> MemoryPool result" where
  "GetMemoryPoolByName name d = (case row_find (\<lambda>r. pName r = name) (memory_pools d) of
     None \<Rightarrow> Inl ErrNoRows | Some r \<Rightarrow> scanMemoryPool r)"

definition FindMemoryPoolByName :: "string \<Rightarrow> db \<Rightarrow> MemoryPool option result" where
  "FindMemoryPoolByName name d = (case GetMemoryPoolByName name d of
     Inr pool \<Rightarrow> Inr (Some pool)
   | Inl e \<Rightarrow> if errors_is e ErrNoRows then Inr None else Inl e)"

definition GetMemoryPoolByID :: "string \<Rightarrow> db \<Rightarrow> MemoryPool result" where
  "GetMemoryPoolByID poolID d = (case row_find (\<lambda>r. pID r = poolID) (memory_pools d) of
     None \<Rightarrow> Inl ErrNoRows | Some r \<Rightarrow> scanMemoryPool r)"

definition ListMemoryPools :: "db \<Rightarrow> MemoryPool list result" where
  "ListMemoryPools d = mapR scanMemoryPool (sort_key pCreatedAt (memory_pools d))"

definition CountMemoryPoolMembers :: "string \<Rightarrow> db \<Rightarrow> nat" where
  "CountMemoryPoolMembers poolID d =
     row_count (\<lambda>r. iMemoryPoolID r = poolID \<and> iState r \<noteq> StateDeleted) (instances d)"

record MemoryPoolResize =
  opRequestID :: string
  opSizeBytes :: int64
  opRunning :: bool

definition PendingMemoryPoolResize :: "string \<Rightarrow> db \<Rightarrow> MemoryPoolResize" where
  "PendingMemoryPoolResize poolID d =
     (case row_find (\<lambda>r. rzPoolID r = poolID) (memory_pool_resizes d) of
       None \<Rightarrow> \<lparr>opRequestID = [], opSizeBytes = 0, opRunning = False\<rparr>
     | Some r \<Rightarrow> \<lparr>opRequestID = rzRequestID r, opSizeBytes = rzSizeBytes r, opRunning = rzRunning r\<rparr>)"

definition CheckMemoryPoolResize :: "string \<Rightarrow> db \<Rightarrow> unit result" where
  "CheckMemoryPoolResize poolID d =
     failIf (opRequestID (PendingMemoryPoolResize poolID d) \<noteq> [])
       (ErrMsg ''memory pool resize pending; retry pool resize with --size'')"

definition set_pool_reservation :: "time \<Rightarrow> MemoryPool \<Rightarrow> db \<Rightarrow> db" where
  "set_pool_reservation now pool d = d\<lparr>memory_pools := row_update (\<lambda>r. pID r = pID pool)
     (\<lambda>r. r\<lparr>pReservedBytes := pReservedBytes pool, pUpdatedAt := timeString now (pUpdatedAt pool)\<rparr>)
     (memory_pools d)\<rparr>"

definition BeginMemoryPoolResize :: "time \<Rightarrow> MemoryPool \<Rightarrow> MemoryPoolResize \<Rightarrow> db \<Rightarrow> db result" where
  "BeginMemoryPoolResize now pool op d =
     bindR (row_insert (\<lambda>r. rzPoolID r = pID pool \<or> rzRequestID r = opRequestID op)
       \<lparr>rzPoolID = pID pool, rzRequestID = opRequestID op, rzSizeBytes = opSizeBytes op,
         rzRunning = opRunning op\<rparr> (memory_pool_resizes d)) (\<lambda>rows.
     Inr (set_pool_reservation now pool (d\<lparr>memory_pool_resizes := rows\<rparr>)))"

definition FinishMemoryPoolResize :: "time \<Rightarrow> MemoryPool \<Rightarrow> string \<Rightarrow> db \<Rightarrow> db result" where
  "FinishMemoryPoolResize now pool requestID d =
     Inr (set_pool_reservation now pool (d\<lparr>memory_pool_resizes :=
       row_delete (\<lambda>r. rzPoolID r = pID pool \<and> rzRequestID r = requestID) (memory_pool_resizes d)\<rparr>))"

definition DeleteMemoryPool :: "string \<Rightarrow> db \<Rightarrow> db result" where
  "DeleteMemoryPool poolID d = Inr (d\<lparr>memory_pools := row_delete (\<lambda>r. pID r = poolID) (memory_pools d)\<rparr>)"

subsection \<open>Events and audit records\<close>

definition RecordEvent :: "time \<Rightarrow> InstanceEvent \<Rightarrow> db \<Rightarrow> db result" where
  "RecordEvent now e d =
     (let n = Suc (event_sequence d) in
      Inr (d\<lparr>event_sequence := n, instance_events := instance_events d @
        [\<lparr>evID = n, evInstanceID = evInstanceID e, evCreatedAt = timeString now (evCreatedAt e),
          evType = evType e, evMessage = evMessage e, evPayload = evPayload e\<rparr>]\<rparr>))"

definition scanEvent :: "string instance_event_of \<Rightarrow> InstanceEvent result" where
  "scanEvent r = bindR (parseTime (evCreatedAt r)) (\<lambda>created.
     Inr \<lparr>evID = evID r, evInstanceID = evInstanceID r, evCreatedAt = created,
       evType = evType r, evMessage = evMessage r, evPayload = evPayload r\<rparr>)"

text \<open>\<open>ORDER BY created_at DESC\<close> compares the stored text.\<close>

definition ListEvents :: "string \<Rightarrow> int \<Rightarrow> db \<Rightarrow> InstanceEvent list result" where
  "ListEvents instanceID limit d =
     (let limit = (if limit \<le> 0 then 20 else limit) in
      mapR scanEvent (take (nat limit) (rev (sort_key evCreatedAt (rev
        (filter (\<lambda>r. evInstanceID r = instanceID) (instance_events d)))))))"

definition RecordCommand :: "time \<Rightarrow> CommandAudit \<Rightarrow> db \<Rightarrow> db result" where
  "RecordCommand now a d = Inr (d\<lparr>commands := commands d @
     [\<lparr>caCreatedAt = timeString now (caCreatedAt a), caActorUser = caActorUser a,
       caActorDisplayName = caActorDisplayName a, caActorNode = caActorNode a,
       caRemoteAddr = caRemoteAddr a, caSSHUser = caSSHUser a, caCommand = caCommand a,
       caArgsJSON = caArgsJSON a, caAllowed = caAllowed a, caReason = caReason a,
       caDurationMS = caDurationMS a, caErrorText = caErrorText a\<rparr>]\<rparr>)"

definition RecordAuthz :: "time \<Rightarrow> AuthzDecision \<Rightarrow> db \<Rightarrow> db result" where
  "RecordAuthz now a d = Inr (d\<lparr>authz_decisions := authz_decisions d @
     [\<lparr>adCreatedAt = timeString now (adCreatedAt a), adActorUser = adActorUser a,
       adActorNode = adActorNode a, adRemoteAddr = adRemoteAddr a, adAction = adAction a,
       adAllowed = adAllowed a, adReason = adReason a\<rparr>]\<rparr>)"

subsection \<open>Integrations\<close>

definition CreateIntegration :: "time \<Rightarrow> Integration \<Rightarrow> db \<Rightarrow> db result" where
  "CreateIntegration now g d =
     bindR (wrapE ''insert integration'' (row_insert (\<lambda>r. igID r = igID g \<or> igName r = igName g)
       \<lparr>igID = igID g, igName = igName g, igKind = igKind g, igTargetURL = igTargetURL g,
         igAuthMode = igAuthMode g, igBearerEnv = igBearerEnv g, igBasicUser = igBasicUser g,
         igBasicPasswordEnv = igBasicPasswordEnv g, igHeadersJSON = igHeadersJSON g,
         igCreatedAt = timeString now (igCreatedAt g), igUpdatedAt = timeString now (igUpdatedAt g)\<rparr>
       (integrations d))) (\<lambda>rows. Inr (d\<lparr>integrations := rows\<rparr>))"

definition GetIntegrationByName :: "string \<Rightarrow> db \<Rightarrow> Integration result" where
  "GetIntegrationByName name d = (case row_find (\<lambda>r. igName r = name) (integrations d) of
     None \<Rightarrow> Inl ErrNoRows | Some r \<Rightarrow> scanIntegration r)"

definition ListIntegrations :: "db \<Rightarrow> Integration list result" where
  "ListIntegrations d = mapR scanIntegration (sort_key igName (integrations d))"

definition DeleteIntegration :: "string \<Rightarrow> db \<Rightarrow> db result" where
  "DeleteIntegration name d = Inr (d\<lparr>integrations := row_delete (\<lambda>r. igName r = name) (integrations d)\<rparr>)"

definition CountIntegrationBindings :: "string \<Rightarrow> db \<Rightarrow> nat" where
  "CountIntegrationBindings integrationID d =
     row_count (\<lambda>b. bdIntegrationID b = integrationID) (instance_integrations d)"

definition BindIntegrationToInstance :: "time \<Rightarrow> InstanceIntegrationBinding \<Rightarrow> db \<Rightarrow> db result" where
  "BindIntegrationToInstance now b d =
     Inr (if row_exists (\<lambda>r. bdInstanceID r = bdInstanceID b \<and> bdIntegrationID r = bdIntegrationID b)
            (instance_integrations d) then d
          else d\<lparr>instance_integrations := instance_integrations d @
            [\<lparr>bdInstanceID = bdInstanceID b, bdIntegrationID = bdIntegrationID b,
              bdCreatedAt = timeString now (bdCreatedAt b), bdCreatedByUser = bdCreatedByUser b,
              bdCreatedByNode = bdCreatedByNode b\<rparr>]\<rparr>)"

definition UnbindIntegrationFromInstance :: "string \<Rightarrow> string \<Rightarrow> db \<Rightarrow> db result" where
  "UnbindIntegrationFromInstance instanceID integrationID d =
     Inr (d\<lparr>instance_integrations := row_delete
       (\<lambda>b. bdInstanceID b = instanceID \<and> bdIntegrationID b = integrationID) (instance_integrations d)\<rparr>)"

definition ListInstanceIntegrations :: "string \<Rightarrow> db \<Rightarrow> Integration list result" where
  "ListInstanceIntegrations instanceID d =
     mapR scanIntegration (sort_key igName (concat (map (\<lambda>i. map (\<lambda>_. i)
       (filter (\<lambda>b. bdIntegrationID b = igID i \<and> bdInstanceID b = instanceID) (instance_integrations d)))
       (integrations d))))"

end
