(* ===== verification/StoreLifecycle.thy ===== *)
theory StoreLifecycle
  imports Store
begin

section \<open>The store: requests, deletion fences, migrations and imports\<close>

text \<open>
  src/internal/store/requests.go, cleanup.go and migration.go: the durable records that make the
  lifecycle commands safe to retry. A lifecycle request is bound to one operation and executes at
  most once; a deletion is fenced to the request that owns it and ends in a receipt; a bootstrap
  generation only grows; a migration and an import keep their own journal.
\<close>

subsection \<open>Lifecycle requests\<close>

definition delete_command :: "string \<Rightarrow> bool" where
  "delete_command c \<longleftrightarrow> c = ''delete'' \<or> c = ''delete-proof''"

definition owned_by :: "string \<Rightarrow> string \<Rightarrow> LifecycleRequest \<Rightarrow> bool" where
  "owned_by reqID actor r \<longleftrightarrow> rqID r = reqID \<and> rqActor r = actor"

definition GetLifecycleRequest :: "string \<Rightarrow> string \<Rightarrow> db \<Rightarrow> LifecycleRequest result" where
  "GetLifecycleRequest reqID actor d =
     (case row_find (owned_by reqID actor) (lifecycle_requests d) of
       None \<Rightarrow> Inl ErrNoRows | Some r \<Rightarrow> Inr r)"

definition insert_request :: "LifecycleRequest \<Rightarrow> req_phase \<Rightarrow> db \<Rightarrow> db" where
  "insert_request r ph d =
     d\<lparr>lifecycle_requests := lifecycle_requests d @ [r\<lparr>rqPhase := ph, rqExitCode := 0\<rparr>]\<rparr>"

definition same_binding :: "LifecycleRequest \<Rightarrow> LifecycleRequest \<Rightarrow> bool" where
  "same_binding old r \<longleftrightarrow>
     rqCommand old = rqCommand r \<and> rqName old = rqName r \<and> rqArguments old = rqArguments r"

text \<open>\<open>INSERT ... ON CONFLICT(id) DO NOTHING\<close>; the Boolean says whether a row was inserted.\<close>

definition AdmitLifecycleRequest :: "LifecycleRequest \<Rightarrow> db \<Rightarrow> (bool \<times> db) result" where
  "AdmitLifecycleRequest r d =
     (if \<not> row_exists (\<lambda>q. rqID q = rqID r) (lifecycle_requests d)
      then Inr (True, insert_request r PhAdmitted d)
      else bindR (GetLifecycleRequest (rqID r) (rqActor r) d) (\<lambda>old.
        if \<not> same_binding old r then Inl (ErrMsg ''request ID already bound to another operation'')
        else Inr (False, d)))"

definition FinishLifecycleRequest :: "string \<Rightarrow> string \<Rightarrow> int \<Rightarrow> db \<Rightarrow> (bool \<times> db) result" where
  "FinishLifecycleRequest reqID actor exitCode d =
     (let phase = (if exitCode \<noteq> 0 then PhFailed else PhDone);
          p = (\<lambda>r. owned_by reqID actor r \<and>
            (rqPhase r = PhExecuting \<or> rqPhase r = PhAdmitted \<and> exitCode \<noteq> 0))
      in Inr (row_count p (lifecycle_requests d) = 1,
        d\<lparr>lifecycle_requests := row_update p (\<lambda>r. r\<lparr>rqPhase := phase, rqExitCode := exitCode\<rparr>)
          (lifecycle_requests d)\<rparr>))"

definition RejectLifecycleStart :: "string \<Rightarrow> string \<Rightarrow> db \<Rightarrow> db result" where
  "RejectLifecycleStart reqID actor d =
     (let p = (\<lambda>r. owned_by reqID actor r \<and> rqCommand r = ''start'' \<and> rqPhase r = PhExecuting) in
      bindR (failIf (row_count p (lifecycle_requests d) \<noteq> 1)
        (ErrMsg ''start request no longer executing'')) (\<lambda>_.
      Inr (d\<lparr>lifecycle_requests := row_update p (\<lambda>r. r\<lparr>rqPhase := PhRejected, rqExitCode := 1\<rparr>)
        (lifecycle_requests d)\<rparr>)))"

definition InterruptLifecycleRequests :: "db \<Rightarrow> db result" where
  "InterruptLifecycleRequests d =
     Inr (d\<lparr>lifecycle_requests := row_update (\<lambda>r. rqPhase r = PhAdmitted \<or> rqPhase r = PhExecuting)
       (\<lambda>r. r\<lparr>rqPhase := (if rqPhase r = PhAdmitted then PhCancelled else PhInterrupted)\<rparr>)
       (lifecycle_requests d)\<rparr>)"

definition BeginLifecycleRequest :: "string \<Rightarrow> string \<Rightarrow> db \<Rightarrow> db result" where
  "BeginLifecycleRequest reqID actor d =
     (let p = (\<lambda>r. owned_by reqID actor r \<and> rqPhase r = PhAdmitted) in
      bindR (failIf (row_count p (lifecycle_requests d) \<noteq> 1) (ErrMsg ''request not admitted'')) (\<lambda>_.
      Inr (d\<lparr>lifecycle_requests := row_update p (\<lambda>r. r\<lparr>rqPhase := PhExecuting\<rparr>)
        (lifecycle_requests d)\<rparr>)))"

text \<open>The insert is its own statement: it stays even when the binding check then fails.\<close>

definition CancelLifecycleRequest :: "LifecycleRequest \<Rightarrow> db \<Rightarrow> unit result \<times> db" where
  "CancelLifecycleRequest r d =
     (let d = (if row_exists (\<lambda>q. rqID q = rqID r) (lifecycle_requests d) then d
               else insert_request r PhCancelled d)
      in (bindR (GetLifecycleRequest (rqID r) (rqActor r) d) (\<lambda>old.
            failIf (\<not> same_binding old r) (ErrMsg ''request binding differs'')), d))"

subsection \<open>Bootstrap generations\<close>

definition BootstrapGeneration :: "time \<Rightarrow> string \<Rightarrow> time \<Rightarrow> db \<Rightarrow> int64 result" where
  "BootstrapGeneration now instanceID created d =
     (case row_find (\<lambda>b. obInstanceID b = instanceID \<and> obCreatedAt b = timeString now created)
         (orb_bootstrap d) of
       None \<Rightarrow> Inl ErrNoRows | Some b \<Rightarrow> Inr (obGeneration b))"

definition AdmitBootstrap ::
  "time \<Rightarrow> LifecycleRequest \<Rightarrow> string \<Rightarrow> time \<Rightarrow> int64 \<Rightarrow> db \<Rightarrow> db result" where
  "AdmitBootstrap now r instanceID created generation d =
     bindR (failIf (generation \<le> 0) (ErrMsg ''positive bootstrap generation required'')) (\<lambda>_.
     let p = (\<lambda>b. obInstanceID b = instanceID \<and> obCreatedAt b = timeString now created \<and>
                obGeneration b < generation) in
     bindR (failIf (row_count p (orb_bootstrap d) \<noteq> 1)
       (ErrMsg ''missing or non-increasing bootstrap generation'')) (\<lambda>_.
     let d1 = d\<lparr>orb_bootstrap := row_update p (\<lambda>b. b\<lparr>obGeneration := generation\<rparr>) (orb_bootstrap d)\<rparr> in
     bindR (failIf (row_exists (\<lambda>q. rqID q = rqID r) (lifecycle_requests d1)) ErrConstraint) (\<lambda>_.
     Inr (insert_request r PhExecuting d1))))"

subsection \<open>Enrollment keys and deletion\<close>

definition RecordEnrollmentKey :: "string \<Rightarrow> string \<Rightarrow> db \<Rightarrow> db result" where
  "RecordEnrollmentKey instanceID keyID d =
     bindR (failIf (instanceID = [] \<or> keyID = []) (ErrMsg ''enrollment identity required'')) (\<lambda>_.
     bindR (row_insert (\<lambda>k. ekInstanceID k = instanceID)
       \<lparr>ekInstanceID = instanceID, ekKeyID = keyID\<rparr> (enrollment_keys d)) (\<lambda>rows.
     Inr (d\<lparr>enrollment_keys := rows\<rparr>)))"

definition EnrollmentKey :: "string \<Rightarrow> db \<Rightarrow> string result" where
  "EnrollmentKey instanceID d =
     (case row_find (\<lambda>k. ekInstanceID k = instanceID) (enrollment_keys d) of
       None \<Rightarrow> Inl ErrNoRows | Some k \<Rightarrow> Inr (ekKeyID k))"

definition CheckCleanupFence :: "string \<Rightarrow> db \<Rightarrow> unit result" where
  "CheckCleanupFence instanceID d =
     failIf (row_exists (\<lambda>f. fnInstanceID f = instanceID) (cleanup_fences d))
       (ErrMsg ''instance has unresolved authoritative cleanup; operator reconciliation required'')"

definition CleanupRequest :: "string \<Rightarrow> db \<Rightarrow> LifecycleRequest result" where
  "CleanupRequest instanceID d =
     (case concat (map (\<lambda>f. filter (\<lambda>r. rqID r = fnRequestID f) (lifecycle_requests d))
         (filter (\<lambda>f. fnInstanceID f = instanceID) (cleanup_fences d))) of
       [] \<Rightarrow> Inl ErrNoRows
     | r # _ \<Rightarrow> GetLifecycleRequest (rqID r) (rqActor r) d)"

definition live_states :: "inst_state set" where
  "live_states = {StateReady, StateStopped, StateFailed, StateProvisioning, StateAwaitingTailnet,
     StateAwaitingGuest, StateStopping}"

text \<open>The \<open>WHERE\<close> clauses of the two updates of \<open>BeginCleanup\<close>, and the phases and states
  they accept for a deletion that is taken up again and for a new one.\<close>

definition deletion_row :: "string \<Rightarrow> string \<Rightarrow> string \<Rightarrow> req_phase set \<Rightarrow> LifecycleRequest \<Rightarrow> bool" where
  "deletion_row requestID actor name phases r \<longleftrightarrow> owned_by requestID actor r \<and>
     delete_command (rqCommand r) \<and> rqName r = name \<and> rqPhase r \<in> phases"

definition incarnation_row :: "time \<Rightarrow> Instance \<Rightarrow> inst_state set \<Rightarrow> instance_row \<Rightarrow> bool" where
  "incarnation_row now inst states r \<longleftrightarrow> iID r = iID inst \<and> iName r = iName inst \<and>
     iCreatedAt r = timeString now (iCreatedAt inst) \<and>
     iCreatedByUser r = iCreatedByUser inst \<and> iCreatedByNode r = iCreatedByNode inst \<and>
     iTailnetNodeID r = iTailnetNodeID inst \<and> iState r \<in> states"

definition begin_phases :: "bool \<Rightarrow> req_phase set" where
  "begin_phases resume =
     (if resume then {PhExecuting, PhInterrupted} else {PhAdmitted, PhFailed, PhCancelled})"

definition begin_states :: "bool \<Rightarrow> string \<Rightarrow> inst_state set" where
  "begin_states resume command =
     (if resume then {StateDeleting}
      else if command = ''delete'' then insert StateDeleting live_states else live_states)"

definition BeginCleanup :: "time \<Rightarrow> string \<Rightarrow> string \<Rightarrow> Instance \<Rightarrow> db \<Rightarrow> db result" where
  "BeginCleanup now requestID actor inst d =
     (let owner = row_find (\<lambda>f. fnInstanceID f = iID inst) (cleanup_fences d);
          resume = (owner \<noteq> None)
      in
      bindR (failIf (case owner of None \<Rightarrow> False | Some f \<Rightarrow> fnRequestID f \<noteq> requestID)
        (ErrMsg ''cleanup fence belongs to another request'')) (\<lambda>_.
      bindR (GetLifecycleRequest requestID actor d) (\<lambda>req.
      bindR (failIf (rqCommand req = ''delete'' \<and> \<not> resume \<and>
          row_exists (\<lambda>r. rqName r = iName inst \<and> delete_command (rqCommand r) \<and>
            (rqPhase r = PhExecuting \<or> rqPhase r = PhInterrupted)) (lifecycle_requests d))
        (ErrMsg ''cleanup owner fence is missing; operator reconciliation required'')) (\<lambda>_.
      let rp = deletion_row requestID actor (iName inst) (begin_phases resume);
          ip = incarnation_row now inst (begin_states resume (rqCommand req))
      in
      bindR (failIf (row_count rp (lifecycle_requests d) \<noteq> 1)
        (ErrMsg ''cleanup request cannot begin or resume'')) (\<lambda>_.
      bindR (failIf (row_count ip (instances d) \<noteq> 1) (ErrMsg ''cleanup incarnation changed'')) (\<lambda>_.
      let d1 = d\<lparr>lifecycle_requests := row_update rp (\<lambda>r. r\<lparr>rqPhase := PhExecuting, rqExitCode := 0\<rparr>)
                   (lifecycle_requests d),
                 instances := row_update ip (\<lambda>r. stopped_update r
                   (r\<lparr>iState := StateDeleting, iUpdatedAt := timeString now now\<rparr>)) (instances d)\<rparr>
      in
      if resume then Inr d1
      else bindR (row_insert (\<lambda>f. fnInstanceID f = iID inst \<or> fnRequestID f = requestID)
             \<lparr>fnInstanceID = iID inst, fnRequestID = requestID\<rparr> (cleanup_fences d1)) (\<lambda>rows.
           Inr (d1\<lparr>cleanup_fences := rows\<rparr>))))))))"

definition proof_complete :: "CleanupReceipt \<Rightarrow> bool" where
  "proof_complete r \<longleftrightarrow>
     \<not> (\<not> ValidCopyScope r \<or> \<not> crGatewaysAbsent r \<or> (crKind r \<noteq> KindOrb \<and> crKind r \<noteq> KindVM) \<or>
       crBackendID r = [] \<or> crImage r = [] \<or> crRequestID r = [] \<or> crActor r = [] \<or>
       crInstanceID r = [] \<or> crName r = [] \<or> IsZero (crCreatedAt r) \<or> crCreatedByUser r = [] \<or>
       crCreatedByNode r = [] \<or> IsZero (crDeletedAt r) \<or> \<not> crIngressClosed r \<or>
       \<not> crRuntimeAbsent r \<or> \<not> crJailerAbsent r \<or> \<not> crCgroupAbsent r \<or> \<not> crNetworkAbsent r \<or>
       \<not> crStorageAbsent r \<or> crRootFSPath r = [] \<or> crInstanceDir r = [] \<or> crBackupsDir r = [] \<or>
       crTapDevice r = [] \<or> crNetworkCIDR r = [])"

definition check_receipt :: "CleanupReceipt \<Rightarrow> unit result" where
  "check_receipt r =
     bindR (failIf (\<not> proof_complete r) (ErrMsg ''incomplete cleanup proof'')) (\<lambda>_.
     bindR (failIf (crKind r = KindOrb \<and>
         (crAuthKeyDisposition r \<noteq> ''never-minted'' \<or> crTailnetNodeID r \<noteq> []))
       (ErrMsg ''auth key disposition not proven'')) (\<lambda>_.
     bindR (failIf (crKind r = KindVM \<and>
         (crVersion r \<noteq> 5 \<or> crAuthKeyDisposition r \<noteq> ''not-asserted''))
       (ErrMsg ''VM cleanup requires its own identity disposition'')) (\<lambda>_.
     failIf (crVersion r = 5 \<and> \<not> (crTailnetNodeID r = [] \<and> crTailnetDisposition r = ''absent'' \<or>
         crTailnetNodeID r \<noteq> [] \<and>
           (crTailnetDisposition r = ''removed'' \<or> crTailnetDisposition r = ''retained'')))
       (ErrMsg ''incomplete tailnet disposition''))))"

text \<open>The instance row that \<open>CommitCleanup\<close> tombstones: every identity column as the receipt
  states it, and for an orb no enrollment key ever recorded.\<close>

definition proven_row :: "time \<Rightarrow> CleanupReceipt \<Rightarrow> db \<Rightarrow> instance_row \<Rightarrow> bool" where
  "proven_row now r d i \<longleftrightarrow> iID i = crInstanceID r \<and> iName i = crName r \<and>
     iCreatedAt i = timeString now (crCreatedAt r) \<and>
     iCreatedByUser i = crCreatedByUser r \<and> iCreatedByNode i = crCreatedByNode r \<and>
     iKind i = crKind r \<and> ImageName i = crImage r \<and>
     iTailnetNodeID i = crTailnetNodeID r \<and> iRootFSPath i = crRootFSPath r \<and>
     iTapDevice i = crTapDevice r \<and> iNetworkCIDR i = crNetworkCIDR r \<and>
     iState i = StateDeleting \<and>
     (iKind i = KindVM \<or> \<not> row_exists (\<lambda>k. ekInstanceID k = crInstanceID r) (enrollment_keys d))"

definition fence_of :: "CleanupReceipt \<Rightarrow> fence_row \<Rightarrow> bool" where
  "fence_of r f \<longleftrightarrow> fnInstanceID f = crInstanceID r \<and> fnRequestID f = crRequestID r"

definition tombstone :: "time \<Rightarrow> time \<Rightarrow> instance_row \<Rightarrow> instance_row" where
  "tombstone now deletedAt i = i\<lparr>iState := StateDeleted, iUpdatedAt := timeString now deletedAt,
     iDeletedAt := Some (timeString now deletedAt), iFirecrackerPID := 0,
     iLastError := [], iTailscaleName := [], iTailscaleIP := [], iTailnetNodeID := []\<rparr>"

definition CommitCleanup :: "time \<Rightarrow> CleanupReceipt \<Rightarrow> db \<Rightarrow> db result" where
  "CommitCleanup now r d =
     bindR (check_receipt r) (\<lambda>_.
     let rp = deletion_row (crRequestID r) (crActor r) (crName r) {PhExecuting};
         ip = proven_row now r d
     in
     bindR (failIf (row_count rp (lifecycle_requests d) \<noteq> 1)
       (ErrMsg ''cleanup request no longer executing'')) (\<lambda>_.
     bindR (failIf (row_count ip (instances d) \<noteq> 1) (ErrMsg ''cleanup identity changed'')) (\<lambda>_.
     bindR (row_insert (\<lambda>c. rcRequestID c = crRequestID r)
       \<lparr>rcRequestID = crRequestID r, rcActor = crActor r, rcReceipt = r\<rparr> (cleanup_receipts d)) (\<lambda>receipts.
     bindR (failIf (row_count (fence_of r) (cleanup_fences d) \<noteq> 1)
       (ErrMsg ''cleanup fence changed'')) (\<lambda>_.
     Inr (d\<lparr>lifecycle_requests := row_update rp (\<lambda>q. q\<lparr>rqPhase := PhDone, rqExitCode := 0\<rparr>)
              (lifecycle_requests d),
            instances := row_update ip (\<lambda>i. stopped_update i (tombstone now (crDeletedAt r) i))
              (instances d),
            cleanup_receipts := receipts,
            cleanup_fences := row_delete (fence_of r) (cleanup_fences d)\<rparr>))))))"

definition GetCleanupReceipt :: "string \<Rightarrow> string \<Rightarrow> db \<Rightarrow> CleanupReceipt result" where
  "GetCleanupReceipt requestID actor d =
     (case row_find (\<lambda>c. rcRequestID c = requestID \<and> rcActor c = actor) (cleanup_receipts d) of
       None \<Rightarrow> Inl ErrNoRows | Some c \<Rightarrow> Inr (rcReceipt c))"

definition CleanupReceiptForInstance :: "string \<Rightarrow> db \<Rightarrow> CleanupReceipt result" where
  "CleanupReceiptForInstance instanceID d =
     (case row_find (\<lambda>c. crInstanceID (rcReceipt c) = instanceID) (cleanup_receipts d) of
       None \<Rightarrow> Inl ErrNoRows | Some c \<Rightarrow> Inr (rcReceipt c))"

subsection \<open>Migrations and imports\<close>

definition GetMigration :: "string \<Rightarrow> db \<Rightarrow> Migration result" where
  "GetMigration instanceID d =
     (case row_find (\<lambda>m. mgInstanceID m = instanceID) (migrations d) of
       None \<Rightarrow> Inl ErrNoRows | Some m \<Rightarrow> Inr m)"

text \<open>\<open>ON CONFLICT(instance_id) DO UPDATE\<close> replaces the row, else it is appended.\<close>

definition row_upsert :: "('r \<Rightarrow> bool) \<Rightarrow> 'r \<Rightarrow> 'r list \<Rightarrow> 'r list" where
  "row_upsert p r t = (if row_exists p t then row_update p (\<lambda>_. r) t else t @ [r])"

definition PutMigration :: "Migration \<Rightarrow> db \<Rightarrow> db result" where
  "PutMigration m d =
     Inr (d\<lparr>migrations := row_upsert (\<lambda>r. mgInstanceID r = mgInstanceID m) m (migrations d)\<rparr>)"

definition GetImportReceipt :: "string \<Rightarrow> db \<Rightarrow> ImportReceipt result" where
  "GetImportReceipt instanceID d =
     (case row_find (\<lambda>r. irInstanceID r = instanceID) (import_receipts d) of
       None \<Rightarrow> Inl ErrNoRows | Some r \<Rightarrow> Inr r)"

definition PutImportReceipt :: "ImportReceipt \<Rightarrow> db \<Rightarrow> db result" where
  "PutImportReceipt r d =
     Inr (d\<lparr>import_receipts := row_upsert (\<lambda>x. irInstanceID x = irInstanceID r) r (import_receipts d)\<rparr>)"

definition ReserveImportReceipt :: "ImportReceipt \<Rightarrow> db \<Rightarrow> db result" where
  "ReserveImportReceipt r d =
     bindR (failIf (row_exists (\<lambda>i. iID i = irInstanceID r) (instances d))
       (ErrMsg ''import instance ID already exists'')) (\<lambda>_.
     Inr (d\<lparr>import_receipts := row_upsert (\<lambda>x. irInstanceID x = irInstanceID r) r (import_receipts d)\<rparr>))"

definition FinalizeImport :: "time \<Rightarrow> string \<Rightarrow> time \<Rightarrow> db \<Rightarrow> db result" where
  "FinalizeImport now instanceID updatedAt d =
     (let ip = (\<lambda>i. iID i = instanceID \<and> iState i = StateProvisioning);
          rp = (\<lambda>r. irInstanceID r = instanceID \<and> irPhase r = Importing)
      in
      bindR (failIf (row_count ip (instances d) \<noteq> 1) (ErrMsg ''import reservation missing'')) (\<lambda>_.
      bindR (failIf (row_count rp (import_receipts d) \<noteq> 1) (ErrMsg ''import receipt missing'')) (\<lambda>_.
      Inr (d\<lparr>instances := row_update ip (\<lambda>i. stopped_update i (i\<lparr>iState := StateStopped,
               iFirecrackerPID := 0, iLastError := [], iDeletedAt := None,
               iUpdatedAt := timeString now updatedAt\<rparr>)) (instances d),
             import_receipts := row_update rp (\<lambda>r. r\<lparr>irPhase := Imported\<rparr>) (import_receipts d)\<rparr>))))"

end
