(* ===== verification/Transitions.thy ===== *)
theory Transitions
  imports Prelude
begin

section \<open>Transition systems\<close>

text \<open>
  The contracts the components with a durable state promise to their clients, stated once for
  any labelled step relation: an invariant that every step keeps, a relation between earlier and
  later states that every step extends, and an event that can happen at most once. Each is a
  locale whose client lemmas speak of whole runs; the components interpret them on their own
  step relations.
\<close>

inductive run :: "('s \<Rightarrow> 'e \<Rightarrow> 's \<Rightarrow> bool) \<Rightarrow> 's \<Rightarrow> 'e list \<Rightarrow> 's \<Rightarrow> bool" for step where
  run_nil: "run step s [] s"
| run_cons: "step s e s' \<Longrightarrow> run step s' es s'' \<Longrightarrow> run step s (e # es) s''"

inductive_cases run_nilE [elim!]: "run step s [] t"
inductive_cases run_consE [elim!]: "run step s (e # es) t"

inductive_simps run_nil_iff [simp]: "run step s [] t"
inductive_simps run_cons_iff: "run step s (e # es) t"

lemma run_append: "run step s es t \<Longrightarrow> run step t fs u \<Longrightarrow> run step s (es @ fs) u"
  by (induction rule: run.induct) (auto intro: run.intros)

lemma run_appendD: "run step s (es @ fs) u \<Longrightarrow> \<exists>t. run step s es t \<and> run step t fs u"
proof (induction es arbitrary: s)
  case (Cons e es)
  then obtain s' where "step s e s'" "run step s' (es @ fs) u" by auto
  with Cons.IH show ?case by (metis append_Cons run_cons)
qed (auto intro: run.intros)

lemma run_single: "run step s [e] t \<longleftrightarrow> step s e t"
  by (auto intro: run.intros)

subsection \<open>Invariants\<close>

locale invariant_system =
  fixes step :: "'s \<Rightarrow> 'e \<Rightarrow> 's \<Rightarrow> bool"
    and start :: "'s \<Rightarrow> bool"
    and inv :: "'s \<Rightarrow> bool"
  assumes start_inv: "start s \<Longrightarrow> inv s"
    and step_inv: "step s e t \<Longrightarrow> inv s \<Longrightarrow> inv t"
begin

lemma run_inv: "run step s es t \<Longrightarrow> inv s \<Longrightarrow> inv t"
  by (induction rule: run.induct) (auto dest: step_inv)

lemma reachable_inv: "start s \<Longrightarrow> run step s es t \<Longrightarrow> inv t"
  by (blast intro: start_inv run_inv)

end

subsection \<open>Progress in one direction\<close>

locale monotone_system =
  fixes step :: "'s \<Rightarrow> 'e \<Rightarrow> 's \<Rightarrow> bool"
    and leads :: "'s \<Rightarrow> 's \<Rightarrow> bool"
  assumes leads_refl: "leads s s"
    and leads_trans: "leads s t \<Longrightarrow> leads t u \<Longrightarrow> leads s u"
    and step_leads: "step s e t \<Longrightarrow> leads s t"
begin

lemma run_leads: "run step s es t \<Longrightarrow> leads s t"
  by (induction rule: run.induct) (blast intro: leads_refl leads_trans step_leads)+

end

subsection \<open>Events that happen at most once\<close>

text \<open>
  \<open>spent\<close> says that the right to fire has been used up. A firing step needs it unspent and
  spends it, and no step gives it back.
\<close>

locale once_system = invariant_system step start inv
  for step :: "'s \<Rightarrow> 'e \<Rightarrow> 's \<Rightarrow> bool" and start :: "'s \<Rightarrow> bool" and inv :: "'s \<Rightarrow> bool" +
  fixes fires :: "'e \<Rightarrow> bool"
    and spent :: "'s \<Rightarrow> bool"
  assumes fire_unspent: "step s e t \<Longrightarrow> inv s \<Longrightarrow> fires e \<Longrightarrow> \<not> spent s"
    and fire_spends: "step s e t \<Longrightarrow> inv s \<Longrightarrow> fires e \<Longrightarrow> spent t"
    and spent_stays: "step s e t \<Longrightarrow> inv s \<Longrightarrow> spent s \<Longrightarrow> spent t"
begin

lemma run_spent_silent:
  "run step s es t \<Longrightarrow> inv s \<Longrightarrow> spent s \<Longrightarrow> spent t \<and> filter fires es = []"
  by (induction rule: run.induct) (auto dest: fire_unspent spent_stays step_inv)

lemma run_fires_once: "run step s es t \<Longrightarrow> inv s \<Longrightarrow> length (filter fires es) \<le> 1"
proof (induction rule: run.induct)
  case (run_cons s e s' es s'')
  have inv': "inv s'" using run_cons.hyps(1) run_cons.prems by (rule step_inv)
  show ?case
  proof (cases "fires e")
    case True
    with run_cons.hyps(1) run_cons.prems have "spent s'" by (rule fire_spends)
    with run_cons.hyps(2) inv' have "filter fires es = []" using run_spent_silent by blast
    then show ?thesis by simp
  next
    case False
    with run_cons.IH inv' show ?thesis by simp
  qed
qed simp

lemma reachable_fires_once:
  "start s \<Longrightarrow> run step s es t \<Longrightarrow> length (filter fires es) \<le> 1"
  by (blast intro: run_fires_once start_inv)

end

end
