(* ===== verification/StoreProofs.thy ===== *)
theory StoreProofs
  imports StoreLifecycle Transitions
begin

section \<open>What the store promises\<close>

text \<open>
  The calls of the store's interface as one step relation, and the properties every sequence of
  calls has, whatever their arguments: the keys of all tables stay keys, the request journal
  follows its phase graph, a receipt exists only for a completed deletion, the stop date of an
  instance is exactly that of its last stop, and a bootstrap generation never falls.
\<close>

subsection \<open>Calls and steps\<close>

datatype store_call =
    CCreateInstance Instance
  | CUpdateInstance Instance
  | CUpdateInstanceRuntime Instance Instance
  | CDeleteInstance string
  | CCreateMemoryPool MemoryPool
  | CBeginMemoryPoolResize MemoryPool MemoryPoolResize
  | CFinishMemoryPoolResize MemoryPool string
  | CDeleteMemoryPool string
  | CRecordEvent InstanceEvent
  | CRecordCommand CommandAudit
  | CRecordAuthz AuthzDecision
  | CCreateIntegration Integration
  | CDeleteIntegration string
  | CBindIntegration InstanceIntegrationBinding
  | CUnbindIntegration string string
  | CAdmit LifecycleRequest
  | CFinish string string int
  | CReject string string
  | CInterrupt
  | CBegin string string
  | CCancel LifecycleRequest
  | CAdmitBootstrap LifecycleRequest string time int64
  | CRecordEnrollmentKey string string
  | CBeginCleanup string string Instance
  | CCommitCleanup CleanupReceipt
  | CPutMigration Migration
  | CPutImportReceipt ImportReceipt
  | CReserveImportReceipt ImportReceipt
  | CFinalizeImport string time
  | COpen

fun store_exec :: "time \<Rightarrow> store_call \<Rightarrow> db \<Rightarrow> db result" where
  "store_exec now (CCreateInstance i) d = CreateInstance now i d"
| "store_exec now (CUpdateInstance i) d = UpdateInstance now i d"
| "store_exec now (CUpdateInstanceRuntime o' u) d = UpdateInstanceRuntime now o' u d"
| "store_exec now (CDeleteInstance n) d = DeleteInstance n d"
| "store_exec now (CCreateMemoryPool p) d = CreateMemoryPool now p d"
| "store_exec now (CBeginMemoryPoolResize p op) d = BeginMemoryPoolResize now p op d"
| "store_exec now (CFinishMemoryPoolResize p q) d = FinishMemoryPoolResize now p q d"
| "store_exec now (CDeleteMemoryPool p) d = DeleteMemoryPool p d"
| "store_exec now (CRecordEvent e) d = RecordEvent now e d"
| "store_exec now (CRecordCommand a) d = RecordCommand now a d"
| "store_exec now (CRecordAuthz a) d = RecordAuthz now a d"
| "store_exec now (CCreateIntegration g) d = CreateIntegration now g d"
| "store_exec now (CDeleteIntegration n) d = DeleteIntegration n d"
| "store_exec now (CBindIntegration b) d = BindIntegrationToInstance now b d"
| "store_exec now (CUnbindIntegration i g) d = UnbindIntegrationFromInstance i g d"
| "store_exec now (CAdmit r) d = bindR (AdmitLifecycleRequest r d) (\<lambda>(_, d'). Inr d')"
| "store_exec now (CFinish q a x) d = bindR (FinishLifecycleRequest q a x d) (\<lambda>(_, d'). Inr d')"
| "store_exec now (CReject q a) d = RejectLifecycleStart q a d"
| "store_exec now CInterrupt d = InterruptLifecycleRequests d"
| "store_exec now (CBegin q a) d = BeginLifecycleRequest q a d"
| "store_exec now (CCancel r) d = Inr (snd (CancelLifecycleRequest r d))"
| "store_exec now (CAdmitBootstrap r i c g) d = AdmitBootstrap now r i c g d"
| "store_exec now (CRecordEnrollmentKey i k) d = RecordEnrollmentKey i k d"
| "store_exec now (CBeginCleanup q a i) d = BeginCleanup now q a i d"
| "store_exec now (CCommitCleanup r) d = CommitCleanup now r d"
| "store_exec now (CPutMigration m) d = PutMigration m d"
| "store_exec now (CPutImportReceipt r) d = PutImportReceipt r d"
| "store_exec now (CReserveImportReceipt r) d = ReserveImportReceipt r d"
| "store_exec now (CFinalizeImport i t) d = FinalizeImport now i t d"
| "store_exec now COpen d = Inr (migrate now d)"

inductive store_step :: "db \<Rightarrow> store_call \<Rightarrow> db \<Rightarrow> bool" where
  call: "store_exec now c d = Inr d' \<Longrightarrow> store_step d c d'"

inductive_cases store_stepE [elim!]: "store_step d c d'"

lemmas request_op_defs =
  AdmitLifecycleRequest_def FinishLifecycleRequest_def RejectLifecycleStart_def
  InterruptLifecycleRequests_def BeginLifecycleRequest_def CancelLifecycleRequest_def
  insert_request_def

lemmas instance_op_defs =
  CreateInstance_def UpdateInstance_def UpdateInstanceRuntime_def DeleteInstance_def migrate_def

lemmas other_op_defs =
  CreateMemoryPool_def BeginMemoryPoolResize_def FinishMemoryPoolResize_def DeleteMemoryPool_def
  set_pool_reservation_def RecordEvent_def RecordCommand_def RecordAuthz_def CreateIntegration_def
  DeleteIntegration_def BindIntegrationToInstance_def UnbindIntegrationFromInstance_def
  RecordEnrollmentKey_def PutMigration_def PutImportReceipt_def ReserveImportReceipt_def
  FinalizeImport_def

lemmas split_results = option.splits prod.splits if_splits

subsection \<open>The request journal and its phase graph\<close>

text \<open>The edges of the graph: a deletion may be taken up again after a failure, a cancellation
  or an interruption; nothing else is.\<close>

inductive phase_edge :: "string \<Rightarrow> req_phase \<Rightarrow> req_phase \<Rightarrow> bool" where
  begin_admitted: "phase_edge c PhAdmitted PhExecuting"
| fail_admitted: "phase_edge c PhAdmitted PhFailed"
| cancel_admitted: "phase_edge c PhAdmitted PhCancelled"
| finish_done: "phase_edge c PhExecuting PhDone"
| finish_failed: "phase_edge c PhExecuting PhFailed"
| interrupt: "phase_edge c PhExecuting PhInterrupted"
| reject_start: "phase_edge ''start'' PhExecuting PhRejected"
| resume_executing: "delete_command c \<Longrightarrow> phase_edge c PhExecuting PhExecuting"
| resume_interrupted: "delete_command c \<Longrightarrow> phase_edge c PhInterrupted PhExecuting"
| retry_failed: "delete_command c \<Longrightarrow> phase_edge c PhFailed PhExecuting"
| retry_cancelled: "delete_command c \<Longrightarrow> phase_edge c PhCancelled PhExecuting"

inductive_simps phase_edge_simps:
  "phase_edge c PhAdmitted q" "phase_edge c PhExecuting q" "phase_edge c PhDone q"
  "phase_edge c PhFailed q" "phase_edge c PhCancelled q" "phase_edge c PhInterrupted q"
  "phase_edge c PhRejected q"

definition same_request :: "LifecycleRequest \<Rightarrow> LifecycleRequest \<Rightarrow> bool" where
  "same_request r r' \<longleftrightarrow> rqID r' = rqID r \<and> rqActor r' = rqActor r \<and> rqCommand r' = rqCommand r \<and>
     rqName r' = rqName r \<and> rqArguments r' = rqArguments r"

text \<open>The three ways a call changes the journal: not at all, by one new row, or by moving rows
  along edges.\<close>

inductive journal_change :: "LifecycleRequest list \<Rightarrow> LifecycleRequest list \<Rightarrow> bool" where
  keep: "journal_change t t"
| fresh: "\<forall>q \<in> set t. rqID q \<noteq> rqID r \<Longrightarrow> rqPhase r \<in> {PhAdmitted, PhExecuting, PhCancelled} \<Longrightarrow>
    journal_change t (t @ [r])"
| move: "(\<And>r. r \<in> set t \<Longrightarrow> p r \<Longrightarrow>
      same_request r (f r) \<and> phase_edge (rqCommand r) (rqPhase r) (rqPhase (f r))) \<Longrightarrow>
    journal_change t (row_update p f t)"

declare journal_change.keep [simp]

text \<open>What a successful \<open>BeginCleanup\<close> and \<open>CommitCleanup\<close> found and did.\<close>

definition begun :: "time \<Rightarrow> string \<Rightarrow> string \<Rightarrow> Instance \<Rightarrow> bool \<Rightarrow> string \<Rightarrow> fence_row list \<Rightarrow> db \<Rightarrow> db" where
  "begun now q a i resume cmd fences d = d\<lparr>
     lifecycle_requests := row_update (deletion_row q a (iName i) (begin_phases resume))
       (\<lambda>r. r\<lparr>rqPhase := PhExecuting, rqExitCode := 0\<rparr>) (lifecycle_requests d),
     instances := row_update (incarnation_row now i (begin_states resume cmd))
       (\<lambda>r. stopped_update r (r\<lparr>iState := StateDeleting, iUpdatedAt := timeString now now\<rparr>)) (instances d),
     cleanup_fences := fences\<rparr>"

lemma BeginCleanup_InrE:
  assumes "BeginCleanup now q a i d = Inr d'"
  obtains resume cmd fences where
    "d' = begun now q a i resume cmd fences d"
    "row_count (deletion_row q a (iName i) (begin_phases resume)) (lifecycle_requests d) = 1"
    "row_count (incarnation_row now i (begin_states resume cmd)) (instances d) = 1"
    "if resume then fences = cleanup_fences d \<and> \<lparr>fnInstanceID = iID i, fnRequestID = q\<rparr> \<in> set fences
     else fences = cleanup_fences d @ [\<lparr>fnInstanceID = iID i, fnRequestID = q\<rparr>] \<and>
       (\<forall>f \<in> set (cleanup_fences d). fnInstanceID f \<noteq> iID i \<and> fnRequestID f \<noteq> q)"
proof (cases "row_find (\<lambda>f. fnInstanceID f = iID i) (cleanup_fences d)")
  case None
  with assms show ?thesis
    by (auto intro!: that[of False] simp: BeginCleanup_def begun_def Let_def result_simps table_simps
      split: if_splits)
next
  case (Some f)
  moreover from row_find_Some[OF Some] have "f = \<lparr>fnInstanceID = iID i, fnRequestID = fnRequestID f\<rparr>"
    "f \<in> set (cleanup_fences d)" by auto
  ultimately show ?thesis using assms
    by (auto intro!: that[of True] simp: BeginCleanup_def begun_def Let_def result_simps split: if_splits)
qed

lemma CommitCleanup_InrE:
  assumes "CommitCleanup now r d = Inr d'"
  obtains
    "check_receipt r = Inr ()"
    "row_count (deletion_row (crRequestID r) (crActor r) (crName r) {PhExecuting}) (lifecycle_requests d) = 1"
    "row_count (proven_row now r d) (instances d) = 1"
    "row_count (fence_of r) (cleanup_fences d) = 1"
    "\<forall>c \<in> set (cleanup_receipts d). rcRequestID c \<noteq> crRequestID r"
    "d' = d\<lparr>lifecycle_requests :=
       row_update (deletion_row (crRequestID r) (crActor r) (crName r) {PhExecuting})
         (\<lambda>q. q\<lparr>rqPhase := PhDone, rqExitCode := 0\<rparr>) (lifecycle_requests d),
     instances := row_update (proven_row now r d)
       (\<lambda>i. stopped_update i (tombstone now (crDeletedAt r) i)) (instances d),
     cleanup_receipts := cleanup_receipts d @
       [\<lparr>rcRequestID = crRequestID r, rcActor = crActor r, rcReceipt = r\<rparr>],
     cleanup_fences := row_delete (fence_of r) (cleanup_fences d)\<rparr>"
  using assms
  by (auto intro!: that simp: CommitCleanup_def Let_def result_simps table_simps split: if_splits)

lemma journal_change_BeginCleanup:
  "BeginCleanup now q a i d = Inr d' \<Longrightarrow> journal_change (lifecycle_requests d) (lifecycle_requests d')"
  by (erule BeginCleanup_InrE)
    (auto intro!: journal_change.move split: if_splits
      simp: begun_def same_request_def phase_edge_simps deletion_row_def begin_phases_def)

lemma journal_change_CommitCleanup:
  "CommitCleanup now r d = Inr d' \<Longrightarrow> journal_change (lifecycle_requests d) (lifecycle_requests d')"
  by (erule CommitCleanup_InrE)
    (auto intro!: journal_change.move simp: same_request_def phase_edge_simps deletion_row_def)

lemma journal_change_exec:
  assumes "store_exec now c d = Inr d'"
  shows "journal_change (lifecycle_requests d) (lifecycle_requests d')"
proof (cases c)
  case (CBeginCleanup q a i)
  with assms show ?thesis by (auto intro: journal_change_BeginCleanup)
next
  case (CCommitCleanup r)
  with assms show ?thesis by (auto intro: journal_change_CommitCleanup)
qed (use assms in \<open>auto simp: request_op_defs instance_op_defs other_op_defs AdmitBootstrap_def Let_def
    result_simps table_simps same_request_def phase_edge_simps
    intro!: journal_change.fresh journal_change.move split: split_results\<close>)

text \<open>Along a run, a recorded request keeps its binding, and its phase only moves along the
  edges of its command.\<close>

definition journal_leads :: "db \<Rightarrow> db \<Rightarrow> bool" where
  "journal_leads d d' \<longleftrightarrow> (\<forall>r \<in> set (lifecycle_requests d). \<exists>r' \<in> set (lifecycle_requests d').
     same_request r r' \<and> (phase_edge (rqCommand r))\<^sup>*\<^sup>* (rqPhase r) (rqPhase r'))"

lemma same_request_refl [simp]: "same_request r r"
  by (simp add: same_request_def)

lemma same_request_trans: "same_request r s \<Longrightarrow> same_request s t \<Longrightarrow> same_request r t"
  by (simp add: same_request_def)

lemma journal_change_leads:
  assumes "journal_change t t'" "r \<in> set t"
  shows "\<exists>r' \<in> set t'. same_request r r' \<and> (phase_edge (rqCommand r))\<^sup>*\<^sup>* (rqPhase r) (rqPhase r')"
proof -
  have stay: ?thesis if "r \<in> set t'"
    using that by (meson rtranclp.rtrancl_refl same_request_refl)
  from assms(1) show ?thesis
  proof cases
    case (move p f)
    with assms(2) have "(if p r then f r else r) \<in> set t'" by (auto simp: set_row_update)
    with move(2)[of r] assms(2) show ?thesis by (cases "p r") (auto intro: stay)
  qed (use assms(2) stay in auto)
qed

lemma journal_leads_trans: "journal_leads d e \<Longrightarrow> journal_leads e f \<Longrightarrow> journal_leads d f"
  unfolding journal_leads_def
  by (metis (no_types, lifting) rtranclp_trans same_request_def same_request_trans)

interpretation journal: monotone_system store_step journal_leads
proof
  show "journal_leads d d" for d
    unfolding journal_leads_def by (meson rtranclp.rtrancl_refl same_request_refl)
  show "journal_leads d f" if "journal_leads d e" "journal_leads e f" for d e f
    using that by (rule journal_leads_trans)
  show "journal_leads d d'" if "store_step d c d'" for d c d'
    using that by (auto simp: journal_leads_def dest: journal_change_exec journal_change_leads)
qed

text \<open>Phases with no way out.\<close>

lemma phase_done_final: "(phase_edge c)\<^sup>*\<^sup>* PhDone q \<longleftrightarrow> q = PhDone"
  by (rule rtranclp_dead_end) (simp add: phase_edge_simps)

lemma phase_rejected_final: "(phase_edge c)\<^sup>*\<^sup>* PhRejected q \<longleftrightarrow> q = PhRejected"
  by (rule rtranclp_dead_end) (simp add: phase_edge_simps)

lemma phase_closed_final:
  "\<not> delete_command c \<Longrightarrow> p \<in> {PhFailed, PhCancelled, PhInterrupted} \<Longrightarrow>
    (phase_edge c)\<^sup>*\<^sup>* p q \<longleftrightarrow> q = p"
  by (rule rtranclp_dead_end) (auto simp: phase_edge_simps)

lemma phase_never_readmitted: "(phase_edge c)\<^sup>*\<^sup>* p PhAdmitted \<longleftrightarrow> p = PhAdmitted"
  by (rule rtranclp_no_entry) (simp add: phase_edge.simps)

subsection \<open>The invariant of the tables\<close>

definition stopped_ok :: "instance_row \<Rightarrow> bool" where
  "stopped_ok r \<longleftrightarrow> (iStoppedSince r \<noteq> None \<longleftrightarrow> iState r = StateStopped)"

definition instances_ok :: "instance_row list \<Rightarrow> bool" where
  "instances_ok t \<longleftrightarrow> is_key iID t \<and> is_key iName t \<and> (\<forall>r \<in> set t. stopped_ok r)"

definition keys_ok :: "db \<Rightarrow> bool" where
  "keys_ok d \<longleftrightarrow> is_key rqID (lifecycle_requests d) \<and> is_key ekInstanceID (enrollment_keys d) \<and>
     is_key rcRequestID (cleanup_receipts d) \<and>
     is_key fnInstanceID (cleanup_fences d) \<and> is_key fnRequestID (cleanup_fences d) \<and>
     is_key obInstanceID (orb_bootstrap d) \<and> is_key mgInstanceID (migrations d) \<and>
     is_key irInstanceID (import_receipts d) \<and>
     is_key pID (memory_pools d) \<and> is_key pName (memory_pools d) \<and>
     is_key rzPoolID (memory_pool_resizes d) \<and> is_key rzRequestID (memory_pool_resizes d) \<and>
     is_key evID (instance_events d) \<and> (\<forall>e \<in> set (instance_events d). evID e \<le> event_sequence d) \<and>
     is_key igID (integrations d) \<and> is_key igName (integrations d) \<and>
     is_key (\<lambda>b. (bdInstanceID b, bdIntegrationID b)) (instance_integrations d)"

text \<open>A receipt stands for a deletion that is done, a fence for one that has begun, and a request
  never has both.\<close>

definition receipt_ok :: "LifecycleRequest list \<Rightarrow> receipt_row \<Rightarrow> bool" where
  "receipt_ok t c \<longleftrightarrow> check_receipt (rcReceipt c) = Inr () \<and>
     rcRequestID c = crRequestID (rcReceipt c) \<and> rcActor c = crActor (rcReceipt c) \<and>
     (\<exists>r \<in> set t. rqID r = rcRequestID c \<and> rqActor r = rcActor c \<and> delete_command (rqCommand r) \<and>
       rqName r = crName (rcReceipt c) \<and> rqPhase r = PhDone)"

definition fence_ok :: "LifecycleRequest list \<Rightarrow> fence_row \<Rightarrow> bool" where
  "fence_ok t f \<longleftrightarrow> (\<exists>r \<in> set t. rqID r = fnRequestID f \<and> delete_command (rqCommand r) \<and>
     rqPhase r \<in> {PhExecuting, PhInterrupted, PhDone, PhFailed})"

definition cleanup_ok :: "db \<Rightarrow> bool" where
  "cleanup_ok d \<longleftrightarrow> (\<forall>c \<in> set (cleanup_receipts d). receipt_ok (lifecycle_requests d) c) \<and>
     (\<forall>f \<in> set (cleanup_fences d). fence_ok (lifecycle_requests d) f) \<and>
     (\<forall>c \<in> set (cleanup_receipts d). \<forall>f \<in> set (cleanup_fences d). rcRequestID c \<noteq> fnRequestID f)"

definition store_inv :: "db \<Rightarrow> bool" where
  "store_inv d \<longleftrightarrow> keys_ok d \<and> instances_ok (instances d) \<and> cleanup_ok d"

lemma stopped_ok_update:
  "stopped_ok r \<Longrightarrow> iStoppedSince r' = iStoppedSince r \<Longrightarrow> stopped_ok (stopped_update r r')"
  by (auto simp: stopped_ok_def stopped_update_def)

lemma stopped_update_key [simp]:
  "iID (stopped_update r r') = iID r'" "iName (stopped_update r r') = iName r'"
  "iState (stopped_update r r') = iState r'"
  by (simp_all add: stopped_update_def)

lemma instances_ok_update:
  assumes "instances_ok t"
    and "\<And>r. r \<in> set t \<Longrightarrow> p r \<Longrightarrow> iID (f r) = iID r \<and> iName (f r) = iName r \<and> iStoppedSince (f r) = iStoppedSince r"
  shows "instances_ok (row_update p (\<lambda>r. stopped_update r (f r)) t)"
  using assms unfolding instances_ok_def
  by (auto intro!: is_key_update stopped_ok_update simp: set_row_update)

lemma instances_ok_append:
  "instances_ok t \<Longrightarrow> stopped_ok r \<Longrightarrow> \<forall>x \<in> set t. \<not> (iID x = iID r \<or> iName x = iName r) \<Longrightarrow>
    instances_ok (t @ [r])"
  by (auto simp: instances_ok_def table_simps)

lemma instances_ok_delete: "instances_ok t \<Longrightarrow> instances_ok (row_delete p t)"
  by (auto simp: instances_ok_def is_key_delete set_row_delete)

lemma instances_ok_migrate: "instances_ok (instances d) \<Longrightarrow> instances_ok (instances (migrate now d))"
  by (auto simp: instances_ok_def migrate_def set_row_update stopped_ok_def intro!: is_key_update)

lemma instances_ok_create:
  "CreateInstance now i d = Inr d' \<Longrightarrow> instances_ok (instances d) \<Longrightarrow> instances_ok (instances d')"
  by (auto simp: CreateInstance_def Let_def result_simps row_insert_Inr stopped_insert_def stopped_ok_def
      instance_to_row_def split: if_splits intro!: instances_ok_append)

lemma instances_ok_exec:
  assumes "store_exec now c d = Inr d'" "instances_ok (instances d)"
  shows "instances_ok (instances d')"
proof (cases c)
  case (CCreateInstance i) with assms show ?thesis by (auto intro: instances_ok_create)
next
  case COpen with assms show ?thesis by (auto intro: instances_ok_migrate)
next
  case (CBeginCleanup q a i)
  with assms show ?thesis
    by (auto elim!: BeginCleanup_InrE simp: begun_def intro!: instances_ok_update)
next
  case (CCommitCleanup r)
  with assms show ?thesis
    by (auto elim!: CommitCleanup_InrE simp: tombstone_def intro!: instances_ok_update)
qed (use assms in \<open>auto simp: request_op_defs instance_op_defs other_op_defs AdmitBootstrap_def Let_def
    result_simps update_columns_def intro!: instances_ok_update instances_ok_delete split: split_results\<close>)

lemma journal_change_key:
  "journal_change t t' \<Longrightarrow> is_key rqID t \<Longrightarrow> is_key rqID t'"
  by (auto elim!: journal_change.cases intro!: is_key_update simp: table_simps same_request_def)

lemma row_upsert_key:
  assumes "is_key k t"
  shows "is_key k (row_upsert (\<lambda>x. k x = k r) r t)"
  using assms by (auto simp: row_upsert_def table_simps intro!: is_key_update)

lemmas exec_defs = request_op_defs instance_op_defs other_op_defs AdmitBootstrap_def Let_def
  result_simps table_simps pool_to_row_def begun_def

lemma pools_key_exec:
  assumes "store_exec now c d = Inr d'" "is_key pID (memory_pools d)" "is_key pName (memory_pools d)"
  shows "is_key pID (memory_pools d') \<and> is_key pName (memory_pools d')"
  using assms
  by (cases c) (auto simp: exec_defs intro!: is_key_update is_key_delete split: split_results
    elim!: BeginCleanup_InrE CommitCleanup_InrE)

lemma resizes_key_exec:
  assumes "store_exec now c d = Inr d'"
    "is_key rzPoolID (memory_pool_resizes d)" "is_key rzRequestID (memory_pool_resizes d)"
  shows "is_key rzPoolID (memory_pool_resizes d') \<and> is_key rzRequestID (memory_pool_resizes d')"
  using assms
  by (cases c) (auto simp: exec_defs intro!: is_key_delete split: split_results
    elim!: BeginCleanup_InrE CommitCleanup_InrE)

lemma integrations_key_exec:
  assumes "store_exec now c d = Inr d'"
    "is_key igID (integrations d)" "is_key igName (integrations d)"
    "is_key (\<lambda>b. (bdInstanceID b, bdIntegrationID b)) (instance_integrations d)"
  shows "is_key igID (integrations d') \<and> is_key igName (integrations d') \<and>
    is_key (\<lambda>b. (bdInstanceID b, bdIntegrationID b)) (instance_integrations d')"
  using assms
  by (cases c) (auto simp: exec_defs intro!: is_key_delete split: split_results
    elim!: BeginCleanup_InrE CommitCleanup_InrE)

lemma events_key_exec:
  assumes "store_exec now c d = Inr d'" "is_key evID (instance_events d)"
    "\<forall>e \<in> set (instance_events d). evID e \<le> event_sequence d"
  shows "is_key evID (instance_events d') \<and> (\<forall>e \<in> set (instance_events d'). evID e \<le> event_sequence d')"
proof (cases c)
  case (CRecordEvent e)
  with assms show ?thesis by (fastforce simp: RecordEvent_def Let_def table_simps)
qed (use assms in \<open>auto simp: exec_defs intro!: is_key_delete split: split_results
    elim!: BeginCleanup_InrE CommitCleanup_InrE\<close>)

lemma migrations_key_exec:
  assumes "store_exec now c d = Inr d'"
    "is_key mgInstanceID (migrations d)" "is_key irInstanceID (import_receipts d)"
  shows "is_key mgInstanceID (migrations d') \<and> is_key irInstanceID (import_receipts d')"
  using assms
  by (cases c) (auto simp: exec_defs intro!: is_key_update is_key_delete row_upsert_key split: split_results
    elim!: BeginCleanup_InrE CommitCleanup_InrE)

lemma identity_key_exec:
  assumes "store_exec now c d = Inr d'"
    "is_key ekInstanceID (enrollment_keys d)" "is_key obInstanceID (orb_bootstrap d)"
  shows "is_key ekInstanceID (enrollment_keys d') \<and> is_key obInstanceID (orb_bootstrap d')"
  using assms
  by (cases c) (auto simp: exec_defs intro!: is_key_update split: split_results
    elim!: BeginCleanup_InrE CommitCleanup_InrE)

lemma cleanup_key_exec:
  assumes "store_exec now c d = Inr d'" "is_key rcRequestID (cleanup_receipts d)"
    "is_key fnInstanceID (cleanup_fences d)" "is_key fnRequestID (cleanup_fences d)"
  shows "is_key rcRequestID (cleanup_receipts d') \<and>
    is_key fnInstanceID (cleanup_fences d') \<and> is_key fnRequestID (cleanup_fences d')"
  using assms
  by (cases c) (auto simp: exec_defs intro!: is_key_delete split: split_results
    elim!: BeginCleanup_InrE CommitCleanup_InrE)

lemma keys_ok_exec: "store_exec now c d = Inr d' \<Longrightarrow> keys_ok d \<Longrightarrow> keys_ok d'"
  using pools_key_exec[of now c d d'] resizes_key_exec[of now c d d'] integrations_key_exec[of now c d d']
    events_key_exec[of now c d d'] migrations_key_exec[of now c d d'] identity_key_exec[of now c d d']
    cleanup_key_exec[of now c d d'] journal_change_key[OF journal_change_exec, of now c d d']
  by (simp add: keys_ok_def)

text \<open>The cleanup tables change only in the two cleanup calls.\<close>

lemma cleanup_tables_exec:
  assumes "store_exec now c d = Inr d'" "\<nexists>q a i. c = CBeginCleanup q a i" "\<nexists>r. c = CCommitCleanup r"
  shows "cleanup_receipts d' = cleanup_receipts d \<and> cleanup_fences d' = cleanup_fences d"
  using assms by (cases c) (auto simp: exec_defs split: split_results)

lemma fence_phases:
  "(phase_edge c)\<^sup>*\<^sup>* p q \<Longrightarrow> p \<in> {PhExecuting, PhInterrupted, PhDone, PhFailed} \<Longrightarrow> delete_command c \<Longrightarrow>
    q \<in> {PhExecuting, PhInterrupted, PhDone, PhFailed}"
  by (induction rule: rtranclp_induct) (auto simp: phase_edge_simps delete_command_def)

lemma fence_ok_change: "journal_change t t' \<Longrightarrow> fence_ok t f \<Longrightarrow> fence_ok t' f"
  unfolding fence_ok_def
  by (metis (no_types, lifting) fence_phases journal_change_leads same_request_def)

lemma receipt_ok_change: "journal_change t t' \<Longrightarrow> receipt_ok t c \<Longrightarrow> receipt_ok t' c"
proof -
  assume chg: "journal_change t t'" and ok: "receipt_ok t c"
  from ok obtain r where r: "r \<in> set t" "rqID r = rcRequestID c" "rqActor r = rcActor c"
    "delete_command (rqCommand r)" "rqName r = crName (rcReceipt c)" "rqPhase r = PhDone"
    by (auto simp: receipt_ok_def)
  from journal_change_leads[OF chg r(1)] obtain r' where r': "r' \<in> set t'" "same_request r r'"
    "rqPhase r' = PhDone" unfolding r(6) phase_done_final by blast
  have "\<exists>r \<in> set t'. rqID r = rcRequestID c \<and> rqActor r = rcActor c \<and> delete_command (rqCommand r) \<and>
      rqName r = crName (rcReceipt c) \<and> rqPhase r = PhDone"
    using r r' by (intro bexI[of _ r']) (simp_all add: same_request_def)
  with ok show ?thesis by (simp add: receipt_ok_def)
qed

lemma cleanup_ok_BeginCleanup:
  assumes "BeginCleanup now q a i d = Inr d'" "cleanup_ok d" "keys_ok d"
  shows "cleanup_ok d'"
  using assms(1)
proof (rule BeginCleanup_InrE)
  fix resume cmd fences
  assume d': "d' = begun now q a i resume cmd fences d"
    and one: "row_count (deletion_row q a (iName i) (begin_phases resume)) (lifecycle_requests d) = 1"
    and fences: "if resume then fences = cleanup_fences d \<and> \<lparr>fnInstanceID = iID i, fnRequestID = q\<rparr> \<in> set fences
     else fences = cleanup_fences d @ [\<lparr>fnInstanceID = iID i, fnRequestID = q\<rparr>] \<and>
       (\<forall>f \<in> set (cleanup_fences d). fnInstanceID f \<noteq> iID i \<and> fnRequestID f \<noteq> q)"
  from one obtain r where r: "r \<in> set (lifecycle_requests d)"
    "deletion_row q a (iName i) (begin_phases resume) r" by (rule row_count_oneE)
  have chg: "journal_change (lifecycle_requests d) (lifecycle_requests d')"
    using assms(1) by (rule journal_change_BeginCleanup)
  have new: "fence_ok (lifecycle_requests d') \<lparr>fnInstanceID = iID i, fnRequestID = q\<rparr>"
    using row_update_mem[where p = "deletion_row q a (iName i) (begin_phases resume)" and
      f = "\<lambda>r. r\<lparr>rqPhase := PhExecuting, rqExitCode := 0\<rparr>", OF r] r(2)
    by (auto simp: fence_ok_def d' begun_def deletion_row_def owned_by_def
      intro!: bexI[of _ "r\<lparr>rqPhase := PhExecuting, rqExitCode := 0\<rparr>"])
  have none: "rcRequestID c \<noteq> q" if c: "c \<in> set (cleanup_receipts d)" for c
  proof
    assume "rcRequestID c = q"
    with c assms(2) obtain r' where "r' \<in> set (lifecycle_requests d)" "rqID r' = q" "rqPhase r' = PhDone"
      by (auto simp: cleanup_ok_def receipt_ok_def)
    moreover with r assms(3) have "r' = r"
      by (auto simp: keys_ok_def deletion_row_def owned_by_def intro: is_key_eq)
    ultimately show False using r(2) by (auto simp: deletion_row_def begin_phases_def split: if_splits)
  qed
  have "cleanup_receipts d' = cleanup_receipts d" "cleanup_fences d' = fences" by (simp_all add: d' begun_def)
  moreover have "f = \<lparr>fnInstanceID = iID i, fnRequestID = q\<rparr> \<or> f \<in> set (cleanup_fences d)"
    if "f \<in> set fences" for f
    using fences that by (auto split: if_splits)
  ultimately show ?thesis
    using assms(2) new none fence_ok_change[OF chg] receipt_ok_change[OF chg]
    unfolding cleanup_ok_def by fastforce
qed

lemma cleanup_ok_CommitCleanup:
  assumes "CommitCleanup now r d = Inr d'" "cleanup_ok d" "keys_ok d"
  shows "cleanup_ok d'"
  using assms(1)
proof (rule CommitCleanup_InrE)
  let ?p = "deletion_row (crRequestID r) (crActor r) (crName r) {PhExecuting}"
  assume ok: "check_receipt r = Inr ()" and one: "row_count ?p (lifecycle_requests d) = 1"
    and fence: "row_count (fence_of r) (cleanup_fences d) = 1"
    and d': "d' = d\<lparr>lifecycle_requests := row_update ?p
         (\<lambda>q. q\<lparr>rqPhase := PhDone, rqExitCode := 0\<rparr>) (lifecycle_requests d),
     instances := row_update (proven_row now r d)
       (\<lambda>i. stopped_update i (tombstone now (crDeletedAt r) i)) (instances d),
     cleanup_receipts := cleanup_receipts d @
       [\<lparr>rcRequestID = crRequestID r, rcActor = crActor r, rcReceipt = r\<rparr>],
     cleanup_fences := row_delete (fence_of r) (cleanup_fences d)\<rparr>"
  have chg: "journal_change (lifecycle_requests d) (lifecycle_requests d')"
    using assms(1) by (rule journal_change_CommitCleanup)
  from one obtain q where q: "q \<in> set (lifecycle_requests d)" "?p q" by (rule row_count_oneE)
  have new: "receipt_ok (lifecycle_requests d')
      \<lparr>rcRequestID = crRequestID r, rcActor = crActor r, rcReceipt = r\<rparr>"
    using row_update_mem[where p = ?p and f = "\<lambda>q. q\<lparr>rqPhase := PhDone, rqExitCode := 0\<rparr>", OF q] q(2) ok
    by (auto simp: receipt_ok_def d' deletion_row_def owned_by_def
      intro!: bexI[of _ "q\<lparr>rqPhase := PhDone, rqExitCode := 0\<rparr>"])
  from fence obtain f where f: "f \<in> set (cleanup_fences d)" "fence_of r f"
    by (rule row_count_oneE)
  have other: "fnRequestID g \<noteq> crRequestID r" if "g \<in> set (cleanup_fences d)" "\<not> fence_of r g" for g
    using f that assms(3) is_key_eq[of fnRequestID "cleanup_fences d" f g]
    by (auto simp: keys_ok_def fence_of_def)
  have tables: "cleanup_receipts d' = cleanup_receipts d @
      [\<lparr>rcRequestID = crRequestID r, rcActor = crActor r, rcReceipt = r\<rparr>]"
    "set (cleanup_fences d') = {g \<in> set (cleanup_fences d). \<not> fence_of r g}"
    by (simp_all add: d' set_row_delete)
  show ?thesis
    unfolding cleanup_ok_def tables
    using assms(2) new fence_ok_change[OF chg] receipt_ok_change[OF chg] other
    by (fastforce simp: cleanup_ok_def)
qed

lemma store_inv_exec:
  assumes "store_exec now c d = Inr d'" "store_inv d"
  shows "store_inv d'"
proof -
  have "cleanup_ok d'" if "cleanup_ok d" "keys_ok d"
  proof (cases "(\<exists>q a i. c = CBeginCleanup q a i) \<or> (\<exists>r. c = CCommitCleanup r)")
    case True
    with assms(1) that show ?thesis by (auto intro: cleanup_ok_BeginCleanup cleanup_ok_CommitCleanup)
  next
    case False
    with cleanup_tables_exec[OF assms(1)] that journal_change_exec[OF assms(1)] show ?thesis
      by (auto simp: cleanup_ok_def intro: fence_ok_change receipt_ok_change)
  qed
  with assms show ?thesis by (auto simp: store_inv_def intro: keys_ok_exec instances_ok_exec)
qed

interpretation tables: invariant_system store_step "\<lambda>d. d = empty_db" store_inv
proof
  show "store_inv d" if "d = empty_db" for d
    using that by (simp add: store_inv_def keys_ok_def instances_ok_def cleanup_ok_def empty_db_def)
qed (auto intro: store_inv_exec)

subsection \<open>A request executes at most once\<close>

definition spent :: "string \<Rightarrow> db \<Rightarrow> bool" where
  "spent q d \<longleftrightarrow> (\<exists>r \<in> set (lifecycle_requests d). rqID r = q \<and> rqPhase r \<noteq> PhAdmitted)"

fun starts_executing :: "string \<Rightarrow> store_call \<Rightarrow> bool" where
  "starts_executing q (CBegin i a) \<longleftrightarrow> i = q"
| "starts_executing q (CAdmitBootstrap r i c g) \<longleftrightarrow> rqID r = q"
| "starts_executing q _ \<longleftrightarrow> False"

lemma spent_stays: "store_step d c d' \<Longrightarrow> spent q d \<Longrightarrow> spent q d'"
proof -
  assume "store_step d c d'" and "spent q d"
  then obtain r where r: "r \<in> set (lifecycle_requests d)" "rqID r = q" "rqPhase r \<noteq> PhAdmitted"
    by (auto simp: spent_def)
  moreover have "journal_leads d d'" using \<open>store_step d c d'\<close> by (rule journal.step_leads)
  ultimately obtain r' where r': "r' \<in> set (lifecycle_requests d')"
    "same_request r r'" "(phase_edge (rqCommand r))\<^sup>*\<^sup>* (rqPhase r) (rqPhase r')"
    unfolding journal_leads_def by blast
  with r have "rqID r' = q" "rqPhase r' \<noteq> PhAdmitted"
    by (auto simp: same_request_def phase_never_readmitted)
  with r'(1) show ?thesis by (auto simp: spent_def)
qed

lemma BeginLifecycleRequest_spends:
  assumes "BeginLifecycleRequest q a d = Inr d'" "keys_ok d"
  shows "\<not> spent q d \<and> spent q d'"
proof -
  let ?p = "\<lambda>r. owned_by q a r \<and> rqPhase r = PhAdmitted"
  from assms(1) have d': "row_count ?p (lifecycle_requests d) = 1"
    "d' = d\<lparr>lifecycle_requests := row_update ?p (\<lambda>r. r\<lparr>rqPhase := PhExecuting\<rparr>) (lifecycle_requests d)\<rparr>"
    by (simp_all add: BeginLifecycleRequest_def Let_def split: if_splits)
  from d'(1) obtain r where r: "r \<in> set (lifecycle_requests d)" "?p r" by (rule row_count_oneE)
  have "rqPhase r' = PhAdmitted" if "r' \<in> set (lifecycle_requests d)" "rqID r' = q" for r'
    using is_key_eq[of rqID "lifecycle_requests d" r r'] r that assms(2)
    by (auto simp: keys_ok_def owned_by_def)
  moreover have "spent q d'"
    using row_update_mem[where p = ?p and f = "\<lambda>r. r\<lparr>rqPhase := PhExecuting\<rparr>", OF r] r(2)
    by (auto simp: spent_def d'(2) owned_by_def intro!: bexI[of _ "r\<lparr>rqPhase := PhExecuting\<rparr>"])
  ultimately show ?thesis by (auto simp: spent_def)
qed

lemma AdmitBootstrap_spends:
  "AdmitBootstrap now r i c g d = Inr d' \<Longrightarrow> \<not> spent (rqID r) d \<and> spent (rqID r) d'"
  by (auto simp: AdmitBootstrap_def Let_def insert_request_def spent_def row_exists_iff split: if_splits)

lemma starts_executing_spends:
  assumes "store_exec now c d = Inr d'" "keys_ok d" "starts_executing q c"
  shows "\<not> spent q d \<and> spent q d'"
  using assms(3)
proof (cases rule: starts_executing.elims(2))
  case (1 i a)
  with assms show ?thesis using BeginLifecycleRequest_spends by simp
next
  case (2 r i c g)
  with assms show ?thesis using AdmitBootstrap_spends by auto
qed

interpretation executes: once_system store_step "\<lambda>d. d = empty_db" store_inv "starts_executing q" "spent q"
proof
  fix d c d' assume step: "store_step d c d'" and inv: "store_inv d"
  show "\<not> spent q d" if "starts_executing q c"
    using step inv that starts_executing_spends unfolding store_inv_def by blast
  show "spent q d'" if "starts_executing q c"
    using step inv that starts_executing_spends unfolding store_inv_def by blast
  show "spent q d'" if "spent q d" using step that by (rule spent_stays)
qed

end
