(* ===== verification/StoreProps.thy ===== *)
theory StoreProps
  imports StoreProofs
begin

section \<open>The store's guarantees\<close>

text \<open>
  The properties of the durable state that the rest of the program relies on, each for every
  sequence of calls or for every state the tables can reach.
\<close>

subsection \<open>Executable runs\<close>

fun store_execs :: "time \<Rightarrow> store_call list \<Rightarrow> db \<Rightarrow> db result" where
  "store_execs now [] d = Inr d"
| "store_execs now (c # cs) d = bindR (store_exec now c d) (store_execs now cs)"

lemma store_execs_run: "store_execs now cs d = Inr d' \<Longrightarrow> run store_step d cs d'"
  by (induction cs arbitrary: d) (auto simp: bindR_Inr_iff intro: run_cons store_step.call)

subsection \<open>Tables that only grow\<close>

definition receipts_grow :: "db \<Rightarrow> db \<Rightarrow> bool" where
  "receipts_grow d d' \<longleftrightarrow> (\<exists>xs. cleanup_receipts d' = cleanup_receipts d @ xs)"

lemma receipts_grow_exec: "store_exec now c d = Inr d' \<Longrightarrow> receipts_grow d d'"
proof (cases "(\<exists>q a i. c = CBeginCleanup q a i) \<or> (\<exists>r. c = CCommitCleanup r)")
  case True
  assume "store_exec now c d = Inr d'"
  with True show ?thesis
    by (auto simp: receipts_grow_def begun_def elim!: BeginCleanup_InrE CommitCleanup_InrE)
next
  case False
  assume "store_exec now c d = Inr d'"
  from cleanup_tables_exec[OF this] False show ?thesis by (auto simp: receipts_grow_def)
qed

interpretation receipts: monotone_system store_step receipts_grow
proof
  show "receipts_grow d d" for d by (simp add: receipts_grow_def)
  show "receipts_grow d f" if "receipts_grow d e" "receipts_grow e f" for d e f
    using that by (auto simp: receipts_grow_def)
qed (auto intro: receipts_grow_exec)

text \<open>The bootstrap generation of an orb never falls.\<close>

definition bootstrap_leads :: "db \<Rightarrow> db \<Rightarrow> bool" where
  "bootstrap_leads d d' \<longleftrightarrow> (\<forall>b \<in> set (orb_bootstrap d). \<exists>b' \<in> set (orb_bootstrap d').
     obInstanceID b' = obInstanceID b \<and> obCreatedAt b' = obCreatedAt b \<and> obGeneration b \<le> obGeneration b')"

lemma bootstrap_leads_update:
  assumes "\<And>b. p b \<Longrightarrow> obGeneration b \<le> g"
  shows "\<forall>b \<in> set t. \<exists>b' \<in> set (row_update p (\<lambda>b. b\<lparr>obGeneration := g\<rparr>) t).
     obInstanceID b' = obInstanceID b \<and> obCreatedAt b' = obCreatedAt b \<and> obGeneration b \<le> obGeneration b'"
proof
  fix b assume "b \<in> set t"
  then have "(if p b then b\<lparr>obGeneration := g\<rparr> else b) \<in> set (row_update p (\<lambda>b. b\<lparr>obGeneration := g\<rparr>) t)"
    by (auto simp: row_update_def)
  then show "\<exists>b' \<in> set (row_update p (\<lambda>b. b\<lparr>obGeneration := g\<rparr>) t).
     obInstanceID b' = obInstanceID b \<and> obCreatedAt b' = obCreatedAt b \<and> obGeneration b \<le> obGeneration b'"
    using assms[of b] by (intro bexI) auto
qed

lemma bootstrap_leads_same: "orb_bootstrap d' = orb_bootstrap d \<Longrightarrow> bootstrap_leads d d'"
  by (auto simp: bootstrap_leads_def)

lemma bootstrap_leads_refl [simp]: "bootstrap_leads d d"
  by (rule bootstrap_leads_same) simp

lemma bootstrap_leads_exec: "store_exec now c d = Inr d' \<Longrightarrow> bootstrap_leads d d'"
proof (cases c)
  case (CAdmitBootstrap r i cr g)
  assume "store_exec now c d = Inr d'"
  with CAdmitBootstrap have "orb_bootstrap d' = row_update (\<lambda>b. obInstanceID b = i \<and>
      obCreatedAt b = timeString now cr \<and> obGeneration b < g) (\<lambda>b. b\<lparr>obGeneration := g\<rparr>) (orb_bootstrap d)"
    by (auto simp: AdmitBootstrap_def Let_def insert_request_def split: if_splits)
  then show ?thesis
    unfolding bootstrap_leads_def by (simp only:) (rule bootstrap_leads_update, simp)
next
  case (CCreateInstance i)
  assume "store_exec now c d = Inr d'"
  with CCreateInstance show ?thesis
    by (fastforce simp: bootstrap_leads_def CreateInstance_def Let_def result_simps split: if_splits)
qed (auto intro!: bootstrap_leads_same simp: exec_defs split: split_results
    elim!: BeginCleanup_InrE CommitCleanup_InrE)

interpretation bootstrap: monotone_system store_step bootstrap_leads
proof
  show "bootstrap_leads d f" if "bootstrap_leads d e" "bootstrap_leads e f" for d e f
    using that unfolding bootstrap_leads_def by (metis order_trans)
qed (auto intro: bootstrap_leads_exec)

subsection \<open>Requests\<close>

lemma GetLifecycleRequest_iff:
  "is_key rqID (lifecycle_requests d) \<Longrightarrow>
    GetLifecycleRequest q a d = Inr r \<longleftrightarrow> r \<in> set (lifecycle_requests d) \<and> owned_by q a r"
  unfolding GetLifecycleRequest_def
  by (auto split: option.splits simp: row_find_None owned_by_def dest!: row_find_Some intro: is_key_eq)

lemma journal_leads_get:
  assumes "store_inv d" "store_inv d'" "journal_leads d d'" "GetLifecycleRequest q a d = Inr r"
  obtains r' where "GetLifecycleRequest q a d' = Inr r'" "same_request r r'"
    "(phase_edge (rqCommand r))\<^sup>*\<^sup>* (rqPhase r) (rqPhase r')"
proof -
  have keys: "is_key rqID (lifecycle_requests d)" "is_key rqID (lifecycle_requests d')"
    using assms(1,2) by (simp_all add: store_inv_def keys_ok_def)
  with assms(4) have "r \<in> set (lifecycle_requests d)" "owned_by q a r"
    by (simp_all add: GetLifecycleRequest_iff)
  with assms(3) obtain r' where "r' \<in> set (lifecycle_requests d')" "same_request r r'"
    "(phase_edge (rqCommand r))\<^sup>*\<^sup>* (rqPhase r) (rqPhase r')" "owned_by q a r'"
    unfolding journal_leads_def owned_by_def same_request_def by metis
  with that keys(2) show thesis by (simp add: GetLifecycleRequest_iff)
qed

lemma receipt_found:
  assumes "store_inv d" "GetCleanupReceipt q a d = Inr r"
  shows "\<exists>x. GetLifecycleRequest q a d = Inr x \<and> rqPhase x = PhDone"
proof -
  from assms(2) obtain c where "c \<in> set (cleanup_receipts d)" "rcRequestID c = q" "rcActor c = a"
    by (auto simp: GetCleanupReceipt_def split: option.splits dest!: row_find_Some)
  with assms(1) obtain x where "x \<in> set (lifecycle_requests d)" "owned_by q a x" "rqPhase x = PhDone"
    by (force simp: store_inv_def cleanup_ok_def receipt_ok_def owned_by_def)
  with assms(1) show ?thesis by (auto simp: GetLifecycleRequest_iff store_inv_def keys_ok_def)
qed

lemma done_not_begun:
  assumes "store_inv d" "GetLifecycleRequest q a d = Inr x" "rqPhase x = PhDone"
  shows "\<exists>e. BeginCleanup now q a i d = Inl e"
proof (cases "BeginCleanup now q a i d")
  case (Inr d')
  have keys: "is_key rqID (lifecycle_requests d)" using assms(1) by (simp add: store_inv_def keys_ok_def)
  from Inr show ?thesis
  proof (rule BeginCleanup_InrE)
    fix resume :: bool
    assume "row_count (deletion_row q a (iName i) (begin_phases resume)) (lifecycle_requests d) = 1"
    then obtain y where y: "y \<in> set (lifecycle_requests d)"
      "deletion_row q a (iName i) (begin_phases resume) y" by (rule row_count_oneE)
    with assms(2) keys have "y = x"
      by (auto simp: GetLifecycleRequest_iff deletion_row_def owned_by_def intro: is_key_eq)
    with y(2) assms(3) show ?thesis by (auto simp: deletion_row_def begin_phases_def split: if_splits)
  qed
qed auto

lemma receipts_grow_get:
  "receipts_grow d d' \<Longrightarrow> GetCleanupReceipt q a d = Inr r \<Longrightarrow> GetCleanupReceipt q a d' = Inr r"
  by (auto simp: receipts_grow_def GetCleanupReceipt_def row_find_append split: option.splits)

subsection \<open>Instance rows\<close>

lemma scan_instance_to_row:
  assumes "valid_time now" "valid_time (iCreatedAt i)" "valid_time (iUpdatedAt i)"
    "\<not> IsZero (iCreatedAt i)" "\<not> IsZero (iUpdatedAt i)"
    "\<And>t. iDeletedAt i = Some t \<Longrightarrow> valid_time t \<and> \<not> IsZero t"
  shows "scanInstance (stopped_insert (instance_to_row now (normalizeInstanceMemory i))) =
    Inr ((normalizeInstanceMemory i)\<lparr>iKind := KindName i\<rparr>)"
  using assms
  by (auto simp: scanInstance_def stopped_insert_def instance_to_row_def normalizeInstanceMemory_def Let_def
    KindName_def nullableTime_def parseTime_timeString split: option.splits)

subsection \<open>An example database\<close>

definition ex_now :: time where
  "ex_now = \<lparr>tYear = 2025, tMonth = 6, tDay = 1, tHour = 12, tMin = 0, tSec = 0, tNano = 120000000\<rparr>"

definition ex_created :: time where
  "ex_created = \<lparr>tYear = 2025, tMonth = 6, tDay = 1, tHour = 12, tMin = 0, tSec = 0, tNano = 100000000\<rparr>"

definition ex_instance :: Instance where
  "ex_instance = empty_instance\<lparr>iID := ''i1'', iName := ''web'', iKind := KindVM, iImage := ''arch'',
     iState := StateStopped, iCreatedAt := ex_created, iUpdatedAt := ex_created,
     iCreatedByUser := ''ada'', iCreatedByNode := ''laptop'', iRootFSPath := ''/r'',
     iTapDevice := ''tap0'', iNetworkCIDR := ''10.0.0.0/30''\<rparr>"

definition ex_orb :: Instance where
  "ex_orb = ex_instance\<lparr>iID := ''o1'', iName := ''orb1'', iKind := KindOrb\<rparr>"

definition ex_delete :: LifecycleRequest where
  "ex_delete = \<lparr>rqID = ''q1'', rqActor = ''ada'', rqCommand = ''delete-proof'', rqName = ''web'',
     rqArguments = [], rqPhase = PhAdmitted, rqExitCode = 0\<rparr>"

definition ex_start :: LifecycleRequest where
  "ex_start = ex_delete\<lparr>rqID := ''q2'', rqCommand := ''start''\<rparr>"

definition ex_receipt :: CleanupReceipt where
  "ex_receipt = \<lparr>crVersion = 5, crBackendID = ''b'', crKind = KindVM, crImage = ''arch'',
     crRequestID = ''q1'', crActor = ''ada'', crInstanceID = ''i1'', crName = ''web'',
     crCreatedAt = ex_created, crCreatedByUser = ''ada'', crCreatedByNode = ''laptop'',
     crAuthKeyDisposition = ''not-asserted'', crTailnetNodeID = [], crTailnetDisposition = ''absent'',
     crRetainedTemplates = None, crIngressClosed = True, crGatewaysAbsent = True,
     crRuntimeAbsent = True, crJailerAbsent = True, crCgroupAbsent = True, crNetworkAbsent = True,
     crTapDevice = ''tap0'', crNetworkCIDR = ''10.0.0.0/30'', crInstanceDir = ''/i'',
     crRootFSPath = ''/r'', crBackupsDir = ''/b'', crStorageAbsent = True, crBackupsAbsent = False,
     crSnapshotsAbsent = False, crDeletedAt = ex_now\<rparr>"

definition ex_calls :: "store_call list" where
  "ex_calls = [CCreateInstance ex_instance, CCreateInstance ex_orb, CAdmit ex_delete, CAdmit ex_start,
     CBegin ''q2'' ''ada'', CBeginCleanup ''q1'' ''ada'' ex_instance]"

definition ex_db :: db where
  "ex_db = (case store_execs ex_now ex_calls empty_db of Inr d \<Rightarrow> d | Inl _ \<Rightarrow> empty_db)"

lemma ex_db_exec: "store_execs ex_now ex_calls empty_db = Inr ex_db"
proof -
  have "\<not> isl (store_execs ex_now ex_calls empty_db)" by code_simp
  then show ?thesis by (cases "store_execs ex_now ex_calls empty_db") (auto simp: ex_db_def)
qed

lemma ex_db_run: "run store_step empty_db ex_calls ex_db"
  using ex_db_exec by (rule store_execs_run)

lemma ex_db_inv: "store_inv ex_db"
  using ex_db_run by (auto intro: tables.reachable_inv)

subsection \<open>Requests and receipts\<close>



text \<open>C2: every reachable state of the tables satisfies the invariant: all primary and unique
  keys hold, an instance has a stop date exactly when it is stopped, every receipt is a complete
  proof of a deletion whose request is done, every fence belongs to a deletion that has begun,
  and no request has both.\<close>

theorem store_invariant: "run store_step empty_db cs d \<Longrightarrow> store_inv d"
  by (auto intro: tables.reachable_inv)

theorem store_invariant_witness: "run store_step empty_db ex_calls ex_db \<and> store_inv ex_db"
  using ex_db_run store_invariant[OF ex_db_run] by simp

text \<open>C3: a recorded request is never lost or rebound, and once it is done or rejected, or, unless
  it is a deletion, failed, cancelled or interrupted, no later sequence of calls changes that.\<close>

theorem request_binding_permanent:
  assumes "run store_step empty_db cs d" "GetLifecycleRequest q a d = Inr r" "run store_step d cs' d'"
  shows "\<exists>r'. GetLifecycleRequest q a d' = Inr r' \<and> same_request r r' \<and>
    (rqPhase r \<in> {PhDone, PhRejected} \<or>
      \<not> delete_command (rqCommand r) \<and> rqPhase r \<in> {PhFailed, PhCancelled, PhInterrupted}
      \<longrightarrow> rqPhase r' = rqPhase r)"
proof -
  have inv: "store_inv d" using assms(1) by (auto intro: tables.reachable_inv)
  moreover from assms(3) inv have "store_inv d'" by (rule tables.run_inv)
  moreover have "journal_leads d d'" using assms(3) by (rule journal.run_leads)
  ultimately obtain r' where r': "GetLifecycleRequest q a d' = Inr r'" "same_request r r'"
    "(phase_edge (rqCommand r))\<^sup>*\<^sup>* (rqPhase r) (rqPhase r')"
    using assms(2) by (rule journal_leads_get)
  then show ?thesis
    using phase_done_final phase_rejected_final phase_closed_final[of "rqCommand r" "rqPhase r" "rqPhase r'"]
    by auto
qed

definition ex_db_done :: db where
  "ex_db_done = (case store_exec ex_now (CFinish ''q2'' ''ada'' 0) ex_db of Inr d \<Rightarrow> d | Inl _ \<Rightarrow> empty_db)"

lemma ex_db_done_run:
  "run store_step empty_db (ex_calls @ [CFinish ''q2'' ''ada'' 0]) ex_db_done"
  by (rule run_append[OF ex_db_run])
    (auto simp: run_single ex_db_done_def FinishLifecycleRequest_def Let_def intro!: store_step.call)

lemma ex_db_interrupt_run:
  "run store_step ex_db_done [CInterrupt] (case InterruptLifecycleRequests ex_db_done of Inr d \<Rightarrow> d)"
  by (auto simp: run_single InterruptLifecycleRequests_def intro!: store_step.call)

theorem request_binding_permanent_witness:
  "\<exists>r'. GetLifecycleRequest ''q2'' ''ada'' (case InterruptLifecycleRequests ex_db_done of Inr d \<Rightarrow> d) = Inr r' \<and>
    rqCommand r' = ''start'' \<and> rqPhase r' = PhDone"
proof -
  have "GetLifecycleRequest ''q2'' ''ada'' ex_db_done = Inr (ex_start\<lparr>rqPhase := PhDone\<rparr>)" by code_simp
  from request_binding_permanent[OF ex_db_done_run this ex_db_interrupt_run]
  show ?thesis by (auto simp: same_request_def ex_start_def)
qed

lemma CommitCleanup_instances:
  assumes "store_inv d" "CommitCleanup now r d = Inr d'"
  obtains i where "row_find (\<lambda>x. iID x = crInstanceID r) (instances d) = Some i" "proven_row now r d i"
    "\<And>v. row_find (\<lambda>x. iID x = v) (instances d') = (if v = crInstanceID r
      then Some (stopped_update i (tombstone now (crDeletedAt r) i)) else row_find (\<lambda>x. iID x = v) (instances d))"
  using assms(2)
proof (rule CommitCleanup_InrE)
  let ?f = "\<lambda>i. stopped_update i (tombstone now (crDeletedAt r) i)"
  assume "row_count (proven_row now r d) (instances d) = 1"
  then obtain i where i: "i \<in> set (instances d)" "proven_row now r d i" by (rule row_count_oneE)
  then have found: "row_find (\<lambda>x. iID x = crInstanceID r) (instances d) = Some i"
    using assms(1) row_find_key[of iID "instances d" i]
    by (auto simp: store_inv_def instances_ok_def proven_row_def)
  assume "d' = d\<lparr>lifecycle_requests :=
       row_update (deletion_row (crRequestID r) (crActor r) (crName r) {PhExecuting})
         (\<lambda>q. q\<lparr>rqPhase := PhDone, rqExitCode := 0\<rparr>) (lifecycle_requests d),
     instances := row_update (proven_row now r d) ?f (instances d),
     cleanup_receipts := cleanup_receipts d @
       [\<lparr>rcRequestID = crRequestID r, rcActor = crActor r, rcReceipt = r\<rparr>],
     cleanup_fences := row_delete (fence_of r) (cleanup_fences d)\<rparr>"
  then have upd: "row_find (\<lambda>x. iID x = v) (instances d') =
      map_option (\<lambda>i. if proven_row now r d i then ?f i else i) (row_find (\<lambda>x. iID x = v) (instances d))" for v
    using row_find_update_key[of "proven_row now r d" iID ?f v "instances d"] by (simp add: tombstone_def)
  have "row_find (\<lambda>x. iID x = v) (instances d') = (if v = crInstanceID r
      then Some (?f i) else row_find (\<lambda>x. iID x = v) (instances d))" for v
    using found i(2) unfolding upd by (cases "row_find (\<lambda>x. iID x = v) (instances d)")
      (auto simp: proven_row_def dest: row_find_Some)
  with found i(2) show thesis by (rule that)
qed

lemma CommitCleanup_receipt:
  assumes "CommitCleanup now r d = Inr d'"
  shows "GetCleanupReceipt (crRequestID r) (crActor r) d' = Inr r"
  using assms
proof (rule CommitCleanup_InrE)
  assume "\<forall>c \<in> set (cleanup_receipts d). rcRequestID c \<noteq> crRequestID r"
  then have none: "row_find (\<lambda>c. rcRequestID c = crRequestID r \<and> rcActor c = crActor r) (cleanup_receipts d) = None"
    by (auto simp: row_find_None)
  have "cleanup_receipts d' = cleanup_receipts d @
       [\<lparr>rcRequestID = crRequestID r, rcActor = crActor r, rcReceipt = r\<rparr>]"
    using assms by (auto elim!: CommitCleanup_InrE)
  with none show ?thesis by (simp add: GetCleanupReceipt_def row_find_append)
qed

lemma CommitCleanup_fence:
  assumes "store_inv d" "CommitCleanup now r d = Inr d'"
  shows "CheckCleanupFence (crInstanceID r) d' = Inr ()"
  using assms(2)
proof (rule CommitCleanup_InrE)
  assume "row_count (fence_of r) (cleanup_fences d) = 1"
  then obtain f where "f \<in> set (cleanup_fences d)" "fence_of r f" by (rule row_count_oneE)
  moreover have "cleanup_fences d' = row_delete (fence_of r) (cleanup_fences d)"
    using assms(2) by (auto elim!: CommitCleanup_InrE)
  ultimately show ?thesis
    using assms(1) is_key_eq[of fnInstanceID "cleanup_fences d" f]
    by (auto simp: CheckCleanupFence_def row_exists_iff set_row_delete fence_of_def store_inv_def keys_ok_def)
qed

text \<open>C4: a committed cleanup is atomic and complete. The receipt can be read back, the request is
  done, the instance the receipt names was in deletion and is now a tombstone with no runtime, no
  fence of the instance is left, and every other instance is untouched.\<close>

theorem commit_cleanup_complete:
  assumes "store_inv d" "CommitCleanup now r d = Inr d'"
  shows "GetCleanupReceipt (crRequestID r) (crActor r) d' = Inr r \<and>
    (\<exists>x. GetLifecycleRequest (crRequestID r) (crActor r) d' = Inr x \<and> rqPhase x = PhDone) \<and>
    CheckCleanupFence (crInstanceID r) d' = Inr () \<and>
    (\<exists>i i'. row_find (\<lambda>x. iID x = crInstanceID r) (instances d) = Some i \<and> proven_row now r d i \<and>
      row_find (\<lambda>x. iID x = crInstanceID r) (instances d') = Some i' \<and>
      iState i' = StateDeleted \<and> iFirecrackerPID i' = 0 \<and> iStoppedSince i' = None \<and>
      iDeletedAt i' = Some (timeString now (crDeletedAt r))) \<and>
    (\<forall>v. v \<noteq> crInstanceID r \<longrightarrow>
      row_find (\<lambda>x. iID x = v) (instances d') = row_find (\<lambda>x. iID x = v) (instances d))"
proof -
  from assms obtain i where i: "row_find (\<lambda>x. iID x = crInstanceID r) (instances d) = Some i"
    "proven_row now r d i"
    "\<And>v. row_find (\<lambda>x. iID x = v) (instances d') = (if v = crInstanceID r
      then Some (stopped_update i (tombstone now (crDeletedAt r) i)) else row_find (\<lambda>x. iID x = v) (instances d))"
    by (rule CommitCleanup_instances) blast
  have "store_inv d'" using assms store_inv_exec[of now "CCommitCleanup r" d d'] by simp
  then have "\<exists>x. GetLifecycleRequest (crRequestID r) (crActor r) d' = Inr x \<and> rqPhase x = PhDone"
    using CommitCleanup_receipt[OF assms(2)] by (rule receipt_found)
  with i CommitCleanup_receipt[OF assms(2)] CommitCleanup_fence[OF assms] show ?thesis
    by (auto simp: stopped_update_def tombstone_def proven_row_def)
qed

definition ex_db_deleted :: db where
  "ex_db_deleted = (case CommitCleanup ex_now ex_receipt ex_db of Inr d \<Rightarrow> d | Inl _ \<Rightarrow> empty_db)"

lemma ex_db_commit: "CommitCleanup ex_now ex_receipt ex_db = Inr ex_db_deleted"
proof -
  have "\<not> isl (CommitCleanup ex_now ex_receipt ex_db)" by code_simp
  then show ?thesis by (cases "CommitCleanup ex_now ex_receipt ex_db") (auto simp: ex_db_deleted_def)
qed

theorem commit_cleanup_complete_witness:
  "GetCleanupReceipt ''q1'' ''ada'' ex_db_deleted = Inr ex_receipt \<and> CheckCleanupFence ''i1'' ex_db_deleted = Inr ()"
  using commit_cleanup_complete[OF ex_db_inv ex_db_commit] by (simp add: ex_receipt_def)

text \<open>C5: a receipt is final. After any later calls it is still returned for its request, the request
  is still done, and no attempt to begin that deletion again is accepted.\<close>

theorem receipt_is_final:
  assumes "run store_step empty_db cs d" "GetCleanupReceipt q a d = Inr r" "run store_step d cs' d'"
  shows "GetCleanupReceipt q a d' = Inr r \<and>
    (\<exists>x. GetLifecycleRequest q a d' = Inr x \<and> rqPhase x = PhDone) \<and>
    (\<forall>now i. \<exists>e. BeginCleanup now q a i d' = Inl e)"
proof -
  have "store_inv d" using assms(1) by (auto intro: tables.reachable_inv)
  with assms(3) have inv: "store_inv d'" by (rule tables.run_inv)
  have got: "GetCleanupReceipt q a d' = Inr r"
    using receipts.run_leads[OF assms(3)] assms(2) by (rule receipts_grow_get)
  with inv obtain x where "GetLifecycleRequest q a d' = Inr x" "rqPhase x = PhDone"
    using receipt_found by blast
  with inv got done_not_begun show ?thesis by blast
qed

lemma ex_db_deleted_run:
  "run store_step empty_db (ex_calls @ [CCommitCleanup ex_receipt]) ex_db_deleted"
  using ex_db_commit by (auto intro!: run_append[OF ex_db_run] store_step.call simp: run_single)

theorem receipt_is_final_witness:
  "\<exists>e. BeginCleanup ex_now ''q1'' ''ada'' ex_instance ex_db_deleted = Inl e"
proof -
  have "GetCleanupReceipt ''q1'' ''ada'' ex_db_deleted = Inr ex_receipt" by code_simp
  from receipt_is_final[OF ex_db_deleted_run this run_nil] show ?thesis by blast
qed

text \<open>While an instance is fenced to a deletion, the deletion cannot be taken over: beginning
  the cleanup of that instance under any other request fails, and a second instance cannot be
  fenced to the same request.\<close>

theorem cleanup_fence_exclusive:
  assumes "store_inv d" "\<lparr>fnInstanceID = iID i, fnRequestID = q\<rparr> \<in> set (cleanup_fences d)"
  shows "(q' \<noteq> q \<longrightarrow> BeginCleanup now q' a i d = Inl (ErrMsg ''cleanup fence belongs to another request'')) \<and>
    (iID j \<noteq> iID i \<longrightarrow> (\<exists>e. BeginCleanup now q a j d = Inl e))"
proof
  have keys: "is_key fnInstanceID (cleanup_fences d)" "is_key fnRequestID (cleanup_fences d)"
    using assms(1) by (simp_all add: store_inv_def keys_ok_def)
  have "row_find (\<lambda>f. fnInstanceID f = iID i) (cleanup_fences d) = Some \<lparr>fnInstanceID = iID i, fnRequestID = q\<rparr>"
    using row_find_key[OF keys(1) assms(2)] by simp
  then show "q' \<noteq> q \<longrightarrow> BeginCleanup now q' a i d = Inl (ErrMsg ''cleanup fence belongs to another request'')"
    by (simp add: BeginCleanup_def Let_def)
  show "iID j \<noteq> iID i \<longrightarrow> (\<exists>e. BeginCleanup now q a j d = Inl e)"
  proof (cases "BeginCleanup now q a j d")
    case (Inr d')
    then show ?thesis
    proof (rule BeginCleanup_InrE)
      fix resume fences
      assume "if resume then fences = cleanup_fences d \<and> \<lparr>fnInstanceID = iID j, fnRequestID = q\<rparr> \<in> set fences
       else fences = cleanup_fences d @ [\<lparr>fnInstanceID = iID j, fnRequestID = q\<rparr>] \<and>
         (\<forall>f \<in> set (cleanup_fences d). fnInstanceID f \<noteq> iID j \<and> fnRequestID f \<noteq> q)"
      with assms(2) is_key_eq[OF keys(2) assms(2), of "\<lparr>fnInstanceID = iID j, fnRequestID = q\<rparr>"]
      show ?thesis by (auto split: if_splits)
    qed
  qed auto
qed

theorem cleanup_fence_exclusive_witness:
  "BeginCleanup ex_now ''q9'' ''bob'' ex_instance ex_db =
     Inl (ErrMsg ''cleanup fence belongs to another request'')"
proof -
  have "\<lparr>fnInstanceID = iID ex_instance, fnRequestID = ''q1''\<rparr> \<in> set (cleanup_fences ex_db)" by code_simp
  from cleanup_fence_exclusive[OF ex_db_inv this, of "''q9''"] show ?thesis by simp
qed

lemma AdmitBootstrap_row:
  assumes "AdmitBootstrap now r i c g d = Inr d1" "is_key obInstanceID (orb_bootstrap d)"
  obtains b where "BootstrapGeneration now i c d = Inr (obGeneration b)" "obGeneration b < g"
    "obInstanceID b = i" "b\<lparr>obGeneration := g\<rparr> \<in> set (orb_bootstrap d1)"
proof -
  let ?p = "\<lambda>b. obInstanceID b = i \<and> obCreatedAt b = timeString now c \<and> obGeneration b < g"
  have one: "row_count ?p (orb_bootstrap d) = 1"
    and d1: "orb_bootstrap d1 = row_update ?p (\<lambda>b. b\<lparr>obGeneration := g\<rparr>) (orb_bootstrap d)"
    using assms(1) by (auto simp: AdmitBootstrap_def Let_def insert_request_def split: if_splits)
  from one obtain b where b: "b \<in> set (orb_bootstrap d)" "?p b" by (rule row_count_oneE)
  have "row_find (\<lambda>x. obInstanceID x = i \<and> obCreatedAt x = timeString now c) (orb_bootstrap d) = Some b"
    using b assms(2) by (intro row_find_unique) (auto intro: is_key_eq)
  moreover have "b\<lparr>obGeneration := g\<rparr> \<in> set (orb_bootstrap d1)"
    unfolding d1 using b by (intro row_update_mem[where f = "\<lambda>b. b\<lparr>obGeneration := g\<rparr>" and p = ?p])
  ultimately show thesis using b(2) that by (auto simp: BootstrapGeneration_def)
qed

lemma AdmitBootstrap_refused:
  assumes "b \<in> set (orb_bootstrap d)" "g \<le> obGeneration b" "is_key obInstanceID (orb_bootstrap d)"
  shows "\<exists>e. AdmitBootstrap now r (obInstanceID b) c g d = Inl e"
proof -
  have "\<not> (obInstanceID x = obInstanceID b \<and> obCreatedAt x = timeString now c \<and> obGeneration x < g)"
    if "x \<in> set (orb_bootstrap d)" for x
    using is_key_eq[OF assms(3,1) that] assms(2) by auto
  then have "row_count (\<lambda>x. obInstanceID x = obInstanceID b \<and> obCreatedAt x = timeString now c \<and>
      obGeneration x < g) (orb_bootstrap d) = 0" by (simp add: row_count_0)
  then show ?thesis by (simp add: AdmitBootstrap_def)
qed

text \<open>C7: a bootstrap generation is accepted at most once. A generation that was admitted was larger
  than the recorded one, and after any later calls no generation up to it is admitted again.\<close>

theorem bootstrap_generation_not_replayed:
  assumes "run store_step empty_db cs d"
    "AdmitBootstrap now r i c g d = Inr d1" "run store_step d1 cs' d2" "g' \<le> g"
  shows "(\<exists>g0. BootstrapGeneration now i c d = Inr g0 \<and> g0 < g) \<and>
    (\<exists>e. AdmitBootstrap now' r' i c g' d2 = Inl e)"
proof -
  have inv: "store_inv d" using assms(1) by (auto intro: tables.reachable_inv)
  have "store_inv d1" using inv assms(2) store_inv_exec[of now "CAdmitBootstrap r i c g" d d1] by simp
  with assms(3) have key: "is_key obInstanceID (orb_bootstrap d2)"
    using tables.run_inv by (auto simp: store_inv_def keys_ok_def)
  from assms(2) obtain b where b: "BootstrapGeneration now i c d = Inr (obGeneration b)" "obGeneration b < g"
    "obInstanceID b = i" "b\<lparr>obGeneration := g\<rparr> \<in> set (orb_bootstrap d1)"
    by (rule AdmitBootstrap_row) (use inv in \<open>simp add: store_inv_def keys_ok_def\<close>)
  then obtain b2 where "b2 \<in> set (orb_bootstrap d2)" "obInstanceID b2 = i" "g \<le> obGeneration b2"
    using bootstrap.run_leads[OF assms(3)] unfolding bootstrap_leads_def by fastforce
  with AdmitBootstrap_refused[of b2 d2 g' now' r' c] assms(4) key b show ?thesis by auto
qed

definition ex_boot :: LifecycleRequest where
  "ex_boot = ex_start\<lparr>rqID := ''q3'', rqCommand := ''bootstrap'', rqName := ''orb1''\<rparr>"

theorem bootstrap_generation_not_replayed_witness:
  "\<exists>d1 e. AdmitBootstrap ex_now ex_boot ''o1'' ex_created 3 ex_db = Inr d1 \<and>
     AdmitBootstrap ex_now (ex_boot\<lparr>rqID := ''q4''\<rparr>) ''o1'' ex_created 3 d1 = Inl e"
proof (cases "AdmitBootstrap ex_now ex_boot ''o1'' ex_created 3 ex_db")
  case (Inl e)
  moreover have "\<not> isl (AdmitBootstrap ex_now ex_boot ''o1'' ex_created 3 ex_db)" by code_simp
  ultimately show ?thesis by simp
next
  case (Inr d1)
  from bootstrap_generation_not_replayed[OF ex_db_run Inr run_nil order_refl] Inr show ?thesis by blast
qed

subsection \<open>Instances and their dates\<close>

text \<open>C8: an instance that was created is read back as it was written, timestamps to the nanosecond,
  with its kind defaulted and its memory mode normalised.\<close>

theorem create_instance_roundtrip:
  assumes "CreateInstance now i d = Inr d'" "valid_time now"
    "valid_time (iCreatedAt i)" "\<not> IsZero (iCreatedAt i)" "valid_time (iUpdatedAt i)" "\<not> IsZero (iUpdatedAt i)"
    "\<And>t. iDeletedAt i = Some t \<Longrightarrow> valid_time t \<and> \<not> IsZero t"
  shows "GetInstance (iName i) d' = Inr ((normalizeInstanceMemory i)\<lparr>iKind := KindName i\<rparr>)"
proof -
  let ?row = "stopped_insert (instance_to_row now (normalizeInstanceMemory i))"
  have name: "iName ?row = iName i"
    by (simp add: stopped_insert_def instance_to_row_def normalizeInstanceMemory_def Let_def)
  have new: "instances d' = instances d @ [?row]" and clash: "\<forall>r \<in> set (instances d). iName r \<noteq> iName i"
    using assms(1) name by (auto simp: CreateInstance_def Let_def result_simps row_insert_Inr split: if_splits)
  from clash have "row_find (\<lambda>r. iName r = iName i) (instances d) = None" by (simp add: row_find_None)
  with new name have "GetInstance (iName i) d' = scanInstance ?row"
    by (simp add: GetInstance_def row_find_append)
  then show ?thesis using scan_instance_to_row[OF assms(2,3,5,4,6,7)] by simp
qed

theorem create_instance_roundtrip_witness:
  "\<exists>d'. CreateInstance ex_now ex_instance empty_db = Inr d' \<and>
     GetInstance ''web'' d' = Inr ((normalizeInstanceMemory ex_instance)\<lparr>iKind := KindName ex_instance\<rparr>)"
proof (cases "CreateInstance ex_now ex_instance empty_db")
  case (Inl e)
  moreover have "\<not> isl (CreateInstance ex_now ex_instance empty_db)" by code_simp
  ultimately show ?thesis by simp
next
  case (Inr d')
  moreover have "valid_time ex_now" "valid_time ex_created" "\<not> IsZero ex_created" by code_simp+
  ultimately show ?thesis using create_instance_roundtrip[OF Inr]
    by (simp add: ex_instance_def empty_instance_def)
qed

lemma UpdateInstance_row:
  assumes "UpdateInstance now i d = Inr d'" "row_find (\<lambda>r. iName r = iName i) (instances d) = Some r"
  shows "row_find (\<lambda>r. iName r = iName i) (instances d') =
    Some (stopped_update r (update_columns now (normalizeInstanceMemory i) r))"
proof -
  have name: "iName (normalizeInstanceMemory i) = iName i"
    by (simp add: normalizeInstanceMemory_def Let_def)
  have "instances d' = row_update (\<lambda>r. iName r = iName i)
      (\<lambda>r. stopped_update r (update_columns now (normalizeInstanceMemory i) r)) (instances d)"
    using assms(1) by (auto simp: UpdateInstance_def Let_def result_simps name)
  then show ?thesis
    using assms(2) row_find_Some[OF assms(2)] by (simp add: row_find_update_key update_columns_def)
qed

text \<open>The stop date belongs to the last transition into the stopped state. Rewriting an instance
  that stays stopped keeps it although \<open>updated_at\<close> moves, a stop sets it to the time of the
  update, and leaving the stopped state clears it.\<close>

theorem stop_date_of_last_stop:
  assumes "UpdateInstance now i d = Inr d'" "row_find (\<lambda>r. iName r = iName i) (instances d) = Some r"
  shows "\<exists>r'. row_find (\<lambda>r. iName r = iName i) (instances d') = Some r' \<and>
    iState r' = iState i \<and> iUpdatedAt r' = timeString now (iUpdatedAt i) \<and>
    iStoppedSince r' = (if iState r = iState i then iStoppedSince r
      else if iState i = StateStopped then Some (timeString now (iUpdatedAt i)) else None)"
  unfolding UpdateInstance_row[OF assms]
  by (simp add: stopped_update_def update_columns_def normalizeInstanceMemory_def Let_def)

theorem stop_date_of_last_stop_witness:
  "\<exists>d' r'. UpdateInstance ex_now (ex_orb\<lparr>iUpdatedAt := ex_now\<rparr>) ex_db = Inr d' \<and>
     row_find (\<lambda>r. iName r = ''orb1'') (instances d') = Some r' \<and>
     iUpdatedAt r' = timeString ex_now ex_now \<and> iStoppedSince r' = Some (timeString ex_now ex_created)"
proof -
  let ?i = "ex_orb\<lparr>iUpdatedAt := ex_now\<rparr>"
  have "\<not> isl (UpdateInstance ex_now ?i ex_db)" by code_simp
  then obtain d' where d': "UpdateInstance ex_now ?i ex_db = Inr d'" by (cases "UpdateInstance ex_now ?i ex_db") auto
  have "map_option (\<lambda>r. (iState r, iStoppedSince r)) (row_find (\<lambda>r. iName r = ''orb1'') (instances ex_db)) =
    Some (StateStopped, Some (timeString ex_now ex_created))" by code_simp
  then obtain r where "row_find (\<lambda>r. iName r = iName ?i) (instances ex_db) = Some r"
    "iState r = StateStopped" "iStoppedSince r = Some (timeString ex_now ex_created)"
    by (auto simp: ex_orb_def)
  with stop_date_of_last_stop[OF d' this(1)] d' show ?thesis
    by (auto simp: ex_orb_def ex_instance_def)
qed

text \<open>A readiness result is recorded only against the row that was observed. The update succeeds
  only if the row still has the observed state, process, names, start request and update time and
  is not deleted, and then it leaves every other instance as it was.\<close>

theorem runtime_update_compare_and_swap:
  assumes "store_inv d" "UpdateInstanceRuntime now observed updated d = Inr d'"
  shows "\<exists>r r'. row_find (\<lambda>x. iID x = iID observed) (instances d) = Some r \<and> runtime_match now observed r \<and>
    row_find (\<lambda>x. iID x = iID observed) (instances d') = Some r' \<and> iState r' = iState updated \<and>
    iFirecrackerPID r' = iFirecrackerPID updated \<and> iUpdatedAt r' = timeString now (iUpdatedAt updated) \<and>
    (\<forall>v. v \<noteq> iID observed \<longrightarrow>
      row_find (\<lambda>x. iID x = v) (instances d') = row_find (\<lambda>x. iID x = v) (instances d))"
proof -
  let ?p = "runtime_match now observed"
  let ?f = "\<lambda>r. stopped_update r (r\<lparr>iState := iState updated, iTailscaleName := iTailscaleName updated,
           iTailscaleIP := iTailscaleIP updated, iLastError := iLastError updated,
           iUpdatedAt := timeString now (iUpdatedAt updated), iTailnetNodeID := iTailnetNodeID updated,
           iFirecrackerPID := iFirecrackerPID updated\<rparr>)"
  from assms(2) have one: "row_count ?p (instances d) = 1"
    and d': "instances d' = row_update ?p ?f (instances d)"
    by (auto simp: UpdateInstanceRuntime_def Let_def split: if_splits)
  from one obtain r where r: "r \<in> set (instances d)" "?p r" by (rule row_count_oneE)
  then have found: "row_find (\<lambda>x. iID x = iID observed) (instances d) = Some r"
    using assms(1) row_find_key[of iID "instances d" r]
    by (auto simp: store_inv_def instances_ok_def runtime_match_def)
  have upd: "row_find (\<lambda>x. iID x = v) (instances d') =
      map_option (\<lambda>i. if ?p i then ?f i else i) (row_find (\<lambda>x. iID x = v) (instances d))" for v
    using row_find_update_key[of ?p iID ?f v "instances d"] by (simp add: d')
  have "row_find (\<lambda>x. iID x = v) (instances d') = row_find (\<lambda>x. iID x = v) (instances d)"
    if "v \<noteq> iID observed" for v
    unfolding upd using that by (cases "row_find (\<lambda>x. iID x = v) (instances d)")
      (auto simp: runtime_match_def dest: row_find_Some)
  with found r(2) upd[of "iID observed"] show ?thesis by (auto simp: stopped_update_def)
qed

theorem runtime_update_compare_and_swap_witness:
  "\<exists>d' r'. UpdateInstanceRuntime ex_now ex_orb (ex_orb\<lparr>iState := StateFailed\<rparr>) ex_db = Inr d' \<and>
     row_find (\<lambda>x. iID x = ''o1'') (instances d') = Some r' \<and> iState r' = StateFailed"
proof -
  let ?u = "UpdateInstanceRuntime ex_now ex_orb (ex_orb\<lparr>iState := StateFailed\<rparr>) ex_db"
  have "\<not> isl ?u" by code_simp
  then obtain d' where d': "?u = Inr d'" by (cases ?u) auto
  from runtime_update_compare_and_swap[OF ex_db_inv this] d' show ?thesis by (auto simp: ex_orb_def)
qed

text \<open>\<open>ListEvents\<close> orders the stored text of the timestamps, which drops the trailing zeros of
  the fraction, so the newest-first order it promises can be wrong: two events within one second
  are listed oldest first.\<close>

definition ex_later :: time where
  "ex_later = ex_created\<lparr>tNano := 120000000\<rparr>"

definition ex_event :: "time \<Rightarrow> string \<Rightarrow> InstanceEvent" where
  "ex_event t m = \<lparr>evID = 0, evInstanceID = ''i1'', evCreatedAt = t, evType = ''info'',
     evMessage = m, evPayload = []\<rparr>"

theorem list_events_not_chronological:
  "Before ex_created ex_later \<and>
   bindR (store_execs ex_now [CRecordEvent (ex_event ex_created ''first''), CRecordEvent (ex_event ex_later ''second'')] empty_db)
     (\<lambda>d. bindR (ListEvents ''i1'' 0 d) (\<lambda>es. Inr (map evMessage es))) = Inr [''first'', ''second'']"
  by code_simp

end
