(* ===== verification/Config.thy ===== *)
theory Config
  imports Model
begin

section \<open>Configuration and identities\<close>

text \<open>
  src/internal/config/config.go and src/internal/identity/provider.go: the daemon's settings and
  their validation, the shape of a machine, the mapping of users to guest tags, and how a tailnet
  peer becomes an actor. Durations are nanoseconds; a Go map is an association list (the functions
  modelled here do not depend on its order). \<open>url.Parse\<close> and the answer of the local tailnet
  daemon to a \<open>whois\<close> question are parameters.
\<close>

subsection \<open>Splitting and matching text\<close>

text \<open>\<open>strings.Split\<close> on one character, and the regular expressions the program uses for names:
  \<open>^[a-z0-9](?:[a-z0-9-]{0,61}[a-z0-9])?$\<close> and its relatives.\<close>

fun SplitChar :: "char \<Rightarrow> string \<Rightarrow> string list" where
  "SplitChar c [] = [[]]"
| "SplitChar c (x # xs) = (if x = c then [] # SplitChar c xs
     else (case SplitChar c xs of [] \<Rightarrow> [[x]] | w # ws \<Rightarrow> (x # w) # ws))"

definition lower_alnum :: "char \<Rightarrow> bool" where
  "lower_alnum c = (is_digit c \<or> 97 \<le> (of_char c :: nat) \<and> (of_char c :: nat) \<le> 122)"

definition validName :: "string \<Rightarrow> bool" where
  "validName s = (s \<noteq> [] \<and> length s \<le> 63 \<and> list_all (\<lambda>c. lower_alnum c \<or> c = CHR ''-'') s \<and>
     lower_alnum (hd s) \<and> lower_alnum (last s))"

definition serviceName :: "string \<Rightarrow> bool" where
  "serviceName s = (s \<noteq> [] \<and> length s \<le> 64 \<and> lower_alnum (hd s) \<and>
     list_all (\<lambda>c. lower_alnum c \<or> c = CHR ''_'' \<or> c = CHR ''-'') s)"

definition imageName :: "string \<Rightarrow> bool" where
  "imageName s = (s \<noteq> [] \<and> lower_alnum (hd s) \<and>
     list_all (\<lambda>c. lower_alnum c \<or> c = CHR ''.'' \<or> c = CHR ''_'' \<or> c = CHR ''-'') s)"

subsection \<open>Service identities\<close>

type_synonym Providers = "(string \<times> string) list"

definition IsService :: "string \<Rightarrow> bool" where
  "IsService login = HasPrefix (ToLower login) ''service:''"

definition provider_entry_ok :: "string \<times> string \<Rightarrow> bool" where
  "provider_entry_ok e = (case e of (node, name) \<Rightarrow>
     \<not> (node = [] \<or> node = ''*'' \<or>
       list_ex (\<lambda>c. c \<in> {CHR '' '', CHR 0x09, CHR 0x0D, CHR 0x0A, CHR '','', CHR ''=''}) node \<or>
       \<not> serviceName name))"

definition Providers_Validate :: "Providers \<Rightarrow> string list \<Rightarrow> unit result" where
  "Providers_Validate p admins =
     bindR (failIf (\<not> list_all provider_entry_ok p)
       (ErrMsg ''provider_nodes requires explicit stable node IDs mapped to lowercase service names (not user logins)'')) (\<lambda>_.
     failIf (list_ex (\<lambda>a. IsService (TrimSpace a)) admins)
       (ErrMsg ''service owners cannot be admin users''))"

definition AllowsForwarded :: "Providers \<Rightarrow> string \<Rightarrow> bool" where
  "AllowsForwarded p login = list_ex (\<lambda>(_, name). login = ''service:'' @ name) p"

text \<open>The part of a \<open>whois\<close> answer that the program reads.\<close>

record whois_node =
  wnName :: string
  wnComputedName :: string
  wnStableID :: string
  wnTags :: "string list"

record whois_user =
  wuLoginName :: string
  wuDisplayName :: string

record whois =
  whoNode :: "whois_node option"
  whoUser :: "whois_user option"

definition Providers_Resolve :: "Providers \<Rightarrow> whois option \<Rightarrow> string \<Rightarrow> string \<Rightarrow> Actor result" where
  "Providers_Resolve p who remote sshUser =
     (case Option.bind who whoNode of
       None \<Rightarrow> Inl (ErrMsg ''tailscale whois response was incomplete'')
     | Some node \<Rightarrow>
       let nodeName = (if wnComputedName node \<noteq> [] then TrimSuffix (wnComputedName node) ''.''
             else TrimSuffix (wnName node) ''.'');
           actor = (\<lambda>login display. \<lparr>UserLogin = login, DisplayName = display, NodeName = nodeName,
             RemoteAddr = remote, SSHUser = sshUser\<rparr>)
       in case (if wnStableID node \<noteq> [] then map_of p (wnStableID node) else None) of
         Some name \<Rightarrow>
           bindR (failIf (\<not> serviceName name) (ErrMsg ''invalid provider service name'')) (\<lambda>_.
           Inr (actor (''service:'' @ name) (''Service '' @ name)))
       | None \<Rightarrow>
           (case Option.bind who whoUser of
             None \<Rightarrow> Inl (ErrMsg ''command requires a Tailscale user identity or explicitly configured provider node'')
           | Some u \<Rightarrow>
             bindR (failIf (wuLoginName u = [] \<or> wnTags node \<noteq> [] \<or> IsService (wuLoginName u))
               (ErrMsg ''command requires a Tailscale user identity or explicitly configured provider node'')) (\<lambda>_.
             Inr (actor (wuLoginName u) (wuDisplayName u)))))"

subsection \<open>The configuration\<close>

text \<open>The record has the settings that the modelled code reads; secrets, log levels and socket
  paths that are only handed on are left out.\<close>

record Image =
  imKernel :: string
  imInitrd :: string
  imRootFS :: string

record Config =
  cfgDataDir :: string
  cfgHostname :: string
  cfgListenAddr :: string
  cfgTailscalePort :: int
  cfgTailnet :: string
  cfgAllowedUsers :: "string list"
  cfgAdminUsers :: "string list"
  cfgTrustedFrontends :: "string list"
  cfgProviderNodes :: Providers
  cfgBaseKernelPath :: string
  cfgBaseInitrdPath :: string
  cfgBaseRootFSPath :: string
  cfgImages :: "(string \<times> Image) list"
  cfgNetHelperSocketPath :: string
  cfgVMRunnerSocketPath :: string
  cfgVMNetworkCIDR :: string
  cfgVCPUCount :: int64
  cfgMemoryMiB :: int64
  cfgGuestAuthExpiry :: int64
  cfgGuestReadyTimeout :: int64
  cfgGuestAuthTags :: "string list"
  cfgGuestUserAuthTags :: "(string \<times> string) list"
  cfgZenBaseURL :: string
  cfgZenGatewayPort :: int
  cfgDeepSeekBaseURL :: string
  cfgDeepSeekGatewayPort :: int
  cfgIntegrationGatewayPort :: int
  cfgAmpConnectGatewayPort :: int
  cfgColdStorageHost :: string
  cfgColdStorageAfterStop :: bool
  cfgColdStorageRetention :: int64
  cfgVMDNSServers :: "string list"
  cfgGuestTailscaleControlURL :: string
  cfgExtraKernelArgs :: string
  cfgZenAPIKey :: string
  cfgDeepSeekAPIKey :: string
  cfgDataDirAbs :: string

definition InstancesDir :: "Config \<Rightarrow> string" where
  "InstancesDir c = cfgDataDirAbs c @ ''/instances''"

definition ResolveImage :: "Config \<Rightarrow> string \<Rightarrow> Image result" where
  "ResolveImage c name =
     (let name = (if name = [] then ''arch'' else name) in
      case map_of (cfgImages c) name of
        Some img \<Rightarrow> Inr img
      | None \<Rightarrow> if name = ''arch'' then Inr \<lparr>imKernel = cfgBaseKernelPath c, imInitrd = cfgBaseInitrdPath c,
            imRootFS = cfgBaseRootFSPath c\<rparr>
          else Inl (ErrMsg ''unknown image''))"

definition MaxVCPUCount :: int64 where "MaxVCPUCount = 32"
definition MinMemoryMiB :: int64 where "MinMemoryMiB = 128"

definition ValidateMachineShape :: "int64 \<Rightarrow> int64 \<Rightarrow> unit result" where
  "ValidateMachineShape vcpus memoryMiB =
     bindR (failIf (vcpus < 1) (ErrMsg ''vm vcpu count must be >= 1'')) (\<lambda>_.
     bindR (failIf (vcpus > MaxVCPUCount) (ErrMsg ''vm vcpu count must be <='')) (\<lambda>_.
     bindR (failIf (vcpus \<noteq> 1 \<and> vcpus smod 2 \<noteq> 0) (ErrMsg ''vm vcpu count must be 1 or an even number'')) (\<lambda>_.
     failIf (memoryMiB < MinMemoryMiB) (ErrMsg ''vm memory must be at least MiB''))))"

text \<open>\<open>url.Parse\<close>: scheme and host of the parsed text, or an error.\<close>

type_synonym url_parser = "string \<Rightarrow> (string \<times> string) result"

definition checkProviderBaseURL :: "url_parser \<Rightarrow> string \<Rightarrow> unit result" where
  "checkProviderBaseURL parse raw =
     (let raw = TrimSpace raw in
      bindR (failIf (raw = []) (ErrMsg ''base url is required'')) (\<lambda>_.
      bindR (wrapE ''parse base url'' (parse raw)) (\<lambda>(scheme, urlhost).
      bindR (failIf (scheme \<noteq> ''http'' \<and> scheme \<noteq> ''https'') (ErrMsg ''base url must use http or https'')) (\<lambda>_.
      failIf (urlhost = []) (ErrMsg ''base url must include a host'')))))"

definition IsAbs :: "string \<Rightarrow> bool" where
  "IsAbs p = HasPrefix p ''/''"

definition image_paths_ok :: "Image \<Rightarrow> bool" where
  "image_paths_ok i = (IsAbs (imKernel i) \<and> IsAbs (imRootFS i) \<and> (imInitrd i \<noteq> [] \<longrightarrow> IsAbs (imInitrd i)))"

definition port_ok :: "int \<Rightarrow> bool" where
  "port_ok p = (1 \<le> p \<and> p \<le> 65535)"

definition check_images :: "(string \<times> Image) list \<Rightarrow> unit result" where
  "check_images images = bindR (mapR (\<lambda>(name, img).
     bindR (failIf (\<not> imageName name) (ErrMsg ''invalid image name'')) (\<lambda>_.
     failIf (\<not> image_paths_ok img)
       (ErrMsg ''image requires absolute kernel and rootfs paths and an optional absolute initrd path''))) images)
     (\<lambda>_. Inr ())"

definition Validate :: "url_parser \<Rightarrow> Config \<Rightarrow> unit result" where
  "Validate parse c =
     bindR (failIf (cfgTailscalePort c < 0 \<or> cfgTailscalePort c > 65535)
       (ErrMsg ''tailscale port must be between 0 and 65535'')) (\<lambda>_.
     bindR (failIf (cfgColdStorageAfterStop c \<and> cfgColdStorageHost c = [])
       (ErrMsg ''cold-storage-after-stop requires cold-storage-host'')) (\<lambda>_.
     bindR (failIf (cfgColdStorageRetention c < 0)
       (ErrMsg ''cold-storage-retention must not be negative'')) (\<lambda>_.
     bindR (failIf (cfgColdStorageRetention c > 0 \<and> cfgColdStorageHost c = [])
       (ErrMsg ''cold-storage-retention requires cold-storage-host'')) (\<lambda>_.
     bindR (Providers_Validate (cfgProviderNodes c) (cfgAdminUsers c)) (\<lambda>_.
     bindR (failIf (list_ex (\<lambda>node. map_of (cfgProviderNodes c) node \<noteq> None) (cfgTrustedFrontends c))
       (ErrMsg ''provider nodes cannot also be trusted frontends'')) (\<lambda>_.
     bindR (check_images (cfgImages c)) (\<lambda>_.
     bindR (failIf (cfgHostname c = []) (ErrMsg ''hostname is required'')) (\<lambda>_.
     bindR (failIf (cfgListenAddr c = []) (ErrMsg ''listen address is required'')) (\<lambda>_.
     bindR (failIf (cfgDataDir c = []) (ErrMsg ''data dir is required'')) (\<lambda>_.
     bindR (failIf (cfgNetHelperSocketPath c = []) (ErrMsg ''network helper socket path is required'')) (\<lambda>_.
     bindR (failIf (cfgVMRunnerSocketPath c = []) (ErrMsg ''vm runner socket path is required'')) (\<lambda>_.
     bindR (ValidateMachineShape (cfgVCPUCount c) (cfgMemoryMiB c)) (\<lambda>_.
     bindR (failIf (cfgGuestAuthExpiry c \<le> 0) (ErrMsg ''guest auth expiry must be positive'')) (\<lambda>_.
     bindR (failIf (cfgGuestReadyTimeout c \<le> 0) (ErrMsg ''guest ready timeout must be positive'')) (\<lambda>_.
     bindR (failIf (\<not> port_ok (cfgZenGatewayPort c)) (ErrMsg ''zen gateway port must be between 1 and 65535'')) (\<lambda>_.
     bindR (failIf (\<not> port_ok (cfgDeepSeekGatewayPort c)) (ErrMsg ''deepseek gateway port must be between 1 and 65535'')) (\<lambda>_.
     bindR (failIf (\<not> port_ok (cfgIntegrationGatewayPort c)) (ErrMsg ''integration gateway port must be between 1 and 65535'')) (\<lambda>_.
     bindR (failIf (\<not> port_ok (cfgAmpConnectGatewayPort c)) (ErrMsg ''amp connect gateway port must be between 1 and 65535'')) (\<lambda>_.
     bindR (failIf (TrimSpace (cfgZenBaseURL c) = []) (ErrMsg ''zen base url is required'')) (\<lambda>_.
     bindR (checkProviderBaseURL parse (cfgZenBaseURL c)) (\<lambda>_.
     bindR (failIf (TrimSpace (cfgDeepSeekBaseURL c) = []) (ErrMsg ''deepseek base url is required'')) (\<lambda>_.
     checkProviderBaseURL parse (cfgDeepSeekBaseURL c)))))))))))))))))))))))"

subsection \<open>Lists and guest tags\<close>

definition splitCSV :: "string \<Rightarrow> string list" where
  "splitCSV v = filter (\<lambda>p. p \<noteq> []) (map TrimSpace (SplitChar (CHR '','') v))"

fun guest_tags :: "string list \<Rightarrow> (string \<times> string) list \<Rightarrow> (string \<times> string) list result" where
  "guest_tags [] m = Inr m"
| "guest_tags (entry # rest) m =
     (let (login, tag, found) = CutChar entry (CHR ''='');
          login = ToLower (TrimSpace login); tag = ToLower (TrimSpace tag)
      in
      bindR (failIf (\<not> found \<or> login = [] \<or> CHR ''='' \<in> set tag \<or> \<not> HasPrefix tag ''tag:'' \<or> length tag = 4)
        (ErrMsg ''invalid SRV_GUEST_USER_AUTH_TAGS entry'')) (\<lambda>_.
      bindR (failIf (map_of m login \<noteq> None) (ErrMsg ''duplicate SRV_GUEST_USER_AUTH_TAGS login'')) (\<lambda>_.
      guest_tags rest ((login, tag) # m))))"

definition parseGuestUserAuthTags :: "string \<Rightarrow> (string \<times> string) list result" where
  "parseGuestUserAuthTags v = guest_tags (splitCSV v) []"

definition guestAuthTagsForUser :: "Config \<Rightarrow> string \<Rightarrow> string list" where
  "guestAuthTagsForUser c login =
     (case map_of (cfgGuestUserAuthTags c) (ToLower (TrimSpace login)) of
       Some tag \<Rightarrow> if tag \<noteq> [] then [tag] else cfgGuestAuthTags c
     | None \<Rightarrow> cfgGuestAuthTags c)"

text \<open>A configuration of a small host, for the concrete runs of the other theories.\<close>

definition example_config :: Config where
  "example_config = \<lparr>cfgDataDir = ''/d'', cfgHostname = ''srv'', cfgListenAddr = '':22'', cfgTailscalePort = 0,
     cfgTailnet = [], cfgAllowedUsers = [], cfgAdminUsers = [''root@example.com''], cfgTrustedFrontends = [],
     cfgProviderNodes = [(''n1'', ''ci'')], cfgBaseKernelPath = ''/k'', cfgBaseInitrdPath = [],
     cfgBaseRootFSPath = ''/r'', cfgImages = [], cfgNetHelperSocketPath = ''/n'', cfgVMRunnerSocketPath = ''/v'',
     cfgVMNetworkCIDR = ''172.28.0.0/16'', cfgVCPUCount = 2, cfgMemoryMiB = 1024, cfgGuestAuthExpiry = 900,
     cfgGuestReadyTimeout = 120, cfgGuestAuthTags = [''tag:vm''], cfgGuestUserAuthTags = [],
     cfgZenBaseURL = ''https://z'', cfgZenGatewayPort = 11434, cfgDeepSeekBaseURL = ''https://d'',
     cfgDeepSeekGatewayPort = 11436, cfgIntegrationGatewayPort = 11435, cfgAmpConnectGatewayPort = 3128,
     cfgColdStorageHost = [], cfgColdStorageAfterStop = False, cfgColdStorageRetention = 0,
     cfgVMDNSServers = [], cfgGuestTailscaleControlURL = [], cfgExtraKernelArgs = [],
     cfgZenAPIKey = [], cfgDeepSeekAPIKey = [], cfgDataDirAbs = ''/d''\<rparr>"

end
