(* ===== verification/Capacity.thy ===== *)
theory Capacity
  imports Config StoreLifecycle
begin

section \<open>Capacity admission\<close>

text \<open>
  The admission rules of src/internal/provision/provision.go and placement.go: how much memory a
  fixed machine reserves, what the host has left, the shape of a new machine, its network block,
  and the placement estimate. \<open>host_env\<close> is what the code asks of the operating system.
  Arithmetic on \<open>int64\<close> wraps.
\<close>

subsection \<open>The host\<close>

record FilesystemUsage =
  fsTotal :: int64
  fsUsed :: int64
  fsAvailable :: int64

text \<open>Physical memory, whether a process exists, the usage of the filesystem at a path, the size of
  a file, the \<open>Pending\<close> flag of an instance's upgrade journal, and the number of processors.\<close>

record host_env =
  heMemory :: "int64 result"
  heProcess :: "int \<Rightarrow> bool"
  heUsage :: "string \<Rightarrow> FilesystemUsage result"
  heStat :: "string \<Rightarrow> int64 result"
  heUpgradePending :: "string \<Rightarrow> bool result"
  heNumCPU :: int64

definition MiB :: int64 where "MiB = 1048576"
definition hostMemoryReserveMiB :: int64 where "hostMemoryReserveMiB = 512"
definition DiskRuntimeFloorBytes :: int64 where "DiskRuntimeFloorBytes = 1073741824"
definition portableLogMaxSize :: int64 where "portableLogMaxSize = 268435456"

definition CheckAvailableSpace :: "int64 \<Rightarrow> int64 \<Rightarrow> unit result" where
  "CheckAvailableSpace available payload =
     failIf (payload < 0 \<or> available < DiskRuntimeFloorBytes \<or>
         payload > wrap64 (available - DiskRuntimeFloorBytes))
       (ErrMsg ''insufficient available disk space'')"

definition FixedMemoryLimitBytes :: "int64 \<Rightarrow> int64" where
  "FixedMemoryLimitBytes memoryMiB =
     (if memoryMiB \<le> 0 then 0
      else let overhead = memoryMiB sdiv 16; overhead = (if overhead < 256 then 256 else overhead)
           in wrap64 (wrap64 (memoryMiB + overhead) * MiB))"

subsection \<open>Shapes\<close>

record CreateOptions =
  coImage :: string
  coTemplate :: string
  coKind :: string
  coVCPUCount :: int64
  coMemoryMiB :: int64
  coMemoryPoolName :: string
  coFixedMemory :: bool
  coRootFSSizeBytes :: int64

definition effectiveVCPUCount :: "Config \<Rightarrow> int64 \<Rightarrow> int64" where
  "effectiveVCPUCount c n = (if n > 0 then n else cfgVCPUCount c)"

definition effectiveMemoryMiB :: "Config \<Rightarrow> int64 \<Rightarrow> int64" where
  "effectiveMemoryMiB c n = (if n > 0 then n else cfgMemoryMiB c)"

definition resolveCreateOptions :: "Config \<Rightarrow> CreateOptions \<Rightarrow> int64 \<Rightarrow> (CreateOptions \<times> bool) result" where
  "resolveCreateOptions c opts baseSize =
     bindR (failIf (TrimSpace (coMemoryPoolName opts) \<noteq> [] \<and> coMemoryMiB opts \<le> 0)
       (ErrMsg ''pooled instances require an explicit guest-visible --ram'')) (\<lambda>_.
     let r = \<lparr>coImage = [], coTemplate = [], coKind = [], coVCPUCount = effectiveVCPUCount c (coVCPUCount opts),
           coMemoryMiB = effectiveMemoryMiB c (coMemoryMiB opts),
           coMemoryPoolName = TrimSpace (coMemoryPoolName opts), coFixedMemory = False,
           coRootFSSizeBytes = (if coRootFSSizeBytes opts = 0 then baseSize else coRootFSSizeBytes opts)\<rparr>
     in
     bindR (ValidateMachineShape (coVCPUCount r) (coMemoryMiB r)) (\<lambda>_.
     bindR (failIf (coRootFSSizeBytes r < baseSize)
       (ErrMsg ''rootfs size is smaller than the base image size'')) (\<lambda>_.
     Inr (r, coRootFSSizeBytes r > baseSize))))"

subsection \<open>Reserved memory\<close>

definition instanceHasActiveRuntime :: "host_env \<Rightarrow> Instance \<Rightarrow> bool" where
  "instanceHasActiveRuntime env i =
     (if iFirecrackerPID i > 0 then heProcess env (iFirecrackerPID i) else iState i = StateProvisioning)"

definition instanceReservesFixedHostMemory :: "host_env \<Rightarrow> Instance \<Rightarrow> bool" where
  "instanceReservesFixedHostMemory env i =
     (if NormalizedMemoryMode i \<noteq> MemoryModeFixed then False
      else if iState i = StateStopping \<or> iState i = StateDeleting then True
      else if iStartRequestID i \<noteq> [] \<and> iState i \<in> {StateProvisioning, StateAwaitingTailnet,
          StateAwaitingGuest, StateReady} then True
      else instanceHasActiveRuntime env i)"

text \<open>\<open>total += x\<close> on \<open>int64\<close>.\<close>

fun sum64 :: "int64 \<Rightarrow> int64 list \<Rightarrow> int64" where
  "sum64 acc [] = acc"
| "sum64 acc (x # xs) = sum64 (wrap64 (acc + x)) xs"

definition sumReservedCapacity ::
  "string \<Rightarrow> bool \<Rightarrow> (Instance \<Rightarrow> int64) \<Rightarrow> db \<Rightarrow> int64 result" where
  "sumReservedCapacity excludeName includeDeleted meas d =
     bindR (wrapE ''list instances for capacity'' (ListInstances includeDeleted d)) (\<lambda>insts.
     Inr (sum64 0 (map meas (filter (\<lambda>i. \<not> EqualFold (iName i) excludeName) insts))))"

definition fixed_reservation :: "host_env \<Rightarrow> Config \<Rightarrow> Instance \<Rightarrow> int64" where
  "fixed_reservation env c i =
     (if instanceReservesFixedHostMemory env i
      then FixedMemoryLimitBytes (effectiveMemoryMiB c (iMemoryMiB i)) else 0)"

definition totalReservedHostMemoryBytes :: "host_env \<Rightarrow> Config \<Rightarrow> string \<Rightarrow> db \<Rightarrow> int64 result" where
  "totalReservedHostMemoryBytes env c excludeName d =
     bindR (sumReservedCapacity excludeName False (fixed_reservation env c) d) (\<lambda>fixed.
     bindR (wrapE ''list memory pools for memory capacity'' (ListMemoryPools d)) (\<lambda>pools.
     Inr (wrap64 (fixed + sum64 0 (map pReservedBytes pools)))))"

definition ensureHostMemoryReservationCapacity ::
  "host_env \<Rightarrow> Config \<Rightarrow> string \<Rightarrow> int64 \<Rightarrow> db \<Rightarrow> unit result" where
  "ensureHostMemoryReservationCapacity env c excludeName requested d =
     bindR (wrapE ''read host memory status'' (heMemory env)) (\<lambda>total.
     bindR (totalReservedHostMemoryBytes env c excludeName d) (\<lambda>reserved.
     let budget = max (wrap64 (total - hostMemoryReserveMiB * MiB)) 0 in
     failIf (wrap64 (reserved + requested) > budget)
       (ErrMsg ''insufficient host memory reservation budget'')))"

definition ensureHostMemoryCapacity ::
  "host_env \<Rightarrow> Config \<Rightarrow> string \<Rightarrow> int64 \<Rightarrow> db \<Rightarrow> unit result" where
  "ensureHostMemoryCapacity env c excludeName memoryMiB d =
     ensureHostMemoryReservationCapacity env c excludeName (FixedMemoryLimitBytes memoryMiB) d"

definition ensureHostDiskCapacity :: "host_env \<Rightarrow> Config \<Rightarrow> unit result" where
  "ensureHostDiskCapacity env c =
     bindR (wrapE ''read filesystem status'' (heUsage env (InstancesDir c))) (\<lambda>u.
     wrapE ''host disk capacity'' (CheckAvailableSpace (fsAvailable u) 0))"

definition ensureMemoryPoolSupportsGuestMemory :: "MemoryPool \<Rightarrow> int64 \<Rightarrow> unit result" where
  "ensureMemoryPoolSupportsGuestMemory pool memoryMiB =
     failIf (wrap64 (memoryMiB * MiB) > pReservedBytes pool)
       (ErrMsg ''guest-visible memory exceeds memory pool reservation'')"

definition requireMemoryPoolByName :: "string \<Rightarrow> db \<Rightarrow> MemoryPool result" where
  "requireMemoryPoolByName name d =
     bindR (wrapE ''load memory pool'' (FindMemoryPoolByName name d)) (\<lambda>found.
     case found of None \<Rightarrow> Inl (ErrMsg ''memory pool does not exist'')
     | Some pool \<Rightarrow> bindR (CheckMemoryPoolResize (pID pool) d) (\<lambda>_. Inr pool))"

definition memoryPoolForInstance :: "Instance \<Rightarrow> db \<Rightarrow> MemoryPool option result" where
  "memoryPoolForInstance i d =
     (if \<not> UsesMemoryPool i then Inr None
      else bindR (wrapE ''load memory pool for instance'' (GetMemoryPoolByID (iMemoryPoolID i) d))
        (\<lambda>pool. Inr (Some pool)))"

definition requireMemoryPoolForInstance :: "Instance \<Rightarrow> db \<Rightarrow> MemoryPool result" where
  "requireMemoryPoolForInstance i d =
     bindR (memoryPoolForInstance i d) (\<lambda>found.
     case found of None \<Rightarrow> Inl (ErrMsg ''instance does not use a memory pool'')
     | Some pool \<Rightarrow> bindR (CheckMemoryPoolResize (pID pool) d) (\<lambda>_. Inr pool))"

subsection \<open>The capacity summary and placement\<close>

record CapacityResource =
  rsResource :: string
  rsAllocated :: int64
  rsBudget :: int64
  rsLeft :: int64
  rsTotal :: int64
  rsFilesystem :: "(int64 \<times> int64) option"
  rsReserve :: int64
  rsFixedReserved :: int64
  rsPoolReserved :: int64
  rsPoolCount :: nat

record CapacitySummary_t =
  csTotal :: nat
  csRunning :: nat
  csByState :: "inst_state \<Rightarrow> nat"
  csCapacity :: "CapacityResource list"

definition CapacitySummary :: "host_env \<Rightarrow> Config \<Rightarrow> db \<Rightarrow> CapacitySummary_t result" where
  "CapacitySummary env c d =
     bindR (wrapE ''list instances'' (ListInstances False d)) (\<lambda>insts.
     bindR (wrapE ''list memory pools'' (ListMemoryPools d)) (\<lambda>pools.
     let running = filter (instanceHasActiveRuntime env) insts;
         vcpus = sum64 0 (map (\<lambda>i. effectiveVCPUCount c (iVCPUCount i)) running);
         fixed = sum64 0 (map (\<lambda>i. FixedMemoryLimitBytes (effectiveMemoryMiB c (iMemoryMiB i)))
           (filter (instanceReservesFixedHostMemory env) insts));
         pooled = sum64 0 (map pReservedBytes pools);
         allocated = wrap64 (fixed + pooled)
     in
     bindR (wrapE ''read host memory status'' (heMemory env)) (\<lambda>total.
     let reserve = hostMemoryReserveMiB * MiB; budget = max (wrap64 (total - reserve)) 0;
         path = (case heStat env (InstancesDir c) of
           Inl e \<Rightarrow> if errors_is e ErrNotExist then cfgDataDirAbs c else InstancesDir c
         | Inr _ \<Rightarrow> InstancesDir c)
     in
     bindR (wrapE ''read filesystem status'' (heUsage env path)) (\<lambda>u.
     Inr \<lparr>csTotal = length insts, csRunning = length running,
       csByState = (\<lambda>s. length (filter (\<lambda>i. iState i = s) insts)),
       csCapacity =
        [\<lparr>rsResource = ''cpu'', rsAllocated = vcpus, rsBudget = heNumCPU env,
           rsLeft = wrap64 (heNumCPU env - vcpus), rsTotal = heNumCPU env, rsFilesystem = None,
           rsReserve = 0, rsFixedReserved = 0, rsPoolReserved = 0, rsPoolCount = 0\<rparr>,
         \<lparr>rsResource = ''memory'', rsAllocated = allocated, rsBudget = budget,
           rsLeft = wrap64 (budget - allocated), rsTotal = total, rsFilesystem = None,
           rsReserve = reserve, rsFixedReserved = fixed, rsPoolReserved = pooled,
           rsPoolCount = length pools\<rparr>,
         \<lparr>rsResource = ''disk'', rsAllocated = fsUsed u,
           rsBudget = wrap64 (fsTotal u - DiskRuntimeFloorBytes),
           rsLeft = wrap64 (fsAvailable u - DiskRuntimeFloorBytes), rsTotal = fsTotal u,
           rsFilesystem = Some (fsUsed u, fsAvailable u), rsReserve = DiskRuntimeFloorBytes,
           rsFixedReserved = 0, rsPoolReserved = 0, rsPoolCount = 0\<rparr>]\<rparr>))))"

record Placement =
  plEligible :: bool
  plReason :: "error option"
  plMemoryLeftMiB :: int64
  plDiskLeftBytes :: int64

definition placement_vacant :: "string \<Rightarrow> db \<Rightarrow> unit result" where
  "placement_vacant name d =
     bindR (FindInstance name d) (\<lambda>found.
     case found of None \<Rightarrow> Inr ()
     | Some i \<Rightarrow>
       bindR (failIf (iState i \<noteq> StateDeleted) (ErrMsg ''instance name is already in use'')) (\<lambda>_.
       case GetMigration (iID i) d of
         Inl e \<Rightarrow> if errors_is e ErrNoRows then Inr () else Inl e
       | Inr m \<Rightarrow> failIf (mgPhase m \<noteq> Completed \<and> mgPhase m \<noteq> Aborted)
           (ErrMsg ''instance is fenced by migration'')))"

text \<open>The loop over the summary's resources fills the two remaining-capacity fields, which keep what
  was computed before an error.\<close>

fun placement_left ::
  "CreateOptions \<Rightarrow> bool \<Rightarrow> CapacityResource list \<Rightarrow> int64 \<times> int64 \<Rightarrow> unit result \<times> int64 \<times> int64" where
  "placement_left r importing [] (m, k) = (Inr (), m, k)"
| "placement_left r importing (x # xs) (m, k) =
     (if rsResource x = ''memory'' then
        let left = (if coMemoryPoolName r = [] then wrap64 (rsLeft x - FixedMemoryLimitBytes (coMemoryMiB r))
          else rsLeft x)
        in placement_left r importing xs (left sdiv MiB, k)
      else if rsResource x = ''disk'' then
        (case rsFilesystem x of
           None \<Rightarrow> (Inl (ErrMsg ''disk placement requires measured filesystem availability''), m, k)
         | Some (_, available) \<Rightarrow>
           if importing \<and> coRootFSSizeBytes r > max_int64 - 2 * portableLogMaxSize
           then (Inl (ErrMsg ''import disk payload estimate overflows''), m, k)
           else let payload = (if importing then wrap64 (coRootFSSizeBytes r + 2 * portableLogMaxSize) else 0)
             in case CheckAvailableSpace available payload of
               Inl e \<Rightarrow> (Inl e, m, k)
             | Inr _ \<Rightarrow> placement_left r importing xs (m, wrap64 (rsLeft x - payload)))
      else placement_left r importing xs (m, k))"

definition placement_check ::
  "host_env \<Rightarrow> Config \<Rightarrow> string \<Rightarrow> CreateOptions \<Rightarrow> bool \<Rightarrow> db \<Rightarrow>
    (CreateOptions \<times> CapacityResource list) result" where
  "placement_check env c name opts importing d =
     bindR (failIf (\<not> validName name) (ErrMsg ''invalid instance name'')) (\<lambda>_.
     bindR (placement_vacant name d) (\<lambda>_.
     bindR (ResolveImage c (coImage opts)) (\<lambda>img.
     bindR (wrapE ''image unavailable'' (mapR (heStat env)
       (imKernel img # (if importing then [] else [imRootFS img]) @
        (if imInitrd img \<noteq> [] then [imInitrd img] else [])))) (\<lambda>_.
     bindR (if importing
       then bindR (failIf (coRootFSSizeBytes opts \<le> 0 \<or> coVCPUCount opts \<le> 0 \<or> coMemoryMiB opts \<le> 0)
         (ErrMsg ''import placement requires an explicit positive disk, CPU and RAM shape'')) (\<lambda>_. Inr 0)
       else wrapE ''stat rootfs'' (heStat env (imRootFS img))) (\<lambda>baseSize.
     bindR (resolveCreateOptions c opts baseSize) (\<lambda>(r, _).
     bindR (if coMemoryPoolName r \<noteq> []
       then bindR (requireMemoryPoolByName (coMemoryPoolName r) d) (\<lambda>pool.
         ensureMemoryPoolSupportsGuestMemory pool (coMemoryMiB r))
       else ensureHostMemoryCapacity env c [] (coMemoryMiB r) d) (\<lambda>_.
     bindR (ensureHostDiskCapacity env c) (\<lambda>_.
     bindR (CapacitySummary env c d) (\<lambda>s.
     Inr (r, csCapacity s))))))))))"

definition placement :: "host_env \<Rightarrow> Config \<Rightarrow> string \<Rightarrow> CreateOptions \<Rightarrow> bool \<Rightarrow> db \<Rightarrow> Placement" where
  "placement env c name opts importing d =
     (case placement_check env c name opts importing d of
       Inl e \<Rightarrow> \<lparr>plEligible = False, plReason = Some e, plMemoryLeftMiB = 0, plDiskLeftBytes = 0\<rparr>
     | Inr (r, resources) \<Rightarrow>
       (case placement_left r importing resources (0, 0) of
         (Inl e, m, k) \<Rightarrow> \<lparr>plEligible = False, plReason = Some e, plMemoryLeftMiB = m, plDiskLeftBytes = k\<rparr>
       | (Inr _, m, k) \<Rightarrow> \<lparr>plEligible = True, plReason = None, plMemoryLeftMiB = m, plDiskLeftBytes = k\<rparr>))"

end
