(* ===== verification/Pools.thy ===== *)
theory Pools
  imports Capacity
begin

section \<open>Memory pools\<close>

text \<open>
  Creating, resizing and deleting a memory pool: the control plane's side in
  src/internal/provision/provision.go and the privileged runner's side in
  src/internal/vmrunner/pools.go. A resize is a two-phase operation: the database holds a fence and
  the larger of the two reservations while the runner changes the limit of the pool's control
  group, and the runner keeps a receipt per request so that a repeated or delayed message has no
  further effect. \<open>newID\<close> is a fresh identifier of the \<open>uuid\<close> package.
\<close>

subsection \<open>The fences of an instance\<close>

definition upgradeFence :: "host_env \<Rightarrow> string \<Rightarrow> unit result" where
  "upgradeFence env name =
     (case heUpgradePending env name of
       Inl e \<Rightarrow> if errors_is e ErrNotExist then Inr () else Inl e
     | Inr pending \<Rightarrow> failIf pending (ErrMsg ''incomplete kernel upgrade''))"

definition MigrationStatus :: "string \<Rightarrow> db \<Rightarrow> Migration result" where
  "MigrationStatus name d = bindR (GetInstance name d) (\<lambda>i. GetMigration (iID i) d)"

definition migrationOnlyFence :: "string \<Rightarrow> db \<Rightarrow> unit result" where
  "migrationOnlyFence name d =
     bindR (GetInstance name d) (\<lambda>i.
     bindR (CheckCleanupFence (iID i) d) (\<lambda>_.
     bindR (case GetImportReceipt (iID i) d of
         Inl e \<Rightarrow> if errors_is e ErrNoRows then Inr () else Inl e
       | Inr r \<Rightarrow> failIf (irPhase r \<noteq> Imported) (ErrMsg ''instance is fenced by incomplete import'')) (\<lambda>_.
     case MigrationStatus name d of
       Inl e \<Rightarrow> if errors_is e ErrNoRows then Inr () else Inl e
     | Inr m \<Rightarrow> failIf (mgPhase m \<noteq> Aborted) (ErrMsg ''instance is fenced by migration''))))"

definition migrationFence :: "host_env \<Rightarrow> string \<Rightarrow> db \<Rightarrow> unit result" where
  "migrationFence env name d = bindR (upgradeFence env name) (\<lambda>_. migrationOnlyFence name d)"

subsection \<open>The runner's side\<close>

record ResizeMemoryPoolRequest =
  rqRequestID :: string
  rqPoolName :: string
  rqSizeBytes :: int64
  rqRunning :: bool

record memoryPoolResizeResult =
  prRequest :: ResizeMemoryPoolRequest
  prDone :: bool
  prError :: "error option"

text \<open>A pool's control group, found by the trimmed name (\<open>directChildPath\<close>): \<open>memory.max\<close> (0 stands for the text \<open>max\<close>) and \<open>memory.current\<close>.\<close>

record pool_cgroup =
  cgMax :: int64
  cgCurrent :: "int64 result"

record runner_pools =
  rpReceipts :: "string \<Rightarrow> memoryPoolResizeResult option"
  rpCgroups :: "string \<Rightarrow> pool_cgroup option"

definition resizeMemoryPoolCgroup :: "ResizeMemoryPoolRequest \<Rightarrow> runner_pools \<Rightarrow> runner_pools result" where
  "resizeMemoryPoolCgroup req s =
     (case rpCgroups s (TrimSpace (rqPoolName req)) of
       None \<Rightarrow> if \<not> rqRunning req then Inr s else Inl ErrNotExist
     | Some g \<Rightarrow>
       if cgMax g = rqSizeBytes req then Inr s
       else
         let headroom = max (256 * MiB) (rqSizeBytes req sdiv 10) in
         bindR (if cgMax g = 0 \<or> rqSizeBytes req < cgMax g
           then bindR (cgCurrent g) (\<lambda>current.
             bindR (failIf (current < 0) (ErrMsg ''invalid pool memory usage'')) (\<lambda>_.
             failIf (current > 0 \<and> current > wrap64 (rqSizeBytes req - headroom))
               (ErrMsg ''memory pool is too busy to shrink'')))
           else Inr ()) (\<lambda>_.
         Inr (s\<lparr>rpCgroups := (rpCgroups s)(TrimSpace (rqPoolName req) \<mapsto> g\<lparr>cgMax := rqSizeBytes req\<rparr>)\<rparr>)))"

text \<open>The three durable steps of \<open>resizeMemoryPool\<close>: write the receipt, change the control group,
  complete the receipt. A crash leaves the state after any prefix of them.\<close>

definition resize_receipt :: "ResizeMemoryPoolRequest \<Rightarrow> runner_pools \<Rightarrow> memoryPoolResizeResult result" where
  "resize_receipt req s =
     (case rpReceipts s (rqRequestID req) of
       None \<Rightarrow> Inr \<lparr>prRequest = req, prDone = False, prError = None\<rparr>
     | Some r \<Rightarrow>
       bindR (failIf (prRequest r \<noteq> req) (ErrMsg ''pool resize request ID reused with different arguments''))
         (\<lambda>_. Inr r))"

definition write_receipt :: "memoryPoolResizeResult \<Rightarrow> runner_pools \<Rightarrow> runner_pools" where
  "write_receipt r s = s\<lparr>rpReceipts := (rpReceipts s)(rqRequestID (prRequest r) \<mapsto> r)\<rparr>"

definition resizeMemoryPool ::
  "ResizeMemoryPoolRequest \<Rightarrow> runner_pools \<Rightarrow> memoryPoolResizeResult result \<times> runner_pools" where
  "resizeMemoryPool req s =
     (case resize_receipt req s of
       Inl e \<Rightarrow> (Inl e, s)
     | Inr r \<Rightarrow>
       let s1 = write_receipt r s in
       if prDone r then (Inr r, s1)
       else case resizeMemoryPoolCgroup req s1 of
         Inl e \<Rightarrow> let r = r\<lparr>prError := Some e, prDone := True\<rparr> in (Inr r, write_receipt r s1)
       | Inr s2 \<Rightarrow> let r = r\<lparr>prDone := True\<rparr> in (Inr r, write_receipt r s2))"

definition deleteMemoryPoolCgroup :: "string \<Rightarrow> runner_pools \<Rightarrow> runner_pools" where
  "deleteMemoryPoolCgroup name s = s\<lparr>rpCgroups := (rpCgroups s)(TrimSpace name := None)\<rparr>"

text \<open>The first start of a member materialises the control group with the pool's reservation.\<close>

definition prepareMemoryPoolCgroupParent :: "string \<Rightarrow> int64 \<Rightarrow> runner_pools \<Rightarrow> runner_pools result" where
  "prepareMemoryPoolCgroupParent name sizeBytes s =
     bindR (failIf (\<not> validName (TrimSpace name)) (ErrMsg ''invalid memory pool name'')) (\<lambda>_.
     bindR (failIf (sizeBytes < 1) (ErrMsg ''memory pool size bytes is invalid'')) (\<lambda>_.
     let key = TrimSpace name in
     Inr (s\<lparr>rpCgroups := (rpCgroups s)(key \<mapsto> (case rpCgroups s key of
       Some g \<Rightarrow> g\<lparr>cgMax := sizeBytes\<rparr> | None \<Rightarrow> \<lparr>cgMax = sizeBytes, cgCurrent = Inr 0\<rparr>))\<rparr>)))"

subsection \<open>The control plane's side\<close>

definition CreateMemoryPool_prov ::
  "time \<Rightarrow> string \<Rightarrow> host_env \<Rightarrow> Config \<Rightarrow> string \<Rightarrow> Actor \<Rightarrow> int64 \<Rightarrow> db \<Rightarrow> (MemoryPool \<times> db) result" where
  "CreateMemoryPool_prov now newID env c name actor sizeBytes d =
     bindR (failIf (\<not> validName name) (ErrMsg ''invalid memory pool name'')) (\<lambda>_.
     bindR (failIf (sizeBytes \<le> 0) (ErrMsg ''memory pool size must be positive'')) (\<lambda>_.
     bindR (ensureHostMemoryReservationCapacity env c [] sizeBytes d) (\<lambda>_.
     let pool = \<lparr>pID = newID, pName = name, pReservedBytes = sizeBytes, pCreatedAt = now,
           pUpdatedAt = now, pCreatedByUser = UserLogin actor, pCreatedByNode = NodeName actor\<rparr>
     in bindR (CreateMemoryPool now pool d) (\<lambda>d'. Inr (pool, d')))))"

text \<open>The check of the pool's members; \<open>running\<close> says whether one of them is ready.\<close>

fun check_members :: "host_env \<Rightarrow> Config \<Rightarrow> MemoryPool \<Rightarrow> db \<Rightarrow> Instance list \<Rightarrow> bool \<Rightarrow> bool result" where
  "check_members env c pool d [] running = Inr running"
| "check_members env c pool d (i # rest) running =
     (if iMemoryPoolID i \<noteq> pID pool then check_members env c pool d rest running
      else
        bindR (failIf (iState i \<noteq> StateReady \<and> (iState i \<noteq> StateStopped \<or> iFirecrackerPID i \<noteq> 0))
          (ErrMsg ''memory pool member must be ready or stopped before resizing'')) (\<lambda>_.
        bindR (migrationFence env (iName i) d) (\<lambda>_.
        bindR (ensureMemoryPoolSupportsGuestMemory pool (effectiveMemoryMiB c (iMemoryMiB i))) (\<lambda>_.
        check_members env c pool d rest (running \<or> iState i = StateReady)))))"

text \<open>\<open>ResizeMemoryPool\<close> up to the message to the runner: the pool as it is now recorded and the
  operation to carry out, either the pending one or a new one whose fence is persisted.\<close>

definition resize_admit ::
  "time \<Rightarrow> string \<Rightarrow> host_env \<Rightarrow> Config \<Rightarrow> string \<Rightarrow> int64 \<Rightarrow> db \<Rightarrow> (MemoryPool \<times> MemoryPoolResize \<times> db) result" where
  "resize_admit now newID env c name sizeBytes d =
     bindR (failIf (sizeBytes \<le> 0) (ErrMsg ''memory pool size must be positive'')) (\<lambda>_.
     bindR (GetMemoryPoolByName name d) (\<lambda>pool.
     let op = PendingMemoryPoolResize (pID pool) d in
     if opRequestID op \<noteq> [] then
       bindR (failIf (opSizeBytes op \<noteq> sizeBytes) (ErrMsg ''memory pool resize pending; retry pool resize''))
         (\<lambda>_. Inr (pool, op, d))
     else
       let previousSize = pReservedBytes pool; pool = pool\<lparr>pReservedBytes := sizeBytes\<rparr> in
       bindR (ListInstances False d) (\<lambda>insts.
       bindR (check_members env c pool d insts False) (\<lambda>running.
       bindR (if sizeBytes > previousSize
         then ensureHostMemoryReservationCapacity env c [] (wrap64 (sizeBytes - previousSize)) d else Inr ()) (\<lambda>_.
       let pool = pool\<lparr>pReservedBytes := max previousSize sizeBytes,
             pUpdatedAt := (if sizeBytes > previousSize then now else pUpdatedAt pool)\<rparr>;
           op = \<lparr>opRequestID = newID, opSizeBytes = sizeBytes, opRunning = running\<rparr>
       in bindR (BeginMemoryPoolResize now pool op d) (\<lambda>d'. Inr (pool, op, d')))))))"

text \<open>What the call to the runner told the control plane.\<close>

datatype resize_outcome = ResizeDone | ResizeRejected error | ResizeUnknown error

definition resize_message :: "MemoryPool \<Rightarrow> MemoryPoolResize \<Rightarrow> ResizeMemoryPoolRequest" where
  "resize_message pool op = \<lparr>rqRequestID = opRequestID op, rqPoolName = pName pool,
     rqSizeBytes = opSizeBytes op, rqRunning = opRunning op\<rparr>"

definition resize_reply :: "ResizeMemoryPoolRequest \<Rightarrow> memoryPoolResizeResult result \<Rightarrow> resize_outcome" where
  "resize_reply req answer =
     (case answer of
       Inl e \<Rightarrow> ResizeUnknown e
     | Inr r \<Rightarrow> if \<not> prDone r \<or> prRequest r \<noteq> req then ResizeUnknown (ErrMsg ''pool resize outcome unknown'')
         else case prError r of Some e \<Rightarrow> ResizeRejected e | None \<Rightarrow> ResizeDone)"

definition finishMemoryPoolResize ::
  "time \<Rightarrow> MemoryPool \<Rightarrow> MemoryPoolResize \<Rightarrow> resize_outcome \<Rightarrow> db \<Rightarrow> MemoryPool result \<times> db" where
  "finishMemoryPoolResize now pool op outcome d =
     (case outcome of
       ResizeUnknown e \<Rightarrow> (Inl (ErrWrap (ErrMsg ''pool resize pending, reservation retained'') e), d)
     | ResizeRejected e \<Rightarrow>
       (case FinishMemoryPoolResize now pool (opRequestID op) d of
          Inl f \<Rightarrow> (Inl (ErrWrap e f), d) | Inr d' \<Rightarrow> (Inl e, d'))
     | ResizeDone \<Rightarrow>
       let pool = (if pReservedBytes pool \<noteq> opSizeBytes op
             then pool\<lparr>pReservedBytes := opSizeBytes op, pUpdatedAt := now\<rparr> else pool)
       in case FinishMemoryPoolResize now pool (opRequestID op) d of
          Inl f \<Rightarrow> (Inl f, d) | Inr d' \<Rightarrow> (Inr pool, d'))"

text \<open>The whole command, with the call to the runner answered at once.\<close>

definition ResizeMemoryPool ::
  "time \<Rightarrow> string \<Rightarrow> host_env \<Rightarrow> Config \<Rightarrow> string \<Rightarrow> int64 \<Rightarrow> db \<times> runner_pools \<Rightarrow>
    MemoryPool result \<times> db \<times> runner_pools" where
  "ResizeMemoryPool now newID env c name sizeBytes st =
     (case st of (d, s) \<Rightarrow>
     case resize_admit now newID env c name sizeBytes d of
       Inl e \<Rightarrow> (Inl e, d, s)
     | Inr (pool, op, d1) \<Rightarrow>
       let (answer, s1) = resizeMemoryPool (resize_message pool op) s;
           (r, d2) = finishMemoryPoolResize now pool op (resize_reply (resize_message pool op) answer) d1
       in (r, d2, s1))"

definition DeleteMemoryPool_prov :: "string \<Rightarrow> db \<times> runner_pools \<Rightarrow> (MemoryPool \<times> db \<times> runner_pools) result" where
  "DeleteMemoryPool_prov name st =
     (case st of (d, s) \<Rightarrow>
     bindR (FindMemoryPoolByName name d) (\<lambda>found.
     case found of None \<Rightarrow> Inl (ErrMsg ''memory pool does not exist'')
     | Some pool \<Rightarrow>
       bindR (CheckMemoryPoolResize (pID pool) d) (\<lambda>_.
       bindR (failIf (CountMemoryPoolMembers (pID pool) d > 0) (ErrMsg ''memory pool still has member VMs'')) (\<lambda>_.
       let s' = deleteMemoryPoolCgroup (pName pool) s in
       bindR (DeleteMemoryPool (pID pool) d) (\<lambda>d'. Inr (pool, d', s'))))))"

end
