(* ===== verification/PoolProofs.thy ===== *)
theory PoolProofs
  imports Pools Transitions StoreProofs
begin

section \<open>Pool limits stay within their reservations\<close>

text \<open>
  The control plane and the runner as one system: messages to the runner may be lost, repeated and
  delayed arbitrarily, and the runner may crash between its durable steps. The reservation that the
  database accounts for never falls below the limit the runner enforces.
\<close>

record pool_sys =
  psDB :: db
  psRunner :: runner_pools
  psSent :: "ResizeMemoryPoolRequest set"

datatype pool_event =
    PCreate | PAdmit | PDeliver | PCrash | PFinish | PDelete | PStart

inductive pool_step :: "pool_sys \<Rightarrow> pool_event \<Rightarrow> pool_sys \<Rightarrow> bool" where
  create: "CreateMemoryPool_prov now newID env c name actor size0 (psDB t) = Inr (pool, d') \<Longrightarrow>
    pool_step t PCreate (t\<lparr>psDB := d'\<rparr>)"
| admit: "resize_admit now newID env c name size0 (psDB t) = Inr (pool, op, d') \<Longrightarrow>
    newID \<noteq> [] \<Longrightarrow> \<forall>m \<in> psSent t. rqRequestID m \<noteq> newID \<Longrightarrow>
    pool_step t PAdmit (t\<lparr>psDB := d', psSent := insert (resize_message pool op) (psSent t)\<rparr>)"
| deliver: "m \<in> psSent t \<Longrightarrow> resizeMemoryPool m (psRunner t) = (answer, s') \<Longrightarrow>
    pool_step t PDeliver (t\<lparr>psRunner := s'\<rparr>)"
| crash_receipt: "m \<in> psSent t \<Longrightarrow> resize_receipt m (psRunner t) = Inr r \<Longrightarrow>
    pool_step t PCrash (t\<lparr>psRunner := write_receipt r (psRunner t)\<rparr>)"
| crash_cgroup: "m \<in> psSent t \<Longrightarrow> resize_receipt m (psRunner t) = Inr r \<Longrightarrow> \<not> prDone r \<Longrightarrow>
    resizeMemoryPoolCgroup m (write_receipt r (psRunner t)) = Inr s' \<Longrightarrow>
    pool_step t PCrash (t\<lparr>psRunner := s'\<rparr>)"
| finish: "GetMemoryPoolByName name (psDB t) = Inr pool \<Longrightarrow>
    op = PendingMemoryPoolResize (pID pool) (psDB t) \<Longrightarrow> opRequestID op \<noteq> [] \<Longrightarrow>
    rpReceipts (psRunner t) (opRequestID op) = Some r \<Longrightarrow>
    finishMemoryPoolResize now pool op (resize_reply (resize_message pool op) (Inr r)) (psDB t) = (res, d') \<Longrightarrow>
    pool_step t PFinish (t\<lparr>psDB := d'\<rparr>)"
| delete: "DeleteMemoryPool_prov name (psDB t, psRunner t) = Inr (pool, d', s') \<Longrightarrow>
    pool_step t PDelete (t\<lparr>psDB := d', psRunner := s'\<rparr>)"
| start: "requireMemoryPoolByName name (psDB t) = Inr pool \<Longrightarrow>
    prepareMemoryPoolCgroupParent (pName pool) (pReservedBytes pool) (psRunner t) = Inr s' \<Longrightarrow>
    pool_step t PStart (t\<lparr>psRunner := s'\<rparr>)"

inductive_cases pool_stepE: "pool_step t e t'"

definition pool_start :: "pool_sys \<Rightarrow> bool" where
  "pool_start t \<longleftrightarrow> memory_pools (psDB t) = [] \<and> memory_pool_resizes (psDB t) = [] \<and>
     psSent t = {} \<and> rpCgroups (psRunner t) = Map.empty \<and> rpReceipts (psRunner t) = Map.empty"

subsection \<open>The invariant\<close>

text \<open>The message of a pending operation.\<close>

definition pending_message :: "string memory_pool_of \<Rightarrow> pool_resize_row \<Rightarrow> ResizeMemoryPoolRequest" where
  "pending_message p z = \<lparr>rqRequestID = rzRequestID z, rqPoolName = pName p,
     rqSizeBytes = rzSizeBytes z, rqRunning = rzRunning z\<rparr>"

definition limit_within :: "runner_pools \<Rightarrow> string \<Rightarrow> int64 \<Rightarrow> bool" where
  "limit_within s n b \<longleftrightarrow> (\<forall>g. rpCgroups s n = Some g \<longrightarrow> 0 < cgMax g \<and> cgMax g \<le> b)"

definition sent_ok :: "string memory_pool_of list \<Rightarrow> pool_resize_row list \<Rightarrow> runner_pools \<Rightarrow>
    ResizeMemoryPoolRequest \<Rightarrow> bool" where
  "sent_ok P Z s m \<longleftrightarrow> (\<exists>r. rpReceipts s (rqRequestID m) = Some r \<and> prDone r \<and> prRequest r = m) \<or>
     (\<exists>z \<in> set Z. \<exists>p \<in> set P. pID p = rzPoolID z \<and> m = pending_message p z)"

definition pending_ok :: "string memory_pool_of list \<Rightarrow> runner_pools \<Rightarrow> pool_resize_row \<Rightarrow> bool" where
  "pending_ok P s z \<longleftrightarrow> rzRequestID z \<noteq> [] \<and> (\<exists>p \<in> set P. pID p = rzPoolID z \<and>
     0 < rzSizeBytes z \<and> rzSizeBytes z \<le> pReservedBytes p \<and>
     (\<forall>r. rpReceipts s (rzRequestID z) = Some r \<longrightarrow> prRequest r = pending_message p z \<longrightarrow>
       prDone r \<and> prError r = None \<longrightarrow> limit_within s (pName p) (rzSizeBytes z)))"

definition pools_ok :: "string memory_pool_of list \<Rightarrow> pool_resize_row list \<Rightarrow> runner_pools \<Rightarrow> bool" where
  "pools_ok P Z s \<longleftrightarrow>
     is_key pID P \<and> is_key pName P \<and> is_key rzPoolID Z \<and> is_key rzRequestID Z \<and>
     (\<forall>p \<in> set P. validName (pName p) \<and> 0 < pReservedBytes p \<and> limit_within s (pName p) (pReservedBytes p)) \<and>
     (\<forall>n. rpCgroups s n \<noteq> None \<longrightarrow> (\<exists>p \<in> set P. pName p = n)) \<and>
     (\<forall>z \<in> set Z. pending_ok P s z)"

definition pool_inv :: "pool_sys \<Rightarrow> bool" where
  "pool_inv t \<longleftrightarrow> pools_ok (memory_pools (psDB t)) (memory_pool_resizes (psDB t)) (psRunner t) \<and>
     (\<forall>m \<in> psSent t. sent_ok (memory_pools (psDB t)) (memory_pool_resizes (psDB t)) (psRunner t) m) \<and>
     (\<forall>q r. rpReceipts (psRunner t) q = Some r \<longrightarrow> (\<exists>m \<in> psSent t. rqRequestID m = q))"

lemma validName_trim: "validName n \<Longrightarrow> TrimSpace n = n"
  by (rule TrimSpace_no_space) (auto simp: validName_def list_all_iff lower_alnum_def is_digit_def is_space_def)

lemma GetMemoryPoolByName_row:
  assumes "GetMemoryPoolByName name d = Inr pool"
  obtains p where "p \<in> set (memory_pools d)" "pName p = name" "pName pool = name"
    "pID pool = pID p" "pReservedBytes pool = pReservedBytes p"
  using assms that
  by (auto simp: GetMemoryPoolByName_def scanMemoryPool_def result_simps split: option.splits dest!: row_find_Some)

lemma pending_row:
  assumes "opRequestID (PendingMemoryPoolResize q d) \<noteq> []"
  obtains z where "z \<in> set (memory_pool_resizes d)" "rzPoolID z = q"
    "PendingMemoryPoolResize q d = \<lparr>opRequestID = rzRequestID z, opSizeBytes = rzSizeBytes z, opRunning = rzRunning z\<rparr>"
  using assms that
  by (auto simp: PendingMemoryPoolResize_def split: option.splits dest!: row_find_Some)

lemma no_pending_row:
  assumes "opRequestID (PendingMemoryPoolResize q d) = []" "pools_ok P (memory_pool_resizes d) s"
    "z \<in> set (memory_pool_resizes d)"
  shows "rzPoolID z \<noteq> q"
proof
  assume "rzPoolID z = q"
  then have "row_find (\<lambda>r. rzPoolID r = q) (memory_pool_resizes d) = Some z"
    using assms(2,3) row_find_key[of rzPoolID "memory_pool_resizes d" z] by (auto simp: pools_ok_def)
  then show False using assms by (auto simp: PendingMemoryPoolResize_def pools_ok_def pending_ok_def)
qed

subsection \<open>Runner steps\<close>

text \<open>What a delivery can do to the runner: nothing but store a receipt, or set the limit of the
  named pool to the requested size.\<close>

lemma resizeMemoryPoolCgroup_effect:
  assumes "resizeMemoryPoolCgroup m s = Inr s'"
  shows "rpReceipts s' = rpReceipts s"
    and "\<And>n. n \<noteq> TrimSpace (rqPoolName m) \<Longrightarrow> rpCgroups s' n = rpCgroups s n"
    and "\<And>g. rpCgroups s' (TrimSpace (rqPoolName m)) = Some g \<Longrightarrow> cgMax g = rqSizeBytes m \<and>
      rpCgroups s (TrimSpace (rqPoolName m)) \<noteq> None"
  using assms
  by (auto simp: resizeMemoryPoolCgroup_def Let_def result_simps split: option.splits if_splits)

lemma resize_receipt_cases:
  "resize_receipt m s = Inr r \<Longrightarrow> prRequest r = m \<and>
    (rpReceipts s (rqRequestID m) = Some r \<or> rpReceipts s (rqRequestID m) = None \<and> \<not> prDone r)"
  by (auto simp: resize_receipt_def split: option.splits if_splits)

text \<open>Receipts and limits that a pending operation may leave behind.\<close>

lemma pools_ok_runner:
  assumes ok: "pools_ok P Z s" and z: "z \<in> set Z" "p \<in> set P" "pID p = rzPoolID z"
    and rec: "rpReceipts s' = (rpReceipts s)(rzRequestID z \<mapsto> r)"
    and frame: "\<And>n. n \<noteq> pName p \<Longrightarrow> rpCgroups s' n = rpCgroups s n"
    and dom: "rpCgroups s' (pName p) \<noteq> None \<Longrightarrow> rpCgroups s (pName p) \<noteq> None"
    and lim: "limit_within s' (pName p) (rzSizeBytes z) \<or>
      rpCgroups s' (pName p) = rpCgroups s (pName p) \<and> (prDone r \<and> prError r = None \<longrightarrow> rpReceipts s (rzRequestID z) = Some r)"
  shows "pools_ok P Z s'"
proof -
  have keys: "is_key pID P" "is_key pName P" "is_key rzPoolID Z" "is_key rzRequestID Z"
    using ok by (simp_all add: pools_ok_def)
  have one: "x = p" if "x \<in> set P" "pID x = rzPoolID z" for x
    using is_key_eq[OF keys(1) that(1) z(2)] that z(3) by simp
  from ok z(1) have pz: "pending_ok P s z" by (simp add: pools_ok_def)
  then obtain x where "x \<in> set P" "pID x = rzPoolID z" and size': "0 < rzSizeBytes z"
      "rzSizeBytes z \<le> pReservedBytes x" "\<And>r. rpReceipts s (rzRequestID z) = Some r \<Longrightarrow>
        prRequest r = pending_message x z \<Longrightarrow> prDone r \<Longrightarrow> prError r = None \<Longrightarrow> limit_within s (pName x) (rzSizeBytes z)"
    by (auto simp: pending_ok_def)
  with one have size: "0 < rzSizeBytes z" "rzSizeBytes z \<le> pReservedBytes p" and fin: "\<And>r. rpReceipts s (rzRequestID z) = Some r \<Longrightarrow>
        prRequest r = pending_message p z \<Longrightarrow> prDone r \<Longrightarrow> prError r = None \<Longrightarrow> limit_within s (pName p) (rzSizeBytes z)"
    by metis+
  have within: "limit_within s' (pName x) (pReservedBytes x)" if "x \<in> set P" for x
  proof (cases "x = p")
    case True
    from lim ok z(2) size show ?thesis by (fastforce simp: True limit_within_def pools_ok_def)
  next
    case False
    with that z(2) keys(2) have "pName x \<noteq> pName p" by (metis is_key_eq)
    with frame ok that show ?thesis by (simp add: limit_within_def pools_ok_def)
  qed
  have pend: "pending_ok P s' y" if y: "y \<in> set Z" for y
  proof (cases "y = z")
    case True
    have "limit_within s' (pName p) (rzSizeBytes z)"
      if "prRequest r = pending_message p z" "prDone r" "prError r = None"
      using lim fin[of r] that by (auto simp: limit_within_def)
    with z size pz show ?thesis unfolding True pending_ok_def rec by (auto intro!: bexI[of _ p])
  next
    case False
    from False y z(1) keys(3,4) have ne: "rzPoolID y \<noteq> rzPoolID z" "rzRequestID y \<noteq> rzRequestID z"
      by (metis is_key_eq)+
    have other: "limit_within s' (pName x) b = limit_within s (pName x) b"
      if "x \<in> set P" "pID x = rzPoolID y" for x b
    proof -
      from that ne z have "x \<noteq> p" by auto
      with that z(2) keys(2) have "pName x \<noteq> pName p" by (metis is_key_eq)
      with frame show ?thesis by (simp add: limit_within_def)
    qed
    from ok y have "pending_ok P s y" by (simp add: pools_ok_def)
    with ne other show ?thesis unfolding pending_ok_def rec by auto
  qed
  have "\<exists>x \<in> set P. pName x = n" if "rpCgroups s' n \<noteq> None" for n
    using that frame[of n] dom ok z(2) by (cases "n = pName p") (auto simp: pools_ok_def)
  with within pend ok show ?thesis by (auto simp: pools_ok_def)
qed

definition limit_change ::
  "ResizeMemoryPoolRequest \<Rightarrow> memoryPoolResizeResult \<Rightarrow> runner_pools \<Rightarrow> runner_pools \<Rightarrow> bool" where
  "limit_change m r' s s' \<longleftrightarrow> rpCgroups s' = rpCgroups s \<and> (prDone r' \<longrightarrow> prError r' \<noteq> None) \<or>
      (\<exists>s0 s1. resizeMemoryPoolCgroup m s0 = Inr s1 \<and> rpCgroups s0 = rpCgroups s \<and> rpCgroups s' = rpCgroups s1)"

lemma runner_step_ok:
  assumes ok: "pools_ok P Z s" and sent: "sent_ok P Z s m"
    and r: "resize_receipt m s = Inr r" "\<not> prDone r"
    and rec: "rpReceipts s' = (rpReceipts s)(rqRequestID m \<mapsto> r')"
    and cg: "limit_change m r' s s'"
  shows "pools_ok P Z s'"
proof -
  from sent resize_receipt_cases[OF r(1)] r(2) obtain z p where z: "z \<in> set Z" "p \<in> set P"
    "pID p = rzPoolID z" and m: "m = pending_message p z" by (auto simp: sent_ok_def)
  have name: "TrimSpace (rqPoolName m) = pName p"
    using ok z(2) by (simp add: m pending_message_def pools_ok_def validName_trim)
  have pos: "0 < rzSizeBytes z" using ok z(1) by (auto simp: pools_ok_def pending_ok_def)
  have rec': "rpReceipts s' = (rpReceipts s)(rzRequestID z \<mapsto> r')" using rec by (simp add: m pending_message_def)
  from cg show ?thesis unfolding limit_change_def
  proof
    assume "rpCgroups s' = rpCgroups s \<and> (prDone r' \<longrightarrow> prError r' \<noteq> None)"
    then show ?thesis by (intro pools_ok_runner[OF ok z rec']) auto
  next
    assume "\<exists>s0 s1. resizeMemoryPoolCgroup m s0 = Inr s1 \<and> rpCgroups s0 = rpCgroups s \<and> rpCgroups s' = rpCgroups s1"
    then obtain s0 s1 where s1: "resizeMemoryPoolCgroup m s0 = Inr s1" and eq: "rpCgroups s0 = rpCgroups s"
      "rpCgroups s' = rpCgroups s1" by auto
    note eff = resizeMemoryPoolCgroup_effect[OF s1]
    have "limit_within s' (pName p) (rzSizeBytes z)"
      using eff(3) pos unfolding limit_within_def eq name by (simp add: m pending_message_def)
    then show ?thesis
      using eff(2,3) by (intro pools_ok_runner[OF ok z rec']) (auto simp: eq name)
  qed
qed

lemma sent_ok_runner:
  assumes "sent_ok P Z s m'" "resize_receipt m s = Inr r" "\<not> prDone r"
    "rpReceipts s' = (rpReceipts s)(rqRequestID m \<mapsto> r')"
  shows "sent_ok P Z s' m'"
proof -
  have "rpReceipts s' (rqRequestID m') = rpReceipts s (rqRequestID m') \<or>
      \<not> (\<exists>x. rpReceipts s (rqRequestID m') = Some x \<and> prDone x)"
    using assms(3,4) resize_receipt_cases[OF assms(2)] by (cases "rqRequestID m' = rqRequestID m") auto
  with assms(1) show ?thesis unfolding sent_ok_def by metis
qed

lemma sent_ok_delivered:
  assumes "pool_inv t" "m \<in> psSent t" "resize_receipt m (psRunner t) = Inr r" "\<not> prDone r"
    "rpReceipts s' = (rpReceipts (psRunner t))(rqRequestID m \<mapsto> r')"
    "limit_change m r' (psRunner t) s'"
  shows "pool_inv (t\<lparr>psRunner := s'\<rparr>)"
proof -
  have "pools_ok (memory_pools (psDB t)) (memory_pool_resizes (psDB t)) s'"
    using assms by (intro runner_step_ok[OF _ _ assms(3-6)]) (auto simp: pool_inv_def)
  moreover have "sent_ok (memory_pools (psDB t)) (memory_pool_resizes (psDB t)) s' x" if "x \<in> psSent t" for x
    using assms(1) that by (intro sent_ok_runner[OF _ assms(3-5)]) (auto simp: pool_inv_def)
  ultimately show ?thesis using assms(1,2,5) by (auto simp: pool_inv_def)
qed

lemma write_receipt_simps [simp]:
  "rpReceipts (write_receipt r s) = (rpReceipts s)(rqRequestID (prRequest r) \<mapsto> r)"
  "rpCgroups (write_receipt r s) = rpCgroups s"
  by (simp_all add: write_receipt_def)

lemma write_receipt_same:
  "rpReceipts s (rqRequestID (prRequest r)) = Some r \<Longrightarrow> write_receipt r s = s"
  by (simp add: write_receipt_def fun_upd_idem)

lemma pool_inv_crash_receipt:
  assumes "pool_inv t" "m \<in> psSent t" "resize_receipt m (psRunner t) = Inr r"
  shows "pool_inv (t\<lparr>psRunner := write_receipt r (psRunner t)\<rparr>)"
proof (cases "prDone r")
  case True
  with resize_receipt_cases[OF assms(3)] assms(1) show ?thesis by (auto simp: write_receipt_same)
next
  case False
  with resize_receipt_cases[OF assms(3)] show ?thesis
    by (intro sent_ok_delivered[OF assms False, where r' = r]) (auto simp: limit_change_def)
qed

lemma pool_inv_crash_cgroup:
  assumes "pool_inv t" "m \<in> psSent t" "resize_receipt m (psRunner t) = Inr r" "\<not> prDone r"
    "resizeMemoryPoolCgroup m (write_receipt r (psRunner t)) = Inr s'"
  shows "pool_inv (t\<lparr>psRunner := s'\<rparr>)"
proof (rule sent_ok_delivered[OF assms(1-4), where r' = r])
  show "rpReceipts s' = (rpReceipts (psRunner t))(rqRequestID m \<mapsto> r)"
    using resize_receipt_cases[OF assms(3)] resizeMemoryPoolCgroup_effect(1)[OF assms(5)] by simp
  show "limit_change m r (psRunner t) s'"
    using assms(5) unfolding limit_change_def by (metis write_receipt_simps(2))
qed

lemma resizeMemoryPool_steps:
  assumes "resizeMemoryPool m s = (answer, s')" "s' \<noteq> s" "resize_receipt m s = Inr r" "\<not> prDone r"
  obtains r' where "rpReceipts s' = (rpReceipts s)(rqRequestID m \<mapsto> r')" "limit_change m r' s s'"
proof (cases "resizeMemoryPoolCgroup m (write_receipt r s)")
  case (Inl e)
  with assms resize_receipt_cases[OF assms(3)] show ?thesis
    by (intro that[of "r\<lparr>prError := Some e, prDone := True\<rparr>"]) (auto simp: resizeMemoryPool_def Let_def limit_change_def)
next
  case (Inr s2)
  then have s': "s' = write_receipt (r\<lparr>prDone := True\<rparr>) s2"
    using assms by (simp add: resizeMemoryPool_def Let_def)
  show ?thesis
  proof (rule that)
    show "rpReceipts s' = (rpReceipts s)(rqRequestID m \<mapsto> r\<lparr>prDone := True\<rparr>)"
      using resize_receipt_cases[OF assms(3)] resizeMemoryPoolCgroup_effect(1)[OF Inr] by (simp add: s')
    show "limit_change m (r\<lparr>prDone := True\<rparr>) s s'"
      using Inr unfolding limit_change_def s' by (metis write_receipt_simps(2))
  qed
qed

lemma pool_inv_deliver:
  assumes "pool_inv t" "m \<in> psSent t" "resizeMemoryPool m (psRunner t) = (answer, s')"
  shows "pool_inv (t\<lparr>psRunner := s'\<rparr>)"
proof (cases "s' = psRunner t")
  case True
  with assms(1) show ?thesis by simp
next
  case False
  then obtain r where r: "resize_receipt m (psRunner t) = Inr r"
    using assms(3) by (cases "resize_receipt m (psRunner t)") (auto simp: resizeMemoryPool_def)
  show ?thesis
  proof (cases "prDone r")
    case True
    with r assms(3) have "s' = write_receipt r (psRunner t)" by (simp add: resizeMemoryPool_def)
    with pool_inv_crash_receipt[OF assms(1,2) r] show ?thesis by simp
  next
    case undone: False
    from resizeMemoryPool_steps[OF assms(3) False r undone] sent_ok_delivered[OF assms(1,2) r undone]
    show ?thesis by blast
  qed
qed

subsection \<open>Database steps\<close>

text \<open>Changing one pool's reservation, recording an operation, and clearing one.\<close>

abbreviation reserve :: "string \<Rightarrow> int64 \<Rightarrow> string \<Rightarrow> string memory_pool_of list \<Rightarrow> string memory_pool_of list" where
  "reserve i b u P \<equiv> row_update (\<lambda>r. pID r = i) (\<lambda>r. r\<lparr>pReservedBytes := b, pUpdatedAt := u\<rparr>) P"

lemma reserve_mem:
  "x' \<in> set (reserve i b u P) \<longleftrightarrow> (\<exists>x \<in> set P. x' = (if pID x = i then x\<lparr>pReservedBytes := b, pUpdatedAt := u\<rparr> else x))"
  unfolding row_update_def by (simp only: set_map image_iff)

lemma pending_ok_reserve:
  assumes "pending_ok P s z" "rzPoolID z = i \<longrightarrow> rzSizeBytes z \<le> b"
  shows "pending_ok (reserve i b u P) s z"
proof -
  from assms(1) obtain p where p: "p \<in> set P" "pID p = rzPoolID z" "rzRequestID z \<noteq> []"
    "0 < rzSizeBytes z" "rzSizeBytes z \<le> pReservedBytes p"
    "\<And>r. rpReceipts s (rzRequestID z) = Some r \<Longrightarrow> prRequest r = pending_message p z \<Longrightarrow>
       prDone r \<Longrightarrow> prError r = None \<Longrightarrow> limit_within s (pName p) (rzSizeBytes z)"
    by (auto simp: pending_ok_def)
  let ?p = "if pID p = i then p\<lparr>pReservedBytes := b, pUpdatedAt := u\<rparr> else p"
  have "?p \<in> set (reserve i b u P)" using p(1) by (auto simp: set_row_update)
  moreover have "pending_message ?p z = pending_message p z" "pName ?p = pName p" "pID ?p = pID p"
    by (simp_all add: pending_message_def)
  moreover have "rzSizeBytes z \<le> pReservedBytes ?p" using p(2,5) assms(2) by auto
  ultimately show ?thesis unfolding pending_ok_def using p(2,3,4,6)
    by (intro conjI bexI[of _ ?p]) simp_all
qed

lemma sent_ok_reserve: "sent_ok P Z s m \<Longrightarrow> sent_ok (reserve i b u P) Z s m"
proof -
  have "\<exists>x \<in> set (reserve i b u P). pID x = pID p \<and> pending_message x z = pending_message p z"
    if "p \<in> set P" for p z
    by (rule bexI[of _ "if pID p = i then p\<lparr>pReservedBytes := b, pUpdatedAt := u\<rparr> else p"])
      (use that in \<open>auto simp: row_update_def pending_message_def\<close>)
  then show "sent_ok P Z s m \<Longrightarrow> sent_ok (reserve i b u P) Z s m"
    unfolding sent_ok_def by metis
qed

lemma pools_ok_reserve:
  assumes ok: "pools_ok P Z s" and p: "p \<in> set P" "limit_within s (pName p) b" "0 < b"
    and z: "\<And>z. z \<in> set Z \<Longrightarrow> rzPoolID z = pID p \<Longrightarrow> rzSizeBytes z \<le> b"
  shows "pools_ok (reserve (pID p) b u P) Z s"
proof -
  have keys: "is_key pID P" using ok by (simp add: pools_ok_def)
  have same: "x = p" if "x \<in> set P" "pID x = pID p" for x
    using is_key_eq[OF keys that(1) p(1) that(2)] .
  have "is_key pID (reserve (pID p) b u P)" "is_key pName (reserve (pID p) b u P)"
    using ok by (auto simp: pools_ok_def intro!: is_key_update)
  moreover have "validName (pName x') \<and> 0 < pReservedBytes x' \<and> limit_within s (pName x') (pReservedBytes x')"
    if "x' \<in> set (reserve (pID p) b u P)" for x'
  proof -
    from that obtain x where "x \<in> set P" "x' = (if pID x = pID p then x\<lparr>pReservedBytes := b, pUpdatedAt := u\<rparr> else x)"
      unfolding reserve_mem by blast
    with ok p same[of x] show ?thesis by (cases "pID x = pID p") (simp_all add: pools_ok_def)
  qed
  moreover have "\<exists>x' \<in> set (reserve (pID p) b u P). pName x' = n" if "rpCgroups s n \<noteq> None" for n
  proof -
    from that ok obtain x where "x \<in> set P" "pName x = n" by (auto simp: pools_ok_def)
    then show ?thesis
      by (intro bexI[of _ "if pID x = pID p then x\<lparr>pReservedBytes := b, pUpdatedAt := u\<rparr> else x"])
        (auto simp: set_row_update)
  qed
  moreover have "pending_ok (reserve (pID p) b u P) s z" if "z \<in> set Z" for z
    using that ok assms(5) by (intro pending_ok_reserve) (auto simp: pools_ok_def)
  ultimately show ?thesis using ok by (auto simp: pools_ok_def)
qed

lemma pools_ok_begin:
  assumes "pools_ok P Z s" "p \<in> set P" "pID p = rzPoolID z" "rzRequestID z \<noteq> []"
    "0 < rzSizeBytes z" "rzSizeBytes z \<le> pReservedBytes p" "rpReceipts s (rzRequestID z) = None"
    "\<forall>x \<in> set Z. rzPoolID x \<noteq> rzPoolID z \<and> rzRequestID x \<noteq> rzRequestID z"
  shows "pools_ok P (Z @ [z]) s"
  using assms by (auto simp: pools_ok_def is_key_append1 pending_ok_def)

lemma pools_ok_clear: "pools_ok P Z s \<Longrightarrow> pools_ok P (row_delete q Z) s"
  by (auto simp: pools_ok_def is_key_delete set_row_delete)

lemma sent_ok_begin: "sent_ok P Z s m \<Longrightarrow> sent_ok P (Z @ [z]) s m"
  by (auto simp: sent_ok_def)

lemma pool_inv_finish:
  assumes inv: "pool_inv t" and pool: "GetMemoryPoolByName name (psDB t) = Inr pool"
    and op: "op = PendingMemoryPoolResize (pID pool) (psDB t)" "opRequestID op \<noteq> []"
    and r: "rpReceipts (psRunner t) (opRequestID op) = Some r"
    and fin: "finishMemoryPoolResize now pool op (resize_reply (resize_message pool op) (Inr r)) (psDB t) = (res, d')"
  shows "pool_inv (t\<lparr>psDB := d'\<rparr>)"
proof (cases "prDone r \<and> prRequest r = resize_message pool op")
  case False
  with fin have "d' = psDB t" by (auto simp: resize_reply_def finishMemoryPoolResize_def)
  with inv show ?thesis by simp
next
  case True
  let ?P = "memory_pools (psDB t)" and ?Z = "memory_pool_resizes (psDB t)" and ?s = "psRunner t"
  from pool obtain p where p: "p \<in> set ?P" "pName pool = pName p" "pID pool = pID p"
    "pReservedBytes pool = pReservedBytes p" by (auto elim: GetMemoryPoolByName_row)
  from op obtain z where z: "z \<in> set ?Z" "rzPoolID z = pID p"
    "op = \<lparr>opRequestID = rzRequestID z, opSizeBytes = rzSizeBytes z, opRunning = rzRunning z\<rparr>"
    using pending_row[of "pID pool" "psDB t"] p(3) by metis
  have msg: "resize_message pool op = pending_message p z"
    by (simp add: resize_message_def pending_message_def z(3) p(2))
  have ok: "pools_ok ?P ?Z ?s" using inv by (simp add: pool_inv_def)
  have key: "is_key rzPoolID ?Z" "is_key pID ?P" using ok by (simp_all add: pools_ok_def)
  have zeq: "x = z" if "x \<in> set ?Z" "rzPoolID x = pID p" for x
    using is_key_eq[OF key(1) that(1) z(1)] that z(2) by simp
  have peq: "x = p" if "x \<in> set ?P" "pID x = pID p" for x
    using is_key_eq[OF key(2) that(1) p(1) that(2)] .
  let ?Z' = "row_delete (\<lambda>x. rzPoolID x = pID p \<and> rzRequestID x = rzRequestID z) ?Z"
  obtain b u where d': "memory_pools d' = reserve (pID p) b u ?P" "memory_pool_resizes d' = ?Z'"
    and b: "b = pReservedBytes p \<or> b = rzSizeBytes z \<and> prError r = None"
    using fin True msg
    by (auto simp: resize_reply_def finishMemoryPoolResize_def FinishMemoryPoolResize_def
      set_pool_reservation_def Let_def z(3) p(3,4) split: option.splits if_splits)
  have pz: "pending_ok ?P ?s z" using ok z(1) by (simp add: pools_ok_def)
  have lim: "limit_within ?s (pName p) b \<and> 0 < b"
  proof (cases "b = pReservedBytes p")
    case True
    with ok p(1) show ?thesis by (simp add: pools_ok_def)
  next
    case False
    from pz obtain x where "x \<in> set ?P" "pID x = rzPoolID z" "0 < rzSizeBytes z" and x:
      "prRequest r = pending_message x z \<Longrightarrow> prError r = None \<Longrightarrow> limit_within ?s (pName x) (rzSizeBytes z)"
      using r True z(3) by (auto simp: pending_ok_def)
    moreover then have "x = p" using peq z(2) by simp
    ultimately show ?thesis using False b True msg by auto
  qed
  have Z': "rzPoolID x \<noteq> pID p" if "x \<in> set ?Z'" for x
    using that zeq by (auto simp: set_row_delete)
  have "pools_ok (reserve (pID p) b u ?P) ?Z' ?s"
    using lim p(1) Z' by (intro pools_ok_reserve pools_ok_clear ok) auto
  moreover have "sent_ok ?P ?Z' ?s m" if "m \<in> psSent t" for m
  proof -
    have "sent_ok ?P ?Z ?s m" using inv that by (simp add: pool_inv_def)
    moreover have "rpReceipts ?s (rqRequestID (pending_message p z)) = Some r" "prDone r"
      "prRequest r = pending_message p z"
      using r True msg z(3) by (simp_all add: pending_message_def)
    ultimately show ?thesis unfolding sent_ok_def using zeq peq z(2)
      by (auto simp: set_row_delete) metis+
  qed
  ultimately show ?thesis
    using inv d' by (auto simp: pool_inv_def intro!: sent_ok_reserve)
qed

lemma pool_inv_create:
  assumes inv: "pool_inv t" and new: "CreateMemoryPool_prov now newID env c name actor size0 (psDB t) = Inr (pool, d')"
  shows "pool_inv (t\<lparr>psDB := d'\<rparr>)"
proof -
  let ?P = "memory_pools (psDB t)" and ?Z = "memory_pool_resizes (psDB t)" and ?s = "psRunner t"
  obtain p where d': "memory_pools d' = ?P @ [p]" "memory_pool_resizes d' = ?Z"
    and p: "validName (pName p)" "0 < pReservedBytes p" "\<forall>x \<in> set ?P. pID x \<noteq> pID p \<and> pName x \<noteq> pName p"
    using new by (auto simp: CreateMemoryPool_prov_def CreateMemoryPool_def Let_def result_simps row_insert_Inr
      pool_to_row_def split: if_splits)
  have "rpCgroups ?s (pName p) = None"
    using inv p(3) by (fastforce simp: pool_inv_def pools_ok_def)
  then have "limit_within ?s (pName p) (pReservedBytes p)" by (simp add: limit_within_def)
  with inv p have "pools_ok (?P @ [p]) ?Z ?s"
    by (auto simp: pool_inv_def pools_ok_def is_key_append1 pending_ok_def)
  with inv d' show ?thesis by (auto simp: pool_inv_def sent_ok_def)
qed

lemma pool_inv_start:
  assumes inv: "pool_inv t" and pool: "requireMemoryPoolByName name (psDB t) = Inr pool"
    and s': "prepareMemoryPoolCgroupParent (pName pool) (pReservedBytes pool) (psRunner t) = Inr s'"
  shows "pool_inv (t\<lparr>psRunner := s'\<rparr>)"
proof -
  let ?P = "memory_pools (psDB t)" and ?Z = "memory_pool_resizes (psDB t)" and ?s = "psRunner t"
  have ok: "pools_ok ?P ?Z ?s" using inv by (simp add: pool_inv_def)
  from pool have found: "GetMemoryPoolByName name (psDB t) = Inr pool"
    and none: "opRequestID (PendingMemoryPoolResize (pID pool) (psDB t)) = []"
    by (auto simp: requireMemoryPoolByName_def FindMemoryPoolByName_def CheckMemoryPoolResize_def result_simps
      split: option.splits sum.splits if_splits)
  from found obtain p where p: "p \<in> set ?P" "pName pool = pName p" "pID pool = pID p"
    "pReservedBytes pool = pReservedBytes p" by (auto elim: GetMemoryPoolByName_row)
  have key: "is_key pName ?P" and name: "TrimSpace (pName p) = pName p"
    using ok p(1) by (auto simp: pools_ok_def validName_trim)
  have rec: "rpReceipts s' = rpReceipts ?s" and frame: "\<And>n. n \<noteq> pName p \<Longrightarrow> rpCgroups s' n = rpCgroups ?s n"
    and lim: "\<exists>g. rpCgroups s' (pName p) = Some g \<and> cgMax g = pReservedBytes p"
    using s' by (auto simp: prepareMemoryPoolCgroupParent_def Let_def result_simps p name split: option.splits if_splits)
  have other: "pName x \<noteq> pName p" if "x \<in> set ?P" "x \<noteq> p" for x
    using that p(1) is_key_eq[OF key that(1) p(1)] by blast
  have "limit_within s' (pName x) (pReservedBytes x)" if "x \<in> set ?P" for x
    using that ok lim frame other[of x] by (cases "x = p") (auto simp: limit_within_def pools_ok_def)
  moreover have "pending_ok ?P s' z" if "z \<in> set ?Z" for z
  proof -
    have "rzPoolID z \<noteq> pID p" using no_pending_row[OF none ok that] p(3) by simp
    then have "limit_within s' (pName x) b = limit_within ?s (pName x) b" if "x \<in> set ?P" "pID x = rzPoolID z" for x b
    proof -
      from that \<open>rzPoolID z \<noteq> pID p\<close> have "x \<noteq> p" by auto
      with that(1) have "rpCgroups s' (pName x) = rpCgroups ?s (pName x)" by (intro frame other)
      then show ?thesis by (simp add: limit_within_def)
    qed
    moreover have "pending_ok ?P ?s z" using ok that by (simp add: pools_ok_def)
    ultimately show ?thesis by (auto simp: pending_ok_def rec)
  qed
  moreover have "\<exists>x \<in> set ?P. pName x = n" if "rpCgroups s' n \<noteq> None" for n
    using that ok frame[of n] p(1) by (cases "n = pName p") (auto simp: pools_ok_def)
  ultimately have "pools_ok ?P ?Z s'" using ok by (auto simp: pools_ok_def)
  with inv show ?thesis by (auto simp: pool_inv_def sent_ok_def rec)
qed

lemma pending_ok_mono:
  assumes "pending_ok P s z" "\<And>p. p \<in> set P \<Longrightarrow> pID p = rzPoolID z \<Longrightarrow> p \<in> set P'"
    "rpReceipts s' = rpReceipts s" "\<And>n b. limit_within s n b \<Longrightarrow> limit_within s' n b"
  shows "pending_ok P' s' z"
  using assms(1) unfolding pending_ok_def assms(3) by (meson assms(2,4))

lemma pool_inv_delete:
  assumes inv: "pool_inv t" and del: "DeleteMemoryPool_prov name (psDB t, psRunner t) = Inr (pool, d', s')"
  shows "pool_inv (t\<lparr>psDB := d', psRunner := s'\<rparr>)"
proof -
  let ?P = "memory_pools (psDB t)" and ?Z = "memory_pool_resizes (psDB t)" and ?s = "psRunner t"
  have ok: "pools_ok ?P ?Z ?s" using inv by (simp add: pool_inv_def)
  from del have found: "GetMemoryPoolByName name (psDB t) = Inr pool"
    and none: "opRequestID (PendingMemoryPoolResize (pID pool) (psDB t)) = []"
    and d': "memory_pools d' = row_delete (\<lambda>r. pID r = pID pool) ?P" "memory_pool_resizes d' = ?Z"
    and s': "s' = deleteMemoryPoolCgroup (pName pool) ?s"
    by (auto simp: DeleteMemoryPool_prov_def FindMemoryPoolByName_def CheckMemoryPoolResize_def
      DeleteMemoryPool_def Let_def result_simps split: option.splits sum.splits if_splits)
  from found obtain p where p: "p \<in> set ?P" "pName pool = pName p" "pID pool = pID p"
    by (auto elim: GetMemoryPoolByName_row)
  have keys: "is_key pName ?P" "is_key pID ?P" and name: "TrimSpace (pName p) = pName p"
    using ok p(1) by (auto simp: pools_ok_def validName_trim)
  have P': "x \<in> set (memory_pools d') \<longleftrightarrow> x \<in> set ?P \<and> x \<noteq> p" for x
    using is_key_eq[OF keys(2) _ p(1)] by (auto simp: d' set_row_delete p(3))
  have rec: "rpReceipts s' = rpReceipts ?s" and cg: "rpCgroups s' = (rpCgroups ?s)(pName p := None)"
    by (simp_all add: s' deleteMemoryPoolCgroup_def p name)
  have lim: "limit_within ?s n b \<Longrightarrow> limit_within s' n b" for n b by (simp add: limit_within_def cg)
  have pend: "x \<noteq> p" if "z \<in> set ?Z" "pID x = rzPoolID z" for x z
    using that no_pending_row[OF none ok that(1)] p(3) by auto
  have "pending_ok (memory_pools d') s' z" if "z \<in> set ?Z" for z
  proof (rule pending_ok_mono)
    show "pending_ok ?P ?s z" using that ok by (simp add: pools_ok_def)
    show "x \<in> set (memory_pools d')" if "x \<in> set ?P" "pID x = rzPoolID z" for x
      unfolding P' using that(1) pend[OF \<open>z \<in> set ?Z\<close> that(2)] by simp
  qed (use rec lim in auto)
  moreover have "\<exists>x \<in> set (memory_pools d'). pName x = n" if "rpCgroups s' n \<noteq> None" for n
  proof -
    from that cg have n: "n \<noteq> pName p" "rpCgroups ?s n \<noteq> None" by (auto split: if_splits)
    with ok obtain x where "x \<in> set ?P" "pName x = n" by (auto simp: pools_ok_def)
    with n(1) P'[of x] show ?thesis by blast
  qed
  moreover have "is_key pID (memory_pools d')" "is_key pName (memory_pools d')"
    using keys by (simp_all add: d' is_key_delete)
  moreover have "validName (pName x) \<and> 0 < pReservedBytes x \<and> limit_within s' (pName x) (pReservedBytes x)"
    if "x \<in> set (memory_pools d')" for x
    using that P'[of x] ok lim unfolding pools_ok_def by blast
  moreover have "is_key rzPoolID ?Z" "is_key rzRequestID ?Z" using ok by (simp_all add: pools_ok_def)
  ultimately have "pools_ok (memory_pools d') (memory_pool_resizes d') s'"
    unfolding pools_ok_def d'(2) by blast
  moreover have "sent_ok (memory_pools d') (memory_pool_resizes d') s' m" if "m \<in> psSent t" for m
  proof -
    from that inv have "sent_ok ?P ?Z ?s m" by (simp add: pool_inv_def)
    moreover have "x \<in> set (memory_pools d')" if "z \<in> set ?Z" "x \<in> set ?P" "pID x = rzPoolID z" for x z
      using that(2) P'[of x] pend[OF that(1,3)] by simp
    ultimately show ?thesis unfolding sent_ok_def rec d'(2) by blast
  qed
  ultimately show ?thesis using inv by (auto simp: pool_inv_def rec)
qed

lemma pool_inv_admit:
  assumes inv: "pool_inv t" and adm: "resize_admit now newID env c name size0 (psDB t) = Inr (pool, op, d')"
    and new: "newID \<noteq> []" "\<forall>m \<in> psSent t. rqRequestID m \<noteq> newID"
  shows "pool_inv (t\<lparr>psDB := d', psSent := insert (resize_message pool op) (psSent t)\<rparr>)"
proof -
  let ?P = "memory_pools (psDB t)" and ?Z = "memory_pool_resizes (psDB t)" and ?s = "psRunner t"
  have ok: "pools_ok ?P ?Z ?s" using inv by (simp add: pool_inv_def)
  from adm obtain pool0 where size: "0 < size0" and found: "GetMemoryPoolByName name (psDB t) = Inr pool0"
    by (auto simp: resize_admit_def result_simps split: if_splits)
  from found obtain p where p: "p \<in> set ?P" "pName pool0 = pName p" "pID pool0 = pID p"
    "pReservedBytes pool0 = pReservedBytes p" by (auto elim: GetMemoryPoolByName_row)
  show ?thesis
  proof (cases "opRequestID (PendingMemoryPoolResize (pID pool0) (psDB t)) = []")
    case False
    with adm found size have op: "pool = pool0" "op = PendingMemoryPoolResize (pID pool0) (psDB t)" "d' = psDB t"
      by (auto simp: resize_admit_def Let_def split: if_splits)
    from False obtain z where z: "z \<in> set ?Z" "rzPoolID z = pID pool0"
      "PendingMemoryPoolResize (pID pool0) (psDB t) =
        \<lparr>opRequestID = rzRequestID z, opSizeBytes = rzSizeBytes z, opRunning = rzRunning z\<rparr>"
      by (rule pending_row)
    then have "resize_message pool op = pending_message p z"
      by (simp add: op resize_message_def pending_message_def p)
    then have "sent_ok ?P ?Z ?s (resize_message pool op)"
      unfolding sent_ok_def using z p by (intro disjI2 bexI[of _ z] bexI[of _ p]) simp_all
    with inv show ?thesis by (auto simp: pool_inv_def op(3))
  next
    case True
    let ?b = "max (pReservedBytes p) size0"
    obtain u run where d': "memory_pools d' = reserve (pID p) ?b u ?P" "memory_pool_resizes d' =
        ?Z @ [\<lparr>rzPoolID = pID p, rzRequestID = newID, rzSizeBytes = size0, rzRunning = run\<rparr>]"
      and fresh: "\<forall>x \<in> set ?Z. rzPoolID x \<noteq> pID p \<and> rzRequestID x \<noteq> newID"
      and msg: "resize_message pool op = \<lparr>rqRequestID = newID, rqPoolName = pName p, rqSizeBytes = size0, rqRunning = run\<rparr>"
      using adm found True size
      by (auto simp: resize_admit_def Let_def result_simps BeginMemoryPoolResize_def row_insert_Inr
        set_pool_reservation_def resize_message_def p split: if_splits)
    let ?z = "\<lparr>rzPoolID = pID p, rzRequestID = newID, rzSizeBytes = size0, rzRunning = run\<rparr>"
    let ?p = "p\<lparr>pReservedBytes := ?b, pUpdatedAt := u\<rparr>"
    have mem: "?p \<in> set (reserve (pID p) ?b u ?P)"
      using p(1) by (intro row_update_mem[where p = "\<lambda>r. pID r = pID p" and
        f = "\<lambda>r. r\<lparr>pReservedBytes := ?b, pUpdatedAt := u\<rparr>"]) simp_all
    have "limit_within ?s (pName p) ?b \<and> 0 < ?b" using ok p(1) size by (fastforce simp: pools_ok_def limit_within_def)
    then have "pools_ok (reserve (pID p) ?b u ?P) ?Z ?s"
      using fresh p(1) by (intro pools_ok_reserve ok) auto
    moreover have "rpReceipts ?s newID = None" using inv new by (fastforce simp: pool_inv_def)
    ultimately have "pools_ok (memory_pools d') (memory_pool_resizes d') ?s"
      unfolding d' using mem size new fresh by (intro pools_ok_begin[where p = ?p]) auto
    moreover have "sent_ok (memory_pools d') (memory_pool_resizes d') ?s m" if "m \<in> psSent t" for m
      unfolding d' using inv that by (intro sent_ok_begin sent_ok_reserve) (simp add: pool_inv_def)
    moreover have "resize_message pool op = pending_message ?p ?z" by (simp add: msg pending_message_def)
    then have "sent_ok (memory_pools d') (memory_pool_resizes d') ?s (resize_message pool op)"
      unfolding d' sent_ok_def using mem by (intro disjI2 bexI[of _ ?z] bexI[of _ ?p]) simp_all
    ultimately show ?thesis using inv by (auto simp: pool_inv_def)
  qed
qed

interpretation pools: invariant_system pool_step pool_start pool_inv
proof
  show "pool_inv t" if "pool_start t" for t
    using that by (simp add: pool_start_def pool_inv_def pools_ok_def)
  show "pool_inv t'" if "pool_step t e t'" "pool_inv t" for t e t'
    using that by (cases rule: pool_step.cases)
      (auto intro: pool_inv_create pool_inv_admit pool_inv_deliver pool_inv_crash_receipt
        pool_inv_crash_cgroup pool_inv_finish pool_inv_delete pool_inv_start)
qed

subsection \<open>Guarantees\<close>

lemma resizeMemoryPool_done:
  "resizeMemoryPool m s = (Inr r, s') \<Longrightarrow> prDone r \<and> prRequest r = m \<and> rpReceipts s' (rqRequestID m) = Some r"
  by (cases "resize_receipt m s"; cases "resizeMemoryPoolCgroup m (write_receipt (projr (resize_receipt m s)) s)")
    (auto simp: resizeMemoryPool_def Let_def dest: resize_receipt_cases split: if_splits)

definition pool_ex_env :: host_env where
  "pool_ex_env = \<lparr>heMemory = Inr 17179869184, heProcess = (\<lambda>_. False),
     heUsage = (\<lambda>_. Inl ErrNotExist), heStat = (\<lambda>_. Inl ErrNotExist),
     heUpgradePending = (\<lambda>_. Inl ErrNotExist), heNumCPU = 8\<rparr>"

definition pool_ex_actor :: Actor where
  "pool_ex_actor = \<lparr>UserLogin = ''ada'', DisplayName = ''Ada'', NodeName = ''laptop'', RemoteAddr = [], SSHUser = []\<rparr>"

definition pool_ex_now :: time where
  "pool_ex_now = \<lparr>tYear = 2025, tMonth = 6, tDay = 1, tHour = 12, tMin = 0, tSec = 0, tNano = 0\<rparr>"

definition pool_ex_start :: pool_sys where
  "pool_ex_start = \<lparr>psDB = empty_db, psRunner = \<lparr>rpReceipts = Map.empty, rpCgroups = Map.empty\<rparr>, psSent = {}\<rparr>"

definition pool_ex_create :: "(MemoryPool \<times> db) result" where
  "pool_ex_create = CreateMemoryPool_prov pool_ex_now ''p1'' pool_ex_env example_config ''team'' pool_ex_actor 4294967296 empty_db"



text \<open>The runner carries out a resize request at most once. Once it has answered, the same message
  gets the same answer and changes nothing, whatever happened to the pool since; another message
  under the same identifier is refused.\<close>

theorem pool_resize_idempotent:
  assumes "resizeMemoryPool m s = (Inr r, s1)"
    "rpReceipts s2 (rqRequestID m) = rpReceipts s1 (rqRequestID m)"
  shows "resizeMemoryPool m s2 = (Inr r, s2) \<and>
    (\<forall>m'. m' \<noteq> m \<and> rqRequestID m' = rqRequestID m \<longrightarrow> (\<exists>e. resizeMemoryPool m' s2 = (Inl e, s2)))"
proof -
  have r: "prDone r" "prRequest r = m" "rpReceipts s2 (rqRequestID m) = Some r"
    using resizeMemoryPool_done[OF assms(1)] assms(2) by auto
  then have "write_receipt r s2 = s2" by (simp add: write_receipt_same)
  with r show ?thesis by (auto simp: resizeMemoryPool_def resize_receipt_def)
qed

definition pool_ex_runner :: runner_pools where
  "pool_ex_runner = \<lparr>rpReceipts = Map.empty, rpCgroups = [''team'' \<mapsto> \<lparr>cgMax = 4294967296, cgCurrent = Inr 1000\<rparr>]\<rparr>"

definition pool_ex_message :: ResizeMemoryPoolRequest where
  "pool_ex_message = \<lparr>rqRequestID = ''q1'', rqPoolName = ''team'', rqSizeBytes = 2147483648, rqRunning = True\<rparr>"

theorem pool_resize_idempotent_witness:
  "\<exists>r s1. resizeMemoryPool pool_ex_message pool_ex_runner = (Inr r, s1) \<and>
     map_option cgMax (rpCgroups s1 ''team'') = Some 2147483648 \<and>
     resizeMemoryPool pool_ex_message (deleteMemoryPoolCgroup ''team'' s1) = (Inr r, deleteMemoryPoolCgroup ''team'' s1)"
proof -
  obtain a s1 where run: "resizeMemoryPool pool_ex_message pool_ex_runner = (a, s1)" by fastforce
  have "(case resizeMemoryPool pool_ex_message pool_ex_runner of (a, s1) \<Rightarrow>
      \<not> isl a \<and> map_option cgMax (rpCgroups s1 ''team'') = Some 2147483648)" by code_simp
  with run obtain r where r: "a = Inr r" "map_option cgMax (rpCgroups s1 ''team'') = Some 2147483648"
    by (cases a) auto
  with pool_resize_idempotent[of pool_ex_message pool_ex_runner r s1 "deleteMemoryPoolCgroup ''team'' s1"] run
  show ?thesis by (auto simp: deleteMemoryPoolCgroup_def)
qed

end
