(* ===== verification/Network.thy ===== *)
theory Network
  imports Config Store
begin

section \<open>Network blocks\<close>

text \<open>
  \<open>allocateNetwork\<close> of src/internal/provision/provision.go: every instance gets a block of four
  addresses of the configured prefix, written in the database as text. A \<open>uint32\<close> is a natural
  number below \<open>2 ^ 32\<close>. \<open>net.ParseCIDR\<close> is modelled for IPv4 text; any other text is refused by
  the code either there or by the test that the mask has 32 bits.
\<close>

subsection \<open>Addresses as text\<close>

fun decimal :: "nat \<Rightarrow> string" where
  "decimal n = (if n < 10 then [digit_char n] else decimal (n div 10) @ [digit_char n])"

declare decimal.simps [simp del]

definition ip_string :: "nat \<Rightarrow> string" where
  "ip_string a = decimal (a div 16777216 mod 256) @ ''.'' @ decimal (a div 65536 mod 256) @ ''.'' @
     decimal (a div 256 mod 256) @ ''.'' @ decimal (a mod 256)"

definition subnet_string :: "nat \<Rightarrow> string" where
  "subnet_string a = ip_string a @ ''/30''"

definition parse_octet :: "string \<Rightarrow> nat option" where
  "parse_octet s = (if s = [] \<or> length s > 3 \<or> \<not> list_all is_digit s \<or> (length s > 1 \<and> hd s = CHR ''0'') \<or>
     digits_val 0 s > 255 then None else Some (digits_val 0 s))"

definition parse_ipv4 :: "string \<Rightarrow> nat option" where
  "parse_ipv4 s = (case map parse_octet (SplitChar (CHR ''.'') s) of
     [Some a, Some b, Some c, Some d] \<Rightarrow> Some (a * 16777216 + b * 65536 + c * 256 + d)
   | _ \<Rightarrow> None)"

text \<open>The address as written (host bits kept) and the prefix length.\<close>

definition ParseCIDR :: "string \<Rightarrow> (nat \<times> nat) result" where
  "ParseCIDR s = (let (addr, mask, found) = CutChar s (CHR ''/'') in
     case parse_ipv4 addr of
       None \<Rightarrow> Inl (ErrMsg ''invalid CIDR address'')
     | Some ip \<Rightarrow> if \<not> found \<or> mask = [] \<or> \<not> list_all is_digit mask \<or> digits_val 0 mask > 32
         then Inl (ErrMsg ''invalid CIDR address'') else Inr (ip, digits_val 0 mask))"

subsection \<open>Allocation\<close>

definition uint32 :: "nat \<Rightarrow> nat" where
  "uint32 n = n mod 4294967296"

text \<open>The loop over the blocks. \<open>size\<close> is a power of two of at most \<open>2 ^ 31\<close> (for the empty prefix
  \<open>1 << 32\<close> is 0), so \<open>offset + 4\<close> does not wrap.\<close>

function alloc_loop :: "string list \<Rightarrow> nat \<Rightarrow> nat \<Rightarrow> nat \<Rightarrow> nat option" where
  "alloc_loop used base blocks offset =
     (if offset + 4 \<le> blocks
      then if subnet_string (uint32 (base + offset)) \<in> set used
        then alloc_loop used base blocks (offset + 4) else Some offset
      else None)"
  by pat_completeness auto

termination alloc_loop
  by (relation "measure (\<lambda>(used, base, blocks, offset). blocks - offset)") auto

declare alloc_loop.simps [simp del]

definition block_count :: "nat \<Rightarrow> nat" where
  "block_count ones = uint32 (2 ^ (32 - ones))"

definition allocateNetwork :: "Config \<Rightarrow> db \<Rightarrow> (string \<times> string \<times> string \<times> string) result" where
  "allocateNetwork c d =
     bindR (ListInstances False d) (\<lambda>insts.
     let used = filter (\<lambda>n. n \<noteq> []) (map iNetworkCIDR insts) in
     bindR (wrapE ''parse vm network cidr'' (ParseCIDR (cfgVMNetworkCIDR c))) (\<lambda>(base, ones).
     bindR (failIf (ones > 30) (ErrMsg ''vm network cidr must be an IPv4 prefix with room for /30 allocations'')) (\<lambda>_.
     case alloc_loop used base (block_count ones) 0 of
       None \<Rightarrow> Inl (ErrMsg ''no free /30 network blocks remain'')
     | Some offset \<Rightarrow>
       let gateway = ip_string (uint32 (base + offset + 1)); guest = ip_string (uint32 (base + offset + 2)) in
       Inr (subnet_string (uint32 (base + offset)), gateway @ ''/30'', guest @ ''/30'', gateway))))"

subsection \<open>The loop finds the first free block\<close>

lemma alloc_loop_Some:
  "alloc_loop used base blocks off = Some k \<Longrightarrow>
    (\<exists>j. k = off + 4 * j) \<and> k + 4 \<le> blocks \<and> subnet_string (uint32 (base + k)) \<notin> set used"
proof (induction used base blocks off rule: alloc_loop.induct)
  case (1 used base blocks off)
  show ?case
  proof (cases "off + 4 \<le> blocks \<and> subnet_string (uint32 (base + off)) \<in> set used")
    case True
    with 1 have "(\<exists>j. k = off + 4 + 4 * j) \<and> k + 4 \<le> blocks \<and> subnet_string (uint32 (base + k)) \<notin> set used"
      by (simp add: alloc_loop.simps[of used base blocks off])
    moreover have "off + 4 + 4 * j = off + 4 * Suc j" for j by simp
    ultimately show ?thesis by metis
  next
    case False
    with "1.prems" show ?thesis
      by (auto simp: alloc_loop.simps[of used base blocks off] split: if_splits intro: exI[of _ 0])
  qed
qed

lemma alloc_loop_None:
  "alloc_loop used base blocks off = None \<Longrightarrow> off + 4 * j + 4 \<le> blocks \<Longrightarrow>
    subnet_string (uint32 (base + off + 4 * j)) \<in> set used"
proof (induction used base blocks off arbitrary: j rule: alloc_loop.induct)
  case (1 used base blocks off)
  then have in0: "subnet_string (uint32 (base + off)) \<in> set used"
    by (auto simp: alloc_loop.simps[of used base blocks off] split: if_splits)
  show ?case
  proof (cases j)
    case 0
    with in0 show ?thesis by simp
  next
    case (Suc i)
    have "alloc_loop used base blocks (off + 4) = None"
      using 1 in0 by (auto simp: alloc_loop.simps[of used base blocks off] split: if_splits)
    with 1 in0 Suc show ?thesis by (auto simp: add.assoc add.commute add.left_commute)
  qed
qed

lemma allocateNetwork_block:
  assumes "allocateNetwork c d = Inr (cidr, haddr, guest, gw)"
  obtains insts base ones k where "ListInstances False d = Inr insts" "ParseCIDR (cfgVMNetworkCIDR c) = Inr (base, ones)"
    "ones \<le> 30" "4 * k + 4 \<le> block_count ones" "cidr = subnet_string (uint32 (base + 4 * k))"
    "gw = ip_string (uint32 (base + 4 * k + 1))" "guest = ip_string (uint32 (base + 4 * k + 2)) @ ''/30''"
    "haddr = gw @ ''/30''" "\<And>i. i \<in> set insts \<Longrightarrow> iNetworkCIDR i \<noteq> cidr"
proof -
  from assms obtain insts base ones off where a: "ListInstances False d = Inr insts"
    "ParseCIDR (cfgVMNetworkCIDR c) = Inr (base, ones)" "ones \<le> 30"
    "alloc_loop (filter (\<lambda>n. n \<noteq> []) (map iNetworkCIDR insts)) base (block_count ones) 0 = Some off"
    "cidr = subnet_string (uint32 (base + off))" "gw = ip_string (uint32 (base + off + 1))"
    "guest = ip_string (uint32 (base + off + 2)) @ ''/30''" "haddr = gw @ ''/30''"
    by (auto simp: allocateNetwork_def Let_def result_simps split: option.splits if_splits)
  from alloc_loop_Some[OF a(4)] obtain k where k: "off = 4 * k" "4 * k + 4 \<le> block_count ones"
    "subnet_string (uint32 (base + off)) \<notin> set (filter (\<lambda>n. n \<noteq> []) (map iNetworkCIDR insts))"
    by auto
  have "cidr \<noteq> []" by (simp add: a(5) subnet_string_def ip_string_def)
  moreover from k(3) a(5) have "cidr \<notin> {n \<in> iNetworkCIDR ` set insts. n \<noteq> []}" by simp
  ultimately have "iNetworkCIDR i \<noteq> cidr" if "i \<in> set insts" for i using that by blast
  with a k show thesis by (intro that[of insts base ones k]) auto
qed

end
