(* ===== verification/CapacityProofs.thy ===== *)
theory CapacityProofs
  imports Capacity Network StoreProps
begin

section \<open>What admission guarantees\<close>

text \<open>
  Properties of capacity admission and of network allocation: the memory budget holds as long as
  the sums fit in 64 bits, how it is evaded when they do not, and that network blocks are disjoint.
\<close>

subsection \<open>Sums without overflow\<close>

lemma sum_list_nonneg_int: "(\<And>x. x \<in> set xs \<Longrightarrow> (0 :: int) \<le> x) \<Longrightarrow> 0 \<le> sum_list xs"
  by (induction xs) auto

lemma sum64_exact:
  assumes "\<And>x. x \<in> set xs \<Longrightarrow> 0 \<le> x" "0 \<le> acc" "acc + sum_list xs \<le> max_int64"
  shows "sum64 acc xs = acc + sum_list xs"
  using assms
proof (induction xs arbitrary: acc)
  case (Cons x xs)
  have "0 \<le> sum_list xs" using Cons.prems by (intro sum_list_nonneg_int) auto
  moreover have "0 \<le> x" using Cons.prems(1) by simp
  ultimately have "in64 (acc + x)" using Cons.prems(2,3) by (simp add: in64_def max_int64_def)
  with Cons \<open>0 \<le> x\<close> show ?case by (simp add: wrap64_id)
qed simp

lemma FixedMemoryLimitBytes_exact:
  assumes "0 < m" "m \<le> 4398046511104"
  shows "FixedMemoryLimitBytes m = (m + max 256 (m div 16)) * MiB"
proof -
  let ?o = "max 256 (m div 16)"
  have "m div 16 \<le> 4398046511104 div 16" using assms(2) by (rule zdiv_mono1) simp
  with assms have b: "0 \<le> m + ?o" "m + ?o \<le> 4672924418048" by auto
  then have "in64 (m + ?o)" "in64 ((m + ?o) * MiB)" by (auto simp: in64_def MiB_def)
  with assms(1) show ?thesis
    by (simp add: FixedMemoryLimitBytes_def Let_def sdiv_pos wrap64_id max_def split: if_splits)
qed

lemma fixed_limit_covers_guest:
  "0 < m \<Longrightarrow> m \<le> 4398046511104 \<Longrightarrow> m * MiB < FixedMemoryLimitBytes m"
  by (simp add: FixedMemoryLimitBytes_exact MiB_def)

text \<open>C14: memory admission is sound. If the check accepts a request, and the bytes reserved by the
  listed instances (other than the excluded one), the pools and the request add up to a 64-bit
  value, then together they fit in the host's memory less the host reserve.\<close>

theorem memory_admission_sound:
  assumes "ensureHostMemoryReservationCapacity env c excluded requested d = Inr ()"
    "heMemory env = Inr totalBytes" "hostMemoryReserveMiB * MiB \<le> totalBytes" "totalBytes \<le> max_int64"
    "ListInstances False d = Inr insts" "ListMemoryPools d = Inr pools" "0 \<le> requested"
    "\<forall>i \<in> set insts. 0 \<le> fixed_reservation env c i" "\<forall>p \<in> set pools. 0 \<le> pReservedBytes p"
    "(\<Sum>i\<leftarrow>filter (\<lambda>i. \<not> EqualFold (iName i) excluded) insts. fixed_reservation env c i) +
       (\<Sum>p\<leftarrow>pools. pReservedBytes p) + requested \<le> max_int64"
  shows "(\<Sum>i\<leftarrow>filter (\<lambda>i. \<not> EqualFold (iName i) excluded) insts. fixed_reservation env c i) +
       (\<Sum>p\<leftarrow>pools. pReservedBytes p) + requested \<le> totalBytes - hostMemoryReserveMiB * MiB"
proof -
  let ?fix = "\<Sum>i\<leftarrow>filter (\<lambda>i. \<not> EqualFold (iName i) excluded) insts. fixed_reservation env c i"
  let ?pool = "\<Sum>p\<leftarrow>pools. pReservedBytes p"
  have pos: "0 \<le> ?fix" "0 \<le> ?pool"
    using assms(8,9) by (auto intro!: sum_list_nonneg_int)
  then have f: "sum64 0 (map (fixed_reservation env c) (filter (\<lambda>i. \<not> EqualFold (iName i) excluded) insts)) = ?fix"
    using assms(7,8,10) sum64_exact[of "map (fixed_reservation env c) (filter (\<lambda>i. \<not> EqualFold (iName i) excluded) insts)" 0]
    by auto
  have p: "sum64 0 (map pReservedBytes pools) = ?pool"
    using pos assms(7,9,10) sum64_exact[of "map pReservedBytes pools" 0] by auto
  have "in64 (?fix + ?pool)" "in64 (?fix + ?pool + requested)"
    using pos assms(7,10) by (auto simp: in64_def max_int64_def)
  then have w: "wrap64 (?fix + ?pool) = ?fix + ?pool" "wrap64 (?fix + ?pool + requested) = ?fix + ?pool + requested"
    by (simp_all add: wrap64_id)
  have t: "wrap64 (totalBytes - hostMemoryReserveMiB * MiB) = totalBytes - hostMemoryReserveMiB * MiB"
    using assms(3,4) by (intro wrap64_id) (auto simp: in64_def max_int64_def hostMemoryReserveMiB_def MiB_def)
  from assms(1,2,3,5,6) show ?thesis
    by (simp add: ensureHostMemoryReservationCapacity_def totalReservedHostMemoryBytes_def
      sumReservedCapacity_def f p w t Let_def)
qed

definition cap_env :: host_env where
  "cap_env = \<lparr>heMemory = Inr 17179869184, heProcess = (\<lambda>_. True),
     heUsage = (\<lambda>_. Inr \<lparr>fsTotal = 107374182400, fsUsed = 10737418240, fsAvailable = 96636764160\<rparr>),
     heStat = (\<lambda>_. Inr 2147483648), heUpgradePending = (\<lambda>_. Inl ErrNotExist), heNumCPU = 8\<rparr>"

theorem memory_admission_sound_witness:
  "ensureHostMemoryReservationCapacity cap_env example_config [] 4294967296 empty_db = Inr () \<and>
   (4294967296 :: int) \<le> 17179869184 - hostMemoryReserveMiB * MiB"
proof -
  have ok: "ensureHostMemoryReservationCapacity cap_env example_config [] 4294967296 empty_db = Inr ()" by code_simp
  moreover have "ListInstances False empty_db = Inr []" "ListMemoryPools empty_db = Inr []" by code_simp+
  ultimately show ?thesis
    using memory_admission_sound[OF ok, of 17179869184 "[]" "[]"]
    by (simp add: cap_env_def hostMemoryReserveMiB_def MiB_def max_int64_def)
qed

text \<open>A machine shape large enough to overflow is admitted on any host. \<open>8388607 TiB\<close> of memory
  passes the shape check, its limit wraps to a negative number, and so the budget test succeeds on
  an empty host of any size.\<close>

theorem memory_admission_overflow:
  assumes "heMemory env = Inr totalBytes"
  shows "ValidateMachineShape 2 (8388607 * 1048576) = Inr () \<and>
    FixedMemoryLimitBytes (8388607 * 1048576) < 0 \<and>
    ensureHostMemoryCapacity env c [] (8388607 * 1048576) empty_db = Inr ()"
proof (intro conjI)
  show "ValidateMachineShape 2 (8388607 * 1048576) = Inr ()" by code_simp
  have lim: "FixedMemoryLimitBytes (8388607 * 1048576) = - 8646912452782456832" by code_simp
  then show "FixedMemoryLimitBytes (8388607 * 1048576) < 0" by simp
  have "totalReservedHostMemoryBytes env c [] empty_db = Inr 0"
    by (simp add: totalReservedHostMemoryBytes_def sumReservedCapacity_def ListInstances_def ListMemoryPools_def
      empty_db_def wrap64_def)
  with assms lim show "ensureHostMemoryCapacity env c [] (8388607 * 1048576) empty_db = Inr ()"
    by (simp add: ensureHostMemoryCapacity_def ensureHostMemoryReservationCapacity_def Let_def wrap64_def max_def)
qed

theorem memory_admission_overflow_witness:
  "ensureHostMemoryCapacity cap_env example_config [] (8388607 * 1048576) empty_db = Inr ()"
  using memory_admission_overflow[of cap_env 17179869184 example_config] by (simp add: cap_env_def)

text \<open>A placement that is reported eligible meets every admission rule: the name is valid and
  vacant, the resolved shape is valid, a fixed machine fits in the memory budget, and the
  remaining disk space it reports, less the runtime floor and the import payload, is not negative.\<close>

lemma placement_left_disk:
  assumes "placement_left r importing rs (m0, k0) = (Inr (), m, k)" "0 \<le> k0"
    "\<And>x used av. x \<in> set rs \<Longrightarrow> rsFilesystem x = Some (used, av) \<Longrightarrow>
      rsLeft x = wrap64 (av - DiskRuntimeFloorBytes) \<and> in64 av"
  shows "0 \<le> k"
  using assms
proof (induction rs arbitrary: m0 k0)
  case (Cons x rs)
  show ?case
  proof (cases "rsResource x \<noteq> ''memory'' \<and> rsResource x = ''disk''")
    case False
    then obtain m1 where "placement_left r importing rs (m1, k0) = (Inr (), m, k)"
      using Cons.prems(1) by (cases "rsResource x = ''memory''") (auto simp: Let_def)
    then show ?thesis by (rule Cons.IH) (use Cons.prems in auto)
  next
    case True
    with Cons.prems(1) obtain used av payload where fs: "rsFilesystem x = Some (used, av)"
      "CheckAvailableSpace av payload = Inr ()"
      "placement_left r importing rs (m0, wrap64 (rsLeft x - payload)) = (Inr (), m, k)"
      by (auto simp: Let_def split: option.splits if_splits sum.splits)
    from Cons.prems(3)[OF _ fs(1)] have left: "rsLeft x = wrap64 (av - DiskRuntimeFloorBytes)" "in64 av" by auto
    with fs(2) have b: "0 \<le> payload" "DiskRuntimeFloorBytes \<le> av" "payload \<le> wrap64 (av - DiskRuntimeFloorBytes)"
      by (auto simp: CheckAvailableSpace_def)
    have "in64 (av - DiskRuntimeFloorBytes)" using left(2) b(2) by (auto simp: in64_def DiskRuntimeFloorBytes_def)
    with b have p: "payload \<le> av - DiskRuntimeFloorBytes" by (simp add: wrap64_id)
    with b left(2) have "in64 (av - DiskRuntimeFloorBytes - payload)"
      by (auto simp: in64_def DiskRuntimeFloorBytes_def)
    with p \<open>in64 (av - DiskRuntimeFloorBytes)\<close> have "0 \<le> wrap64 (rsLeft x - payload)"
      by (simp add: left(1) wrap64_id)
    with fs(3) show ?thesis by (rule Cons.IH) (use Cons.prems(3) in auto)
  qed
qed simp

lemma CapacitySummary_left:
  assumes "CapacitySummary env c d = Inr s" "\<And>p u. heUsage env p = Inr u \<Longrightarrow> in64 (fsAvailable u)"
    "x \<in> set (csCapacity s)" "rsFilesystem x = Some (used, av)"
  shows "rsLeft x = wrap64 (av - DiskRuntimeFloorBytes) \<and> in64 av"
  using assms by (auto simp: CapacitySummary_def Let_def result_simps)

theorem placement_eligible_admissible:
  assumes "plEligible (placement env c name opts importing d)"
    "\<And>p u. heUsage env p = Inr u \<Longrightarrow> in64 (fsAvailable u)"
  shows "validName name \<and> placement_vacant name d = Inr () \<and>
    (\<exists>r b baseSize. resolveCreateOptions c opts baseSize = Inr (r, b) \<and>
      ValidateMachineShape (coVCPUCount r) (coMemoryMiB r) = Inr () \<and> baseSize \<le> coRootFSSizeBytes r \<and>
      (coMemoryPoolName r = [] \<longrightarrow> ensureHostMemoryCapacity env c [] (coMemoryMiB r) d = Inr ()) \<and>
      (coMemoryPoolName r \<noteq> [] \<longrightarrow> (\<exists>pool. requireMemoryPoolByName (coMemoryPoolName r) d = Inr pool \<and>
        ensureMemoryPoolSupportsGuestMemory pool (coMemoryMiB r) = Inr ()))) \<and>
    0 \<le> plDiskLeftBytes (placement env c name opts importing d)"
proof -
  from assms(1) obtain r rs m k where chk: "placement_check env c name opts importing d = Inr (r, rs)"
    and left: "placement_left r importing rs (0, 0) = (Inr (), m, k)"
    and k: "plDiskLeftBytes (placement env c name opts importing d) = k"
    by (auto simp: placement_def split: sum.splits prod.splits)
  from chk obtain s baseSize b where name: "validName name" "placement_vacant name d = Inr ()"
    and opt: "resolveCreateOptions c opts baseSize = Inr (r, b)"
    and mem: "(if coMemoryPoolName r \<noteq> []
       then bindR (requireMemoryPoolByName (coMemoryPoolName r) d) (\<lambda>pool.
         ensureMemoryPoolSupportsGuestMemory pool (coMemoryMiB r))
       else ensureHostMemoryCapacity env c [] (coMemoryMiB r) d) = Inr ()"
    and s: "CapacitySummary env c d = Inr s" "rs = csCapacity s"
    unfolding placement_check_def by (auto simp: bindR_Inr_iff simp del: bindR_failIf)
  from opt have "ValidateMachineShape (coVCPUCount r) (coMemoryMiB r) = Inr () \<and> baseSize \<le> coRootFSSizeBytes r"
    by (auto simp: resolveCreateOptions_def Let_def result_simps split: if_splits)
  moreover have "0 \<le> k"
    using left by (rule placement_left_disk) (use CapacitySummary_left[OF s(1) assms(2)] s(2) in auto)
  ultimately show ?thesis using name opt mem k
    by (auto simp: bindR_Inr_iff split: if_splits)
qed

definition cap_opts :: CreateOptions where
  "cap_opts = \<lparr>coImage = [], coTemplate = [], coKind = [], coVCPUCount = 2, coMemoryMiB = 2048, coMemoryPoolName = [],
     coFixedMemory = False, coRootFSSizeBytes = 0\<rparr>"

theorem placement_eligible_admissible_witness:
  "plEligible (placement cap_env example_config ''web'' cap_opts False empty_db) \<and>
   0 \<le> plDiskLeftBytes (placement cap_env example_config ''web'' cap_opts False empty_db)"
proof -
  have "plEligible (placement cap_env example_config ''web'' cap_opts False empty_db)" by code_simp
  with placement_eligible_admissible[OF this] show ?thesis by (auto simp: cap_env_def in64_def)
qed

subsection \<open>Network blocks\<close>

definition block_addresses :: "nat \<Rightarrow> nat \<Rightarrow> nat set" where
  "block_addresses base k = (\<lambda>j. uint32 (base + 4 * k + j)) ` {0..<4}"

lemma uint32_shift_inj:
  assumes "uint32 (a + x) = uint32 (a + y)" "x < 4294967296" "y < 4294967296"
  shows "x = y"
proof -
  have "v = u" if "u \<le> v" "v < 4294967296" "uint32 (a + v) = uint32 (a + u)" for u v
  proof -
    have "4294967296 dvd (a + v) - (a + u)"
      using that mod_eq_dvd_iff_nat[of "a + u" "a + v" 4294967296] by (simp add: uint32_def)
    then have "4294967296 dvd v - u" by simp
    then have "v - u = 0" using that(2) by (metis dvd_imp_le less_imp_diff_less linorder_not_less not_gr_zero)
    with that(1) show ?thesis by simp
  qed
  from this[of x y] this[of y x] assms show ?thesis by (metis nle_le)
qed

lemma blocks_disjoint:
  assumes "j \<noteq> k" "4 * j + 4 \<le> block_count ones" "4 * k + 4 \<le> block_count ones"
  shows "block_addresses base j \<inter> block_addresses base k = {}"
proof -
  have "block_count ones \<le> 4294967296" by (simp add: block_count_def uint32_def)
  with assms(2,3) have "4 * j + x < 4294967296" "4 * k + x < 4294967296" if "x < 4" for x using that by auto
  then have "4 * j + x = 4 * k + y" if "uint32 (base + 4 * j + x) = uint32 (base + 4 * k + y)" "x < 4" "y < 4" for x y
    using that uint32_shift_inj[of base "4 * j + x" "4 * k + y"] by (simp add: add.assoc)
  moreover have "4 * j + x \<noteq> 4 * k + y" if "x < 4" "y < 4" for x y using assms(1) that by arith
  ultimately show ?thesis by (auto simp: block_addresses_def) blast
qed



text \<open>The host bits of the configured prefix are not cleared. With \<open>172.28.255.254/16\<close>, which
  configuration validation accepts, the guest address of the first block lies outside the prefix.\<close>

definition cap_unmasked :: Config where
  "cap_unmasked = example_config\<lparr>cfgVMNetworkCIDR := ''172.28.255.254/16''\<rparr>"

theorem allocation_outside_prefix:
  "Validate (\<lambda>_. Inr (''https'', ''h'')) cap_unmasked = Inr () \<and>
   allocateNetwork cap_unmasked empty_db = Inr (''172.28.255.254/30'', ''172.28.255.255/30'', ''172.29.0.0/30'', ''172.28.255.255'')"
  by code_simp

end
