(* ===== verification/Args.thy ===== *)
theory Args
  imports Capacity
begin

section \<open>Command arguments\<close>

text \<open>
  The parsers of src/internal/service/service.go, integrations.go and import_options.go for the
  arguments of an SSH command. A loop over \<open>args\<close> with an index is a recursion over the rest of the
  list; an option takes its value from after \<open>=\<close> or from the next argument.
\<close>

subsection \<open>Sizes\<close>

definition size_unit :: "int64 \<Rightarrow> string \<Rightarrow> int64 option" where
  "size_unit defaultUnit u = map_of [([], defaultUnit), (''b'', 1),
     (''k'', 1024), (''kb'', 1024), (''kib'', 1024),
     (''m'', 1048576), (''mb'', 1048576), (''mib'', 1048576),
     (''g'', 1073741824), (''gb'', 1073741824), (''gib'', 1073741824),
     (''t'', 1099511627776), (''tb'', 1099511627776), (''tib'', 1099511627776)] u"

definition parseSize :: "string \<Rightarrow> int64 \<Rightarrow> int64 result" where
  "parseSize value defaultUnit =
     (let value = TrimSpace value; digits = takeWhile is_digit value; unit_text = dropWhile is_digit value in
      bindR (failIf (value = []) (ErrMsg ''size cannot be empty'')) (\<lambda>_.
      bindR (failIf (digits = []) (ErrMsg ''invalid size'')) (\<lambda>_.
      bindR (ParseInt digits) (\<lambda>number.
      bindR (failIf (number \<le> 0) (ErrMsg ''size must be positive'')) (\<lambda>_.
      case size_unit defaultUnit (ToLower (TrimSpace unit_text)) of
        None \<Rightarrow> Inl (ErrMsg ''unknown size unit'')
      | Some multiplier \<Rightarrow>
        bindR (failIf (number > max_int64 sdiv multiplier) (ErrMsg ''size is too large'')) (\<lambda>_.
        Inr (wrap64 (number * multiplier))))))))"

definition bytesToMiBCeil :: "int64 \<Rightarrow> int64" where
  "bytesToMiBCeil sizeBytes = wrap64 (wrap64 (sizeBytes + MiB) - 1) sdiv MiB"

subsection \<open>Instances with a shape\<close>

definition empty_options :: CreateOptions where
  "empty_options = \<lparr>coImage = [], coTemplate = [], coKind = [], coVCPUCount = 0, coMemoryMiB = 0,
     coMemoryPoolName = [], coFixedMemory = False, coRootFSSizeBytes = 0\<rparr>"

record sized_state =
  stName :: string
  stOpts :: CreateOptions
  seenCPUs :: bool
  seenRAM :: bool
  seenPool :: bool
  seenRootFSSize :: bool
  seenImage :: bool
  stIntegrations :: "string list"

definition empty_state :: sized_state where
  "empty_state = \<lparr>stName = [], stOpts = empty_options, seenCPUs = False, seenRAM = False,
     seenPool = False, seenRootFSSize = False, seenImage = False, stIntegrations = []\<rparr>"

abbreviation twice :: "bool \<Rightarrow> unit result" where
  "twice seen \<equiv> failIf seen (ErrMsg ''option specified more than once'')"

definition set_cpus :: "string \<Rightarrow> sized_state \<Rightarrow> sized_state result" where
  "set_cpus value s = bindR (twice (seenCPUs s)) (\<lambda>_. bindR (wrapE ''parse --cpus'' (ParseInt value)) (\<lambda>n.
     Inr (s\<lparr>seenCPUs := True, stOpts := (stOpts s)\<lparr>coVCPUCount := n\<rparr>\<rparr>)))"

definition set_ram :: "string \<Rightarrow> sized_state \<Rightarrow> sized_state result" where
  "set_ram value s = bindR (twice (seenRAM s)) (\<lambda>_. bindR (wrapE ''parse --ram'' (parseSize value MiB)) (\<lambda>n.
     Inr (s\<lparr>seenRAM := True, stOpts := (stOpts s)\<lparr>coMemoryMiB := bytesToMiBCeil n\<rparr>\<rparr>)))"

definition set_rootfs :: "string \<Rightarrow> sized_state \<Rightarrow> sized_state result" where
  "set_rootfs value s = bindR (twice (seenRootFSSize s)) (\<lambda>_.
     bindR (wrapE ''parse --rootfs-size'' (parseSize value MiB)) (\<lambda>n.
     Inr (s\<lparr>seenRootFSSize := True, stOpts := (stOpts s)\<lparr>coRootFSSizeBytes := n\<rparr>\<rparr>)))"

definition set_sized_option :: "string \<Rightarrow> string \<Rightarrow> sized_state \<Rightarrow> sized_state result" where
  "set_sized_option key value s =
     (if key = ''--cpus'' then set_cpus value s
      else if key = ''--ram'' then set_ram value s
      else if key = ''--pool'' then
        bindR (twice (seenPool s)) (\<lambda>_.
        bindR (failIf (TrimSpace value = []) (ErrMsg ''--pool cannot be empty'')) (\<lambda>_.
        Inr (s\<lparr>seenPool := True, stOpts := (stOpts s)\<lparr>coMemoryPoolName := TrimSpace value\<rparr>\<rparr>)))
      else if key = ''--rootfs-size'' then set_rootfs value s
      else Inl (ErrMsg ''unknown option''))"

fun parse_sized :: "string list \<Rightarrow> sized_state \<Rightarrow> sized_state result" where
  "parse_sized [] s = Inr s"
| "parse_sized (arg # rest) s =
     (if \<not> HasPrefix arg ''--'' then
        (if stName s \<noteq> [] then Inl (ErrMsg ''unexpected argument'') else parse_sized rest (s\<lparr>stName := arg\<rparr>))
      else
        let (key, value, hasValue) = CutChar arg (CHR ''='') in
        if key = ''--fixed-memory'' then
          (if hasValue then Inl (ErrMsg ''--fixed-memory does not take a value'')
           else if coFixedMemory (stOpts s) then Inl (ErrMsg ''option specified more than once'')
           else parse_sized rest (s\<lparr>stOpts := (stOpts s)\<lparr>coFixedMemory := True\<rparr>\<rparr>))
        else if hasValue then bindR (set_sized_option key value s) (\<lambda>s. parse_sized rest s)
        else case rest of [] \<Rightarrow> Inl (ErrMsg ''missing value'')
          | v # rest' \<Rightarrow> bindR (set_sized_option key v s) (\<lambda>s. parse_sized rest' s))"

definition parseSizedInstanceArgs :: "string list \<Rightarrow> (string \<times> CreateOptions) result" where
  "parseSizedInstanceArgs args =
     bindR (failIf (length args < 2) (ErrMsg ''usage'')) (\<lambda>_.
     bindR (parse_sized (tl args) empty_state) (\<lambda>s.
     bindR (failIf (stName s = []) (ErrMsg ''usage'')) (\<lambda>_.
     Inr (stName s, stOpts s))))"

definition parseResizeArgs :: "string list \<Rightarrow> (string \<times> CreateOptions) result" where
  "parseResizeArgs args =
     bindR (parseSizedInstanceArgs args) (\<lambda>(name, opts).
     bindR (failIf (opts = empty_options)
       (ErrMsg ''resize requires at least one of --cpus, --ram, --pool, --fixed-memory, or --rootfs-size'')) (\<lambda>_.
     bindR (failIf (coFixedMemory opts \<and> coMemoryPoolName opts \<noteq> [])
       (ErrMsg ''--pool and --fixed-memory are mutually exclusive'')) (\<lambda>_.
     Inr (name, opts))))"

definition set_new_option :: "string \<Rightarrow> string \<Rightarrow> sized_state \<Rightarrow> sized_state result" where
  "set_new_option key value s =
     (if key = ''--image'' then
        bindR (failIf (seenImage s \<or> TrimSpace value = []) (ErrMsg ''--image requires one non-empty image name''))
          (\<lambda>_. Inr (s\<lparr>seenImage := True, stOpts := (stOpts s)\<lparr>coImage := value\<rparr>\<rparr>))
      else if key = ''--template'' then
        bindR (failIf (coTemplate (stOpts s) \<noteq> [] \<or> \<not> validName value)
          (ErrMsg ''--template requires one valid project template ID''))
          (\<lambda>_. Inr (s\<lparr>stOpts := (stOpts s)\<lparr>coTemplate := value\<rparr>\<rparr>))
      else if key = ''--cpus'' then set_cpus value s
      else if key = ''--ram'' then set_ram value s
      else if key = ''--pool'' then
        bindR (twice (seenPool s)) (\<lambda>_.
        bindR (failIf (\<not> validName (TrimSpace value)) (ErrMsg ''invalid memory pool name'')) (\<lambda>_.
        Inr (s\<lparr>seenPool := True, stOpts := (stOpts s)\<lparr>coMemoryPoolName := TrimSpace value\<rparr>\<rparr>)))
      else if key = ''--rootfs-size'' then set_rootfs value s
      else if key = ''--integration'' then
        bindR (failIf (\<not> validName (TrimSpace value)) (ErrMsg ''invalid integration name''))
          (\<lambda>_. Inr (s\<lparr>stIntegrations := stIntegrations s @ [TrimSpace value]\<rparr>))
      else Inl (ErrMsg ''unknown option''))"

fun parse_new :: "string list \<Rightarrow> sized_state \<Rightarrow> sized_state result" where
  "parse_new [] s = Inr s"
| "parse_new (arg # rest) s =
     (if \<not> HasPrefix arg ''--'' then
        (if stName s \<noteq> [] then Inl (ErrMsg ''unexpected argument'') else parse_new rest (s\<lparr>stName := arg\<rparr>))
      else
        let (key, value, hasValue) = CutChar arg (CHR ''='') in
        if hasValue then bindR (set_new_option key value s) (\<lambda>s. parse_new rest s)
        else case rest of [] \<Rightarrow> Inl (ErrMsg ''missing value'')
          | v # rest' \<Rightarrow> bindR (set_new_option key v s) (\<lambda>s. parse_new rest' s))"

definition parseNewArgs :: "string list \<Rightarrow> (string \<times> CreateOptions \<times> string list) result" where
  "parseNewArgs args =
     bindR (failIf (length args < 2) (ErrMsg ''usage'')) (\<lambda>_.
     bindR (parse_new (tl args) empty_state) (\<lambda>s.
     bindR (failIf (stName s = []) (ErrMsg ''usage'')) (\<lambda>_.
     bindR (failIf (coMemoryPoolName (stOpts s) \<noteq> [] \<and> \<not> seenRAM s) (ErrMsg ''new --pool requires --ram'')) (\<lambda>_.
     Inr (stName s, stOpts s, stIntegrations s)))))"

subsection \<open>The other commands\<close>

definition parseBackupArgs :: "string list \<Rightarrow> (string \<times> string \<times> string) result" where
  "parseBackupArgs args =
     (case args of
       _ # act # rest \<Rightarrow>
         if act = ''create'' \<or> act = ''list'' then
           (case rest of [n] \<Rightarrow> Inr (act, n, []) | _ \<Rightarrow> Inl (ErrMsg ''usage''))
         else if act = ''delete'' then
           (case rest of [n, b] \<Rightarrow> Inr (act, n, b) | _ \<Rightarrow> Inl (ErrMsg ''usage''))
         else Inl (ErrMsg ''unknown backup action'')
     | _ \<Rightarrow> Inl (ErrMsg ''usage''))"

definition parseRestoreArgs :: "string list \<Rightarrow> (string \<times> string) result" where
  "parseRestoreArgs args =
     (case args of [_, n, b] \<Rightarrow> bindR (failIf (TrimSpace b = []) (ErrMsg ''usage'')) (\<lambda>_. Inr (n, b))
     | _ \<Rightarrow> Inl (ErrMsg ''usage''))"

definition parseExportArgs :: "string list \<Rightarrow> string result" where
  "parseExportArgs args =
     (case args of [_, n] \<Rightarrow> bindR (failIf (TrimSpace n = []) (ErrMsg ''usage'')) (\<lambda>_. Inr n)
     | _ \<Rightarrow> Inl (ErrMsg ''usage''))"

record ImportOptions =
  ioMemoryPoolName :: string
  ioFixedMemory :: bool

definition ImportOptions_Validate :: "ImportOptions \<Rightarrow> bool \<Rightarrow> unit result" where
  "ImportOptions_Validate opts pooledSource =
     bindR (failIf (ioMemoryPoolName opts \<noteq> [] \<and> ioFixedMemory opts)
       (ErrMsg ''--pool and --fixed-memory are mutually exclusive'')) (\<lambda>_.
     failIf (pooledSource \<and> ioMemoryPoolName opts = [] \<and> \<not> ioFixedMemory opts)
       (ErrMsg ''pooled source requires --pool TARGET_POOL or --fixed-memory''))"

definition parseImportOptions :: "string list \<Rightarrow> ImportOptions result" where
  "parseImportOptions args =
     (let none = \<lparr>ioMemoryPoolName = [], ioFixedMemory = False\<rparr>;
          once = (\<lambda>rest opts. case rest of
            [] \<Rightarrow> bindR (ImportOptions_Validate opts False) (\<lambda>_. Inr opts)
          | _ \<Rightarrow> Inl (ErrMsg ''memory policy may only be specified once''))
      in case args of
        [] \<Rightarrow> Inl (ErrMsg ''usage'')
      | cmd # rest \<Rightarrow>
        if cmd \<noteq> ''import'' then Inl (ErrMsg ''usage'')
        else case rest of
          [] \<Rightarrow> once [] none
        | opt # rest' \<Rightarrow>
          if opt = ''--fixed-memory'' then once rest' (none\<lparr>ioFixedMemory := True\<rparr>)
          else if opt = ''--pool'' then
            (case rest' of
               [] \<Rightarrow> Inl (ErrMsg ''--pool requires a target pool name'')
             | pool # rest'' \<Rightarrow>
               if TrimSpace pool = [] \<or> HasPrefix pool ''--''
               then Inl (ErrMsg ''--pool requires a target pool name'')
               else once rest'' (none\<lparr>ioMemoryPoolName := pool\<rparr>))
          else Inl (ErrMsg ''unknown option''))"

datatype log_target = logTargetAll | logTargetSerial | logTargetFirecracker

record logsRequest =
  lrName :: string
  lrTarget :: log_target
  lrFollow :: bool

fun parse_logs :: "string list \<Rightarrow> logsRequest \<Rightarrow> logsRequest result" where
  "parse_logs [] r = Inr r"
| "parse_logs (arg # rest) r =
     (if arg = ''-f'' \<or> arg = ''--follow'' then
        bindR (twice (lrFollow r)) (\<lambda>_. parse_logs rest (r\<lparr>lrFollow := True\<rparr>))
      else if arg = ''serial'' then
        bindR (failIf (lrTarget r \<noteq> logTargetAll) (ErrMsg ''unexpected argument''))
          (\<lambda>_. parse_logs rest (r\<lparr>lrTarget := logTargetSerial\<rparr>))
      else if arg = ''firecracker'' then
        bindR (failIf (lrTarget r \<noteq> logTargetAll) (ErrMsg ''unexpected argument''))
          (\<lambda>_. parse_logs rest (r\<lparr>lrTarget := logTargetFirecracker\<rparr>))
      else
        bindR (failIf (HasPrefix arg ''-'') (ErrMsg ''unknown option'')) (\<lambda>_.
        bindR (failIf (lrName r \<noteq> []) (ErrMsg ''unexpected argument'')) (\<lambda>_.
        parse_logs rest (r\<lparr>lrName := arg\<rparr>))))"

definition parseLogsArgs :: "string list \<Rightarrow> logsRequest result" where
  "parseLogsArgs args =
     bindR (failIf (length args < 2) (ErrMsg ''usage'')) (\<lambda>_.
     bindR (parse_logs (tl args) \<lparr>lrName = [], lrTarget = logTargetAll, lrFollow = False\<rparr>) (\<lambda>r.
     bindR (failIf (lrName r = []) (ErrMsg ''usage'')) (\<lambda>_.
     bindR (failIf (lrFollow r \<and> lrTarget r = logTargetAll) (ErrMsg ''follow requires an explicit log target'')) (\<lambda>_.
     Inr r))))"

end
