(* ===== verification/Service.thy ===== *)
theory Service
  imports Config Args Store
begin

section \<open>Sessions, identities and access\<close>

text \<open>
  The front door of the daemon, src/internal/service/service.go, forward.go and replacement.go: an
  SSH session is turned into an actor and a command, authorised, audited and dispatched. What the
  tailnet says about the peer, the decoding of a forwarded actor (base64 and JSON), the encoding of
  the arguments for the audit and the command handlers are parameters.
\<close>

subsection \<open>Requests\<close>

datatype outputFormat = outputFormatText | outputFormatJSON

record commandRequest =
  crqArgs :: "string list"
  crqFormat :: outputFormat

definition parseCommandRequest :: "string list \<Rightarrow> commandRequest result" where
  "parseCommandRequest args =
     (if args = [] \<or> hd args \<noteq> ''--json'' then Inr \<lparr>crqArgs = args, crqFormat = outputFormatText\<rparr>
      else if length args = 1 then Inl (ErrMsg ''usage: ssh srv [--json] <command>'')
      else Inr \<lparr>crqArgs = tl args, crqFormat = outputFormatJSON\<rparr>)"

definition unsupportedJSON :: "string \<Rightarrow> outputFormat \<Rightarrow> bool" where
  "unsupportedJSON command fmt = (fmt = outputFormatJSON \<and>
     command \<in> {''logs'', ''export'', ''import'', ''snapshot'', ''help'', ''top''})"

subsection \<open>Access\<close>

definition isAdmin :: "Config \<Rightarrow> Actor \<Rightarrow> bool" where
  "isAdmin c actor = list_ex (\<lambda>user. EqualFold user (UserLogin actor)) (cfgAdminUsers c)"

definition user_allowed :: "Config \<Rightarrow> Actor \<Rightarrow> bool" where
  "user_allowed c actor = (cfgAllowedUsers c = [] \<or>
     list_ex (\<lambda>user. EqualFold user (UserLogin actor)) (cfgAllowedUsers c))"

definition authorize :: "Config \<Rightarrow> Actor \<Rightarrow> string \<Rightarrow> bool \<times> string" where
  "authorize c actor command =
     (if command \<in> {''snapshot'', ''status'', ''integration'', ''pool''} then
        (if \<not> isAdmin c actor then (False, UserLogin actor @ '' is not in SRV_ADMIN_USERS'')
         else if user_allowed c actor
           then (True, UserLogin actor @ '' allowed to run '' @ command @ '' as admin'')
         else (False, UserLogin actor @ '' is not in SRV_ALLOWED_USERS''))
      else if cfgAllowedUsers c = [] then (True, ''allowed because SRV_ALLOWED_USERS is empty'')
      else if user_allowed c actor then (True, UserLogin actor @ '' allowed to run '' @ command)
      else (False, UserLogin actor @ '' is not in SRV_ALLOWED_USERS''))"

definition canAccessInstance :: "Config \<Rightarrow> Actor \<Rightarrow> Instance \<Rightarrow> bool" where
  "canAccessInstance c actor inst = (isAdmin c actor \<or> EqualFold (iCreatedByUser inst) (UserLogin actor))"

definition visibleInstances :: "Config \<Rightarrow> Actor \<Rightarrow> Instance list \<Rightarrow> Instance list" where
  "visibleInstances c actor insts = (if isAdmin c actor then insts else filter (canAccessInstance c actor) insts)"

definition lookupVisibleInstance :: "Config \<Rightarrow> Actor \<Rightarrow> string \<Rightarrow> db \<Rightarrow> Instance result" where
  "lookupVisibleInstance c actor name d =
     bindR (GetInstance name d) (\<lambda>inst.
     bindR (failIf (\<not> canAccessInstance c actor inst) ErrNoRows) (\<lambda>_. Inr inst))"

definition authorizeReplacement :: "Config \<Rightarrow> Actor \<Rightarrow> string \<Rightarrow> string \<Rightarrow> db \<Rightarrow> unit result" where
  "authorizeReplacement c actor name artifactOwner d =
     bindR (failIf (\<not> isAdmin c actor \<and> artifactOwner \<noteq> [] \<and> \<not> EqualFold artifactOwner (UserLogin actor))
       (ErrMsg ''artifact owner does not match importing user'')) (\<lambda>_.
     case GetInstance name d of
       Inl e \<Rightarrow> if errors_is e ErrNoRows then Inr () else Inl e
     | Inr inst \<Rightarrow> failIf (iState inst \<noteq> StateDeleted \<and> \<not> canAccessInstance c actor inst)
         (ErrMsg ''instance may only be replaced by its owner or an admin''))"

subsection \<open>Who is calling\<close>

record session =
  seRemote :: string
  seUser :: string
  seCommand :: "string list"

definition resolveCommandActor ::
  "Config \<Rightarrow> whois option result \<Rightarrow> (string \<Rightarrow> Actor option) \<Rightarrow> session \<Rightarrow> (Actor \<times> string list \<times> string) result" where
  "resolveCommandActor c who decode s =
     bindR who (\<lambda>w.
     case Option.bind w whoNode of
       None \<Rightarrow> Inl (ErrMsg ''tailscale whois response was incomplete'')
     | Some node \<Rightarrow>
       let args = seCommand s in
       if args \<noteq> [] \<and> hd args = ''forward'' then
         bindR (failIf (wnStableID node = [] \<or> wnStableID node \<notin> set (cfgTrustedFrontends c))
           (ErrMsg ''identity forwarding requires a trusted frontend node'')) (\<lambda>_.
         bindR (failIf (length args < 3 \<or> length (args ! 1) > 8192) (ErrMsg ''invalid forwarded command'')) (\<lambda>_.
         case decode (args ! 1) of
           None \<Rightarrow> Inl (ErrMsg ''invalid forwarded actor'')
         | Some actor \<Rightarrow>
           bindR (failIf (TrimSpace (UserLogin actor) = []) (ErrMsg ''invalid forwarded actor'')) (\<lambda>_.
           bindR (failIf (IsService (UserLogin actor) \<and> \<not> AllowsForwarded (cfgProviderNodes c) (UserLogin actor))
             (ErrMsg ''forwarded service owner is not configured on this backend'')) (\<lambda>_.
           bindR (failIf (args ! 2 = ''forward'' \<or> (args ! 2 = ''--json'' \<and> (length args < 4 \<or> args ! 3 = ''forward'')))
             (ErrMsg ''nested identity forwarding is not allowed'')) (\<lambda>_.
           Inr (actor\<lparr>RemoteAddr := seRemote s, SSHUser := seUser s\<rparr>, drop 2 args, wnStableID node))))))
       else
         bindR (Providers_Resolve (cfgProviderNodes c) w (seRemote s) (seUser s)) (\<lambda>actor.
         Inr (actor, args, [])))"

subsection \<open>The session\<close>

text \<open>What a command handler leaves: its exit code, its error and the database. The handlers are
  fields of a record: the streaming commands, and one function for the commands of \<open>dispatch\<close>.\<close>

type_synonym outcome = "(int \<times> error option) \<times> db"

datatype command_fn =
    CmdCleanupReceipt | CmdOperationResult | CmdProjectTemplate | CmdPlacement | CmdMigration | CmdNew
  | CmdList "string list" | CmdIntegration | CmdResize | CmdUpgrade | CmdFSCK | CmdBackup | CmdDisk
  | CmdInspect | CmdStatus | CmdPool | CmdRestore | CmdStart | CmdStop | CmdRestart | CmdDelete | CmdHelp

record handlers =
  hMigrationDisk :: "Actor \<Rightarrow> string list \<Rightarrow> db \<Rightarrow> outcome"
  hBootstrap :: "Actor \<Rightarrow> string list \<Rightarrow> db \<Rightarrow> outcome"
  hLogs :: "Actor \<Rightarrow> logsRequest \<Rightarrow> db \<Rightarrow> outcome"
  hStream :: "Actor \<Rightarrow> string list \<Rightarrow> db \<Rightarrow> outcome"
  hCommand :: "command_fn \<Rightarrow> Actor \<Rightarrow> commandRequest \<Rightarrow> db \<Rightarrow> outcome"

definition command_table :: "(string \<times> command_fn) list" where
  "command_table =
    [(''cleanup-receipt'', CmdCleanupReceipt), (''operation-result'', CmdOperationResult),
     (''operation-cancel'', CmdOperationResult), (''project-template'', CmdProjectTemplate),
     (''placement'', CmdPlacement), (''import-placement'', CmdPlacement), (''migration'', CmdMigration),
     (''new'', CmdNew), (''integration'', CmdIntegration), (''resize'', CmdResize), (''upgrade'', CmdUpgrade),
     (''fsck'', CmdFSCK), (''backup'', CmdBackup), (''disk'', CmdDisk), (''inspect'', CmdInspect),
     (''status'', CmdStatus), (''pool'', CmdPool), (''restore'', CmdRestore), (''start'', CmdStart),
     (''stop'', CmdStop), (''restart'', CmdRestart), (''delete'', CmdDelete), (''help'', CmdHelp)]"

definition route :: "string list \<Rightarrow> command_fn result" where
  "route args =
     (if args ! 0 = ''orb'' then
        (if length args \<ge> 2 \<and> args ! 1 = ''new'' then Inr CmdNew
         else if length args = 2 \<and> args ! 1 = ''list'' then Inr (CmdList [KindOrb])
         else Inl (ErrMsg ''usage: orb new NAME [options] | orb list | orb bootstrap NAME''))
      else if args ! 0 = ''list'' then
        (if length args = 2 \<and> args ! 1 = ''--all'' then Inr (CmdList [''all''])
         else if length args \<noteq> 1 then Inl (ErrMsg ''usage: list [--all]'')
         else Inr (CmdList []))
      else case map_of command_table (args ! 0) of
        Some f \<Rightarrow> Inr f
      | None \<Rightarrow> Inl (ErrMsg ''unknown command''))"

definition dispatch :: "handlers \<Rightarrow> Actor \<Rightarrow> commandRequest \<Rightarrow> db \<Rightarrow> outcome" where
  "dispatch h actor req d =
     (case route (crqArgs req) of
       Inl e \<Rightarrow> ((2, Some e), d)
     | Inr f \<Rightarrow> hCommand h f actor req d)"

definition exit_code :: "outcome \<Rightarrow> outcome" where
  "exit_code r = (case r of ((code, err), d) \<Rightarrow> ((if code = 0 \<and> err \<noteq> None then 1 else code, err), d))"

definition run_command :: "handlers \<Rightarrow> Actor \<Rightarrow> commandRequest \<Rightarrow> db \<Rightarrow> outcome" where
  "run_command h actor req d =
     (let args = crqArgs req; command = args ! 0 in
      if command = ''migration-disk'' then hMigrationDisk h actor args d
      else if length args \<ge> 2 \<and> command = ''orb'' \<and> args ! 1 = ''bootstrap'' then
        (if crqFormat req = outputFormatJSON then ((2, Some (ErrMsg ''orb bootstrap does not support --json'')), d)
         else hBootstrap h actor args d)
      else if command = ''logs'' then
        (case parseLogsArgs args of
          Inl e \<Rightarrow> ((2, Some e), d)
        | Inr r \<Rightarrow> exit_code (hLogs h actor r d))
      else if command \<in> {''top'', ''export'', ''import'', ''snapshot''} then exit_code (hStream h actor args d)
      else exit_code (dispatch h actor req d))"

definition session_actor :: "session \<Rightarrow> Actor" where
  "session_actor s = \<lparr>UserLogin = [], DisplayName = [], NodeName = [], RemoteAddr = seRemote s, SSHUser = seUser s\<rparr>"

text \<open>The clock of a session is a pair: when it started and the milliseconds it took.\<close>

type_synonym session_clock = "time \<times> int64"

definition record_audit ::
  "session_clock \<Rightarrow> (string list \<Rightarrow> string) \<Rightarrow> session \<Rightarrow> string \<Rightarrow> Actor \<Rightarrow> bool \<Rightarrow> string \<Rightarrow> error option \<Rightarrow> db \<Rightarrow> db" where
  "record_audit clock encode s command actor allowed reason err d =
     (case RecordCommand (fst clock) \<lparr>caCreatedAt = fst clock, caActorUser = UserLogin actor,
         caActorDisplayName = DisplayName actor, caActorNode = NodeName actor, caRemoteAddr = seRemote s,
         caSSHUser = seUser s, caCommand = command, caArgsJSON = encode (seCommand s), caAllowed = allowed,
         caReason = reason, caDurationMS = snd clock,
         caErrorText = (case err of None \<Rightarrow> [] | Some e \<Rightarrow> error_text e)\<rparr> d of
       Inr d' \<Rightarrow> d' | Inl _ \<Rightarrow> d)"

definition record_decision ::
  "time \<Rightarrow> Actor \<Rightarrow> string \<Rightarrow> bool \<Rightarrow> string \<Rightarrow> db \<Rightarrow> db" where
  "record_decision now actor command allowed reason d =
     (case RecordAuthz now \<lparr>adCreatedAt = now, adActorUser = UserLogin actor, adActorNode = NodeName actor,
         adRemoteAddr = RemoteAddr actor, adAction = command, adAllowed = allowed, adReason = reason\<rparr> d of
       Inr d' \<Rightarrow> d' | Inl _ \<Rightarrow> d)"

definition decide :: "Config \<Rightarrow> Actor \<Rightarrow> string \<Rightarrow> string \<Rightarrow> bool \<times> string" where
  "decide c actor command via =
     (let (allowed, reason) =
        (if command = ''migration-disk'' \<and> via = []
         then (False, ''native migration requires an authenticated trusted frontend'')
         else authorize c actor command)
      in (allowed, if via \<noteq> [] then reason @ ''; forwarded by '' @ via else reason))"

text \<open>The exit code and the database after a session. \<open>gate\<close> is false while a snapshot holds the
  command gate, whose interleavings are the subject of the theory Gate.\<close>

definition handleSession ::
  "session_clock \<Rightarrow> Config \<Rightarrow> whois option result \<Rightarrow> (string \<Rightarrow> Actor option) \<Rightarrow> (string list \<Rightarrow> string) \<Rightarrow>
    handlers \<Rightarrow> bool \<Rightarrow> session \<Rightarrow> db \<Rightarrow> int \<times> db" where
  "handleSession clock c who decode encode h gate s d =
     (let finalize = record_audit clock encode s in
      if \<not> gate then (1, d)
      else if seCommand s = [] then
        (2, finalize [] (session_actor s) False ''shell denied''
          (Some (ErrMsg ''shell sessions are disabled; use an exec request such as: ssh srv list'')) d)
      else case resolveCommandActor c who decode s of
        Inl e \<Rightarrow> (1, finalize (hd (seCommand s)) (session_actor s) False ''whois failed'' (Some e) d)
      | Inr (actor, args, via) \<Rightarrow>
        (case parseCommandRequest args of
          Inl e \<Rightarrow> (2, finalize (hd (seCommand s)) actor False ''invalid request'' (Some e) d)
        | Inr req \<Rightarrow>
          let command = hd (crqArgs req);
              (allowed, reason) = decide c actor command via;
              d1 = record_decision (fst clock) actor command allowed reason d
          in
          if \<not> allowed then
            (1, finalize command actor False reason (Some (ErrMsg (''not authorized: '' @ reason))) d1)
          else if unsupportedJSON command (crqFormat req) then
            (2, finalize command actor True reason (Some (ErrMsg (command @ '' does not support --json''))) d1)
          else
            let ((code, err), d2) = run_command h actor req d1 in
            (code, finalize command actor True reason err d2)))"

end
