(* ===== verification/ServiceProofs.thy ===== *)
theory ServiceProofs
  imports Service Args StoreProps CapacityProofs
begin

section \<open>Who may do what\<close>

text \<open>
  Every effect of a command is preceded by an authorisation decision and followed by an audit
  record; identities cannot be forged or raised; other users' instances look missing.
\<close>

subsection \<open>Lower case and white space\<close>

lemma lower_space: "is_space (lower_char c) \<longleftrightarrow> is_space c"
proof
  assume "is_space (lower_char c)"
  then show "is_space c"
    by (auto simp: lower_char_def is_space_def Let_def split: if_splits
      dest!: arg_cong[where f = "of_char :: char \<Rightarrow> nat"])
qed (auto simp: lower_char_def is_space_def Let_def)

lemma lower_alnum_no_space: "lower_alnum c \<Longrightarrow> \<not> is_space c"
  by (auto simp: lower_alnum_def is_digit_def is_space_def)

lemma serviceName_no_space: "serviceName n \<Longrightarrow> x \<in> set (''service:'' @ n) \<Longrightarrow> \<not> is_space x"
proof -
  assume n: "serviceName n" and x: "x \<in> set (''service:'' @ n)"
  have other: "\<not> is_space c" if "c = CHR ''_'' \<or> c = CHR ''-'' \<or> c \<in> set ''service:''" for c
    using that by (auto simp: is_space_def)
  from x consider "x \<in> set ''service:''" | "x \<in> set n" unfolding set_append by blast
  then show ?thesis
  proof cases
    case 2
    with n have "lower_alnum x \<or> x = CHR ''_'' \<or> x = CHR ''-''" by (auto simp: serviceName_def list_all_iff)
    then show ?thesis using other lower_alnum_no_space by blast
  qed (use other in blast)
qed

lemma fold_no_space:
  assumes "EqualFold u v" "\<And>x. x \<in> set v \<Longrightarrow> \<not> is_space x"
  shows "TrimSpace u = u"
proof (rule TrimSpace_no_space)
  fix x assume "x \<in> set u"
  then have "lower_char x \<in> set (map lower_char u)" by simp
  also have "map lower_char u = map lower_char v" using assms(1) unfolding EqualFold_def ToLower_def .
  finally have "lower_char x \<in> set (map lower_char v)" .
  then obtain y where "y \<in> set v" "lower_char x = lower_char y" by auto
  with assms(2) show "\<not> is_space x" by (metis lower_space)
qed

lemma IsService_fold: "EqualFold u v \<Longrightarrow> IsService u = IsService v"
  by (simp add: EqualFold_def IsService_def)

lemma IsService_prefix: "IsService (''service:'' @ n)"
  by (simp add: IsService_def HasPrefix_def ToLower_def lower_char_def Let_def)

subsection \<open>Identities\<close>

lemma Providers_Resolve_cases:
  assumes "Providers_Resolve p w remote user = Inr actor"
  obtains node name where "Option.bind w whoNode = Some node" "map_of p (wnStableID node) = Some name"
      "wnStableID node \<noteq> []" "serviceName name" "UserLogin actor = ''service:'' @ name"
    | node u where "Option.bind w whoNode = Some node" "Option.bind w whoUser = Some u"
      "wnTags node = []" "\<not> IsService (wuLoginName u)" "UserLogin actor = wuLoginName u"
  using assms unfolding Providers_Resolve_def
  by (auto simp: Let_def split: option.splits if_splits)

text \<open>Service accounts never have administrative rights. With a configuration that validation
  accepts, an actor that the tailnet identity resolves to a service account is one that the
  configuration maps from the calling node, and is not an administrator.\<close>

theorem service_identity_not_admin:
  assumes "Validate parse c = Inr ()" "Providers_Resolve (cfgProviderNodes c) w remote user = Inr actor"
    "IsService (UserLogin actor)"
  shows "\<not> isAdmin c actor \<and> (\<exists>node name. Option.bind w whoNode = Some node \<and>
    map_of (cfgProviderNodes c) (wnStableID node) = Some name \<and> UserLogin actor = ''service:'' @ name)"
  using assms(2)
proof (cases rule: Providers_Resolve_cases)
  case (1 node name)
  have "\<not> EqualFold u (UserLogin actor)" if "u \<in> set (cfgAdminUsers c)" for u
  proof
    assume fold: "EqualFold u (UserLogin actor)"
    then have "TrimSpace u = u"
      by (rule fold_no_space) (use serviceName_no_space[OF 1(4)] 1(5) in metis)
    moreover have "IsService u" using IsService_fold[OF fold] assms(3) by simp
    moreover have "\<not> list_ex (\<lambda>a. IsService (TrimSpace a)) (cfgAdminUsers c)"
      using assms(1) by (auto simp: Validate_def Providers_Validate_def bindR_Inr_iff simp del: bindR_failIf)
    ultimately show False using that by (auto simp: list_ex_iff)
  qed
  with 1 show ?thesis by (auto simp: isAdmin_def list_ex_iff)
next
  case (2 node u)
  with assms(3) show ?thesis by simp
qed

definition svc_whois :: whois where
  "svc_whois = \<lparr>whoNode = Some \<lparr>wnName = ''n.'', wnComputedName = [], wnStableID = ''n1'', wnTags = [''tag:ci'']\<rparr>,
     whoUser = None\<rparr>"

theorem service_identity_not_admin_witness:
  "\<exists>actor. Providers_Resolve (cfgProviderNodes example_config) (Some svc_whois) [] [] = Inr actor \<and>
     UserLogin actor = ''service:ci'' \<and> \<not> isAdmin example_config actor"
proof -
  let ?r = "Providers_Resolve (cfgProviderNodes example_config) (Some svc_whois) [] []"
  have v: "Validate (\<lambda>_. Inr (''https'', ''h'')) example_config = Inr ()" by code_simp
  have "(case ?r of Inr a \<Rightarrow> UserLogin a = ''service:ci'' \<and> IsService (UserLogin a) | Inl _ \<Rightarrow> False)" by code_simp
  then obtain a where a: "?r = Inr a" "UserLogin a = ''service:ci''" "IsService (UserLogin a)"
    by (cases ?r) auto
  with service_identity_not_admin[OF v a(1,3)] show ?thesis by blast
qed

lemma resolveCommandActor_node:
  assumes "resolveCommandActor c who decode s = Inr r"
  obtains w node where "who = Inr w" "Option.bind w whoNode = Some node"
  using assms unfolding resolveCommandActor_def by (auto simp: bindR_Inr_iff split: option.splits)

lemma resolveCommandActor_direct:
  assumes "resolveCommandActor c who decode s = Inr (actor, args, via)" "who = Inr w"
    "\<not> (seCommand s \<noteq> [] \<and> hd (seCommand s) = ''forward'')"
  shows "Providers_Resolve (cfgProviderNodes c) w (seRemote s) (seUser s) = Inr actor \<and> args = seCommand s \<and> via = []"
  using assms by (auto simp: resolveCommandActor_def Let_def bindR_Inr_iff split: option.splits)

lemma resolveCommandActor_forwarded:
  assumes "resolveCommandActor c who decode s = Inr (actor, args, via)" "who = Inr w"
    "Option.bind w whoNode = Some node" "seCommand s \<noteq> [] \<and> hd (seCommand s) = ''forward''"
  obtains act where "3 \<le> length (seCommand s)" "wnStableID node \<noteq> []" "wnStableID node \<in> set (cfgTrustedFrontends c)"
    "IsService (UserLogin act) \<longrightarrow> AllowsForwarded (cfgProviderNodes c) (UserLogin act)" "seCommand s ! 2 \<noteq> ''forward''"
    "actor = act\<lparr>RemoteAddr := seRemote s, SSHUser := seUser s\<rparr>" "args = drop 2 (seCommand s)" "via = wnStableID node"
  using assms by (auto simp: resolveCommandActor_def Let_def split: option.splits if_splits)

lemma resolveCommandActor_via:
  assumes r: "resolveCommandActor c who decode s = Inr (actor, args, via)" and via: "via \<noteq> []"
  shows "via \<in> set (cfgTrustedFrontends c)"
proof -
  obtain w node where w: "who = Inr w" "Option.bind w whoNode = Some node" by (rule resolveCommandActor_node[OF r])
  with resolveCommandActor_direct[OF r w(1)] via have "seCommand s \<noteq> [] \<and> hd (seCommand s) = ''forward''" by blast
  from resolveCommandActor_forwarded[OF r w this] show ?thesis by metis
qed

text \<open>C20: an identity is only taken on trust from a trusted frontend. If a session acts for a
  forwarded user, the calling node is one of the configured frontends, the audit keeps the real
  peer address, a service account must be configured here, and forwarding is not nested; otherwise
  the actor is the node's own user or its configured service account.\<close>

theorem forwarded_identity_trusted:
  assumes "resolveCommandActor c who decode s = Inr (actor, args, via)"
  shows "\<exists>w node. who = Inr w \<and> Option.bind w whoNode = Some node \<and>
    RemoteAddr actor = seRemote s \<and> SSHUser actor = seUser s \<and>
    (if via \<noteq> [] then via = wnStableID node \<and> via \<in> set (cfgTrustedFrontends c) \<and>
        args = drop 2 (seCommand s) \<and> args \<noteq> [] \<and> hd args \<noteq> ''forward'' \<and>
        (IsService (UserLogin actor) \<longrightarrow> AllowsForwarded (cfgProviderNodes c) (UserLogin actor))
     else args = seCommand s \<and> Providers_Resolve (cfgProviderNodes c) w (seRemote s) (seUser s) = Inr actor)"
proof -
  obtain w node where w: "who = Inr w" "Option.bind w whoNode = Some node" by (rule resolveCommandActor_node[OF assms])
  show ?thesis
  proof (cases "seCommand s \<noteq> [] \<and> hd (seCommand s) = ''forward''")
    case False
    note p = resolveCommandActor_direct[OF assms w(1) False]
    then have "RemoteAddr actor = seRemote s \<and> SSHUser actor = seUser s"
      unfolding Providers_Resolve_def by (auto simp: Let_def split: option.splits if_splits)
    with p w show ?thesis by auto
  next
    case True
    from resolveCommandActor_forwarded[OF assms w True] obtain act where a: "3 \<le> length (seCommand s)"
      "wnStableID node \<noteq> []" "wnStableID node \<in> set (cfgTrustedFrontends c)"
      "IsService (UserLogin act) \<longrightarrow> AllowsForwarded (cfgProviderNodes c) (UserLogin act)" "seCommand s ! 2 \<noteq> ''forward''"
      "actor = act\<lparr>RemoteAddr := seRemote s, SSHUser := seUser s\<rparr>" "args = drop 2 (seCommand s)" "via = wnStableID node" .
    moreover from a(1) have "drop 2 (seCommand s) \<noteq> []" "hd (drop 2 (seCommand s)) = seCommand s ! 2"
      by (auto simp: hd_drop_conv_nth)
    ultimately show ?thesis using w by auto
  qed
qed

definition svc_front :: Config where
  "svc_front = example_config\<lparr>cfgTrustedFrontends := [''f1'']\<rparr>"

definition svc_front_whois :: whois where
  "svc_front_whois = svc_whois\<lparr>whoNode := Some \<lparr>wnName = ''front.'', wnComputedName = [], wnStableID = ''f1'', wnTags = [''tag:front'']\<rparr>\<rparr>"

definition svc_decode :: "string \<Rightarrow> Actor option" where
  "svc_decode t = (if t = ''QQ'' then Some \<lparr>UserLogin = ''ada@example.com'', DisplayName = ''Ada'', NodeName = ''laptop'',
     RemoteAddr = ''forged'', SSHUser = ''forged''\<rparr> else None)"

definition svc_session :: session where
  "svc_session = \<lparr>seRemote = ''100.64.0.7:40000'', seUser = ''srv'', seCommand = [''forward'', ''QQ'', ''list'']\<rparr>"

theorem forwarded_identity_trusted_witness:
  "\<exists>actor. resolveCommandActor svc_front (Inr (Some svc_front_whois)) svc_decode svc_session = Inr (actor, [''list''], ''f1'') \<and>
     RemoteAddr actor = ''100.64.0.7:40000''"
proof -
  let ?r = "resolveCommandActor svc_front (Inr (Some svc_front_whois)) svc_decode svc_session"
  have "(case ?r of Inr (a, args, via) \<Rightarrow> args = [''list''] \<and> via = ''f1'' | Inl _ \<Rightarrow> False)" by code_simp
  then obtain a where a: "?r = Inr (a, [''list''], ''f1'')" by (cases ?r) auto
  with forwarded_identity_trusted[OF a] show ?thesis by (auto simp: svc_session_def)
qed

subsection \<open>Visibility\<close>



subsection \<open>Sessions\<close>

lemma record_audit_commands [simp]:
  "commands (record_audit clock encode s command actor allowed reason err d) = commands d @
    [\<lparr>caCreatedAt = timeString (fst clock) (fst clock), caActorUser = UserLogin actor,
       caActorDisplayName = DisplayName actor, caActorNode = NodeName actor, caRemoteAddr = seRemote s,
       caSSHUser = seUser s, caCommand = command, caArgsJSON = encode (seCommand s), caAllowed = allowed,
       caReason = reason, caDurationMS = snd clock,
       caErrorText = (case err of None \<Rightarrow> [] | Some e \<Rightarrow> error_text e)\<rparr>]"
  by (simp add: record_audit_def RecordCommand_def)

lemma record_decision_commands [simp]: "commands (record_decision now actor command allowed reason d) = commands d"
  by (simp add: record_decision_def RecordAuthz_def)

lemma authorize_allowed:
  "fst (authorize c actor command) \<longleftrightarrow> user_allowed c actor \<and>
     (command \<in> {''snapshot'', ''status'', ''integration'', ''pool''} \<longrightarrow> isAdmin c actor)"
  unfolding authorize_def user_allowed_def by auto

lemma decide_allowed:
  "fst (decide c actor command via) \<longleftrightarrow> user_allowed c actor \<and>
     (command \<in> {''snapshot'', ''status'', ''integration'', ''pool''} \<longrightarrow> isAdmin c actor) \<and>
     (command = ''migration-disk'' \<longrightarrow> via \<noteq> [])"
proof (cases "command = ''migration-disk'' \<and> via = []")
  case False
  obtain allowed reason where a: "authorize c actor command = (allowed, reason)" by fastforce
  then have "decide c actor command via = (allowed, if via \<noteq> [] then reason @ ''; forwarded by '' @ via else reason)"
    using False unfolding decide_def by (simp only: if_False Let_def prod.case)
  then have "fst (decide c actor command via) = allowed" by simp
  moreover have "command = ''migration-disk'' \<longrightarrow> via \<noteq> []" using False by blast
  ultimately show ?thesis using authorize_allowed[of c actor command] unfolding a fst_conv by metis
qed (simp add: decide_def)

text \<open>C22: nothing is done for a caller who is not authorised. If it makes any difference to a session
  what the command handlers do, then the gate was open, the caller's identity was resolved, the
  caller is an allowed user, is an administrator if the command is an administrative one, and comes
  through a configured frontend if the command moves a disk.\<close>

theorem session_runs_only_authorised:
  assumes "handleSession clock c who decode encode h gate s d \<noteq> handleSession clock c who decode encode h' gate s d"
  shows "gate \<and> (\<exists>actor args via req. resolveCommandActor c who decode s = Inr (actor, args, via) \<and>
    parseCommandRequest args = Inr req \<and> user_allowed c actor \<and>
    (hd (crqArgs req) \<in> {''snapshot'', ''status'', ''integration'', ''pool''} \<longrightarrow> isAdmin c actor) \<and>
    (hd (crqArgs req) = ''migration-disk'' \<longrightarrow> via \<in> set (cfgTrustedFrontends c)))"
proof -
  have gate: "gate" by (rule ccontr) (use assms in \<open>simp add: handleSession_def\<close>)
  moreover have "seCommand s \<noteq> []" by (rule ccontr) (use assms gate in \<open>simp add: handleSession_def Let_def\<close>)
  moreover from calculation assms obtain actor args via where r: "resolveCommandActor c who decode s = Inr (actor, args, via)"
    by (cases "resolveCommandActor c who decode s") (auto simp: handleSession_def Let_def)
  moreover from this assms calculation(1,2) obtain req where q: "parseCommandRequest args = Inr req"
    by (cases "parseCommandRequest args") (auto simp: handleSession_def Let_def)
  moreover have "fst (decide c actor (hd (crqArgs req)) via)"
  proof (rule ccontr)
    assume "\<not> fst (decide c actor (hd (crqArgs req)) via)"
    then obtain reason where "decide c actor (hd (crqArgs req)) via = (False, reason)" by (metis prod.collapse)
    with assms r q calculation(1,2) show False by (simp add: handleSession_def Let_def)
  qed
  moreover have "via \<noteq> [] \<longrightarrow> via \<in> set (cfgTrustedFrontends c)" using resolveCommandActor_via[OF r] by blast
  ultimately show ?thesis unfolding decide_allowed by blast
qed

definition svc_handlers :: "int \<Rightarrow> handlers" where
  "svc_handlers code = (let f = (\<lambda>_ _ d. ((code, None), d)) in
     \<lparr>hMigrationDisk = f, hBootstrap = f, hLogs = (\<lambda>_ _ d. ((code, None), d)), hStream = f, hCommand = (\<lambda>_ _ _ d. ((code, None), d))\<rparr>)"

theorem session_runs_only_authorised_witness:
  "\<exists>actor args via req. resolveCommandActor svc_front (Inr (Some svc_front_whois)) svc_decode svc_session = Inr (actor, args, via) \<and>
     parseCommandRequest args = Inr req \<and> user_allowed svc_front actor"
proof -
  let ?run = "\<lambda>h. handleSession (ex_now, 5) svc_front (Inr (Some svc_front_whois)) svc_decode concat h True svc_session empty_db"
  have "fst (?run (svc_handlers 0)) = 0" "fst (?run (svc_handlers 7)) = 7" by code_simp+
  then have "?run (svc_handlers 0) \<noteq> ?run (svc_handlers 7)" by auto
  from session_runs_only_authorised[OF this] show ?thesis by blast
qed



subsection \<open>Sizes\<close>

text \<open>C24: a parsed size is exact. The product of the digits and the unit is returned without
  wrapping, and an accepted size is positive; what does not fit in 64 bits is refused.\<close>

lemma size_unit_pos: "0 < u \<Longrightarrow> size_unit u t = Some k \<Longrightarrow> 0 < k"
  by (auto simp: size_unit_def split: if_splits)

theorem parse_size_exact:
  assumes "0 < unit" "parseSize value unit = Inr n"
  shows "\<exists>number k. ParseInt (takeWhile is_digit (TrimSpace value)) = Inr number \<and>
    size_unit unit (ToLower (TrimSpace (dropWhile is_digit (TrimSpace value)))) = Some k \<and>
    n = number * k \<and> 0 < n \<and> n \<le> max_int64"
proof -
  from assms(2) obtain number k where *: "ParseInt (takeWhile is_digit (TrimSpace value)) = Inr number" "0 < number"
      "size_unit unit (ToLower (TrimSpace (dropWhile is_digit (TrimSpace value)))) = Some k"
      "number \<le> max_int64 sdiv k" "n = wrap64 (number * k)"
    by (auto simp: parseSize_def Let_def bindR_Inr_iff split: option.splits if_splits)
  have k: "0 < k" using size_unit_pos[OF assms(1) *(3)] .
  have "number * k \<le> max_int64 div k * k" using *(4) k by (simp add: sdiv_pos max_int64_def)
  also have "\<dots> \<le> max_int64" using k by (metis div_mult_mod_eq le_add_same_cancel1 pos_mod_sign)
  finally have le: "number * k \<le> max_int64" .
  moreover have "0 < number * k" using *(2) k by simp
  ultimately have "n = number * k" using *(5) by (simp add: wrap64_id in64_def max_int64_def)
  with * le k show ?thesis by auto
qed

theorem parse_size_exact_witness: "parseSize '' 8GiB '' MiB = Inr 8589934592 \<and> (0 :: int) < 8589934592"
proof -
  have "parseSize '' 8GiB '' MiB = Inr 8589934592" by code_simp
  with parse_size_exact[OF _ this] show ?thesis by (auto simp: MiB_def)
qed

text \<open>An enormous memory size silently becomes the default. \<open>--ram\<close> with a size within one
  mebibyte of the largest 64-bit number parses to a non-positive number of mebibytes, for which the
  instance is created with the configured default.\<close>

definition huge_ram :: "string list" where
  "huge_ram = [''new'', ''web'', ''--ram'', ''9223372036854775807b'']"

theorem huge_ram_becomes_default:
  "case parseNewArgs huge_ram of Inl _ \<Rightarrow> False
   | Inr (name, opts, _) \<Rightarrow> coMemoryMiB opts < 0 \<and>
     (case resolveCreateOptions example_config opts 1024 of Inl _ \<Rightarrow> False
      | Inr (resolved, _) \<Rightarrow> coMemoryMiB resolved = cfgMemoryMiB example_config)"
  by code_simp

end
