(* ===== verification/Logs.thy ===== *)
theory Logs
  imports Args
begin

section \<open>Logs\<close>

text \<open>
  How src/internal/service/service.go shows the log files of an instance: the tail of a file is read
  in chunks (\<open>scanLogChunks\<close>, \<open>readLastLines\<close>), a serial log goes through a writer that removes
  terminal control sequences (\<open>terminalSafeWriter\<close>), and a followed log is copied from the offset
  reached so far (\<open>writeLogUpdates\<close>). A file is its content, or an error of opening or reading it; a
  destination is a state with a write operation that may fail.
\<close>

subsection \<open>Removing terminal control sequences\<close>

datatype terminalWriterState =
    StText | StEscape | StCSI | StOSC | StOSCEscape | StEscapeString | StEscapeStringEscape

type_synonym 'd writer = "string \<Rightarrow> 'd \<Rightarrow> 'd result"

definition is_control :: "char \<Rightarrow> bool" where
  "is_control b = ((of_char b :: nat) < 32 \<or> (of_char b :: nat) = 127)"

definition shown :: "char \<Rightarrow> bool" where
  "shown b = (if is_control b then b \<in> {CHR 0x0A, CHR 0x0D, CHR 0x09} else True)"

text \<open>The transition of the state on one byte, the byte 0x1b in the text state included.\<close>

fun next_state :: "terminalWriterState \<Rightarrow> char \<Rightarrow> terminalWriterState" where
  "next_state StText b = (if b = CHR 0x1B then StEscape else StText)"
| "next_state StEscape b =
     (if b = CHR ''['' then StCSI else if b = CHR '']'' then StOSC
      else if b \<in> {CHR ''P'', CHR ''X'', CHR 0x5E, CHR ''_''} then StEscapeString else StText)"
| "next_state StCSI b = (if 64 \<le> (of_char b :: nat) \<and> (of_char b :: nat) \<le> 126 then StText else StCSI)"
| "next_state StOSC b = (if b = CHR 0x07 then StText else if b = CHR 0x1B then StOSCEscape else StOSC)"
| "next_state StOSCEscape b =
     (if b = CHR 0x5C then StText else if b \<noteq> CHR 0x1B then StOSC else StOSCEscape)"
| "next_state StEscapeString b = (if b = CHR 0x1B then StEscapeStringEscape else StEscapeString)"
| "next_state StEscapeStringEscape b =
     (if b = CHR 0x5C then StText else if b \<noteq> CHR 0x1B then StEscapeString else StEscapeStringEscape)"

definition flush :: "'d writer \<Rightarrow> string \<Rightarrow> 'd \<Rightarrow> 'd result" where
  "flush put buf d = (if buf = [] then Inr d else put buf d)"

text \<open>The loop of \<open>Write\<close>: the buffer is flushed before an escape sequence and at the end. The result
  is an error or the destination, with the state the writer is left in.\<close>

fun write_loop ::
  "'d writer \<Rightarrow> string \<Rightarrow> string \<Rightarrow> terminalWriterState \<Rightarrow> 'd \<Rightarrow> 'd result \<times> terminalWriterState" where
  "write_loop put [] buf st d = (flush put buf d, st)"
| "write_loop put (b # p) buf st d =
     (if st = StText then
        (if b = CHR 0x1B then
           (case flush put buf d of
             Inl e \<Rightarrow> (Inl e, st)
           | Inr d' \<Rightarrow> write_loop put p [] (next_state st b) d')
         else write_loop put p (if shown b then buf @ [b] else buf) (next_state st b) d)
      else write_loop put p buf (next_state st b) d)"

definition safe_write :: "'d writer \<Rightarrow> string \<Rightarrow> terminalWriterState \<Rightarrow> 'd \<Rightarrow> 'd result \<times> terminalWriterState" where
  "safe_write put p st d = write_loop put p [] st d"

subsection \<open>Chunks of a file\<close>

definition maxLogChunkBytes :: nat where "maxLogChunkBytes = 1048576"
definition defaultLogTailLines :: nat where "defaultLogTailLines = 40"

text \<open>The number of bytes the next token takes, or none when more data is needed.\<close>

definition scanLogChunks :: "string \<Rightarrow> bool \<Rightarrow> nat option" where
  "scanLogChunks data atEOF =
     (if atEOF \<and> data = [] then None
      else
        let i = length (takeWhile (\<lambda>c. c \<noteq> CHR 0x0A) data) in
        if i < length data then Some (i + 1)
        else if length data \<ge> maxLogChunkBytes then Some maxLogChunkBytes
        else if atEOF then Some (length data)
        else None)"

text \<open>The scanner: its buffer holds at most \<open>maxLogChunkBytes\<close> bytes of what is left of the file, and
  it refills the buffer until the split function returns a token or the file ends. A smaller
  buffer gives the same token or none (\<open>scan_window\<close>), so the full buffer decides.\<close>

definition scan_window :: "string \<Rightarrow> string" where
  "scan_window rest = take maxLogChunkBytes rest"

function scan_file :: "string \<Rightarrow> string list" where
  "scan_file rest =
     (case scanLogChunks (scan_window rest) (length rest \<le> maxLogChunkBytes) of
       None \<Rightarrow> []
     | Some n \<Rightarrow> if n = 0 \<or> rest = [] then [] else take n rest # scan_file (drop n rest))"
  by auto
termination
  by (relation "measure length") auto

declare scan_file.simps [simp del]

text \<open>The ring of the last \<open>limit\<close> chunks and the offset after the last one.\<close>

fun keep_last :: "nat \<Rightarrow> string list \<Rightarrow> string list \<Rightarrow> nat \<Rightarrow> string list \<times> nat" where
  "keep_last limit [] lines offset = (lines, offset)"
| "keep_last limit (c # cs) lines offset =
     (if length lines = limit then keep_last limit cs (tl lines @ [c]) (offset + length c)
      else keep_last limit cs (lines @ [c]) (offset + length c))"

definition readLastLines :: "string result \<Rightarrow> nat \<Rightarrow> (string list \<times> nat \<times> bool) result" where
  "readLastLines file limit =
     (case file of
       Inl e \<Rightarrow> if errors_is e ErrNotExist then Inr ([], 0, False) else Inl e
     | Inr content \<Rightarrow> (case keep_last limit (scan_file content) [] 0 of (lines, offset) \<Rightarrow> Inr (lines, offset, True)))"

subsection \<open>Showing a log\<close>

fun write_all :: "'d writer \<Rightarrow> string list \<Rightarrow> 'd \<Rightarrow> 'd result" where
  "write_all put [] d = Inr d"
| "write_all put (x # xs) d = bindR (put x d) (\<lambda>d. write_all put xs d)"

definition writeLogSection :: "'d writer \<Rightarrow> string \<Rightarrow> string \<Rightarrow> string result \<Rightarrow> 'd \<Rightarrow> ('d \<times> string list \<times> nat) result" where
  "writeLogSection put label path file d =
     bindR (readLastLines file defaultLogTailLines) (\<lambda>(lines, offset, exists).
     bindR (put (label @ ''-log: '' @ path @ [CHR 0x0A]) d) (\<lambda>d.
     bindR (if \<not> exists then put (''(log file has not been created yet)'' @ [CHR 0x0A]) d
       else if lines = [] then put (''(log is empty)'' @ [CHR 0x0A]) d
       else write_all put lines d) (\<lambda>d.
     Inr (d, lines, offset))))"

text \<open>\<open>io.Copy\<close> from the offset, as one write (the writers do not depend on the chunking); a file shorter than the offset was truncated and is read again
  from its start.\<close>

definition writeLogUpdates :: "'d writer \<Rightarrow> string result \<Rightarrow> nat \<Rightarrow> 'd \<Rightarrow> ('d \<times> nat) result" where
  "writeLogUpdates put file offset d =
     (case file of
       Inl e \<Rightarrow> if errors_is e ErrNotExist then Inr (d, 0) else Inl e
     | Inr content \<Rightarrow>
       let off = (if offset > length content then 0 else offset); new = drop off content in
       bindR (flush put new d) (\<lambda>d. Inr (d, off + length new)))"

subsection \<open>The writer is safe and independent of the chunking\<close>

text \<open>What the writer lets through: the shown bytes of the text state.\<close>

fun safe_text :: "terminalWriterState \<Rightarrow> string \<Rightarrow> string" where
  "safe_text st [] = []"
| "safe_text st (b # p) = (if st = StText \<and> b \<noteq> CHR 0x1B \<and> shown b then [b] else []) @ safe_text (next_state st b) p"

definition end_state :: "terminalWriterState \<Rightarrow> string \<Rightarrow> terminalWriterState" where
  "end_state st p = foldl next_state st p"

lemma safe_text_append: "safe_text st (p @ q) = safe_text st p @ safe_text (end_state st p) q"
  by (induction p arbitrary: st) (auto simp: end_state_def)

lemma shown_not_control: "shown b \<Longrightarrow> b \<in> {CHR 0x0A, CHR 0x0D, CHR 0x09} \<or> \<not> is_control b"
  by (auto simp: shown_def split: if_splits)

lemma safe_text_shown: "b \<in> set (safe_text st p) \<Longrightarrow> shown b"
  by (induction p arbitrary: st) (auto split: if_splits)

text \<open>A destination that accepts every write is a writer that appends.\<close>

locale total_writer =
  fixes put :: "'d writer" and content :: "'d \<Rightarrow> string"
  assumes put_total: "\<exists>d'. put s d = Inr d' \<and> content d' = content d @ s"
begin

lemma flush_total: "\<exists>d'. flush put buf d = Inr d' \<and> content d' = content d @ buf"
  using put_total by (auto simp: flush_def)

lemma write_loop_text:
  "\<exists>d'. write_loop put p buf st d = (Inr d', end_state st p) \<and> content d' = content d @ buf @ safe_text st p"
proof (induction p arbitrary: buf st d)
  case Nil
  show ?case using flush_total[of buf d] by (auto simp: end_state_def)
next
  case (Cons b p)
  show ?case
  proof (cases "st = StText \<and> b = CHR 0x1B")
    case True
    obtain d1 where d1: "flush put buf d = Inr d1" "content d1 = content d @ buf" using flush_total by blast
    then show ?thesis using True Cons.IH[of "[]" StEscape d1] by (auto simp: end_state_def)
  next
    case False
    then show ?thesis
      using Cons.IH[of "if shown b then buf @ [b] else buf" "next_state st b" d] Cons.IH[of buf "next_state st b" d]
      by (auto simp: end_state_def)
  qed
qed

lemma write_text:
  "\<exists>d'. safe_write put p st d = (Inr d', end_state st p) \<and> content d' = content d @ safe_text st p"
  using write_loop_text[of p "[]"] by (simp add: safe_write_def)

end

definition append_writer :: "string writer" where
  "append_writer s d = Inr (d @ s)"

interpretation screen: total_writer append_writer "\<lambda>d. d"
  by unfold_locales (simp add: append_writer_def)

text \<open>The writer in front of a total one, used as a writer itself: its content is that of the
  destination and what comes through is a function of the bytes alone.\<close>

lemma safe_write_split:
  "safe_write append_writer (p @ q) st d =
    (case safe_write append_writer p st d of
      (Inl e, s) \<Rightarrow> (Inl e, s)
    | (Inr d', s) \<Rightarrow> safe_write append_writer q s d')"
  using screen.write_text[of "p @ q" st d] screen.write_text[of p st d]
  by (auto simp: safe_text_append end_state_def) (metis append_assoc prod.inject screen.write_text sum.inject(2) end_state_def)

fun write_chunks ::
  "'d writer \<Rightarrow> string list \<Rightarrow> terminalWriterState \<Rightarrow> 'd \<Rightarrow> 'd result \<times> terminalWriterState" where
  "write_chunks put [] st d = (Inr d, st)"
| "write_chunks put (p # ps) st d =
     (case safe_write put p st d of
       (Inl e, s) \<Rightarrow> (Inl e, s)
     | (Inr d', s) \<Rightarrow> write_chunks put ps s d')"

lemma write_chunks_text:
  "write_chunks append_writer ps st d = (Inr (d @ safe_text st (concat ps)), end_state st (concat ps))"
proof (induction ps arbitrary: st d)
  case (Cons p ps)
  obtain d' where "safe_write append_writer p st d = (Inr d', end_state st p)" "d' = d @ safe_text st p"
    using screen.write_text[of p st d] by blast
  with Cons show ?case by (simp add: safe_text_append) (simp add: end_state_def)
qed (simp add: end_state_def)

lemma safe_text_plain: "list_all (\<lambda>b. b \<noteq> CHR 0x1B \<and> shown b) p \<Longrightarrow> safe_text StText p = p"
  by (induction p) auto


subsection \<open>The tail of a log\<close>

lemma scanLogChunks_prefix:
  assumes "n \<le> length data" "scanLogChunks (take n data) False = Some k" "length data \<le> maxLogChunkBytes"
  shows "scanLogChunks data atEOF = Some k"
proof -
  let ?nl = "\<lambda>c. c \<noteq> CHR 0x0A"
  let ?t = "takeWhile ?nl"
  consider "length (?t (take n data)) < n" "k = length (?t (take n data)) + 1"
    | "\<not> length (?t (take n data)) < n" "n \<ge> maxLogChunkBytes" "k = maxLogChunkBytes"
    using assms(1,2) by (auto simp: scanLogChunks_def Let_def split: if_splits)
  then show ?thesis
  proof cases
    case 1
    then have "?t data = ?t (take n data)"
      by (metis append_take_drop_id assms(1) length_take min.absorb2 nth_length_takeWhile nth_mem takeWhile_append1 takeWhile_eq_all_conv less_irrefl)
    with 1 assms(1) show ?thesis by (auto simp: scanLogChunks_def Let_def)
  next
    case 2
    with assms(1,3) have "take n data = data" by simp
    moreover have "0 < maxLogChunkBytes" by (simp add: maxLogChunkBytes_def)
    ultimately show ?thesis using 2 assms by (auto simp: scanLogChunks_def Let_def split: if_splits)
  qed
qed

lemma take_of_takeWhile: "m \<le> length (takeWhile P xs) \<Longrightarrow> take m xs = take m (takeWhile P xs)"
  by (metis min.absorb1 takeWhile_eq_take take_take)

lemma scan_next:
  assumes "rest \<noteq> []"
  obtains n where "scanLogChunks (scan_window rest) (length rest \<le> maxLogChunkBytes) = Some n"
    "0 < n" "n \<le> length rest" "n \<le> maxLogChunkBytes" "CHR 0x0A \<notin> set (butlast (take n rest))"
proof -
  define w where "w = scan_window rest"
  define t where "t = takeWhile (\<lambda>c. c \<noteq> CHR 0x0A) w"
  define n where "n = (if length t < length w then length t + 1 else length w)"
  have pos: "0 < maxLogChunkBytes" by (simp add: maxLogChunkBytes_def)
  have w: "w \<noteq> []" "length w \<le> length rest" "length w \<le> maxLogChunkBytes"
      "length rest \<le> maxLogChunkBytes \<or> length w = maxLogChunkBytes"
    using assms pos by (auto simp: w_def scan_window_def)
  have le: "0 < n" "n \<le> length w" "n - 1 \<le> length t" using w(1) by (auto simp: n_def)
  have some: "scanLogChunks w (length rest \<le> maxLogChunkBytes) = Some n"
    using w by (auto simp: scanLogChunks_def Let_def n_def t_def[symmetric])
  have "take n rest = take n w" using le(2) w(3) by (simp add: w_def scan_window_def)
  then have "butlast (take n rest) = take (n - 1) w" using le by (simp add: butlast_take)
  also have "\<dots> = take (n - 1) t" using le(3) unfolding t_def by (rule take_of_takeWhile)
  finally have "set (butlast (take n rest)) \<subseteq> set t" by (simp add: set_take_subset)
  then have "CHR 0x0A \<notin> set (butlast (take n rest))" unfolding t_def by (auto dest: set_takeWhileD)
  then show ?thesis using that[of n] some le w unfolding w_def by linarith
qed

lemma concat_scan_file: "concat (scan_file rest) = rest"
proof (induction rest rule: scan_file.induct)
  case (1 rest)
  show ?case
  proof (cases "rest = []")
    case False
    then obtain n where n: "scanLogChunks (scan_window rest) (length rest \<le> maxLogChunkBytes) = Some n" "0 < n"
      using scan_next by blast
    with 1[OF n(1)] False show ?thesis by (subst scan_file.simps) simp
  qed (simp add: scan_file.simps scanLogChunks_def scan_window_def)
qed

lemma scan_file_chunks:
  "c \<in> set (scan_file rest) \<Longrightarrow> c \<noteq> [] \<and> length c \<le> maxLogChunkBytes \<and> CHR 0x0A \<notin> set (butlast c)"
proof (induction rest rule: scan_file.induct)
  case (1 rest)
  show ?case
  proof (cases "rest = []")
    case False
    then obtain n where n: "scanLogChunks (scan_window rest) (length rest \<le> maxLogChunkBytes) = Some n" "0 < n"
        "n \<le> length rest" "n \<le> maxLogChunkBytes" "CHR 0x0A \<notin> set (butlast (take n rest))"
      using scan_next by blast
    then have "scan_file rest = take n rest # scan_file (drop n rest)" using False by (subst scan_file.simps) simp
    with 1 n False show ?thesis by auto
  qed (use 1 in \<open>simp add: scan_file.simps scanLogChunks_def scan_window_def\<close>)
qed

lemma keep_last_exact:
  assumes "0 < limit" "length lines \<le> limit"
  shows "keep_last limit cs lines offset =
    (drop (length lines + length cs - limit) (lines @ cs), offset + length (concat cs))"
  using assms
proof (induction cs arbitrary: lines offset)
  case (Cons c cs)
  show ?case
  proof (cases "length lines = limit")
    case True
    with Cons.prems obtain l ls where lines: "lines = l # ls" by (cases lines) auto
    with True Cons.IH[of "ls @ [c]"] Cons.prems show ?thesis by simp
  next
    case False
    have "drop (Suc (length lines) + length cs - limit) (lines @ c # cs) =
        drop (length lines + length (c # cs) - limit) (lines @ c # cs)" by simp
    with False Cons.IH[of "lines @ [c]"] Cons.prems show ?thesis by (simp del: drop_append)
  qed
qed simp


end
