(* ===== verification/Gate.thy ===== *)
theory Gate
  imports Transitions
begin

section \<open>The command gate and the instance locks\<close>

text \<open>
  The two places where sessions wait for each other. The command gate of
  src/internal/service/snapshot.go lets any number of commands run, or one snapshot alone. The
  locks of src/internal/service/service.go (\<open>acquireInstance\<close>) serialise the commands on one
  instance; their entries are created on demand and removed when the last user leaves. Each
  critical section of the code is one function, and the interleavings of the sessions are a step
  relation over them.
\<close>

subsection \<open>Operations on the gate\<close>

record commandGate =
  inFlight :: int
  snapshotOn :: bool

record commandGateLease =
  snapshot :: bool
  released :: bool

definition errSnapshotInProgress :: error where
  "errSnapshotInProgress = ErrMsg ''snapshot in progress; try again once the current snapshot completes''"

definition beginCommand :: "commandGate \<Rightarrow> (commandGate \<times> commandGateLease) result" where
  "beginCommand g =
     (if snapshotOn g then Inl errSnapshotInProgress
      else Inr (g\<lparr>inFlight := inFlight g + 1\<rparr>, \<lparr>snapshot = False, released = False\<rparr>))"

text \<open>\<open>PromoteToSnapshot\<close> up to its waiting loop, and one turn of the loop. The condition variable is
  a wake-up without content: a turn may be taken at any time.\<close>

datatype promote_entry = PromoteFailed error | PromoteAlready | PromoteWait commandGate

definition promote_enter :: "commandGateLease \<Rightarrow> commandGate \<Rightarrow> promote_entry" where
  "promote_enter l g =
     (if released l then PromoteFailed (ErrMsg ''command gate lease already released'')
      else if snapshot l then PromoteAlready
      else if snapshotOn g then PromoteFailed errSnapshotInProgress
      else PromoteWait (g\<lparr>snapshotOn := True, inFlight := inFlight g - 1\<rparr>))"

datatype promote_turn = TurnGranted commandGateLease | TurnCancelled commandGate | TurnWait

definition promote_turn :: "bool \<Rightarrow> commandGateLease \<Rightarrow> commandGate \<Rightarrow> promote_turn" where
  "promote_turn cancelled l g =
     (if inFlight g > 0 then
        (if cancelled then TurnCancelled (g\<lparr>snapshotOn := False, inFlight := inFlight g + 1\<rparr>) else TurnWait)
      else TurnGranted (l\<lparr>snapshot := True\<rparr>))"

definition Release :: "commandGateLease \<Rightarrow> commandGate \<Rightarrow> commandGateLease \<times> commandGate" where
  "Release l g =
     (if released l then (l, g)
      else (l\<lparr>released := True\<rparr>,
        if snapshot l then g\<lparr>snapshotOn := False\<rparr> else g\<lparr>inFlight := inFlight g - 1\<rparr>))"

subsection \<open>Sessions at the gate\<close>

text \<open>A session runs its command, or waits in the promotion.\<close>

datatype session_pc = Running | Promoting

record gate_state =
  gsGate :: commandGate
  gsSessions :: "nat \<rightharpoonup> session_pc \<times> commandGateLease"

definition gate_start :: "gate_state \<Rightarrow> bool" where
  "gate_start s = (gsGate s = \<lparr>inFlight = 0, snapshotOn = False\<rparr> \<and> gsSessions s = Map.empty)"

datatype gate_event = EvBegin nat | EvPromote nat | EvTurn nat bool | EvRelease nat

definition set_session :: "nat \<Rightarrow> session_pc \<times> commandGateLease \<Rightarrow> commandGate \<Rightarrow> gate_state \<Rightarrow> gate_state" where
  "set_session i x g s = s\<lparr>gsGate := g, gsSessions := (gsSessions s)(i \<mapsto> x)\<rparr>"

inductive gate_step :: "gate_state \<Rightarrow> gate_event \<Rightarrow> gate_state \<Rightarrow> bool" where
  gs_begin: "gsSessions s i = None \<Longrightarrow> beginCommand (gsGate s) = Inr (g, l) \<Longrightarrow>
    gate_step s (EvBegin i) (set_session i (Running, l) g s)"
| gs_begin_rejected: "gsSessions s i = None \<Longrightarrow> beginCommand (gsGate s) = Inl e \<Longrightarrow>
    gate_step s (EvBegin i) s"
| gs_promote: "gsSessions s i = Some (Running, l) \<Longrightarrow> promote_enter l (gsGate s) = PromoteWait g \<Longrightarrow>
    gate_step s (EvPromote i) (set_session i (Promoting, l) g s)"
| gs_promote_other: "gsSessions s i = Some (Running, l) \<Longrightarrow>
    promote_enter l (gsGate s) = PromoteAlready \<or> promote_enter l (gsGate s) = PromoteFailed e \<Longrightarrow>
    gate_step s (EvPromote i) s"
| gs_granted: "gsSessions s i = Some (Promoting, l) \<Longrightarrow> promote_turn c l (gsGate s) = TurnGranted l' \<Longrightarrow>
    gate_step s (EvTurn i c) (set_session i (Running, l') (gsGate s) s)"
| gs_cancelled: "gsSessions s i = Some (Promoting, l) \<Longrightarrow> promote_turn c l (gsGate s) = TurnCancelled g \<Longrightarrow>
    gate_step s (EvTurn i c) (set_session i (Running, l) g s)"
| gs_wait: "gsSessions s i = Some (Promoting, l) \<Longrightarrow> promote_turn c l (gsGate s) = TurnWait \<Longrightarrow>
    gate_step s (EvTurn i c) s"
| gs_release: "gsSessions s i = Some (Running, l) \<Longrightarrow> Release l (gsGate s) = (l', g) \<Longrightarrow>
    gate_step s (EvRelease i) (set_session i (Running, l') g s)"

inductive_cases gate_stepE: "gate_step s e t"

text \<open>A session's standing: its command is active, it holds or claims the gate for a snapshot.\<close>

definition active :: "gate_state \<Rightarrow> nat set" where
  "active s = {i. \<exists>l. gsSessions s i = Some (Running, l) \<and> \<not> released l \<and> \<not> snapshot l}"

definition owners :: "gate_state \<Rightarrow> nat set" where
  "owners s = {i. \<exists>l. gsSessions s i = Some (Running, l) \<and> snapshot l \<and> \<not> released l}"

definition claims :: "gate_state \<Rightarrow> nat set" where
  "claims s = {i. \<exists>l. gsSessions s i = Some (Promoting, l)}"

definition gate_inv :: "gate_state \<Rightarrow> bool" where
  "gate_inv s \<longleftrightarrow> finite (active s) \<and> inFlight (gsGate s) = int (card (active s)) \<and>
     (\<exists>i. owners s \<union> claims s \<subseteq> {i}) \<and> (snapshotOn (gsGate s) \<longleftrightarrow> owners s \<union> claims s \<noteq> {}) \<and>
     owners s \<inter> claims s = {} \<and> (owners s \<noteq> {} \<longrightarrow> active s = {}) \<and>
     (\<forall>i l. gsSessions s i = Some (Promoting, l) \<longrightarrow> \<not> snapshot l \<and> \<not> released l)"

lemmas gate_sets = active_def owners_def claims_def
lemmas gate_ops = beginCommand_def promote_enter_def promote_turn_def Release_def set_session_def

lemma set_session_sets:
  "active (set_session i (pc, l) g s) =
    (if pc = Running \<and> \<not> released l \<and> \<not> snapshot l then insert i (active s) else active s - {i})"
  "owners (set_session i (pc, l) g s) =
    (if pc = Running \<and> snapshot l \<and> \<not> released l then insert i (owners s) else owners s - {i})"
  "claims (set_session i (pc, l) g s) = (if pc = Promoting then insert i (claims s) else claims s - {i})"
  by (auto simp: gate_sets set_session_def split: if_splits)

lemma set_session_simps [simp]:
  "gsGate (set_session i x g s) = g"
  "gsSessions (set_session i x g s) j = (if j = i then Some x else gsSessions s j)"
  by (simp_all add: set_session_def)

lemma member_sets:
  "gsSessions s i = None \<Longrightarrow> i \<notin> active s \<and> i \<notin> owners s \<and> i \<notin> claims s"
  "gsSessions s i = Some (Running, l) \<Longrightarrow>
    (i \<in> active s \<longleftrightarrow> \<not> released l \<and> \<not> snapshot l) \<and> (i \<in> owners s \<longleftrightarrow> snapshot l \<and> \<not> released l) \<and> i \<notin> claims s"
  "gsSessions s i = Some (Promoting, l) \<Longrightarrow> i \<notin> active s \<and> i \<notin> owners s \<and> i \<in> claims s"
  by (auto simp: gate_sets)

lemma card_leave [simp]: "finite A \<Longrightarrow> i \<in> A \<Longrightarrow> int (card A - Suc 0) = int (card A) - 1"
  using card_gt_0_iff[of A] by auto

lemma set_session_same: "gsSessions s i = Some x \<Longrightarrow> set_session i x (gsGate s) s = s"
  by (auto simp: set_session_def fun_upd_idem)

lemma gate_step_inv: "gate_step s e t \<Longrightarrow> gate_inv s \<Longrightarrow> gate_inv t"
proof (induction rule: gate_step.induct)
  case (gs_begin s i g l)
  note m = member_sets(1)[OF gs_begin(1)]
  from gs_begin(2) have "\<not> snapshotOn (gsGate s)" "g = (gsGate s)\<lparr>inFlight := inFlight (gsGate s) + 1\<rparr>"
    "\<not> snapshot l" "\<not> released l" by (auto simp: beginCommand_def split: if_splits)
  with gs_begin(3) m show ?case unfolding gate_inv_def set_session_sets by auto
next
  case (gs_promote s i l g)
  note m = member_sets(2)[OF gs_promote(1)]
  from gs_promote(2) have "\<not> snapshotOn (gsGate s)" "\<not> released l" "\<not> snapshot l"
    "g = (gsGate s)\<lparr>snapshotOn := True, inFlight := inFlight (gsGate s) - 1\<rparr>"
    by (auto simp: promote_enter_def split: if_splits)
  with gs_promote(3) m show ?case unfolding gate_inv_def set_session_sets
    by auto
next
  case (gs_granted s i l c l')
  note m = member_sets(3)[OF gs_granted(1)]
  from gs_granted(2) have "l' = l\<lparr>snapshot := True\<rparr>" "inFlight (gsGate s) \<le> 0"
    by (auto simp: promote_turn_def split: if_splits)
  moreover from gs_granted(3) m have "claims s = {i}" "owners s = {}" unfolding gate_inv_def by auto
  ultimately show ?case using gs_granted(1,3) m unfolding gate_inv_def set_session_sets by auto
next
  case (gs_cancelled s i l c g)
  note m = member_sets(3)[OF gs_cancelled(1)]
  from gs_cancelled(2) have "g = (gsGate s)\<lparr>snapshotOn := False, inFlight := inFlight (gsGate s) + 1\<rparr>"
    by (auto simp: promote_turn_def split: if_splits)
  moreover from gs_cancelled(3) m have "claims s = {i}" "owners s = {}" unfolding gate_inv_def by auto
  ultimately show ?case using gs_cancelled(1,3) m unfolding gate_inv_def set_session_sets by auto
next
  case (gs_release s i l l' g)
  note m = member_sets(2)[OF gs_release(1)]
  consider "released l" "l' = l" "g = gsGate s" | "\<not> released l" "snapshot l" "released l'" "g = (gsGate s)\<lparr>snapshotOn := False\<rparr>"
    | "\<not> released l" "\<not> snapshot l" "released l'" "g = (gsGate s)\<lparr>inFlight := inFlight (gsGate s) - 1\<rparr>"
    using gs_release(2) by (auto simp: Release_def split: if_splits)
  then show ?case
  proof cases
    case 1
    with gs_release set_session_same[of s i "(Running, l)"] show ?thesis by simp
  next
    case 2
    with gs_release(3) m have "owners s = {i}" "claims s = {}" "active s = {}" unfolding gate_inv_def by auto
    with gs_release(3) 2 show ?thesis unfolding gate_inv_def set_session_sets by simp
  next
    case 3
    with m have "i \<in> active s" "i \<notin> owners s" "i \<notin> claims s" by auto
    moreover from this gs_release(3) have "owners s = {}" "owners s - {i} = owners s" "claims s - {i} = claims s"
      unfolding gate_inv_def by auto
    ultimately show ?thesis using gs_release(3) 3 unfolding gate_inv_def set_session_sets by simp
  qed
qed auto

lemma gate_start_inv: "gate_start s \<Longrightarrow> gate_inv s"
proof -
  assume s: "gate_start s"
  then have "active s = {}" "owners s = {}" "claims s = {}" by (simp_all add: gate_start_def gate_sets)
  with s show ?thesis by (simp add: gate_inv_def gate_start_def)
qed

interpretation gate: invariant_system gate_step gate_start gate_inv
  by unfold_locales (rule gate_start_inv, assumption, rule gate_step_inv)

text \<open>C28: a snapshot is alone. While a session holds the gate for a snapshot, every other session has
  released its lease, no other session is waiting for the gate, and a new command is rejected.\<close>

theorem snapshot_excludes_commands:
  assumes "gate_start s" "run gate_step s es t" "gsSessions t i = Some (Running, l)" "snapshot l" "\<not> released l"
  shows "(\<forall>j pc l'. gsSessions t j = Some (pc, l') \<and> j \<noteq> i \<longrightarrow> pc = Running \<and> released l') \<and>
    inFlight (gsGate t) = 0 \<and> beginCommand (gsGate t) = Inl errSnapshotInProgress"
proof -
  have inv: "gate_inv t" using assms(1,2) by (rule gate.reachable_inv)
  have own: "i \<in> owners t" using assms(3-5) by (auto simp: owners_def)
  with inv have o: "owners t = {i}" "claims t = {}" "active t = {}" "snapshotOn (gsGate t)" unfolding gate_inv_def by auto
  have "pc = Running \<and> released l'" if "gsSessions t j = Some (pc, l')" "j \<noteq> i" for j pc l'
  proof (cases pc)
    case Running
    with that member_sets(2)[of t j l'] o show ?thesis by auto
  next
    case Promoting
    with that member_sets(3)[of t j l'] o show ?thesis by auto
  qed
  moreover have "inFlight (gsGate t) = 0" using inv o by (simp add: gate_inv_def)
  moreover have "beginCommand (gsGate t) = Inl errSnapshotInProgress" using o by (simp add: beginCommand_def)
  ultimately show ?thesis by blast
qed

definition gate_ex :: gate_state where
  "gate_ex = \<lparr>gsGate = \<lparr>inFlight = 0, snapshotOn = False\<rparr>, gsSessions = Map.empty\<rparr>"

definition gate_ex_wait :: gate_state where
  "gate_ex_wait = \<lparr>gsGate = \<lparr>inFlight = 1, snapshotOn = True\<rparr>,
     gsSessions = [0 \<mapsto> (Promoting, \<lparr>snapshot = False, released = False\<rparr>), 1 \<mapsto> (Running, \<lparr>snapshot = False, released = False\<rparr>)]\<rparr>"

definition gate_ex_alone :: gate_state where
  "gate_ex_alone = \<lparr>gsGate = \<lparr>inFlight = 0, snapshotOn = True\<rparr>,
     gsSessions = [0 \<mapsto> (Running, \<lparr>snapshot = True, released = False\<rparr>), 1 \<mapsto> (Running, \<lparr>snapshot = False, released = True\<rparr>)]\<rparr>"

lemma gate_ex_wait_run: "run gate_step gate_ex [EvBegin 0, EvBegin 1, EvPromote 0] gate_ex_wait"
proof -
  let ?l = "\<lparr>snapshot = False, released = False\<rparr>"
  let ?s1 = "set_session 0 (Running, ?l) \<lparr>inFlight = 1, snapshotOn = False\<rparr> gate_ex"
  let ?s2 = "set_session 1 (Running, ?l) \<lparr>inFlight = 2, snapshotOn = False\<rparr> ?s1"
  have "gate_step gate_ex (EvBegin 0) ?s1" "gate_step ?s1 (EvBegin 1) ?s2"
    by (rule gs_begin; simp add: gate_ex_def beginCommand_def)+
  moreover have "gate_step ?s2 (EvPromote 0) gate_ex_wait"
    using gs_promote[of ?s2 0 ?l "\<lparr>inFlight = 1, snapshotOn = True\<rparr>"]
    by (simp add: promote_enter_def) (simp add: gate_ex_wait_def gate_ex_def set_session_def fun_upd_twist)
  ultimately show ?thesis by (blast intro: run.intros)
qed

lemma gate_ex_alone_run: "run gate_step gate_ex_wait [EvRelease 1, EvTurn 0 False] gate_ex_alone"
proof -
  let ?l = "\<lparr>snapshot = False, released = False\<rparr>"
  let ?s1 = "set_session 1 (Running, ?l\<lparr>released := True\<rparr>) \<lparr>inFlight = 0, snapshotOn = True\<rparr> gate_ex_wait"
  have "gate_step gate_ex_wait (EvRelease 1) ?s1"
    by (rule gs_release[of _ _ ?l]) (simp_all add: gate_ex_wait_def Release_def)
  moreover have "gate_step ?s1 (EvTurn 0 False) gate_ex_alone"
    using gs_granted[of ?s1 0 ?l False "?l\<lparr>snapshot := True\<rparr>"]
    by (simp add: promote_turn_def gate_ex_wait_def) (simp add: gate_ex_alone_def set_session_def fun_upd_twist)
  ultimately show ?thesis by (blast intro: run.intros)
qed

theorem snapshot_excludes_commands_witness:
  "gsSessions gate_ex_alone 0 = Some (Running, \<lparr>snapshot = True, released = False\<rparr>) \<and>
   beginCommand (gsGate gate_ex_alone) = Inl errSnapshotInProgress"
proof -
  have l: "gsSessions gate_ex_alone 0 = Some (Running, \<lparr>snapshot = True, released = False\<rparr>)"
    by (simp add: gate_ex_alone_def)
  show ?thesis
    using snapshot_excludes_commands[OF _ run_append[OF gate_ex_wait_run gate_ex_alone_run] l] l
    by (simp add: gate_start_def gate_ex_def)
qed

subsection \<open>Progress of a waiting snapshot\<close>

lemma claimed_step:
  assumes "gate_step s e t" "gate_inv s" "i \<in> owners s \<union> claims s" "e \<noteq> EvTurn i True" "e \<noteq> EvRelease i"
  shows "i \<in> owners t \<union> claims t \<and> active t \<subseteq> active s"
proof -
  have on: "snapshotOn (gsGate s)" "owners s \<union> claims s = {i}" using assms(2,3) unfolding gate_inv_def by auto
  from assms(1) show ?thesis
  proof (cases rule: gate_step.cases)
    case (gs_granted j l c l')
    note m = member_sets(3)[OF gs_granted(3)]
    with on have "j = i" by auto
    moreover have "snapshot l'" "\<not> released l'" "active s = {}"
      using gs_granted(3,4) assms(2) unfolding gate_inv_def promote_turn_def by (auto split: if_splits)
    ultimately show ?thesis using gs_granted(2) by (simp add: set_session_sets)
  next
    case (gs_cancelled j l c g)
    with on member_sets(3)[OF gs_cancelled(3)] have "j = i" by auto
    moreover have "c" using gs_cancelled(4) by (auto simp: promote_turn_def split: if_splits)
    ultimately show ?thesis using gs_cancelled(1) assms(4) by auto
  next
    case (gs_release j l l' g)
    then have "j \<noteq> i" using assms(5) by auto
    moreover have "active t \<subseteq> active s" using gs_release member_sets(2)[OF gs_release(3)]
      by (auto simp: set_session_sets Release_def split: if_splits)
    ultimately show ?thesis using gs_release(2) assms(3) by (auto simp: set_session_sets)
  qed (use on assms(3) in \<open>auto simp: beginCommand_def promote_enter_def split: if_splits\<close>)
qed

lemma claimed_run:
  "run gate_step s es t \<Longrightarrow> gate_inv s \<Longrightarrow> i \<in> owners s \<union> claims s \<Longrightarrow>
    EvTurn i True \<notin> set es \<Longrightarrow> EvRelease i \<notin> set es \<Longrightarrow> i \<in> owners t \<union> claims t \<and> active t \<subseteq> active s"
proof (induction rule: run.induct)
  case (run_cons s e s' es s'')
  have "i \<in> owners s' \<union> claims s' \<and> active s' \<subseteq> active s"
    using run_cons.hyps(1) run_cons.prems by (intro claimed_step[of s e s']) auto
  moreover have "gate_inv s'" using run_cons.hyps(1) run_cons.prems(1) by (rule gate_step_inv)
  ultimately show ?case using run_cons.IH run_cons.prems by auto
qed simp

lemma release_all:
  assumes "gate_inv s" "gsSessions s i = Some (Promoting, l)"
  shows "\<exists>fs t. run gate_step s fs t \<and> set fs = EvRelease ` active s \<and> length fs = card (active s) \<and>
    active t = {} \<and> gsSessions t i = Some (Promoting, l) \<and> gate_inv t"
  using assms
proof (induction "card (active s)" arbitrary: s)
  case 0
  then have "active s = {}" by (simp add: gate_inv_def)
  with 0 show ?case by (intro exI[of _ "[]"] exI[of _ s]) simp
next
  case (Suc n)
  have fin: "finite (active s)" using Suc.prems by (simp add: gate_inv_def)
  from Suc.hyps(2) obtain j where j: "j \<in> active s" by fastforce
  then obtain lj where lj: "gsSessions s j = Some (Running, lj)" "\<not> released lj" "\<not> snapshot lj"
    by (auto simp: active_def)
  obtain lj' g where r: "Release lj (gsGate s) = (lj', g)" by fastforce
  let ?s' = "set_session j (Running, lj') g s"
  have step: "gate_step s (EvRelease j) ?s'" using lj(1) r by (rule gs_release)
  have act: "active ?s' = active s - {j}" using r lj by (auto simp: set_session_sets Release_def)
  have ne: "j \<noteq> i" using lj Suc.prems(2) by auto
  have "n = card (active ?s')" using act j fin Suc.hyps(2) by simp
  from Suc.hyps(1)[OF this gate_step_inv[OF step Suc.prems(1)]] Suc.prems(2) ne obtain fs t where
    *: "run gate_step ?s' fs t" "set fs = EvRelease ` active ?s'" "length fs = card (active ?s')"
      "active t = {}" "gsSessions t i = Some (Promoting, l)" "gate_inv t" by auto
  have "run gate_step s (EvRelease j # fs) t" using step *(1) by (rule run_cons)
  moreover have "set (EvRelease j # fs) = EvRelease ` active s" using * act j by auto
  moreover have "length (EvRelease j # fs) = card (active s)" using * act j fin Suc.hyps(2) by simp
  ultimately show ?case using *(4-6) by (intro exI[of _ "EvRelease j # fs"] exI[of _ t] conjI)
qed



subsection \<open>Instance locks\<close>

text \<open>An entry of \<open>locks\<close> is a heap object with an identity; \<open>esRefs\<close> and \<open>esHolder\<close> are its
  reference count and the thread that holds its mutex. Entries are never reused.\<close>

record lock_entries =
  esLocks :: "string \<rightharpoonup> nat"
  esRefs :: "nat \<Rightarrow> int"
  esHolder :: "nat \<Rightarrow> nat option"
  esNext :: nat

text \<open>The three critical sections of \<open>acquireInstance\<close> and of the function it returns: the entry is
  found or created and counted, its mutex is taken, and on release the mutex is given back before
  the entry is counted down and removed.\<close>

definition acquire_enter :: "string \<Rightarrow> bool \<Rightarrow> lock_entries \<Rightarrow> (nat \<times> lock_entries) option" where
  "acquire_enter name wait es =
     (case esLocks es name of
       Some e \<Rightarrow> if \<not> wait then None else Some (e, es\<lparr>esRefs := (esRefs es)(e := esRefs es e + 1)\<rparr>)
     | None \<Rightarrow>
       let e = esNext es in
       Some (e, es\<lparr>esLocks := (esLocks es)(name \<mapsto> e), esRefs := (esRefs es)(e := 1),
         esHolder := (esHolder es)(e := None), esNext := e + 1\<rparr>))"

definition entry_lock :: "nat \<Rightarrow> nat \<Rightarrow> lock_entries \<Rightarrow> lock_entries option" where
  "entry_lock t e es = (if esHolder es e = None then Some (es\<lparr>esHolder := (esHolder es)(e := Some t)\<rparr>) else None)"

definition entry_unlock :: "nat \<Rightarrow> lock_entries \<Rightarrow> lock_entries" where
  "entry_unlock e es = es\<lparr>esHolder := (esHolder es)(e := None)\<rparr>"

definition acquire_leave :: "string \<Rightarrow> nat \<Rightarrow> lock_entries \<Rightarrow> lock_entries" where
  "acquire_leave name e es =
     (let refs = esRefs es e - 1 in
      es\<lparr>esRefs := (esRefs es)(e := refs),
         esLocks := (if refs = 0 then (esLocks es)(name := None) else esLocks es)\<rparr>)"

datatype lock_pc = Idle | Waiting string nat | Holding string nat | Leaving string nat

record lock_state =
  lkEntries :: lock_entries
  lkThreads :: "nat \<Rightarrow> lock_pc"

definition lock_start :: "lock_state \<Rightarrow> bool" where
  "lock_start s = (esLocks (lkEntries s) = Map.empty \<and> lkThreads s = (\<lambda>_. Idle))"

datatype lock_event = LkAcquire nat string bool | LkLock nat | LkUnlock nat | LkLeave nat

abbreviation set_thread :: "nat \<Rightarrow> lock_pc \<Rightarrow> lock_entries \<Rightarrow> lock_state \<Rightarrow> lock_state" where
  "set_thread t pc es s \<equiv> s\<lparr>lkEntries := es, lkThreads := (lkThreads s)(t := pc)\<rparr>"

inductive lock_step :: "lock_state \<Rightarrow> lock_event \<Rightarrow> lock_state \<Rightarrow> bool" where
  lk_enter: "lkThreads s t = Idle \<Longrightarrow> acquire_enter name wait (lkEntries s) = Some (e, es) \<Longrightarrow>
    lock_step s (LkAcquire t name wait) (set_thread t (Waiting name e) es s)"
| lk_busy: "lkThreads s t = Idle \<Longrightarrow> acquire_enter name wait (lkEntries s) = None \<Longrightarrow>
    lock_step s (LkAcquire t name wait) s"
| lk_lock: "lkThreads s t = Waiting name e \<Longrightarrow> entry_lock t e (lkEntries s) = Some es \<Longrightarrow>
    lock_step s (LkLock t) (set_thread t (Holding name e) es s)"
| lk_unlock: "lkThreads s t = Holding name e \<Longrightarrow>
    lock_step s (LkUnlock t) (set_thread t (Leaving name e) (entry_unlock e (lkEntries s)) s)"
| lk_leave: "lkThreads s t = Leaving name e \<Longrightarrow>
    lock_step s (LkLeave t) (set_thread t Idle (acquire_leave name e (lkEntries s)) s)"

fun uses :: "lock_pc \<Rightarrow> (string \<times> nat) option" where
  "uses Idle = None"
| "uses (Waiting n e) = Some (n, e)"
| "uses (Holding n e) = Some (n, e)"
| "uses (Leaving n e) = Some (n, e)"

definition users :: "lock_state \<Rightarrow> string \<Rightarrow> nat \<Rightarrow> nat set" where
  "users s n e = {t. uses (lkThreads s t) = Some (n, e)}"

text \<open>Every thread that uses an entry uses the registered one of its name, the counts are the numbers
  of users, and a mutex is held exactly by the thread that holds the lock.\<close>

definition lock_inv :: "lock_state \<Rightarrow> bool" where
  "lock_inv s \<longleftrightarrow>
     (\<forall>t n e. uses (lkThreads s t) = Some (n, e) \<longrightarrow> esLocks (lkEntries s) n = Some e) \<and>
     (\<forall>n e. esLocks (lkEntries s) n = Some e \<longrightarrow> e < esNext (lkEntries s) \<and> finite (users s n e) \<and>
        users s n e \<noteq> {} \<and> esRefs (lkEntries s) e = int (card (users s n e)) \<and>
        (\<forall>n'. esLocks (lkEntries s) n' = Some e \<longrightarrow> n' = n) \<and>
        (\<forall>t. esHolder (lkEntries s) e = Some t \<longleftrightarrow> lkThreads s t = Holding n e))"

lemma users_set_thread:
  "users (set_thread t pc es s) n e = (if uses pc = Some (n, e) then insert t (users s n e) else users s n e - {t})"
  by (auto simp: users_def)

lemma users_same: "uses pc = uses (lkThreads s t) \<Longrightarrow> users (set_thread t pc es s) = users s"
  by (auto simp: users_def fun_eq_iff)

lemma lock_invD:
  assumes "lock_inv s"
  shows "uses (lkThreads s t) = Some (n, e) \<Longrightarrow> esLocks (lkEntries s) n = Some e"
    and "esLocks (lkEntries s) n = Some e \<Longrightarrow> e < esNext (lkEntries s) \<and> finite (users s n e) \<and>
      users s n e \<noteq> {} \<and> esRefs (lkEntries s) e = int (card (users s n e))"
    and "esLocks (lkEntries s) n = Some e \<Longrightarrow> esLocks (lkEntries s) n' = Some e \<Longrightarrow> n' = n"
    and "esLocks (lkEntries s) n = Some e \<Longrightarrow> esHolder (lkEntries s) e = Some t' \<longleftrightarrow> lkThreads s t' = Holding n e"
  using assms unfolding lock_inv_def by blast+

lemma lock_invI:
  assumes "\<And>t n e. uses (lkThreads s t) = Some (n, e) \<Longrightarrow> esLocks (lkEntries s) n = Some e"
    "\<And>n e. esLocks (lkEntries s) n = Some e \<Longrightarrow> e < esNext (lkEntries s) \<and> finite (users s n e) \<and>
      users s n e \<noteq> {} \<and> esRefs (lkEntries s) e = int (card (users s n e))"
    "\<And>n n' e. esLocks (lkEntries s) n = Some e \<Longrightarrow> esLocks (lkEntries s) n' = Some e \<Longrightarrow> n' = n"
    "\<And>n e t. esLocks (lkEntries s) n = Some e \<Longrightarrow> esHolder (lkEntries s) e = Some t \<longleftrightarrow> lkThreads s t = Holding n e"
  shows "lock_inv s"
  using assms unfolding lock_inv_def by blast

lemma holder_change:
  assumes "lock_inv s" "uses (lkThreads s t) = Some (name, e)" "uses pc = Some (name, e)"
    "\<And>t'. h = Some t' \<longleftrightarrow> (if t' = t then pc = Holding name e else lkThreads s t' = Holding name e)"
  shows "lock_inv (set_thread t pc ((lkEntries s)\<lparr>esHolder := (esHolder (lkEntries s))(e := h)\<rparr>) s)" (is "lock_inv ?s'")
proof -
  note inv = lock_invD[OF assms(1)]
  have name: "esLocks (lkEntries s) name = Some e" using inv(1)[OF assms(2)] .
  have u: "users ?s' = users s" using assms(2,3) by (intro users_same) simp
  show ?thesis
  proof (rule lock_invI)
    fix n' e' t' assume l: "esLocks (lkEntries ?s') n' = Some e'"
    show "esHolder (lkEntries ?s') e' = Some t' \<longleftrightarrow> lkThreads ?s' t' = Holding n' e'"
    proof (cases "e' = e")
      case True
      with l inv(3)[OF name] have "n' = name" by simp
      with True assms(4)[of t'] show ?thesis by simp
    next
      case False
      have "pc \<noteq> Holding n' e'" "lkThreads s t \<noteq> Holding n' e'" using False assms(2,3) by auto
      with False l inv(4)[of n' e' t'] show ?thesis by auto
    qed
  qed (use inv u assms(2,3) in \<open>auto split: if_splits\<close>)
qed

lemma enter_inv:
  assumes "lock_inv s" "lkThreads s t = Idle" "acquire_enter name wait (lkEntries s) = Some (e, es)"
  shows "lock_inv (set_thread t (Waiting name e) es s)" (is "lock_inv ?s'")
proof -
  note inv = lock_invD[OF assms(1)]
  have idle: "t \<notin> users s n' e'" for n' e' using assms(2) by (simp add: users_def)
  have pc: "lkThreads ?s' t' = Holding n' e' \<longleftrightarrow> lkThreads s t' = Holding n' e'" for t' n' e' using assms(2) by auto
  show ?thesis
  proof (cases "esLocks (lkEntries s) name")
    case (Some e0)
    with assms(3) have e: "e0 = e" "es = (lkEntries s)\<lparr>esRefs := (esRefs (lkEntries s))(e := esRefs (lkEntries s) e + 1)\<rparr>"
      by (auto simp: acquire_enter_def split: if_splits)
    note name = Some[unfolded e(1)]
    show ?thesis
    proof (rule lock_invI)
      fix n' e' assume l: "esLocks (lkEntries ?s') n' = Some e'"
      then have l': "esLocks (lkEntries s) n' = Some e'" using e(2) by simp
      show "e' < esNext (lkEntries ?s') \<and> finite (users ?s' n' e') \<and> users ?s' n' e' \<noteq> {} \<and>
          esRefs (lkEntries ?s') e' = int (card (users ?s' n' e'))"
      proof (cases "e' = e")
        case True
        then have "n' = name" using inv(3)[OF name] l' by simp
        with True inv(2)[OF name] idle e(2) show ?thesis unfolding users_set_thread by simp
      next
        case False
        with inv(2)[OF l'] idle[of n' e'] e(2) show ?thesis unfolding users_set_thread by simp
      qed
    qed (use inv e name pc in \<open>auto split: if_splits\<close>)
  next
    case None
    let ?es = "lkEntries s"
    from None assms(3) have e: "e = esNext ?es" "es = ?es\<lparr>esLocks := (esLocks ?es)(name \<mapsto> e), esRefs := (esRefs ?es)(e := 1),
        esHolder := (esHolder ?es)(e := None), esNext := e + 1\<rparr>"
      by (auto simp: acquire_enter_def Let_def)
    have fresh: "esLocks ?es n' \<noteq> Some e" for n' using inv(2)[of n' e] e(1) by auto
    have none: "users s n' e' = {}" if "n' = name \<or> e' = e" for n' e'
      using that inv(1) None fresh[of n'] unfolding users_def by fastforce
    show ?thesis
    proof (rule lock_invI)
      fix n' e' assume l: "esLocks (lkEntries ?s') n' = Some e'"
      show "e' < esNext (lkEntries ?s') \<and> finite (users ?s' n' e') \<and> users ?s' n' e' \<noteq> {} \<and>
          esRefs (lkEntries ?s') e' = int (card (users ?s' n' e'))"
        using l inv(2)[of n' e'] fresh[of n'] none[of n' e'] idle[of n' e'] e unfolding users_set_thread
        by (auto split: if_splits)
    next
      fix n' e' t' assume l: "esLocks (lkEntries ?s') n' = Some e'"
      have "t' \<notin> users s name e" using none[of name e] by simp
      then have "lkThreads s t' \<noteq> Holding name e" by (auto simp: users_def)
      then show "esHolder (lkEntries ?s') e' = Some t' \<longleftrightarrow> lkThreads ?s' t' = Holding n' e'"
        using l inv(4)[of n' e' t'] fresh[of n'] e(2) pc by (auto split: if_splits)
    qed (use inv e fresh None in \<open>auto split: if_splits\<close>)
  qed
qed

lemma leave_inv:
  assumes "lock_inv s" "lkThreads s t = Leaving name e"
  shows "lock_inv (set_thread t Idle (acquire_leave name e (lkEntries s)) s)" (is "lock_inv ?s'")
proof -
  note inv = lock_invD[OF assms(1)]
  have mem: "t \<in> users s name e" using assms(2) by (simp add: users_def)
  then have name: "esLocks (lkEntries s) name = Some e" using inv(1)[of t] by (simp add: users_def)
  let ?refs = "esRefs (lkEntries s) e - 1"
  have refs: "?refs = int (card (users s name e - {t}))" using inv(2)[OF name] mem by simp
  have "finite (users s name e - {t})" using inv(2)[OF name] by simp
  then have "?refs = 0 \<longleftrightarrow> users s name e - {t} = {}" unfolding refs by (simp only: of_nat_eq_0_iff card_0_eq)
  then have last: "?refs = 0 \<longleftrightarrow> users s name e = {t}" using mem by auto
  have locks: "esLocks (lkEntries ?s') n' = Some e' \<longleftrightarrow> esLocks (lkEntries s) n' = Some e' \<and> \<not> (n' = name \<and> ?refs = 0)" for n' e'
    by (auto simp: acquire_leave_def Let_def)
  have u: "users ?s' n' e' = users s n' e' - {t}" for n' e' by (simp add: users_set_thread)
  show ?thesis
  proof (rule lock_invI)
    fix t' n' e' assume "uses (lkThreads ?s' t') = Some (n', e')"
    then have t': "t' \<in> users s n' e'" "t' \<noteq> t" by (auto simp: users_def split: if_splits)
    then have l: "esLocks (lkEntries s) n' = Some e'" using inv(1)[of t'] by (simp add: users_def)
    moreover have "\<not> (n' = name \<and> ?refs = 0)"
    proof
      assume n: "n' = name \<and> ?refs = 0"
      with l name have "e' = e" by simp
      with n t' last show False by auto
    qed
    ultimately show "esLocks (lkEntries ?s') n' = Some e'" unfolding locks by blast
  next
    fix n' e' assume "esLocks (lkEntries ?s') n' = Some e'"
    then have l: "esLocks (lkEntries s) n' = Some e'" "\<not> (n' = name \<and> ?refs = 0)" unfolding locks by auto
    show "e' < esNext (lkEntries ?s') \<and> finite (users ?s' n' e') \<and> users ?s' n' e' \<noteq> {} \<and>
        esRefs (lkEntries ?s') e' = int (card (users ?s' n' e'))"
    proof (cases "e' = e")
      case True
      then have n: "n' = name" using inv(3)[OF name] l(1) by simp
      with last l mem have "users s name e - {t} \<noteq> {}" by auto
      with True n inv(2)[OF name] refs show ?thesis unfolding u by (simp add: acquire_leave_def Let_def)
    next
      case False
      then have "t \<notin> users s n' e'" using assms(2) by (simp add: users_def)
      with False inv(2)[OF l(1)] show ?thesis unfolding u by (simp add: acquire_leave_def Let_def)
    qed
  next
    fix n' e' t' assume "esLocks (lkEntries ?s') n' = Some e'"
    then have "esLocks (lkEntries s) n' = Some e'" unfolding locks by auto
    with inv(4)[of n' e' t'] assms(2) show "esHolder (lkEntries ?s') e' = Some t' \<longleftrightarrow> lkThreads ?s' t' = Holding n' e'"
      by (auto simp: acquire_leave_def Let_def)
  qed (use inv(3) locks in blast)
qed

lemma lock_step_inv: "lock_step s e t \<Longrightarrow> lock_inv s \<Longrightarrow> lock_inv t"
proof (induction rule: lock_step.induct)
  case (lk_lock s t name e es)
  then have es: "esHolder (lkEntries s) e = None" "es = (lkEntries s)\<lparr>esHolder := (esHolder (lkEntries s))(e := Some t)\<rparr>"
    by (auto simp: entry_lock_def split: if_splits)
  have "esLocks (lkEntries s) name = Some e" using lk_lock lock_invD(1)[of s t name e] by simp
  then have "lkThreads s t' \<noteq> Holding name e" for t' using lock_invD(4)[OF lk_lock(3), of name e t'] es(1) by simp
  then show ?case unfolding es(2) using lk_lock by (intro holder_change) auto
next
  case (lk_unlock s t name e)
  have "esLocks (lkEntries s) name = Some e" using lk_unlock lock_invD(1)[of s t name e] by simp
  then have "lkThreads s t' = Holding name e \<longleftrightarrow> t' = t" for t'
    using lock_invD(4)[OF lk_unlock(2), of name e] lk_unlock(1) by (metis option.inject)
  then show ?case unfolding entry_unlock_def by (intro holder_change[OF lk_unlock(2)]) (auto simp: lk_unlock(1))
qed (simp_all add: enter_inv leave_inv)

lemma lock_start_inv: "lock_start s \<Longrightarrow> lock_inv s"
  by (simp add: lock_start_def lock_inv_def)

interpretation locks: invariant_system lock_step lock_start lock_inv
  by unfold_locales (rule lock_start_inv, assumption, rule lock_step_inv)

text \<open>C30: commands on one instance are serialised and the lock table does not leak. In every
  interleaving at most one thread holds the lock of a name, the table has an entry for a name exactly
  while some thread uses it, and an attempt without waiting succeeds exactly when none does.\<close>

theorem instance_lock_exclusive:
  assumes "lock_start s" "run lock_step s es t"
  shows "(lkThreads t i = Holding name e \<and> lkThreads t j = Holding name e' \<longrightarrow> i = j) \<and>
    (esLocks (lkEntries t) name = None \<longleftrightarrow> (\<forall>k e. uses (lkThreads t k) \<noteq> Some (name, e))) \<and>
    (acquire_enter name False (lkEntries t) = None \<longleftrightarrow> (\<exists>k e. uses (lkThreads t k) = Some (name, e)))"
proof -
  have inv: "lock_inv t" using assms by (rule locks.reachable_inv)
  note d = lock_invD[OF inv]
  have same: "lkThreads t i = Holding name e \<and> lkThreads t j = Holding name e' \<longrightarrow> i = j"
    using d(1)[of i name e] d(1)[of j name e'] d(4)[of name e] by (metis option.inject uses.simps(3))
  have used: "esLocks (lkEntries t) name = Some x \<Longrightarrow> \<exists>k. uses (lkThreads t k) = Some (name, x)" for x
    using d(2)[of name x] unfolding users_def by auto
  have none: "esLocks (lkEntries t) name = None \<longleftrightarrow> (\<forall>k e. uses (lkThreads t k) \<noteq> Some (name, e))"
    using d(1) used by (metis not_None_eq)
  have "acquire_enter name False (lkEntries t) = None \<longleftrightarrow> esLocks (lkEntries t) name \<noteq> None"
    by (auto simp: acquire_enter_def Let_def split: option.splits)
  with same none show ?thesis by blast
qed

definition lock_ex :: lock_state where
  "lock_ex = \<lparr>lkEntries = \<lparr>esLocks = Map.empty, esRefs = (\<lambda>_. 0), esHolder = (\<lambda>_. None), esNext = 0\<rparr>,
     lkThreads = (\<lambda>_. Idle)\<rparr>"

theorem instance_lock_exclusive_witness:
  "\<exists>t. run lock_step lock_ex [LkAcquire 1 ''web'' True] t \<and> acquire_enter ''web'' False (lkEntries t) = None"
proof -
  let ?es = "the (acquire_enter ''web'' True (lkEntries lock_ex))"
  let ?t = "set_thread 1 (Waiting ''web'' (fst ?es)) (snd ?es) lock_ex"
  have "acquire_enter ''web'' True (lkEntries lock_ex) = Some (fst ?es, snd ?es)" by (simp add: acquire_enter_def lock_ex_def Let_def)
  then have r: "run lock_step lock_ex [LkAcquire 1 ''web'' True] ?t"
    unfolding run_single by (rule lk_enter[rotated]) (simp add: lock_ex_def)
  have "lock_start lock_ex" by (simp add: lock_start_def lock_ex_def)
  note excl = instance_lock_exclusive[OF this r, of 1 "''web''" 0 1 0]
  have "uses (lkThreads ?t 1) = Some (''web'', fst ?es)" by simp
  then have "acquire_enter ''web'' False (lkEntries ?t) = None" using conjunct2[OF conjunct2[OF excl]] by blast
  with r show ?thesis by (intro exI[of _ ?t] conjI)
qed

end
