(* ===== verification/Effects.thy ===== *)
theory Effects
  imports Prelude
begin

section \<open>Effects with errors\<close>

text \<open>
  Code that changes durable state and can fail half-way: an action takes a state and gives a result
  together with the state it leaves, also when it fails. \<open>bindA\<close> is Go's
  \<open>if err != nil { return err }\<close>, \<open>tryA\<close> a call whose error is inspected. \<open>wp\<close> is the weakest
  precondition of an action for a condition on its result and one on its error.
\<close>

named_theorems wp_simps \<open>weakest preconditions of the building blocks of actions\<close>

type_synonym ('a, 'w) act = "'w \<Rightarrow> 'a result \<times> 'w"

definition retA :: "'a \<Rightarrow> ('a, 'w) act" where
  "retA x w = (Inr x, w)"

definition failA :: "error \<Rightarrow> ('a, 'w) act" where
  "failA e w = (Inl e, w)"

definition liftR :: "'a result \<Rightarrow> ('a, 'w) act" where
  "liftR r w = (r, w)"

definition bindA :: "('a, 'w) act \<Rightarrow> ('a \<Rightarrow> ('b, 'w) act) \<Rightarrow> ('b, 'w) act" where
  "bindA m k w = (case m w of (Inl e, w') \<Rightarrow> (Inl e, w') | (Inr x, w') \<Rightarrow> k x w')"

definition tryA :: "('a, 'w) act \<Rightarrow> ('a result, 'w) act" where
  "tryA m w = (case m w of (r, w') \<Rightarrow> (Inr r, w'))"

definition wrapA :: "error \<Rightarrow> ('a, 'w) act \<Rightarrow> ('a, 'w) act" where
  "wrapA ctx m w = (case m w of (Inl e, w') \<Rightarrow> (Inl (ErrWrap ctx e), w') | (Inr x, w') \<Rightarrow> (Inr x, w'))"

definition ignoreA :: "('a, 'w) act \<Rightarrow> (unit, 'w) act" where
  "ignoreA m w = (Inr (), snd (m w))"

text \<open>What the replacement of a file by a new version comes to: a failure may come before the new version
  is in place, or after it, when the directory is synced.\<close>

datatype write_fate = Written | NotWritten error | WrittenThenFailed error

subsection \<open>Weakest preconditions\<close>

definition wp :: "('a, 'w) act \<Rightarrow> ('a \<Rightarrow> 'w \<Rightarrow> bool) \<Rightarrow> (error \<Rightarrow> 'w \<Rightarrow> bool) \<Rightarrow> 'w \<Rightarrow> bool" where
  "wp m Q E w = (case m w of (Inl e, w') \<Rightarrow> E e w' | (Inr x, w') \<Rightarrow> Q x w')"

lemma wp_ret [wp_simps]: "wp (retA x) Q E = Q x"
  and wp_fail [wp_simps]: "wp (failA e) Q E = E e"
  by (simp_all add: fun_eq_iff wp_def retA_def failA_def)

lemma wp_lift [wp_simps]: "wp (liftR r) Q E = (case r of Inl e \<Rightarrow> E e | Inr x \<Rightarrow> Q x)"
  by (simp add: fun_eq_iff wp_def liftR_def split: sum.split)

lemma wp_bind [wp_simps]: "wp (bindA m k) Q E = wp m (\<lambda>x. wp (k x) Q E) E"
  by (simp add: fun_eq_iff wp_def bindA_def split: prod.splits sum.splits)

lemma wp_try [wp_simps]: "wp (tryA m) Q E = wp m (\<lambda>x. Q (Inr x)) (\<lambda>e. Q (Inl e))"
  by (simp add: fun_eq_iff wp_def tryA_def split: prod.splits sum.splits)

lemma wp_wrap [wp_simps]: "wp (wrapA c m) Q E = wp m Q (\<lambda>e. E (ErrWrap c e))"
  by (simp add: fun_eq_iff wp_def wrapA_def split: prod.splits sum.splits)

lemma wp_ignore [wp_simps]: "wp (ignoreA m) Q E = wp m (\<lambda>_. Q ()) (\<lambda>_. Q ())"
  by (simp add: fun_eq_iff wp_def ignoreA_def split: prod.splits sum.splits)

lemma wp_if [wp_simps]: "wp (if b then m else n) Q E = (if b then wp m Q E else wp n Q E)"
  by simp

lemma wp_true: "wp m (\<lambda>_ _. True) (\<lambda>_ _. True) w"
  by (simp add: wp_def split: prod.split sum.split)

lemma wp_mono:
  "wp m Q E w \<Longrightarrow> (\<And>x w'. Q x w' \<Longrightarrow> Q' x w') \<Longrightarrow> (\<And>e w'. E e w' \<Longrightarrow> E' e w') \<Longrightarrow> wp m Q' E' w"
  by (auto simp: wp_def split: prod.splits sum.splits)

lemma wp_conj:
  "wp m Q E w \<Longrightarrow> wp m Q' E' w \<Longrightarrow> wp m (\<lambda>x w'. Q x w' \<and> Q' x w') (\<lambda>e w'. E e w' \<and> E' e w') w"
  by (auto simp: wp_def split: prod.splits sum.splits)

lemma wp_result: "wp m Q E w \<Longrightarrow> m w = (Inr x, w') \<Longrightarrow> Q x w'"
  by (simp add: wp_def)

lemma wp_error: "wp m Q E w \<Longrightarrow> m w = (Inl e, w') \<Longrightarrow> E e w'"
  by (simp add: wp_def)

lemma wp_final: "wp m (\<lambda>_. P) (\<lambda>_. P) w \<Longrightarrow> m w = (r, w') \<Longrightarrow> P w'"
  by (cases r) (simp_all add: wp_def)

end
