(* ===== verification/Receipts.thy ===== *)
theory Receipts
  imports Config Transitions Effects
begin

section \<open>Start receipts of the privileged runner\<close>

text \<open>
  src/internal/vmrunner/receipts.go and the checks of ram_state.go: the runner keeps one receipt file
  per start attempt, so that a delayed, repeated or interrupted start of a virtual machine launches
  it at most once and a stop acts only on the process it was asked about. All operations on one
  name hold the name's lock; \<open>dir\<close> is the name's directory of receipts, a list of files in no
  particular order. What the host reports during one call is a \<open>runtime_view\<close>; a durable write may
  succeed, fail, or fail after the file was replaced. \<open>codec\<close> stands for the digest (SHA-256 in
  hexadecimal) and the JSON encoding of a request.
\<close>

subsection \<open>Requests, responses and receipts\<close>

definition StartRunning :: string where "StartRunning = ''running''"
definition StartAbsent :: string where "StartAbsent = ''absent''"
definition StartUnknown :: string where "StartUnknown = ''unknown''"

record StartResultRequest =
  sqName :: string
  sqInstanceID :: string
  sqRequestID :: string
  sqHostBootID :: string

definition StartResultRequest_Validate :: "StartResultRequest \<Rightarrow> unit result" where
  "StartResultRequest_Validate r =
     failIf (\<not> validName (sqName r) \<or> sqInstanceID r = [] \<or> sqRequestID r = [] \<or> sqHostBootID r = [])
       (ErrMsg ''complete start attempt identity is required'')"

record Bootstrap =
  btVersion :: int
  btHostname :: string
  btEnrollmentNonce :: string
  btTailscaleAuthKey :: string
  btTailscaleControlURL :: string
  btTailscaleTags :: "string list"
  btZenGatewayPort :: int
  btDeepSeekGatewayPort :: int

definition empty_bootstrap :: Bootstrap where
  "empty_bootstrap = \<lparr>btVersion = 0, btHostname = [], btEnrollmentNonce = [], btTailscaleAuthKey = [],
     btTailscaleControlURL = [], btTailscaleTags = [], btZenGatewayPort = 0, btDeepSeekGatewayPort = 0\<rparr>"

record StartRequest =
  srqDiscardState :: bool
  srqKind :: string
  srqKernelPath :: string
  srqInitrdPath :: string
  srqInstanceID :: string
  srqRequestID :: string
  srqHostBootID :: string
  srqName :: string
  srqTapDevice :: string
  srqGuestMAC :: string
  srqGuestAddr :: string
  srqGatewayAddr :: string
  srqNameservers :: "string list"
  srqVCPUCount :: int64
  srqMemoryMiB :: int64
  srqMemoryMode :: string
  srqMemoryPoolName :: string
  srqMemoryPoolSizeBytes :: int64
  srqKernelArgs :: string
  srqBootstrap :: Bootstrap

record StartResponse =
  spOutcome :: string
  spReason :: string
  spPID :: int

record StopRequest =
  tqSaveState :: bool
  tqInstanceID :: string
  tqRequestID :: string
  tqHostBootID :: string
  tqName :: string
  tqPID :: int

definition validateStartResponse :: "StartResponse \<Rightarrow> unit result" where
  "validateStartResponse r =
     (if spOutcome r = StartRunning \<and> spPID r > 0 then Inr ()
      else if (spOutcome r = StartAbsent \<or> spOutcome r = StartUnknown) \<and> spPID r = 0 then Inr ()
      else Inl (ErrMsg ''invalid start outcome from runner''))"

abbreviation response :: "string \<Rightarrow> string \<Rightarrow> StartResponse" where
  "response outcome reason \<equiv> \<lparr>spOutcome = outcome, spReason = reason, spPID = 0\<rparr>"

record startReceipt =
  rcAttempt :: StartResultRequest
  rcDigest :: string
  rcState :: string
  rcPID :: int
  rcTicks :: nat
  rcResumeConfig :: string
  rcSaveState :: bool

type_synonym receipt_dir = "(string \<times> startReceipt) list"

record codec =
  cdKey :: "string \<Rightarrow> string"
  cdEncode :: "StartRequest \<Rightarrow> string"

record ramState =
  rsAttempt :: StartResultRequest
  rsConfig :: string
  rsDisk :: string
  rsSnapshotVersion :: string

text \<open>What one call sees of the host.\<close>

record runtime_view =
  rvPaths :: "unit result"
  rvBoot :: "string result"
  rvTicks :: "int \<Rightarrow> nat result"
  rvPeer :: "int result"
  rvVMs :: "string list result"
  rvDial :: "unit result"
  rvWorkspace :: "unit result"
  rvSocket :: "unit result"
  rvFence :: "unit result"
  rvRAM :: "ramState option result"
  rvDiscard :: "unit result"
  rvDiskStamp :: "string result"
  rvVersion :: "string result"
  rvCleanCgroup :: "unit result"
  rvCleanRuntime :: "unit result"
  rvLayout :: "unit result"
  rvLaunch :: "StartRequest \<Rightarrow> int result"
  rvExit :: "startReceipt \<Rightarrow> unit result"
  rvDeletedMark :: "string result"
  rvLegacyStop :: "unit result"
  rvWrite :: "startReceipt \<Rightarrow> write_fate"

definition errConnRefused :: error where "errConnRefused = ErrMsg ''connection refused''"

subsection \<open>Files\<close>

definition writeReceipt :: "codec \<Rightarrow> runtime_view \<Rightarrow> startReceipt \<Rightarrow> receipt_dir \<Rightarrow> unit result \<times> receipt_dir" where
  "writeReceipt cd v r dir =
     (let k = cdKey cd (sqRequestID (rcAttempt r)); dir' = (k, r) # filter (\<lambda>f. fst f \<noteq> k) dir in
      case rvWrite v r of
        Written \<Rightarrow> (Inr (), dir')
      | NotWritten e \<Rightarrow> (Inl e, dir)
      | WrittenThenFailed e \<Rightarrow> (Inl e, dir'))"

definition readReceipt :: "codec \<Rightarrow> StartResultRequest \<Rightarrow> receipt_dir \<Rightarrow> startReceipt option result" where
  "readReceipt cd q dir =
     (case map_of dir (cdKey cd (sqRequestID q)) of
       None \<Rightarrow> Inr None
     | Some r \<Rightarrow>
       bindR (failIf (rcAttempt r \<noteq> q) (ErrMsg ''receipt identity mismatch'')) (\<lambda>_.
       bindR (StartResultRequest_Validate (rcAttempt r)) (\<lambda>_.
       bindR (failIf (rcState r \<notin> {''accepted'', ''started'', ''closed''}) (ErrMsg ''corrupt receipt state'')) (\<lambda>_.
       bindR (failIf (rcState r \<noteq> ''closed'' \<and> length (rcDigest r) \<noteq> 64) (ErrMsg ''corrupt receipt digest'')) (\<lambda>_.
       bindR (failIf (rcState r = ''started'' \<and> (rcPID r \<le> 0 \<or> rcTicks r = 0 \<or> rcDigest r = []))
         (ErrMsg ''corrupt started receipt'')) (\<lambda>_.
       Inr (Some r)))))))"

text \<open>The scan of the directory; the receipt is read back by its identity, and its absence then is
  impossible since the file was just listed.\<close>

fun scan_active :: "codec \<Rightarrow> string \<Rightarrow> receipt_dir \<Rightarrow> receipt_dir \<Rightarrow> startReceipt option \<Rightarrow> startReceipt option result" where
  "scan_active cd name dir [] active = Inr active"
| "scan_active cd name dir ((k, r) # rest) active =
     bindR (failIf (sqName (rcAttempt r) \<noteq> name \<or> k \<noteq> cdKey cd (sqRequestID (rcAttempt r)))
       (ErrMsg ''corrupt receipt identity'')) (\<lambda>_.
     bindR (readReceipt cd (rcAttempt r) dir) (\<lambda>checked.
     case checked of
       None \<Rightarrow> Inl (ErrMsg ''nil receipt'')
     | Some c \<Rightarrow>
       if rcState c \<noteq> ''closed'' then
         bindR (failIf (active \<noteq> None) (ErrMsg ''multiple active attempts''))
           (\<lambda>_. scan_active cd name dir rest (Some c))
       else scan_active cd name dir rest active))"

definition activeReceipt :: "codec \<Rightarrow> string \<Rightarrow> receipt_dir \<Rightarrow> startReceipt option result" where
  "activeReceipt cd name dir = scan_active cd name dir dir None"

subsection \<open>The runtime of a receipt\<close>

definition validateRuntime :: "runtime_view \<Rightarrow> startReceipt \<Rightarrow> unit result" where
  "validateRuntime v r =
     bindR (rvPeer v) (\<lambda>pid.
     bindR (failIf (pid \<noteq> rcPID r) (ErrMsg ''socket belongs to another process'')) (\<lambda>_.
     bindR (rvTicks v (rcPID r)) (\<lambda>ticks.
     failIf (ticks \<noteq> rcTicks r) (ErrMsg ''process identity changed''))))"

definition noLiveRuntimeLocked :: "runtime_view \<Rightarrow> string \<Rightarrow> unit result" where
  "noLiveRuntimeLocked v name =
     bindR (rvVMs v) (\<lambda>vms.
     bindR (failIf (name \<in> set vms) (ErrMsg ''live cgroup occupies name'')) (\<lambda>_.
     case rvDial v of
       Inr _ \<Rightarrow> Inl (ErrMsg ''live socket occupies name'')
     | Inl e \<Rightarrow> failIf (\<not> errors_is e ErrNotExist \<and> \<not> errors_is e errConnRefused) e))"

definition path_absent :: "unit result \<Rightarrow> unit result" where
  "path_absent lstat =
     (case lstat of Inr _ \<Rightarrow> Inl (ErrMsg ''unowned runtime path'')
      | Inl e \<Rightarrow> failIf (\<not> errors_is e ErrNotExist) (ErrWrap (ErrMsg ''unowned runtime path'') e))"

definition nameVacantLocked :: "codec \<Rightarrow> runtime_view \<Rightarrow> string \<Rightarrow> receipt_dir \<Rightarrow> unit result" where
  "nameVacantLocked cd v name dir =
     bindR (activeReceipt cd name dir) (\<lambda>a.
     bindR (failIf (a \<noteq> None) (ErrMsg ''another attempt occupies name'')) (\<lambda>_.
     bindR (noLiveRuntimeLocked v name) (\<lambda>_.
     bindR (path_absent (rvWorkspace v)) (\<lambda>_. path_absent (rvSocket v)))))"

text \<open>The receipt is the only active one of its name.\<close>

definition owns_name :: "codec \<Rightarrow> startReceipt \<Rightarrow> receipt_dir \<Rightarrow> bool" where
  "owns_name cd r dir =
     (case activeReceipt cd (sqName (rcAttempt r)) dir of
       Inr (Some a) \<Rightarrow> rcAttempt a = rcAttempt r | _ \<Rightarrow> False)"

definition unless_missing :: "unit result \<Rightarrow> unit result" where
  "unless_missing r = (case r of Inl e \<Rightarrow> failIf (\<not> errors_is e ErrNotExist) e | Inr _ \<Rightarrow> Inr ())"

definition finishDeadReceiptLocked ::
  "codec \<Rightarrow> runtime_view \<Rightarrow> startReceipt \<Rightarrow> receipt_dir \<Rightarrow> StartResponse result \<times> receipt_dir" where
  "finishDeadReceiptLocked cd v r dir =
     (if \<not> owns_name cd r dir then (Inr (response StartUnknown ''receipt ownership ambiguous''), dir)
      else if isl (noLiveRuntimeLocked v (sqName (rcAttempt r)))
        then (Inr (response StartUnknown ''runtime absence cannot be verified''), dir)
      else case bindR (unless_missing (rvCleanCgroup v)) (\<lambda>_. rvCleanRuntime v) of
        Inl e \<Rightarrow> (Inl e, dir)
      | Inr _ \<Rightarrow>
        (case writeReceipt cd v (r\<lparr>rcState := ''closed''\<rparr>) dir of
          (Inl e, dir') \<Rightarrow> (Inl e, dir')
        | (Inr _, dir') \<Rightarrow> (Inr (response StartAbsent ''dead owned runtime cleaned''), dir')))"

definition process_gone :: "runtime_view \<Rightarrow> startReceipt \<Rightarrow> bool" where
  "process_gone v r =
     (case rvTicks v (rcPID r) of Inl e \<Rightarrow> errors_is e ErrNotExist | Inr ticks \<Rightarrow> ticks \<noteq> rcTicks r)"

definition resultLocked ::
  "codec \<Rightarrow> runtime_view \<Rightarrow> startReceipt \<Rightarrow> receipt_dir \<Rightarrow> StartResponse result \<times> receipt_dir" where
  "resultLocked cd v r dir =
     (case rvBoot v of
       Inl e \<Rightarrow> (Inl e, dir)
     | Inr boot \<Rightarrow>
       if rcState r = ''closed'' then
         (if isl (nameVacantLocked cd v (sqName (rcAttempt r)) dir)
          then (Inr (response StartUnknown ''name is not proven vacant''), dir)
          else (Inr (response StartAbsent ''attempt fenced''), dir))
       else if sqHostBootID (rcAttempt r) \<noteq> boot then finishDeadReceiptLocked cd v r dir
       else if rcState r = ''accepted'' then
         (Inr (response StartUnknown ''launch may have occurred; attempt quarantined''), dir)
       else if \<not> owns_name cd r dir then (Inr (response StartUnknown ''receipt ownership ambiguous''), dir)
       else if process_gone v r then finishDeadReceiptLocked cd v r dir
       else case rvTicks v (rcPID r) of
         Inl e \<Rightarrow> (Inl e, dir)
       | Inr _ \<Rightarrow>
         if isl (validateRuntime v r) then (Inr (response StartUnknown ''runtime ownership cannot be verified''), dir)
         else (Inr \<lparr>spOutcome = StartRunning, spReason = [], spPID = rcPID r\<rparr>, dir))"

subsection \<open>Saved memory\<close>

definition resumeConfig :: "codec \<Rightarrow> StartRequest \<Rightarrow> string" where
  "resumeConfig cd req = cdKey cd (cdEncode cd (req\<lparr>srqRequestID := [], srqHostBootID := [],
     srqBootstrap := empty_bootstrap, srqDiscardState := False\<rparr>))"

definition checkRAMState ::
  "codec \<Rightarrow> runtime_view \<Rightarrow> StartRequest \<Rightarrow> receipt_dir \<Rightarrow> ramState option result" where
  "checkRAMState cd v req dir =
     (let discard = bindR (rvDiscard v) (\<lambda>_. Inr None) in
      if srqDiscardState req then discard
      else case rvRAM v of
        Inl e \<Rightarrow> Inl e
      | Inr None \<Rightarrow> Inr None
      | Inr (Some state) \<Rightarrow>
        bindR (failIf (sqInstanceID (rsAttempt state) \<noteq> srqInstanceID req \<or> rsConfig state \<noteq> resumeConfig cd req)
          (ErrMsg ''RAM state does not match VM configuration; use start --discard-state'')) (\<lambda>_.
        bindR (readReceipt cd (rsAttempt state) dir) (\<lambda>r.
        bindR (failIf (case r of None \<Rightarrow> True | Some r \<Rightarrow> rcState r \<noteq> ''closed'' \<or> \<not> rcSaveState r)
          (ErrMsg ''RAM state source has not finished stopping'')) (\<lambda>_.
        bindR (rvDiskStamp v) (\<lambda>disk.
        bindR (failIf (disk \<noteq> rsDisk state) (ErrMsg ''disk changed since suspend; use start --discard-state'')) (\<lambda>_.
        if rsSnapshotVersion state = [] then discard
        else bindR (rvVersion v) (\<lambda>version.
          if version \<noteq> rsSnapshotVersion state then discard else Inr (Some state))))))))"

subsection \<open>Starting\<close>

text \<open>\<open>receiptStart\<close> up to the launch: an answer without a launch, a launch without a receipt (requests
  of the old protocol), or a launch whose receipt has been accepted durably.\<close>

datatype start_plan = Answer "StartResponse result" | LaunchLegacy | Launch startReceipt

definition start_attempt :: "StartRequest \<Rightarrow> StartResultRequest" where
  "start_attempt req = \<lparr>sqName = srqName req, sqInstanceID = srqInstanceID req,
     sqRequestID = srqRequestID req, sqHostBootID = srqHostBootID req\<rparr>"

definition checked_path :: "unit result \<Rightarrow> StartResponse result option" where
  "checked_path lstat =
     (case lstat of Inr _ \<Rightarrow> Some (Inr (response StartUnknown ''unowned runtime occupies name''))
      | Inl e \<Rightarrow> if errors_is e ErrNotExist then None else Some (Inl e))"

definition new_attempt ::
  "codec \<Rightarrow> runtime_view \<Rightarrow> StartRequest \<Rightarrow> startReceipt \<Rightarrow> receipt_dir \<Rightarrow> start_plan \<times> receipt_dir" where
  "new_attempt cd v req r dir =
     (case activeReceipt cd (srqName req) dir of
       Inl e \<Rightarrow> (Answer (Inl e), dir)
     | Inr (Some _) \<Rightarrow> (Answer (Inr (response StartUnknown ''another attempt occupies name'')), dir)
     | Inr None \<Rightarrow>
       (case rvVMs v of
         Inl e \<Rightarrow> (Answer (Inl e), dir)
       | Inr vms \<Rightarrow>
         if srqName req \<in> set vms
         then (Answer (Inr (response StartUnknown ''unowned cgroup runtime occupies name'')), dir)
         else case checked_path (rvWorkspace v) of
           Some a \<Rightarrow> (Answer a, dir)
         | None \<Rightarrow>
           (case checked_path (rvSocket v) of
             Some a \<Rightarrow> (Answer a, dir)
           | None \<Rightarrow>
             (case checkRAMState cd v req dir of
               Inl e \<Rightarrow>
                 (case writeReceipt cd v r dir of
                   (Inl w, dir') \<Rightarrow> (Answer (Inl (ErrWrap e w)), dir')
                 | (Inr _, dir') \<Rightarrow> (Answer (Inr (response StartAbsent (error_text e))), dir'))
             | Inr _ \<Rightarrow>
               let r' = r\<lparr>rcState := ''accepted'', rcResumeConfig := resumeConfig cd req\<rparr> in
               (case writeReceipt cd v r' dir of
                 (Inl e, dir') \<Rightarrow> (Answer (Inl e), dir')
               | (Inr _, dir') \<Rightarrow> (Launch r', dir'))))))"

definition receipt_prepare ::
  "codec \<Rightarrow> runtime_view \<Rightarrow> StartRequest \<Rightarrow> receipt_dir \<Rightarrow> start_plan \<times> receipt_dir" where
  "receipt_prepare cd v req dir =
     (case bindR (rvPaths v) (\<lambda>_. failIf (\<not> validName (srqName req)) (ErrMsg ''invalid instance name'')) of
       Inl e \<Rightarrow> (Answer (Inl e), dir)
     | Inr _ \<Rightarrow>
       if srqRequestID req = [] then
         (case bindR (rvFence v) (\<lambda>_. activeReceipt cd (srqName req) dir) of
           Inl e \<Rightarrow> (Answer (Inl e), dir)
         | Inr (Some _) \<Rightarrow> (Answer (Inr (response StartUnknown ''managed attempt occupies name'')), dir)
         | Inr None \<Rightarrow> (LaunchLegacy, dir))
       else
         let q = start_attempt req; digest = cdKey cd (cdEncode cd req) in
         case bindR (StartResultRequest_Validate q) (\<lambda>_. readReceipt cd q dir) of
           Inl e \<Rightarrow> (Answer (Inl e), dir)
         | Inr (Some r) \<Rightarrow>
           if rcDigest r \<noteq> [] \<and> rcDigest r \<noteq> digest then (Answer (Inl (ErrMsg ''start request payload mismatch'')), dir)
           else let (a, dir') = resultLocked cd v r dir in (Answer a, dir')
         | Inr None \<Rightarrow>
           (case bindR (rvFence v) (\<lambda>_. rvBoot v) of
             Inl e \<Rightarrow> (Answer (Inl e), dir)
           | Inr boot \<Rightarrow>
             let r = \<lparr>rcAttempt = q, rcDigest = digest, rcState = ''closed'', rcPID = 0, rcTicks = 0,
               rcResumeConfig = [], rcSaveState = False\<rparr> in
             if boot \<noteq> srqHostBootID req then
               (case writeReceipt cd v r dir of
                 (Inl e, dir') \<Rightarrow> (Answer (Inl e), dir')
               | (Inr _, dir') \<Rightarrow> let (a, dir'') = resultLocked cd v r dir' in (Answer a, dir''))
             else new_attempt cd v req r dir))"

text \<open>After the launch: the process is identified and recorded.\<close>

definition receipt_finish ::
  "codec \<Rightarrow> runtime_view \<Rightarrow> StartRequest \<Rightarrow> startReceipt \<Rightarrow> receipt_dir \<Rightarrow> StartResponse result \<times> receipt_dir" where
  "receipt_finish cd v req r dir =
     (case rvLaunch v req of
       Inl _ \<Rightarrow> (Inr (response StartUnknown ''launch failed after acceptance; quarantined''), dir)
     | Inr pid \<Rightarrow>
       (case rvTicks v pid of
         Inl _ \<Rightarrow> (Inr (response StartUnknown ''launched process identity unavailable''), dir)
       | Inr ticks \<Rightarrow>
         let r' = r\<lparr>rcPID := pid, rcTicks := ticks, rcState := ''started''\<rparr> in
         (case writeReceipt cd v r' dir of
           (Inl e, dir') \<Rightarrow> (Inl e, dir')
         | (Inr _, dir') \<Rightarrow> resultLocked cd v r' dir')))"

definition receiptStart ::
  "codec \<Rightarrow> runtime_view \<Rightarrow> StartRequest \<Rightarrow> receipt_dir \<Rightarrow> StartResponse result \<times> receipt_dir" where
  "receiptStart cd v req dir =
     (case receipt_prepare cd v req dir of
       (Answer a, dir') \<Rightarrow> (a, dir')
     | (LaunchLegacy, dir') \<Rightarrow>
       (bindR (rvLaunch v req) (\<lambda>pid. Inr \<lparr>spOutcome = StartRunning, spReason = [], spPID = pid\<rparr>), dir')
     | (Launch r, dir') \<Rightarrow> receipt_finish cd v req r dir')"

definition resolveStart ::
  "codec \<Rightarrow> runtime_view \<Rightarrow> StartResultRequest \<Rightarrow> receipt_dir \<Rightarrow> StartResponse result \<times> receipt_dir" where
  "resolveStart cd v q dir =
     (case bindR (failIf (\<not> validName (sqName q)) (ErrMsg ''invalid instance name'')) (\<lambda>_. readReceipt cd q dir) of
       Inl e \<Rightarrow> (Inl e, dir)
     | Inr (Some r) \<Rightarrow> resultLocked cd v r dir
     | Inr None \<Rightarrow>
       let r = \<lparr>rcAttempt = q, rcDigest = [], rcState = ''closed'', rcPID = 0, rcTicks = 0,
         rcResumeConfig = [], rcSaveState = False\<rparr> in
       (case writeReceipt cd v r dir of
         (Inl e, dir') \<Rightarrow> (Inl e, dir')
       | (Inr _, dir') \<Rightarrow> resultLocked cd v r dir'))"

subsection \<open>Stopping\<close>

definition dead_answer :: "StartResponse result \<times> receipt_dir \<Rightarrow> unit result \<times> receipt_dir" where
  "dead_answer a = (case a of
     (Inl e, dir) \<Rightarrow> (Inl e, dir)
   | (Inr resp, dir) \<Rightarrow> (failIf (spOutcome resp \<noteq> StartAbsent) (ErrMsg (spReason resp)), dir))"

text \<open>\<open>rvExit\<close> covers opening the pidfd, the request to shut down or to save the memory, the wait and
  the kill; it says whether the process of the receipt is known to have exited.\<close>

definition stopReceiptLocked :: "codec \<Rightarrow> runtime_view \<Rightarrow> startReceipt \<Rightarrow> receipt_dir \<Rightarrow> unit result \<times> receipt_dir" where
  "stopReceiptLocked cd v r dir =
     (case rvBoot v of
       Inl e \<Rightarrow> (Inl e, dir)
     | Inr boot \<Rightarrow>
       if rcState r = ''closed'' then (Inr (), dir)
       else if sqHostBootID (rcAttempt r) \<noteq> boot then dead_answer (finishDeadReceiptLocked cd v r dir)
       else if rcState r \<noteq> ''started'' then (Inl (ErrMsg ''cannot stop quarantined or unverified attempt''), dir)
       else if process_gone v r then dead_answer (finishDeadReceiptLocked cd v r dir)
       else case rvTicks v (rcPID r) of
         Inl e \<Rightarrow> (Inl e, dir)
       | Inr _ \<Rightarrow>
         if \<not> owns_name cd r dir then (Inl (ErrMsg ''receipt ownership ambiguous''), dir)
         else case bindR (validateRuntime v r) (\<lambda>_.
             bindR (rvExit v r) (\<lambda>_.
             bindR (noLiveRuntimeLocked v (sqName (rcAttempt r))) (\<lambda>_.
             bindR (unless_missing (rvCleanCgroup v)) (\<lambda>_. rvCleanRuntime v)))) of
           Inl e \<Rightarrow> (Inl e, dir)
         | Inr _ \<Rightarrow> writeReceipt cd v (r\<lparr>rcState := ''closed''\<rparr>) dir)"

definition stop_attempt :: "StopRequest \<Rightarrow> StartResultRequest" where
  "stop_attempt req = \<lparr>sqName = tqName req, sqInstanceID = tqInstanceID req,
     sqRequestID = tqRequestID req, sqHostBootID = tqHostBootID req\<rparr>"

definition mark_save ::
  "codec \<Rightarrow> runtime_view \<Rightarrow> bool \<Rightarrow> startReceipt \<Rightarrow> receipt_dir \<Rightarrow> startReceipt result \<times> receipt_dir" where
  "mark_save cd v save r dir =
     (if save \<and> \<not> rcSaveState r then
        (case bindR (failIf (rcState r \<noteq> ''started'' \<or> rcResumeConfig r = [])
            (ErrMsg ''saving RAM requires a running VM started with RAM-state support'')) (\<lambda>_. rvLayout v) of
          Inl e \<Rightarrow> (Inl e, dir)
        | Inr _ \<Rightarrow>
          let r' = r\<lparr>rcSaveState := True\<rparr> in
          (case writeReceipt cd v r' dir of (Inl e, dir') \<Rightarrow> (Inl e, dir') | (Inr _, dir') \<Rightarrow> (Inr r', dir')))
      else (Inr r, dir))"

definition saved_for :: "runtime_view \<Rightarrow> startReceipt \<Rightarrow> unit result" where
  "saved_for v r =
     bindR (rvRAM v) (\<lambda>state.
     failIf (case state of None \<Rightarrow> True | Some s \<Rightarrow> rsAttempt s \<noteq> rcAttempt r)
       (ErrMsg ''no saved RAM for this attempt: source exited before capture, or snapshot was already consumed''))"

definition legacy_stop :: "codec \<Rightarrow> runtime_view \<Rightarrow> StopRequest \<Rightarrow> receipt_dir \<Rightarrow> unit result" where
  "legacy_stop cd v req dir =
     (let active = bindR (activeReceipt cd (tqName req) dir) (\<lambda>a.
            bindR (failIf (a \<noteq> None) (ErrMsg ''managed attempt occupies name'')) (\<lambda>_. rvLegacyStop v))
      in if tqInstanceID req \<noteq> [] then
        (case rvDeletedMark v of
          Inr mark \<Rightarrow> failIf (mark \<noteq> tqInstanceID req) (ErrMsg ''invalid incarnation deletion fence'')
        | Inl e \<Rightarrow> if errors_is e ErrNotExist then active else Inl e)
      else active)"

definition receiptStop :: "codec \<Rightarrow> runtime_view \<Rightarrow> StopRequest \<Rightarrow> receipt_dir \<Rightarrow> unit result \<times> receipt_dir" where
  "receiptStop cd v req dir =
     (if tqSaveState req \<and> tqRequestID req = [] then (Inl (ErrMsg ''saving RAM requires a managed start attempt''), dir)
      else if \<not> validName (tqName req) then (Inl (ErrMsg ''invalid instance name''), dir)
      else if tqRequestID req = [] then (legacy_stop cd v req dir, dir)
      else case bindR (StartResultRequest_Validate (stop_attempt req)) (\<lambda>_. readReceipt cd (stop_attempt req) dir) of
        Inl e \<Rightarrow> (Inl e, dir)
      | Inr None \<Rightarrow> (Inl (ErrMsg ''start receipt not found''), dir)
      | Inr (Some r) \<Rightarrow>
        (case mark_save cd v (tqSaveState req) r dir of
          (Inl e, dir1) \<Rightarrow> (Inl e, dir1)
        | (Inr r, dir1) \<Rightarrow>
          (case stopReceiptLocked cd v r dir1 of
            (Inl e, dir2) \<Rightarrow> (Inl e, dir2)
          | (Inr _, dir2) \<Rightarrow> (if tqSaveState req then saved_for v r else Inr (), dir2))))"

end
