(* ===== verification/Runtime.thy ===== *)
theory Runtime
  imports Effects Pools Network Receipts
begin

section \<open>The lifecycle of an instance in the control plane\<close>

text \<open>
  src/internal/provision/provision.go, start_outcome.go, orb.go and readiness.go: starting, stopping,
  reconciling and restoring an instance. The state of an action is the database and the rest of the
  host (\<open>'h\<close>); \<open>host_ops\<close> are the calls the provisioner makes outside the database: its two
  helper interfaces (\<open>vmRunner\<close> and \<open>networkHelper\<close>), files, processes, the clock and the
  tailnet. Every call may change the host and may fail; \<open>hoFault\<close> says whether the next statement
  of the database fails, in which case it has no effect. The operations of one instance run under
  the service's instance lock.
\<close>

subsection \<open>Calls to the host\<close>

record tailnet_device =
  tdHostname :: string
  tdName :: string
  tdNodeID :: string
  tdID :: string

text \<open>In order: database faults, the clock, new identifiers, what the admission rules observe, the
  text of a serial log, the boot identifier; the runner; the network helper; the disk (hydration and
  layout, whose result is the canonical path of the disk) and its permissions; the tailnet: whether
  its API is configured, its devices, the probe of a live peer, the wait for the first enrollment;
  the runtime identity of a machine started by the old protocol; the ping of an orb's bootstrap
  channel; the number of turns a polling loop makes before its deadline; and the JSON encoding of an
  event's payload.\<close>

record 'h host_ops =
  hoFault :: "'h \<Rightarrow> error option \<times> 'h"
  hoNow :: "'h \<Rightarrow> time \<times> 'h"
  hoNewID :: "'h \<Rightarrow> string \<times> 'h"
  hoEnv :: "'h \<Rightarrow> host_env \<times> 'h"
  hoSerial :: "string \<Rightarrow> 'h \<Rightarrow> string result \<times> 'h"
  hoBootID :: "'h \<Rightarrow> string result \<times> 'h"
  hoStart :: "StartRequest \<Rightarrow> 'h \<Rightarrow> StartResponse result \<times> 'h"
  hoResolve :: "StartResultRequest \<Rightarrow> 'h \<Rightarrow> (StartResponse \<times> error option) \<times> 'h"
  hoStop :: "StopRequest \<Rightarrow> 'h \<Rightarrow> unit result \<times> 'h"
  hoCleanNet :: "string \<Rightarrow> string \<Rightarrow> string \<Rightarrow> 'h \<Rightarrow> unit result \<times> 'h"
  hoSetupNet :: "string \<Rightarrow> string \<Rightarrow> string \<Rightarrow> string \<Rightarrow> 'h \<Rightarrow> unit result \<times> 'h"
  hoHydrate :: "Instance \<Rightarrow> 'h \<Rightarrow> unit result \<times> 'h"
  hoDiskLayout :: "Instance \<Rightarrow> 'h \<Rightarrow> string result \<times> 'h"
  hoLayoutDone :: "Instance \<Rightarrow> 'h \<Rightarrow> unit result \<times> 'h"
  hoPermissions :: "Instance \<Rightarrow> 'h \<Rightarrow> unit result \<times> 'h"
  hoTailnetAPI :: bool
  hoDevices :: "'h \<Rightarrow> tailnet_device list result \<times> 'h"
  hoVerifyPeer :: "tailnet_device \<Rightarrow> string \<Rightarrow> 'h \<Rightarrow> string result \<times> 'h"
  hoEnrollment :: "Instance \<Rightarrow> 'h \<Rightarrow> (tailnet_device \<times> string) result \<times> 'h"
  hoLegacyIdentity :: "Instance \<Rightarrow> 'h \<Rightarrow> string result \<times> 'h"
  hoPing :: "string \<Rightarrow> 'h \<Rightarrow> unit result \<times> 'h"
  hoTurns :: "'h \<Rightarrow> nat \<times> 'h"
  hoJSON :: "(string \<times> string) list \<Rightarrow> string"

type_synonym ('a, 'h) action = "('a, db \<times> 'h) act"

definition hostA :: "('h \<Rightarrow> 'a result \<times> 'h) \<Rightarrow> ('a, 'h) action" where
  "hostA f w = (case f (snd w) of (r, h) \<Rightarrow> (r, fst w, h))"

definition seeA :: "('h \<Rightarrow> 'a \<times> 'h) \<Rightarrow> ('a, 'h) action" where
  "seeA f w = (case f (snd w) of (x, h) \<Rightarrow> (Inr x, fst w, h))"

definition readA :: "(db \<Rightarrow> 'a result) \<Rightarrow> ('a, 'h) action" where
  "readA f w = (f (fst w), w)"

definition writeA :: "(db \<Rightarrow> db result) \<Rightarrow> (unit, 'h) action" where
  "writeA f w = (case f (fst w) of Inl e \<Rightarrow> (Inl e, w) | Inr d \<Rightarrow> (Inr (), d, snd w))"

definition stmtA :: "'h host_ops \<Rightarrow> ('a, 'h) action \<Rightarrow> ('a, 'h) action" where
  "stmtA ho m = bindA (seeA (hoFault ho)) (\<lambda>fault. case fault of Some e \<Rightarrow> failA e | None \<Rightarrow> m)"

definition queryA :: "'h host_ops \<Rightarrow> (db \<Rightarrow> 'a result) \<Rightarrow> ('a, 'h) action" where
  "queryA ho f = stmtA ho (readA f)"

definition execA :: "'h host_ops \<Rightarrow> (time \<Rightarrow> db \<Rightarrow> db result) \<Rightarrow> (unit, 'h) action" where
  "execA ho f = bindA (seeA (hoNow ho)) (\<lambda>now. stmtA ho (writeA (f now)))"

definition persistInstance :: "'h host_ops \<Rightarrow> Instance \<Rightarrow> (unit, 'h) action" where
  "persistInstance ho inst = execA ho (\<lambda>now. UpdateInstance now inst)"

definition updateRuntime :: "'h host_ops \<Rightarrow> Instance \<Rightarrow> Instance \<Rightarrow> (unit, 'h) action" where
  "updateRuntime ho observed updated = execA ho (\<lambda>now. UpdateInstanceRuntime now observed updated)"

text \<open>The write of an instance whose \<open>UpdatedAt\<close> is the current time.\<close>

definition touchA :: "'h host_ops \<Rightarrow> Instance \<Rightarrow> (Instance, 'h) action" where
  "touchA ho inst = bindA (seeA (hoNow ho)) (\<lambda>now. retA (inst\<lparr>iUpdatedAt := now\<rparr>))"

definition recordEvent ::
  "'h host_ops \<Rightarrow> string \<Rightarrow> string \<Rightarrow> string \<Rightarrow> (string \<times> string) list option \<Rightarrow> (unit, 'h) action" where
  "recordEvent ho instanceID eventType message payload =
     bindA (seeA (hoNow ho)) (\<lambda>created.
     ignoreA (execA ho (\<lambda>now. RecordEvent now \<lparr>evID = 0, evInstanceID = instanceID, evCreatedAt = created,
       evType = eventType, evMessage = message,
       evPayload = (case payload of None \<Rightarrow> [] | Some m \<Rightarrow> hoJSON ho m)\<rparr>)))"

definition processExists :: "'h host_ops \<Rightarrow> int \<Rightarrow> (bool, 'h) action" where
  "processExists ho pid =
     (if pid \<le> 0 then retA False else bindA (seeA (hoEnv ho)) (\<lambda>env. retA (heProcess env pid)))"

definition cleanupNetworking :: "'h host_ops \<Rightarrow> Instance \<Rightarrow> (unit, 'h) action" where
  "cleanupNetworking ho inst = hostA (hoCleanNet ho (iID inst) (iTapDevice inst) (iNetworkCIDR inst))"

definition setupNetworking :: "'h host_ops \<Rightarrow> Instance \<Rightarrow> (unit, 'h) action" where
  "setupNetworking ho inst =
     hostA (hoSetupNet ho (iID inst) (iTapDevice inst) (iHostAddr inst) (iNetworkCIDR inst))"

subsection \<open>The serial log\<close>

fun LastIndex :: "string \<Rightarrow> string \<Rightarrow> nat option" where
  "LastIndex [] m = (if m = [] then Some 0 else None)"
| "LastIndex (x # xs) m =
     (case LastIndex xs m of Some i \<Rightarrow> Some (Suc i)
      | None \<Rightarrow> if HasPrefix (x # xs) m then Some 0 else None)"

definition serialLogEndsWith :: "string \<Rightarrow> string \<Rightarrow> bool" where
  "serialLogEndsWith content marker =
     (case LastIndex content marker of None \<Rightarrow> False
      | Some i \<Rightarrow> list_all (\<lambda>c. c = CHR 0x00 \<or> is_space c) (drop (i + length marker) content))"

definition guestHaltTailBytes :: nat where "guestHaltTailBytes = 65536"

definition serialLogShowsGuestHalted :: "'h host_ops \<Rightarrow> string \<Rightarrow> (bool, 'h) action" where
  "serialLogShowsGuestHalted ho path =
     (if path = [] then retA False
      else bindA (tryA (hostA (hoSerial ho path))) (\<lambda>r. case r of
        Inl _ \<Rightarrow> retA False
      | Inr content \<Rightarrow>
        let tail = drop (length content - guestHaltTailBytes) content in
        retA (serialLogEndsWith tail ''reboot: Power off not available: System halted instead'' \<or>
              serialLogEndsWith tail ''reboot: System halted'')))"

subsection \<open>Outcomes of a start\<close>

definition awaitingState :: "Instance \<Rightarrow> inst_state" where
  "awaitingState inst = (if KindName inst = KindOrb then StateAwaitingGuest else StateAwaitingTailnet)"

definition hasTailnetIdentity :: "Instance \<Rightarrow> bool" where
  "hasTailnetIdentity inst \<longleftrightarrow> TrimSpace (iTailnetNodeID inst) \<noteq> [] \<or> TrimSpace (iTailscaleName inst) \<noteq> [] \<or>
     TrimSpace (iTailscaleIP inst) \<noteq> []"

definition shouldAutoStartAfterStartup :: "Instance \<Rightarrow> bool" where
  "shouldAutoStartAfterStartup inst \<longleftrightarrow>
     iState inst \<notin> {StateDeleted, StateDeleting, StateFailed, StateStopped, StateStopping}"

definition attempt_of :: "Instance \<Rightarrow> StartResultRequest" where
  "attempt_of inst = \<lparr>sqName = iName inst, sqInstanceID = iID inst, sqRequestID = iStartRequestID inst,
     sqHostBootID = iStartBootID inst\<rparr>"

text \<open>The reply to a resolution carries a response and an error; most callers look at the error first.\<close>

definition startResult :: "'h host_ops \<Rightarrow> Instance \<Rightarrow> (StartResponse \<times> error option, 'h) action" where
  "startResult ho inst = seeA (hoResolve ho (attempt_of inst))"

definition checkedResult :: "'h host_ops \<Rightarrow> Instance \<Rightarrow> (StartResponse, 'h) action" where
  "checkedResult ho inst =
     bindA (startResult ho inst) (\<lambda>(resp, err). case err of None \<Rightarrow> retA resp | Some e \<Rightarrow> failA e)"

definition absent_runtime :: "Instance \<Rightarrow> Instance" where
  "absent_runtime inst = inst\<lparr>iFirecrackerPID := 0,
     iState := (if iState inst = StateStopping \<or> iState inst = StateDeleting then iState inst
       else if KindName inst \<noteq> KindOrb \<and> \<not> hasTailnetIdentity inst then StateFailed
       else StateStopped)\<rparr>"

definition observe_outcome :: "'h host_ops \<Rightarrow> Instance \<Rightarrow> StartResponse \<Rightarrow> (Instance, 'h) action" where
  "observe_outcome ho inst result =
     (if spOutcome result = StartRunning then
        (if spPID result \<le> 0 then failA ErrStartUncertain
         else if iState inst = StateStopped \<or> iState inst = StateFailed then
           failA (ErrWrap ErrStartUncertain (ErrMsg ''running attempt conflicts with stored state''))
         else retA (inst\<lparr>iFirecrackerPID := spPID result,
           iState := (if iState inst = StateProvisioning then awaitingState inst else iState inst)\<rparr>))
      else if spOutcome result = StartAbsent then
        (if iFirecrackerPID inst \<noteq> 0 \<or> iState inst \<in> {StateProvisioning, StateAwaitingTailnet,
            StateAwaitingGuest, StateReady}
         then bindA (cleanupNetworking ho inst) (\<lambda>_. retA (absent_runtime inst))
         else retA inst)
      else failA (ErrWrap ErrStartUncertain (ErrMsg (spReason result))))"

definition resolveRuntime :: "'h host_ops \<Rightarrow> Instance \<Rightarrow> (Instance, 'h) action" where
  "resolveRuntime ho observed =
     (if iStartRequestID observed = [] \<or> iState observed = StateDeleted then retA observed
      else
        bindA (wrapA ErrStartUncertain (checkedResult ho observed)) (\<lambda>result.
        bindA (observe_outcome ho observed result) (\<lambda>inst.
        if iState observed = iState inst \<and> iFirecrackerPID observed = iFirecrackerPID inst then retA inst
        else bindA (touchA ho inst) (\<lambda>inst.
          bindA (updateRuntime ho observed inst) (\<lambda>_. retA inst)))))"

subsection \<open>Stopping\<close>

definition stopFirecrackerWithState :: "'h host_ops \<Rightarrow> Instance \<Rightarrow> bool \<Rightarrow> (unit, 'h) action" where
  "stopFirecrackerWithState ho inst saveState =
     wrapA (ErrMsg ''stop firecracker'') (hostA (hoStop ho \<lparr>tqSaveState = saveState, tqInstanceID = iID inst,
       tqRequestID = iStartRequestID inst, tqHostBootID = iStartBootID inst, tqName = iName inst,
       tqPID = iFirecrackerPID inst\<rparr>))"

definition stop_refused :: "Instance \<Rightarrow> unit result" where
  "stop_refused inst =
     bindR (failIf (iState inst = StateDeleting)
       (ErrMsg ''instance is being deleted; stop cannot cancel deletion'')) (\<lambda>_.
     bindR (failIf (iState inst = StateDeleted) (ErrMsg ''instance is already deleted'')) (\<lambda>_.
     failIf (iState inst = StateStopped \<and> iFirecrackerPID inst = 0) (ErrMsg ''instance is already stopped'')))"

definition StopWithOptions :: "'h host_ops \<Rightarrow> string \<Rightarrow> bool \<Rightarrow> (Instance, 'h) action" where
  "StopWithOptions ho name saveState =
     bindA (queryA ho (GetInstance name)) (\<lambda>inst.
     bindA (liftR (stop_refused inst)) (\<lambda>_.
     bindA (touchA ho (inst\<lparr>iState := StateStopping,
       iLastError := ''stop has not completed; retry stop if interrupted''\<rparr>)) (\<lambda>inst.
     bindA (persistInstance ho inst) (\<lambda>_.
     bindA (recordEvent ho (iID inst) ''stop'' ''stop requested'' None) (\<lambda>_.
     bindA (resolveRuntime ho inst) (\<lambda>inst.
     bindA (stopFirecrackerWithState ho inst saveState) (\<lambda>_.
     bindA (cleanupNetworking ho inst) (\<lambda>_.
     bindA (touchA ho (inst\<lparr>iState := StateStopped, iFirecrackerPID := 0, iLastError := []\<rparr>)) (\<lambda>inst.
     bindA (persistInstance ho inst) (\<lambda>_.
     bindA (recordEvent ho (iID inst) ''stop'' ''instance stopped'' None) (\<lambda>_.
     retA inst)))))))))))"

subsection \<open>Reconciliation\<close>

definition reconcile_exit :: "'h host_ops \<Rightarrow> Instance \<Rightarrow> (bool, 'h) action" where
  "reconcile_exit ho inst =
     bindA (processExists ho (iFirecrackerPID inst)) (\<lambda>alive.
     bindA (if alive then serialLogShowsGuestHalted ho (iSerialLogPath inst) else retA False) (\<lambda>halted.
     if alive \<and> \<not> halted then retA False
     else if iStartRequestID inst \<noteq> [] \<and> \<not> alive then
       bindA (resolveRuntime ho inst) (\<lambda>inst. retA (iFirecrackerPID inst = 0))
     else
       bindA (recordEvent ho (iID inst) ''runtime''
         (if \<not> alive then ''firecracker process exited outside srv stop''
          else ''guest halted; stopping firecracker runtime'') (Some [(''pid'', decimal (nat (iFirecrackerPID inst)))])) (\<lambda>_.
       bindA (StopWithOptions ho (iName inst) False) (\<lambda>_. retA True))))"

definition reconcileRuntime :: "'h host_ops \<Rightarrow> Instance \<Rightarrow> (bool, 'h) action" where
  "reconcileRuntime ho inst =
     bindA (queryA ho (CheckCleanupFence (iID inst))) (\<lambda>_.
     bindA (if iStartRequestID inst \<noteq> [] then resolveRuntime ho inst else retA inst) (\<lambda>inst.
     if iState inst \<in> {StateStopping, StateStopped, StateDeleted, StateDeleting, StateFailed} then retA False
     else if iFirecrackerPID inst \<le> 0 then retA False
     else reconcile_exit ho inst))"

definition ReconcileInstanceRuntime :: "'h host_ops \<Rightarrow> string \<Rightarrow> (Instance, 'h) action" where
  "ReconcileInstanceRuntime ho name =
     bindA (queryA ho (GetInstance name)) (\<lambda>inst.
     bindA (reconcileRuntime ho inst) (\<lambda>_.
     queryA ho (GetInstance name)))"

subsection \<open>Readiness\<close>

definition errGuestNotReady :: error where
  "errGuestNotReady = ErrMsg ''guest never joined the tailnet before timeout''"
definition errGuestExited :: error where
  "errGuestExited = ErrMsg ''guest exited before joining the tailnet''"

definition firstNonEmpty :: "string list \<Rightarrow> string" where
  "firstNonEmpty vs = (case filter (\<lambda>v. TrimSpace v \<noteq> []) vs of [] \<Rightarrow> [] | v # _ \<Rightarrow> v)"

definition prefixBeforeDot :: "string \<Rightarrow> string" where
  "prefixBeforeDot v = fst (CutChar v (CHR ''.''))"

definition deviceIdentifier :: "tailnet_device \<Rightarrow> string" where
  "deviceIdentifier dev = (if tdNodeID dev \<noteq> [] then tdNodeID dev else tdID dev)"

fun match_device :: "string \<Rightarrow> tailnet_device list \<Rightarrow> tailnet_device option \<Rightarrow> tailnet_device option result" where
  "match_device name [] found = Inr found"
| "match_device name (dev # rest) found =
     (if EqualFold (tdHostname dev) name \<or> EqualFold (TrimSuffix (prefixBeforeDot (tdName dev)) ''.'') name then
        bindR (failIf (found \<noteq> None) (ErrMsg ''ambiguous tailnet hostname'')) (\<lambda>_. match_device name rest (Some dev))
      else match_device name rest found)"

definition findDevice :: "'h host_ops \<Rightarrow> string \<Rightarrow> (tailnet_device option, 'h) action" where
  "findDevice ho name =
     bindA (liftR (failIf (\<not> hoTailnetAPI ho) (ErrMsg ''tailscale device client is unavailable''))) (\<lambda>_.
     bindA (wrapA (ErrMsg ''list tailscale devices'') (hostA (hoDevices ho))) (\<lambda>devices.
     liftR (match_device name devices None)))"

definition currentDeviceSnapshot :: "'h host_ops \<Rightarrow> string \<Rightarrow> (string option, 'h) action" where
  "currentDeviceSnapshot ho name =
     bindA (findDevice ho name) (\<lambda>found. retA (map_option deviceIdentifier found))"

definition instanceRuntimeIdentity :: "'h host_ops \<Rightarrow> Instance \<Rightarrow> (string, 'h) action" where
  "instanceRuntimeIdentity ho inst =
     bindA (if iFirecrackerPID inst \<le> 0 then retA True
            else serialLogShowsGuestHalted ho (iSerialLogPath inst)) (\<lambda>down.
     if down then failA (ErrMsg ''guest runtime is not running'')
     else if iStartRequestID inst \<noteq> [] then
       bindA (checkedResult ho inst) (\<lambda>result.
       if spOutcome result \<noteq> StartRunning \<or> spPID result \<noteq> iFirecrackerPID inst
       then failA (ErrMsg ''runner cannot attest the recorded runtime'')
       else retA (iStartRequestID inst))
     else hostA (hoLegacyIdentity ho inst))"

text \<open>The polling loop of a warm start; \<open>turns\<close> is the number of polls before the deadline.\<close>

fun join_loop ::
  "'h host_ops \<Rightarrow> string \<Rightarrow> int \<Rightarrow> string \<Rightarrow> nat \<Rightarrow> error option \<Rightarrow> (string \<times> string, 'h) action" where
  "join_loop ho name pid previous 0 lastErr =
     failA (case lastErr of None \<Rightarrow> errGuestNotReady | Some e \<Rightarrow> ErrWrap errGuestNotReady e)"
| "join_loop ho name pid previous (Suc turns) lastErr =
     bindA (if pid > 0 then processExists ho pid else retA True) (\<lambda>alive.
     if \<not> alive then failA errGuestExited
     else bindA (tryA (findDevice ho name)) (\<lambda>r. case r of
       Inl e \<Rightarrow> join_loop ho name pid previous turns (Some e)
     | Inr None \<Rightarrow> join_loop ho name pid previous turns None
     | Inr (Some dev) \<Rightarrow>
       if deviceIdentifier dev \<noteq> previous then
         join_loop ho name pid previous turns (Some (ErrMsg ''tailnet device identity changed during warm start''))
       else bindA (tryA (hostA (hoVerifyPeer ho dev []))) (\<lambda>v. case v of
         Inl e \<Rightarrow> join_loop ho name pid previous turns (Some e)
       | Inr ip \<Rightarrow> retA (firstNonEmpty [tdHostname dev, tdName dev, name], ip))))"

definition waitForTailnetJoinAfter ::
  "'h host_ops \<Rightarrow> string \<Rightarrow> int \<Rightarrow> string \<Rightarrow> (string \<times> string, 'h) action" where
  "waitForTailnetJoinAfter ho name pid previous =
     bindA (seeA (hoTurns ho)) (\<lambda>turns. join_loop ho name pid previous turns None)"

definition orb_ready :: "'h host_ops \<Rightarrow> Instance \<Rightarrow> string \<Rightarrow> (Instance, 'h) action" where
  "orb_ready ho inst runtime =
     bindA (tryA (instanceRuntimeIdentity ho inst)) (\<lambda>current.
     if current \<noteq> Inr runtime then failA (ErrMsg ''orb runtime changed during readiness check'')
     else bindA (touchA ho (inst\<lparr>iState := StateReady, iLastError := []\<rparr>)) (\<lambda>updated.
       bindA (updateRuntime ho inst updated) (\<lambda>_.
       bindA (recordEvent ho (iID inst) ''orb'' ''orb bootstrap channel ready'' None) (\<lambda>_.
       retA updated))))"

fun orb_loop :: "'h host_ops \<Rightarrow> Instance \<Rightarrow> string \<Rightarrow> nat \<Rightarrow> (Instance, 'h) action" where
  "orb_loop ho inst runtime 0 =
     bindA (tryA (hostA (hoPing ho (iName inst)))) (\<lambda>r. case r of
       Inr _ \<Rightarrow> orb_ready ho inst runtime
     | Inl e \<Rightarrow> failA (ErrWrap (ErrMsg ''orb bootstrap channel unavailable'') e))"
| "orb_loop ho inst runtime (Suc turns) =
     bindA (tryA (hostA (hoPing ho (iName inst)))) (\<lambda>r. case r of
       Inr _ \<Rightarrow> orb_ready ho inst runtime
     | Inl _ \<Rightarrow> orb_loop ho inst runtime turns)"

definition waitForOrb :: "'h host_ops \<Rightarrow> Instance \<Rightarrow> (Instance, 'h) action" where
  "waitForOrb ho inst =
     bindA (instanceRuntimeIdentity ho inst) (\<lambda>runtime.
     bindA (seeA (hoTurns ho)) (\<lambda>turns. orb_loop ho inst runtime turns))"

definition late_peer :: "'h host_ops \<Rightarrow> Instance \<Rightarrow> (tailnet_device \<times> string, 'h) action" where
  "late_peer ho inst =
     bindA (findDevice ho (iName inst)) (\<lambda>found.
     if \<not> hasTailnetIdentity inst then hostA (hoEnrollment ho inst)
     else case found of
       None \<Rightarrow> failA (ErrMsg ''guest is not present in the tailnet; instance left intact'')
     | Some dev \<Rightarrow>
       if iTailnetNodeID inst \<noteq> [] \<and> iTailnetNodeID inst \<noteq> tdNodeID dev
       then failA (ErrMsg ''stored tailnet node identity changed'')
       else bindA (hostA (hoVerifyPeer ho dev (iTailscaleIP inst))) (\<lambda>ip. retA (dev, ip)))"

definition reconcileLateTailnetJoin :: "'h host_ops \<Rightarrow> Instance \<Rightarrow> (bool \<times> Instance, 'h) action" where
  "reconcileLateTailnetJoin ho inst =
     (if iState inst \<noteq> StateAwaitingTailnet then retA (False, inst)
      else
        bindA (instanceRuntimeIdentity ho inst) (\<lambda>runtime.
        bindA (late_peer ho inst) (\<lambda>(dev, ip).
        bindA (tryA (instanceRuntimeIdentity ho inst)) (\<lambda>current.
        if current \<noteq> Inr runtime
        then failA (ErrWrap (ErrMsg ''guest runtime changed during readiness check'') errGuestNotReady)
        else bindA (touchA ho (inst\<lparr>iState := StateReady, iTailnetNodeID := tdNodeID dev,
            iTailscaleName := firstNonEmpty [tdHostname dev, tdName dev, iName inst], iTailscaleIP := ip,
            iLastError := []\<rparr>)) (\<lambda>updated.
          bindA (updateRuntime ho inst updated) (\<lambda>_.
          bindA (queryA ho (GetInstance (iName inst))) (\<lambda>inst.
          bindA (recordEvent ho (iID inst) ''tailnet''
            ''guest joined the tailnet after readiness timeout; state reconciled on demand''
            (Some [(''tailscale_name'', iTailscaleName inst), (''tailscale_ip'', iTailscaleIP inst)])) (\<lambda>_.
          retA (True, inst)))))))))"

subsection \<open>Admission of a start\<close>

definition envA :: "'h host_ops \<Rightarrow> (host_env \<Rightarrow> db \<Rightarrow> 'a result) \<Rightarrow> ('a, 'h) action" where
  "envA ho f = bindA (seeA (hoEnv ho)) (\<lambda>env. queryA ho (f env))"

definition applyConfiguredBootArtifacts :: "Instance \<Rightarrow> Instance" where
  "applyConfiguredBootArtifacts inst =
     inst\<lparr>iKernelPath := TrimSpace (iKernelPath inst), iInitrdPath := TrimSpace (iInitrdPath inst)\<rparr>"

definition ensureStartPrereqs :: "bool \<Rightarrow> host_env \<Rightarrow> Instance \<Rightarrow> unit result" where
  "ensureStartPrereqs tailnetAPI env inst =
     bindR (upgradeFence env (iName inst)) (\<lambda>_.
     bindR (failIf (iState inst = StateStopping)
       (ErrMsg ''instance has an incomplete stop; retry stop before starting'')) (\<lambda>_.
     bindR (failIf (iState inst = StateDeleted) (ErrMsg ''instance is deleted'')) (\<lambda>_.
     bindR (failIf (iState inst = StateDeleting) (ErrMsg ''instance is being deleted'')) (\<lambda>_.
     bindR (failIf (KindName inst \<noteq> KindOrb \<and> \<not> tailnetAPI)
       (ErrMsg ''start requires TS_TAILNET and TS_CLIENT_SECRET so the control plane can observe guest tailnet readiness'')) (\<lambda>_.
     bindR (mapR (\<lambda>path. bindR (failIf (path = []) (ErrMsg ''instance is missing required runtime paths''))
         (\<lambda>_. wrapE ''required file'' (heStat env path)))
       [iKernelPath inst, iRootFSPath inst]) (\<lambda>_.
     if iInitrdPath inst \<noteq> [] then bindR (wrapE ''required file'' (heStat env (iInitrdPath inst))) (\<lambda>_. Inr ())
     else Inr ()))))))"

definition ensureDiskLayout :: "'h host_ops \<Rightarrow> Instance \<Rightarrow> (Instance, 'h) action" where
  "ensureDiskLayout ho inst =
     bindA (hostA (hoDiskLayout ho inst)) (\<lambda>canonical.
     bindA (if iRootFSPath inst \<noteq> canonical then
         bindA (touchA ho (inst\<lparr>iRootFSPath := canonical\<rparr>)) (\<lambda>updated.
         bindA (persistInstance ho updated) (\<lambda>_. retA updated))
       else retA inst) (\<lambda>inst.
     bindA (hostA (hoLayoutDone ho inst)) (\<lambda>_. retA inst)))"

definition start_memory :: "'h host_ops \<Rightarrow> Config \<Rightarrow> Instance \<Rightarrow> (MemoryPool option, 'h) action" where
  "start_memory ho c inst =
     wrapA ErrStartRejected
       (if UsesMemoryPool inst then
          bindA (queryA ho (requireMemoryPoolForInstance inst)) (\<lambda>pool.
          bindA (liftR (ensureMemoryPoolSupportsGuestMemory pool (effectiveMemoryMiB c (iMemoryMiB inst)))) (\<lambda>_.
          retA (Some pool)))
        else
          bindA (envA ho (\<lambda>env. ensureHostMemoryCapacity env c (iName inst) (effectiveMemoryMiB c (iMemoryMiB inst))))
            (\<lambda>_. retA None))"

definition start_admit :: "'h host_ops \<Rightarrow> Config \<Rightarrow> string \<Rightarrow> (Instance \<times> MemoryPool option, 'h) action" where
  "start_admit ho c name =
     bindA (envA ho (\<lambda>env. migrationFence env name)) (\<lambda>_.
     bindA (queryA ho (GetInstance name)) (\<lambda>current.
     bindA (reconcileRuntime ho current) (\<lambda>_.
     bindA (queryA ho (GetInstance name)) (\<lambda>current.
     let current = applyConfiguredBootArtifacts current in
     bindA (liftR (failIf (iState current = StateProvisioning) (ErrMsg ''instance is already starting''))) (\<lambda>_.
     bindA (wrapA ErrStartRejected (envA ho (\<lambda>env _. ensureHostDiskCapacity env c))) (\<lambda>_.
     bindA (ensureDiskLayout ho current) (\<lambda>current.
     bindA (wrapA ErrStartRejected (bindA (seeA (hoEnv ho))
       (\<lambda>env. liftR (ensureStartPrereqs (hoTailnetAPI ho) env current)))) (\<lambda>_.
     bindA (processExists ho (iFirecrackerPID current)) (\<lambda>alive.
     bindA (liftR (failIf alive (ErrMsg ''instance is already running''))) (\<lambda>_.
     bindA (start_memory ho c current) (\<lambda>pool.
     bindA (touchA ho (current\<lparr>iState := StateProvisioning, iFirecrackerPID := 0, iLastError := []\<rparr>)) (\<lambda>current.
     bindA (persistInstance ho current) (\<lambda>_.
     retA (current, pool))))))))))))))"

subsection \<open>The launch\<close>

definition joinE :: "error \<Rightarrow> error option \<Rightarrow> error" where
  "joinE e extra = (case extra of None \<Rightarrow> e | Some e' \<Rightarrow> ErrWrap e e')"

definition kernelArgs :: "string \<Rightarrow> string" where
  "kernelArgs extra =
     (let base = ''console=ttyS0 reboot=k panic=1 root=/dev/vda rw TERM=dumb i8042.dumbkbd'';
          fields = filter (\<lambda>f. f \<noteq> []) (SplitChar (CHR '' '') (map (\<lambda>ch. if is_space ch then CHR '' '' else ch) extra))
      in concat (base # map (\<lambda>f. '' '' @ f) fields))"

definition start_request ::
  "Config \<Rightarrow> Instance \<Rightarrow> MemoryPool option \<Rightarrow> Bootstrap \<Rightarrow> bool \<Rightarrow> StartRequest" where
  "start_request c inst pool bootstrap discard =
     \<lparr>srqDiscardState = discard, srqKind = KindName inst, srqKernelPath = iKernelPath inst,
      srqInitrdPath = iInitrdPath inst, srqInstanceID = iID inst, srqRequestID = iStartRequestID inst,
      srqHostBootID = iStartBootID inst, srqName = iName inst, srqTapDevice = iTapDevice inst,
      srqGuestMAC = iGuestMAC inst, srqGuestAddr = iGuestAddr inst, srqGatewayAddr = iGatewayAddr inst,
      srqNameservers = cfgVMDNSServers c, srqVCPUCount = effectiveVCPUCount c (iVCPUCount inst),
      srqMemoryMiB = effectiveMemoryMiB c (iMemoryMiB inst), srqMemoryMode = NormalizedMemoryMode inst,
      srqMemoryPoolName = (case pool of None \<Rightarrow> [] | Some p \<Rightarrow> pName p),
      srqMemoryPoolSizeBytes = (case pool of None \<Rightarrow> 0 | Some p \<Rightarrow> pReservedBytes p),
      srqKernelArgs = kernelArgs (cfgExtraKernelArgs c),
      srqBootstrap = (if btTailscaleAuthKey bootstrap \<noteq> []
        then bootstrap\<lparr>btEnrollmentNonce := iStartRequestID inst\<rparr> else bootstrap)\<rparr>"

text \<open>The decision on the outcome; the instance carries the error that is to be stored.\<close>

definition start_verdict ::
  "'h host_ops \<Rightarrow> Instance \<Rightarrow> StartResponse \<Rightarrow> error option \<Rightarrow> (Instance \<times> int result, 'h) action" where
  "start_verdict ho inst resp err =
     (if spOutcome resp = StartRunning \<and> spPID resp > 0 then retA (inst, Inr (spPID resp))
      else if spOutcome resp = StartAbsent then
        retA (inst, Inl (joinE (ErrWrap (ErrMsg ''start was fenced without a runtime'') (ErrMsg (spReason resp))) err))
      else
        let e = ErrWrap (joinE ErrStartUncertain err) (ErrMsg (spReason resp));
            inst = inst\<lparr>iLastError := error_text e\<rparr>
        in bindA (tryA (persistInstance ho inst)) (\<lambda>r. case r of
             Inl e' \<Rightarrow> retA (inst, Inl (ErrWrap e e'))
           | Inr _ \<Rightarrow> retA (inst, Inl e)))"

definition startFirecracker ::
  "'h host_ops \<Rightarrow> Config \<Rightarrow> Instance \<Rightarrow> MemoryPool option \<Rightarrow> Bootstrap \<Rightarrow> bool \<Rightarrow> (Instance \<times> int result, 'h) action" where
  "startFirecracker ho c inst pool bootstrap discard =
     bindA (tryA (hostA (hoBootID ho))) (\<lambda>boot. case boot of
       Inl e \<Rightarrow> retA (inst, Inl e)
     | Inr bootID \<Rightarrow>
       bindA (seeA (hoNewID ho)) (\<lambda>newID.
       bindA (touchA ho (inst\<lparr>iStartRequestID := newID, iStartBootID := TrimSpace bootID\<rparr>)) (\<lambda>inst.
       bindA (tryA (persistInstance ho inst)) (\<lambda>stored. case stored of
         Inl e \<Rightarrow> retA (inst, Inl e)
       | Inr _ \<Rightarrow>
         bindA (tryA (hostA (hoStart ho (start_request c inst pool bootstrap discard)))) (\<lambda>r. case r of
           Inr resp \<Rightarrow> start_verdict ho inst resp None
         | Inl e \<Rightarrow>
           bindA (startResult ho inst) (\<lambda>(resp, resolveErr).
           start_verdict ho inst resp (Some (joinE e resolveErr))))))))"

subsection \<open>Starting\<close>

text \<open>What the body of \<open>StartWithOptions\<close> leaves to its deferred function after admission: whether
  cleaning up is still allowed, the instance and the error.\<close>

record start_end =
  seCleanup :: bool
  seInst :: Instance
  seErr :: "error option"

definition failed_start :: "Instance \<Rightarrow> error \<Rightarrow> (start_end, 'h) action" where
  "failed_start inst e = retA \<lparr>seCleanup = True, seInst = inst, seErr = Some e\<rparr>"

definition noted :: "Instance \<Rightarrow> error \<Rightarrow> Instance" where
  "noted inst e = inst\<lparr>iLastError := error_text e\<rparr>"

definition previous_device :: "'h host_ops \<Rightarrow> Instance \<Rightarrow> (Instance, 'h) action" where
  "previous_device ho inst =
     (if KindName inst = KindOrb then retA inst
      else bindA (currentDeviceSnapshot ho (iName inst)) (\<lambda>previous.
        if iTailnetNodeID inst \<noteq> [] then
          (if previous \<noteq> None \<and> previous \<noteq> Some (iTailnetNodeID inst)
           then failA (ErrMsg ''stored tailnet node identity changed'') else retA inst)
        else case previous of
          None \<Rightarrow> failA (ErrMsg ''warm start requires an existing tailnet device identity'')
        | Some device \<Rightarrow> retA (inst\<lparr>iTailnetNodeID := device\<rparr>)))"

definition start_bootstrap :: "Config \<Rightarrow> Instance \<Rightarrow> Bootstrap" where
  "start_bootstrap c inst =
     \<lparr>btVersion = 1, btHostname = iName inst, btEnrollmentNonce = [], btTailscaleAuthKey = [],
      btTailscaleControlURL = cfgGuestTailscaleControlURL c, btTailscaleTags = cfgGuestAuthTags c,
      btZenGatewayPort = (if TrimSpace (cfgZenAPIKey c) \<noteq> [] then cfgZenGatewayPort c else 0),
      btDeepSeekGatewayPort = (if TrimSpace (cfgDeepSeekAPIKey c) \<noteq> [] then cfgDeepSeekGatewayPort c else 0)\<rparr>"

definition await_join :: "'h host_ops \<Rightarrow> Instance \<Rightarrow> (string \<times> string, 'h) action" where
  "await_join ho inst =
     bindA (instanceRuntimeIdentity ho inst) (\<lambda>runtime.
     bindA (waitForTailnetJoinAfter ho (iName inst) (iFirecrackerPID inst) (iTailnetNodeID inst)) (\<lambda>joined.
     bindA (tryA (instanceRuntimeIdentity ho inst)) (\<lambda>current.
     if current \<noteq> Inr runtime then failA (ErrMsg ''guest runtime changed during readiness check'')
     else retA joined)))"

text \<open>After the launch nothing is cleaned up any more; an orb waits for its channel, a virtual machine
  for its tailnet identity.\<close>

definition started_ready :: "'h host_ops \<Rightarrow> Instance \<Rightarrow> (Instance \<times> error option, 'h) action" where
  "started_ready ho observed =
     bindA (tryA (await_join ho observed)) (\<lambda>r. case r of
       Inl e \<Rightarrow>
         bindA (touchA ho (noted observed e)) (\<lambda>inst.
         bindA (tryA (updateRuntime ho observed inst)) (\<lambda>stored. case stored of
           Inl e' \<Rightarrow> retA (inst, Some (ErrWrap e e'))
         | Inr _ \<Rightarrow>
           bindA (recordEvent ho (iID inst) ''tailnet''
             ''guest readiness incomplete after start; retry start to check the existing guest''
             (Some [(''error'', error_text e)])) (\<lambda>_.
           retA (inst, Some e))))
     | Inr (tailscaleName, tailscaleIP) \<Rightarrow>
         bindA (touchA ho (observed\<lparr>iState := StateReady, iTailscaleName := tailscaleName,
           iTailscaleIP := tailscaleIP, iLastError := []\<rparr>)) (\<lambda>inst.
         bindA (tryA (updateRuntime ho observed inst)) (\<lambda>stored. case stored of
           Inl e \<Rightarrow> retA (noted observed e, Some e)
         | Inr _ \<Rightarrow>
           bindA (recordEvent ho (iID inst) ''tailnet'' ''guest rejoined the tailnet''
             (Some [(''tailscale_name'', tailscaleName), (''tailscale_ip'', tailscaleIP)])) (\<lambda>_.
           retA (inst, None)))))"

definition started :: "'h host_ops \<Rightarrow> Instance \<Rightarrow> int \<Rightarrow> (start_end, 'h) action" where
  "started ho inst pid =
     bindA (touchA ho (inst\<lparr>iState := awaitingState inst, iFirecrackerPID := pid, iLastError := []\<rparr>)) (\<lambda>inst.
     bindA (tryA (persistInstance ho inst)) (\<lambda>stored. case stored of
       Inl e \<Rightarrow> retA \<lparr>seCleanup = False, seInst = noted inst e, seErr = Some e\<rparr>
     | Inr _ \<Rightarrow>
       bindA (recordEvent ho (iID inst) ''firecracker'' ''microVM started''
         (Some [(''pid'', decimal (nat pid))])) (\<lambda>_.
       if KindName inst = KindOrb then
         bindA (tryA (waitForOrb ho inst)) (\<lambda>r. case r of
           Inl e \<Rightarrow> retA \<lparr>seCleanup = False, seInst = inst, seErr = Some e\<rparr>
         | Inr inst \<Rightarrow> retA \<lparr>seCleanup = False, seInst = inst, seErr = None\<rparr>)
       else bindA (started_ready ho inst) (\<lambda>(inst, err).
         retA \<lparr>seCleanup = False, seInst = inst, seErr = err\<rparr>))))"

definition start_body ::
  "'h host_ops \<Rightarrow> Config \<Rightarrow> Instance \<Rightarrow> MemoryPool option \<Rightarrow> bool \<Rightarrow> (start_end, 'h) action" where
  "start_body ho c inst pool discard =
     bindA (tryA (previous_device ho inst)) (\<lambda>r. case r of
       Inl e \<Rightarrow> failed_start inst e
     | Inr inst \<Rightarrow>
       bindA (tryA (wrapA (ErrMsg ''cleanup stale networking before start'') (cleanupNetworking ho inst))) (\<lambda>r. case r of
         Inl e \<Rightarrow> failed_start inst e
       | Inr _ \<Rightarrow>
         bindA (tryA (hostA (hoPermissions ho inst))) (\<lambda>r. case r of
           Inl e \<Rightarrow> failed_start inst e
         | Inr _ \<Rightarrow>
           bindA (recordEvent ho (iID inst) ''start'' ''start requested'' None) (\<lambda>_.
           bindA (tryA (setupNetworking ho inst)) (\<lambda>r. case r of
             Inl e \<Rightarrow> failed_start (noted inst e) e
           | Inr _ \<Rightarrow>
             bindA (recordEvent ho (iID inst) ''network'' ''tap device and NAT configured''
               (Some [(''tap'', iTapDevice inst), (''network'', iNetworkCIDR inst)])) (\<lambda>_.
             bindA (startFirecracker ho c inst pool (start_bootstrap c inst) discard) (\<lambda>(inst, r). case r of
               Inl e \<Rightarrow> failed_start (noted inst e) e
             | Inr pid \<Rightarrow> started ho inst pid)))))))"

definition start_deferred :: "'h host_ops \<Rightarrow> start_end \<Rightarrow> (Instance, 'h) action" where
  "start_deferred ho s =
     (let uncertain = (case seErr s of None \<Rightarrow> False | Some e \<Rightarrow> errors_is e ErrStartUncertain);
          finish = (\<lambda>inst. case seErr s of None \<Rightarrow> retA inst | Some e \<Rightarrow> failA e)
      in
      if seCleanup s \<and> \<not> uncertain then
        bindA (ignoreA (cleanupNetworking ho (seInst s))) (\<lambda>_.
        bindA (touchA ho ((seInst s)\<lparr>iState := StateStopped, iFirecrackerPID := 0,
          iLastError := firstNonEmpty [iLastError (seInst s), ''start failed'']\<rparr>)) (\<lambda>inst.
        bindA (ignoreA (persistInstance ho inst)) (\<lambda>_. finish inst)))
      else finish (seInst s))"

definition existing_runtime :: "'h host_ops \<Rightarrow> Instance \<Rightarrow> (Instance option, 'h) action" where
  "existing_runtime ho inst =
     bindA (processExists ho (iFirecrackerPID inst)) (\<lambda>alive.
     if KindName inst = KindOrb \<and> iState inst = StateAwaitingGuest \<and> alive then
       bindA (waitForOrb ho inst) (\<lambda>inst. retA (Some inst))
     else
       bindA (if iState inst = StateAwaitingTailnet \<and> alive then reconcileLateTailnetJoin ho inst
              else retA (False, inst)) (\<lambda>(reconciled, inst).
       if reconciled then retA (Some inst)
       else bindA (processExists ho (iFirecrackerPID inst)) (\<lambda>alive.
         if alive then failA (ErrMsg ''instance is already running'') else retA None)))"

definition StartWithOptions :: "'h host_ops \<Rightarrow> Config \<Rightarrow> string \<Rightarrow> bool \<Rightarrow> (Instance, 'h) action" where
  "StartWithOptions ho c name discard =
     bindA (envA ho (\<lambda>env. migrationFence env name)) (\<lambda>_.
     bindA (ReconcileInstanceRuntime ho name) (\<lambda>inst.
     bindA (existing_runtime ho (applyConfiguredBootArtifacts inst)) (\<lambda>finished. case finished of
       Some inst \<Rightarrow> retA inst
     | None \<Rightarrow>
       bindA (hostA (hoHydrate ho (applyConfiguredBootArtifacts inst))) (\<lambda>_.
       bindA (start_admit ho c name) (\<lambda>(inst, pool).
       bindA (start_body ho c inst pool discard) (\<lambda>s. start_deferred ho s))))))"

subsection \<open>Restoring after a restart of the control plane\<close>

definition restoreInstance :: "'h host_ops \<Rightarrow> Config \<Rightarrow> Instance \<Rightarrow> (unit, 'h) action" where
  "restoreInstance ho c inst =
     bindA (envA ho (\<lambda>env. migrationFence env (iName inst))) (\<lambda>_.
     let autoStart = shouldAutoStartAfterStartup inst in
     bindA (resolveRuntime ho inst) (\<lambda>inst.
     if iState inst = StateStopping \<or> iState inst = StateDeleting then retA ()
     else
       bindA (processExists ho (iFirecrackerPID inst)) (\<lambda>alive.
       bindA (if alive then serialLogShowsGuestHalted ho (iSerialLogPath inst) else retA False) (\<lambda>halted.
       if alive \<and> \<not> halted then retA ()
       else
         bindA (if iFirecrackerPID inst \<noteq> 0
           then wrapA (ErrMsg ''stop stale runtime before restore'') (StopWithOptions ho (iName inst) False)
           else retA inst) (\<lambda>inst.
         if \<not> autoStart then retA ()
         else if KindName inst \<noteq> KindOrb \<and> \<not> hasTailnetIdentity inst then
           recordEvent ho (iID inst) ''startup''
             ''instance was left offline after control-plane startup because it never completed initial tailnet bootstrap'' None
         else
           bindA (recordEvent ho (iID inst) ''startup''
             ''restarting instance automatically after control-plane startup'' None) (\<lambda>_.
           bindA (tryA (StartWithOptions ho c (iName inst) False)) (\<lambda>r. case r of
             Inr _ \<Rightarrow> retA ()
           | Inl e \<Rightarrow>
             bindA (recordEvent ho (iID inst) ''startup'' ''automatic restart after control-plane startup failed''
               (Some [(''error'', error_text e)])) (\<lambda>_. failA e))))))))"

definition RestoreInstance :: "'h host_ops \<Rightarrow> Config \<Rightarrow> string \<Rightarrow> (unit, 'h) action" where
  "RestoreInstance ho c name =
     bindA (queryA ho (GetInstance name)) (\<lambda>inst. restoreInstance ho c inst)"

end
