(* ===== verification/NetText.thy ===== *)
theory NetText
  imports Network
begin

section \<open>Addresses and names in requests\<close>

text \<open>
  The checks on the text of network requests that the helpers share: the parts of Go's \<open>net\<close> and
  \<open>net/netip\<close> that decide whether a text is an address, a prefix or a hardware address, and the
  pattern of interface names of src/internal/nethelper/nethelper.go and src/internal/vmrunner/vmrunner.go.
\<close>

subsection \<open>Addresses\<close>

definition is_hex :: "char \<Rightarrow> bool" where
  "is_hex ch \<longleftrightarrow> is_digit ch \<or> (CHR ''a'' \<le> ch \<and> ch \<le> CHR ''f'') \<or> (CHR ''A'' \<le> ch \<and> ch \<le> CHR ''F'')"

text \<open>The end of \<open>parseIPv6\<close>: an ellipsis stands for at least one group of zeros.\<close>

definition ipv6_end :: "nat \<Rightarrow> bool \<Rightarrow> bool" where
  "ipv6_end i ellipsis = (if i < 16 then ellipsis else \<not> ellipsis)"

function ipv6_groups :: "string \<Rightarrow> nat \<Rightarrow> bool \<Rightarrow> bool" where
  "ipv6_groups s i ellipsis =
     (if i \<ge> 16 then s = [] \<and> \<not> ellipsis
      else let digits = takeWhile is_hex s; rest = dropWhile is_hex s in
        if digits = [] \<or> length digits > 4 then False
        else case rest of
          [] \<Rightarrow> ipv6_end (i + 2) ellipsis
        | ch # more_ \<Rightarrow>
          if ch = CHR ''.'' then (ellipsis \<or> i = 12) \<and> i + 4 \<le> 16 \<and> parse_ipv4 s \<noteq> None \<and> ipv6_end (i + 4) ellipsis
          else if ch \<noteq> CHR '':'' then False
          else case more_ of
            [] \<Rightarrow> False
          | ch' # after \<Rightarrow>
            if ch' = CHR '':'' then \<not> ellipsis \<and> (if after = [] then ipv6_end (i + 2) True else ipv6_groups after (i + 2) True)
            else ipv6_groups more_ (i + 2) ellipsis)"
  by pat_completeness auto

termination ipv6_groups
  by (relation "measure (\<lambda>(s, i, e). 16 - i)") auto

declare ipv6_groups.simps [simp del]

definition parse_ipv6 :: "string \<Rightarrow> bool" where
  "parse_ipv6 s =
     (case s of
       (c1 # c2 # rest) \<Rightarrow>
         if c1 = CHR '':'' \<and> c2 = CHR '':'' then rest = [] \<or> ipv6_groups rest 0 True else ipv6_groups s 0 False
     | _ \<Rightarrow> ipv6_groups s 0 False)"

text \<open>The first separator decides the family; an address with a zone is refused by \<open>net.ParseIP\<close> and
  \<open>net.ParseCIDR\<close>, and a text with a zone has a percent sign.\<close>

definition first_separator :: "string \<Rightarrow> char option" where
  "first_separator s = find (\<lambda>ch. ch \<in> {CHR ''.'', CHR '':'', CHR ''%''}) s"

definition address_bits :: "string \<Rightarrow> nat option" where
  "address_bits s =
     (case first_separator s of
       Some ch \<Rightarrow>
         if ch = CHR ''.'' then (if parse_ipv4 s \<noteq> None then Some 32 else None)
         else if ch = CHR '':'' \<and> CHR ''%'' \<notin> set s \<and> parse_ipv6 s then Some 128 else None
     | None \<Rightarrow> None)"

definition ParseIP :: "string \<Rightarrow> bool" where
  "ParseIP s \<longleftrightarrow> address_bits s \<noteq> None"

definition ParseCIDR_any :: "string \<Rightarrow> bool" where
  "ParseCIDR_any s =
     (let (addr, mask, found) = CutChar s (CHR ''/'') in
      case address_bits addr of
        None \<Rightarrow> False
      | Some bits \<Rightarrow> found \<and> mask \<noteq> [] \<and> list_all is_digit mask \<and> digits_val 0 mask \<le> bits)"

definition hex_groups :: "char \<Rightarrow> nat \<Rightarrow> nat set \<Rightarrow> string \<Rightarrow> bool" where
  "hex_groups sep width counts s =
     (let gs = SplitChar sep s in length gs \<in> counts \<and> list_all (\<lambda>g. length g = width \<and> list_all is_hex g) gs)"

definition ParseMAC :: "string \<Rightarrow> bool" where
  "ParseMAC s \<longleftrightarrow> length s \<ge> 14 \<and>
     (if s ! 2 \<in> {CHR '':'', CHR ''-''} then hex_groups (s ! 2) 2 {6, 8, 20} s
      else s ! 4 = CHR ''.'' \<and> hex_groups (CHR ''.'') 4 {3, 4, 10} s)"

subsection \<open>Interface names\<close>

definition ifaceName :: "string \<Rightarrow> bool" where
  "ifaceName s \<longleftrightarrow> 1 \<le> length s \<and> length s \<le> 15 \<and>
     list_all (\<lambda>ch. is_digit ch \<or> (CHR ''a'' \<le> ch \<and> ch \<le> CHR ''z'') \<or> (CHR ''A'' \<le> ch \<and> ch \<le> CHR ''Z'') \<or>
       ch \<in> set ''_.:-'') s"

definition validateAbsolutePath :: "string \<Rightarrow> string \<Rightarrow> bool \<Rightarrow> unit result" where
  "validateAbsolutePath label path allowEmpty =
     (let path = TrimSpace path in
      if path = [] then failIf (\<not> allowEmpty) (ErrMsg (label @ '' is required''))
      else failIf (\<not> IsAbs path) (ErrMsg (label @ '' must be absolute'')))"

text \<open>The two parsers of a prefix agree on IPv4.\<close>

lemma address_bits_ipv4: "parse_ipv4 s \<noteq> None \<Longrightarrow> CHR ''.'' \<in> set s"
proof (rule ccontr)
  assume s: "parse_ipv4 s \<noteq> None" "\<not> CHR ''.'' \<in> set s"
  have "CHR ''.'' \<notin> set s \<Longrightarrow> SplitChar (CHR ''.'') s = [s]" by (induction s) auto
  with s show False by (simp add: parse_ipv4_def split: option.splits)
qed

end
