(* ===== verification/RuntimeHost.thy ===== *)
theory RuntimeHost
  imports Runtime NetText
begin

section \<open>The control plane and its runner together\<close>

text \<open>
  The client of src/internal/vmrunner/vmrunner.go and receipts.go joins the two sides: a call of the
  provisioner is a request to the runner over a connection that may lose the request or the reply,
  and the runner answers from its receipts. \<open>runner_ops\<close> is the host of the theory \<open>Runtime\<close> built
  that way; everything else the host answers comes from an arbitrary sequence \<open>ora\<close>, one entry per
  call.
\<close>

subsection \<open>The client\<close>

datatype post_fate = Delivered | LostRequest error | LostReply error

definition zero_response :: StartResponse where
  "zero_response = \<lparr>spOutcome = [], spReason = [], spPID = 0\<rparr>"

text \<open>What the rest of the host answers to one call.\<close>

record host_answer =
  haFault :: "error option"
  haNow :: time
  haNewID :: string
  haEnv :: host_env
  haText :: "string result"
  haPost :: post_fate
  haView :: runtime_view
  haNetDone :: bool
  haUnit :: "unit result"
  haDevices :: "tailnet_device list result"
  haEnrollment :: "(tailnet_device \<times> string) result"
  haTurns :: nat

text \<open>The durable state outside the database: the receipts of every name and the identifiers of the
  instances whose network is configured; \<open>rhStep\<close> counts the calls.\<close>

record runner_host =
  rhStep :: nat
  rhDirs :: "string \<Rightarrow> receipt_dir"
  rhNet :: "string list"

type_synonym answers = "nat \<Rightarrow> host_answer"

definition tick :: "runner_host \<Rightarrow> runner_host" where
  "tick h = h\<lparr>rhStep := Suc (rhStep h)\<rparr>"

definition observe :: "answers \<Rightarrow> (host_answer \<Rightarrow> 'a) \<Rightarrow> runner_host \<Rightarrow> 'a \<times> runner_host" where
  "observe ora sel h = (sel (ora (rhStep h)), tick h)"

definition post ::
  "host_answer \<Rightarrow> string \<Rightarrow> (receipt_dir \<Rightarrow> 'a result \<times> receipt_dir) \<Rightarrow> runner_host \<Rightarrow> 'a result \<times> runner_host" where
  "post a name f h =
     (case haPost a of
       LostRequest e \<Rightarrow> (Inl e, tick h)
     | Delivered \<Rightarrow> (case f (rhDirs h name) of (r, dir) \<Rightarrow> (r, tick (h\<lparr>rhDirs := (rhDirs h)(name := dir)\<rparr>)))
     | LostReply e \<Rightarrow> (case f (rhDirs h name) of (r, dir) \<Rightarrow> (Inl e, tick (h\<lparr>rhDirs := (rhDirs h)(name := dir)\<rparr>))))"

definition StartRequest_Validate :: "StartRequest \<Rightarrow> unit result" where
  "StartRequest_Validate r =
     bindR (failIf (srqKind r \<notin> {[], ''vm'', ''orb''}) (ErrMsg ''invalid instance kind'')) (\<lambda>_.
     bindR (validateAbsolutePath ''kernel path'' (srqKernelPath r) True) (\<lambda>_.
     bindR (validateAbsolutePath ''initrd path'' (srqInitrdPath r) True) (\<lambda>_.
     bindR (if srqRequestID r \<noteq> [] then StartResultRequest_Validate (start_attempt r) else Inr ()) (\<lambda>_.
     bindR (failIf (\<not> validName (TrimSpace (srqName r))) (ErrMsg ''invalid instance name'')) (\<lambda>_.
     bindR (failIf (\<not> ifaceName (TrimSpace (srqTapDevice r))) (ErrMsg ''tap device is invalid'')) (\<lambda>_.
     bindR (failIf (\<not> ParseMAC (TrimSpace (srqGuestMAC r))) (ErrMsg ''guest mac is invalid'')) (\<lambda>_.
     bindR (failIf (\<not> ParseCIDR_any (TrimSpace (srqGuestAddr r))) (ErrMsg ''guest addr is invalid'')) (\<lambda>_.
     bindR (failIf (\<not> ParseIP (TrimSpace (srqGatewayAddr r))) (ErrMsg ''gateway addr is invalid'')) (\<lambda>_.
     bindR (failIf (\<not> list_all (\<lambda>ns. ParseIP (TrimSpace ns)) (srqNameservers r)) (ErrMsg ''nameserver is invalid'')) (\<lambda>_.
     bindR (failIf (srqVCPUCount r < 1) (ErrMsg ''vcpu count must be >= 1'')) (\<lambda>_.
     bindR (failIf (srqMemoryMiB r < 1) (ErrMsg ''memory MiB must be >= 1'')) (\<lambda>_.
     bindR (if NormalizeMemoryMode (srqMemoryMode r) = MemoryModePool then
         bindR (failIf (\<not> validName (TrimSpace (srqMemoryPoolName r))) (ErrMsg ''memory pool name is invalid'')) (\<lambda>_.
         failIf (srqMemoryPoolSizeBytes r < 1) (ErrMsg ''memory pool size bytes must be >= 1''))
       else Inr ()) (\<lambda>_.
     failIf (srqKind r \<noteq> ''orb'' \<and> TrimSpace (btHostname (srqBootstrap r)) = [])
       (ErrMsg ''bootstrap hostname is required''))))))))))))))"

definition StartInstanceVM :: "codec \<Rightarrow> answers \<Rightarrow> StartRequest \<Rightarrow> runner_host \<Rightarrow> StartResponse result \<times> runner_host" where
  "StartInstanceVM cd ora req h =
     (let a = ora (rhStep h) in
      case StartRequest_Validate req of
        Inl e \<Rightarrow> (Inl e, tick h)
      | Inr _ \<Rightarrow>
        (case post a (srqName req) (receiptStart cd (haView a) req) h of
          (Inl e, h') \<Rightarrow> (Inl e, h')
        | (Inr resp, h') \<Rightarrow>
          (if srqRequestID req \<noteq> [] then bindR (validateStartResponse resp) (\<lambda>_. Inr resp) else Inr resp, h')))"

definition ResolveInstanceStart ::
  "codec \<Rightarrow> answers \<Rightarrow> StartResultRequest \<Rightarrow> runner_host \<Rightarrow> (StartResponse \<times> error option) \<times> runner_host" where
  "ResolveInstanceStart cd ora q h =
     (let a = ora (rhStep h) in
      case StartResultRequest_Validate q of
        Inl e \<Rightarrow> ((zero_response, Some e), tick h)
      | Inr _ \<Rightarrow>
        (case post a (sqName q) (resolveStart cd (haView a) q) h of
          (Inl e, h') \<Rightarrow> ((zero_response, Some e), h')
        | (Inr resp, h') \<Rightarrow>
          ((resp, case validateStartResponse resp of Inl e \<Rightarrow> Some e | Inr _ \<Rightarrow> None), h')))"

definition StopRequest_Validate :: "StopRequest \<Rightarrow> unit result" where
  "StopRequest_Validate r =
     bindR (if tqRequestID r \<noteq> [] then StartResultRequest_Validate (stop_attempt r) else Inr ()) (\<lambda>_.
     bindR (failIf (\<not> validName (TrimSpace (tqName r))) (ErrMsg ''invalid instance name'')) (\<lambda>_.
     failIf (tqPID r < 0) (ErrMsg ''pid is invalid'')))"

definition StopInstanceVM :: "codec \<Rightarrow> answers \<Rightarrow> StopRequest \<Rightarrow> runner_host \<Rightarrow> unit result \<times> runner_host" where
  "StopInstanceVM cd ora req h =
     (let a = ora (rhStep h) in
      case StopRequest_Validate req of
        Inl e \<Rightarrow> (Inl e, tick h)
      | Inr _ \<Rightarrow> post a (tqName req) (receiptStop cd (haView a) req) h)"

text \<open>The network helper may have done its work whatever it reports.\<close>

definition change_net :: "answers \<Rightarrow> (string list \<Rightarrow> string list) \<Rightarrow> runner_host \<Rightarrow> unit result \<times> runner_host" where
  "change_net ora f h =
     (let a = ora (rhStep h) in (haUnit a, tick (if haNetDone a then h\<lparr>rhNet := f (rhNet h)\<rparr> else h)))"

definition runner_ops :: "codec \<Rightarrow> answers \<Rightarrow> runner_host host_ops" where
  "runner_ops cd ora =
     \<lparr>hoFault = observe ora haFault, hoNow = observe ora haNow, hoNewID = observe ora haNewID,
      hoEnv = observe ora haEnv, hoSerial = (\<lambda>_. observe ora haText), hoBootID = observe ora haText,
      hoStart = StartInstanceVM cd ora, hoResolve = ResolveInstanceStart cd ora, hoStop = StopInstanceVM cd ora,
      hoCleanNet = (\<lambda>inst _ _. change_net ora (removeAll inst)),
      hoSetupNet = (\<lambda>inst _ _ _. change_net ora (\<lambda>net. inst # net)),
      hoHydrate = (\<lambda>_. observe ora haUnit), hoDiskLayout = (\<lambda>_. observe ora haText),
      hoLayoutDone = (\<lambda>_. observe ora haUnit), hoPermissions = (\<lambda>_. observe ora haUnit),
      hoTailnetAPI = True, hoDevices = observe ora haDevices, hoVerifyPeer = (\<lambda>_ _. observe ora haText),
      hoEnrollment = (\<lambda>_. observe ora haEnrollment), hoLegacyIdentity = (\<lambda>_. observe ora haText),
      hoPing = (\<lambda>_. observe ora haUnit), hoTurns = observe ora haTurns,
      hoJSON = (\<lambda>m. concat (map (\<lambda>(k, v). k @ v) m))\<rparr>"

end
