(* ===== verification/RuntimeProofs.thy ===== *)
theory RuntimeProofs
  imports Runtime
begin

section \<open>What the lifecycle operations leave in the database\<close>

text \<open>
  Proofs about src/internal/provision/provision.go that hold whatever the host answers: the host
  state is universally quantified in \<open>dwp\<close>, the weakest precondition that looks at the database
  only. The facts are about the state of the row an operation is asked for (\<open>look\<close>) and about all
  other rows (\<open>others\<close>).
\<close>

subsection \<open>Preconditions on the database\<close>

definition dwp :: "('a, 'h) action \<Rightarrow> ('a \<Rightarrow> db \<Rightarrow> bool) \<Rightarrow> (error \<Rightarrow> db \<Rightarrow> bool) \<Rightarrow> db \<Rightarrow> bool" where
  "dwp m Q E d = (\<forall>h. wp m (\<lambda>x w. Q x (fst w)) (\<lambda>e w. E e (fst w)) (d, h))"

lemma dwp_ret: "Q x d \<Longrightarrow> dwp (retA x) Q E d"
  and dwp_fail: "E e d \<Longrightarrow> dwp (failA e) Q E d"
  by (simp_all add: dwp_def wp_simps)

lemma dwp_lift: "(\<And>x. r = Inr x \<Longrightarrow> Q x d) \<Longrightarrow> (\<And>e. r = Inl e \<Longrightarrow> E e d) \<Longrightarrow> dwp (liftR r) Q E d"
  by (simp add: dwp_def wp_simps split: sum.split)

lemma dwp_bind: "dwp m (\<lambda>x. dwp (k x) Q E) E d \<Longrightarrow> dwp (bindA m k) Q E d"
  unfolding dwp_def wp_bind by (fastforce elim: wp_mono)

lemma dwp_try: "dwp m (\<lambda>x. Q (Inr x)) (\<lambda>e. Q (Inl e)) d \<Longrightarrow> dwp (tryA m) Q E d"
  by (simp add: dwp_def wp_simps)

lemma dwp_wrap: "dwp m Q (\<lambda>e. E (ErrWrap c e)) d \<Longrightarrow> dwp (wrapA c m) Q E d"
  by (simp add: dwp_def wp_simps)

lemma dwp_ignore: "dwp m (\<lambda>_. Q ()) (\<lambda>_. Q ()) d \<Longrightarrow> dwp (ignoreA m) Q E d"
  by (simp add: dwp_def wp_simps)

lemma dwp_if: "(b \<Longrightarrow> dwp m Q E d) \<Longrightarrow> (\<not> b \<Longrightarrow> dwp n Q E d) \<Longrightarrow> dwp (if b then m else n) Q E d"
  by simp

lemma dwp_option:
  "(z = None \<Longrightarrow> dwp m Q E d) \<Longrightarrow> (\<And>x. z = Some x \<Longrightarrow> dwp (k x) Q E d) \<Longrightarrow>
    dwp (case z of None \<Rightarrow> m | Some x \<Rightarrow> k x) Q E d"
  by (cases z) simp_all

lemma dwp_sum:
  "(\<And>e. z = Inl e \<Longrightarrow> dwp (m e) Q E d) \<Longrightarrow> (\<And>x. z = Inr x \<Longrightarrow> dwp (k x) Q E d) \<Longrightarrow>
    dwp (case z of Inl e \<Rightarrow> m e | Inr x \<Rightarrow> k x) Q E d"
  by (cases z) simp_all

lemma dwp_prod: "(\<And>x y. z = (x, y) \<Longrightarrow> dwp (k x y) Q E d) \<Longrightarrow> dwp (case z of (x, y) \<Rightarrow> k x y) Q E d"
  by (cases z) simp

lemma dwp_mono:
  "dwp m Q E d \<Longrightarrow> (\<And>x d'. Q x d' \<Longrightarrow> Q' x d') \<Longrightarrow> (\<And>e d'. E e d' \<Longrightarrow> E' e d') \<Longrightarrow> dwp m Q' E' d"
  unfolding dwp_def by (fastforce elim: wp_mono)

lemma dwp_see: "(\<And>x. Q x d) \<Longrightarrow> dwp (seeA f) Q E d"
  by (simp add: dwp_def wp_def seeA_def split: prod.split)

lemma dwp_host: "(\<And>x. Q x d) \<Longrightarrow> (\<And>e. E e d) \<Longrightarrow> dwp (hostA f) Q E d"
  by (simp add: dwp_def wp_def hostA_def split: prod.split sum.split)

lemma dwp_read: "(\<And>x. f d = Inr x \<Longrightarrow> Q x d) \<Longrightarrow> (\<And>e. E e d) \<Longrightarrow> dwp (readA f) Q E d"
  by (simp add: dwp_def wp_def readA_def split: prod.split sum.split)

lemma dwp_write: "(\<And>d'. f d = Inr d' \<Longrightarrow> Q () d') \<Longrightarrow> (\<And>e. E e d) \<Longrightarrow> dwp (writeA f) Q E d"
  by (simp add: dwp_def wp_def writeA_def split: prod.split sum.split)

lemma dwp_stmt: "(\<And>e. E e d) \<Longrightarrow> dwp m Q E d \<Longrightarrow> dwp (stmtA ho m) Q E d"
  unfolding stmtA_def by (intro dwp_bind dwp_see dwp_option dwp_fail)

lemma dwp_query: "(\<And>x. f d = Inr x \<Longrightarrow> Q x d) \<Longrightarrow> (\<And>e. E e d) \<Longrightarrow> dwp (queryA ho f) Q E d"
  unfolding queryA_def by (intro dwp_stmt dwp_read)

lemma dwp_exec: "(\<And>now d'. f now d = Inr d' \<Longrightarrow> Q () d') \<Longrightarrow> (\<And>e. E e d) \<Longrightarrow> dwp (execA ho f) Q E d"
  unfolding execA_def by (intro dwp_bind dwp_see dwp_stmt dwp_write)

lemma dwp_env: "(\<And>env x. f env d = Inr x \<Longrightarrow> Q x d) \<Longrightarrow> (\<And>e. E e d) \<Longrightarrow> dwp (envA ho f) Q E d"
  unfolding envA_def by (intro dwp_bind dwp_see dwp_query)

lemma dwp_touch: "(\<And>now. Q (inst\<lparr>iUpdatedAt := now\<rparr>) d) \<Longrightarrow> dwp (touchA ho inst) Q E d"
  unfolding touchA_def by (intro dwp_bind dwp_see dwp_ret)

lemma dwp_event:
  assumes "\<And>evs n. Q () (d\<lparr>event_sequence := n, instance_events := evs\<rparr>)"
  shows "dwp (recordEvent ho i t m p) Q E d"
proof -
  have self: "Q () d" using assms [of "instance_events d" "event_sequence d"] by simp
  show ?thesis
    unfolding recordEvent_def
    by (intro dwp_bind dwp_see dwp_ignore dwp_exec self)
      (auto simp: RecordEvent_def Let_def intro: assms)
qed

lemma dwp_process: "(\<And>b. Q b d) \<Longrightarrow> dwp (processExists ho pid) Q E d"
  unfolding processExists_def by (intro dwp_if dwp_ret dwp_bind dwp_see)

lemma dwp_halted: "(\<And>b. Q b d) \<Longrightarrow> dwp (serialLogShowsGuestHalted ho path) Q E d"
  unfolding serialLogShowsGuestHalted_def Let_def
  by (intro dwp_if dwp_ret dwp_bind dwp_try dwp_host dwp_sum)

lemma dwp_startResult: "(\<And>r. Q r d) \<Longrightarrow> dwp (startResult ho inst) Q E d"
  unfolding startResult_def by (rule dwp_see)

lemma dwp_checkedResult: "(\<And>r. Q r d) \<Longrightarrow> (\<And>e. E e d) \<Longrightarrow> dwp (checkedResult ho inst) Q E d"
  unfolding checkedResult_def by (intro dwp_bind dwp_startResult dwp_prod dwp_option dwp_ret dwp_fail)

lemma dwp_network:
  "(\<And>x. Q x d) \<Longrightarrow> (\<And>e. E e d) \<Longrightarrow> dwp (cleanupNetworking ho inst) Q E d"
  "(\<And>x. Q x d) \<Longrightarrow> (\<And>e. E e d) \<Longrightarrow> dwp (setupNetworking ho inst) Q E d"
  unfolding cleanupNetworking_def setupNetworking_def by (rule dwp_host; assumption)+

lemmas dwp_rules = dwp_ret dwp_fail dwp_bind dwp_try dwp_wrap dwp_ignore dwp_see dwp_host dwp_query
  dwp_env dwp_touch dwp_event dwp_process dwp_halted dwp_startResult dwp_checkedResult dwp_network

lemma dwp_result: "dwp m Q E d \<Longrightarrow> m (d, h) = (Inr x, d', h') \<Longrightarrow> Q x d'"
  unfolding dwp_def wp_def by (drule spec [of _ h]) simp

lemma dwp_error: "dwp m Q E d \<Longrightarrow> m (d, h) = (Inl e, d', h') \<Longrightarrow> E e d'"
  unfolding dwp_def wp_def by (drule spec [of _ h]) simp

lemma dwp_final: "dwp m (\<lambda>_. P) (\<lambda>_. P) d \<Longrightarrow> m (d, h) = (r, d', h') \<Longrightarrow> P d'"
  by (cases r) (auto dest: dwp_result dwp_error)

subsection \<open>The row of an instance\<close>

definition look :: "string \<Rightarrow> db \<Rightarrow> inst_state option" where
  "look name d = map_option iState (row_find (\<lambda>r. iName r = name) (instances d))"

definition others :: "string \<Rightarrow> db \<Rightarrow> instance_row list" where
  "others name d = filter (\<lambda>r. iName r \<noteq> name) (instances d)"

lemma look_events [simp]:
  "look name (d\<lparr>event_sequence := n, instance_events := evs\<rparr>) = look name d"
  "others name (d\<lparr>event_sequence := n, instance_events := evs\<rparr>) = others name d"
  by (simp_all add: look_def others_def)

lemma scanInstance_fields:
  "scanInstance r = Inr inst \<Longrightarrow> iState inst = iState r \<and> iName inst = iName r \<and> iID inst = iID r \<and>
    iFirecrackerPID inst = iFirecrackerPID r \<and> iStartRequestID inst = iStartRequestID r \<and>
    iStartBootID inst = iStartBootID r"
  by (auto simp: scanInstance_def bindR_Inr_iff normalizeInstanceMemory_def Let_def split: if_splits)

lemma GetInstance_look: "GetInstance name d = Inr inst \<Longrightarrow> look name d = Some (iState inst) \<and> iName inst = name"
  by (auto simp: GetInstance_def look_def dest: scanInstance_fields row_find_Some split: option.splits)

lemma others_update:
  assumes "\<And>r. p r \<Longrightarrow> iName r = name" "\<And>r. p r \<Longrightarrow> iName (f r) = name"
  shows "filter (\<lambda>r. iName r \<noteq> name) (row_update p f t) = filter (\<lambda>r. iName r \<noteq> name) t"
  using assms by (induction t) (auto simp: row_update_def)

lemma stopped_update_fields [simp]:
  "iState (stopped_update r r') = iState r'" "iName (stopped_update r r') = iName r'"
  "iFirecrackerPID (stopped_update r r') = iFirecrackerPID r'" "iLastError (stopped_update r r') = iLastError r'"
  by (simp_all add: stopped_update_def)

lemma normalize_fields [simp]:
  "iState (normalizeInstanceMemory i) = iState i" "iName (normalizeInstanceMemory i) = iName i"
  "iFirecrackerPID (normalizeInstanceMemory i) = iFirecrackerPID i"
  "iLastError (normalizeInstanceMemory i) = iLastError i"
  by (simp_all add: normalizeInstanceMemory_def Let_def)

lemma UpdateInstance_effect:
  assumes "UpdateInstance now inst d = Inr d'"
  shows "others (iName inst) d' = others (iName inst) d"
    and "row_find (\<lambda>r. iName r = iName inst) (instances d') =
      map_option (\<lambda>r. stopped_update r (update_columns now (normalizeInstanceMemory inst) r))
        (row_find (\<lambda>r. iName r = iName inst) (instances d))"
proof -
  have d': "instances d' = row_update (\<lambda>r. iName r = iName inst)
      (\<lambda>r. stopped_update r (update_columns now (normalizeInstanceMemory inst) r)) (instances d)"
    using assms by (auto simp: UpdateInstance_def Let_def bindR_Inr_iff)
  show "others (iName inst) d' = others (iName inst) d"
    unfolding others_def d' by (rule others_update) (simp_all add: update_columns_def)
  show "row_find (\<lambda>r. iName r = iName inst) (instances d') =
      map_option (\<lambda>r. stopped_update r (update_columns now (normalizeInstanceMemory inst) r))
        (row_find (\<lambda>r. iName r = iName inst) (instances d))"
    unfolding d' by (subst row_find_update_key)
      (auto simp: update_columns_def dest: row_find_Some intro!: option.map_cong0 split: option.splits)
qed

lemma UpdateInstance_look:
  assumes "UpdateInstance now inst d = Inr d'"
  shows "look (iName inst) d' = map_option (\<lambda>_. iState inst) (look (iName inst) d)"
  unfolding look_def UpdateInstance_effect(2) [OF assms] by (simp add: option.map_comp comp_def update_columns_def)

lemma UpdateRuntime_look:
  assumes "UpdateInstanceRuntime now observed updated d = Inr d'"
  shows "others (iName observed) d' = others (iName observed) d"
    and "look (iName observed) d' = look (iName observed) d \<or>
      look (iName observed) d = Some (iState observed) \<and> look (iName observed) d' = Some (iState updated)"
proof -
  define f where "f r = stopped_update r (r\<lparr>iState := iState updated, iTailscaleName := iTailscaleName updated,
           iTailscaleIP := iTailscaleIP updated, iLastError := iLastError updated,
           iUpdatedAt := timeString now (iUpdatedAt updated), iTailnetNodeID := iTailnetNodeID updated,
           iFirecrackerPID := iFirecrackerPID updated\<rparr>)" for r :: instance_row
  have d': "instances d' = row_update (runtime_match now observed) f (instances d)"
    using assms by (auto simp: UpdateInstanceRuntime_def Let_def f_def [abs_def] split: if_split_asm)
  show "others (iName observed) d' = others (iName observed) d"
    unfolding others_def d' by (rule others_update) (simp_all add: runtime_match_def f_def)
  have f_state: "iState (f r) = iState updated" for r by (simp add: f_def)
  have match_state: "runtime_match now observed r \<Longrightarrow> iState r = iState observed" for r
    by (simp add: runtime_match_def)
  have "row_find (\<lambda>r. iName r = iName observed) (instances d') =
      map_option (\<lambda>r. if runtime_match now observed r then f r else r)
        (row_find (\<lambda>r. iName r = iName observed) (instances d))"
    unfolding d' by (rule row_find_update_key) (simp add: f_def)
  then show "look (iName observed) d' = look (iName observed) d \<or>
      look (iName observed) d = Some (iState observed) \<and> look (iName observed) d' = Some (iState updated)"
    using f_state match_state
    by (cases "row_find (\<lambda>r. iName r = iName observed) (instances d)") (simp_all add: look_def)
qed

subsection \<open>Confinement\<close>

text \<open>Everything in the database but instances and events, which no lifecycle operation touches.\<close>

definition rest :: "db \<Rightarrow> db" where
  "rest d = d\<lparr>instances := [], event_sequence := 0, instance_events := []\<rparr>"

definition live :: "inst_state \<Rightarrow> bool" where
  "live s \<longleftrightarrow> s \<noteq> StateDeleting \<and> s \<noteq> StateDeleted"

definition live_row :: "string \<Rightarrow> db \<Rightarrow> bool" where
  "live_row name d \<longleftrightarrow> (\<forall>s. look name d = Some s \<longrightarrow> live s)"

text \<open>The step of a lifecycle operation on \<open>name\<close>: nothing but its row and its events changes, the row
  stays, and it neither enters nor leaves deletion.\<close>

definition conf :: "string \<Rightarrow> db \<Rightarrow> db \<Rightarrow> bool" where
  "conf name d d' \<longleftrightarrow> rest d' = rest d \<and> others name d' = others name d \<and>
     (look name d' = look name d \<or>
      (\<exists>s s'. look name d = Some s \<and> live s \<and> look name d' = Some s' \<and> live s'))"

lemma conf_refl [simp]: "conf name d d"
  by (simp add: conf_def)

lemma conf_trans: "conf name d d' \<Longrightarrow> conf name d' d'' \<Longrightarrow> conf name d d''"
  by (auto simp: conf_def)

lemma conf_live: "conf name d d' \<Longrightarrow> live_row name d' \<longleftrightarrow> live_row name d"
  by (auto simp: conf_def live_row_def)

lemma rest_events [simp]: "rest (d\<lparr>event_sequence := n, instance_events := evs\<rparr>) = rest d"
  by (simp add: rest_def)

lemma conf_events [simp]:
  "conf name d0 (d\<lparr>event_sequence := n, instance_events := evs\<rparr>) \<longleftrightarrow> conf name d0 d"
  "live_row name (d\<lparr>event_sequence := n, instance_events := evs\<rparr>) \<longleftrightarrow> live_row name d"
  by (simp_all add: conf_def live_row_def)

lemma rest_instances: "rest (d\<lparr>instances := rows\<rparr>) = rest d"
  by (simp add: rest_def)

lemma UpdateInstance_conf:
  assumes "UpdateInstance now inst d = Inr d'" "iName inst = name"
    "look name d = Some (iState inst) \<or> live_row name d \<and> live (iState inst)"
  shows "conf name d d'"
proof -
  have "rest d' = rest d" using assms(1) by (auto simp: UpdateInstance_def Let_def bindR_Inr_iff rest_instances)
  then show ?thesis
    using UpdateInstance_effect(1) [OF assms(1)] UpdateInstance_look [OF assms(1)] assms(2,3)
    by (cases "look name d") (auto simp: conf_def live_row_def)
qed

lemma UpdateRuntime_conf:
  assumes "UpdateInstanceRuntime now observed updated d = Inr d'" "iName observed = name"
    "iState updated = iState observed \<or> live (iState observed) \<and> live (iState updated)"
  shows "conf name d d'"
proof -
  have "rest d' = rest d"
    using assms(1) by (auto simp: UpdateInstanceRuntime_def Let_def rest_instances split: if_split_asm)
  then show ?thesis
    using UpdateRuntime_look [OF assms(1)] assms(2,3) by (auto simp: conf_def)
qed

text \<open>Rules in continuation form: an operation on \<open>name\<close> reached by confined steps from \<open>d0\<close>
  leaves its caller with a database reached by confined steps from \<open>d0\<close>.\<close>

lemma dwp_persist:
  assumes "conf name d0 d" "iName inst = name"
    "look name d = Some (iState inst) \<or> live_row name d0 \<and> live (iState inst)"
    "\<And>d'. conf name d0 d' \<Longrightarrow> Q () d'" "\<And>e. E e d"
  shows "dwp (persistInstance ho inst) Q E d"
  unfolding persistInstance_def
proof (rule dwp_exec)
  fix now d' assume "UpdateInstance now inst d = Inr d'"
  then have "conf name d d'" by (rule UpdateInstance_conf) (use assms(1,2,3) conf_live in auto)
  then show "Q () d'" using assms(1,4) conf_trans by blast
qed (rule assms(5))

lemma dwp_updateRuntime:
  assumes "conf name d0 d" "iName observed = name"
    "iState updated = iState observed \<or> live (iState observed) \<and> live (iState updated)"
    "\<And>d'. conf name d0 d' \<Longrightarrow> Q () d'" "\<And>e. E e d"
  shows "dwp (updateRuntime ho observed updated) Q E d"
  unfolding updateRuntime_def
proof (rule dwp_exec)
  fix now d' assume "UpdateInstanceRuntime now observed updated d = Inr d'"
  then have "conf name d d'" using assms(2,3) by (rule UpdateRuntime_conf)
  then show "Q () d'" using assms(1,4) conf_trans by blast
qed (rule assms(5))

definition same_attempt :: "Instance \<Rightarrow> Instance \<Rightarrow> bool" where
  "same_attempt i j \<longleftrightarrow> iName j = iName i \<and> iID j = iID i \<and> iStartRequestID j = iStartRequestID i \<and>
     iStartBootID j = iStartBootID i"

lemma absent_live: "iState inst \<noteq> StateDeleted \<Longrightarrow>
    iState (absent_runtime inst) = iState inst \<or> live (iState inst) \<and> live (iState (absent_runtime inst))"
  by (auto simp: absent_runtime_def live_def)

lemma dwp_resolve:
  assumes "conf name d0 d" "iName inst = name"
    "\<And>i d'. conf name d0 d' \<Longrightarrow> same_attempt inst i \<Longrightarrow> Q i d'" "\<And>e d'. conf name d0 d' \<Longrightarrow> E e d'"
  shows "dwp (resolveRuntime ho inst) Q E d"
proof -
  have observe: "dwp (observe_outcome ho inst r) (\<lambda>i d'. d' = d \<and> same_attempt inst i \<and>
      (iState i = iState inst \<or> live (iState inst) \<and> live (iState i))) (\<lambda>e d'. d' = d) d"
    if "iState inst \<noteq> StateDeleted" for r
    unfolding observe_outcome_def
    by (intro dwp_if dwp_rules) (use that absent_live [OF that] in
      \<open>auto simp: same_attempt_def absent_runtime_def awaitingState_def live_def\<close>)
  show ?thesis
    unfolding resolveRuntime_def
  proof (intro dwp_if dwp_bind dwp_rules)
    assume "\<not> (iStartRequestID inst = [] \<or> iState inst = StateDeleted)"
    then have alive: "iState inst \<noteq> StateDeleted" by simp
    fix r
    show "dwp (observe_outcome ho inst r) (\<lambda>i. dwp (if iState inst = iState i \<and>
        iFirecrackerPID inst = iFirecrackerPID i then retA i else bindA (touchA ho i) (\<lambda>i.
          bindA (updateRuntime ho inst i) (\<lambda>_. retA i))) Q E) E d"
    proof (rule dwp_mono [OF observe [OF alive]], elim conjE, hypsubst)
      fix i d'
      assume i: "same_attempt inst i" "iState i = iState inst \<or> live (iState inst) \<and> live (iState i)"
      then have next_attempt: "same_attempt inst (i\<lparr>iUpdatedAt := now\<rparr>)" for now by (simp add: same_attempt_def)
      show "dwp (if iState inst = iState i \<and> iFirecrackerPID inst = iFirecrackerPID i then retA i
          else bindA (touchA ho i) (\<lambda>i. bindA (updateRuntime ho inst i) (\<lambda>_. retA i))) Q E d"
        by (intro dwp_if dwp_rules dwp_updateRuntime [OF assms(1,2)] assms(3,4) next_attempt i(1) assms(1))
          (use i in auto)
    qed (simp add: assms)
  qed (use assms in \<open>auto simp: same_attempt_def\<close>)
qed

lemma stop_refused_live: "stop_refused inst = Inr u \<Longrightarrow> live (iState inst)"
  by (auto simp: stop_refused_def live_def split: if_split_asm)

lemma GetInstance_live:
  "GetInstance name d = Inr inst \<Longrightarrow> live (iState inst) \<Longrightarrow> live_row name d \<and> iName inst = name"
  by (auto dest: GetInstance_look simp: live_row_def)

lemma stop_start:
  "GetInstance name d = Inr inst \<Longrightarrow> stop_refused inst = Inr u \<Longrightarrow> conf name d0 d \<Longrightarrow>
    iName inst = name \<and> live_row name d0"
  using stop_refused_live GetInstance_live conf_live by blast

lemma dwp_stop:
  assumes "conf name d0 d" "n = name" "\<And>i d'. conf name d0 d' \<Longrightarrow> iName i = name \<Longrightarrow> Q i d'" "\<And>e d'. conf name d0 d' \<Longrightarrow> E e d'"
  shows "dwp (StopWithOptions ho n save) Q E d"
  unfolding assms(2) StopWithOptions_def stopFirecrackerWithState_def
  by (intro dwp_rules dwp_lift dwp_persist [where name = name and ?d0.0 = d0] dwp_resolve [where name = name and ?d0.0 = d0])
    (use assms in \<open>auto simp: same_attempt_def live_def dest: stop_start\<close>)

lemma dwp_reconcile:
  assumes "conf name d0 d" "iName inst = name" "\<And>b d'. conf name d0 d' \<Longrightarrow> Q b d'" "\<And>e d'. conf name d0 d' \<Longrightarrow> E e d'"
  shows "dwp (reconcileRuntime ho inst) Q E d"
  unfolding reconcileRuntime_def reconcile_exit_def
  by (intro dwp_if dwp_rules dwp_resolve [where name = name and ?d0.0 = d0] dwp_stop [where name = name and ?d0.0 = d0])
    (use assms in \<open>auto simp: same_attempt_def\<close>)

lemma dwp_reconcileInstance:
  assumes "conf name d0 d" "\<And>i d'. conf name d0 d' \<Longrightarrow> GetInstance name d' = Inr i \<Longrightarrow> Q i d'"
    "\<And>e d'. conf name d0 d' \<Longrightarrow> E e d'"
  shows "dwp (ReconcileInstanceRuntime ho name) Q E d"
  unfolding ReconcileInstanceRuntime_def
  by (intro dwp_rules dwp_reconcile [where name = name and ?d0.0 = d0])
    (use assms in \<open>auto dest: GetInstance_look\<close>)

subsection \<open>Readiness and start\<close>

lemma dwp_findDevice: "(\<And>x. Q x d) \<Longrightarrow> (\<And>e. E e d) \<Longrightarrow> dwp (findDevice ho name) Q E d"
  unfolding findDevice_def by (intro dwp_rules dwp_lift)

lemma dwp_identity: "(\<And>x. Q x d) \<Longrightarrow> (\<And>e. E e d) \<Longrightarrow> dwp (instanceRuntimeIdentity ho inst) Q E d"
  unfolding instanceRuntimeIdentity_def by (intro dwp_if dwp_rules)

lemma dwp_join_loop: "(\<And>x. Q x d) \<Longrightarrow> (\<And>e. E e d) \<Longrightarrow> dwp (join_loop ho name pid prev n err) Q E d"
proof (induction n arbitrary: err)
  case (Suc n)
  show ?case
    unfolding join_loop.simps
    by (intro dwp_if dwp_rules dwp_findDevice dwp_sum dwp_option Suc.IH Suc.prems)
qed (auto intro: dwp_fail)

lemma dwp_await_join: "(\<And>x. Q x d) \<Longrightarrow> (\<And>e. E e d) \<Longrightarrow> dwp (await_join ho inst) Q E d"
  unfolding await_join_def waitForTailnetJoinAfter_def
  by (intro dwp_if dwp_rules dwp_identity dwp_join_loop)

lemma dwp_orb_ready:
  assumes "conf name d0 d" "iName inst = name" "live (iState inst)"
    "\<And>i d'. conf name d0 d' \<Longrightarrow> Q i d'" "\<And>e d'. conf name d0 d' \<Longrightarrow> E e d'"
  shows "dwp (orb_ready ho inst runtime) Q E d"
  unfolding orb_ready_def
  by (intro dwp_if dwp_rules dwp_identity dwp_updateRuntime [where name = name and ?d0.0 = d0])
    (use assms in \<open>auto simp: live_def\<close>)

lemma dwp_waitForOrb:
  assumes "conf name d0 d" "iName inst = name" "live (iState inst)"
    "\<And>i d'. conf name d0 d' \<Longrightarrow> Q i d'" "\<And>e d'. conf name d0 d' \<Longrightarrow> E e d'"
  shows "dwp (waitForOrb ho inst) Q E d"
proof -
  have loop: "dwp (orb_loop ho inst runtime n) Q E d" for runtime n
  proof (induction n)
    case 0
    show ?case unfolding orb_loop.simps
      by (intro dwp_rules dwp_sum dwp_orb_ready [OF assms]) (use assms(1,5) in auto)
  next
    case (Suc n)
    show ?case unfolding orb_loop.simps by (intro dwp_rules dwp_sum dwp_orb_ready [OF assms] Suc.IH)
  qed
  show ?thesis unfolding waitForOrb_def by (intro dwp_rules dwp_identity loop assms(5) assms(1))
qed

lemma dwp_lateJoin:
  assumes "conf name d0 d" "iName inst = name"
    "\<And>b i d'. conf name d0 d' \<Longrightarrow> iName i = name \<Longrightarrow> Q (b, i) d'" "\<And>e d'. conf name d0 d' \<Longrightarrow> E e d'"
  shows "dwp (reconcileLateTailnetJoin ho inst) Q E d"
  unfolding reconcileLateTailnetJoin_def late_peer_def
  by (intro dwp_if dwp_rules dwp_prod dwp_option dwp_identity dwp_findDevice
      dwp_updateRuntime [where name = name and ?d0.0 = d0])
    (use assms in \<open>auto simp: live_def dest: GetInstance_look\<close>)

lemma dwp_diskLayout:
  assumes "conf name d0 d" "iName inst = name" "look name d = Some (iState inst)"
    "\<And>i d'. conf name d0 d' \<Longrightarrow> iName i = name \<Longrightarrow> look name d' = Some (iState i) \<Longrightarrow> Q i d'"
    "\<And>e d'. conf name d0 d' \<Longrightarrow> E e d'"
  shows "dwp (ensureDiskLayout ho inst) Q E d"
proof -
  have stored: "look name d' = Some (iState inst) \<and> conf name d0 d'"
    if "UpdateInstance now (inst\<lparr>iRootFSPath := p, iUpdatedAt := t\<rparr>) d = Inr d'" for now p t d'
    using UpdateInstance_look [OF that] UpdateInstance_conf [OF that, of name] assms(1,2,3) conf_trans by auto
  show ?thesis
    unfolding ensureDiskLayout_def persistInstance_def
    by (intro dwp_if dwp_rules dwp_exec) (use assms stored in auto)
qed

lemma prereqs_live: "ensureStartPrereqs api env inst = Inr u \<Longrightarrow> live (iState inst)"
  by (auto simp: ensureStartPrereqs_def live_def bindR_Inr_iff)

lemma dwp_start_memory: "(\<And>x. Q x d) \<Longrightarrow> (\<And>e. E e d) \<Longrightarrow> dwp (start_memory ho c inst) Q E d"
  unfolding start_memory_def by (intro dwp_if dwp_rules dwp_lift)

lemma boot_fields [simp]:
  "iState (applyConfiguredBootArtifacts i) = iState i" "iName (applyConfiguredBootArtifacts i) = iName i"
  by (simp_all add: applyConfiguredBootArtifacts_def)

lemma admitted_live:
  "conf name d0 d \<Longrightarrow> look name d = Some (iState i) \<Longrightarrow> ensureStartPrereqs api env i = Inr u \<Longrightarrow> live_row name d0"
  using conf_live prereqs_live by (fastforce simp: live_row_def)

lemma dwp_start_admit:
  assumes "conf name d0 d"
    "\<And>i pool d'. conf name d0 d' \<Longrightarrow> iName i = name \<Longrightarrow> live_row name d0 \<Longrightarrow> live (iState i) \<Longrightarrow> Q (i, pool) d'"
    "\<And>e d'. conf name d0 d' \<Longrightarrow> E e d'"
  shows "dwp (start_admit ho c name) Q E d"
  unfolding start_admit_def Let_def
  by (intro dwp_rules dwp_lift dwp_reconcile [where name = name and ?d0.0 = d0]
      dwp_diskLayout [where name = name and ?d0.0 = d0] dwp_start_memory
      dwp_persist [where name = name and ?d0.0 = d0])
    (use assms in \<open>auto dest: GetInstance_look admitted_live simp: live_def\<close>)

text \<open>From admission on the row is known to be outside deletion and every state written is.\<close>

lemma dwp_verdict:
  assumes "conf name d0 d" "iName inst = name" "live_row name d0" "live (iState inst)"
    "\<And>i r d'. conf name d0 d' \<Longrightarrow> iName i = name \<Longrightarrow> live (iState i) \<Longrightarrow> Q (i, r) d'"
  shows "dwp (start_verdict ho inst resp err) Q E d"
  unfolding start_verdict_def Let_def
  by (intro dwp_if dwp_sum dwp_rules dwp_persist [where name = name and ?d0.0 = d0] assms)
    (simp_all add: assms)

lemma dwp_startFirecracker:
  assumes "conf name d0 d" "iName inst = name" "live_row name d0" "live (iState inst)"
    "\<And>i r d'. conf name d0 d' \<Longrightarrow> iName i = name \<Longrightarrow> live (iState i) \<Longrightarrow> Q (i, r) d'"
  shows "dwp (startFirecracker ho c inst pool bootstrap discard) Q E d"
  unfolding startFirecracker_def
  by (intro dwp_sum dwp_prod dwp_rules dwp_persist [where name = name and ?d0.0 = d0]
      dwp_verdict [where name = name and ?d0.0 = d0] assms(5))
    (simp_all add: assms(1-4))

lemma dwp_started_ready:
  assumes "conf name d0 d" "iName inst = name" "live (iState inst)" "\<And>i e d'. conf name d0 d' \<Longrightarrow> Q (i, e) d'"
  shows "dwp (started_ready ho inst) Q E d"
  unfolding started_ready_def
  by (intro dwp_sum dwp_prod dwp_rules dwp_await_join dwp_updateRuntime [where name = name and ?d0.0 = d0])
    (use assms in \<open>auto simp: noted_def live_def\<close>)

lemma dwp_started:
  assumes "conf name d0 d" "iName inst = name" "live_row name d0"
    "\<And>s d'. conf name d0 d' \<Longrightarrow> \<not> seCleanup s \<Longrightarrow> Q s d'"
  shows "dwp (started ho inst pid) Q E d"
  unfolding started_def
  by (intro dwp_if dwp_sum dwp_prod dwp_rules dwp_persist [where name = name and ?d0.0 = d0]
      dwp_waitForOrb [where name = name and ?d0.0 = d0] dwp_started_ready [where name = name and ?d0.0 = d0])
    (use assms in \<open>auto simp: awaitingState_def live_def\<close>)

lemma dwp_previous_device:
  assumes "\<And>i. iName i = iName inst \<Longrightarrow> iState i = iState inst \<Longrightarrow> Q i d" "\<And>e. E e d"
  shows "dwp (previous_device ho inst) Q E d"
  unfolding previous_device_def currentDeviceSnapshot_def
  by (intro dwp_if dwp_option dwp_rules dwp_findDevice) (use assms in auto)

lemma dwp_start_body:
  assumes "conf name d0 d" "iName inst = name" "live_row name d0" "live (iState inst)"
    "\<And>s d'. conf name d0 d' \<Longrightarrow> (seCleanup s \<Longrightarrow> iName (seInst s) = name) \<Longrightarrow> Q s d'"
  shows "dwp (start_body ho c inst pool discard) Q E d"
  unfolding start_body_def failed_start_def
  by (intro dwp_sum dwp_prod dwp_rules dwp_previous_device
      dwp_startFirecracker [where name = name and ?d0.0 = d0] dwp_started [where name = name and ?d0.0 = d0])
    (use assms in \<open>auto simp: noted_def\<close>)

lemma dwp_start_deferred:
  assumes "conf name d0 d" "seCleanup s \<Longrightarrow> iName (seInst s) = name" "live_row name d0"
    "\<And>i d'. conf name d0 d' \<Longrightarrow> Q i d'" "\<And>e d'. conf name d0 d' \<Longrightarrow> E e d'"
  shows "dwp (start_deferred ho s) Q E d"
  unfolding start_deferred_def Let_def
  by (intro dwp_if dwp_option dwp_rules dwp_persist [where name = name and ?d0.0 = d0])
    (use assms in \<open>auto simp: live_def\<close>)

lemma dwp_existing:
  assumes "conf name d0 d" "iName inst = name"
    "\<And>i d'. conf name d0 d' \<Longrightarrow> Q i d'" "\<And>e d'. conf name d0 d' \<Longrightarrow> E e d'"
  shows "dwp (existing_runtime ho inst) Q E d"
  unfolding existing_runtime_def
  by (intro dwp_if dwp_prod dwp_rules dwp_waitForOrb [where name = name and ?d0.0 = d0]
      dwp_lateJoin [where name = name and ?d0.0 = d0])
    (use assms in \<open>auto simp: live_def\<close>)

lemma dwp_start:
  assumes "conf name d0 d" "n = name" "\<And>i d'. conf name d0 d' \<Longrightarrow> Q i d'" "\<And>e d'. conf name d0 d' \<Longrightarrow> E e d'"
  shows "dwp (StartWithOptions ho c n discard) Q E d"
  unfolding assms(2) StartWithOptions_def
  by (intro dwp_option dwp_prod dwp_rules dwp_reconcileInstance [where name = name and ?d0.0 = d0]
      dwp_existing [where name = name and ?d0.0 = d0] dwp_start_admit [where name = name and ?d0.0 = d0]
      dwp_start_body [where name = name and ?d0.0 = d0] dwp_start_deferred [where name = name and ?d0.0 = d0])
    (use assms in \<open>auto dest: GetInstance_look simp: live_def\<close>)

lemma dwp_restore:
  assumes "conf name d0 d" "iName inst = name" "\<And>u d'. conf name d0 d' \<Longrightarrow> Q u d'" "\<And>e d'. conf name d0 d' \<Longrightarrow> E e d'"
  shows "dwp (restoreInstance ho c inst) Q E d"
  unfolding restoreInstance_def Let_def
  by (intro dwp_if dwp_sum dwp_rules dwp_resolve [where name = name and ?d0.0 = d0]
      dwp_stop [where name = name and ?d0.0 = d0] dwp_start [where name = name and ?d0.0 = d0])
    (use assms in \<open>auto simp: same_attempt_def\<close>)

datatype lifecycle_op = OpStart Config bool | OpStop bool | OpReconcile | OpRestore Config

fun lifecycle_run :: "'h host_ops \<Rightarrow> lifecycle_op \<Rightarrow> string \<Rightarrow> (unit, 'h) action" where
  "lifecycle_run ho (OpStart c discard) name = bindA (StartWithOptions ho c name discard) (\<lambda>_. retA ())"
| "lifecycle_run ho (OpStop save) name = bindA (StopWithOptions ho name save) (\<lambda>_. retA ())"
| "lifecycle_run ho OpReconcile name = bindA (ReconcileInstanceRuntime ho name) (\<lambda>_. retA ())"
| "lifecycle_run ho (OpRestore c) name = RestoreInstance ho c name"

lemma lifecycle_conf: "dwp (lifecycle_run ho op name) (\<lambda>_. conf name d) (\<lambda>_. conf name d) d"
  by (cases op) (auto simp: RestoreInstance_def dest: GetInstance_look
    intro!: dwp_rules dwp_start [where name = name] dwp_stop [where name = name]
      dwp_reconcileInstance [where name = name] dwp_restore [where name = name])

subsection \<open>The intent to stop\<close>

lemma dwp_resolve_stopping:
  assumes "look name d = Some StateStopping" "iName inst = name" "iState inst = StateStopping"
    "\<And>i d'. look name d' = Some StateStopping \<Longrightarrow> same_attempt inst i \<Longrightarrow> iState i = StateStopping \<Longrightarrow> Q i d'"
    "\<And>e d'. look name d' = Some StateStopping \<Longrightarrow> E e d'"
  shows "dwp (resolveRuntime ho inst) Q E d"
proof -
  have observe: "dwp (observe_outcome ho inst r) (\<lambda>i d'. d' = d \<and> same_attempt inst i \<and> iState i = StateStopping)
      (\<lambda>e d'. d' = d) d" for r
    unfolding observe_outcome_def
    by (intro dwp_if dwp_rules) (use assms(3) in \<open>auto simp: same_attempt_def absent_runtime_def\<close>)
  have stored: "dwp (updateRuntime ho inst i) (\<lambda>_. Q i) E d" if "same_attempt inst i" "iState i = StateStopping" for i
    unfolding updateRuntime_def
    by (rule dwp_exec) (use assms that UpdateRuntime_look(2) in \<open>fastforce+\<close>)
  show ?thesis
    unfolding resolveRuntime_def
  proof (intro dwp_if dwp_rules)
    fix r
    show "dwp (observe_outcome ho inst r) (\<lambda>i. dwp (if iState inst = iState i \<and>
        iFirecrackerPID inst = iFirecrackerPID i then retA i else bindA (touchA ho i) (\<lambda>i.
          bindA (updateRuntime ho inst i) (\<lambda>_. retA i))) Q E) E d"
    proof (rule dwp_mono [OF observe], elim conjE, hypsubst)
      fix i d'
      assume i: "same_attempt inst i" "iState i = StateStopping"
      have next_stored: "dwp (updateRuntime ho inst (i\<lparr>iUpdatedAt := now\<rparr>))
          (\<lambda>_. dwp (retA (i\<lparr>iUpdatedAt := now\<rparr>)) Q E) E d" for now
        by (rule dwp_mono [OF stored]) (use i in \<open>auto simp: same_attempt_def intro: dwp_ret\<close>)
      show "dwp (if iState inst = iState i \<and> iFirecrackerPID inst = iFirecrackerPID i then retA i
          else bindA (touchA ho i) (\<lambda>i. bindA (updateRuntime ho inst i) (\<lambda>_. retA i))) Q E d"
        by (intro dwp_if dwp_bind dwp_touch next_stored dwp_ret assms(4) i assms(1))
    qed (simp add: assms)
  qed (use assms in \<open>auto simp: same_attempt_def\<close>)
qed

text \<open>While the intent is recorded a start is refused and leaves it alone.\<close>

lemma dwp_reconcile_stopping:
  assumes "look name d = Some StateStopping" "iName inst = name" "iState inst = StateStopping"
    "\<And>b d'. look name d' = Some StateStopping \<Longrightarrow> Q b d'" "\<And>e d'. look name d' = Some StateStopping \<Longrightarrow> E e d'"
  shows "dwp (reconcileRuntime ho inst) Q E d"
proof -
  have decide: "dwp (if iState i \<in> {StateStopping, StateStopped, StateDeleted, StateDeleting, StateFailed} then retA False
      else if iFirecrackerPID i \<le> 0 then retA False else reconcile_exit ho i) Q E d'"
    if "look name d' = Some StateStopping" "iState i = StateStopping" for i d'
    using that assms(4) by (auto intro: dwp_ret)
  show ?thesis
    unfolding reconcileRuntime_def
    by (intro dwp_bind dwp_query, rule dwp_if, rule dwp_resolve_stopping [OF assms(1-3)], rule decide, assumption, assumption)
      (use assms decide in \<open>auto intro: dwp_ret\<close>)
qed

lemma GetInstance_stopping:
  "GetInstance name d = Inr inst \<Longrightarrow> look name d = Some StateStopping \<Longrightarrow> iState inst = StateStopping \<and> iName inst = name"
  using GetInstance_look by fastforce

lemma ensureDiskLayout_stopping:
  assumes "look name d = Some StateStopping" "iName inst = name" "iState inst = StateStopping"
    "\<And>i d'. look name d' = Some StateStopping \<Longrightarrow> iState i = StateStopping \<Longrightarrow> Q i d'"
    "\<And>e d'. look name d' = Some StateStopping \<Longrightarrow> E e d'"
  shows "dwp (ensureDiskLayout ho inst) Q E d"
proof -
  have stored: "look name d' = Some StateStopping"
    if "UpdateInstance now (inst\<lparr>iRootFSPath := p, iUpdatedAt := t\<rparr>) d = Inr d'" for now p t d'
    using UpdateInstance_look [OF that] assms(1-3) by simp
  show ?thesis
    unfolding ensureDiskLayout_def persistInstance_def
    by (intro dwp_if dwp_rules dwp_exec) (use assms stored in auto)
qed

lemma prereqs_stopping: "iState inst = StateStopping \<Longrightarrow> ensureStartPrereqs api env inst \<noteq> Inr u"
  by (auto simp: ensureStartPrereqs_def bindR_Inr_iff)

lemma start_admit_stopping:
  assumes "look name d = Some StateStopping" "\<And>e d'. look name d' = Some StateStopping \<Longrightarrow> E e d'"
  shows "dwp (start_admit ho c name) Q E d"
  unfolding start_admit_def Let_def
  by (intro dwp_rules dwp_lift dwp_reconcile_stopping [where name = name] ensureDiskLayout_stopping [where name = name])
    (use assms prereqs_stopping in \<open>auto dest: GetInstance_stopping\<close>)

lemma start_stopping:
  assumes "look name d = Some StateStopping"
  shows "dwp (StartWithOptions ho c name discard) (\<lambda>_ _. False) (\<lambda>_ d'. look name d' = Some StateStopping) d"
proof -
  have existing: "dwp (existing_runtime ho inst) Q E d'"
    if "iState inst = StateStopping" "Q None d'" "\<And>e. E e d'" for inst Q E and d' :: db
    unfolding existing_runtime_def using that by (auto intro!: dwp_rules)
  show ?thesis
    unfolding StartWithOptions_def ReconcileInstanceRuntime_def
    by (intro dwp_rules dwp_reconcile_stopping [where name = name] existing start_admit_stopping dwp_option)
      (use assms in \<open>auto dest: GetInstance_stopping\<close>)
qed

definition stopped_row :: "string \<Rightarrow> db \<Rightarrow> bool" where
  "stopped_row name d \<longleftrightarrow> (case row_find (\<lambda>r. iName r = name) (instances d) of
     None \<Rightarrow> False | Some r \<Rightarrow> iState r = StateStopped \<and> iFirecrackerPID r = 0 \<and> iLastError r = [])"

lemma stopped_row_events [simp]:
  "stopped_row name (d\<lparr>event_sequence := n, instance_events := evs\<rparr>) = stopped_row name d"
  by (simp add: stopped_row_def)

lemma UpdateInstance_stopped:
  assumes "UpdateInstance now inst d = Inr d'" "iName inst = name" "look name d \<noteq> None"
    "iState inst = StateStopped" "iFirecrackerPID inst = 0" "iLastError inst = []"
  shows "stopped_row name d'"
proof -
  obtain r where "row_find (\<lambda>r. iName r = name) (instances d) = Some r"
    using assms(3) by (auto simp: look_def)
  then show ?thesis
    using UpdateInstance_effect(2) [OF assms(1)] assms(2,4-6) by (simp add: stopped_row_def update_columns_def)
qed

lemma stop_durable:
  "dwp (StopWithOptions ho name save) (\<lambda>_. stopped_row name)
    (\<lambda>_ d'. d' = d \<or> look name d' = Some StateStopping) d"
proof -
  have intent: "look name d' = Some StateStopping"
    if "UpdateInstance now (inst\<lparr>iState := StateStopping, iLastError := t, iUpdatedAt := u\<rparr>) d = Inr d'"
      "GetInstance name d = Inr inst" for now inst t u d'
    using UpdateInstance_look [OF that(1)] GetInstance_look [OF that(2)] by simp
  show ?thesis
    unfolding StopWithOptions_def stopFirecrackerWithState_def persistInstance_def
    by (intro dwp_rules dwp_lift dwp_exec dwp_resolve_stopping [where name = name])
      (auto simp: same_attempt_def dest: intent GetInstance_look intro!: UpdateInstance_stopped)
qed

end
