(* ===== verification/ReceiptProofs.thy ===== *)
theory ReceiptProofs
  imports Receipts
begin

section \<open>A start attempt is launched at most once\<close>

text \<open>
  The runner's calls on one name as a step relation, with a crash possible after a receipt has been
  accepted; a crash after any other write looks like a write that failed after it took effect. Every
  change of the directory is an allowed write, from which the invariant and the life cycle of a
  receipt follow.
\<close>

subsection \<open>Allowed writes\<close>

definition receipt_key :: "codec \<Rightarrow> startReceipt \<Rightarrow> string" where
  "receipt_key cd r = cdKey cd (sqRequestID (rcAttempt r))"

definition put_receipt :: "codec \<Rightarrow> startReceipt \<Rightarrow> receipt_dir \<Rightarrow> receipt_dir" where
  "put_receipt cd r dir = (receipt_key cd r, r) # filter (\<lambda>f. fst f \<noteq> receipt_key cd r) dir"

definition all_closed :: "receipt_dir \<Rightarrow> bool" where
  "all_closed dir \<longleftrightarrow> (\<forall>f \<in> set dir. rcState (snd f) = ''closed'')"

text \<open>A new receipt is closed, or the only active one; an existing one keeps its attempt, is never
  reopened, and is closed only when \<open>dead\<close> says that nothing of the name is running.\<close>

definition allowed_write :: "codec \<Rightarrow> string \<Rightarrow> bool \<Rightarrow> receipt_dir \<Rightarrow> startReceipt \<Rightarrow> bool" where
  "allowed_write cd name dead dir r \<longleftrightarrow> sqName (rcAttempt r) = name \<and>
     (case map_of dir (receipt_key cd r) of
       None \<Rightarrow> rcState r = ''closed'' \<or> all_closed dir
     | Some r0 \<Rightarrow> rcAttempt r0 = rcAttempt r \<and> rcState r0 \<noteq> ''closed'' \<and> (rcState r = ''closed'' \<longrightarrow> dead))"

inductive dir_change :: "codec \<Rightarrow> string \<Rightarrow> bool \<Rightarrow> receipt_dir \<Rightarrow> receipt_dir \<Rightarrow> bool" for cd name dead where
  unchanged: "dir_change cd name dead dir dir"
| changed: "allowed_write cd name dead dir r \<Longrightarrow> dir_change cd name dead (put_receipt cd r dir) dir' \<Longrightarrow>
    dir_change cd name dead dir dir'"

lemmas dir_change_one = changed[OF _ unchanged]

lemma dir_change_trans: "dir_change cd name dead a b \<Longrightarrow> dir_change cd name dead b c \<Longrightarrow> dir_change cd name dead a c"
  by (induction rule: dir_change.induct) (auto intro: dir_change.intros)

lemma writeReceipt_dir:
  assumes "writeReceipt cd v r dir = (x, dir')"
  shows "dir' = dir \<and> isl x \<or> dir' = put_receipt cd r dir"
  using assms by (auto simp: writeReceipt_def put_receipt_def receipt_key_def Let_def split: write_fate.splits)

lemma writeReceipt_ok: "writeReceipt cd v r dir = (Inr u, dir') \<Longrightarrow> dir' = put_receipt cd r dir"
  by (auto simp: writeReceipt_def put_receipt_def receipt_key_def Let_def split: write_fate.splits)

lemma writeReceipt_change:
  "allowed_write cd name dead dir r \<Longrightarrow> writeReceipt cd v r dir = (x, dir') \<Longrightarrow> dir_change cd name dead dir dir'"
  using writeReceipt_dir by (metis dir_change_one unchanged)

lemma map_of_put [simp]:
  "map_of (put_receipt cd r dir) k = (if k = receipt_key cd r then Some r else map_of dir k)"
proof -
  have "map_of (filter (\<lambda>f. fst f \<noteq> x) dir) k = (if k = x then None else map_of dir k)" for x
    by (induction dir) auto
  then show ?thesis by (simp add: put_receipt_def)
qed

lemma readReceipt_Some:
  assumes "readReceipt cd q dir = Inr (Some r)"
  shows "map_of dir (cdKey cd (sqRequestID q)) = Some r \<and> rcAttempt r = q"
  using assms by (auto simp: readReceipt_def bindR_Inr_iff split: option.splits if_splits simp del: bindR_failIf)

lemma readReceipt_None: "readReceipt cd q dir = Inr None \<longleftrightarrow> map_of dir (cdKey cd (sqRequestID q)) = None"
  by (auto simp: readReceipt_def bindR_Inr_iff split: option.splits simp del: bindR_failIf)

subsection \<open>What the scan of the directory tells\<close>

lemma scan_active_Some:
  assumes "scan_active cd name dir rest active = Inr (Some a)"
  shows "active = Some a \<or> map_of dir (receipt_key cd a) = Some a \<and> rcState a \<noteq> ''closed'' \<and> sqName (rcAttempt a) = name"
  using assms
proof (induction rest arbitrary: active)
  case (Cons f rest)
  obtain k r where f: "f = (k, r)" by fastforce
  from Cons.prems obtain c where c: "sqName (rcAttempt r) = name" "readReceipt cd (rcAttempt r) dir = Inr (Some c)"
    unfolding f by (auto simp: bindR_Inr_iff split: option.splits simp del: bindR_failIf)
  from readReceipt_Some[OF c(2)] have m: "map_of dir (receipt_key cd c) = Some c" "sqName (rcAttempt c) = name"
    using c(1) by (auto simp: receipt_key_def)
  show ?case
  proof (cases "rcState c = ''closed''")
    case True
    with Cons.prems c have "scan_active cd name dir rest active = Inr (Some a)" unfolding f by (auto simp: bindR_Inr_iff split: if_splits)
    then show ?thesis by (rule Cons.IH)
  next
    case False
    with Cons.prems c have "scan_active cd name dir rest (Some c) = Inr (Some a)" unfolding f by (auto simp: bindR_Inr_iff split: if_splits)
    from Cons.IH[OF this] m False show ?thesis by auto
  qed
qed simp

lemma scan_active_None:
  assumes "scan_active cd name dir rest active = Inr None"
  shows "active = None \<and> (\<forall>(k, r) \<in> set rest. \<exists>c. map_of dir k = Some c \<and> rcState c = ''closed'')"
  using assms
proof (induction rest arbitrary: active)
  case (Cons f rest)
  obtain k r where f: "f = (k, r)" by fastforce
  from Cons.prems obtain c where c: "k = cdKey cd (sqRequestID (rcAttempt r))" "readReceipt cd (rcAttempt r) dir = Inr (Some c)"
    unfolding f by (auto simp: bindR_Inr_iff split: option.splits simp del: bindR_failIf)
  note m = readReceipt_Some[OF c(2)]
  show ?case
  proof (cases "rcState c = ''closed''")
    case True
    with Cons.prems c have "scan_active cd name dir rest active = Inr None" unfolding f by (auto simp: bindR_Inr_iff split: if_splits)
    from Cons.IH[OF this] True m c(1) f show ?thesis by auto
  next
    case False
    with Cons.prems c have "scan_active cd name dir rest (Some c) = Inr None" unfolding f by (auto simp: bindR_Inr_iff split: if_splits)
    from Cons.IH[OF this] show ?thesis by simp
  qed
qed simp

subsection \<open>The invariant\<close>

definition dir_inv :: "codec \<Rightarrow> string \<Rightarrow> receipt_dir \<Rightarrow> bool" where
  "dir_inv cd name dir \<longleftrightarrow> distinct (map fst dir) \<and>
     (\<forall>(k, r) \<in> set dir. k = receipt_key cd r \<and> sqName (rcAttempt r) = name) \<and>
     (\<forall>(k, r) \<in> set dir. \<forall>(k', r') \<in> set dir. rcState r \<noteq> ''closed'' \<and> rcState r' \<noteq> ''closed'' \<longrightarrow> k = k')"

lemma dir_inv_map_of: "dir_inv cd name dir \<Longrightarrow> map_of dir k = Some r \<longleftrightarrow> (k, r) \<in> set dir"
  by (simp add: dir_inv_def)

lemma active_none_closed:
  assumes "dir_inv cd name dir" "activeReceipt cd name dir = Inr None"
  shows "all_closed dir"
  unfolding all_closed_def
proof
  fix f assume "f \<in> set dir"
  moreover obtain k r where f: "f = (k, r)" by fastforce
  ultimately obtain c where "map_of dir k = Some c" "rcState c = ''closed''" "(k, r) \<in> set dir"
    using scan_active_None[OF assms(2)[unfolded activeReceipt_def]] by fastforce
  then show "rcState (snd f) = ''closed''" using dir_inv_map_of[OF assms(1), of k] f by (metis option.inject snd_conv)
qed

lemma allowed_write_inv:
  assumes inv: "dir_inv cd name dir" and ok: "allowed_write cd name dead dir r"
  shows "dir_inv cd name (put_receipt cd r dir)"
proof -
  let ?k = "receipt_key cd r"
  have others: "rcState r' = ''closed''" if "(k', r') \<in> set dir" "k' \<noteq> ?k" "rcState r \<noteq> ''closed''" for k' r'
  proof (cases "map_of dir ?k")
    case None
    with ok that show ?thesis by (auto simp: allowed_write_def all_closed_def)
  next
    case (Some r0)
    with ok have "rcState r0 \<noteq> ''closed''" by (auto simp: allowed_write_def)
    moreover have "(?k, r0) \<in> set dir" using Some by (rule map_of_SomeD)
    ultimately show ?thesis using inv that(1,2) unfolding dir_inv_def by fastforce
  qed
  have "distinct (map fst (put_receipt cd r dir))" using inv by (auto simp: put_receipt_def dir_inv_def distinct_map_filter)
  moreover have "sqName (rcAttempt r) = name" using ok by (simp add: allowed_write_def)
  ultimately show ?thesis using inv others unfolding dir_inv_def put_receipt_def by fastforce
qed

lemma dir_change_inv: "dir_change cd name dead dir dir' \<Longrightarrow> dir_inv cd name dir \<Longrightarrow> dir_inv cd name dir'"
  by (induction rule: dir_change.induct) (auto intro: allowed_write_inv)

text \<open>The life of a receipt under a change: it stays, keeps its attempt, stays closed, and is closed only
  when the name is dead.\<close>

lemma dir_change_receipt:
  assumes "dir_change cd name dead dir dir'" "map_of dir k = Some r"
  shows "\<exists>r'. map_of dir' k = Some r' \<and> rcAttempt r' = rcAttempt r \<and>
    (rcState r = ''closed'' \<longrightarrow> r' = r) \<and> (rcState r \<noteq> ''closed'' \<and> rcState r' = ''closed'' \<longrightarrow> dead)"
  using assms
proof (induction arbitrary: r rule: dir_change.induct)
  case (changed dir w dir')
  obtain r1 where r1: "map_of (put_receipt cd w dir) k = Some r1" "rcAttempt r1 = rcAttempt r"
    "rcState r = ''closed'' \<longrightarrow> r1 = r" "rcState r \<noteq> ''closed'' \<and> rcState r1 = ''closed'' \<longrightarrow> dead"
    using changed.hyps(1) changed.prems by (cases "k = receipt_key cd w") (auto simp: allowed_write_def)
  from changed.IH[OF r1(1)] r1 show ?case by metis
qed simp

subsection \<open>Every operation makes allowed changes\<close>

abbreviation dead_name :: "runtime_view \<Rightarrow> string \<Rightarrow> bool" where
  "dead_name v name \<equiv> noLiveRuntimeLocked v name = Inr ()"

lemma not_isl_unit: "\<not> isl (x :: unit result) \<longleftrightarrow> x = Inr ()"
  by (cases x) auto

lemma owns_name_file:
  assumes "owns_name cd r dir"
  obtains a where "map_of dir (receipt_key cd r) = Some a" "rcAttempt a = rcAttempt r" "rcState a \<noteq> ''closed''"
proof -
  from assms obtain a where a: "activeReceipt cd (sqName (rcAttempt r)) dir = Inr (Some a)" "rcAttempt a = rcAttempt r"
    by (auto simp: owns_name_def split: sum.splits option.splits)
  from scan_active_Some[OF a(1)[unfolded activeReceipt_def]] a(2) that show ?thesis
    by (auto simp: receipt_key_def)
qed

lemma close_allowed:
  assumes "owns_name cd r dir" "sqName (rcAttempt r) = name" "dead"
  shows "allowed_write cd name dead dir (r\<lparr>rcState := ''closed''\<rparr>)"
proof -
  obtain a where "map_of dir (receipt_key cd r) = Some a" "rcAttempt a = rcAttempt r" "rcState a \<noteq> ''closed''"
    by (rule owns_name_file[OF assms(1)])
  with assms(2,3) show ?thesis by (simp add: allowed_write_def receipt_key_def)
qed

lemma finishDead_change:
  assumes "finishDeadReceiptLocked cd v r dir = (x, dir')" "sqName (rcAttempt r) = name"
  shows "dir_change cd name (dead_name v name) dir dir'"
proof (cases "owns_name cd r dir \<and> dead_name v name")
  case True
  with assms close_allowed[of cd r dir name True] show ?thesis
    by (auto simp: finishDeadReceiptLocked_def intro: unchanged writeReceipt_change split: sum.splits prod.splits if_splits)
next
  case False
  with assms have "dir' = dir" by (auto simp: finishDeadReceiptLocked_def not_isl_unit split: if_splits)
  then show ?thesis by (simp add: unchanged)
qed

lemma resultLocked_change:
  assumes "resultLocked cd v r dir = (x, dir')" "sqName (rcAttempt r) = name"
  shows "dir_change cd name (dead_name v name) dir dir'"
  using assms
  by (auto simp: resultLocked_def intro: unchanged finishDead_change split: sum.splits if_splits)

lemma new_receipt_allowed:
  assumes "map_of dir (receipt_key cd r) = None" "sqName (rcAttempt r) = name" "rcState r = ''closed'' \<or> all_closed dir"
  shows "allowed_write cd name dead dir r"
  using assms by (simp add: allowed_write_def)

lemma write_then_result:
  assumes "(case writeReceipt cd v r dir of (Inl e, d) \<Rightarrow> (Inl e, d) | (Inr _, d) \<Rightarrow> resultLocked cd v r d) = (x, dir')"
    "allowed_write cd name (dead_name v name) dir r" "sqName (rcAttempt r) = name"
  shows "dir_change cd name (dead_name v name) dir dir'"
proof -
  obtain y d where w: "writeReceipt cd v r dir = (y, d)" by fastforce
  note c = writeReceipt_change[OF assms(2) w]
  show ?thesis
  proof (cases y)
    case (Inl e)
    with assms(1) w c show ?thesis by simp
  next
    case (Inr u)
    with assms(1) w have "resultLocked cd v r d = (x, dir')" by simp
    from resultLocked_change[OF this assms(3)] c show ?thesis by (rule dir_change_trans[rotated])
  qed
qed

lemma resolveStart_change:
  assumes "resolveStart cd v q dir = (x, dir')" "sqName q = name"
  shows "dir_change cd name (dead_name v name) dir dir'"
proof -
  consider e where "dir' = dir" | r where "readReceipt cd q dir = Inr (Some r)" "resultLocked cd v r dir = (x, dir')"
    | "readReceipt cd q dir = Inr None" "(let r = \<lparr>rcAttempt = q, rcDigest = [], rcState = ''closed'', rcPID = 0, rcTicks = 0,
         rcResumeConfig = [], rcSaveState = False\<rparr> in
       (case writeReceipt cd v r dir of (Inl e, d) \<Rightarrow> (Inl e, d) | (Inr _, d) \<Rightarrow> resultLocked cd v r d)) = (x, dir')"
    using assms(1) by (auto simp: resolveStart_def split: sum.splits option.splits if_splits)
  then show ?thesis
  proof cases
    case 2
    with readReceipt_Some[OF 2(1)] assms(2) show ?thesis by (auto intro: resultLocked_change)
  next
    case 3
    from 3(2)[unfolded Let_def] show ?thesis
      by (rule write_then_result) (use 3(1) assms(2) in \<open>auto simp: readReceipt_None receipt_key_def intro!: new_receipt_allowed\<close>)
  qed (simp add: unchanged)
qed

definition claims_absent :: "start_plan \<Rightarrow> bool" where
  "claims_absent plan \<longleftrightarrow> (\<exists>resp. plan = Answer (Inr resp) \<and> spOutcome resp = StartAbsent)"

lemma claims_absent_simps [simp]:
  "\<not> claims_absent LaunchLegacy" "\<not> claims_absent (Launch r)" "\<not> claims_absent (Answer (Inl e))"
  "\<not> claims_absent (Answer (Inr (response StartUnknown t)))"
  by (simp_all add: claims_absent_def StartUnknown_def StartAbsent_def)

lemma checked_path_absent: "checked_path l = Some a \<Longrightarrow> \<not> claims_absent (Answer a)"
  by (auto simp: checked_path_def split: sum.splits if_splits)

lemma new_attempt_cases:
  assumes "new_attempt cd v req r dir = (plan, dir')"
  obtains "dir' = dir" "\<exists>a. plan = Answer a" "\<not> claims_absent plan"
    | x where "writeReceipt cd v r dir = (x, dir')" "\<exists>a. plan = Answer a"
        "claims_absent plan \<longrightarrow> \<not> isl x" "activeReceipt cd (srqName req) dir = Inr None"
    | x where "activeReceipt cd (srqName req) dir = Inr None"
        "srqName req \<notin> set (projr (rvVMs v))" "\<not> isl (rvVMs v)"
        "writeReceipt cd v (r\<lparr>rcState := ''accepted'', rcResumeConfig := resumeConfig cd req\<rparr>) dir = (x, dir')"
        "isl x \<longrightarrow> (\<exists>e. plan = Answer (Inl e))"
        "\<not> isl x \<longrightarrow> plan = Launch (r\<lparr>rcState := ''accepted'', rcResumeConfig := resumeConfig cd req\<rparr>)"
  using assms unfolding new_attempt_def
  by (auto simp: Let_def dest: checked_path_absent split: sum.splits option.splits prod.splits if_splits)

text \<open>The start up to the launch: what it writes, and what a launch implies.\<close>

lemma prepare_cases:
  assumes "receipt_prepare cd v req dir = (plan, dir')"
  obtains "dir' = dir" "\<not> (\<exists>r. plan = Launch r)" "\<not> claims_absent plan"
    | r a where "map_of dir (cdKey cd (srqRequestID req)) = Some r" "rcAttempt r = start_attempt req"
        "resultLocked cd v r dir = (a, dir')" "plan = Answer a"
    | r a where "map_of dir (cdKey cd (srqRequestID req)) = None" "rcAttempt r = start_attempt req" "rcState r = ''closed''"
        "(case writeReceipt cd v r dir of (Inl e, d) \<Rightarrow> (Inl e, d) | (Inr _, d) \<Rightarrow> resultLocked cd v r d) = (a, dir')"
        "plan = Answer a"
    | r where "map_of dir (cdKey cd (srqRequestID req)) = None" "rcAttempt r = start_attempt req" "rcState r = ''closed''"
        "rvFence v = Inr ()" "new_attempt cd v req r dir = (plan, dir')"
proof -
  let ?q = "start_attempt req"
  have rid: "sqRequestID ?q = srqRequestID req" by (simp add: start_attempt_def)
  show ?thesis
  proof (cases "rvPaths v = Inr () \<and> validName (srqName req) \<and> srqRequestID req \<noteq> [] \<and> StartResultRequest_Validate ?q = Inr ()")
    case False
    note p = assms[unfolded receipt_prepare_def Let_def]
    consider e where "bindR (rvPaths v) (\<lambda>_. failIf (\<not> validName (srqName req)) (ErrMsg ''invalid instance name'')) = Inl e"
      | "rvPaths v = Inr ()" "validName (srqName req)" "srqRequestID req = []"
      | e where "rvPaths v = Inr ()" "validName (srqName req)" "srqRequestID req \<noteq> []" "StartResultRequest_Validate ?q = Inl e"
      using False by (cases "rvPaths v"; cases "StartResultRequest_Validate ?q") auto
    then have "dir' = dir \<and> \<not> (\<exists>r. plan = Launch r) \<and> \<not> claims_absent plan"
    proof cases
      case (1 e)
      from p[unfolded 1 sum.case] show ?thesis by auto
    next
      case 2
      with p show ?thesis by (auto simp: failIf_def split: sum.splits option.splits)
    next
      case (3 e)
      with p show ?thesis by (auto simp: failIf_def)
    qed
    then have "dir' = dir" "\<not> (\<exists>r. plan = Launch r)" "\<not> claims_absent plan" by auto
    then show ?thesis by (rule that(1))
  next
    case True
    note p = assms[unfolded receipt_prepare_def Let_def]
    consider e where "readReceipt cd ?q dir = Inl e" | r where "readReceipt cd ?q dir = Inr (Some r)"
      | "readReceipt cd ?q dir = Inr None" by (metis not_None_eq sum.exhaust)
    then show ?thesis
    proof cases
      case 1
      with True p that(1) show ?thesis by (auto simp: failIf_def)
    next
      case (2 r)
      note m = readReceipt_Some[OF 2, unfolded rid]
      obtain a d where "resultLocked cd v r dir = (a, d)" by fastforce
      with 2 True p m that(1) that(2)[of r a] show ?thesis by (auto simp: failIf_def split: if_splits)
    next
      case 3
      then have none: "map_of dir (cdKey cd (srqRequestID req)) = None" by (simp add: readReceipt_None rid)
      define r where "r = \<lparr>rcAttempt = ?q, rcDigest = cdKey cd (cdEncode cd req), rcState = ''closed'', rcPID = 0,
        rcTicks = 0, rcResumeConfig = [], rcSaveState = False\<rparr>"
      have r: "rcAttempt r = ?q" "rcState r = ''closed''" by (simp_all add: r_def)
      show ?thesis
      proof (cases "bindR (rvFence v) (\<lambda>_. rvBoot v)")
        case (Inl e)
        with 3 True p that(1) show ?thesis by (auto simp: failIf_def)
      next
        case (Inr boot)
        then have fence: "rvFence v = Inr ()" by (auto simp: bindR_Inr_iff)
        obtain x d where w: "writeReceipt cd v r dir = (x, d)" by fastforce
        obtain a d2 where b: "resultLocked cd v r d = (a, d2)" by fastforce
        show ?thesis
        proof (cases "boot = srqHostBootID req")
          case True
          with 3 Inr \<open>rvPaths v = Inr () \<and> _\<close> p have "new_attempt cd v req r dir = (plan, dir')" by (simp add: r_def failIf_def)
          with none r fence that(4) show ?thesis by blast
        next
          case False
          with 3 Inr True p w b show ?thesis
            using that(3)[OF none r, of "if isl x then Inl (projl x) else a"]
            unfolding r_def[symmetric] by (cases x) (auto simp: failIf_def)
        qed
      qed
    qed
  qed
qed

lemma start_attempt_simps [simp]: "sqName (start_attempt req) = srqName req" "sqRequestID (start_attempt req) = srqRequestID req"
  by (simp_all add: start_attempt_def)

lemma prepare_change:
  assumes prep: "receipt_prepare cd v req dir = (plan, dir')" and inv: "dir_inv cd (srqName req) dir"
  shows "dir_change cd (srqName req) (dead_name v (srqName req)) dir dir'"
  using prep
proof (cases rule: prepare_cases)
  case (2 r a)
  then show ?thesis by (intro resultLocked_change) auto
next
  case (3 r a)
  show ?thesis by (rule write_then_result[OF 3(4)]) (use 3 in \<open>auto simp: receipt_key_def intro!: new_receipt_allowed\<close>)
next
  case (4 r)
  have key: "receipt_key cd r = cdKey cd (srqRequestID req)" using 4 by (simp add: receipt_key_def)
  from 4(5) show ?thesis
  proof (cases rule: new_attempt_cases)
    case (2 x)
    show ?thesis by (rule writeReceipt_change[OF new_receipt_allowed 2(1)]) (use 4 key in auto)
  next
    case (3 x)
    have "all_closed dir" by (rule active_none_closed[OF inv 3(1)])
    then show ?thesis by (intro writeReceipt_change[OF new_receipt_allowed 3(4)]) (use 4 key in \<open>auto simp: receipt_key_def\<close>)
  qed (simp add: unchanged)
qed (simp_all add: unchanged)

lemma prepare_launch:
  assumes "receipt_prepare cd v req dir = (Launch r, dir')"
  shows "map_of dir (cdKey cd (srqRequestID req)) = None \<and> map_of dir' (cdKey cd (srqRequestID req)) = Some r \<and>
    rcState r = ''accepted'' \<and> rcAttempt r = start_attempt req \<and> activeReceipt cd (srqName req) dir = Inr None \<and>
    (\<exists>vms. rvVMs v = Inr vms \<and> srqName req \<notin> set vms) \<and> rvFence v = Inr ()"
  using assms
proof (cases rule: prepare_cases)
  case (4 r0)
  from 4(5) show ?thesis
  proof (cases rule: new_attempt_cases)
    case (3 x)
    then have x: "x = Inr ()" by (cases x) auto
    let ?r = "r0\<lparr>rcState := ''accepted'', rcResumeConfig := resumeConfig cd req\<rparr>"
    have "dir' = put_receipt cd ?r dir" using 3(4) x by (auto intro: writeReceipt_ok)
    moreover have "r = ?r" using 3 x by simp
    moreover have "receipt_key cd ?r = cdKey cd (srqRequestID req)" using 4 by (simp add: receipt_key_def)
    moreover have "\<exists>vms. rvVMs v = Inr vms \<and> srqName req \<notin> set vms" using 3(2,3) by (cases "rvVMs v") auto
    ultimately show ?thesis using 3(1) 4 by simp
  qed auto
qed auto

lemma finish_change:
  assumes "receipt_finish cd v req r dir = (x, dir')" "map_of dir (receipt_key cd r) = Some r" "rcState r = ''accepted''"
    "sqName (rcAttempt r) = name"
  shows "dir_change cd name (dead_name v name) dir dir'"
proof -
  consider "dir' = dir" | pid ticks where
    "(let r' = r\<lparr>rcPID := pid, rcTicks := ticks, rcState := ''started''\<rparr> in
      (case writeReceipt cd v r' dir of (Inl e, d) \<Rightarrow> (Inl e, d) | (Inr _, d) \<Rightarrow> resultLocked cd v r' d)) = (x, dir')"
    using assms(1) by (auto simp: receipt_finish_def split: sum.splits)
  then show ?thesis
  proof cases
    case (2 pid ticks)
    from 2[unfolded Let_def] show ?thesis
      by (rule write_then_result) (use assms in \<open>auto simp: allowed_write_def receipt_key_def\<close>)
  qed (simp add: unchanged)
qed

lemma stopReceiptLocked_change:
  assumes "stopReceiptLocked cd v r dir = (x, dir')" "sqName (rcAttempt r) = name"
  shows "dir_change cd name (dead_name v name) dir dir'"
proof -
  consider "dir' = dir" | y where "finishDeadReceiptLocked cd v r dir = (y, dir')"
    | z where "owns_name cd r dir" "dead_name v name" "writeReceipt cd v (r\<lparr>rcState := ''closed''\<rparr>) dir = (z, dir')"
    using assms by (auto simp: stopReceiptLocked_def dead_answer_def bindR_Inr_iff split: sum.splits if_splits prod.splits)
  then show ?thesis
  proof cases
    case 3
    with assms(2) show ?thesis by (intro writeReceipt_change[OF close_allowed])
  qed (use assms(2) in \<open>auto intro: unchanged finishDead_change\<close>)
qed

lemma mark_save_change:
  assumes "mark_save cd v save r dir = (x, dir')" "map_of dir (receipt_key cd r) = Some r" "sqName (rcAttempt r) = name"
  shows "dir_change cd name dead dir dir' \<and> (\<forall>r'. x = Inr r' \<longrightarrow> rcAttempt r' = rcAttempt r)"
proof -
  consider "dir' = dir" "\<forall>r'. x = Inr r' \<longrightarrow> r' = r"
    | y where "rcState r = ''started''" "writeReceipt cd v (r\<lparr>rcSaveState := True\<rparr>) dir = (y, dir')"
        "\<forall>r'. x = Inr r' \<longrightarrow> r' = r\<lparr>rcSaveState := True\<rparr>"
    using assms(1) by (auto simp: mark_save_def Let_def split: if_splits sum.splits prod.splits)
  then show ?thesis
  proof cases
    case (2 y)
    have "allowed_write cd name dead dir (r\<lparr>rcSaveState := True\<rparr>)"
      using assms(2,3) 2(1) by (simp add: allowed_write_def receipt_key_def)
    from writeReceipt_change[OF this 2(2)] 2(3) show ?thesis by auto
  qed (simp add: unchanged)
qed

lemma receiptStop_change:
  assumes "receiptStop cd v req dir = (x, dir')"
  shows "dir_change cd (tqName req) (dead_name v (tqName req)) dir dir'"
proof -
  consider "dir' = dir" | r y d1 where "readReceipt cd (stop_attempt req) dir = Inr (Some r)"
      "mark_save cd v (tqSaveState req) r dir = (y, d1)" "isl y" "dir' = d1"
    | r r' d1 z where "readReceipt cd (stop_attempt req) dir = Inr (Some r)"
      "mark_save cd v (tqSaveState req) r dir = (Inr r', d1)" "stopReceiptLocked cd v r' d1 = (z, dir')"
    using assms by (auto simp: receiptStop_def bindR_Inr_iff split: if_splits sum.splits option.splits prod.splits)
  then show ?thesis
  proof cases
    case (2 r y d1)
    with readReceipt_Some[OF 2(1)] mark_save_change[OF 2(2), of "tqName req"] show ?thesis
      by (auto simp: receipt_key_def stop_attempt_def)
  next
    case (3 r r' d1 z)
    have r: "map_of dir (receipt_key cd r) = Some r" "sqName (rcAttempt r) = tqName req"
      using readReceipt_Some[OF 3(1)] by (auto simp: receipt_key_def stop_attempt_def)
    note m = mark_save_change[OF 3(2) r, of "dead_name v (tqName req)"]
    then have "sqName (rcAttempt r') = tqName req" using r(2) by simp
    from stopReceiptLocked_change[OF 3(3) this] m show ?thesis by (meson dir_change_trans)
  qed (simp add: unchanged)
qed

subsection \<open>Calls and crashes\<close>

text \<open>A start that launches is seen with two views, before and after the launch; it may be interrupted
  after the receipt was accepted, whether or not the launch took place.\<close>

datatype runner_event =
    RnStart runtime_view StartRequest
  | RnLaunch runtime_view runtime_view StartRequest
  | RnResolve runtime_view StartResultRequest
  | RnStop runtime_view StopRequest

inductive runner_step :: "codec \<Rightarrow> string \<Rightarrow> receipt_dir \<Rightarrow> runner_event \<Rightarrow> receipt_dir \<Rightarrow> bool" for cd name where
  rn_start: "srqName req = name \<Longrightarrow> receipt_prepare cd v req dir = (plan, dir') \<Longrightarrow> \<not> (\<exists>r. plan = Launch r) \<Longrightarrow>
    runner_step cd name dir (RnStart v req) dir'"
| rn_launch: "srqName req = name \<Longrightarrow> receipt_prepare cd v req dir = (Launch r, d1) \<Longrightarrow>
    receipt_finish cd v' req r d1 = (x, dir') \<Longrightarrow> runner_step cd name dir (RnLaunch v v' req) dir'"
| rn_crash: "srqName req = name \<Longrightarrow> receipt_prepare cd v req dir = (Launch r, dir') \<Longrightarrow>
    runner_step cd name dir (RnLaunch v v' req) dir'"
| rn_resolve: "sqName q = name \<Longrightarrow> resolveStart cd v q dir = (x, dir') \<Longrightarrow> runner_step cd name dir (RnResolve v q) dir'"
| rn_stop: "tqName req = name \<Longrightarrow> receiptStop cd v req dir = (y, dir') \<Longrightarrow> runner_step cd name dir (RnStop v req) dir'"

fun launches :: "string \<Rightarrow> runner_event \<Rightarrow> bool" where
  "launches rid (RnLaunch v v' req) = (srqRequestID req = rid)"
| "launches rid _ = False"

text \<open>During the event some view showed nothing of the name running.\<close>

fun event_dead :: "string \<Rightarrow> runner_event \<Rightarrow> bool" where
  "event_dead name (RnStart v req) = dead_name v name"
| "event_dead name (RnLaunch v v' req) = (dead_name v name \<or> dead_name v' name)"
| "event_dead name (RnResolve v q) = dead_name v name"
| "event_dead name (RnStop v req) = dead_name v name"

lemma dir_change_mono: "dir_change cd name d dir dir' \<Longrightarrow> (d \<Longrightarrow> d') \<Longrightarrow> dir_change cd name d' dir dir'"
proof (induction rule: dir_change.induct)
  case (changed dir r dir')
  then have "allowed_write cd name d' dir r" by (auto simp: allowed_write_def split: option.splits)
  then show ?case using changed by (blast intro: dir_change.changed)
qed (rule unchanged)

lemma runner_step_change:
  "runner_step cd name dir e dir' \<Longrightarrow> dir_inv cd name dir \<Longrightarrow> dir_change cd name (event_dead name e) dir dir'"
proof (induction rule: runner_step.induct)
  case (rn_start req v dir plan dir')
  then show ?case using prepare_change by auto
next
  case (rn_launch req v dir r d1 v' x dir')
  have "dir_change cd name (dead_name v name) dir d1" using prepare_change rn_launch by auto
  moreover have "dir_change cd name (dead_name v' name) d1 dir'"
    by (rule finish_change[OF rn_launch(3)]) (use prepare_launch[OF rn_launch(2)] rn_launch(1) in \<open>auto simp: receipt_key_def\<close>)
  ultimately show ?case by (auto intro: dir_change_trans dir_change_mono)
next
  case (rn_crash req v dir r dir' v')
  have "dir_change cd name (dead_name v name) dir dir'" using prepare_change rn_crash by auto
  then show ?case by (auto intro: dir_change_mono)
next
  case (rn_resolve q v dir x dir')
  then show ?case using resolveStart_change by auto
next
  case (rn_stop req v dir y dir')
  then show ?case using receiptStop_change by auto
qed

lemma launch_fresh:
  assumes "runner_step cd name dir e dir'" "launches rid e"
  shows "map_of dir (cdKey cd rid) = None \<and> map_of dir' (cdKey cd rid) \<noteq> None"
  using assms
proof (induction rule: runner_step.induct)
  case (rn_launch req v dir r d1 v' x dir')
  note p = prepare_launch[OF rn_launch(2)]
  have "dir_change cd (srqName req) (dead_name v' (srqName req)) d1 dir'"
    by (rule finish_change[OF rn_launch(3)]) (use p in \<open>auto simp: receipt_key_def\<close>)
  from dir_change_receipt[OF this] p rn_launch(4) show ?case by auto
next
  case (rn_crash req v dir r dir' v')
  from prepare_launch[OF rn_crash(2)] rn_crash(3) show ?case by auto
qed simp_all

lemma runner_step_keeps:
  "runner_step cd name dir e dir' \<Longrightarrow> dir_inv cd name dir \<Longrightarrow> map_of dir k \<noteq> None \<Longrightarrow> map_of dir' k \<noteq> None"
  using dir_change_receipt[OF runner_step_change] by blast

lemma runner_step_inv: "runner_step cd name dir e dir' \<Longrightarrow> dir_inv cd name dir \<Longrightarrow> dir_inv cd name dir'"
  using dir_change_inv runner_step_change by blast

interpretation attempts: once_system "runner_step cd name" "\<lambda>dir. dir = []" "dir_inv cd name"
    "launches rid" "\<lambda>dir. map_of dir (cdKey cd rid) \<noteq> None" for cd name rid
proof unfold_locales
  show "dir = [] \<Longrightarrow> dir_inv cd name dir" for dir by (simp add: dir_inv_def)
  show "runner_step cd name s e t \<Longrightarrow> dir_inv cd name s \<Longrightarrow> dir_inv cd name t" for s e t by (rule runner_step_inv)
  show "runner_step cd name s e t \<Longrightarrow> dir_inv cd name s \<Longrightarrow> launches rid e \<Longrightarrow> \<not> map_of s (cdKey cd rid) \<noteq> None" for s e t
    by (simp add: launch_fresh)
  show "runner_step cd name s e t \<Longrightarrow> dir_inv cd name s \<Longrightarrow> launches rid e \<Longrightarrow> map_of t (cdKey cd rid) \<noteq> None" for s e t
    by (simp add: launch_fresh)
  show "runner_step cd name s e t \<Longrightarrow> dir_inv cd name s \<Longrightarrow> map_of s (cdKey cd rid) \<noteq> None \<Longrightarrow> map_of t (cdKey cd rid) \<noteq> None" for s e t
    by (rule runner_step_keeps)
qed

subsection \<open>The properties\<close>

text \<open>C31: a start attempt is launched at most once. In any sequence of starts, outcome queries and stops
  on a name, with interruptions after a receipt was accepted, writes that fail before or after they
  take effect, host reboots and any observations of the host, at most one launch is made under a
  request identifier.\<close>

theorem start_launched_at_most_once:
  assumes "run (runner_step cd name) [] es dir"
  shows "length (filter (launches rid) es) \<le> 1"
  by (rule attempts.reachable_fires_once[OF refl assms])

definition rc_codec :: codec where
  "rc_codec = \<lparr>cdKey = (\<lambda>s. s @ replicate (64 - length s) (CHR ''0'')), cdEncode = srqName\<rparr>"

definition rc_view :: runtime_view where
  "rc_view = \<lparr>rvPaths = Inr (), rvBoot = Inr ''boot'', rvTicks = (\<lambda>_. Inr 77), rvPeer = Inr 42, rvVMs = Inr [],
     rvDial = Inl ErrNotExist, rvWorkspace = Inl ErrNotExist, rvSocket = Inl ErrNotExist, rvFence = Inr (),
     rvRAM = Inr None, rvDiscard = Inr (), rvDiskStamp = Inr [], rvVersion = Inr [], rvCleanCgroup = Inr (),
     rvCleanRuntime = Inr (), rvLayout = Inr (), rvLaunch = (\<lambda>_. Inr 42), rvExit = (\<lambda>_. Inr ()),
     rvDeletedMark = Inl ErrNotExist, rvLegacyStop = Inr (), rvWrite = (\<lambda>_. Written)\<rparr>"

definition rc_request :: StartRequest where
  "rc_request = \<lparr>srqDiscardState = False, srqKind = ''vm'', srqKernelPath = ''/k'', srqInitrdPath = [],
     srqInstanceID = ''i1'', srqRequestID = ''s1'', srqHostBootID = ''boot'', srqName = ''web'', srqTapDevice = ''tap0'',
     srqGuestMAC = ''02:00:00:00:00:01'', srqGuestAddr = ''10.0.0.2/30'', srqGatewayAddr = ''10.0.0.1'',
     srqNameservers = [], srqVCPUCount = 1, srqMemoryMiB = 1024, srqMemoryMode = [], srqMemoryPoolName = [],
     srqMemoryPoolSizeBytes = 0, srqKernelArgs = [], srqBootstrap = empty_bootstrap\<rparr>"

definition rc_dir :: receipt_dir where
  "rc_dir = snd (receiptStart rc_codec rc_view rc_request [])"

lemma rc_launch_run: "run (runner_step rc_codec ''web'') [] [RnLaunch rc_view rc_view rc_request] rc_dir"
proof -
  have "case receipt_prepare rc_codec rc_view rc_request [] of (Launch r, d) \<Rightarrow> True | _ \<Rightarrow> False" by code_simp
  then obtain r d where p: "receipt_prepare rc_codec rc_view rc_request [] = (Launch r, d)"
    by (auto split: prod.splits start_plan.splits)
  obtain x dir' where f: "receipt_finish rc_codec rc_view rc_request r d = (x, dir')" by fastforce
  have "srqName rc_request = ''web''" by (simp add: rc_request_def)
  from rn_launch[OF this p f] p f show ?thesis by (simp add: run_single rc_dir_def receiptStart_def)
qed

theorem start_launched_at_most_once_witness:
  "length (filter (launches ''s1'') [RnLaunch rc_view rc_view rc_request]) \<le> 1"
  using start_launched_at_most_once[OF rc_launch_run] .

text \<open>C32: once the outcome of an attempt has been answered, it is settled. After a query that was
  answered, no later call, however delayed, launches under that request identifier.\<close>

theorem resolved_attempt_not_launched:
  assumes "run (runner_step cd name) [] es dir" "resolveStart cd v q dir = (Inr resp, dir')" "sqName q = name"
    "run (runner_step cd name) dir' fs dir''"
  shows "filter (launches (sqRequestID q)) fs = []"
proof -
  have inv: "dir_inv cd name dir" by (rule attempts.reachable_inv[OF refl assms(1)])
  have step: "runner_step cd name dir (RnResolve v q) dir'" using assms(3,2) by (rule rn_resolve)
  have "map_of dir' (cdKey cd (sqRequestID q)) \<noteq> None"
  proof (cases "map_of dir (cdKey cd (sqRequestID q))")
    case None
    define r where "r = \<lparr>rcAttempt = q, rcDigest = [], rcState = ''closed'', rcPID = 0, rcTicks = 0,
         rcResumeConfig = [], rcSaveState = False\<rparr>"
    have "validName (sqName q)" using assms(2) by (auto simp: resolveStart_def failIf_def split: if_splits)
    with None assms(2) obtain u d where w: "writeReceipt cd v r dir = (Inr u, d)" "resultLocked cd v r d = (Inr resp, dir')"
      unfolding resolveStart_def r_def[symmetric]
      by (auto simp: readReceipt_def failIf_def Let_def split: prod.splits sum.splits)
    have "map_of d (cdKey cd (sqRequestID q)) = Some r" using writeReceipt_ok[OF w(1)] by (simp add: receipt_key_def r_def)
    moreover have "dir_change cd name (dead_name v name) d dir'"
      by (rule resultLocked_change[OF w(2)]) (simp add: r_def assms(3))
    ultimately show ?thesis using dir_change_receipt by blast
  next
    case (Some r)
    with runner_step_keeps[OF step inv] show ?thesis by blast
  qed
  with attempts.run_spent_silent[OF assms(4) runner_step_inv[OF step inv]] show ?thesis by blast
qed

theorem resolved_attempt_not_launched_witness:
  "filter (launches ''s1'') [RnStart rc_view rc_request] = []"
proof -
  let ?q = "start_attempt rc_request"
  obtain a dir' where r: "resolveStart rc_codec rc_view ?q [] = (a, dir')" by fastforce
  have "\<not> isl (fst (resolveStart rc_codec rc_view ?q []))" by code_simp
  then obtain resp where resp: "resolveStart rc_codec rc_view ?q [] = (Inr resp, dir')" using r by (cases a) auto
  have "case receipt_prepare rc_codec rc_view rc_request (snd (resolveStart rc_codec rc_view ?q [])) of (Answer _, _) \<Rightarrow> True | _ \<Rightarrow> False"
    by code_simp
  then obtain b d where "receipt_prepare rc_codec rc_view rc_request dir' = (Answer b, d)"
    unfolding r snd_conv by (auto split: prod.splits start_plan.splits)
  then have "run (runner_step rc_codec ''web'') dir' [RnStart rc_view rc_request] d"
    unfolding run_single by (intro rn_start) (auto simp: rc_request_def)
  from resolved_attempt_not_launched[OF run_nil resp _ this] show ?thesis by (simp add: rc_request_def)
qed

text \<open>C33: a running machine's receipt is not given up. A receipt that is recorded stays recorded with its
  attempt, a closed one never changes again, an open one is closed only by a call that saw no control
  group and no live socket of the name, and at most one receipt of a name is open.\<close>

theorem attempt_closed_only_when_dead:
  assumes "run (runner_step cd name) [] es dir" "runner_step cd name dir e dir'" "map_of dir k = Some r"
  shows "\<exists>r'. map_of dir' k = Some r' \<and> rcAttempt r' = rcAttempt r \<and>
    (rcState r = ''closed'' \<longrightarrow> r' = r) \<and>
    (rcState r \<noteq> ''closed'' \<and> rcState r' = ''closed'' \<longrightarrow> event_dead name e) \<and>
    (\<forall>k2 r2. map_of dir' k2 = Some r2 \<and> rcState r2 \<noteq> ''closed'' \<and> rcState r' \<noteq> ''closed'' \<longrightarrow> k2 = k)"
proof -
  have inv: "dir_inv cd name dir" by (rule attempts.reachable_inv[OF refl assms(1)])
  then have inv': "dir_inv cd name dir'" using runner_step_inv[OF assms(2)] by blast
  obtain r' where r': "map_of dir' k = Some r'" "rcAttempt r' = rcAttempt r" "rcState r = ''closed'' \<longrightarrow> r' = r"
    "rcState r \<noteq> ''closed'' \<and> rcState r' = ''closed'' \<longrightarrow> event_dead name e"
    using dir_change_receipt[OF runner_step_change[OF assms(2) inv] assms(3)] by blast
  moreover have "k2 = k" if "map_of dir' k2 = Some r2" "rcState r2 \<noteq> ''closed''" "rcState r' \<noteq> ''closed''" for k2 r2
    using that r'(1) inv' map_of_SomeD[OF that(1)] map_of_SomeD[OF r'(1)] unfolding dir_inv_def by fastforce
  ultimately show ?thesis by blast
qed

definition rc_stop :: StopRequest where
  "rc_stop = \<lparr>tqSaveState = False, tqInstanceID = ''i1'', tqRequestID = ''s1'', tqHostBootID = ''boot'', tqName = ''web'', tqPID = 42\<rparr>"

theorem attempt_closed_only_when_dead_witness:
  "\<exists>r'. map_of (snd (receiptStop rc_codec rc_view rc_stop rc_dir)) (cdKey rc_codec ''s1'') = Some r' \<and>
     rcState r' = ''closed'' \<and> event_dead ''web'' (RnStop rc_view rc_stop)"
proof -
  let ?d = "snd (receiptStop rc_codec rc_view rc_stop rc_dir)"
  have m: "(case map_of rc_dir (cdKey rc_codec ''s1'') of Some r \<Rightarrow> rcState r = ''started'' | None \<Rightarrow> False)"
    "(case map_of ?d (cdKey rc_codec ''s1'') of Some r \<Rightarrow> rcState r = ''closed'' | None \<Rightarrow> False)" by code_simp+
  then obtain r where r: "map_of rc_dir (cdKey rc_codec ''s1'') = Some r" "rcState r = ''started''" by (auto split: option.splits)
  obtain y d where "receiptStop rc_codec rc_view rc_stop rc_dir = (y, d)" by fastforce
  then have "runner_step rc_codec ''web'' rc_dir (RnStop rc_view rc_stop) ?d" by (auto intro!: rn_stop simp: rc_stop_def)
  from attempt_closed_only_when_dead[OF rc_launch_run this r(1)] r(2) m(2) show ?thesis by auto
qed

end
