(* ===== verification/RunnerContract.thy ===== *)
theory RunnerContract
  imports RuntimeHost RuntimeProofs ReceiptProofs
begin

section \<open>The contract between the control plane and the runner\<close>

text \<open>
  \<open>runner_contract\<close> is what src/internal/provision relies on when it decides from the answers of the
  runner that the network of an instance may be taken down; its client lemmas follow the lifecycle
  operations of \<open>Runtime\<close>. The interpretation on \<open>runner_ops\<close> shows that the receipts of
  src/internal/vmrunner/receipts.go deliver it over a connection that loses requests and replies.
\<close>

subsection \<open>What the control plane relies on\<close>

text \<open>\<open>vacant n\<close>: no attempt under the name \<open>n\<close> may be running; \<open>only q\<close>: no attempt of the name of \<open>q\<close> but \<open>q\<close> may
  be; \<open>net i\<close>: the network of the instance \<open>i\<close> is configured.\<close>

definition undisturbed ::
  "('h \<Rightarrow> bool) \<Rightarrow> (string \<Rightarrow> 'h \<Rightarrow> bool) \<Rightarrow> (StartResultRequest \<Rightarrow> 'h \<Rightarrow> bool) \<Rightarrow> 'h \<Rightarrow> 'h \<Rightarrow> bool" where
  "undisturbed ok vacant only h h' \<longleftrightarrow>
     (ok h \<longrightarrow> ok h') \<and> (\<forall>n. ok h \<and> vacant n h \<longrightarrow> vacant n h') \<and> (\<forall>q. ok h \<and> only q h \<longrightarrow> only q h')"

definition managed :: "string \<Rightarrow> db \<Rightarrow> bool" where
  "managed name d \<longleftrightarrow> (\<forall>r. row_find (\<lambda>r. iName r = name) (instances d) = Some r \<longrightarrow> iStartRequestID r \<noteq> [])"

lemma managed_events [simp]:
  "managed name (d\<lparr>event_sequence := n, instance_events := evs\<rparr>) = managed name d"
  by (simp add: managed_def)

lemma managed_get:
  "managed name d \<Longrightarrow> GetInstance name d = Inr inst \<Longrightarrow> iStartRequestID inst \<noteq> [] \<and> iName inst = name"
proof -
  assume m: "managed name d" and g: "GetInstance name d = Inr inst"
  then obtain r where r: "row_find (\<lambda>r. iName r = name) (instances d) = Some r" "scanInstance r = Inr inst"
    by (auto simp: GetInstance_def split: option.splits)
  show "iStartRequestID inst \<noteq> [] \<and> iName inst = name"
    using m r(1) scanInstance_fields [OF r(2)] row_find_Some [OF r(1)] by (simp add: managed_def)
qed

lemma managed_persist:
  assumes "UpdateInstance now inst d = Inr d'" "iName inst = name" "iStartRequestID inst \<noteq> []"
  shows "managed name d'"
proof -
  have kept: "iStartRequestID (stopped_update r (update_columns now (normalizeInstanceMemory inst) r)) = iStartRequestID inst" for r
    by (simp add: update_columns_def stopped_update_def normalizeInstanceMemory_def Let_def)
  show ?thesis
    unfolding managed_def assms(2) [symmetric] UpdateInstance_effect(2) [OF assms(1)]
    using kept assms(3) by (cases "row_find (\<lambda>r. iName r = iName inst) (instances d)") simp_all
qed

lemma managed_runtime:
  assumes "UpdateInstanceRuntime now observed updated d = Inr d'" "managed name d"
  shows "managed name d'"
proof -
  define f where "f r = stopped_update r (r\<lparr>iState := iState updated, iTailscaleName := iTailscaleName updated,
           iTailscaleIP := iTailscaleIP updated, iLastError := iLastError updated,
           iUpdatedAt := timeString now (iUpdatedAt updated), iTailnetNodeID := iTailnetNodeID updated,
           iFirecrackerPID := iFirecrackerPID updated\<rparr>)" for r :: instance_row
  have d': "instances d' = row_update (runtime_match now observed) f (instances d)"
    using assms(1) by (auto simp: UpdateInstanceRuntime_def Let_def f_def [abs_def] split: if_split_asm)
  have same: "iName (f r) = iName r" "iStartRequestID (f r) = iStartRequestID r" for r
    by (simp_all add: f_def stopped_update_def)
  have "row_find (\<lambda>r. iName r = name) (instances d') =
      map_option (\<lambda>r. if runtime_match now observed r then f r else r) (row_find (\<lambda>r. iName r = name) (instances d))"
    unfolding d' by (rule row_find_update_key) (simp add: same)
  then show ?thesis using assms(2) same by (auto simp: managed_def)
qed

locale runner_contract =
  fixes ho :: "'h host_ops"
    and ok :: "'h \<Rightarrow> bool"
    and vacant :: "string \<Rightarrow> 'h \<Rightarrow> bool"
    and only :: "StartResultRequest \<Rightarrow> 'h \<Rightarrow> bool"
    and net :: "string \<Rightarrow> 'h \<Rightarrow> bool"
  assumes quiet:
      "hoFault ho h = (f, h') \<Longrightarrow> undisturbed ok vacant only h h' \<and> net i h' = net i h"
      "hoNow ho h = (t, h') \<Longrightarrow> undisturbed ok vacant only h h' \<and> net i h' = net i h"
      "hoNewID ho h = (s, h') \<Longrightarrow> undisturbed ok vacant only h h' \<and> net i h' = net i h"
      "hoEnv ho h = (v, h') \<Longrightarrow> undisturbed ok vacant only h h' \<and> net i h' = net i h"
      "hoSerial ho path h = (r, h') \<Longrightarrow> undisturbed ok vacant only h h' \<and> net i h' = net i h"
      "hoBootID ho h = (r, h') \<Longrightarrow> undisturbed ok vacant only h h' \<and> net i h' = net i h"
    and resolve_quiet: "hoResolve ho q h = (a, h') \<Longrightarrow> undisturbed ok vacant only h h' \<and> net i h' = net i h"
    and stop_quiet: "hoStop ho req h = (u, h') \<Longrightarrow> undisturbed ok vacant only h h' \<and> net i h' = net i h"
    and clean_quiet: "hoCleanNet ho j tap cidr h = (u, h') \<Longrightarrow> undisturbed ok vacant only h h'"
    and start_net: "hoStart ho sreq h = (resp', h') \<Longrightarrow> net i h' = net i h"
    and start_ok: "hoStart ho sreq h = (resp', h') \<Longrightarrow> ok h \<Longrightarrow> ok h'"
    and resolve_absent: "ok h \<Longrightarrow> hoResolve ho q h = ((resp, err), h') \<Longrightarrow> spOutcome resp = StartAbsent \<Longrightarrow> vacant (sqName q) h'"
    and resolve_running: "ok h \<Longrightarrow> hoResolve ho q h = ((resp, err), h') \<Longrightarrow> spOutcome resp = StartRunning \<Longrightarrow> only q h'"
    and start_absent: "ok h \<Longrightarrow> hoStart ho sreq h = (Inr resp, h') \<Longrightarrow>
      spOutcome resp = StartAbsent \<Longrightarrow> vacant (srqName sreq) h'"
    and stop_done: "ok h \<Longrightarrow> only (stop_attempt req) h \<Longrightarrow> tqRequestID req \<noteq> [] \<Longrightarrow>
      hoStop ho req h = (Inr v', h') \<Longrightarrow> vacant (tqName req) h'"
    and vacant_only: "ok h \<Longrightarrow> vacant (sqName q) h \<Longrightarrow> only q h"
begin

text \<open>The state of a run that began in \<open>h0\<close>: a network has only been taken down while the name was vacant,
  and when \<open>b\<close> is set the attempt \<open>q\<close> is known to be the only one that may be running.\<close>

definition kept :: "string \<Rightarrow> 'h \<Rightarrow> 'h \<Rightarrow> bool" where
  "kept name h0 h \<longleftrightarrow> ok h \<and> (\<forall>i. net i h0 \<and> \<not> net i h \<longrightarrow> vacant name h)"

definition at :: "string \<Rightarrow> 'h \<Rightarrow> bool \<Rightarrow> StartResultRequest \<Rightarrow> db \<times> 'h \<Rightarrow> bool" where
  "at name h0 b q w \<longleftrightarrow> managed name (fst w) \<and> kept name h0 (snd w) \<and> (b \<longrightarrow> only q (snd w))"

lemma at_step:
  assumes "at name h0 b q (d, h)" "undisturbed ok vacant only h h'" "\<And>i. net i h \<Longrightarrow> net i h' \<or> vacant name h'"
    "managed name d'"
  shows "at name h0 b q (d', h')"
  using assms unfolding at_def kept_def undisturbed_def by (auto; blast)

text \<open>Calls that disturb nothing keep what such calls cannot change.\<close>

definition stable :: "('h \<Rightarrow> bool) \<Rightarrow> bool" where
  "stable P \<longleftrightarrow> (\<forall>h h'. undisturbed ok vacant only h h' \<and> (\<forall>i. net i h' = net i h) \<longrightarrow> P h \<longrightarrow> P h')"

definition harmless :: "('h \<Rightarrow> 'x \<times> 'h) \<Rightarrow> bool" where
  "harmless f \<longleftrightarrow> (\<forall>h x h'. f h = (x, h') \<longrightarrow> undisturbed ok vacant only h h' \<and> (\<forall>i. net i h' = net i h))"

lemma harmless_ops:
  "harmless (hoFault ho)" "harmless (hoNow ho)" "harmless (hoNewID ho)" "harmless (hoEnv ho)"
  "harmless (hoSerial ho path)" "harmless (hoBootID ho)"
  using quiet by (simp_all add: harmless_def)

lemma st_see:
  assumes "stable P" "P (snd w)" "harmless f" "\<And>x w'. P (snd w') \<Longrightarrow> fst w' = fst w \<Longrightarrow> Q x w'"
  shows "wp (seeA f) Q E w"
proof -
  obtain x h' where f: "f (snd w) = (x, h')" by fastforce
  then have "P h'" using assms(1-3) unfolding stable_def harmless_def by blast
  then show ?thesis using assms(4) by (simp add: wp_def seeA_def f)
qed

lemma st_host:
  assumes "stable P" "P (snd w)" "harmless f" "\<And>x w'. P (snd w') \<Longrightarrow> fst w' = fst w \<Longrightarrow> Q x w'"
    "\<And>e w'. P (snd w') \<Longrightarrow> fst w' = fst w \<Longrightarrow> E e w'"
  shows "wp (hostA f) Q E w"
proof -
  obtain x h' where f: "f (snd w) = (x, h')" by fastforce
  then have "P h'" using assms(1-3) unfolding stable_def harmless_def by blast
  then show ?thesis using assms(4,5) by (cases x) (simp_all add: wp_def hostA_def f)
qed

lemma st_exec:
  assumes "stable P" "P (snd w)" "\<And>now d' w'. f now (fst w) = Inr d' \<Longrightarrow> P (snd w') \<Longrightarrow> fst w' = d' \<Longrightarrow> Q () w'"
    "\<And>e w'. P (snd w') \<Longrightarrow> fst w' = fst w \<Longrightarrow> E e w'"
  shows "wp (execA ho f) Q E w"
proof -
  have stmt: "wp (stmtA ho (writeA (f now))) Q E w'" if "P (snd w')" "fst w' = fst w" for now w'
    unfolding stmtA_def wp_bind
  proof (rule st_see [OF assms(1) that(1) harmless_ops(1)], goal_cases)
    case (1 x w'')
    then show ?case
      using assms(3,4) that by (cases x) (auto simp: wp_def failA_def writeA_def split: sum.split)
  qed
  show ?thesis
    unfolding execA_def wp_bind by (rule st_see [OF assms(1,2) harmless_ops(2)], rule stmt)
qed

lemma stable_at: "stable (\<lambda>h. kept name h0 h \<and> (b \<longrightarrow> only q h))"
  unfolding stable_def kept_def undisturbed_def by (auto; blast)

lemma stable_undisturbed: "stable (undisturbed ok vacant only h)"
  unfolding stable_def undisturbed_def by (auto; blast)

lemma at_see:
  assumes "at name h0 b q w" "harmless f" "\<And>x w'. at name h0 b q w' \<Longrightarrow> fst w' = fst w \<Longrightarrow> Q x w'"
  shows "wp (seeA f) Q E w"
  by (rule st_see [OF stable_at [of name h0 b q] _ assms(2)]) (use assms(1,3) in \<open>auto simp: at_def\<close>)

lemma at_host:
  assumes "at name h0 b q w" "harmless f" "\<And>x w'. at name h0 b q w' \<Longrightarrow> fst w' = fst w \<Longrightarrow> Q x w'"
    "\<And>e w'. at name h0 b q w' \<Longrightarrow> fst w' = fst w \<Longrightarrow> E e w'"
  shows "wp (hostA f) Q E w"
  by (rule st_host [OF stable_at [of name h0 b q] _ assms(2)]) (use assms(1,3,4) in \<open>auto simp: at_def\<close>)

lemma at_touch:
  assumes "at name h0 b q w" "\<And>now w'. at name h0 b q w' \<Longrightarrow> fst w' = fst w \<Longrightarrow> Q (inst\<lparr>iUpdatedAt := now\<rparr>) w'"
  shows "wp (touchA ho inst) Q E w"
  unfolding touchA_def wp_simps by (rule at_see [OF assms(1) harmless_ops(2)], rule assms(2))

lemma at_stmt:
  assumes "at name h0 b q w" "\<And>w'. at name h0 b q w' \<Longrightarrow> fst w' = fst w \<Longrightarrow> wp m Q E w'" "\<And>e w'. at name h0 b q w' \<Longrightarrow> E e w'"
  shows "wp (stmtA ho m) Q E w"
  unfolding stmtA_def wp_simps
  by (rule at_see [OF assms(1) harmless_ops(1)]) (use assms(2,3) in \<open>auto simp: wp_simps split: option.split\<close>)

lemma at_query:
  assumes "at name h0 b q w" "\<And>x w'. at name h0 b q w' \<Longrightarrow> fst w' = fst w \<Longrightarrow> f (fst w) = Inr x \<Longrightarrow> Q x w'"
    "\<And>e w'. at name h0 b q w' \<Longrightarrow> E e w'"
  shows "wp (queryA ho f) Q E w"
  unfolding queryA_def
  by (rule at_stmt [OF assms(1)]) (use assms(2,3) in \<open>auto simp: wp_def readA_def split: sum.split\<close>)

lemma at_exec:
  assumes "at name h0 b q w" "\<And>now d'. f now (fst w) = Inr d' \<Longrightarrow> managed name d'"
    "\<And>w'. at name h0 b q w' \<Longrightarrow> Q () w'" "\<And>e w'. at name h0 b q w' \<Longrightarrow> E e w'"
  shows "wp (execA ho f) Q E w"
  by (rule st_exec [OF stable_at [of name h0 b q]]) (use assms in \<open>auto simp: at_def\<close>)

lemma at_event:
  assumes "at name h0 b q w" "\<And>w'. at name h0 b q w' \<Longrightarrow> Q () w'"
  shows "wp (recordEvent ho i t m p) Q E w"
  unfolding recordEvent_def wp_simps
proof (rule at_see [OF assms(1) harmless_ops(2)])
  fix now w'
  assume w': "at name h0 b q w'"
  show "wp (execA ho (\<lambda>now'. RecordEvent now' \<lparr>evID = 0, evInstanceID = i, evCreatedAt = now, evType = t,
      evMessage = m, evPayload = (case p of None \<Rightarrow> [] | Some m \<Rightarrow> hoJSON ho m)\<rparr>)) (\<lambda>_. Q ()) (\<lambda>_. Q ()) w'"
    by (rule at_exec [OF w']) (use w' assms(2) in \<open>auto simp: RecordEvent_def Let_def at_def\<close>)
qed

lemma at_persist:
  assumes "at name h0 b q w" "iName inst = name" "iStartRequestID inst \<noteq> []"
    "\<And>w'. at name h0 b q w' \<Longrightarrow> Q () w'" "\<And>e w'. at name h0 b q w' \<Longrightarrow> E e w'"
  shows "wp (persistInstance ho inst) Q E w"
  unfolding persistInstance_def
  by (rule at_exec [OF assms(1)]) (use assms(2-5) managed_persist in auto)

lemma at_updateRuntime:
  assumes "at name h0 b q w" "\<And>w'. at name h0 b q w' \<Longrightarrow> Q () w'" "\<And>e w'. at name h0 b q w' \<Longrightarrow> E e w'"
  shows "wp (updateRuntime ho observed updated) Q E w"
  unfolding updateRuntime_def
  by (rule at_exec [OF assms(1)]) (use assms managed_runtime in \<open>auto simp: at_def\<close>)

lemma at_clean:
  assumes "at name h0 b q w" "vacant name (snd w)"
    "\<And>w'. at name h0 b q w' \<Longrightarrow> Q () w'" "\<And>e w'. at name h0 b q w' \<Longrightarrow> E e w'"
  shows "wp (cleanupNetworking ho inst) Q E w"
proof -
  obtain d h where w: "w = (d, h)" by fastforce
  obtain x h' where f: "hoCleanNet ho (iID inst) (iTapDevice inst) (iNetworkCIDR inst) h = (x, h')" by fastforce
  note quiet' = clean_quiet [OF f]
  then have "vacant name h'" using assms(1,2) w by (auto simp: undisturbed_def at_def kept_def)
  then have "at name h0 b q (d, h')"
    using at_step [OF _ quiet', of name h0 b q d d] assms(1) w by (simp add: at_def)
  then show ?thesis using assms(3,4) by (cases x) (simp_all add: wp_def cleanupNetworking_def hostA_def w f)
qed

lemma at_kept: "at name h0 b q w \<Longrightarrow> kept name h0 (snd w)"
  by (simp add: at_def)

lemma at_observe:
  assumes w: "at name h0 True q w" and vac: "spOutcome resp = StartAbsent \<Longrightarrow> vacant name (snd w)"
    and post: "\<And>i w'. at name h0 True q w' \<Longrightarrow> same_attempt inst i \<Longrightarrow> Q i w'"
    and err: "\<And>e w'. kept name h0 (snd w') \<Longrightarrow> E e w'"
  shows "wp (observe_outcome ho inst resp) Q E w"
proof -
  have cleaned: "wp (cleanupNetworking ho inst) (\<lambda>_. Q (absent_runtime inst)) E w" if "spOutcome resp = StartAbsent"
    by (rule at_clean [OF w vac [OF that]]) (auto intro!: post err simp: same_attempt_def absent_runtime_def dest: at_kept)
  show ?thesis
    unfolding observe_outcome_def
    using at_kept [OF w] w
    by (auto simp: wp_simps same_attempt_def intro!: cleaned post err)
qed

lemma at_resolve:
  assumes w: "at name h0 b q w" and inst: "iName inst = name" "iStartRequestID inst \<noteq> []" "iState inst \<noteq> StateDeleted"
    and post: "\<And>i w'. at name h0 True (attempt_of inst) w' \<Longrightarrow> same_attempt inst i \<Longrightarrow> Q i w'"
    and err: "\<And>e w'. kept name h0 (snd w') \<Longrightarrow> E e w'"
  shows "wp (resolveRuntime ho inst) Q E w"
proof -
  obtain d h where dh: "w = (d, h)" by fastforce
  obtain resp e h' where r: "hoResolve ho (attempt_of inst) h = ((resp, e), h')" by (metis prod.exhaust)
  have ok: "ok h" using w by (simp add: dh at_def kept_def)
  have name: "sqName (attempt_of inst) = name" using inst by (simp add: attempt_of_def)
  have here: "at name h0 b q (d, h')"
    using at_step [of name h0 b q d h h' d] w resolve_quiet [OF r] by (simp add: dh at_def)
  then have ok': "ok h'" by (simp add: at_def kept_def)
  have settled: "at name h0 True (attempt_of inst) (d, h')" if "spOutcome resp = StartRunning \<or> spOutcome resp = StartAbsent"
    using that here resolve_running [OF ok r] resolve_absent [OF ok r] vacant_only [OF ok'] by (auto simp: at_def name)
  have tail: "wp (if iState inst = iState i \<and> iFirecrackerPID inst = iFirecrackerPID i then retA i
      else bindA (touchA ho i) (\<lambda>i. bindA (updateRuntime ho inst i) (\<lambda>_. retA i))) Q E w'"
    if "at name h0 True (attempt_of inst) w'" "same_attempt inst i" for i w'
    unfolding wp_simps using that
    by (auto intro!: post at_touch [OF that(1)] at_updateRuntime err dest: at_kept simp: same_attempt_def)
  have uncertain: "wp (observe_outcome ho inst resp) Q' E (d, h')"
    if "\<not> (spOutcome resp = StartRunning \<or> spOutcome resp = StartAbsent)" for Q'
    using that at_kept [OF here] by (auto simp: observe_outcome_def wp_simps intro!: err)
  have observed: "wp (observe_outcome ho inst resp) (\<lambda>i. wp (if iState inst = iState i \<and>
      iFirecrackerPID inst = iFirecrackerPID i then retA i
      else bindA (touchA ho i) (\<lambda>i. bindA (updateRuntime ho inst i) (\<lambda>_. retA i))) Q E) E (d, h')"
  proof (cases "spOutcome resp = StartRunning \<or> spOutcome resp = StartAbsent")
    case True
    show ?thesis
      by (rule at_observe [OF settled [OF True]]) (use resolve_absent [OF ok r] tail err name in auto)
  qed (rule uncertain)
  have "wp (checkedResult ho inst) (\<lambda>x. wp (observe_outcome ho inst x) (\<lambda>i. wp (if iState inst = iState i \<and>
      iFirecrackerPID inst = iFirecrackerPID i then retA i
      else bindA (touchA ho i) (\<lambda>i. bindA (updateRuntime ho inst i) (\<lambda>_. retA i))) Q E) E)
      (\<lambda>e. E (ErrWrap ErrStartUncertain e)) w"
    using observed at_kept [OF here] err
    by (cases e) (simp_all add: checkedResult_def startResult_def wp_def seeA_def bindA_def retA_def failA_def dh r)
  then show ?thesis
    unfolding resolveRuntime_def using inst(2,3) by (simp add: wp_bind wp_wrap)
qed

lemma at_stopVM:
  assumes w: "at name h0 True (attempt_of inst) w" "iName inst = name" "iStartRequestID inst \<noteq> []"
    and post: "\<And>w'. at name h0 True (attempt_of inst) w' \<Longrightarrow> vacant name (snd w') \<Longrightarrow> Q () w'"
    and err: "\<And>e w'. kept name h0 (snd w') \<Longrightarrow> E e w'"
  shows "wp (stopFirecrackerWithState ho inst save) Q E w"
proof -
  obtain d h where dh: "w = (d, h)" by fastforce
  define req where "req = \<lparr>tqSaveState = save, tqInstanceID = iID inst, tqRequestID = iStartRequestID inst,
    tqHostBootID = iStartBootID inst, tqName = iName inst, tqPID = iFirecrackerPID inst\<rparr>"
  have q: "stop_attempt req = attempt_of inst" "tqRequestID req \<noteq> []" "tqName req = name"
    using w(2,3) by (simp_all add: req_def stop_attempt_def attempt_of_def)
  obtain x h' where r: "hoStop ho req h = (x, h')" by fastforce
  have here: "at name h0 True (attempt_of inst) (d, h')"
    using at_step [of name h0 True "attempt_of inst" d h h' d] w stop_quiet [OF r] by (simp add: dh at_def)
  have "vacant name h'" if "x = Inr u" for u
    using stop_done [of h req u h'] w(1) r that q by (simp add: dh at_def kept_def)
  then show ?thesis
    using here at_kept [OF here] post err
    by (cases x) (simp_all add: stopFirecrackerWithState_def req_def [symmetric] wp_wrap wp_def hostA_def dh r)
qed

lemma at_stop:
  assumes w: "at name h0 b q w" and post: "\<And>i w'. kept name h0 (snd w') \<Longrightarrow> Q i w'"
    and err: "\<And>e w'. kept name h0 (snd w') \<Longrightarrow> E e w'"
  shows "wp (StopWithOptions ho name save) Q E w"
proof -
  have finish: "wp (bindA (stopFirecrackerWithState ho i save) (\<lambda>_.
     bindA (cleanupNetworking ho i) (\<lambda>_.
     bindA (touchA ho (i\<lparr>iState := StateStopped, iFirecrackerPID := 0, iLastError := []\<rparr>)) (\<lambda>i.
     bindA (persistInstance ho i) (\<lambda>_.
     bindA (recordEvent ho (iID i) ''stop'' ''instance stopped'' None) (\<lambda>_. retA i)))))) Q E w'"
    if i: "at name h0 True (attempt_of i) w'" "iName i = name" "iStartRequestID i \<noteq> []" for i w'
    unfolding wp_bind wp_ret
    by (rule at_stopVM [OF i], rule at_clean, assumption, assumption, rule at_touch, assumption, rule at_persist,
        assumption) (auto intro!: at_event post err simp: i dest: at_kept)
  have resolved: "wp (resolveRuntime ho inst) (\<lambda>i. wp (bindA (stopFirecrackerWithState ho i save) (\<lambda>_.
     bindA (cleanupNetworking ho i) (\<lambda>_.
     bindA (touchA ho (i\<lparr>iState := StateStopped, iFirecrackerPID := 0, iLastError := []\<rparr>)) (\<lambda>i.
     bindA (persistInstance ho i) (\<lambda>_.
     bindA (recordEvent ho (iID i) ''stop'' ''instance stopped'' None) (\<lambda>_. retA i)))))) Q E) E w'"
    if i: "at name h0 b q w'" "iName inst = name" "iStartRequestID inst \<noteq> []" "iState inst = StateStopping" for inst w'
    by (rule at_resolve [OF i(1-3)])
      (use i(2-4) err in \<open>auto intro!: finish simp: same_attempt_def attempt_of_def\<close>)
  show ?thesis
    unfolding StopWithOptions_def wp_bind
  proof (rule at_query [OF w], goal_cases)
    case (1 inst w')
    then have inst: "iStartRequestID inst \<noteq> []" "iName inst = name" using managed_get w by (auto simp: at_def)
    show ?case
    proof (cases "stop_refused inst")
      case (Inl e)
      then show ?thesis by (simp add: wp_lift err [OF at_kept [OF 1(1)]])
    next
      case (Inr u)
      then show ?thesis
        unfolding wp_lift
        by (auto simp: inst intro!: at_touch [OF 1(1)] at_persist at_event resolved [unfolded wp_bind] err dest: at_kept)
    qed
  qed (auto intro: err dest: at_kept)
qed

lemma at_process:
  assumes "at name h0 b q w" "\<And>x w'. at name h0 b q w' \<Longrightarrow> Q x w'"
  shows "wp (processExists ho pid) Q E w"
proof -
  have "wp (seeA (hoEnv ho)) (\<lambda>env. Q (heProcess env pid)) E w"
    by (rule at_see [OF assms(1) harmless_ops(4)], rule assms(2))
  then show ?thesis using assms by (simp add: processExists_def wp_simps)
qed

lemma at_halted:
  assumes "at name h0 b q w" "\<And>x w'. at name h0 b q w' \<Longrightarrow> Q x w'"
  shows "wp (serialLogShowsGuestHalted ho path) Q E w"
proof -
  have "wp (hostA (hoSerial ho path)) Q' E' w" if "\<And>x w'. at name h0 b q w' \<Longrightarrow> Q' x w'" "\<And>e w'. at name h0 b q w' \<Longrightarrow> E' e w'" for Q' E'
    by (rule at_host [OF assms(1) harmless_ops(5)]) (rule that; assumption)+
  then show ?thesis using assms by (simp add: serialLogShowsGuestHalted_def Let_def wp_simps)
qed

lemma at_reconcile_exit:
  assumes w: "at name h0 b q w" and inst: "iName inst = name" "iStartRequestID inst \<noteq> []" "iState inst \<noteq> StateDeleted"
    and post: "\<And>x w'. kept name h0 (snd w') \<Longrightarrow> Q x w'" and err: "\<And>e w'. kept name h0 (snd w') \<Longrightarrow> E e w'"
  shows "wp (reconcile_exit ho inst) Q E w"
proof -
  have resolved: "wp (resolveRuntime ho inst) (\<lambda>i. Q (iFirecrackerPID i = 0)) E w'" if "at name h0 b q w'" for w'
    by (rule at_resolve [OF that inst]) (auto intro!: post err dest: at_kept)
  have stopped: "wp (recordEvent ho i t m p) (\<lambda>_. wp (StopWithOptions ho (iName inst) False) (\<lambda>_. Q True) E) E w'"
    if "at name h0 b q w'" for i t m p w'
    unfolding inst(1) by (rule at_event [OF that], rule at_stop, assumption) (auto intro: post err)
  have decide: "wp (if alive \<and> \<not> halted then retA False
     else if iStartRequestID inst \<noteq> [] \<and> \<not> alive then bindA (resolveRuntime ho inst) (\<lambda>inst. retA (iFirecrackerPID inst = 0))
     else bindA (recordEvent ho (iID inst) ''runtime'' m p) (\<lambda>_. bindA (StopWithOptions ho (iName inst) False) (\<lambda>_. retA True)))
     Q E w'" if "at name h0 b q w'" for alive halted m p w'
    using that by (simp add: wp_simps resolved stopped post at_kept)
  have inner: "wp (if alive then serialLogShowsGuestHalted ho path else retA False) K E w'"
    if "at name h0 b q w'" "\<And>x w''. at name h0 b q w'' \<Longrightarrow> K x w''" for alive path K w'
    using that at_halted [OF that(1)] by (cases alive) (simp_all add: wp_ret)
  show ?thesis
    unfolding reconcile_exit_def wp_bind [of "processExists _ _"] wp_bind [of "if _ then serialLogShowsGuestHalted _ _ else _"]
    by (rule at_process [OF w], rule inner, assumption, rule decide)
qed

lemma at_reconcile:
  assumes w: "at name h0 b q w" and inst: "iName inst = name" "iStartRequestID inst \<noteq> []"
    and post: "\<And>x w'. kept name h0 (snd w') \<Longrightarrow> Q x w'" and err: "\<And>e w'. kept name h0 (snd w') \<Longrightarrow> E e w'"
  shows "wp (reconcileRuntime ho inst) Q E w"
proof -
  have decide: "wp (if iState i \<in> {StateStopping, StateStopped, StateDeleted, StateDeleting, StateFailed} then retA False
     else if iFirecrackerPID i \<le> 0 then retA False else reconcile_exit ho i) Q E w'"
    if "at name h0 b' q' w'" "same_attempt inst i" for b' q' i w'
    using that inst by (auto simp: wp_simps same_attempt_def intro!: at_reconcile_exit [OF that(1)] post err dest: at_kept)
  have resolved: "wp (resolveRuntime ho inst) (\<lambda>i. wp (if iState i \<in> {StateStopping, StateStopped, StateDeleted,
      StateDeleting, StateFailed} then retA False else if iFirecrackerPID i \<le> 0 then retA False else reconcile_exit ho i) Q E) E w'"
    if w': "at name h0 b q w'" for w'
  proof (cases "iState inst = StateDeleted")
    case True
    then show ?thesis using post at_kept [OF w'] by (simp add: resolveRuntime_def wp_simps)
  next
    case False
    show ?thesis by (rule at_resolve [OF w' inst False], rule decide, assumption, assumption, rule err)
  qed
  show ?thesis
    unfolding reconcileRuntime_def wp_bind
  proof (rule at_query [OF w], goal_cases)
    case (1 x w')
    from resolved [OF 1(1)] show ?case by (simp only: inst(2) simp_thms if_True)
  qed (auto intro: err dest: at_kept)
qed

lemma kept_query:
  assumes "kept name h0 (snd w)" "\<And>x w'. kept name h0 (snd w') \<Longrightarrow> Q x w'" "\<And>e w'. kept name h0 (snd w') \<Longrightarrow> E e w'"
  shows "wp (queryA ho f) Q E w"
  unfolding queryA_def stmtA_def wp_bind
  by (rule st_see [OF stable_at [of name h0 False] _ harmless_ops(1)])
    (use assms in \<open>auto simp: wp_def failA_def readA_def split: option.split sum.split\<close>)

lemma at_reconcileInstance:
  assumes w: "at name h0 b q w" and post: "\<And>x w'. kept name h0 (snd w') \<Longrightarrow> Q x w'" and err: "\<And>e w'. kept name h0 (snd w') \<Longrightarrow> E e w'"
  shows "wp (ReconcileInstanceRuntime ho name) Q E w"
  unfolding ReconcileInstanceRuntime_def wp_bind
proof (rule at_query [OF w], goal_cases)
  case (1 inst w')
  then have inst: "iName inst = name" "iStartRequestID inst \<noteq> []" using managed_get w by (auto simp: at_def)
  show ?case
    by (rule at_reconcile [OF 1(1) inst], rule kept_query, assumption) (rule post err; assumption)+
qed (auto intro: err dest: at_kept)

text \<open>The launch: unless the outcome is uncertain, a failed start leaves the name vacant, or nothing
  was asked of the runner at all.\<close>

definition fenced :: "string \<Rightarrow> 'h \<Rightarrow> Instance \<times> int result \<Rightarrow> db \<times> 'h \<Rightarrow> bool" where
  "fenced name h0 x w \<longleftrightarrow> (\<forall>e. snd x = Inl e \<and> \<not> errors_is e ErrStartUncertain \<longrightarrow>
     vacant name (snd w) \<or> undisturbed ok vacant only h0 (snd w))"

lemma undisturbed_refl: "undisturbed ok vacant only h h"
  by (simp add: undisturbed_def)

lemma undisturbed_trans:
  "undisturbed ok vacant only h h' \<Longrightarrow> undisturbed ok vacant only h' h'' \<Longrightarrow> undisturbed ok vacant only h h''"
  by (auto simp: undisturbed_def)

lemma joinE_uncertain: "errors_is (joinE ErrStartUncertain err) ErrStartUncertain"
  by (cases err) (simp_all add: joinE_def)

lemma verdict_fenced:
  assumes "spOutcome resp = StartAbsent \<Longrightarrow> vacant name (snd w)"
  shows "wp (start_verdict ho inst resp err) (fenced name h0) E w"
  unfolding start_verdict_def Let_def
  using assms by (auto simp: wp_simps fenced_def joinE_uncertain wp_true)

lemma launch_fenced:
  assumes "ok (snd w)"
  shows "wp (bindA (tryA (hostA (hoStart ho (start_request c inst pool bootstrap discard)))) (\<lambda>r. case r of
      Inr resp \<Rightarrow> start_verdict ho inst resp None
    | Inl e \<Rightarrow> bindA (startResult ho inst) (\<lambda>(resp, err). start_verdict ho inst resp (Some (joinE e err)))))
    (fenced (iName inst) h0) E w"
proof -
  obtain d h where w: "w = (d, h)" by fastforce
  obtain x h1 where s: "hoStart ho (start_request c inst pool bootstrap discard) h = (x, h1)" by fastforce
  have ok: "ok h" "ok h1" using assms start_ok [OF s] by (simp_all add: w)
  show ?thesis
  proof (cases x)
    case (Inr resp)
    have "srqName (start_request c inst pool bootstrap discard) = iName inst" by (simp add: start_request_def)
    then have "vacant (iName inst) h1" if "spOutcome resp = StartAbsent"
      using start_absent [OF ok(1) s [unfolded Inr] that] by simp
    then show ?thesis
      using verdict_fenced [of resp "iName inst" "(d, h1)"] by (simp add: wp_simps wp_def hostA_def w s Inr)
  next
    case (Inl e)
    obtain resp err h2 where r: "hoResolve ho (attempt_of inst) h1 = ((resp, err), h2)" by (metis prod.exhaust)
    have "vacant (iName inst) h2" if "spOutcome resp = StartAbsent"
      using resolve_absent [OF ok(2) r that] by (simp add: attempt_of_def)
    then show ?thesis
      using verdict_fenced [of resp "iName inst" "(d, h2)"]
      by (simp add: wp_simps wp_def hostA_def seeA_def startResult_def bindA_def w s r Inl)
  qed
qed

lemma startFirecracker_fenced:
  assumes "ok h"
  shows "wp (startFirecracker ho c inst pool bootstrap discard) (fenced (iName inst) h) E (d, h)"
proof -
  let ?U = "undisturbed ok vacant only h"
  have early: "fenced name h x w" if "?U (snd w)" for x w name
    using that by (simp add: fenced_def)
  have sent: "wp (persistInstance ho i) (\<lambda>_. wp (bindA (tryA (hostA (hoStart ho (start_request c i pool bootstrap discard)))) (\<lambda>r. case r of
      Inr resp \<Rightarrow> start_verdict ho i resp None
    | Inl e \<Rightarrow> bindA (startResult ho i) (\<lambda>(resp, err). start_verdict ho i resp (Some (joinE e err)))))
    (fenced (iName inst) h) E) (\<lambda>e. fenced (iName inst) h (i, Inl e)) w"
    if "?U (snd w)" "iName i = iName inst" for i w
    unfolding persistInstance_def
    by (rule st_exec [OF stable_undisturbed that(1)])
      (use assms launch_fenced [of _ c i pool bootstrap discard h] that(2) in \<open>auto simp: undisturbed_def intro!: early\<close>)
  have identified: "wp (seeA (hoNewID ho)) (\<lambda>newID. wp (touchA ho (inst\<lparr>iStartRequestID := newID, iStartBootID := boot\<rparr>)) (\<lambda>i.
      wp (persistInstance ho i) (\<lambda>_. wp (bindA (tryA (hostA (hoStart ho (start_request c i pool bootstrap discard)))) (\<lambda>r. case r of
      Inr resp \<Rightarrow> start_verdict ho i resp None
    | Inl e \<Rightarrow> bindA (startResult ho i) (\<lambda>(resp, err). start_verdict ho i resp (Some (joinE e err)))))
    (fenced (iName inst) h) E) (\<lambda>e. fenced (iName inst) h (i, Inl e))) E) E w"
    if "?U (snd w)" for boot w
    unfolding touchA_def wp_bind wp_ret
    by (rule st_see [OF stable_undisturbed that harmless_ops(3)], rule st_see [OF stable_undisturbed _ harmless_ops(2)],
        assumption) (auto intro!: sent [unfolded wp_bind])
  show ?thesis
    unfolding startFirecracker_def wp_bind wp_try
    by (rule st_host [OF stable_undisturbed _ harmless_ops(6)])
      (use identified early in \<open>auto simp: undisturbed_refl wp_simps\<close>)
qed

end

subsection \<open>The receipts deliver it\<close>

text \<open>All attempts of a name are closed; all open attempts of its name are \<open>q\<close>.\<close>

definition is_open :: "startReceipt \<Rightarrow> bool" where
  "is_open r \<longleftrightarrow> rcState r \<noteq> ''closed''"

lemma all_closed_open: "all_closed dir \<longleftrightarrow> (\<forall>f \<in> set dir. \<not> is_open (snd f))"
  by (simp add: all_closed_def is_open_def)

definition dirs_ok :: "codec \<Rightarrow> runner_host \<Rightarrow> bool" where
  "dirs_ok cd h \<longleftrightarrow> (\<forall>name. dir_inv cd name (rhDirs h name))"

definition name_vacant :: "string \<Rightarrow> runner_host \<Rightarrow> bool" where
  "name_vacant name h \<longleftrightarrow> all_closed (rhDirs h name)"

definition only_open :: "StartResultRequest \<Rightarrow> receipt_dir \<Rightarrow> bool" where
  "only_open q dir \<longleftrightarrow> (\<forall>f \<in> set dir. is_open (snd f) \<longrightarrow> rcAttempt (snd f) = q)"

definition name_only :: "StartResultRequest \<Rightarrow> runner_host \<Rightarrow> bool" where
  "name_only q h \<longleftrightarrow> only_open q (rhDirs h (sqName q))"

definition net_present :: "string \<Rightarrow> runner_host \<Rightarrow> bool" where
  "net_present i h \<longleftrightarrow> i \<in> set (rhNet h)"

lemma dir_open_map:
  "dir_inv cd name dir \<Longrightarrow> f \<in> set dir \<Longrightarrow> map_of dir (receipt_key cd (snd f)) = Some (snd f)"
  by (cases f) (auto simp: dir_inv_map_of dir_inv_def)

text \<open>A call that opens no attempt leaves closed what was closed: an open file after the change was
  open before, with the same attempt.\<close>

definition no_new_open :: "codec \<Rightarrow> receipt_dir \<Rightarrow> receipt_dir \<Rightarrow> bool" where
  "no_new_open cd dir dir' \<longleftrightarrow> (\<forall>k r'. map_of dir' k = Some r' \<and> is_open r' \<longrightarrow>
     (\<exists>r. map_of dir k = Some r \<and> is_open r \<and> rcAttempt r = rcAttempt r'))"

lemma no_new_open_refl: "no_new_open cd dir dir"
  by (simp add: no_new_open_def)

lemma no_new_open_trans: "no_new_open cd a b \<Longrightarrow> no_new_open cd b c \<Longrightarrow> no_new_open cd a c"
  unfolding no_new_open_def by metis

lemma no_new_open_put:
  assumes "\<not> is_open r \<or> (\<exists>r0. map_of dir (receipt_key cd r) = Some r0 \<and> is_open r0 \<and> rcAttempt r0 = rcAttempt r)"
  shows "no_new_open cd dir (put_receipt cd r dir)"
  unfolding no_new_open_def map_of_put using assms by (metis option.inject)

lemma no_new_open_write:
  assumes "writeReceipt cd v r dir = (x, dir')"
    "\<not> is_open r \<or> (\<exists>r0. map_of dir (receipt_key cd r) = Some r0 \<and> is_open r0 \<and> rcAttempt r0 = rcAttempt r)"
  shows "no_new_open cd dir dir'"
  using writeReceipt_dir [OF assms(1)] no_new_open_put [OF assms(2)] no_new_open_refl by auto

lemma no_new_open_closed:
  assumes "no_new_open cd dir dir'" "dir_inv cd name dir" "dir_inv cd name dir'" "all_closed dir"
  shows "all_closed dir'"
proof (rule ccontr)
  assume "\<not> all_closed dir'"
  then obtain f where f: "f \<in> set dir'" "is_open (snd f)" by (auto simp: all_closed_open)
  then obtain r where "map_of dir (receipt_key cd (snd f)) = Some r" "is_open r"
    using dir_open_map [OF assms(3)] assms(1) unfolding no_new_open_def by blast
  then show False using assms(4) map_of_SomeD by (fastforce simp: all_closed_open)
qed

lemma no_new_open_only:
  assumes "no_new_open cd dir dir'" "dir_inv cd name dir" "dir_inv cd name dir'" "only_open q dir"
  shows "only_open q dir'"
  unfolding only_open_def
proof (intro ballI impI)
  fix f assume f: "f \<in> set dir'" "is_open (snd f)"
  then obtain r where "map_of dir (receipt_key cd (snd f)) = Some r" "is_open r" "rcAttempt r = rcAttempt (snd f)"
    using dir_open_map [OF assms(3)] assms(1) unfolding no_new_open_def by blast
  then show "rcAttempt (snd f) = q" using assms(4) map_of_SomeD by (fastforce simp: only_open_def)
qed

lemma owns_only:
  assumes "dir_inv cd name dir" "owns_name cd r dir"
  shows "only_open (rcAttempt r) dir"
  unfolding only_open_def
proof (intro ballI impI)
  fix f assume f: "f \<in> set dir" "is_open (snd f)"
  obtain a where a: "map_of dir (receipt_key cd r) = Some a" "rcAttempt a = rcAttempt r" "is_open a"
    using owns_name_file [OF assms(2)] unfolding is_open_def by metis
  have "(receipt_key cd (snd f), snd f) \<in> set dir" "(receipt_key cd r, a) \<in> set dir"
    using dir_open_map [OF assms(1) f(1)] a(1) by (auto dest: map_of_SomeD)
  then have "receipt_key cd (snd f) = receipt_key cd r"
    using assms(1) f(2) a(3) unfolding dir_inv_def is_open_def by blast
  then show "rcAttempt (snd f) = rcAttempt r" using dir_open_map [OF assms(1) f(1)] a(1,2) by simp
qed

lemma only_put_closed:
  assumes "dir_inv cd name dir" "only_open (rcAttempt r) dir" "\<not> is_open r"
  shows "all_closed (put_receipt cd r dir)"
  unfolding all_closed_open
proof
  fix f assume f: "f \<in> set (put_receipt cd r dir)"
  show "\<not> is_open (snd f)"
  proof (cases "f = (receipt_key cd r, r)")
    case False
    with f have "f \<in> set dir" "fst f \<noteq> receipt_key cd r" by (auto simp: put_receipt_def)
    moreover from this have "fst f = receipt_key cd (snd f)" using assms(1) by (cases f) (auto simp: dir_inv_def)
    ultimately show ?thesis using assms(2) unfolding only_open_def receipt_key_def by metis
  qed (simp add: assms(3))
qed

lemma closed_not_open [simp]: "\<not> is_open (r\<lparr>rcState := ''closed''\<rparr>)"
  by (simp add: is_open_def)

lemma outcome_distinct [simp]: "StartUnknown \<noteq> StartAbsent" "StartUnknown \<noteq> StartRunning" "StartRunning \<noteq> StartAbsent"
  "StartAbsent \<noteq> StartUnknown" "StartRunning \<noteq> StartUnknown" "StartAbsent \<noteq> StartRunning"
  by (simp_all add: StartUnknown_def StartAbsent_def StartRunning_def)

lemma finishDead_cases:
  assumes "finishDeadReceiptLocked cd v r dir = (x, dir')"
  obtains "dir' = dir" "\<forall>resp. x = Inr resp \<longrightarrow> spOutcome resp = StartUnknown"
    | y where "owns_name cd r dir" "writeReceipt cd v (r\<lparr>rcState := ''closed''\<rparr>) dir = (y, dir')" "isl y \<longleftrightarrow> isl x"
        "\<forall>resp. x = Inr resp \<longrightarrow> spOutcome resp = StartAbsent"
  using assms unfolding finishDeadReceiptLocked_def
  by (auto split: sum.splits prod.splits if_splits)

lemma finishDead_open: "finishDeadReceiptLocked cd v r dir = (x, dir') \<Longrightarrow> no_new_open cd dir dir'"
  by (erule finishDead_cases) (auto intro: no_new_open_refl no_new_open_write)

lemma finishDead_absent:
  assumes "finishDeadReceiptLocked cd v r dir = (Inr resp, dir')" "spOutcome resp = StartAbsent" "dir_inv cd name dir"
  shows "all_closed dir'"
  using assms(1)
proof (cases rule: finishDead_cases)
  case (2 y)
  then obtain u where "y = Inr u" by (cases y) auto
  with 2 have "dir' = put_receipt cd (r\<lparr>rcState := ''closed''\<rparr>) dir" by (auto intro: writeReceipt_ok)
  then show ?thesis using only_put_closed [OF assms(3)] owns_only [OF assms(3) 2(1)] by simp
qed (use assms(2) in auto)

lemma resultLocked_cases:
  assumes "resultLocked cd v r dir = (x, dir')"
  obtains "dir' = dir" "\<forall>resp. x = Inr resp \<longrightarrow> spOutcome resp = StartUnknown"
    | "dir' = dir" "nameVacantLocked cd v (sqName (rcAttempt r)) dir = Inr ()" "\<forall>resp. x = Inr resp \<longrightarrow> spOutcome resp = StartAbsent"
    | "dir' = dir" "owns_name cd r dir" "\<forall>resp. x = Inr resp \<longrightarrow> spOutcome resp = StartRunning"
    | "finishDeadReceiptLocked cd v r dir = (x, dir')"
  using assms unfolding resultLocked_def
  by (auto simp: not_isl_unit split: sum.splits if_splits)

lemma resultLocked_open: "resultLocked cd v r dir = (x, dir') \<Longrightarrow> no_new_open cd dir dir'"
  by (erule resultLocked_cases) (auto intro: no_new_open_refl finishDead_open)

lemma resultLocked_absent:
  assumes "resultLocked cd v r dir = (Inr resp, dir')" "spOutcome resp = StartAbsent"
    "dir_inv cd name dir" "sqName (rcAttempt r) = name"
  shows "all_closed dir'"
  using assms(1)
proof (cases rule: resultLocked_cases)
  case 2
  then have "activeReceipt cd name dir = Inr None" using assms(4)
    by (auto simp: nameVacantLocked_def bindR_Inr_iff split: if_splits)
  then show ?thesis using active_none_closed [OF assms(3)] 2(1) by simp
next
  case 4
  then show ?thesis using finishDead_absent assms(2,3) by blast
qed (use assms(2) in auto)

lemma resultLocked_running:
  assumes "resultLocked cd v r dir = (Inr resp, dir')" "spOutcome resp = StartRunning" "dir_inv cd name dir"
  shows "only_open (rcAttempt r) dir'"
  using assms(1)
proof (cases rule: resultLocked_cases)
  case 3
  then show ?thesis using owns_only [OF assms(3)] by simp
next
  case 4
  then show ?thesis by (cases rule: finishDead_cases) (use assms(2) in auto)
qed (use assms(2) in auto)

lemma write_result:
  assumes "(case writeReceipt cd v r dir of (Inl e, d) \<Rightarrow> (Inl e, d) | (Inr _, d) \<Rightarrow> resultLocked cd v r d) = (x, dir')"
  obtains e where "writeReceipt cd v r dir = (Inl e, dir')" "x = Inl e"
    | u where "writeReceipt cd v r dir = (Inr u, put_receipt cd r dir)" "resultLocked cd v r (put_receipt cd r dir) = (x, dir')"
proof -
  obtain y d where w: "writeReceipt cd v r dir = (y, d)" by fastforce
  show ?thesis
  proof (cases y)
    case (Inl e)
    with assms w that(1) [of e] show ?thesis by simp
  next
    case (Inr u)
    with writeReceipt_ok w have "d = put_receipt cd r dir" by blast
    with assms w Inr that(2) [of u] show ?thesis by simp
  qed
qed

lemma fresh_inv:
  assumes "dir_inv cd name dir" "map_of dir (receipt_key cd r) = None" "sqName (rcAttempt r) = name" "rcState r = ''closed''"
  shows "dir_inv cd name (put_receipt cd r dir)"
  by (rule allowed_write_inv [OF assms(1) new_receipt_allowed]) (use assms(2-4) in auto)

lemma resolveStart_cases:
  assumes "resolveStart cd v q dir = (x, dir')"
  obtains e where "dir' = dir" "x = Inl e"
    | r where "rcAttempt r = q" "resultLocked cd v r dir = (x, dir')"
    | r where "rcAttempt r = q" "rcState r = ''closed''" "map_of dir (receipt_key cd r) = None"
        "(case writeReceipt cd v r dir of (Inl e, d) \<Rightarrow> (Inl e, d) | (Inr _, d) \<Rightarrow> resultLocked cd v r d) = (x, dir')"
proof -
  consider e where "bindR (failIf (\<not> validName (sqName q)) (ErrMsg ''invalid instance name'')) (\<lambda>_. readReceipt cd q dir) = Inl e"
    | r where "validName (sqName q)" "readReceipt cd q dir = Inr (Some r)"
    | "validName (sqName q)" "readReceipt cd q dir = Inr None"
    by (cases "validName (sqName q)"; cases "readReceipt cd q dir"; cases "projr (readReceipt cd q dir)") auto
  then show ?thesis
  proof cases
    case 1
    then show ?thesis using assms that(1) by (auto simp: resolveStart_def)
  next
    case (2 r)
    then show ?thesis using assms that(2) readReceipt_Some [OF 2(2)] by (auto simp: resolveStart_def failIf_def)
  next
    case 3
    define r where "r = \<lparr>rcAttempt = q, rcDigest = [], rcState = ''closed'', rcPID = 0, rcTicks = 0,
         rcResumeConfig = [], rcSaveState = False\<rparr>"
    have "map_of dir (receipt_key cd r) = None" using 3(2) by (simp add: readReceipt_None receipt_key_def r_def)
    moreover have "(case writeReceipt cd v r dir of (Inl e, d) \<Rightarrow> (Inl e, d) | (Inr _, d) \<Rightarrow> resultLocked cd v r d) = (x, dir')"
      using assms 3 unfolding resolveStart_def Let_def r_def [symmetric] by (simp add: failIf_def)
    ultimately show ?thesis using that(3) [of r] by (simp add: r_def)
  qed
qed

lemma resolveStart_laws:
  assumes "resolveStart cd v q dir = (x, dir')" "dir_inv cd name dir" "sqName q = name"
  shows "no_new_open cd dir dir'"
    and "x = Inr resp \<Longrightarrow> spOutcome resp = StartAbsent \<Longrightarrow> all_closed dir'"
    and "x = Inr resp \<Longrightarrow> spOutcome resp = StartRunning \<Longrightarrow> only_open q dir'"
proof -
  have "no_new_open cd dir dir' \<and> (\<forall>resp. x = Inr resp \<longrightarrow> (spOutcome resp = StartAbsent \<longrightarrow> all_closed dir') \<and>
      (spOutcome resp = StartRunning \<longrightarrow> only_open q dir'))"
    using assms(1)
  proof (cases rule: resolveStart_cases)
    case (2 r)
    then show ?thesis
      using resultLocked_open resultLocked_absent [OF _ _ assms(2)] resultLocked_running [OF _ _ assms(2)] assms(3) by blast
  next
    case (3 r)
    note inv = fresh_inv [OF assms(2) 3(3) _ 3(2)]
    from 3(4) show ?thesis
    proof (cases rule: write_result)
      case (1 e)
      then show ?thesis using no_new_open_write [OF 1(1)] 3(2) by (simp add: is_open_def)
    next
      case (2 u)
      have "no_new_open cd dir (put_receipt cd r dir)" using 3(2) by (intro no_new_open_put) (simp add: is_open_def)
      then show ?thesis
        using resultLocked_open [OF 2(2)] no_new_open_trans resultLocked_absent [OF _ _ inv] resultLocked_running [OF _ _ inv]
          2(2) 3(1) assms(3) by metis
    qed
  qed (simp add: no_new_open_refl)
  then show "no_new_open cd dir dir'" "x = Inr resp \<Longrightarrow> spOutcome resp = StartAbsent \<Longrightarrow> all_closed dir'"
    "x = Inr resp \<Longrightarrow> spOutcome resp = StartRunning \<Longrightarrow> only_open q dir'" by blast+
qed

lemma only_closed_file:
  assumes "dir_inv cd name dir" "only_open q dir" "map_of dir (cdKey cd (sqRequestID q)) = Some r" "\<not> is_open r"
  shows "all_closed dir"
  unfolding all_closed_open
proof (intro ballI notI)
  fix f assume f: "f \<in> set dir" "is_open (snd f)"
  then have "rcAttempt (snd f) = q" using assms(2) by (auto simp: only_open_def)
  then have "map_of dir (cdKey cd (sqRequestID q)) = Some (snd f)"
    using dir_open_map [OF assms(1) f(1)] by (simp add: receipt_key_def)
  with assms(3,4) f(2) show False by simp
qed

lemma mark_save_cases:
  assumes "mark_save cd v save r dir = (x, dir')"
  obtains "dir' = dir" "\<forall>r'. x = Inr r' \<longrightarrow> r' = r"
    | y where "rcState r = ''started''" "writeReceipt cd v (r\<lparr>rcSaveState := True\<rparr>) dir = (y, dir')"
        "\<forall>r'. x = Inr r' \<longrightarrow> \<not> isl y \<and> r' = r\<lparr>rcSaveState := True\<rparr>"
  using assms unfolding mark_save_def Let_def
  by (auto simp: bindR_Inr_iff split: if_splits sum.splits prod.splits)

lemma mark_save_laws:
  assumes "mark_save cd v save r dir = (x, dir')" "map_of dir (receipt_key cd r) = Some r"
  shows "no_new_open cd dir dir'"
    and "x = Inr r' \<Longrightarrow> rcAttempt r' = rcAttempt r \<and> map_of dir' (receipt_key cd r) = Some r'"
proof -
  have "no_new_open cd dir dir' \<and> (\<forall>r'. x = Inr r' \<longrightarrow> rcAttempt r' = rcAttempt r \<and> map_of dir' (receipt_key cd r) = Some r')"
    using assms(1)
  proof (cases rule: mark_save_cases)
    case 1
    then show ?thesis using assms(2) by (auto simp: no_new_open_refl)
  next
    case (2 y)
    let ?r = "r\<lparr>rcSaveState := True\<rparr>"
    have key: "receipt_key cd ?r = receipt_key cd r" by (simp add: receipt_key_def)
    have "no_new_open cd dir dir'"
      by (rule no_new_open_write [OF 2(2)]) (use assms(2) 2(1) in \<open>simp add: key is_open_def\<close>)
    moreover have "dir' = put_receipt cd ?r dir" if "\<not> isl y" using writeReceipt_dir [OF 2(2)] that by simp
    moreover have "rcAttempt ?r = rcAttempt r" "map_of (put_receipt cd ?r dir) (receipt_key cd r) = Some ?r"
      by (simp_all add: key [symmetric])
    ultimately show ?thesis using 2(3) by blast
  qed
  then show "no_new_open cd dir dir'"
    "x = Inr r' \<Longrightarrow> rcAttempt r' = rcAttempt r \<and> map_of dir' (receipt_key cd r) = Some r'" by blast+
qed

lemma stopLocked_cases:
  assumes "stopReceiptLocked cd v r dir = (x, dir')"
  obtains e where "dir' = dir" "x = Inl e"
    | "dir' = dir" "\<not> is_open r"
    | y where "finishDeadReceiptLocked cd v r dir = (y, dir')" "\<not> isl x \<longrightarrow> (\<exists>resp. y = Inr resp \<and> spOutcome resp = StartAbsent)"
    | "owns_name cd r dir" "writeReceipt cd v (r\<lparr>rcState := ''closed''\<rparr>) dir = (x, dir')"
proof -
  define fin where "fin = bindR (validateRuntime v r) (\<lambda>_. bindR (rvExit v r) (\<lambda>_.
    bindR (noLiveRuntimeLocked v (sqName (rcAttempt r))) (\<lambda>_.
    bindR (unless_missing (rvCleanCgroup v)) (\<lambda>_. rvCleanRuntime v))))"
  show ?thesis
    using assms that unfolding stopReceiptLocked_def dead_answer_def is_open_def fin_def [symmetric]
    by (cases fin) (auto simp: failIf_def split: if_splits sum.splits prod.splits)
qed

lemma stopLocked_laws:
  assumes "stopReceiptLocked cd v r dir = (x, dir')" "dir_inv cd name dir" "map_of dir (receipt_key cd r) = Some r"
  shows "no_new_open cd dir dir'" and "x = Inr u \<Longrightarrow> only_open (rcAttempt r) dir \<Longrightarrow> all_closed dir'"
proof -
  have "no_new_open cd dir dir' \<and> (only_open (rcAttempt r) dir \<longrightarrow> \<not> isl x \<longrightarrow> all_closed dir')"
    using assms(1)
  proof (cases rule: stopLocked_cases)
    case 2
    then show ?thesis using only_closed_file [OF assms(2) _ assms(3) [unfolded receipt_key_def]] by (simp add: no_new_open_refl)
  next
    case (3 y)
    then show ?thesis using finishDead_open finishDead_absent assms(2) by blast
  next
    case 4
    have "no_new_open cd dir dir'" by (rule no_new_open_write [OF 4(2)]) simp
    moreover have "dir' = put_receipt cd (r\<lparr>rcState := ''closed''\<rparr>) dir" if "\<not> isl x"
      using writeReceipt_dir [OF 4(2)] that by simp
    ultimately show ?thesis using only_put_closed [OF assms(2)] by simp
  qed (simp add: no_new_open_refl)
  then show "no_new_open cd dir dir'" "x = Inr u \<Longrightarrow> only_open (rcAttempt r) dir \<Longrightarrow> all_closed dir'" by auto
qed

lemma receiptStop_cases:
  assumes "receiptStop cd v req dir = (x, dir')"
  obtains "dir' = dir" "\<not> isl x \<longrightarrow> tqRequestID req = []"
    | r y where "readReceipt cd (stop_attempt req) dir = Inr (Some r)" "mark_save cd v (tqSaveState req) r dir = (Inl y, dir')" "isl x"
    | r r' d1 z where "readReceipt cd (stop_attempt req) dir = Inr (Some r)" "mark_save cd v (tqSaveState req) r dir = (Inr r', d1)"
        "stopReceiptLocked cd v r' d1 = (z, dir')" "\<not> isl x \<longrightarrow> \<not> isl z"
  using assms unfolding receiptStop_def
  by (auto simp: bindR_Inr_iff split: if_splits sum.splits prod.splits option.splits)

lemma receiptStop_laws:
  assumes "receiptStop cd v req dir = (x, dir')" "dir_inv cd (tqName req) dir"
  shows "no_new_open cd dir dir'"
    and "x = Inr u \<Longrightarrow> tqRequestID req \<noteq> [] \<Longrightarrow> only_open (stop_attempt req) dir \<Longrightarrow> all_closed dir'"
proof -
  have "no_new_open cd dir dir' \<and> (\<not> isl x \<longrightarrow> tqRequestID req \<noteq> [] \<longrightarrow> only_open (stop_attempt req) dir \<longrightarrow> all_closed dir')"
    using assms(1)
  proof (cases rule: receiptStop_cases)
    case (2 r y)
    have "map_of dir (receipt_key cd r) = Some r" using readReceipt_Some [OF 2(1)] by (simp add: receipt_key_def)
    then show ?thesis using mark_save_laws(1) [OF 2(2)] 2(3) by simp
  next
    case (3 r r' d1 z)
    have r: "map_of dir (receipt_key cd r) = Some r" "rcAttempt r = stop_attempt req"
      using readReceipt_Some [OF 3(1)] by (simp_all add: receipt_key_def)
    have name: "sqName (rcAttempt r) = tqName req" by (simp add: r stop_attempt_def)
    have d1: "dir_inv cd (tqName req) d1"
      using mark_save_change [OF 3(2) r(1) name, of True] dir_change_inv assms(2) by blast
    note m = mark_save_laws [OF 3(2) r(1)]
    have r': "rcAttempt r' = stop_attempt req" "map_of d1 (receipt_key cd r') = Some r'"
      using m(2) r(2) by (auto simp: receipt_key_def)
    note st = stopLocked_laws [OF 3(3) d1 r'(2)]
    have "all_closed dir'" if "\<not> isl x" "only_open (stop_attempt req) dir"
      using st(2) 3(4) that no_new_open_only [OF m(1) assms(2) d1] r'(1) by (metis isl_def sum.collapse(2))
    then show ?thesis using no_new_open_trans [OF m(1) st(1)] by blast
  qed (auto simp: no_new_open_refl)
  then show "no_new_open cd dir dir'"
    "x = Inr u \<Longrightarrow> tqRequestID req \<noteq> [] \<Longrightarrow> only_open (stop_attempt req) dir \<Longrightarrow> all_closed dir'" by auto
qed

lemma prepare_absent:
  assumes "receipt_prepare cd v req dir = (plan, dir')" "claims_absent plan" "dir_inv cd (srqName req) dir"
  shows "all_closed dir'"
  using assms(1)
proof (cases rule: prepare_cases)
  case 1
  with assms(2) show ?thesis by simp
next
  case (2 r a)
  then obtain resp where "a = Inr resp" "spOutcome resp = StartAbsent" using assms(2) by (auto simp: claims_absent_def)
  then show ?thesis using resultLocked_absent [OF _ _ assms(3)] 2 by simp
next
  case (3 r a)
  then obtain resp where resp: "a = Inr resp" "spOutcome resp = StartAbsent" using assms(2) by (auto simp: claims_absent_def)
  have inv: "dir_inv cd (srqName req) (put_receipt cd r dir)"
    by (rule fresh_inv [OF assms(3)]) (use 3 in \<open>simp_all add: receipt_key_def\<close>)
  from 3(4) show ?thesis
    by (cases rule: write_result) (use resp resultLocked_absent [OF _ _ inv] 3(2) in auto)
next
  case (4 r)
  from 4(5) show ?thesis
  proof (cases rule: new_attempt_cases)
    case (2 x)
    then have "dir' = put_receipt cd r dir" using writeReceipt_dir [OF 2(1)] assms(2) by auto
    moreover have "only_open (rcAttempt r) dir"
      using active_none_closed [OF assms(3) 2(4)] by (auto simp: only_open_def all_closed_open)
    ultimately show ?thesis using only_put_closed [OF assms(3)] 4(3) by (simp add: is_open_def)
  next
    case (3 x)
    with assms(2) show ?thesis by (cases "isl x") auto
  qed (use assms(2) in auto)
qed

lemma receiptStart_cases:
  assumes "receiptStart cd v req dir = (x, dir')"
  obtains plan where "receipt_prepare cd v req dir = (plan, dir')" "\<forall>resp. x = Inr resp \<and> spOutcome resp = StartAbsent \<longrightarrow> claims_absent plan"
    | r d1 where "receipt_prepare cd v req dir = (Launch r, d1)" "receipt_finish cd v req r d1 = (x, dir')"
proof -
  obtain plan d1 where p: "receipt_prepare cd v req dir = (plan, d1)" by fastforce
  show ?thesis
  proof (cases plan)
    case (Answer a)
    then show ?thesis using assms p that(1) [of plan] by (simp add: receiptStart_def claims_absent_def)
  next
    case LaunchLegacy
    then show ?thesis using assms p that(1) [of plan] by (cases "rvLaunch v req") (auto simp: receiptStart_def)
  next
    case (Launch r)
    then show ?thesis using assms p that(2) [of r d1] by (simp add: receiptStart_def)
  qed
qed

lemma finish_cases:
  assumes "receipt_finish cd v req r dir = (x, dir')"
  obtains "dir' = dir" "\<forall>resp. x = Inr resp \<longrightarrow> spOutcome resp = StartUnknown"
    | r' where "rcAttempt r' = rcAttempt r" "rcState r' = ''started''"
        "(case writeReceipt cd v r' dir of (Inl e, d) \<Rightarrow> (Inl e, d) | (Inr _, d) \<Rightarrow> resultLocked cd v r' d) = (x, dir')"
proof (cases "rvLaunch v req")
  case (Inl e)
  then show ?thesis using assms that(1) by (auto simp: receipt_finish_def)
next
  case (Inr pid)
  show ?thesis
  proof (cases "rvTicks v pid")
    case (Inl e)
    then show ?thesis using assms that(1) Inr by (auto simp: receipt_finish_def)
  next
    case (Inr ticks)
    then show ?thesis
      using assms that(2) [of "r\<lparr>rcPID := pid, rcTicks := ticks, rcState := ''started''\<rparr>"] \<open>rvLaunch v req = Inr pid\<close>
      unfolding receipt_finish_def Let_def by simp
  qed
qed

lemma receiptStart_laws:
  assumes "receiptStart cd v req dir = (x, dir')" "dir_inv cd (srqName req) dir"
  shows "dir_inv cd (srqName req) dir'"
    and "x = Inr resp \<Longrightarrow> spOutcome resp = StartAbsent \<Longrightarrow> all_closed dir'"
proof -
  have "dir_inv cd (srqName req) dir' \<and> (\<forall>resp. x = Inr resp \<and> spOutcome resp = StartAbsent \<longrightarrow> all_closed dir')"
    using assms(1)
  proof (cases rule: receiptStart_cases)
    case (1 plan)
    then show ?thesis using prepare_absent [OF 1(1)] dir_change_inv [OF prepare_change [OF 1(1) assms(2)]] assms(2) by blast
  next
    case (2 r d1)
    note p = prepare_launch [OF 2(1)]
    have d1: "dir_inv cd (srqName req) d1" using dir_change_inv [OF prepare_change [OF 2(1) assms(2)] assms(2)] .
    have r: "map_of d1 (receipt_key cd r) = Some r" "sqName (rcAttempt r) = srqName req" using p by (simp_all add: receipt_key_def)
    have inv: "dir_inv cd (srqName req) dir'"
      by (rule dir_change_inv [OF finish_change [OF 2(2) r(1) _ r(2)] d1]) (use p in simp)
    from 2(2) have "\<forall>resp. x = Inr resp \<and> spOutcome resp = StartAbsent \<longrightarrow> all_closed dir'"
    proof (cases rule: finish_cases)
      case (2 r')
      from r have r': "map_of d1 (receipt_key cd r') = Some r" using 2(1) by (simp add: receipt_key_def)
      have "allowed_write cd (srqName req) True d1 r'"
        using r' r(2) 2(1,2) p by (simp add: allowed_write_def)
      note inv2 = allowed_write_inv [OF d1 this]
      from 2(3) show ?thesis
      proof (cases rule: write_result)
        case (2 u)
        have "sqName (rcAttempt r') = srqName req" using r(2) \<open>rcAttempt r' = rcAttempt r\<close> by simp
        then show ?thesis using resultLocked_absent [OF _ _ inv2] 2(2) by blast
      qed simp
    qed auto
    with inv show ?thesis by blast
  qed
  then show "dir_inv cd (srqName req) dir'" "x = Inr resp \<Longrightarrow> spOutcome resp = StartAbsent \<Longrightarrow> all_closed dir'" by blast+
qed

subsection \<open>The interpretation\<close>

lemma post_cases:
  assumes "post a name f h = (x, h')"
  obtains e where "x = Inl e" "rhDirs h' = rhDirs h" "rhNet h' = rhNet h"
    | y dir where "f (rhDirs h name) = (y, dir)" "rhDirs h' = (rhDirs h)(name := dir)" "rhNet h' = rhNet h" "x = y \<or> isl x"
  using assms unfolding post_def by (auto simp: tick_def split: post_fate.splits prod.splits)

text \<open>A call of the runner that opens no attempt disturbs nothing.\<close>

lemma dirs_undisturbed:
  assumes "rhDirs h' = (rhDirs h)(name := dir)" "dirs_ok cd h \<Longrightarrow> dir_inv cd name dir" "dirs_ok cd h \<Longrightarrow> no_new_open cd (rhDirs h name) dir"
  shows "undisturbed (dirs_ok cd) name_vacant name_only h h'"
proof -
  have inv: "dirs_ok cd h \<Longrightarrow> dir_inv cd name (rhDirs h name)" by (simp add: dirs_ok_def)
  show ?thesis
    unfolding undisturbed_def name_vacant_def name_only_def
    using assms no_new_open_closed [OF assms(3) inv assms(2)] no_new_open_only [OF assms(3) inv assms(2)]
    by (auto simp: dirs_ok_def)
qed

lemma same_dirs_undisturbed: "rhDirs h' = rhDirs h \<Longrightarrow> undisturbed (dirs_ok cd) name_vacant name_only h h'"
  by (simp add: undisturbed_def name_vacant_def name_only_def dirs_ok_def)

lemma observe_quiet:
  "observe ora sel h = (x, h') \<Longrightarrow> undisturbed (dirs_ok cd) name_vacant name_only h h' \<and> net_present i h' = net_present i h"
  by (auto simp: observe_def tick_def net_present_def intro: same_dirs_undisturbed)

lemma post_resolve:
  assumes "post a (sqName q) (resolveStart cd v q) h = (x, h')"
  shows "undisturbed (dirs_ok cd) name_vacant name_only h h' \<and> net_present i h' = net_present i h"
    and "dirs_ok cd h \<Longrightarrow> x = Inr resp \<Longrightarrow> spOutcome resp = StartAbsent \<Longrightarrow> name_vacant (sqName q) h'"
    and "dirs_ok cd h \<Longrightarrow> x = Inr resp \<Longrightarrow> spOutcome resp = StartRunning \<Longrightarrow> name_only q h'"
proof -
  have "undisturbed (dirs_ok cd) name_vacant name_only h h' \<and> net_present i h' = net_present i h \<and>
      (dirs_ok cd h \<longrightarrow> (\<forall>resp. x = Inr resp \<longrightarrow> (spOutcome resp = StartAbsent \<longrightarrow> name_vacant (sqName q) h') \<and>
        (spOutcome resp = StartRunning \<longrightarrow> name_only q h')))"
    using assms
  proof (cases rule: post_cases)
    case (1 e)
    then show ?thesis by (auto simp: net_present_def intro: same_dirs_undisturbed)
  next
    case (2 y dir)
    have inv: "dirs_ok cd h \<Longrightarrow> dir_inv cd (sqName q) (rhDirs h (sqName q))" by (simp add: dirs_ok_def)
    note laws = resolveStart_laws [OF 2(1) inv refl]
    have "undisturbed (dirs_ok cd) name_vacant name_only h h'"
      by (rule dirs_undisturbed [OF 2(2) dir_change_inv [OF resolveStart_change [OF 2(1) refl] inv] laws(1)])
    moreover have "x = Inr resp \<Longrightarrow> y = Inr resp" for resp using 2(4) by auto
    ultimately show ?thesis using laws(2,3) 2(2,3) by (auto simp: net_present_def name_vacant_def name_only_def)
  qed
  then show "undisturbed (dirs_ok cd) name_vacant name_only h h' \<and> net_present i h' = net_present i h"
    "dirs_ok cd h \<Longrightarrow> x = Inr resp \<Longrightarrow> spOutcome resp = StartAbsent \<Longrightarrow> name_vacant (sqName q) h'"
    "dirs_ok cd h \<Longrightarrow> x = Inr resp \<Longrightarrow> spOutcome resp = StartRunning \<Longrightarrow> name_only q h'" by blast+
qed

lemma post_stop:
  assumes "post a (tqName req) (receiptStop cd v req) h = (x, h')"
  shows "undisturbed (dirs_ok cd) name_vacant name_only h h' \<and> net_present i h' = net_present i h"
    and "dirs_ok cd h \<Longrightarrow> x = Inr u \<Longrightarrow> tqRequestID req \<noteq> [] \<Longrightarrow> name_only (stop_attempt req) h \<Longrightarrow> name_vacant (tqName req) h'"
proof -
  have name: "sqName (stop_attempt req) = tqName req" by (simp add: stop_attempt_def)
  have "undisturbed (dirs_ok cd) name_vacant name_only h h' \<and> net_present i h' = net_present i h \<and>
      (dirs_ok cd h \<longrightarrow> \<not> isl x \<longrightarrow> tqRequestID req \<noteq> [] \<longrightarrow> name_only (stop_attempt req) h \<longrightarrow> name_vacant (tqName req) h')"
    using assms
  proof (cases rule: post_cases)
    case (1 e)
    then show ?thesis by (auto simp: net_present_def intro: same_dirs_undisturbed)
  next
    case (2 y dir)
    have inv: "dirs_ok cd h \<Longrightarrow> dir_inv cd (tqName req) (rhDirs h (tqName req))" by (simp add: dirs_ok_def)
    note laws = receiptStop_laws [OF 2(1) inv]
    have "undisturbed (dirs_ok cd) name_vacant name_only h h'"
      by (rule dirs_undisturbed [OF 2(2) dir_change_inv [OF receiptStop_change [OF 2(1)] inv] laws(1)])
    moreover have "\<not> isl x \<Longrightarrow> y = Inr ()" using 2(4) by (cases x) auto
    ultimately show ?thesis using laws(2) 2(2,3) by (auto simp: net_present_def name_vacant_def name_only_def name)
  qed
  then show "undisturbed (dirs_ok cd) name_vacant name_only h h' \<and> net_present i h' = net_present i h"
    "dirs_ok cd h \<Longrightarrow> x = Inr u \<Longrightarrow> tqRequestID req \<noteq> [] \<Longrightarrow> name_only (stop_attempt req) h \<Longrightarrow> name_vacant (tqName req) h'"
    by auto
qed

lemma post_start:
  assumes "post a (srqName req) (receiptStart cd v req) h = (x, h')"
  shows "rhNet h' = rhNet h" and "dirs_ok cd h \<Longrightarrow> dirs_ok cd h'"
    and "dirs_ok cd h \<Longrightarrow> x = Inr resp \<Longrightarrow> spOutcome resp = StartAbsent \<Longrightarrow> name_vacant (srqName req) h'"
proof -
  have "rhNet h' = rhNet h \<and> (dirs_ok cd h \<longrightarrow> dirs_ok cd h' \<and>
      (\<forall>resp. x = Inr resp \<longrightarrow> spOutcome resp = StartAbsent \<longrightarrow> name_vacant (srqName req) h'))"
    using assms
  proof (cases rule: post_cases)
    case (1 e)
    then show ?thesis by (simp add: dirs_ok_def)
  next
    case (2 y dir)
    have inv: "dirs_ok cd h \<Longrightarrow> dir_inv cd (srqName req) (rhDirs h (srqName req))" by (simp add: dirs_ok_def)
    have "x = Inr resp \<Longrightarrow> y = Inr resp" for resp using 2(4) by auto
    then show ?thesis using receiptStart_laws [OF 2(1) inv] 2(2,3) by (auto simp: dirs_ok_def name_vacant_def)
  qed
  then show "rhNet h' = rhNet h" "dirs_ok cd h \<Longrightarrow> dirs_ok cd h'"
    "dirs_ok cd h \<Longrightarrow> x = Inr resp \<Longrightarrow> spOutcome resp = StartAbsent \<Longrightarrow> name_vacant (srqName req) h'" by blast+
qed

lemma resolve_client:
  assumes "ResolveInstanceStart cd ora q h = ((resp, err), h')"
  obtains "rhDirs h' = rhDirs h" "rhNet h' = rhNet h" "resp = zero_response"
    | x where "post (ora (rhStep h)) (sqName q) (resolveStart cd (haView (ora (rhStep h))) q) h = (x, h')"
        "x = Inr resp \<or> resp = zero_response"
  using assms unfolding ResolveInstanceStart_def Let_def
  by (auto simp: tick_def split: sum.splits prod.splits)

lemma zero_outcome [simp]: "spOutcome zero_response \<noteq> StartAbsent" "spOutcome zero_response \<noteq> StartRunning"
  by (simp_all add: zero_response_def StartAbsent_def StartRunning_def)

lemma stop_client:
  assumes "StopInstanceVM cd ora req h = (x, h')"
  obtains "rhDirs h' = rhDirs h" "rhNet h' = rhNet h" "isl x"
    | "post (ora (rhStep h)) (tqName req) (receiptStop cd (haView (ora (rhStep h))) req) h = (x, h')"
proof (cases "StopRequest_Validate req")
  case (Inl e)
  then have "x = Inl e" "h' = tick h" using assms by (simp_all add: StopInstanceVM_def Let_def)
  then show ?thesis using that(1) by (simp add: tick_def)
next
  case (Inr u)
  then show ?thesis using assms that(2) by (simp add: StopInstanceVM_def Let_def)
qed

lemma start_client:
  assumes "StartInstanceVM cd ora req h = (x, h')"
  obtains "rhDirs h' = rhDirs h" "rhNet h' = rhNet h" "isl x"
    | y where "post (ora (rhStep h)) (srqName req) (receiptStart cd (haView (ora (rhStep h))) req) h = (y, h')"
    "\<forall>resp. x = Inr resp \<longrightarrow> y = Inr resp"
proof (cases "StartRequest_Validate req")
  case (Inl e)
  then have "x = Inl e" "h' = tick h" using assms by (simp_all add: StartInstanceVM_def Let_def)
  then show ?thesis using that(1) by (simp add: tick_def)
next
  case (Inr u)
  then show ?thesis using assms that(2) unfolding StartInstanceVM_def Let_def
    by (auto simp: bindR_Inr_iff split: prod.splits sum.splits if_splits)
qed

lemma net_quiet: "change_net ora f h = (x, h') \<Longrightarrow> undisturbed (dirs_ok cd) name_vacant name_only h h'"
  by (rule same_dirs_undisturbed) (auto simp: change_net_def Let_def tick_def)

interpretation runner: runner_contract "runner_ops cd ora" "dirs_ok cd" name_vacant name_only net_present for cd ora
proof (unfold_locales, goal_cases)
  case (7 q h a h' i)
  obtain resp err where a: "a = (resp, err)" by fastforce
  from 7 have "ResolveInstanceStart cd ora q h = ((resp, err), h')" by (simp add: runner_ops_def a)
  then show ?case
    by (cases rule: resolve_client) (auto simp: net_present_def dest: post_resolve(1) intro: same_dirs_undisturbed)
next
  case (8 req h u h' i)
  then have "StopInstanceVM cd ora req h = (u, h')" by (simp add: runner_ops_def)
  then show ?case
    by (cases rule: stop_client) (auto simp: net_present_def dest: post_stop(1) intro: same_dirs_undisturbed)
next
  case (9 j tap cidr h u h')
  then show ?case by (simp add: runner_ops_def net_quiet)
next
  case (10 sreq h resp' h' i)
  then have "StartInstanceVM cd ora sreq h = (resp', h')" by (simp add: runner_ops_def)
  then show ?case by (cases rule: start_client) (simp_all add: net_present_def post_start(1))
next
  case (11 sreq h resp' h')
  then have "StartInstanceVM cd ora sreq h = (resp', h')" by (simp add: runner_ops_def)
  then show ?case by (cases rule: start_client) (use 11(2) post_start(2) in \<open>auto simp: dirs_ok_def\<close>)
next
  case (12 h q resp err h')
  then have "ResolveInstanceStart cd ora q h = ((resp, err), h')" by (simp add: runner_ops_def)
  then show ?case by (cases rule: resolve_client) (use 12(1,3) post_resolve(2) in \<open>auto\<close>)
next
  case (13 h q resp err h')
  then have "ResolveInstanceStart cd ora q h = ((resp, err), h')" by (simp add: runner_ops_def)
  then show ?case by (cases rule: resolve_client) (use 13(1,3) post_resolve(3) in \<open>auto\<close>)
next
  case (14 h sreq resp h')
  then have "StartInstanceVM cd ora sreq h = (Inr resp, h')" by (simp add: runner_ops_def)
  then show ?case by (cases rule: start_client) (use 14(1,3) post_start(3) in auto)
next
  case (15 h req v' h')
  then have "StopInstanceVM cd ora req h = (Inr v', h')" by (simp add: runner_ops_def)
  then show ?case by (cases rule: stop_client) (use 15(1-3) post_stop(2) in \<open>auto\<close>)
next
  case (16 h q)
  then show ?case by (auto simp: name_vacant_def name_only_def all_closed_open only_open_def)
qed (auto simp: runner_ops_def dest: observe_quiet)

end
