(* ===== verification/RuntimeProps.thy ===== *)
theory RuntimeProps
  imports RunnerContract
begin

section \<open>Properties of the lifecycle\<close>

text \<open>
  What the lifecycle of an instance guarantees, over the model of the control plane (\<open>Runtime\<close>) and
  over the control plane joined with the runner (\<open>RuntimeHost\<close>).
\<close>

subsection \<open>A concrete world\<close>

text \<open>A running virtual machine \<open>web\<close> with its receipt and its network, on a host where every call
  succeeds.\<close>

definition rt_now :: time where
  "rt_now = \<lparr>tYear = 2025, tMonth = 6, tDay = 1, tHour = 12, tMin = 0, tSec = 0, tNano = 0\<rparr>"

definition rt_instance :: Instance where
  "rt_instance = empty_instance\<lparr>iID := ''i1'', iName := ''web'', iKind := KindVM, iImage := ''arch'', iState := StateReady,
     iCreatedAt := rt_now, iUpdatedAt := rt_now, iTapDevice := ''tap0'', iNetworkCIDR := ''10.0.0.0/30'',
     iGuestMAC := ''02:00:00:00:00:01'', iGuestAddr := ''10.0.0.2/30'', iGatewayAddr := ''10.0.0.1'',
     iFirecrackerPID := 42, iStartRequestID := ''s1'', iStartBootID := ''boot'', iTailscaleName := ''web''\<rparr>"

definition rt_db :: db where
  "rt_db = empty_db\<lparr>instances := [instance_to_row rt_now rt_instance]\<rparr>"

definition rt_env :: host_env where
  "rt_env = \<lparr>heMemory = Inr 0, heProcess = (\<lambda>_. True), heUsage = (\<lambda>_. Inl ErrNotExist), heStat = (\<lambda>_. Inl ErrNotExist),
     heUpgradePending = (\<lambda>_. Inr False), heNumCPU = 4\<rparr>"

definition rt_answer :: host_answer where
  "rt_answer = \<lparr>haFault = None, haNow = rt_now, haNewID = ''s2'', haEnv = rt_env, haText = Inr ''boot'',
     haPost = Delivered, haView = rc_view, haNetDone = True, haUnit = Inr (), haDevices = Inr [],
     haEnrollment = Inl ErrNotExist, haTurns = 0\<rparr>"

definition rt_ops :: "runner_host host_ops" where
  "rt_ops = runner_ops rc_codec (\<lambda>_. rt_answer)"

definition rt_host :: runner_host where
  "rt_host = \<lparr>rhStep = 0, rhDirs = (\<lambda>name. if name = ''web'' then rc_dir else []), rhNet = [''i1'']\<rparr>"

definition rt_stop :: "Instance result \<times> db \<times> runner_host" where
  "rt_stop = StopWithOptions rt_ops ''web'' False (rt_db, rt_host)"

lemma rt_stop_works: "\<not> isl (fst rt_stop)"
  by code_simp

subsection \<open>The properties\<close>

text \<open>C34: the intent to stop is durable. Whatever the host answers, a stop that reports success leaves
  the instance stopped, without a process and without an error; a stop that fails leaves the database
  as it found it or the instance in the state \<open>stopping\<close>; and as long as an instance is in that state
  every start fails and leaves it there, so that an interrupted stop can only be continued.\<close>

theorem stop_intent_durable:
  assumes "StopWithOptions ho name save (d, h) = (res, d', h')"
  shows "(if isl res then d' = d \<or> look name d' = Some StateStopping else stopped_row name d') \<and>
    (look name d' = Some StateStopping \<longrightarrow>
      (\<forall>r d'' h''. StartWithOptions ho2 c name discard (d', h2) = (r, d'', h'') \<longrightarrow>
        isl r \<and> look name d'' = Some StateStopping))"
proof (intro conjI impI allI)
  show "if isl res then d' = d \<or> look name d' = Some StateStopping else stopped_row name d'"
  proof (cases res)
    case (Inl e)
    then show ?thesis using dwp_error [OF stop_durable, OF assms [unfolded Inl]] by simp
  next
    case (Inr i)
    then show ?thesis using dwp_result [OF stop_durable, OF assms [unfolded Inr]] by simp
  qed
next
  fix r d'' h''
  assume "look name d' = Some StateStopping" "StartWithOptions ho2 c name discard (d', h2) = (r, d'', h'')"
  then show "isl r" "look name d'' = Some StateStopping"
    using dwp_result [OF start_stopping] dwp_error [OF start_stopping] by (cases r; fastforce)+
qed

theorem stop_intent_durable_witness:
  "\<not> isl (fst rt_stop) \<and> stopped_row ''web'' (fst (snd rt_stop))"
proof -
  have "StopWithOptions rt_ops ''web'' False (rt_db, rt_host) = (fst rt_stop, fst (snd rt_stop), snd (snd rt_stop))"
    by (simp add: rt_stop_def)
  from conjunct1 [OF stop_intent_durable [OF this]] rt_stop_works show ?thesis by simp
qed

text \<open>C35: the lifecycle operations are confined. Starting, stopping, reconciling or restoring an
  instance changes no table but instances and events and no row but its own, does not remove or add
  a row, and neither starts nor cancels a deletion: an instance that is being deleted or has been
  deleted keeps its state, and no other one gets into these states.\<close>

theorem lifecycle_confined:
  assumes "lifecycle_run ho op name (d, h) = (r, d', h')"
  shows "rest d' = rest d \<and> others name d' = others name d \<and>
    (look name d = None \<longleftrightarrow> look name d' = None) \<and>
    (look name d \<in> {Some StateDeleting, Some StateDeleted} \<or> look name d' \<in> {Some StateDeleting, Some StateDeleted} \<longrightarrow>
      look name d' = look name d)"
  using dwp_final [OF lifecycle_conf assms] by (auto simp: conf_def live_def)

definition rt_deleting :: db where
  "rt_deleting = empty_db\<lparr>instances := [instance_to_row rt_now (rt_instance\<lparr>iState := StateDeleting\<rparr>)]\<rparr>"

theorem lifecycle_confined_witness:
  "look ''web'' (fst (snd (lifecycle_run rt_ops (OpStop False) ''web'' (rt_deleting, rt_host)))) = Some StateDeleting"
proof -
  obtain r d' h' where run: "lifecycle_run rt_ops (OpStop False) ''web'' (rt_deleting, rt_host) = (r, d', h')"
    by (metis prod.exhaust)
  have "look ''web'' rt_deleting = Some StateDeleting" by code_simp
  then have "look ''web'' d' = Some StateDeleting" using lifecycle_confined [OF run] by simp
  then show ?thesis unfolding run by simp
qed

text \<open>C36: the network of an instance outlives its machine. When a stop or a reconciliation of an
  instance that was started through a receipt takes down a network, on whatever error and with
  requests and replies lost in between, the runner's receipts show at the end that no attempt under
  this name can be running.\<close>

theorem network_kept_until_fenced:
  assumes "dirs_ok cd h" "managed name d" "op = OpStop save \<or> op = OpReconcile"
    "lifecycle_run (runner_ops cd ora) op name (d, h) = (r, d', h')" "i \<in> set (rhNet h)" "i \<notin> set (rhNet h')"
  shows "all_closed (rhDirs h' name)"
proof -
  have start: "runner.at cd name h False q (d, h)" for q
    using assms(1,2) by (simp add: runner.at_def runner.kept_def)
  have "wp (lifecycle_run (runner_ops cd ora) op name) (\<lambda>_ w. runner.kept cd name h (snd w))
      (\<lambda>_ w. runner.kept cd name h (snd w)) (d, h)"
    using assms(3) by (auto simp: wp_simps intro!: runner.at_stop [OF start] runner.at_reconcileInstance [OF start])
  then have "runner.kept cd name h h'"
    using assms(4) by (cases r) (simp_all add: wp_def)
  then show ?thesis using assms(5,6) by (auto simp: runner.kept_def net_present_def name_vacant_def)
qed

definition rt_net :: "db \<times> runner_host" where
  "rt_net = snd (lifecycle_run rt_ops (OpStop False) ''web'' (rt_db, rt_host))"

lemma rt_world: "dirs_ok rc_codec rt_host" "managed ''web'' rt_db" "''i1'' \<in> set (rhNet rt_host)"
proof -
  have "dir_inv rc_codec ''web'' rc_dir" by (rule attempts.reachable_inv [OF refl rc_launch_run])
  then show "dirs_ok rc_codec rt_host"
    by (simp add: dirs_ok_def rt_host_def dir_inv_def)
qed (simp_all add: managed_def rt_db_def rt_host_def rt_instance_def instance_to_row_def empty_db_def)

theorem network_kept_until_fenced_witness:
  "''i1'' \<in> set (rhNet rt_host) \<and> ''i1'' \<notin> set (rhNet (snd rt_net)) \<and> all_closed (rhDirs (snd rt_net) ''web'')"
proof -
  have gone: "''i1'' \<notin> set (rhNet (snd rt_net))" by code_simp
  have "lifecycle_run (runner_ops rc_codec (\<lambda>_. rt_answer)) (OpStop False) ''web'' (rt_db, rt_host) =
      (fst (lifecycle_run rt_ops (OpStop False) ''web'' (rt_db, rt_host)), fst rt_net, snd rt_net)"
    by (simp add: rt_net_def rt_ops_def del: lifecycle_run.simps)
  from network_kept_until_fenced [OF rt_world(1,2) _ this rt_world(3) gone] gone rt_world(3)
  show ?thesis by simp
qed

text \<open>C37: a failed start is settled or reported as uncertain. When no attempt under the name was open
  and the launch fails with an error that is not \<open>ErrStartUncertain\<close>, so that the caller cleans up and stores
  the instance as stopped, no attempt under the name can be running, even when the request or the
  reply was lost on the way.\<close>

theorem failed_start_settled:
  assumes "dirs_ok cd h" "all_closed (rhDirs h (iName inst))"
    "startFirecracker (runner_ops cd ora) c inst pool bootstrap discard (d, h) = (Inr (inst', Inl e), d', h')"
    "\<not> errors_is e ErrStartUncertain"
  shows "all_closed (rhDirs h' (iName inst))"
proof -
  have "runner.fenced cd (iName inst) h (inst', Inl e) (d', h')"
    by (rule wp_result [OF runner.startFirecracker_fenced [OF assms(1)] assms(3)])
  then show ?thesis
    using assms(1,2,4) unfolding runner.fenced_def undisturbed_def name_vacant_def by auto
qed

definition lost_ops :: "runner_host host_ops" where
  "lost_ops = runner_ops rc_codec (\<lambda>n. if n = 5 then rt_answer\<lparr>haPost := LostRequest (ErrMsg ''connection reset'')\<rparr> else rt_answer)"

definition quiet_host :: runner_host where
  "quiet_host = \<lparr>rhStep = 0, rhDirs = (\<lambda>_. []), rhNet = [''i1'']\<rparr>"

lemma lost_start_valid:
  "StartRequest_Validate (start_request example_config (rt_instance\<lparr>iStartRequestID := ''s2''\<rparr>) None
     (start_bootstrap example_config rt_instance) False) = Inr ()"
  by code_simp

definition lost_start :: "(Instance \<times> int result) result \<times> db \<times> runner_host" where
  "lost_start = startFirecracker lost_ops example_config rt_instance None (start_bootstrap example_config rt_instance) False (rt_db, quiet_host)"

theorem failed_start_settled_witness:
  "all_closed (rhDirs (snd (snd lost_start)) ''web'') \<and> rhDirs (snd (snd lost_start)) ''web'' \<noteq> []"
proof -
  have failed: "case fst lost_start of Inr (_, Inl e) \<Rightarrow> \<not> errors_is e ErrStartUncertain | _ \<Rightarrow> False"
    "rhDirs (snd (snd lost_start)) ''web'' \<noteq> []" by code_simp+
  then obtain i e where e: "fst lost_start = Inr (i, Inl e)" "\<not> errors_is e ErrStartUncertain"
    by (cases "fst lost_start"; cases "snd (projr (fst lost_start))") (auto simp: prod_eq_iff)
  then have run: "startFirecracker (runner_ops rc_codec
      (\<lambda>n. if n = 5 then rt_answer\<lparr>haPost := LostRequest (ErrMsg ''connection reset'')\<rparr> else rt_answer))
      example_config rt_instance None (start_bootstrap example_config rt_instance) False (rt_db, quiet_host) =
      (Inr (i, Inl e), fst (snd lost_start), snd (snd lost_start))"
    by (simp add: lost_start_def lost_ops_def prod_eq_iff)
  have "dirs_ok rc_codec quiet_host" "all_closed (rhDirs quiet_host (iName rt_instance))"
    by (simp_all add: dirs_ok_def dir_inv_def quiet_host_def all_closed_def)
  from failed_start_settled [OF this run e(2)] failed(2) show ?thesis by (simp add: rt_instance_def)
qed

end
