(* ===== verification/NetHelper.thy ===== *)
theory NetHelper
  imports NetText Effects
begin

section \<open>The network helper\<close>

text \<open>
  src/internal/nethelper: the privileged process that creates and removes the network of an instance.
  It keeps one file per deleted instance, the record of a deletion, and decides from these files
  whether a delayed request may still touch the network. Every handler runs under one lock, so a call
  is one action on the state.

  The programs \<open>ip\<close>, \<open>iptables\<close> and \<open>nft\<close> and the file system answer from an arbitrary sequence, one
  entry per call; the commands that were run are kept in a log. \<open>net_codec\<close> stands for the \<open>uuid\<close>
  package and for the decoding of JSON texts.
\<close>

subsection \<open>Requests\<close>

record NetCleanupRequest =
  nrInstanceID :: string
  nrTapDevice :: string
  nrNetworkCIDR :: string
  nrOutboundInterface :: string

record SetupRequest =
  suInstanceID :: string
  suTapDevice :: string
  suHostAddr :: string
  suNetworkCIDR :: string
  suOutboundInterface :: string

record FinalizeRequest = NetCleanupRequest +
  nrRequestID :: string

record networkDeletion =
  ndRequest :: FinalizeRequest
  ndDone :: bool

definition validateInterfaceName :: "string \<Rightarrow> string \<Rightarrow> unit result" where
  "validateInterfaceName label value =
     bindR (failIf (TrimSpace value = []) (ErrMsg (label @ '' is required''))) (\<lambda>_.
     failIf (\<not> ifaceName (TrimSpace value)) (ErrMsg (label @ '' is invalid'')))"

definition validateCIDR :: "string \<Rightarrow> string \<Rightarrow> unit result" where
  "validateCIDR label value =
     bindR (failIf (TrimSpace value = []) (ErrMsg (label @ '' is required''))) (\<lambda>_.
     failIf (\<not> ParseCIDR_any (TrimSpace value)) (ErrMsg (label @ '' is invalid'')))"

definition SetupRequest_Validate :: "SetupRequest \<Rightarrow> unit result" where
  "SetupRequest_Validate r =
     bindR (validateInterfaceName ''tap device'' (suTapDevice r)) (\<lambda>_.
     bindR (validateCIDR ''host address'' (suHostAddr r)) (\<lambda>_.
     bindR (validateCIDR ''network cidr'' (suNetworkCIDR r)) (\<lambda>_.
     validateInterfaceName ''outbound interface'' (suOutboundInterface r))))"

definition CleanupRequest_Validate :: "'m NetCleanupRequest_scheme \<Rightarrow> unit result" where
  "CleanupRequest_Validate r =
     bindR (validateInterfaceName ''tap device'' (nrTapDevice r)) (\<lambda>_.
     bindR (validateCIDR ''network cidr'' (nrNetworkCIDR r)) (\<lambda>_.
     if TrimSpace (nrOutboundInterface r) \<noteq> [] then validateInterfaceName ''outbound interface'' (nrOutboundInterface r)
     else Inr ()))"

text \<open>\<open>ncUUID\<close> is \<open>uuid.Parse\<close> followed by printing: the canonical form of a text. \<open>ncRows\<close> and \<open>ncRules\<close> decode
  a text as an array of objects and as an object with the array \<open>nftables\<close>; \<open>None\<close> is an error or a missing
  array and a \<open>False\<close> in the list a null entry.\<close>

record net_codec =
  ncUUID :: "string \<Rightarrow> string option"
  ncNil :: string
  ncRows :: "string \<Rightarrow> bool list option"
  ncRules :: "string \<Rightarrow> bool list option"

definition canonical :: "net_codec \<Rightarrow> string \<Rightarrow> bool" where
  "canonical nc i \<longleftrightarrow> ncUUID nc i = Some i \<and> i \<noteq> ncNil nc"

definition FinalizeRequest_Validate :: "net_codec \<Rightarrow> FinalizeRequest \<Rightarrow> unit result" where
  "FinalizeRequest_Validate nc q =
     bindR (CleanupRequest_Validate q) (\<lambda>_.
     bindR (failIf (\<not> canonical nc (nrInstanceID q)) (ErrMsg ''canonical network identity required'')) (\<lambda>_.
     failIf (ncUUID nc (nrRequestID q) = None) (ErrMsg ''invalid UUID'')))"

subsection \<open>State\<close>

text \<open>A deletion file holds a record or a text that cannot be decoded.\<close>

datatype deletion_file = Record networkDeletion | Garbage error

record net_answer =
  naRun :: "unit result"
  naExists :: bool
  naOutput :: "string result"
  naFile :: "error option"
  naWrite :: write_fate

record net_state =
  nsFiles :: "string \<rightharpoonup> deletion_file"
  nsLog :: "string list list"
  nsStep :: nat

type_synonym net_world = "nat \<Rightarrow> net_answer"
type_synonym 'a net_act = "('a, net_state) act"

definition askN :: "net_world \<Rightarrow> (net_answer \<Rightarrow> 'a) \<Rightarrow> 'a net_act" where
  "askN w sel s = (Inr (sel (w (nsStep s))), s\<lparr>nsStep := Suc (nsStep s)\<rparr>)"

definition fileN :: "net_world \<Rightarrow> unit net_act" where
  "fileN w = bindA (askN w naFile) (\<lambda>e. case e of None \<Rightarrow> retA () | Some e \<Rightarrow> failA e)"

text \<open>A command may have had its effect whatever it reports, so it is logged in any case.\<close>

definition runner :: "net_world \<Rightarrow> string list \<Rightarrow> unit net_act" where
  "runner w cmd s = (naRun (w (nsStep s)), s\<lparr>nsLog := nsLog s @ [cmd], nsStep := Suc (nsStep s)\<rparr>)"

definition outputN :: "net_world \<Rightarrow> string list \<Rightarrow> string net_act" where
  "outputN w cmd = bindA (askN w naOutput) liftR"

subsection \<open>Changing the network\<close>

definition Contains :: "string \<Rightarrow> string \<Rightarrow> bool" where
  "Contains s part = list_ex (\<lambda>n. HasPrefix (drop n s) part) [0..<Suc (length s)]"

definition ensureIPTablesRule :: "net_world \<Rightarrow> string \<Rightarrow> string \<Rightarrow> string list \<Rightarrow> unit net_act" where
  "ensureIPTablesRule w table chain rule =
     bindA (askN w naExists) (\<lambda>present.
     if present then retA () else runner w ([''iptables'', ''-t'', table, ''-A'', chain] @ rule))"

definition deleteIPTablesRule :: "net_world \<Rightarrow> string \<Rightarrow> string \<Rightarrow> string list \<Rightarrow> unit net_act" where
  "deleteIPTablesRule w table chain rule =
     bindA (tryA (runner w ([''iptables'', ''-t'', table, ''-D'', chain] @ rule))) (\<lambda>r. case r of
       Inr _ \<Rightarrow> retA ()
     | Inl e \<Rightarrow>
       if Contains (error_text e) ''No chain/target/match'' \<or> Contains (error_text e) ''Bad rule'' then retA ()
       else failA (ErrWrap (ErrMsg ''iptables delete rule'') e))"

definition ENODEV :: error where
  "ENODEV = ErrMsg ''no such device''"

definition isMissingNetworkDeviceError :: "error \<Rightarrow> bool" where
  "isMissingNetworkDeviceError e \<longleftrightarrow> list_ex (Contains (error_text e)) [''Cannot find device'', ''No such device'', ''does not exist''] \<or>
     errors_is e ENODEV"

definition masquerade :: "string \<Rightarrow> string \<Rightarrow> string list" where
  "masquerade cidr out = [''-s'', cidr, ''-o'', out, ''-j'', ''MASQUERADE'']"

definition forward_in :: "string \<Rightarrow> string list" where
  "forward_in tap = [''-i'', tap, ''-j'', ''ACCEPT'']"

definition forward_out :: "string \<Rightarrow> string list" where
  "forward_out tap = [''-o'', tap, ''-m'', ''state'', ''--state'', ''RELATED,ESTABLISHED'', ''-j'', ''ACCEPT'']"

definition setupNetwork :: "net_world \<Rightarrow> string \<Rightarrow> SetupRequest \<Rightarrow> unit net_act" where
  "setupNetwork w tapUser req =
     bindA (runner w [''ip'', ''tuntap'', ''add'', ''dev'', suTapDevice req, ''mode'', ''tap'', ''user'', tapUser]) (\<lambda>_.
     bindA (runner w [''ip'', ''addr'', ''add'', suHostAddr req, ''dev'', suTapDevice req]) (\<lambda>_.
     bindA (runner w [''ip'', ''link'', ''set'', ''dev'', suTapDevice req, ''up'']) (\<lambda>_.
     bindA (ensureIPTablesRule w ''nat'' ''POSTROUTING'' (masquerade (suNetworkCIDR req) (suOutboundInterface req))) (\<lambda>_.
     bindA (ensureIPTablesRule w ''filter'' ''FORWARD'' (forward_in (suTapDevice req))) (\<lambda>_.
     ensureIPTablesRule w ''filter'' ''FORWARD'' (forward_out (suTapDevice req)))))))"

fun Join :: "string list \<Rightarrow> string \<Rightarrow> string" where
  "Join [] sep = []"
| "Join [x] sep = x"
| "Join (x # y # ys) sep = x @ sep @ Join (y # ys) sep"

text \<open>Cleaning up goes through all steps and reports the errors at the end.\<close>

fun all_steps :: "(unit net_act \<times> (error \<Rightarrow> bool)) list \<Rightarrow> error list \<Rightarrow> error list net_act" where
  "all_steps [] errs = retA errs"
| "all_steps ((m, ignored) # ms) errs =
     bindA (tryA m) (\<lambda>r. all_steps ms (case r of Inl e \<Rightarrow> if ignored e then errs else errs @ [e] | Inr _ \<Rightarrow> errs))"

definition cleanupNetwork :: "net_world \<Rightarrow> 'm NetCleanupRequest_scheme \<Rightarrow> unit net_act" where
  "cleanupNetwork w req =
     bindA (all_steps
       ((if nrOutboundInterface req \<noteq> []
         then [(deleteIPTablesRule w ''nat'' ''POSTROUTING'' (masquerade (nrNetworkCIDR req) (nrOutboundInterface req)), \<lambda>_. False)]
         else []) @
        [(deleteIPTablesRule w ''filter'' ''FORWARD'' (forward_in (nrTapDevice req)), \<lambda>_. False),
         (deleteIPTablesRule w ''filter'' ''FORWARD'' (forward_out (nrTapDevice req)), \<lambda>_. False),
         (runner w [''ip'', ''link'', ''set'', ''dev'', nrTapDevice req, ''down''], isMissingNetworkDeviceError),
         (runner w [''ip'', ''tuntap'', ''del'', ''dev'', nrTapDevice req, ''mode'', ''tap''], isMissingNetworkDeviceError)]) [])
       (\<lambda>errs. case errs of [] \<Rightarrow> retA () | _ \<Rightarrow> failA (ErrMsg (Join (map error_text errs) ''; '')))"

subsection \<open>The proof that a network is gone\<close>

text \<open>\<open>netip.ParsePrefix\<close> for IPv4; any other prefix is refused by the code.\<close>

definition ParsePrefix4 :: "string \<Rightarrow> (nat \<times> nat) option" where
  "ParsePrefix4 s =
     (let bits = rev (takeWhile (\<lambda>ch. ch \<noteq> CHR ''/'') (rev s)); addr = take (length s - length bits - 1) s in
      if CHR ''/'' \<notin> set s \<or> (length bits > 1 \<and> hd bits = CHR ''0'') \<or> bits = [] \<or> \<not> list_all is_digit bits \<or>
        digits_val 0 bits > 32 then None
      else map_option (\<lambda>ip. (ip, digits_val 0 bits)) (parse_ipv4 addr))"

definition prefix_addresses :: "nat \<Rightarrow> nat \<Rightarrow> string list" where
  "prefix_addresses ip bits = (let size = 2 ^ (32 - bits) in map ip_string [ip div size * size ..< ip div size * size + size])"

definition dotted :: "char \<Rightarrow> bool" where
  "dotted ch \<longleftrightarrow> is_digit ch \<or> ch = CHR ''.''"

text \<open>The pattern \<open>(^|[^0-9.])(addresses)($|[^0-9.]|\.(?:$|[^0-9]))\<close>.\<close>

definition address_ends :: "string \<Rightarrow> bool" where
  "address_ends s = (case s of
     [] \<Rightarrow> True
   | ch # rest \<Rightarrow> \<not> dotted ch \<or> ch = CHR ''.'' \<and> (case rest of [] \<Rightarrow> True | ch' # _ \<Rightarrow> \<not> is_digit ch'))"

fun ownedAddress :: "string list \<Rightarrow> bool \<Rightarrow> string \<Rightarrow> bool" where
  "ownedAddress addrs boundary [] = False"
| "ownedAddress addrs boundary (ch # s) =
     (boundary \<and> list_ex (\<lambda>a. HasPrefix (ch # s) a \<and> address_ends (drop (length a) (ch # s))) addrs \<or>
      ownedAddress addrs (\<not> dotted ch) s)"

definition token_char :: "char \<Rightarrow> bool" where
  "token_char ch \<longleftrightarrow> is_digit ch \<or> (CHR ''a'' \<le> ch \<and> ch \<le> CHR ''z'') \<or> (CHR ''A'' \<le> ch \<and> ch \<le> CHR ''Z'') \<or> ch \<in> set ''._:/-''"

fun FieldsFunc :: "(char \<Rightarrow> bool) \<Rightarrow> string \<Rightarrow> string \<Rightarrow> string list" where
  "FieldsFunc sep cur [] = (if cur = [] then [] else [cur])"
| "FieldsFunc sep cur (ch # s) =
     (if sep ch then (if cur = [] then FieldsFunc sep [] s else cur # FieldsFunc sep [] s)
      else FieldsFunc sep (cur @ [ch]) s)"

definition queries :: "string list list" where
  "queries = [[''ip'', ''-j'', ''link'', ''show''], [''ip'', ''-j'', ''route'', ''show'', ''table'', ''all''],
     [''ip'', ''-j'', ''rule'', ''show''], [''iptables-save''], [''ip6tables-save''], [''nft'', ''-j'', ''list'', ''ruleset'']]"

definition answer_shape :: "net_codec \<Rightarrow> string list \<Rightarrow> string \<Rightarrow> unit result" where
  "answer_shape nc cmd data =
     (if hd cmd = ''ip'' then
        (case ncRows nc data of
          None \<Rightarrow> Inl (ErrMsg ''invalid ip network proof array'')
        | Some rows \<Rightarrow> failIf (False \<in> set rows) (ErrMsg ''null ip network proof row''))
      else if hd cmd = ''nft'' then
        (case ncRules nc data of
          None \<Rightarrow> Inl (ErrMsg ''invalid nft network proof ruleset'')
        | Some rules \<Rightarrow> failIf (False \<in> set rules) (ErrMsg ''null nft network proof rule''))
      else Inr ())"

definition no_residual :: "string list \<Rightarrow> string \<Rightarrow> string \<Rightarrow> unit result" where
  "no_residual addrs tap data =
     bindR (failIf (ownedAddress addrs True data) (ErrMsg ''network residual'')) (\<lambda>_.
     failIf (tap \<in> set (FieldsFunc (\<lambda>ch. \<not> token_char ch) [] data)) (ErrMsg ''network residual''))"

fun check_queries :: "net_codec \<Rightarrow> net_world \<Rightarrow> string list \<Rightarrow> string \<Rightarrow> string list list \<Rightarrow> unit net_act" where
  "check_queries nc w addrs tap [] = retA ()"
| "check_queries nc w addrs tap (cmd # cmds) =
     bindA (wrapA (ErrMsg ''cleanup query'') (outputN w cmd)) (\<lambda>data.
     bindA (liftR (answer_shape nc cmd data)) (\<lambda>_.
     bindA (liftR (no_residual addrs tap data)) (\<lambda>_.
     check_queries nc w addrs tap cmds)))"

definition verifyNetworkAbsent :: "net_codec \<Rightarrow> net_world \<Rightarrow> 'm NetCleanupRequest_scheme \<Rightarrow> unit net_act" where
  "verifyNetworkAbsent nc w q =
     (case ParsePrefix4 (nrNetworkCIDR q) of
       None \<Rightarrow> failA (ErrMsg ''invalid prefix'')
     | Some (ip, bits) \<Rightarrow>
       if bits < 30 then failA (ErrMsg ''cleanup proof requires the native IPv4 /30-or-smaller allocation'')
       else check_queries nc w (prefix_addresses ip bits) (nrTapDevice q) queries)"

subsection \<open>Deletion records\<close>

definition checkDeletion :: "net_codec \<Rightarrow> net_world \<Rightarrow> string \<Rightarrow> bool \<Rightarrow> unit net_act" where
  "checkDeletion nc w i required =
     (if i = [] \<and> \<not> required then retA ()
      else if \<not> canonical nc i then failA (ErrMsg ''canonical network identity required'')
      else bindA (fileN w) (\<lambda>_ s.
        (failIf (nsFiles s i \<noteq> None) (ErrMsg ''network incarnation has deletion intent''), s)))"

definition writeDeletion :: "net_world \<Rightarrow> networkDeletion \<Rightarrow> unit net_act" where
  "writeDeletion w d =
     bindA (askN w naWrite) (\<lambda>fate s.
     (let s' = s\<lparr>nsFiles := (nsFiles s)(nrInstanceID (ndRequest d) \<mapsto> Record d)\<rparr> in
      case fate of
        Written \<Rightarrow> (Inr (), s')
      | NotWritten e \<Rightarrow> (Inl e, s)
      | WrittenThenFailed e \<Rightarrow> (Inl e, s')))"

text \<open>What is left to do: nothing for a finished deletion, else the request with the interface of the
  first attempt.\<close>

definition stored_deletion :: "net_codec \<Rightarrow> FinalizeRequest \<Rightarrow> deletion_file option \<Rightarrow> FinalizeRequest option result" where
  "stored_deletion nc q f =
     (case f of
       None \<Rightarrow> Inr (Some q)
     | Some (Garbage e) \<Rightarrow> Inl e
     | Some (Record d) \<Rightarrow>
       bindR (FinalizeRequest_Validate nc (ndRequest d)) (\<lambda>_.
       bindR (failIf (nrOutboundInterface (ndRequest d) = []) (ErrMsg ''stored network deletion has no outbound interface'')) (\<lambda>_.
       let q = q\<lparr>nrOutboundInterface := nrOutboundInterface (ndRequest d)\<rparr> in
       bindR (failIf (ndRequest d \<noteq> q) (ErrMsg ''network deletion binding mismatch'')) (\<lambda>_.
       if ndDone d then Inr None else Inr (Some q)))))"

text \<open>The first \<open>fileN\<close> stands for taking the lock, the second one for reading the file.\<close>

definition finalize :: "net_codec \<Rightarrow> net_world \<Rightarrow> FinalizeRequest \<Rightarrow> unit net_act" where
  "finalize nc w q =
     bindA (fileN w) (\<lambda>_.
     bindA (fileN w) (\<lambda>_.
     bindA (\<lambda>s. (stored_deletion nc q (nsFiles s (nrInstanceID q)), s)) (\<lambda>todo. case todo of
       None \<Rightarrow> fileN w
     | Some q \<Rightarrow>
       bindA (liftR (failIf (nrOutboundInterface q = [])
         (ErrMsg ''initial network finalization requires an outbound interface''))) (\<lambda>_.
       bindA (writeDeletion w \<lparr>ndRequest = q, ndDone = False\<rparr>) (\<lambda>_.
       bindA (cleanupNetwork w q) (\<lambda>_.
       bindA (verifyNetworkAbsent nc w q) (\<lambda>_.
       writeDeletion w \<lparr>ndRequest = q, ndDone = True\<rparr>)))))))"

subsection \<open>The handlers\<close>

text \<open>\<open>v2\<close> tells the endpoints that require an identity from the older ones; \<open>fileN\<close> stands for taking the lock.\<close>

definition handleSetup :: "net_codec \<Rightarrow> net_world \<Rightarrow> string \<Rightarrow> bool \<Rightarrow> SetupRequest \<Rightarrow> unit net_act" where
  "handleSetup nc w tapUser v2 req =
     bindA (liftR (SetupRequest_Validate req)) (\<lambda>_.
     bindA (fileN w) (\<lambda>_.
     bindA (checkDeletion nc w (suInstanceID req) v2) (\<lambda>_.
     setupNetwork w tapUser req)))"

definition handleCleanup :: "net_codec \<Rightarrow> net_world \<Rightarrow> bool \<Rightarrow> NetCleanupRequest \<Rightarrow> unit net_act" where
  "handleCleanup nc w v2 req =
     bindA (liftR (CleanupRequest_Validate req)) (\<lambda>_.
     bindA (fileN w) (\<lambda>_.
     bindA (checkDeletion nc w (nrInstanceID req) v2) (\<lambda>_.
     cleanupNetwork w req)))"

definition handleFinalize :: "net_codec \<Rightarrow> net_world \<Rightarrow> FinalizeRequest \<Rightarrow> unit net_act" where
  "handleFinalize nc w q =
     bindA (liftR (FinalizeRequest_Validate nc q)) (\<lambda>_. finalize nc w q)"

definition handleCleanupProof :: "net_codec \<Rightarrow> net_world \<Rightarrow> NetCleanupRequest \<Rightarrow> unit net_act" where
  "handleCleanupProof nc w q =
     bindA (liftR (CleanupRequest_Validate q)) (\<lambda>_. verifyNetworkAbsent nc w q)"

end
