(* ===== verification/NetHelperProofs.thy ===== *)
theory NetHelperProofs
  imports NetHelper
begin

section \<open>What the network helper guarantees\<close>

text \<open>
  The record of a deletion is permanent: it keeps its binding, and once it exists delayed requests for
  the instance change nothing. A finished deletion rests on texts in which neither the device nor an
  address of the instance occurs.
\<close>

subsection \<open>Calls and the commands they run\<close>

datatype net_event =
    SetupCall bool SetupRequest
  | CleanupCall bool NetCleanupRequest
  | FinalizeCall FinalizeRequest
  | ProofCall NetCleanupRequest

fun event_instance :: "net_event \<Rightarrow> string" where
  "event_instance (SetupCall _ r) = suInstanceID r"
| "event_instance (CleanupCall _ r) = nrInstanceID r"
| "event_instance (FinalizeCall q) = nrInstanceID q"
| "event_instance (ProofCall q) = nrInstanceID q"

fun net_call :: "net_codec \<Rightarrow> net_world \<Rightarrow> string \<Rightarrow> net_event \<Rightarrow> unit net_act" where
  "net_call nc w u (SetupCall v2 r) = handleSetup nc w u v2 r"
| "net_call nc w u (CleanupCall v2 r) = handleCleanup nc w v2 r"
| "net_call nc w u (FinalizeCall q) = handleFinalize nc w q"
| "net_call nc w u (ProofCall q) = handleCleanupProof nc w q"

fun net_run :: "net_codec \<Rightarrow> net_world \<Rightarrow> string \<Rightarrow> net_event list \<Rightarrow> net_state \<Rightarrow> net_state" where
  "net_run nc w u [] s = s"
| "net_run nc w u (e # es) s = net_run nc w u es (snd (net_call nc w u e s))"

text \<open>The commands that the calls on behalf of an instance run.\<close>

fun ran_for :: "string \<Rightarrow> net_codec \<Rightarrow> net_world \<Rightarrow> string \<Rightarrow> net_event list \<Rightarrow> net_state \<Rightarrow> string list list" where
  "ran_for i nc w u [] s = []"
| "ran_for i nc w u (e # es) s =
     (let s' = snd (net_call nc w u e s) in
      (if event_instance e = i then drop (length (nsLog s)) (nsLog s') else []) @ ran_for i nc w u es s')"

definition cleanup_commands :: "'m NetCleanupRequest_scheme \<Rightarrow> string list set" where
  "cleanup_commands q =
     {[''iptables'', ''-t'', ''nat'', ''-D'', ''POSTROUTING''] @ masquerade (nrNetworkCIDR q) (nrOutboundInterface q),
      [''iptables'', ''-t'', ''filter'', ''-D'', ''FORWARD''] @ forward_in (nrTapDevice q),
      [''iptables'', ''-t'', ''filter'', ''-D'', ''FORWARD''] @ forward_out (nrTapDevice q),
      [''ip'', ''link'', ''set'', ''dev'', nrTapDevice q, ''down''],
      [''ip'', ''tuntap'', ''del'', ''dev'', nrTapDevice q, ''mode'', ''tap'']}"

subsection \<open>Frames\<close>

text \<open>\<open>grows cmds P s s'\<close>: from \<open>s\<close> to \<open>s'\<close> only commands of \<open>cmds\<close> were run and the files changed as \<open>P\<close> allows.\<close>

definition grows :: "string list set \<Rightarrow> (string \<rightharpoonup> deletion_file) set \<Rightarrow> net_state \<Rightarrow> net_state \<Rightarrow> bool" where
  "grows cmds files s s' \<longleftrightarrow> (\<exists>l. nsLog s' = nsLog s @ l \<and> set l \<subseteq> cmds) \<and> nsFiles s' \<in> files"

definition framed :: "string list set \<Rightarrow> (string \<rightharpoonup> deletion_file) set \<Rightarrow> 'a net_act \<Rightarrow> bool" where
  "framed cmds files m \<longleftrightarrow> (\<forall>s. nsFiles s \<in> files \<longrightarrow> grows cmds files s (snd (m s)))"

lemma grows_refl: "nsFiles s \<in> files \<Longrightarrow> grows cmds files s s"
  by (simp add: grows_def)

lemma grows_trans: "grows cmds files s s' \<Longrightarrow> grows cmds files s' s'' \<Longrightarrow> grows cmds files s s''"
  unfolding grows_def by (metis append_assoc Un_subset_iff set_append)

lemma grows_files: "grows cmds files s s' \<Longrightarrow> nsFiles s' \<in> files"
  by (simp add: grows_def)

named_theorems framed_intros \<open>frames of the operations of the network helper\<close>

lemma framed_ret [framed_intros]: "framed cmds files (retA x)"
  and framed_fail [framed_intros]: "framed cmds files (failA e)"
  and framed_lift [framed_intros]: "framed cmds files (liftR r)"
  by (simp_all add: framed_def retA_def failA_def liftR_def grows_refl)

lemma framed_ask [framed_intros]: "framed cmds files (askN w sel)"
  by (simp add: framed_def askN_def grows_def)

text \<open>The second action only matters for the results of the first one.\<close>

lemma framed_bind_val:
  assumes "framed cmds files m" "\<And>s s' x. nsFiles s \<in> files \<Longrightarrow> m s = (Inr x, s') \<Longrightarrow> framed cmds files (k x)"
  shows "framed cmds files (bindA m k)"
  unfolding framed_def
proof (intro allI impI)
  fix s :: net_state
  assume s: "nsFiles s \<in> files"
  obtain r s1 where m: "m s = (r, s1)" by fastforce
  then have g: "grows cmds files s s1" using assms(1) s by (auto simp: framed_def dest: spec [of _ s])
  have "grows cmds files s1 (snd (k x s1))" if "r = Inr x" for x
    using assms(2) [OF s m [unfolded that]] grows_files [OF g] by (auto simp: framed_def)
  then show "grows cmds files s (snd (bindA m k s))"
    using g grows_trans by (cases r) (auto simp: bindA_def m)
qed

lemma framed_bind [framed_intros]:
  "framed cmds files m \<Longrightarrow> (\<And>x. framed cmds files (k x)) \<Longrightarrow> framed cmds files (bindA m k)"
  by (rule framed_bind_val)

lemma framed_try [framed_intros]: "framed cmds files m \<Longrightarrow> framed cmds files (tryA m)"
  unfolding framed_def tryA_def by (auto split: prod.splits)

lemma framed_wrap [framed_intros]: "framed cmds files m \<Longrightarrow> framed cmds files (wrapA c m)"
  unfolding framed_def wrapA_def by (auto split: prod.splits sum.splits)

lemma framed_if [framed_intros]:
  "(b \<Longrightarrow> framed cmds files m) \<Longrightarrow> (\<not> b \<Longrightarrow> framed cmds files n) \<Longrightarrow> framed cmds files (if b then m else n)"
  by simp

lemma framed_sum [framed_intros]:
  "(\<And>e. framed cmds files (f e)) \<Longrightarrow> (\<And>x. framed cmds files (g x)) \<Longrightarrow> framed cmds files (case r of Inl e \<Rightarrow> f e | Inr x \<Rightarrow> g x)"
  by (simp split: sum.split)

lemma framed_option [framed_intros]:
  "framed cmds files m \<Longrightarrow> (\<And>x. framed cmds files (g x)) \<Longrightarrow> framed cmds files (case r of None \<Rightarrow> m | Some x \<Rightarrow> g x)"
  by (simp split: option.split)

lemma framed_file [framed_intros]: "framed cmds files (fileN w)"
  unfolding fileN_def by (intro framed_intros)

lemma framed_run [framed_intros]: "cmd \<in> cmds \<Longrightarrow> framed cmds files (runner w cmd)"
  by (simp add: framed_def runner_def grows_def)

lemma framed_output [framed_intros]: "framed cmds files (outputN w cmd)"
  unfolding outputN_def by (intro framed_intros)

lemma framed_delete [framed_intros]:
  "[''iptables'', ''-t'', table, ''-D'', chain] @ rule \<in> cmds \<Longrightarrow> framed cmds files (deleteIPTablesRule w table chain rule)"
  unfolding deleteIPTablesRule_def by (intro framed_intros)

lemma framed_all_steps [framed_intros]: "(\<And>p. p \<in> set ms \<Longrightarrow> framed cmds files (fst p)) \<Longrightarrow> framed cmds files (all_steps ms errs)"
proof (induction ms arbitrary: errs)
  case (Cons p ms)
  have "framed cmds files (fst p)" by (rule Cons.prems) simp
  moreover have "framed cmds files (all_steps ms errs)" for errs by (rule Cons.IH, rule Cons.prems) simp
  ultimately show ?case by (cases p) (auto intro!: framed_bind framed_try)
qed (simp add: framed_intros)

lemma framed_cleanup [framed_intros]: "cleanup_commands q \<subseteq> cmds \<Longrightarrow> framed cmds files (cleanupNetwork w q)"
  unfolding cleanupNetwork_def
  by (auto intro!: framed_intros simp: cleanup_commands_def split: list.split)

lemma framed_check [framed_intros]: "framed cmds files (check_queries nc w addrs tap qs)"
  by (induction qs) (auto intro!: framed_intros)

lemma framed_verify [framed_intros]: "framed cmds files (verifyNetworkAbsent nc w q)"
  unfolding verifyNetworkAbsent_def by (auto intro!: framed_intros split: option.split)

lemma framed_checkDeletion [framed_intros]: "framed cmds files (checkDeletion nc w i required)"
  unfolding checkDeletion_def by (intro framed_intros) (simp add: framed_def grows_refl)

lemma framed_write [framed_intros]:
  "(\<And>f. f \<in> files \<Longrightarrow> f(nrInstanceID (ndRequest d) \<mapsto> Record d) \<in> files) \<Longrightarrow> framed cmds files (writeDeletion w d)"
  unfolding writeDeletion_def
  by (intro framed_intros) (auto simp: framed_def Let_def grows_def split: write_fate.split)

lemma framed_setup [framed_intros]: "framed UNIV files (setupNetwork w u r)"
  unfolding setupNetwork_def ensureIPTablesRule_def by (intro framed_intros) simp_all

subsection \<open>A deletion is permanent\<close>

text \<open>The files that continue the record \<open>d\<close> of instance \<open>i\<close>.\<close>

definition bound_files :: "string \<Rightarrow> networkDeletion \<Rightarrow> (string \<rightharpoonup> deletion_file) set" where
  "bound_files i d = {f. \<exists>d'. f i = Some (Record d') \<and> ndRequest d' = ndRequest d \<and> (ndDone d \<longrightarrow> ndDone d')}"

lemma stored_bound:
  assumes "stored_deletion nc q (Some (Record d)) = Inr (Some q')"
  shows "q' = ndRequest d \<and> \<not> ndDone d"
  using assms by (auto simp: stored_deletion_def Let_def bindR_Inr_iff failIf_def split: if_splits)

lemma stored_instance: "stored_deletion nc q f = Inr (Some q') \<Longrightarrow> nrInstanceID q' = nrInstanceID q"
  by (auto simp: stored_deletion_def Let_def bindR_Inr_iff failIf_def split: if_splits option.splits deletion_file.splits
      dest!: arg_cong [where f = nrInstanceID])

lemma check_bound:
  assumes "i \<noteq> []" "nsFiles s \<in> bound_files i d"
  shows "isl (fst (checkDeletion nc w i v2 s))"
  using assms by (auto simp: checkDeletion_def bound_files_def bindA_def fileN_def askN_def retA_def failA_def
      failIf_def split: prod.splits sum.splits option.splits)

lemma framed_guarded:
  assumes "i \<noteq> []"
  shows "framed cmds (bound_files i d) (bindA (checkDeletion nc w i v2) k)"
proof (rule framed_bind_val [OF framed_checkDeletion])
  fix s s' x
  assume "nsFiles s \<in> bound_files i d" "checkDeletion nc w i v2 s = (Inr x, s')"
  then show "framed cmds (bound_files i d) (k x)" using check_bound [OF assms, of s d nc w v2] by simp
qed

definition allowed_commands :: "string \<Rightarrow> networkDeletion \<Rightarrow> string \<Rightarrow> string list set" where
  "allowed_commands i d j = (if j \<noteq> i then UNIV else if ndDone d then {} else cleanup_commands (ndRequest d))"

lemma finalize_framed: "framed (allowed_commands i d (nrInstanceID q)) (bound_files i d) (finalize nc w q)"
proof -
  have step: "framed (allowed_commands i d (nrInstanceID q)) (bound_files i d)
      (case todo of None \<Rightarrow> fileN w | Some q \<Rightarrow>
       bindA (liftR (failIf (nrOutboundInterface q = []) (ErrMsg ''initial network finalization requires an outbound interface''))) (\<lambda>_.
       bindA (writeDeletion w \<lparr>ndRequest = q, ndDone = False\<rparr>) (\<lambda>_.
       bindA (cleanupNetwork w q) (\<lambda>_.
       bindA (verifyNetworkAbsent nc w q) (\<lambda>_.
       writeDeletion w \<lparr>ndRequest = q, ndDone = True\<rparr>)))))"
    if s: "nsFiles s \<in> bound_files i d" and todo: "stored_deletion nc q (nsFiles s (nrInstanceID q)) = Inr todo" for s todo
  proof (cases todo)
    case (Some q')
    show ?thesis
    proof (cases "nrInstanceID q = i")
      case True
      then obtain d' where d': "nsFiles s i = Some (Record d')" "ndRequest d' = ndRequest d" "ndDone d \<longrightarrow> ndDone d'"
        using s by (auto simp: bound_files_def)
      then have q': "q' = ndRequest d" "\<not> ndDone d" "nrInstanceID q' = i"
        using stored_bound stored_instance todo True Some by fastforce+
      then have "allowed_commands i d (nrInstanceID q) = cleanup_commands q'" using True by (simp add: allowed_commands_def)
      then show ?thesis
        unfolding Some using q' by (auto intro!: framed_intros simp: bound_files_def)
    next
      case False
      moreover have "nrInstanceID q' = nrInstanceID q" using stored_instance todo Some by blast
      ultimately show ?thesis
        unfolding Some by (auto intro!: framed_intros simp: allowed_commands_def bound_files_def)
    qed
  qed (simp add: framed_file)
  show ?thesis
    unfolding finalize_def
    by (intro framed_bind framed_file framed_bind_val) (auto simp: framed_def grows_refl intro!: step [unfolded framed_def, rule_format])
qed

lemma net_call_framed:
  assumes "i \<noteq> []"
  shows "framed (allowed_commands i d (event_instance e)) (bound_files i d) (net_call nc w u e)"
proof (cases e)
  case (SetupCall v2 r)
  show ?thesis
    unfolding SetupCall net_call.simps handleSetup_def
    by (cases "suInstanceID r = i") (auto intro!: framed_bind framed_lift framed_file framed_guarded framed_checkDeletion
        framed_setup framed_cleanup simp: assms allowed_commands_def)
next
  case (CleanupCall v2 r)
  show ?thesis
    unfolding CleanupCall net_call.simps handleCleanup_def
    by (cases "nrInstanceID r = i") (auto intro!: framed_bind framed_lift framed_file framed_guarded framed_checkDeletion
        framed_setup framed_cleanup simp: assms allowed_commands_def)
next
  case (FinalizeCall q)
  show ?thesis
    unfolding FinalizeCall net_call.simps handleFinalize_def
    by (auto intro!: framed_intros finalize_framed)
next
  case (ProofCall q)
  show ?thesis
    unfolding ProofCall net_call.simps handleCleanupProof_def by (intro framed_intros)
qed

definition net_id :: string where
  "net_id = ''6ba7b810-9dad-41d1-80b4-00c04fd430c8''"

definition net_ex_codec :: net_codec where
  "net_ex_codec = \<lparr>ncUUID = (\<lambda>s. if length s = 36 then Some s else None), ncNil = replicate 36 (CHR ''0''),
     ncRows = (\<lambda>s. if s = ''[]'' then Some [] else None), ncRules = (\<lambda>s. if s = ''[]'' then Some [] else None)\<rparr>"

definition net_ex_world :: net_world where
  "net_ex_world = (\<lambda>_. \<lparr>naRun = Inr (), naExists = False, naOutput = Inr ''[]'', naFile = None, naWrite = Written\<rparr>)"

definition net_ex_request :: FinalizeRequest where
  "net_ex_request = \<lparr>nrInstanceID = net_id, nrTapDevice = ''tap0'', nrNetworkCIDR = ''172.28.0.4/30'',
     nrOutboundInterface = ''eth0'', nrRequestID = net_id\<rparr>"

definition net_ex_start :: net_state where
  "net_ex_start = \<lparr>nsFiles = Map.empty, nsLog = [], nsStep = 0\<rparr>"

definition net_ex_done :: net_state where
  "net_ex_done = snd (handleFinalize net_ex_codec net_ex_world net_ex_request net_ex_start)"

definition net_ex_setup :: SetupRequest where
  "net_ex_setup = \<lparr>suInstanceID = net_id, suTapDevice = ''tap0'', suHostAddr = ''172.28.0.5/30'',
     suNetworkCIDR = ''172.28.0.4/30'', suOutboundInterface = ''eth0''\<rparr>"

text \<open>An action that gives one result from every state.\<close>

definition yields :: "'a net_act \<Rightarrow> 'a \<Rightarrow> bool" where
  "yields m x \<longleftrightarrow> (\<forall>s. fst (m s) = Inr x)"

lemma yields_ret: "yields (retA x) x"
  and yields_lift: "r = Inr x \<Longrightarrow> yields (liftR r) x"
  by (simp_all add: yields_def retA_def liftR_def)

lemma yields_bind: "yields m x \<Longrightarrow> yields (k x) y \<Longrightarrow> yields (bindA m k) y"
  unfolding yields_def bindA_def by (auto split: prod.splits sum.splits) (metis fst_conv Inl_Inr_False, metis fst_conv Inr_inject)

lemma yields_try: "yields m x \<Longrightarrow> yields (tryA m) (Inr x)"
  and yields_wrap: "yields m x \<Longrightarrow> yields (wrapA c m) x"
  unfolding yields_def tryA_def wrapA_def by (auto split: prod.splits sum.splits) (metis fst_conv Inl_Inr_False Inr_inject)+

lemma yields_ask: "(\<And>n. sel (w n) = x) \<Longrightarrow> yields (askN w sel) x"
  by (simp add: yields_def askN_def)

lemma yields_world:
  "yields (runner net_ex_world cmd) ()" "yields (outputN net_ex_world cmd) ''[]''" "yields (fileN net_ex_world) ()"
  "yields (writeDeletion net_ex_world d) ()"
  by (simp_all add: yields_def runner_def outputN_def fileN_def writeDeletion_def bindA_def askN_def liftR_def retA_def
      net_ex_world_def Let_def)

lemma yields_all_steps: "(\<And>p. p \<in> set ms \<Longrightarrow> yields (fst p) ()) \<Longrightarrow> yields (all_steps ms errs) errs"
proof (induction ms arbitrary: errs)
  case (Cons p ms)
  have "yields (fst p) ()" by (rule Cons.prems) simp
  moreover have "yields (all_steps ms errs) errs" for errs by (rule Cons.IH, rule Cons.prems) simp
  ultimately show ?case by (cases p) (auto intro!: yields_bind [OF yields_try])
qed (simp add: yields_ret)

lemma yields_cleanup: "yields (cleanupNetwork net_ex_world q) ()"
  unfolding cleanupNetwork_def deleteIPTablesRule_def
  by (rule yields_bind, rule yields_all_steps) (auto intro!: yields_bind yields_try yields_world yields_ret)

lemma yields_queries:
  "(\<And>cmd. cmd \<in> set qs \<Longrightarrow> answer_shape nc cmd ''[]'' = Inr ()) \<Longrightarrow> no_residual addrs tap ''[]'' = Inr () \<Longrightarrow>
    yields (check_queries nc net_ex_world addrs tap qs) ()"
  by (induction qs) (auto intro!: yields_bind yields_wrap yields_lift yields_world yields_ret)

lemma net_ex_checks:
  "FinalizeRequest_Validate net_ex_codec net_ex_request = Inr ()"
  "list_all (\<lambda>cmd. answer_shape net_ex_codec cmd ''[]'' = Inr ()) queries"
  "ParsePrefix4 (nrNetworkCIDR net_ex_request) = Some (2887516164, 30)"
  "no_residual (prefix_addresses 2887516164 30) (nrTapDevice net_ex_request) ''[]'' = Inr ()"
  by code_simp+

lemma net_ex_finalizes:
  "handleFinalize net_ex_codec net_ex_world net_ex_request net_ex_start = (Inr (), net_ex_done)"
proof -
  have verify: "yields (verifyNetworkAbsent net_ex_codec net_ex_world net_ex_request) ()"
    unfolding verifyNetworkAbsent_def
    using net_ex_checks by (auto intro!: yields_queries simp: list_all_iff)
  have lift: "bindA (liftR (Inr x)) k s = k x s" for x k and s :: net_state by (simp add: bindA_def liftR_def)
  have locked: "bindA (fileN net_ex_world) k s = k () (s\<lparr>nsStep := Suc (nsStep s)\<rparr>)" for k s
    by (simp add: bindA_def fileN_def askN_def net_ex_world_def retA_def)
  have read: "fst (bindA (\<lambda>s. (stored_deletion net_ex_codec net_ex_request (nsFiles s (nrInstanceID net_ex_request)), s)) k s) = Inr ()"
    if "yields (k (Some net_ex_request)) ()" "nsFiles s = Map.empty" for k s
    using that by (simp add: bindA_def stored_deletion_def yields_def)
  have out: "failIf (nrOutboundInterface net_ex_request = []) e = Inr ()" for e by (simp add: net_ex_request_def failIf_def)
  have "fst (handleFinalize net_ex_codec net_ex_world net_ex_request net_ex_start) = Inr ()"
    unfolding handleFinalize_def finalize_def net_ex_checks(1) lift locked
    by (rule read) (auto intro!: yields_bind [OF yields_lift [OF out]] yields_bind [OF yields_world(4)]
        yields_bind [OF yields_cleanup] yields_bind [OF verify] yields_world simp: net_ex_start_def)
  then show ?thesis by (simp add: net_ex_done_def prod_eq_iff)
qed

text \<open>C38: the deletion of a network is permanent. Once the helper has recorded the deletion of an
  instance, no later sequence of calls, whatever fails in between, changes the binding of the record or
  takes its completion back; the calls for this instance run no command but those that remove the
  recorded device and rules, and none at all once the deletion is complete, so that a device or a block
  of addresses that has been given to another instance is never touched.\<close>

theorem network_deletion_permanent:
  assumes "nsFiles s i = Some (Record d)" "i \<noteq> []"
  shows "set (ran_for i nc w u es s) \<subseteq> (if ndDone d then {} else cleanup_commands (ndRequest d)) \<and>
    (\<exists>d'. nsFiles (net_run nc w u es s) i = Some (Record d') \<and> ndRequest d' = ndRequest d \<and> (ndDone d \<longrightarrow> ndDone d'))"
proof -
  have "nsFiles s \<in> bound_files i d" using assms(1) by (simp add: bound_files_def)
  then have "set (ran_for i nc w u es s) \<subseteq> allowed_commands i d i \<and> nsFiles (net_run nc w u es s) \<in> bound_files i d"
  proof (induction es arbitrary: s)
    case (Cons e es)
    let ?s = "snd (net_call nc w u e s)"
    from net_call_framed [OF assms(2), of d e nc w u] Cons.prems
    obtain l where l: "nsLog ?s = nsLog s @ l" "set l \<subseteq> allowed_commands i d (event_instance e)" "nsFiles ?s \<in> bound_files i d"
      unfolding framed_def grows_def by blast
    from Cons.IH [OF l(3)] l(1,2) show ?case by (auto simp: Let_def)
  qed simp
  then show ?thesis by (auto simp: allowed_commands_def bound_files_def split: if_splits)
qed

subsection \<open>What a completed deletion rests on\<close>

text \<open>A text mentions an address when the address stands in it as a number of its own, and a name when
  it stands there as a word of its own.\<close>

definition mentions_address :: "string list \<Rightarrow> string \<Rightarrow> bool" where
  "mentions_address addrs text \<longleftrightarrow> (\<exists>before a after. text = before @ a @ after \<and> a \<in> set addrs \<and>
     (before = [] \<or> \<not> dotted (last before)) \<and> address_ends after)"

definition mentions_word :: "string \<Rightarrow> string \<Rightarrow> bool" where
  "mentions_word word text \<longleftrightarrow> (\<exists>before after. text = before @ word @ after \<and>
     (before = [] \<or> \<not> token_char (last before)) \<and> (after = [] \<or> \<not> token_char (hd after)))"

lemma HasPrefix_split: "HasPrefix s a \<longleftrightarrow> (\<exists>after. s = a @ after)"
  by (auto simp: HasPrefix_def) (metis append_take_drop_id)

lemma ownedAddress_iff:
  assumes "[] \<notin> set addrs"
  shows "ownedAddress addrs b data \<longleftrightarrow> (\<exists>before a after. data = before @ a @ after \<and> a \<in> set addrs \<and>
     (if before = [] then b else \<not> dotted (last before)) \<and> address_ends after)"
proof (induction data arbitrary: b)
  case Nil
  then show ?case using assms by auto
next
  case (Cons ch s)
  have here: "list_ex (\<lambda>a. HasPrefix (ch # s) a \<and> address_ends (drop (length a) (ch # s))) addrs \<longleftrightarrow>
      (\<exists>a after. ch # s = a @ after \<and> a \<in> set addrs \<and> address_ends after)"
    by (auto simp: list_ex_iff HasPrefix_split) force+
  show ?case
  proof
    assume "ownedAddress addrs b (ch # s)"
    then consider "b" "\<exists>a after. ch # s = a @ after \<and> a \<in> set addrs \<and> address_ends after"
      | "ownedAddress addrs (\<not> dotted ch) s" using here by auto
    then show "\<exists>before a after. ch # s = before @ a @ after \<and> a \<in> set addrs \<and>
      (if before = [] then b else \<not> dotted (last before)) \<and> address_ends after"
    proof cases
      case 1
      then show ?thesis by (metis append_Nil)
    next
      case 2
      then obtain before a after where "s = before @ a @ after" "a \<in> set addrs"
        "if before = [] then \<not> dotted ch else \<not> dotted (last before)" "address_ends after"
        unfolding Cons.IH by blast
      then show ?thesis by (intro exI [of _ "ch # before"] exI [of _ a] exI [of _ after]) (auto split: if_splits)
    qed
  next
    assume "\<exists>before a after. ch # s = before @ a @ after \<and> a \<in> set addrs \<and>
      (if before = [] then b else \<not> dotted (last before)) \<and> address_ends after"
    then obtain before a after where occ: "ch # s = before @ a @ after" "a \<in> set addrs"
      "if before = [] then b else \<not> dotted (last before)" "address_ends after" by blast
    show "ownedAddress addrs b (ch # s)"
    proof (cases before)
      case Nil
      then have "b" "\<exists>a after. ch # s = a @ after \<and> a \<in> set addrs \<and> address_ends after" using occ by auto
      then show ?thesis using here by (simp only: ownedAddress.simps simp_thms)
    next
      case (Cons x before')
      then have "ownedAddress addrs (\<not> dotted ch) s"
        unfolding Cons.IH using occ by (intro exI [of _ before'] exI [of _ a] exI [of _ after]) (auto split: if_splits)
      then show ?thesis by simp
    qed
  qed
qed

lemma word_at_separator:
  assumes "list_all token_char cur" "\<not> token_char ch" "word \<noteq> []" "list_all token_char word"
  shows "mentions_word word (cur @ ch # s) \<longleftrightarrow> word = cur \<or> mentions_word word s"
proof
  assume "mentions_word word (cur @ ch # s)"
  then obtain before after where occ: "cur @ ch # s = before @ word @ after" "before = [] \<or> \<not> token_char (last before)"
    "after = [] \<or> \<not> token_char (hd after)" by (auto simp: mentions_word_def)
  from occ(1) consider us where "cur = before @ us" "us @ ch # s = word @ after" | us where "cur @ us = before" "ch # s = us @ word @ after"
    by (auto simp: append_eq_append_conv2)
  then show "word = cur \<or> mentions_word word s"
  proof cases
    case (1 us)
    then have "before = []" using occ(2) assms(1) by (cases before rule: rev_cases) auto
    moreover from 1(2) have "us = word"
      using occ(3) assms 1(1)
      by (auto simp: append_eq_append_conv2 append_eq_Cons_conv Cons_eq_append_conv list_all_iff hd_append
          split: if_splits dest: hd_in_set)
    ultimately show ?thesis using 1 by simp
  next
    case (2 us)
    then have "us \<noteq> []" using assms(2-4) by (cases word) auto
    then obtain us' where us: "us = ch # us'" "s = us' @ word @ after" using 2(2) by (cases us) auto
    then have "us' = [] \<or> \<not> token_char (last us')" using occ(2) 2(1) by (cases us' rule: rev_cases) auto
    then show ?thesis using us occ(3) by (auto simp: mentions_word_def)
  qed
next
  assume "word = cur \<or> mentions_word word s"
  then show "mentions_word word (cur @ ch # s)"
  proof
    assume "word = cur"
    then show ?thesis unfolding mentions_word_def using assms(2) by (intro exI [of _ "[]"] exI [of _ "ch # s"]) simp
  next
    assume "mentions_word word s"
    then obtain before after where occ: "s = before @ word @ after" "before = [] \<or> \<not> token_char (last before)"
      "after = [] \<or> \<not> token_char (hd after)" by (auto simp: mentions_word_def)
    then show ?thesis
      unfolding mentions_word_def using assms(2) by (intro exI [of _ "cur @ ch # before"] exI [of _ after]) auto
  qed
qed

lemma FieldsFunc_word:
  assumes "word \<noteq> []" "list_all token_char word"
  shows "list_all token_char cur \<Longrightarrow> word \<in> set (FieldsFunc (\<lambda>ch. \<not> token_char ch) cur s) \<longleftrightarrow> mentions_word word (cur @ s)"
proof (induction s arbitrary: cur)
  case Nil
  have "mentions_word word cur \<longleftrightarrow> word = cur"
  proof
    assume "mentions_word word cur"
    then obtain before after where occ: "cur = before @ word @ after" "before = [] \<or> \<not> token_char (last before)"
      "after = [] \<or> \<not> token_char (hd after)" by (auto simp: mentions_word_def)
    then have "before = []" using Nil by (cases before rule: rev_cases) auto
    moreover have "after = []" using occ Nil by (cases after) auto
    ultimately show "word = cur" using occ by simp
  next
    assume "word = cur"
    then show "mentions_word word cur" unfolding mentions_word_def by (intro exI [of _ "[]"]) simp
  qed
  then show ?case using assms by auto
next
  case (Cons ch s)
  show ?case
  proof (cases "token_char ch")
    case True
    then show ?thesis using Cons.IH [of "cur @ [ch]"] Cons.prems by simp
  next
    case False
    then show ?thesis using Cons.IH [of "[]"] word_at_separator [OF Cons.prems False assms] assms(1) by auto
  qed
qed

lemma mentions_address_owned: "[] \<notin> set addrs \<Longrightarrow> mentions_address addrs data \<longleftrightarrow> ownedAddress addrs True data"
  unfolding ownedAddress_iff mentions_address_def by (metis (full_types))

text \<open>A clean answer: a text without the addresses and without the device.\<close>

definition clean_answer :: "string list \<Rightarrow> string \<Rightarrow> net_answer \<Rightarrow> bool" where
  "clean_answer addrs tap a \<longleftrightarrow> (\<exists>data. naOutput a = Inr data \<and> \<not> mentions_address addrs data \<and> \<not> mentions_word tap data)"

lemma decimal_nonempty: "decimal n \<noteq> []"
  by (subst decimal.simps) simp

lemma prefix_addresses_nonempty: "[] \<notin> set (prefix_addresses ip bits)"
  by (auto simp: prefix_addresses_def Let_def ip_string_def)

lemma no_residual_clean:
  assumes "no_residual (prefix_addresses ip bits) tap data = Inr ()" "tap \<noteq> []" "list_all token_char tap"
  shows "\<not> mentions_address (prefix_addresses ip bits) data \<and> \<not> mentions_word tap data"
proof -
  have "\<not> ownedAddress (prefix_addresses ip bits) True data" "tap \<notin> set (FieldsFunc (\<lambda>ch. \<not> token_char ch) [] data)"
    using assms(1) by (auto simp: no_residual_def bindR_Inr_iff failIf_def split: if_splits)
  then show ?thesis
    using FieldsFunc_word [OF assms(2,3), of "[]" data] mentions_address_owned [OF prefix_addresses_nonempty] by simp
qed

lemma wp_ask: "wp (askN w sel) Q E = (\<lambda>s. Q (sel (w (nsStep s))) (s\<lparr>nsStep := Suc (nsStep s)\<rparr>))"
  by (simp add: fun_eq_iff wp_def askN_def)

lemma wp_check_queries:
  assumes "tap \<noteq> []" "list_all token_char tap"
  shows "wp (check_queries nc w (prefix_addresses ip bits) tap qs)
    (\<lambda>_ s'. nsFiles s' = nsFiles s \<and> (\<forall>k < length qs. clean_answer (prefix_addresses ip bits) tap (w (nsStep s + k))))
    (\<lambda>_ _. True) s"
proof (induction qs arbitrary: s)
  case (Cons cmd qs)
  let ?s = "s\<lparr>nsStep := Suc (nsStep s)\<rparr>"
  have rest: "wp (check_queries nc w (prefix_addresses ip bits) tap qs)
    (\<lambda>_ s'. nsFiles s' = nsFiles s \<and> (\<forall>k < length (cmd # qs). clean_answer (prefix_addresses ip bits) tap (w (nsStep s + k))))
    (\<lambda>_ _. True) ?s" if "clean_answer (prefix_addresses ip bits) tap (w (nsStep s))"
    by (rule wp_mono [OF Cons.IH [of ?s]]) (use that in \<open>auto simp: less_Suc_eq_0_disj\<close>)
  have "clean_answer (prefix_addresses ip bits) tap (w (nsStep s))"
    if "naOutput (w (nsStep s)) = Inr data" "no_residual (prefix_addresses ip bits) tap data = Inr ()" for data
    using no_residual_clean [OF that(2) assms] that(1) by (auto simp: clean_answer_def)
  then show ?case
    using rest by (auto simp: outputN_def wp_simps wp_ask split: sum.split)
qed (simp add: wp_simps)

definition verified_at :: "net_world \<Rightarrow> nat \<Rightarrow> 'm NetCleanupRequest_scheme \<Rightarrow> bool" where
  "verified_at w n q \<longleftrightarrow> (case ParsePrefix4 (nrNetworkCIDR q) of
     None \<Rightarrow> False
   | Some (ip, bits) \<Rightarrow> bits \<ge> 30 \<and>
       (\<forall>k < length queries. clean_answer (prefix_addresses ip bits) (nrTapDevice q) (w (n + k))))"

lemma wp_verify:
  assumes "nrTapDevice q \<noteq> []" "list_all token_char (nrTapDevice q)"
  shows "wp (verifyNetworkAbsent nc w q) (\<lambda>_ s'. nsFiles s' = nsFiles s \<and> verified_at w (nsStep s) q) (\<lambda>_ _. True) s"
  using wp_check_queries [OF assms] by (auto simp: verifyNetworkAbsent_def verified_at_def wp_simps split: option.split)

lemma framed_wp:
  assumes "framed cmds files m" "nsFiles s \<in> files" "\<And>x s'. nsFiles s' \<in> files \<Longrightarrow> Q x s'" "\<And>e s'. E e s'"
  shows "wp m Q E s"
proof -
  obtain r s' where m: "m s = (r, s')" by fastforce
  then have "nsFiles s' \<in> files" using assms(1,2) by (auto simp: framed_def grows_def dest: spec [of _ s])
  then show ?thesis using assms(3,4) by (cases r) (simp_all add: wp_def m)
qed

lemma wp_file:
  "(\<And>s'. nsFiles s' = nsFiles s \<Longrightarrow> Q () s') \<Longrightarrow> (\<And>e s'. E e s') \<Longrightarrow> wp (fileN w) Q E s"
  by (simp add: fileN_def wp_simps wp_ask split: option.split)

lemma wp_look:
  "(\<And>x. f s = Inr x \<Longrightarrow> Q x s) \<Longrightarrow> (\<And>e. E e s) \<Longrightarrow> wp (\<lambda>s. (f s, s)) Q E s"
  by (simp add: wp_def split: sum.split)

lemma wp_writeDeletion:
  assumes "\<And>s'. nsFiles s' = (nsFiles s)(nrInstanceID (ndRequest d) \<mapsto> Record d) \<Longrightarrow> Q () s'" "\<And>e s'. E e s'"
  shows "wp (writeDeletion w d) Q E s"
  unfolding writeDeletion_def wp_bind wp_ask
  using assms by (auto simp: wp_def Let_def split: write_fate.split)

lemma ifaceName_word: "ifaceName s \<Longrightarrow> s \<noteq> [] \<and> list_all token_char s"
  by (auto simp: ifaceName_def token_char_def list_all_iff)

definition finalized :: "net_world \<Rightarrow> FinalizeRequest \<Rightarrow> net_state \<Rightarrow> net_state \<Rightarrow> bool" where
  "finalized w q s s' \<longleftrightarrow> (\<exists>d. nsFiles s' (nrInstanceID q) = Some (Record d) \<and> ndDone d \<and>
     ndRequest d = q\<lparr>nrOutboundInterface := nrOutboundInterface (ndRequest d)\<rparr> \<and>
     (nsFiles s (nrInstanceID q) = Some (Record d) \<or> (\<exists>n. verified_at w n q)))"

lemma stored_done:
  assumes "stored_deletion nc q f = Inr None"
  obtains d where "f = Some (Record d)" "ndDone d" "ndRequest d = q\<lparr>nrOutboundInterface := nrOutboundInterface (ndRequest d)\<rparr>"
  using assms by (auto simp: stored_deletion_def Let_def bindR_Inr_iff failIf_def split: if_splits option.splits deletion_file.splits)

lemma stored_todo:
  assumes "stored_deletion nc q f = Inr (Some q')"
  shows "q' = q\<lparr>nrOutboundInterface := nrOutboundInterface q'\<rparr>"
  using assms by (auto simp: stored_deletion_def Let_def bindR_Inr_iff failIf_def split: if_splits option.splits deletion_file.splits)

lemma wp_finalize:
  assumes tap: "nrTapDevice q \<noteq> []" "list_all token_char (nrTapDevice q)"
  shows "wp (finalize nc w q) (\<lambda>_. finalized w q s) (\<lambda>_ _. True) s"
proof -
  have rest: "wp (bindA (writeDeletion w \<lparr>ndRequest = q', ndDone = False\<rparr>) (\<lambda>_.
       bindA (cleanupNetwork w q') (\<lambda>_.
       bindA (verifyNetworkAbsent nc w q') (\<lambda>_.
       writeDeletion w \<lparr>ndRequest = q', ndDone = True\<rparr>)))) (\<lambda>_. finalized w q s) (\<lambda>_ _. True) s1"
    if q': "q' = q\<lparr>nrOutboundInterface := nrOutboundInterface q'\<rparr>" for q' s1
  proof -
    have same: "nrInstanceID q' = nrInstanceID q" "nrTapDevice q' = nrTapDevice q" "nrNetworkCIDR q' = nrNetworkCIDR q"
      by (subst q'; simp)+
    have ver: "verified_at w n q' = verified_at w n q" for n unfolding verified_at_def same ..
    have last_write: "wp (writeDeletion w \<lparr>ndRequest = q', ndDone = True\<rparr>) (\<lambda>_. finalized w q s) (\<lambda>_ _. True) s2"
      if "verified_at w n q'" for n s2
      by (rule wp_writeDeletion) (use that q' same in \<open>auto simp: finalized_def ver\<close>)
    have verified: "wp (verifyNetworkAbsent nc w q') (\<lambda>_. wp (writeDeletion w \<lparr>ndRequest = q', ndDone = True\<rparr>)
        (\<lambda>_. finalized w q s) (\<lambda>_ _. True)) (\<lambda>_ _. True) s2" for s2
      by (rule wp_mono [OF wp_verify]) (use tap same last_write in auto)
    show ?thesis
      unfolding wp_bind
      by (rule wp_writeDeletion, rule framed_wp [OF framed_cleanup [of _ UNIV UNIV]]) (simp_all add: verified)
  qed
  have cases: "wp (case todo of None \<Rightarrow> fileN w | Some q \<Rightarrow>
       bindA (liftR (failIf (nrOutboundInterface q = []) (ErrMsg ''initial network finalization requires an outbound interface''))) (\<lambda>_.
       bindA (writeDeletion w \<lparr>ndRequest = q, ndDone = False\<rparr>) (\<lambda>_.
       bindA (cleanupNetwork w q) (\<lambda>_.
       bindA (verifyNetworkAbsent nc w q) (\<lambda>_.
       writeDeletion w \<lparr>ndRequest = q, ndDone = True\<rparr>))))) (\<lambda>_. finalized w q s) (\<lambda>_ _. True) s1"
    if todo: "stored_deletion nc q (nsFiles s1 (nrInstanceID q)) = Inr todo" and s1: "nsFiles s1 = nsFiles s" for todo s1
  proof (cases todo)
    case None
    then obtain d where d: "nsFiles s (nrInstanceID q) = Some (Record d)" "ndDone d"
      "ndRequest d = q\<lparr>nrOutboundInterface := nrOutboundInterface (ndRequest d)\<rparr>"
      using todo s1 stored_done by metis
    then have "finalized w q s s2" if "nsFiles s2 = nsFiles s" for s2 using that by (auto simp: finalized_def)
    then show ?thesis
      unfolding None option.case by (rule wp_file) (simp_all add: s1)
  next
    case (Some q')
    then show ?thesis using rest [OF stored_todo] todo by (auto simp: wp_simps split: sum.split)
  qed
  show ?thesis
    unfolding finalize_def wp_bind [of "fileN _"] wp_bind [of "\<lambda>s. (stored_deletion _ _ (nsFiles s _), s)"]
    by (rule wp_file, rule wp_file, rule wp_look) (simp_all add: cases)
qed

theorem network_deletion_permanent_witness:
  "ran_for net_id net_ex_codec net_ex_world ''srv'' [SetupCall True net_ex_setup, FinalizeCall net_ex_request] net_ex_done = []"
proof -
  have tap: "nrTapDevice net_ex_request \<noteq> []" "list_all token_char (nrTapDevice net_ex_request)" by code_simp+
  have "finalize net_ex_codec net_ex_world net_ex_request net_ex_start = (Inr (), net_ex_done)"
    using net_ex_finalizes by (simp add: handleFinalize_def bindA_def liftR_def net_ex_checks)
  from wp_result [OF wp_finalize [OF tap] this]
  obtain d where "nsFiles net_ex_done (nrInstanceID net_ex_request) = Some (Record d)" "ndDone d"
    unfolding finalized_def by blast
  then have d: "nsFiles net_ex_done net_id = Some (Record d)" "ndDone d" by (simp_all add: net_ex_request_def)
  have "net_id \<noteq> []" by (simp add: net_id_def)
  from network_deletion_permanent [OF d(1) this] d(2) show ?thesis by (simp del: ran_for.simps)
qed



end
