(* ===== verification/DiskLayout.thy ===== *)
theory DiskLayout
  imports Model Effects
begin

section \<open>The migration of an instance's disk\<close>

text \<open>
  \<open>ensureDiskLayout\<close> of src/internal/provision/disk.go: before a start, the disk of an instance is moved
  from a file in the instance directory into a subvolume of its own. The move can be interrupted at
  any point and is continued by the next call from a journal file.

  The state is what survives an interruption: the files of the instance directory and the stored
  instance. Every call of the operating system takes an answer from an arbitrary sequence; it may fail
  before its effect or after it, and an interrupted copy may leave anything. \<open>dwSub\<close>, \<open>dwContaining\<close> and
  \<open>dwLoops\<close> are what the storage tools report.
\<close>

subsection \<open>State\<close>

record SubvolumeIdentity =
  siUUID :: string
  siID :: string
  siParentUUID :: string
  siReceivedUUID :: string

record diskMigration =
  dmVersion :: int
  dmOperation :: string
  dmInstanceID :: string
  dmSubvolume :: SubvolumeIdentity
  dmLegacySubvolume :: SubvolumeIdentity
  dmLegacyInode :: nat
  dmReady :: bool

datatype journal_file = Journal diskMigration | Undecodable error

text \<open>A subvolume holds nothing or one file.\<close>

record subvolume =
  svIdentity :: SubvolumeIdentity
  svRootFS :: "string option"

record disk_state =
  dsLegacy :: "(nat \<times> string) option"
  dsStages :: "(string \<times> subvolume) list"
  dsDisk :: "subvolume option"
  dsJournal :: "journal_file option"
  dsInst :: Instance
  dsStep :: nat

record disk_answer =
  dwErr :: "error option"
  dwLate :: "error option"
  dwOp :: string
  dwNow :: time
  dwSub :: SubvolumeIdentity
  dwContaining :: SubvolumeIdentity
  dwLoops :: string
  dwPart :: "string option"

type_synonym disk_world = "nat \<Rightarrow> disk_answer"
type_synonym 'a disk_act = "('a, disk_state) act"

definition askD :: "disk_world \<Rightarrow> disk_answer disk_act" where
  "askD w s = (Inr (w (dsStep s)), s\<lparr>dsStep := Suc (dsStep s)\<rparr>)"

text \<open>A call that only reads, and one with an effect.\<close>

definition callD :: "disk_world \<Rightarrow> disk_answer disk_act" where
  "callD w = bindA (askD w) (\<lambda>a. case dwErr a of Some e \<Rightarrow> failA e | None \<Rightarrow> retA a)"

definition effectD :: "disk_world \<Rightarrow> (disk_answer \<Rightarrow> disk_state \<Rightarrow> disk_state) \<Rightarrow> unit disk_act" where
  "effectD w f = bindA (callD w) (\<lambda>a s. ((case dwLate a of Some e \<Rightarrow> Inl e | None \<Rightarrow> Inr ()), f a s))"

definition lookD :: "(disk_state \<Rightarrow> 'a) \<Rightarrow> 'a disk_act" where
  "lookD f s = (Inr (f s), s)"

definition checkD :: "bool \<Rightarrow> string \<Rightarrow> unit disk_act" where
  "checkD bad msg = liftR (failIf bad (ErrMsg msg))"

subsection \<open>Paths\<close>

definition legacy_path :: "string \<Rightarrow> string" where
  "legacy_path dir = dir @ ''/rootfs.img''"

definition canonical_path :: "string \<Rightarrow> string" where
  "canonical_path dir = dir @ ''/disk/rootfs.img''"

definition put_stage :: "string \<Rightarrow> subvolume \<Rightarrow> (string \<times> subvolume) list \<Rightarrow> (string \<times> subvolume) list" where
  "put_stage op sv stages = (op, sv) # filter (\<lambda>(o', _). o' \<noteq> op) stages"

definition absent_file :: "disk_world \<Rightarrow> (disk_state \<Rightarrow> bool) \<Rightarrow> unit disk_act" where
  "absent_file w present =
     bindA (callD w) (\<lambda>_.
     bindA (lookD present) (\<lambda>p. checkD p ''cleanup path present or unreadable''))"

definition writeDiskJournal :: "disk_world \<Rightarrow> diskMigration \<Rightarrow> unit disk_act" where
  "writeDiskJournal w j = effectD w (\<lambda>_ s. s\<lparr>dsJournal := Some (Journal j)\<rparr>)"

definition ValidateDiskSubvolume :: "disk_world \<Rightarrow> unit disk_act" where
  "ValidateDiskSubvolume w =
     bindA (callD w) (\<lambda>_.
     bindA (lookD dsDisk) (\<lambda>disk. case disk of
       None \<Rightarrow> failA ErrNotExist
     | Some sv \<Rightarrow> case svRootFS sv of
         None \<Rightarrow> failA (ErrMsg ''disk subvolume must contain only rootfs.img'')
       | Some content \<Rightarrow> checkD (content = []) ''disk rootfs must be a nonempty regular file''))"

subsection \<open>The steps of a call\<close>

text \<open>Nothing to do: no journal, and the stored path is the canonical one.\<close>

definition layout_settled :: "disk_world \<Rightarrow> unit disk_act" where
  "layout_settled w =
     bindA (callD w) (\<lambda>_.
     bindA (lookD dsStages) (\<lambda>stages.
     bindA (checkD (stages \<noteq> []) ''unresolved disk migration stage'') (\<lambda>_.
     bindA (absent_file w (\<lambda>s. dsLegacy s \<noteq> None)) (\<lambda>_.
     bindA (ValidateDiskSubvolume w) (\<lambda>_.
     bindA (callD w) (\<lambda>_. retA ()))))))"

text \<open>The instance is stopped and the runner vouches for it; \<open>callD\<close> is the call to the runner.\<close>

definition layout_guard :: "disk_world \<Rightarrow> Instance \<Rightarrow> unit disk_act" where
  "layout_guard w inst =
     bindA (checkD (iState inst \<noteq> StateStopped \<or> iFirecrackerPID inst \<noteq> 0)
       ''disk migration requires a definitely stopped instance'') (\<lambda>_.
     bindA (checkD ((iStartRequestID inst = []) \<noteq> (iStartBootID inst = []))
       ''disk migration has partial runtime identity'') (\<lambda>_.
     bindA (callD w) (\<lambda>_. retA ())))"

definition stored_journal :: "(string \<Rightarrow> bool) \<Rightarrow> Instance \<Rightarrow> journal_file \<Rightarrow> diskMigration result" where
  "stored_journal uuid inst f =
     (case f of
       Undecodable e \<Rightarrow> Inl e
     | Journal j \<Rightarrow>
       bindR (failIf (dmVersion j \<noteq> 1 \<or> dmInstanceID j \<noteq> iID inst) (ErrMsg ''disk migration instance identity mismatch'')) (\<lambda>_.
       bindR (failIf (siUUID (dmLegacySubvolume j) = [] \<or> siID (dmLegacySubvolume j) = [] \<or> dmLegacyInode j = 0)
         (ErrMsg ''disk migration lacks persistent legacy identity; operator inspection required'')) (\<lambda>_.
       bindR (failIf (\<not> uuid (dmOperation j)) (ErrMsg ''invalid disk migration operation'')) (\<lambda>_. Inr j))))"

definition new_journal :: "disk_world \<Rightarrow> string \<Rightarrow> Instance \<Rightarrow> diskMigration disk_act" where
  "new_journal w dir inst =
     bindA (checkD (iRootFSPath inst \<noteq> legacy_path dir) ''unrecognized instance disk layout'') (\<lambda>_.
     bindA (absent_file w (\<lambda>s. dsDisk s \<noteq> None)) (\<lambda>_.
     bindA (callD w) (\<lambda>_.
     bindA (lookD dsLegacy) (\<lambda>legacy. case legacy of
       None \<Rightarrow> failA ErrNotExist
     | Some (inode, _) \<Rightarrow>
       bindA (callD w) (\<lambda>a.
       bindA (checkD (siUUID (dwContaining a) = [] \<or> siID (dwContaining a) = [])
         ''legacy disk lacks persistent subvolume identity'') (\<lambda>_.
       let j = \<lparr>dmVersion = 1, dmOperation = dwOp a, dmInstanceID = iID inst,
                dmSubvolume = \<lparr>siUUID = [], siID = [], siParentUUID = [], siReceivedUUID = []\<rparr>, dmLegacySubvolume = dwContaining a,
                dmLegacyInode = inode, dmReady = False\<rparr>
       in bindA (writeDiskJournal w j) (\<lambda>_. retA j)))))))"

definition check_legacy :: "disk_world \<Rightarrow> string \<Rightarrow> Instance \<Rightarrow> diskMigration \<Rightarrow> unit disk_act" where
  "check_legacy w dir inst j =
     bindA (callD w) (\<lambda>_.
     bindA (lookD dsLegacy) (\<lambda>legacy. case legacy of
       Some (inode, _) \<Rightarrow>
         bindA (checkD (inode \<noteq> dmLegacyInode j) ''legacy disk identity changed'') (\<lambda>_.
         bindA (callD w) (\<lambda>a.
         bindA (checkD (siUUID (dwContaining a) \<noteq> siUUID (dmLegacySubvolume j) \<or> siID (dwContaining a) \<noteq> siID (dmLegacySubvolume j))
           ''legacy disk subvolume identity changed'') (\<lambda>_.
         bindA (callD w) (\<lambda>a.
         checkD (TrimSpace (dwLoops a) \<noteq> []) ''legacy disk is attached to a loop device; refusing migration''))))
     | None \<Rightarrow> checkD (iRootFSPath inst \<noteq> canonical_path dir \<or> \<not> dmReady j) ''legacy disk unavailable before commit''))"

definition stage_identity :: "disk_world \<Rightarrow> string \<Rightarrow> Instance \<Rightarrow> diskMigration \<Rightarrow> diskMigration disk_act" where
  "stage_identity w dir inst j =
     (if siUUID (dmSubvolume j) \<noteq> [] then retA j
      else
        bindA (checkD (iRootFSPath inst \<noteq> legacy_path dir) ''migration identity missing after database commit'') (\<lambda>_.
        bindA (absent_file w (\<lambda>s. dsDisk s \<noteq> None)) (\<lambda>_.
        bindA (callD w) (\<lambda>_.
        bindA (lookD (\<lambda>s. map_of (dsStages s) (dmOperation j))) (\<lambda>stage.
        bindA (if stage = None
          then effectD w (\<lambda>a s. s\<lparr>dsStages := put_stage (dmOperation j) \<lparr>svIdentity = dwSub a, svRootFS = None\<rparr> (dsStages s)\<rparr>)
          else retA ()) (\<lambda>_.
        bindA (callD w) (\<lambda>_.
        bindA (lookD (\<lambda>s. map_of (dsStages s) (dmOperation j))) (\<lambda>stage. case stage of
          None \<Rightarrow> failA ErrNotExist
        | Some sv \<Rightarrow>
          bindA (checkD (svRootFS sv \<noteq> None) ''unidentified migration stage contains data; operator inspection required'') (\<lambda>_.
          bindA (callD w) (\<lambda>_.
          let j = j\<lparr>dmSubvolume := svIdentity sv\<rparr>
          in bindA (writeDiskJournal w j) (\<lambda>_. retA j)))))))))))"

text \<open>Filling the stage: the old copy is removed, the disk is copied, synced and the journal marked.\<close>

definition set_stage_file :: "string \<Rightarrow> string option \<Rightarrow> disk_state \<Rightarrow> disk_state" where
  "set_stage_file op content s =
     (case map_of (dsStages s) op of
       None \<Rightarrow> s
     | Some sv \<Rightarrow> s\<lparr>dsStages := put_stage op (sv\<lparr>svRootFS := content\<rparr>) (dsStages s)\<rparr>)"

definition clone_legacy :: "disk_world \<Rightarrow> string \<Rightarrow> unit disk_act" where
  "clone_legacy w op =
     bindA (askD w) (\<lambda>a.
     bindA (lookD dsLegacy) (\<lambda>legacy s.
     (case (legacy, dwErr a) of
       (Some (_, content), None) \<Rightarrow> (Inr (), set_stage_file op (Some content) s)
     | (_, Some e) \<Rightarrow> (Inl e, set_stage_file op (dwPart a) s)
     | (None, None) \<Rightarrow> (Inl ErrNotExist, s))))"

definition fill_stage :: "disk_world \<Rightarrow> diskMigration \<Rightarrow> unit disk_act" where
  "fill_stage w j =
     (if dmReady j then retA ()
      else
        bindA (effectD w (\<lambda>_. set_stage_file (dmOperation j) None)) (\<lambda>_.
        bindA (clone_legacy w (dmOperation j)) (\<lambda>_.
        bindA (callD w) (\<lambda>_.
        bindA (callD w) (\<lambda>_.
        writeDiskJournal w (j\<lparr>dmReady := True\<rparr>))))))"

definition rename_stage :: "string \<Rightarrow> disk_state \<Rightarrow> disk_state" where
  "rename_stage op s = s\<lparr>dsDisk := map_of (dsStages s) op, dsStages := filter (\<lambda>(o', _). o' \<noteq> op) (dsStages s)\<rparr>"

definition publish :: "disk_world \<Rightarrow> diskMigration \<Rightarrow> unit disk_act" where
  "publish w j =
     bindA (callD w) (\<lambda>_.
     bindA (lookD dsDisk) (\<lambda>disk.
     bindA (callD w) (\<lambda>_.
     bindA (lookD (\<lambda>s. map_of (dsStages s) (dmOperation j))) (\<lambda>stage.
     case (if disk \<noteq> None then disk else stage) of
       None \<Rightarrow> failA ErrNotExist
     | Some sv \<Rightarrow>
       bindA (checkD (siUUID (svIdentity sv) \<noteq> siUUID (dmSubvolume j) \<or> siID (svIdentity sv) \<noteq> siID (dmSubvolume j))
         ''disk migration subvolume identity mismatch'') (\<lambda>_.
       if disk \<noteq> None then
         bindA (checkD (\<not> dmReady j) ''disk was published before staging completed'') (\<lambda>_.
         absent_file w (\<lambda>s. map_of (dsStages s) (dmOperation j) \<noteq> None))
       else
         bindA (fill_stage w j) (\<lambda>_.
         bindA (effectD w (\<lambda>_. rename_stage (dmOperation j))) (\<lambda>_.
         bindA (callD w) (\<lambda>_. retA ()))))))))"

definition commit_layout :: "disk_world \<Rightarrow> string \<Rightarrow> Instance \<Rightarrow> unit disk_act" where
  "commit_layout w dir inst =
     bindA (ValidateDiskSubvolume w) (\<lambda>_.
     bindA (if iRootFSPath inst \<noteq> canonical_path dir
       then effectD w (\<lambda>a s. s\<lparr>dsInst := inst\<lparr>iRootFSPath := canonical_path dir, iUpdatedAt := dwNow a\<rparr>\<rparr>)
       else retA ()) (\<lambda>_.
     bindA (effectD w (\<lambda>_ s. s\<lparr>dsLegacy := None\<rparr>)) (\<lambda>_.
     bindA (callD w) (\<lambda>_.
     bindA (effectD w (\<lambda>_ s. s\<lparr>dsJournal := None\<rparr>)) (\<lambda>_.
     bindA (callD w) (\<lambda>_. retA ()))))))"

definition migrate_layout :: "(string \<Rightarrow> bool) \<Rightarrow> disk_world \<Rightarrow> string \<Rightarrow> Instance \<Rightarrow> unit disk_act" where
  "migrate_layout uuid w dir inst =
     bindA (layout_guard w inst) (\<lambda>_.
     bindA (lookD dsJournal) (\<lambda>journal.
     bindA (case journal of Some f \<Rightarrow> liftR (stored_journal uuid inst f) | None \<Rightarrow> new_journal w dir inst) (\<lambda>j.
     bindA (checkD (iRootFSPath inst \<noteq> legacy_path dir \<and> iRootFSPath inst \<noteq> canonical_path dir)
       ''database disk path conflicts with migration'') (\<lambda>_.
     bindA (check_legacy w dir inst j) (\<lambda>_.
     bindA (stage_identity w dir inst j) (\<lambda>j.
     bindA (publish w j) (\<lambda>_.
     commit_layout w dir inst)))))))"

text \<open>The four calls at the start are the test of the cold store, the two checks of paths and the reading of the
  journal.\<close>

definition ensureDiskLayout_full :: "(string \<Rightarrow> bool) \<Rightarrow> disk_world \<Rightarrow> string \<Rightarrow> unit disk_act" where
  "ensureDiskLayout_full uuid w dir =
     bindA (lookD dsInst) (\<lambda>inst.
     bindA (callD w) (\<lambda>_.
     bindA (callD w) (\<lambda>_.
     bindA (callD w) (\<lambda>_.
     bindA (callD w) (\<lambda>_.
     bindA (lookD dsJournal) (\<lambda>journal.
     if journal = None \<and> iRootFSPath inst = canonical_path dir then layout_settled w
     else migrate_layout uuid w dir inst))))))"

end
