(* ===== verification/DiskLayoutProofs.thy ===== *)
theory DiskLayoutProofs
  imports DiskLayout
begin

section \<open>The migration never loses the disk\<close>

text \<open>
  The abstract disk of an instance is one content that a migration does not change. Every state that
  an interrupted migration can leave represents it, and a call that meets no fault finishes the
  migration from each of them.
\<close>

subsection \<open>Faults\<close>

definition faulty :: "disk_world \<Rightarrow> bool" where
  "faulty w \<longleftrightarrow> (\<exists>k. dwErr (w k) \<noteq> None \<or> dwLate (w k) \<noteq> None \<or> TrimSpace (dwLoops (w k)) \<noteq> [])"

text \<open>What the tools report truly: the subvolume that contains the instance directory is \<open>c\<close>, generated
  operation names are well formed and a new subvolume has an identity.\<close>

definition honest :: "(string \<Rightarrow> bool) \<Rightarrow> SubvolumeIdentity \<Rightarrow> disk_world \<Rightarrow> bool" where
  "honest uuid c w \<longleftrightarrow> siUUID c \<noteq> [] \<and> siID c \<noteq> [] \<and>
     (\<forall>k. dwContaining (w k) = c \<and> uuid (dwOp (w k)) \<and> siUUID (dwSub (w k)) \<noteq> [])"

lemma wp_lookD [wp_simps]: "wp (lookD f) Q E = (\<lambda>s. Q (f s) s)"
  by (simp add: fun_eq_iff wp_def lookD_def)

lemma wp_checkD [wp_simps]: "wp (checkD bad msg) Q E = (if bad then E (ErrMsg msg) else Q ())"
  by (simp add: checkD_def wp_lift failIf_def)

lemma wp_callD:
  assumes "\<And>a k. a \<in> range w \<Longrightarrow> dwErr a = None \<Longrightarrow> Q a (s\<lparr>dsStep := k\<rparr>)" "\<And>e k. faulty w \<Longrightarrow> E e (s\<lparr>dsStep := k\<rparr>)"
  shows "wp (callD w) Q E s"
proof -
  have "faulty w" if "dwErr (w k) = Some e" for k e using that by (force simp: faulty_def)
  then show ?thesis using assms by (auto simp: callD_def wp_simps wp_def askD_def bindA_def retA_def failA_def split: option.split)
qed

lemma wp_effectD:
  assumes "\<And>a k. a \<in> range w \<Longrightarrow> Q () (f a (s\<lparr>dsStep := k\<rparr>))" "\<And>a e k. a \<in> range w \<Longrightarrow> faulty w \<Longrightarrow> E e (f a (s\<lparr>dsStep := k\<rparr>))"
    "\<And>e k. faulty w \<Longrightarrow> E e (s\<lparr>dsStep := k\<rparr>)"
  shows "wp (effectD w f) Q E s"
  unfolding effectD_def wp_bind
proof (rule wp_callD)
  fix a k assume a: "a \<in> range w"
  then have "faulty w" if "dwLate a = Some e" for e using that by (force simp: faulty_def)
  then show "wp (\<lambda>s. (case dwLate a of Some e \<Rightarrow> Inl e | None \<Rightarrow> Inr (), f a s)) Q E (s\<lparr>dsStep := k\<rparr>)"
    using assms(1,2) a by (auto simp: wp_def split: option.split)
qed (rule assms(3))

subsection \<open>The states of a migration\<close>

text \<open>The constants of one migration: its directory, the identity, inode and content of the old disk.\<close>

record migration_of =
  moDir :: string
  moID :: string
  moContaining :: SubvolumeIdentity
  moInode :: nat
  moContent :: string

definition old_disk :: "migration_of \<Rightarrow> disk_state \<Rightarrow> bool" where
  "old_disk mo s \<longleftrightarrow> dsLegacy s = Some (moInode mo, moContent mo)"

definition stopped_inst :: "migration_of \<Rightarrow> Instance \<Rightarrow> bool" where
  "stopped_inst mo inst \<longleftrightarrow> iID inst = moID mo \<and> iState inst = StateStopped \<and> iFirecrackerPID inst = 0 \<and>
     (iStartRequestID inst = [] \<longleftrightarrow> iStartBootID inst = [])"

definition journal_ok :: "(string \<Rightarrow> bool) \<Rightarrow> migration_of \<Rightarrow> diskMigration \<Rightarrow> bool" where
  "journal_ok uuid mo j \<longleftrightarrow> dmVersion j = 1 \<and> dmInstanceID j = moID mo \<and> dmLegacySubvolume j = moContaining mo \<and>
     dmLegacyInode j = moInode mo \<and> uuid (dmOperation j)"

definition untouched :: "migration_of \<Rightarrow> Instance \<Rightarrow> disk_state \<Rightarrow> bool" where
  "untouched mo inst s \<longleftrightarrow> dsInst s = inst \<and> dsJournal s = None \<and> iRootFSPath inst = legacy_path (moDir mo) \<and>
     old_disk mo s \<and> dsDisk s = None \<and> dsStages s = []"

definition reserved :: "(string \<Rightarrow> bool) \<Rightarrow> migration_of \<Rightarrow> Instance \<Rightarrow> diskMigration \<Rightarrow> disk_state \<Rightarrow> bool" where
  "reserved uuid mo inst j s \<longleftrightarrow> dsInst s = inst \<and> dsJournal s = Some (Journal j) \<and> journal_ok uuid mo j \<and>
     iRootFSPath inst = legacy_path (moDir mo) \<and> old_disk mo s \<and> dsDisk s = None \<and>
     siUUID (dmSubvolume j) = [] \<and> \<not> dmReady j \<and>
     (dsStages s = [] \<or> (\<exists>sv. dsStages s = [(dmOperation j, sv)] \<and> svRootFS sv = None \<and> siUUID (svIdentity sv) \<noteq> []))"

definition staged :: "(string \<Rightarrow> bool) \<Rightarrow> migration_of \<Rightarrow> Instance \<Rightarrow> diskMigration \<Rightarrow> disk_state \<Rightarrow> bool" where
  "staged uuid mo inst j s \<longleftrightarrow> dsInst s = inst \<and> dsJournal s = Some (Journal j) \<and> journal_ok uuid mo j \<and>
     iRootFSPath inst = legacy_path (moDir mo) \<and> old_disk mo s \<and> dsDisk s = None \<and> siUUID (dmSubvolume j) \<noteq> [] \<and>
     (\<exists>sv. dsStages s = [(dmOperation j, sv)] \<and> svIdentity sv = dmSubvolume j \<and>
       (dmReady j \<longrightarrow> svRootFS sv = Some (moContent mo)))"

definition new_disk :: "migration_of \<Rightarrow> disk_state \<Rightarrow> bool" where
  "new_disk mo s \<longleftrightarrow> dsStages s = [] \<and> (\<exists>sv. dsDisk s = Some sv \<and> svRootFS sv = Some (moContent mo))"

definition published :: "(string \<Rightarrow> bool) \<Rightarrow> migration_of \<Rightarrow> Instance \<Rightarrow> diskMigration \<Rightarrow> disk_state \<Rightarrow> bool" where
  "published uuid mo inst j s \<longleftrightarrow> dsInst s = inst \<and> dsJournal s = Some (Journal j) \<and> journal_ok uuid mo j \<and>
     siUUID (dmSubvolume j) \<noteq> [] \<and> dmReady j \<and> new_disk mo s \<and> map_option svIdentity (dsDisk s) = Some (dmSubvolume j) \<and>
     (iRootFSPath inst = legacy_path (moDir mo) \<and> old_disk mo s \<or>
      iRootFSPath inst = canonical_path (moDir mo) \<and> (old_disk mo s \<or> dsLegacy s = None))"

definition settled :: "migration_of \<Rightarrow> Instance \<Rightarrow> disk_state \<Rightarrow> bool" where
  "settled mo inst s \<longleftrightarrow> dsInst s = inst \<and> dsJournal s = None \<and> iRootFSPath inst = canonical_path (moDir mo) \<and>
     dsLegacy s = None \<and> new_disk mo s"

definition migrating :: "(string \<Rightarrow> bool) \<Rightarrow> migration_of \<Rightarrow> disk_state \<Rightarrow> bool" where
  "migrating uuid mo s \<longleftrightarrow> (\<exists>inst. stopped_inst mo inst \<and>
     (untouched mo inst s \<or> (\<exists>j. reserved uuid mo inst j s \<or> staged uuid mo inst j s \<or> published uuid mo inst j s) \<or>
      settled mo inst s))"

lemmas phase_defs = untouched_def reserved_def staged_def published_def settled_def old_disk_def new_disk_def

lemma phases_step [simp]:
  "untouched mo inst (s\<lparr>dsStep := k\<rparr>) = untouched mo inst s"
  "reserved uuid mo inst j (s\<lparr>dsStep := k\<rparr>) = reserved uuid mo inst j s"
  "staged uuid mo inst j (s\<lparr>dsStep := k\<rparr>) = staged uuid mo inst j s"
  "published uuid mo inst j (s\<lparr>dsStep := k\<rparr>) = published uuid mo inst j s"
  "settled mo inst (s\<lparr>dsStep := k\<rparr>) = settled mo inst s"
  "migrating uuid mo (s\<lparr>dsStep := k\<rparr>) = migrating uuid mo s"
  by (simp_all add: phase_defs migrating_def)

lemma paths_differ [simp]: "legacy_path dir \<noteq> canonical_path dir" "canonical_path dir \<noteq> legacy_path dir"
  by (simp_all add: legacy_path_def canonical_path_def)

text \<open>The abstract disk: the content at the stored path.\<close>

definition stored_disk :: "string \<Rightarrow> disk_state \<Rightarrow> string option" where
  "stored_disk dir s =
     (if iRootFSPath (dsInst s) = legacy_path dir then map_option snd (dsLegacy s)
      else if iRootFSPath (dsInst s) = canonical_path dir then Option.bind (dsDisk s) svRootFS
      else None)"

lemma migrating_disk: "migrating uuid mo s \<Longrightarrow> stored_disk (moDir mo) s = Some (moContent mo)"
  by (auto simp: migrating_def phase_defs stored_disk_def)

lemma settled_disk: "settled mo inst s \<Longrightarrow> iRootFSPath (dsInst s) = canonical_path (moDir mo)"
  by (simp add: settled_def)

subsection \<open>Each step of a call\<close>

definition good :: "(string \<Rightarrow> bool) \<Rightarrow> disk_world \<Rightarrow> migration_of \<Rightarrow> bool" where
  "good uuid w mo \<longleftrightarrow> honest uuid (moContaining mo) w \<and> moInode mo \<noteq> 0 \<and> moContent mo \<noteq> []"

text \<open>A call that fails met a fault and leaves a state of the migration.\<close>

definition interrupted :: "(string \<Rightarrow> bool) \<Rightarrow> disk_world \<Rightarrow> migration_of \<Rightarrow> error \<Rightarrow> disk_state \<Rightarrow> bool" where
  "interrupted uuid w mo e s \<longleftrightarrow> migrating uuid mo s \<and> faulty w"

lemma goodD:
  assumes "good uuid w mo" "a \<in> range w"
  shows "dwContaining a = moContaining mo" "uuid (dwOp a)" "siUUID (dwSub a) \<noteq> []"
  using assms by (auto simp: good_def honest_def)

lemma goodC: "good uuid w mo \<Longrightarrow> siUUID (moContaining mo) \<noteq> [] \<and> siID (moContaining mo) \<noteq> [] \<and> moInode mo \<noteq> 0 \<and> moContent mo \<noteq> []"
  by (auto simp: good_def honest_def)

lemma migratingI:
  "stopped_inst mo inst \<Longrightarrow> untouched mo inst s \<Longrightarrow> migrating uuid mo s"
  "stopped_inst mo inst \<Longrightarrow> reserved uuid mo inst j s \<Longrightarrow> migrating uuid mo s"
  "stopped_inst mo inst \<Longrightarrow> staged uuid mo inst j s \<Longrightarrow> migrating uuid mo s"
  "stopped_inst mo inst \<Longrightarrow> published uuid mo inst j s \<Longrightarrow> migrating uuid mo s"
  "stopped_inst mo inst \<Longrightarrow> settled mo inst s \<Longrightarrow> migrating uuid mo s"
  by (auto simp: migrating_def)

text \<open>A phase is a set of states of the migration that does not depend on the number of calls made.\<close>

definition phase :: "(string \<Rightarrow> bool) \<Rightarrow> migration_of \<Rightarrow> (disk_state \<Rightarrow> bool) \<Rightarrow> bool" where
  "phase uuid mo P \<longleftrightarrow> (\<forall>s k. P (s\<lparr>dsStep := k\<rparr>) = P s) \<and> (\<forall>s. P s \<longrightarrow> migrating uuid mo s)"

lemma phases:
  assumes "stopped_inst mo inst"
  shows "phase uuid mo (untouched mo inst)" "phase uuid mo (reserved uuid mo inst j)" "phase uuid mo (staged uuid mo inst j)"
    "phase uuid mo (published uuid mo inst j)" "phase uuid mo (settled mo inst)"
  using migratingI [OF assms] by (simp_all add: phase_def)

lemma phase_conj:
  "phase uuid mo P \<Longrightarrow> (\<And>s k. R (s\<lparr>dsStep := k\<rparr>) = R s) \<Longrightarrow> phase uuid mo (\<lambda>s. P s \<and> R s)"
  by (simp add: phase_def)

lemma step_call:
  assumes "phase uuid mo P" "P s" "\<And>a s'. a \<in> range w \<Longrightarrow> P s' \<Longrightarrow> wp (k a) Q (interrupted uuid w mo) s'"
  shows "wp (bindA (callD w) k) Q (interrupted uuid w mo) s"
  unfolding wp_bind by (rule wp_callD) (use assms in \<open>auto simp: phase_def interrupted_def\<close>)

lemma step_look: "wp (k (f s)) Q E s \<Longrightarrow> wp (bindA (lookD f) k) Q E s"
  by (simp add: wp_simps)

lemma step_check: "\<not> bad \<Longrightarrow> wp (k ()) Q E s \<Longrightarrow> wp (bindA (checkD bad msg) k) Q E s"
  by (simp add: wp_simps)

lemma step_effect:
  assumes "phase uuid mo P" "phase uuid mo P'" "P s" "\<And>a s'. a \<in> range w \<Longrightarrow> P s' \<Longrightarrow> P' (f a s')"
    "\<And>s'. P' s' \<Longrightarrow> wp (k ()) Q (interrupted uuid w mo) s'"
  shows "wp (bindA (effectD w f) k) Q (interrupted uuid w mo) s"
  unfolding wp_bind by (rule wp_effectD) (use assms in \<open>auto simp: phase_def interrupted_def\<close>)

lemma wp_absent:
  assumes "phase uuid mo P" "P s" "\<And>s'. P s' \<Longrightarrow> \<not> present s'"
  shows "wp (absent_file w present) (\<lambda>_. P) (interrupted uuid w mo) s"
  unfolding absent_file_def by (rule step_call [OF assms(1,2)]) (use assms(3) in \<open>simp add: wp_simps\<close>)

lemma step_absent:
  assumes "phase uuid mo P" "P s" "\<And>s'. P s' \<Longrightarrow> \<not> present s'" "\<And>s'. P s' \<Longrightarrow> wp (k ()) Q (interrupted uuid w mo) s'"
  shows "wp (bindA (absent_file w present) k) Q (interrupted uuid w mo) s"
  unfolding wp_bind by (rule wp_mono [OF wp_absent [OF assms(1-3)]]) (use assms(4) in auto)

lemma step_validate:
  assumes "phase uuid mo P" "P s" "\<And>s'. P s' \<Longrightarrow> new_disk mo s'" "moContent mo \<noteq> []"
    "\<And>s'. P s' \<Longrightarrow> wp (k ()) Q (interrupted uuid w mo) s'"
  shows "wp (bindA (ValidateDiskSubvolume w) k) Q (interrupted uuid w mo) s"
  unfolding wp_bind ValidateDiskSubvolume_def
proof (rule step_call [OF assms(1,2), unfolded wp_bind])
  fix a s' assume s': "P s'"
  then obtain sv where "dsDisk s' = Some sv" "svRootFS sv = Some (moContent mo)" using assms(3) by (auto simp: new_disk_def)
  then show "wp (lookD dsDisk) (\<lambda>disk. wp (case disk of None \<Rightarrow> failA ErrNotExist | Some sv \<Rightarrow> case svRootFS sv of
         None \<Rightarrow> failA (ErrMsg ''disk subvolume must contain only rootfs.img'')
       | Some content \<Rightarrow> checkD (content = []) ''disk rootfs must be a nonempty regular file'')
      (\<lambda>x. wp (k x) Q (interrupted uuid w mo)) (interrupted uuid w mo)) (interrupted uuid w mo) s'"
    using assms(4,5) s' by (simp add: wp_simps)
qed

lemma wp_seq: "wp m R E s \<Longrightarrow> (\<And>x s'. R x s' \<Longrightarrow> wp (k x) Q E s') \<Longrightarrow> wp (bindA m k) Q E s"
  unfolding wp_bind by (rule wp_mono)

lemma step_journal:
  assumes "phase uuid mo P" "phase uuid mo P'" "P s" "\<And>s'. P s' \<Longrightarrow> P' (s'\<lparr>dsJournal := Some (Journal j)\<rparr>)"
    "\<And>s'. P' s' \<Longrightarrow> wp (k ()) Q (interrupted uuid w mo) s'"
  shows "wp (bindA (writeDiskJournal w j) k) Q (interrupted uuid w mo) s"
  unfolding writeDiskJournal_def by (rule step_effect [OF assms(1-3)]) (use assms(4,5) in auto)

lemma wp_settled:
  assumes "stopped_inst mo inst" "settled mo inst s" "good uuid w mo"
  shows "wp (layout_settled w) (\<lambda>_. settled mo inst) (interrupted uuid w mo) s"
proof -
  note ph = phases(5) [OF assms(1)]
  have parts: "settled mo inst s' \<Longrightarrow> dsStages s' = [] \<and> dsLegacy s' = None \<and> new_disk mo s'" for s'
    by (simp add: settled_def new_disk_def)
  show ?thesis
    unfolding layout_settled_def
    by (rule step_call [OF ph assms(2)], rule step_look, rule step_check, simp add: parts, rule step_absent [OF ph], assumption,
        simp add: parts, rule step_validate [OF ph], assumption, simp add: parts, simp add: goodC [OF assms(3)],
        rule step_call [OF ph], assumption, simp add: wp_ret)
qed

lemma wp_new_journal:
  assumes inst: "stopped_inst mo inst" and s: "untouched mo inst s" and g: "good uuid w mo"
  shows "wp (new_journal w (moDir mo) inst) (\<lambda>j. reserved uuid mo inst j) (interrupted uuid w mo) s"
proof -
  note ph = phases(1) [OF inst]
  have parts: "iRootFSPath inst = legacy_path (moDir mo)" "iID inst = moID mo"
    using s inst by (simp_all add: untouched_def stopped_inst_def)
  have legacy: "untouched mo inst s' \<Longrightarrow> dsLegacy s' = Some (moInode mo, moContent mo) \<and> dsDisk s' = None" for s'
    by (simp add: untouched_def old_disk_def)
  have written: "wp (bindA (writeDiskJournal w j) (\<lambda>_. retA j)) (\<lambda>j. reserved uuid mo inst j) (interrupted uuid w mo) s'"
    if "untouched mo inst s'" "journal_ok uuid mo j" "siUUID (dmSubvolume j) = []" "\<not> dmReady j" for j s'
    by (rule step_journal [OF ph phases(2) [OF inst] that(1)])
      (use that(2-4) in \<open>auto simp: untouched_def reserved_def old_disk_def wp_ret\<close>)
  have described: "wp (bindA (callD w) (\<lambda>a.
       bindA (checkD (siUUID (dwContaining a) = [] \<or> siID (dwContaining a) = [])
         ''legacy disk lacks persistent subvolume identity'') (\<lambda>_.
       let j = \<lparr>dmVersion = 1, dmOperation = dwOp a, dmInstanceID = iID inst,
                dmSubvolume = \<lparr>siUUID = [], siID = [], siParentUUID = [], siReceivedUUID = []\<rparr>, dmLegacySubvolume = dwContaining a,
                dmLegacyInode = moInode mo, dmReady = False\<rparr>
       in bindA (writeDiskJournal w j) (\<lambda>_. retA j)))) (\<lambda>j. reserved uuid mo inst j) (interrupted uuid w mo) s'"
    if "untouched mo inst s'" for s'
    by (rule step_call [OF ph that], rule step_check)
      (use goodD [OF g] goodC [OF g] parts in \<open>auto simp: Let_def journal_ok_def intro!: written\<close>)
  show ?thesis
    unfolding new_journal_def
    by (rule step_check, simp add: parts, rule step_absent [OF ph s], simp add: legacy, rule step_call [OF ph], assumption,
        rule step_look) (simp add: legacy described)
qed

text \<open>Reading the old disk in a phase where it is intact, or gone after the commit.\<close>

definition legacy_known :: "migration_of \<Rightarrow> Instance \<Rightarrow> diskMigration \<Rightarrow> disk_state \<Rightarrow> bool" where
  "legacy_known mo inst j s \<longleftrightarrow> old_disk mo s \<or>
     dsLegacy s = None \<and> iRootFSPath inst = canonical_path (moDir mo) \<and> dmReady j"

lemma wp_check_legacy:
  assumes "phase uuid mo P" "P s" "\<And>s'. P s' \<Longrightarrow> legacy_known mo inst j s'" "journal_ok uuid mo j" "good uuid w mo"
  shows "wp (check_legacy w (moDir mo) inst j) (\<lambda>_. P) (interrupted uuid w mo) s"
  unfolding check_legacy_def
proof (rule step_call [OF assms(1,2)], rule step_look)
  fix a s' assume s': "P s'"
  have present: "wp (bindA (checkD (moInode mo \<noteq> dmLegacyInode j) ''legacy disk identity changed'') (\<lambda>_.
         bindA (callD w) (\<lambda>a.
         bindA (checkD (siUUID (dwContaining a) \<noteq> siUUID (dmLegacySubvolume j) \<or> siID (dwContaining a) \<noteq> siID (dmLegacySubvolume j))
           ''legacy disk subvolume identity changed'') (\<lambda>_.
         bindA (callD w) (\<lambda>a.
         checkD (TrimSpace (dwLoops a) \<noteq> []) ''legacy disk is attached to a loop device; refusing migration'')))))
     (\<lambda>_. P) (interrupted uuid w mo) s'"
  proof (rule step_check, simp add: assms(4) [unfolded journal_ok_def], rule step_call [OF assms(1) s'], rule step_check,
      use goodD(1) [OF assms(5)] assms(4) in \<open>auto simp: journal_ok_def\<close>, rule step_call [OF assms(1)], assumption)
    fix a s2 assume "a \<in> range w" "P s2"
    then show "wp (checkD (TrimSpace (dwLoops a) \<noteq> []) ''legacy disk is attached to a loop device; refusing migration'')
        (\<lambda>_. P) (interrupted uuid w mo) s2"
      using assms(1) by (auto simp: wp_simps interrupted_def phase_def faulty_def)
  qed
  from assms(3) [OF s'] consider "dsLegacy s' = Some (moInode mo, moContent mo)"
    | "dsLegacy s' = None" "iRootFSPath inst = canonical_path (moDir mo)" "dmReady j"
    by (auto simp: legacy_known_def old_disk_def)
  then show "wp (case dsLegacy s' of
       Some (inode, _) \<Rightarrow>
         bindA (checkD (inode \<noteq> dmLegacyInode j) ''legacy disk identity changed'') (\<lambda>_.
         bindA (callD w) (\<lambda>a.
         bindA (checkD (siUUID (dwContaining a) \<noteq> siUUID (dmLegacySubvolume j) \<or> siID (dwContaining a) \<noteq> siID (dmLegacySubvolume j))
           ''legacy disk subvolume identity changed'') (\<lambda>_.
         bindA (callD w) (\<lambda>a.
         checkD (TrimSpace (dwLoops a) \<noteq> []) ''legacy disk is attached to a loop device; refusing migration''))))
     | None \<Rightarrow> checkD (iRootFSPath inst \<noteq> canonical_path (moDir mo) \<or> \<not> dmReady j) ''legacy disk unavailable before commit'')
     (\<lambda>_. P) (interrupted uuid w mo) s'"
    by cases (use present s' in \<open>simp_all add: wp_checkD\<close>)
qed

lemma wp_stage_identity:
  assumes inst: "stopped_inst mo inst" and s: "reserved uuid mo inst j s" and g: "good uuid w mo"
  shows "wp (stage_identity w (moDir mo) inst j) (\<lambda>j'. staged uuid mo inst j') (interrupted uuid w mo) s"
proof -
  let ?made = "\<lambda>s. reserved uuid mo inst j s \<and> dsStages s \<noteq> []"
  note ph = phases(2) [OF inst, of uuid j]
  have ph': "phase uuid mo ?made" by (rule phase_conj [OF ph]) simp
  have parts: "iRootFSPath inst = legacy_path (moDir mo)" "siUUID (dmSubvolume j) = []" using s by (simp_all add: reserved_def)
  have disk: "reserved uuid mo inst j s' \<Longrightarrow> dsDisk s' = None" for s' by (simp add: reserved_def)
  have made: "?made (s'\<lparr>dsStages := put_stage (dmOperation j) \<lparr>svIdentity = dwSub a, svRootFS = None\<rparr> (dsStages s')\<rparr>)"
    if "reserved uuid mo inst j s'" "a \<in> range w" for a s'
    using that goodD(3) [OF g that(2)] by (auto simp: reserved_def old_disk_def put_stage_def)
  have recorded: "wp (let j = j\<lparr>dmSubvolume := svIdentity sv\<rparr> in bindA (writeDiskJournal w j) (\<lambda>_. retA j))
      (\<lambda>j'. staged uuid mo inst j') (interrupted uuid w mo) s'"
    if "reserved uuid mo inst j s' \<and> dsStages s' = [(dmOperation j, sv)]" for sv s'
  proof -
    have p: "phase uuid mo (\<lambda>s. reserved uuid mo inst j s \<and> dsStages s = [(dmOperation j, sv)])" by (rule phase_conj [OF ph]) simp
    show ?thesis
      unfolding Let_def
      by (rule step_journal [OF p phases(3) [OF inst] that])
        (auto simp: reserved_def staged_def old_disk_def journal_ok_def wp_ret)
  qed
  have identified: "wp (bindA (callD w) (\<lambda>_.
        bindA (lookD (\<lambda>s. map_of (dsStages s) (dmOperation j))) (\<lambda>stage. case stage of
          None \<Rightarrow> failA ErrNotExist
        | Some sv \<Rightarrow>
          bindA (checkD (svRootFS sv \<noteq> None) ''unidentified migration stage contains data; operator inspection required'') (\<lambda>_.
          bindA (callD w) (\<lambda>_.
          let j = j\<lparr>dmSubvolume := svIdentity sv\<rparr>
          in bindA (writeDiskJournal w j) (\<lambda>_. retA j)))))) (\<lambda>j'. staged uuid mo inst j') (interrupted uuid w mo) s'"
    if "?made s'" for s'
  proof (rule step_call [OF ph' that], rule step_look)
    fix a s1 assume s1: "?made s1"
    then obtain sv where sv: "dsStages s1 = [(dmOperation j, sv)]" "svRootFS sv = None" by (auto simp: reserved_def)
    have p: "phase uuid mo (\<lambda>s. reserved uuid mo inst j s \<and> dsStages s = [(dmOperation j, sv)])" by (rule phase_conj [OF ph]) simp
    have "wp (bindA (callD w) (\<lambda>_. let j = j\<lparr>dmSubvolume := svIdentity sv\<rparr> in bindA (writeDiskJournal w j) (\<lambda>_. retA j)))
      (\<lambda>j'. staged uuid mo inst j') (interrupted uuid w mo) s1"
      by (rule step_call [OF p]) (use s1 sv recorded in auto)
    then show "wp (case map_of (dsStages s1) (dmOperation j) of
          None \<Rightarrow> failA ErrNotExist
        | Some sv \<Rightarrow>
          bindA (checkD (svRootFS sv \<noteq> None) ''unidentified migration stage contains data; operator inspection required'') (\<lambda>_.
          bindA (callD w) (\<lambda>_.
          let j = j\<lparr>dmSubvolume := svIdentity sv\<rparr>
          in bindA (writeDiskJournal w j) (\<lambda>_. retA j)))) (\<lambda>j'. staged uuid mo inst j') (interrupted uuid w mo) s1"
      using sv by (simp add: wp_bind [of "checkD _ _"] wp_checkD)
  qed
  have created: "wp (bindA (if map_of (dsStages s') (dmOperation j) = None
          then effectD w (\<lambda>a s. s\<lparr>dsStages := put_stage (dmOperation j) \<lparr>svIdentity = dwSub a, svRootFS = None\<rparr> (dsStages s)\<rparr>)
          else retA ()) k) Q (interrupted uuid w mo) s'"
    if "reserved uuid mo inst j s'" "\<And>s'. ?made s' \<Longrightarrow> wp (k ()) Q (interrupted uuid w mo) s'" for k Q s'
  proof (cases "dsStages s' = []")
    case True
    show ?thesis
      by (simp add: True, rule step_effect [OF ph ph' that(1)]) (use made that(2) in auto)
  next
    case False
    then have "map_of (dsStages s') (dmOperation j) \<noteq> None" using that(1) by (auto simp: reserved_def)
    then show ?thesis using that False by (auto simp: wp_bind wp_ret)
  qed
  show ?thesis
    unfolding stage_identity_def
    by (subst if_not_P, simp add: parts(2), rule step_check, simp add: parts(1), rule step_absent [OF ph s], simp add: disk, rule step_call [OF ph], assumption,
        rule step_look, rule created, assumption, rule identified)
qed

lemma staged_file:
  "staged uuid mo inst j s \<Longrightarrow> \<not> dmReady j \<Longrightarrow> staged uuid mo inst j (set_stage_file (dmOperation j) content s)"
  by (auto simp: staged_def old_disk_def set_stage_file_def put_stage_def)

definition copied :: "(string \<Rightarrow> bool) \<Rightarrow> migration_of \<Rightarrow> Instance \<Rightarrow> diskMigration \<Rightarrow> disk_state \<Rightarrow> bool" where
  "copied uuid mo inst j s \<longleftrightarrow> staged uuid mo inst j s \<and>
     (\<exists>sv. dsStages s = [(dmOperation j, sv)] \<and> svIdentity sv = dmSubvolume j \<and> svRootFS sv = Some (moContent mo))"

lemma wp_clone:
  assumes "stopped_inst mo inst" "staged uuid mo inst j s" "\<not> dmReady j"
  shows "wp (clone_legacy w (dmOperation j)) (\<lambda>_. copied uuid mo inst j) (interrupted uuid w mo) s"
proof -
  let ?s = "s\<lparr>dsStep := Suc (dsStep s)\<rparr>"
  have st: "staged uuid mo inst j ?s" "dsLegacy ?s = Some (moInode mo, moContent mo)"
    using assms(2) by (simp_all add: staged_def old_disk_def)
  have "copied uuid mo inst j (set_stage_file (dmOperation j) (Some (moContent mo)) ?s)"
    using staged_file [OF st(1) assms(3)] st(1) by (auto simp: copied_def staged_def set_stage_file_def put_stage_def)
  moreover have "interrupted uuid w mo e (set_stage_file (dmOperation j) p ?s)" if "dwErr (w (dsStep s)) = Some e" for e p
    using migratingI(3) [OF assms(1) staged_file [OF st(1) assms(3)]] that by (auto simp: interrupted_def faulty_def)
  ultimately show ?thesis
    using st(2) by (auto simp: clone_legacy_def wp_bind wp_def askD_def lookD_def bindA_def split: option.split)
qed

lemma copied_phase: "stopped_inst mo inst \<Longrightarrow> phase uuid mo (copied uuid mo inst j)"
  using migratingI(3) by (auto simp: phase_def copied_def)

lemma wp_fill_stage:
  assumes inst: "stopped_inst mo inst" and s: "staged uuid mo inst j s"
  shows "wp (fill_stage w j) (\<lambda>_. staged uuid mo inst (j\<lparr>dmReady := True\<rparr>)) (interrupted uuid w mo) s"
proof (cases "dmReady j")
  case True
  then have same: "j\<lparr>dmReady := True\<rparr> = j" by simp
  show ?thesis unfolding same using s True by (simp add: fill_stage_def wp_ret)
next
  case False
  have marked: "wp (writeDiskJournal w (j\<lparr>dmReady := True\<rparr>)) (\<lambda>_. staged uuid mo inst (j\<lparr>dmReady := True\<rparr>)) (interrupted uuid w mo) s'"
    if "copied uuid mo inst j s'" for s'
    using step_journal [OF copied_phase [OF inst] phases(3) [OF inst] that, of "j\<lparr>dmReady := True\<rparr>" _ retA "\<lambda>_. staged uuid mo inst (j\<lparr>dmReady := True\<rparr>)"]
    by (simp add: wp_bind wp_ret) (auto simp: copied_def staged_def old_disk_def journal_ok_def)
  show ?thesis
    unfolding fill_stage_def using False
    by (simp, intro step_effect [OF phases(3) [OF inst] phases(3) [OF inst] s])
      (auto intro!: staged_file wp_seq [OF wp_clone [OF inst]] step_call [OF copied_phase [OF inst]] marked)
qed

lemma wp_publish_stage:
  assumes inst: "stopped_inst mo inst" and s: "staged uuid mo inst j s"
  shows "wp (publish w j) (\<lambda>_. published uuid mo inst (j\<lparr>dmReady := True\<rparr>)) (interrupted uuid w mo) s"
proof -
  let ?j = "j\<lparr>dmReady := True\<rparr>"
  note ph = phases(3) [OF inst]
  have renamed: "published uuid mo inst ?j (rename_stage (dmOperation ?j) s')" if "staged uuid mo inst ?j s'" for s'
    using that by (auto simp: staged_def published_def rename_stage_def new_disk_def old_disk_def journal_ok_def)
  have moved: "wp (bindA (effectD w (\<lambda>_. rename_stage (dmOperation j))) (\<lambda>_. bindA (callD w) (\<lambda>_. retA ())))
      (\<lambda>_. published uuid mo inst ?j) (interrupted uuid w mo) s'" if "staged uuid mo inst ?j s'" for s'
    by (rule step_effect [OF ph phases(4) [OF inst, of uuid ?j] that], use renamed in simp,
        rule step_call [OF phases(4) [OF inst]], assumption, simp add: wp_ret)
  have filled: "wp (bindA (fill_stage w j) (\<lambda>_. bindA (effectD w (\<lambda>_. rename_stage (dmOperation j))) (\<lambda>_. bindA (callD w) (\<lambda>_. retA ()))))
      (\<lambda>_. published uuid mo inst ?j) (interrupted uuid w mo) s'" if "staged uuid mo inst j s'" for s'
    by (rule wp_seq [OF wp_fill_stage [OF inst that]], rule moved)
  have stage: "\<exists>sv. map_of (dsStages s') (dmOperation j) = Some sv \<and> svIdentity sv = dmSubvolume j" "dsDisk s' = None"
    if "staged uuid mo inst j s'" for s'
    using that by (auto simp: staged_def)
  show ?thesis
    unfolding publish_def
  proof (rule step_call [OF ph s], rule step_look, rule step_call [OF ph], assumption, rule step_look)
    fix s1 s2 assume s1: "staged uuid mo inst j s1" and s2: "staged uuid mo inst j s2"
    from stage(1) [OF s2] obtain sv where "map_of (dsStages s2) (dmOperation j) = Some sv" "svIdentity sv = dmSubvolume j" by blast
    then show "wp (case (if dsDisk s1 \<noteq> None then dsDisk s1 else map_of (dsStages s2) (dmOperation j)) of
       None \<Rightarrow> failA ErrNotExist
     | Some sv \<Rightarrow>
       bindA (checkD (siUUID (svIdentity sv) \<noteq> siUUID (dmSubvolume j) \<or> siID (svIdentity sv) \<noteq> siID (dmSubvolume j))
         ''disk migration subvolume identity mismatch'') (\<lambda>_.
       if dsDisk s1 \<noteq> None then
         bindA (checkD (\<not> dmReady j) ''disk was published before staging completed'') (\<lambda>_.
         absent_file w (\<lambda>s. map_of (dsStages s) (dmOperation j) \<noteq> None))
       else
         bindA (fill_stage w j) (\<lambda>_.
         bindA (effectD w (\<lambda>_. rename_stage (dmOperation j))) (\<lambda>_.
         bindA (callD w) (\<lambda>_. retA ()))))) (\<lambda>_. published uuid mo inst ?j) (interrupted uuid w mo) s2"
      using stage(2) [OF s1] filled [OF s2] by (simp add: wp_bind [of "checkD _ _"] wp_checkD)
  qed
qed

lemma wp_publish_done:
  assumes inst: "stopped_inst mo inst" and s: "published uuid mo inst j s"
  shows "wp (publish w j) (\<lambda>_. published uuid mo inst j) (interrupted uuid w mo) s"
proof -
  note ph = phases(4) [OF inst]
  have absent: "wp (absent_file w (\<lambda>s. map_of (dsStages s) (dmOperation j) \<noteq> None)) (\<lambda>_. published uuid mo inst j)
      (interrupted uuid w mo) s'" if "published uuid mo inst j s'" for s'
    by (rule wp_absent [OF ph that]) (simp add: published_def new_disk_def)
  show ?thesis
    unfolding publish_def
  proof (rule step_call [OF ph s], rule step_look, rule step_call [OF ph], assumption, rule step_look)
    fix s1 s2 assume s1: "published uuid mo inst j s1" and s2: "published uuid mo inst j s2"
    then obtain sv where "dsDisk s1 = Some sv" "svIdentity sv = dmSubvolume j" "dmReady j" by (auto simp: published_def)
    then show "wp (case (if dsDisk s1 \<noteq> None then dsDisk s1 else map_of (dsStages s2) (dmOperation j)) of
       None \<Rightarrow> failA ErrNotExist
     | Some sv \<Rightarrow>
       bindA (checkD (siUUID (svIdentity sv) \<noteq> siUUID (dmSubvolume j) \<or> siID (svIdentity sv) \<noteq> siID (dmSubvolume j))
         ''disk migration subvolume identity mismatch'') (\<lambda>_.
       if dsDisk s1 \<noteq> None then
         bindA (checkD (\<not> dmReady j) ''disk was published before staging completed'') (\<lambda>_.
         absent_file w (\<lambda>s. map_of (dsStages s) (dmOperation j) \<noteq> None))
       else
         bindA (fill_stage w j) (\<lambda>_.
         bindA (effectD w (\<lambda>_. rename_stage (dmOperation j))) (\<lambda>_.
         bindA (callD w) (\<lambda>_. retA ()))))) (\<lambda>_. published uuid mo inst j) (interrupted uuid w mo) s2"
      using absent [OF s2] by (simp add: wp_bind [of "checkD _ _"] wp_checkD)
  qed
qed

lemma stopped_path [simp]: "stopped_inst mo (inst\<lparr>iRootFSPath := p, iUpdatedAt := t\<rparr>) = stopped_inst mo inst"
  by (simp add: stopped_inst_def)

definition finished :: "migration_of \<Rightarrow> disk_state \<Rightarrow> bool" where
  "finished mo s \<longleftrightarrow> (\<exists>inst. stopped_inst mo inst \<and> settled mo inst s)"

text \<open>The states between the update of the stored path and the removal of the journal.\<close>

definition committed :: "(string \<Rightarrow> bool) \<Rightarrow> migration_of \<Rightarrow> diskMigration \<Rightarrow> disk_state \<Rightarrow> bool" where
  "committed uuid mo j s \<longleftrightarrow> (\<exists>inst. stopped_inst mo inst \<and> published uuid mo inst j s \<and>
     iRootFSPath inst = canonical_path (moDir mo))"

definition removed :: "(string \<Rightarrow> bool) \<Rightarrow> migration_of \<Rightarrow> diskMigration \<Rightarrow> disk_state \<Rightarrow> bool" where
  "removed uuid mo j s \<longleftrightarrow> committed uuid mo j s \<and> dsLegacy s = None"

lemma late_phases:
  "phase uuid mo (committed uuid mo j)" "phase uuid mo (removed uuid mo j)" "phase uuid mo (finished mo)"
  using migratingI(4,5) by (auto simp: phase_def committed_def removed_def finished_def)

lemma wp_commit:
  assumes inst: "stopped_inst mo inst" and s: "published uuid mo inst j s" and g: "good uuid w mo"
  shows "wp (commit_layout w (moDir mo) inst) (\<lambda>_. finished mo) (interrupted uuid w mo) s"
proof -
  have cleaned: "wp (bindA (effectD w (\<lambda>_ s. s\<lparr>dsLegacy := None\<rparr>)) (\<lambda>_.
     bindA (callD w) (\<lambda>_.
     bindA (effectD w (\<lambda>_ s. s\<lparr>dsJournal := None\<rparr>)) (\<lambda>_.
     bindA (callD w) (\<lambda>_. retA ()))))) (\<lambda>_. finished mo) (interrupted uuid w mo) s'"
    if s': "committed uuid mo j s'" for s'
  proof (rule step_effect [OF late_phases(1,2) s'])
    show "removed uuid mo j (s\<lparr>dsLegacy := None\<rparr>)" if "committed uuid mo j s" for s
      using that by (auto simp: removed_def committed_def published_def new_disk_def old_disk_def)
  next
    have closed: "finished mo (s\<lparr>dsJournal := None\<rparr>)" if "removed uuid mo j s" for s
      using that by (auto simp: removed_def committed_def published_def finished_def settled_def new_disk_def)
    fix s2 assume s2: "removed uuid mo j s2"
    show "wp (bindA (callD w) (\<lambda>_. bindA (effectD w (\<lambda>_ s. s\<lparr>dsJournal := None\<rparr>)) (\<lambda>_. bindA (callD w) (\<lambda>_. retA ()))))
        (\<lambda>_. finished mo) (interrupted uuid w mo) s2"
      by (rule step_call [OF late_phases(2) s2], rule step_effect [OF late_phases(2,3)], assumption, rule closed, assumption,
          rule step_call [OF late_phases(3)], assumption, simp add: wp_ret)
  qed
  have stored: "wp (bindA (if iRootFSPath inst \<noteq> canonical_path (moDir mo)
       then effectD w (\<lambda>a s. s\<lparr>dsInst := inst\<lparr>iRootFSPath := canonical_path (moDir mo), iUpdatedAt := dwNow a\<rparr>\<rparr>)
       else retA ()) k) Q (interrupted uuid w mo) s'"
    if s': "published uuid mo inst j s'" and k: "\<And>s'. committed uuid mo j s' \<Longrightarrow> wp (k ()) Q (interrupted uuid w mo) s'" for k Q s'
  proof (cases "iRootFSPath inst = canonical_path (moDir mo)")
    case True
    then have "committed uuid mo j s'" using inst s' by (auto simp: committed_def)
    then show ?thesis using True k by (simp add: wp_bind wp_ret)
  next
    case False
    have "committed uuid mo j (s\<lparr>dsInst := inst\<lparr>iRootFSPath := canonical_path (moDir mo), iUpdatedAt := t\<rparr>\<rparr>)"
      if "published uuid mo inst j s" for s t
      unfolding committed_def
      by (rule exI [of _ "inst\<lparr>iRootFSPath := canonical_path (moDir mo), iUpdatedAt := t\<rparr>"])
        (use that inst False in \<open>auto simp: published_def new_disk_def old_disk_def\<close>)
    then show ?thesis
      using False by (simp, intro step_effect [OF phases(4) [OF inst] late_phases(1) s']) (auto intro: k)
  qed
  show ?thesis
    unfolding commit_layout_def
    by (rule step_validate [OF phases(4) [OF inst] s], simp add: published_def, simp add: goodC [OF g], rule stored, assumption,
        rule cleaned)
qed

subsection \<open>A whole call\<close>

lemma stored_journal_ok:
  "journal_ok uuid mo j \<Longrightarrow> stopped_inst mo inst \<Longrightarrow> good uuid w mo \<Longrightarrow> stored_journal uuid inst (Journal j) = Inr j"
  using goodC by (auto simp: stored_journal_def journal_ok_def stopped_inst_def failIf_def)

definition in_progress :: "(string \<Rightarrow> bool) \<Rightarrow> migration_of \<Rightarrow> Instance \<Rightarrow> diskMigration \<Rightarrow> disk_state \<Rightarrow> bool" where
  "in_progress uuid mo inst j s \<longleftrightarrow> reserved uuid mo inst j s \<or> staged uuid mo inst j s \<or> published uuid mo inst j s"

lemma in_progress_phase: "stopped_inst mo inst \<Longrightarrow> phase uuid mo (in_progress uuid mo inst j)"
  using migratingI by (auto simp: phase_def in_progress_def)

lemma wp_continue:
  assumes inst: "stopped_inst mo inst" and s: "in_progress uuid mo inst j s" and g: "good uuid w mo"
  shows "wp (bindA (stage_identity w (moDir mo) inst j) (\<lambda>j. bindA (publish w j) (\<lambda>_. commit_layout w (moDir mo) inst)))
    (\<lambda>_. finished mo) (interrupted uuid w mo) s"
proof -
  have staged': "wp (bindA (publish w j) (\<lambda>_. commit_layout w (moDir mo) inst)) (\<lambda>_. finished mo) (interrupted uuid w mo) s'"
    if "staged uuid mo inst j s'" for j s'
    by (rule wp_seq [OF wp_publish_stage [OF inst that]], rule wp_commit [OF inst _ g])
  have kept: "stage_identity w (moDir mo) inst j = retA j" if "siUUID (dmSubvolume j) \<noteq> []"
    using that by (simp add: stage_identity_def)
  from s consider "reserved uuid mo inst j s" | "staged uuid mo inst j s" | "published uuid mo inst j s"
    by (auto simp: in_progress_def)
  then show ?thesis
  proof cases
    case 1
    show ?thesis by (rule wp_seq [OF wp_stage_identity [OF inst 1 g]], rule staged')
  next
    case 2
    then have "siUUID (dmSubvolume j) \<noteq> []" by (simp add: staged_def)
    then show ?thesis using staged' [OF 2] by (simp add: kept wp_bind wp_ret)
  next
    case 3
    then have "siUUID (dmSubvolume j) \<noteq> []" by (simp add: published_def)
    moreover have "wp (bindA (publish w j) (\<lambda>_. commit_layout w (moDir mo) inst)) (\<lambda>_. finished mo) (interrupted uuid w mo) s"
      by (rule wp_seq [OF wp_publish_done [OF inst 3]], rule wp_commit [OF inst _ g])
    ultimately show ?thesis by (simp add: kept wp_bind wp_ret)
  qed
qed

lemma wp_journaled:
  assumes inst: "stopped_inst mo inst" and s: "in_progress uuid mo inst j s" and g: "good uuid w mo"
  shows "wp (bindA (checkD (iRootFSPath inst \<noteq> legacy_path (moDir mo) \<and> iRootFSPath inst \<noteq> canonical_path (moDir mo))
       ''database disk path conflicts with migration'') (\<lambda>_.
     bindA (check_legacy w (moDir mo) inst j) (\<lambda>_.
     bindA (stage_identity w (moDir mo) inst j) (\<lambda>j.
     bindA (publish w j) (\<lambda>_.
     commit_layout w (moDir mo) inst))))) (\<lambda>_. finished mo) (interrupted uuid w mo) s"
proof -
  have path: "iRootFSPath inst = legacy_path (moDir mo) \<or> iRootFSPath inst = canonical_path (moDir mo)"
    and j: "journal_ok uuid mo j"
    using s by (auto simp: in_progress_def reserved_def staged_def published_def)
  have known: "in_progress uuid mo inst j s' \<Longrightarrow> legacy_known mo inst j s'" for s'
    by (auto simp: in_progress_def reserved_def staged_def published_def legacy_known_def)
  show ?thesis
    by (rule step_check, use path in blast, rule wp_seq [OF wp_check_legacy [OF in_progress_phase [OF inst] s known j g]],
        assumption, rule wp_continue [OF inst _ g])
qed

lemma wp_migrate:
  assumes inst: "stopped_inst mo inst" and g: "good uuid w mo"
    and s: "untouched mo inst s \<or> (\<exists>j. in_progress uuid mo inst j s)"
  shows "wp (migrate_layout uuid w (moDir mo) inst) (\<lambda>_. finished mo) (interrupted uuid w mo) s"
proof -
  have guard: "wp (bindA (layout_guard w inst) k) (\<lambda>_. finished mo) (interrupted uuid w mo) s"
    if "phase uuid mo P" "P s" "\<And>s'. P s' \<Longrightarrow> wp (k ()) (\<lambda>_. finished mo) (interrupted uuid w mo) s'" for k P
  proof -
    have "wp (layout_guard w inst) (\<lambda>_. P) (interrupted uuid w mo) s"
      unfolding layout_guard_def using inst
      by (intro step_check step_call [OF that(1,2)]) (auto simp: stopped_inst_def wp_ret)
    then show ?thesis by (rule wp_seq) (simp add: that(3))
  qed
  from s show ?thesis
  proof
    assume s: "untouched mo inst s"
    show ?thesis
      unfolding migrate_layout_def
    proof (rule guard [OF phases(1) [OF inst] s], rule step_look)
      fix s' assume s': "untouched mo inst s'"
      then have "dsJournal s' = None" by (simp add: untouched_def)
      then show "wp (bindA (case dsJournal s' of Some f \<Rightarrow> liftR (stored_journal uuid inst f) | None \<Rightarrow> new_journal w (moDir mo) inst) (\<lambda>j.
     bindA (checkD (iRootFSPath inst \<noteq> legacy_path (moDir mo) \<and> iRootFSPath inst \<noteq> canonical_path (moDir mo))
       ''database disk path conflicts with migration'') (\<lambda>_.
     bindA (check_legacy w (moDir mo) inst j) (\<lambda>_.
     bindA (stage_identity w (moDir mo) inst j) (\<lambda>j.
     bindA (publish w j) (\<lambda>_.
     commit_layout w (moDir mo) inst)))))) (\<lambda>_. finished mo) (interrupted uuid w mo) s'"
        by (simp, intro wp_seq [OF wp_new_journal [OF inst s' g]] wp_journaled [OF inst _ g]) (simp add: in_progress_def)
    qed
  next
    assume "\<exists>j. in_progress uuid mo inst j s"
    then obtain j where s: "in_progress uuid mo inst j s" by blast
    show ?thesis
      unfolding migrate_layout_def
    proof (rule guard [OF in_progress_phase [OF inst] s], rule step_look)
      fix s' assume s': "in_progress uuid mo inst j s'"
      then have "dsJournal s' = Some (Journal j)" "journal_ok uuid mo j"
        by (auto simp: in_progress_def reserved_def staged_def published_def)
      then show "wp (bindA (case dsJournal s' of Some f \<Rightarrow> liftR (stored_journal uuid inst f) | None \<Rightarrow> new_journal w (moDir mo) inst) (\<lambda>j.
     bindA (checkD (iRootFSPath inst \<noteq> legacy_path (moDir mo) \<and> iRootFSPath inst \<noteq> canonical_path (moDir mo))
       ''database disk path conflicts with migration'') (\<lambda>_.
     bindA (check_legacy w (moDir mo) inst j) (\<lambda>_.
     bindA (stage_identity w (moDir mo) inst j) (\<lambda>j.
     bindA (publish w j) (\<lambda>_.
     commit_layout w (moDir mo) inst)))))) (\<lambda>_. finished mo) (interrupted uuid w mo) s'"
        using wp_journaled [OF inst s' g] stored_journal_ok [OF _ inst g] by (simp add: wp_bind [of "liftR _"] wp_lift)
    qed
  qed
qed

lemma wp_layout:
  assumes "migrating uuid mo s" "good uuid w mo"
  shows "wp (ensureDiskLayout_full uuid w (moDir mo)) (\<lambda>_. finished mo) (interrupted uuid w mo) s"
proof -
  from assms(1) obtain inst where inst: "stopped_inst mo inst"
    and s: "(untouched mo inst s \<or> (\<exists>j. in_progress uuid mo inst j s)) \<or> settled mo inst s"
    by (auto simp: migrating_def in_progress_def)
  have d: "dsInst s = inst" using s by (auto simp: in_progress_def phase_defs)
  let ?P = "\<lambda>s. (untouched mo inst s \<or> (\<exists>j. in_progress uuid mo inst j s)) \<or> settled mo inst s"
  have ph: "phase uuid mo ?P"
    using migratingI [OF inst] by (auto simp: phase_def in_progress_def)
  have branch: "wp (if dsJournal s' = None \<and> iRootFSPath inst = canonical_path (moDir mo) then layout_settled w
     else migrate_layout uuid w (moDir mo) inst) (\<lambda>_. finished mo) (interrupted uuid w mo) s'" if s': "?P s'" for s'
    using s'
  proof
    assume "settled mo inst s'"
    moreover have "wp (layout_settled w) (\<lambda>_. finished mo) (interrupted uuid w mo) s'"
      by (rule wp_mono [OF wp_settled [OF inst calculation assms(2)]]) (use inst in \<open>auto simp: finished_def\<close>)
    ultimately show ?thesis by (simp add: settled_def)
  next
    assume p: "untouched mo inst s' \<or> (\<exists>j. in_progress uuid mo inst j s')"
    then have "\<not> (dsJournal s' = None \<and> iRootFSPath inst = canonical_path (moDir mo))"
      by (auto simp: in_progress_def phase_defs)
    then show ?thesis using wp_migrate [OF inst assms(2) p] by (simp only: if_False)
  qed
  show ?thesis
    unfolding ensureDiskLayout_full_def
    by (rule step_look, unfold d, rule step_call [OF ph s], rule step_call [OF ph], assumption, rule step_call [OF ph], assumption,
        rule step_call [OF ph], assumption, rule step_look, rule branch)
qed

subsection \<open>The property\<close>

fun disk_runs :: "(string \<Rightarrow> bool) \<Rightarrow> string \<Rightarrow> disk_world list \<Rightarrow> disk_state \<Rightarrow> disk_state" where
  "disk_runs uuid dir [] s = s"
| "disk_runs uuid dir (w # ws) s = disk_runs uuid dir ws (snd (ensureDiskLayout_full uuid w dir s))"

lemma migrating_call:
  assumes "migrating uuid mo s" "good uuid w mo"
  shows "migrating uuid mo (snd (ensureDiskLayout_full uuid w (moDir mo) s))"
proof -
  obtain r s' where r: "ensureDiskLayout_full uuid w (moDir mo) s = (r, s')" by fastforce
  show ?thesis
    using wp_layout [OF assms] migratingI(5) by (cases r) (auto simp: r wp_def finished_def interrupted_def)
qed

lemma migrating_runs:
  "migrating uuid mo s \<Longrightarrow> (\<And>w. w \<in> set ws \<Longrightarrow> good uuid w mo) \<Longrightarrow> migrating uuid mo (disk_runs uuid (moDir mo) ws s)"
  by (induction ws arbitrary: s) (simp_all add: migrating_call)

text \<open>C40: the migration of a disk can be interrupted anywhere. Seen through the stored path, the disk of an
  instance is the same content after any number of calls, each of which may fail or be killed at any
  operation, before or after its effect and with any partial copy left behind; a call that fails met a
  fault of its own, so that one call without a fault finishes the migration from every state the
  interrupted ones can leave; and a finished one has left no file of the old layout and no journal.\<close>

theorem disk_migration_crash_safe:
  assumes "untouched mo inst s" "stopped_inst mo inst" "\<And>w. w \<in> set ws \<Longrightarrow> good uuid w mo" "good uuid w mo"
    "ensureDiskLayout_full uuid w (moDir mo) (disk_runs uuid (moDir mo) ws s) = (r, s')"
  shows "stored_disk (moDir mo) (disk_runs uuid (moDir mo) ws s) = stored_disk (moDir mo) s \<and>
    stored_disk (moDir mo) s' = stored_disk (moDir mo) s \<and> (isl r \<longrightarrow> faulty w) \<and>
    (\<not> isl r \<longrightarrow> iRootFSPath (dsInst s') = canonical_path (moDir mo) \<and> dsLegacy s' = None \<and> dsStages s' = [] \<and> dsJournal s' = None)"
proof -
  have m: "migrating uuid mo s" "migrating uuid mo (disk_runs uuid (moDir mo) ws s)"
    using migratingI(1) [OF assms(2,1)] migrating_runs assms(3) by blast+
  have m': "migrating uuid mo s'" using migrating_call [OF m(2) assms(4)] by (simp add: assms(5))
  have "if isl r then faulty w else finished mo s'"
    using wp_layout [OF m(2) assms(4)] assms(5) by (cases r) (auto simp: wp_def interrupted_def)
  then show ?thesis
    using migrating_disk [OF m(1)] migrating_disk [OF m(2)] migrating_disk [OF m']
    by (auto simp: finished_def settled_def new_disk_def split: if_splits)
qed

definition dl_inst :: Instance where
  "dl_inst = empty_instance\<lparr>iID := ''i1'', iName := ''web'', iState := StateStopped, iRootFSPath := ''/d/web/rootfs.img''\<rparr>"

definition dl_container :: SubvolumeIdentity where
  "dl_container = \<lparr>siUUID = ''u0'', siID = ''5'', siParentUUID = [], siReceivedUUID = []\<rparr>"

definition dl_mo :: migration_of where
  "dl_mo = \<lparr>moDir = ''/d/web'', moID = ''i1'', moContaining = dl_container, moInode = 7, moContent = ''data''\<rparr>"

definition dl_state :: disk_state where
  "dl_state = \<lparr>dsLegacy = Some (7, ''data''), dsStages = [], dsDisk = None, dsJournal = None, dsInst = dl_inst, dsStep = 0\<rparr>"

definition dl_answer :: disk_answer where
  "dl_answer = \<lparr>dwErr = None, dwLate = None, dwOp = ''op'', dwNow = \<lparr>tYear = 2025, tMonth = 6, tDay = 1, tHour = 12, tMin = 0, tSec = 0, tNano = 0\<rparr>,
     dwSub = \<lparr>siUUID = ''u1'', siID = ''9'', siParentUUID = [], siReceivedUUID = []\<rparr>, dwContaining = dl_container, dwLoops = [], dwPart = Some ''da''\<rparr>"

text \<open>The first call is interrupted during the copy.\<close>

definition dl_broken :: disk_world where
  "dl_broken = (\<lambda>n. if n \<ge> 21 then dl_answer\<lparr>dwErr := Some (ErrMsg ''killed'')\<rparr> else dl_answer)"

definition dl_result :: "unit result \<times> disk_state" where
  "dl_result = ensureDiskLayout_full (\<lambda>_. True) (\<lambda>_. dl_answer) ''/d/web'' (disk_runs (\<lambda>_. True) ''/d/web'' [dl_broken] dl_state)"

theorem disk_migration_crash_safe_witness:
  "fst dl_result = Inr () \<and> stored_disk ''/d/web'' (snd dl_result) = Some ''data'' \<and>
   iRootFSPath (dsInst (snd dl_result)) = ''/d/web/disk/rootfs.img''"
proof -
  have dir: "moDir dl_mo = ''/d/web''" by (simp add: dl_mo_def)
  have ok: "untouched dl_mo dl_inst dl_state" "stopped_inst dl_mo dl_inst"
    by (simp_all add: untouched_def stopped_inst_def old_disk_def dl_mo_def dl_inst_def dl_state_def legacy_path_def empty_instance_def)
  have g: "good (\<lambda>_. True) w dl_mo" if "w = dl_broken \<or> w = (\<lambda>_. dl_answer)" for w
    using that by (auto simp: good_def honest_def dl_broken_def dl_answer_def dl_mo_def dl_container_def split: if_splits)
  have run: "ensureDiskLayout_full (\<lambda>_. True) (\<lambda>_. dl_answer) (moDir dl_mo) (disk_runs (\<lambda>_. True) (moDir dl_mo) [dl_broken] dl_state) =
      (fst dl_result, snd dl_result)" by (simp add: dl_result_def dir)
  have "\<not> faulty (\<lambda>_. dl_answer)" by (simp add: faulty_def dl_answer_def TrimSpace_def)
  moreover have "stored_disk ''/d/web'' dl_state = Some ''data''"
    by (simp add: stored_disk_def dl_state_def dl_inst_def legacy_path_def)
  ultimately show ?thesis
    using disk_migration_crash_safe [OF ok _ _ run] g dir
    by (cases "fst dl_result") (auto simp: canonical_path_def)
qed

end
