(* ===== verification/Deletion.thy ===== *)
theory Deletion
  imports RuntimeHost NetHelper
begin

section \<open>Deleting an instance\<close>

text \<open>
  src/internal/provision/cleanup.go and the runner's part in src/internal/vmrunner/cleanup.go. A
  deletion is fenced in the database, takes the instance down piece by piece, has every piece proved
  absent, and only then commits the receipt. It may stop at any point and is taken up again under the
  same request.

  \<open>delete_ops\<close> adds to the host of the theory \<open>Runtime\<close> what a deletion calls: the gateways, the cold store,
  the proofs of the runner and of the network helper, the tailnet, the file system, the name-based
  identifier of the \<open>uuid\<close> package and the JSON form of a list of texts.
\<close>

subsection \<open>The runner's proof\<close>

text \<open>What the runner reads besides its receipts: the identity in the deletion marker, whether a cold journal
  is present or unreadable, and the search for the control group.\<close>

record deletion_view =
  dvMark :: "string result"
  dvCold :: bool
  dvCgroup :: "unit result"

definition storageIdleLocked :: "codec \<Rightarrow> runtime_view \<Rightarrow> deletion_view \<Rightarrow> string \<Rightarrow> receipt_dir \<Rightarrow> unit result" where
  "storageIdleLocked cd v dv name dir = bindR (nameVacantLocked cd v name dir) (\<lambda>_. dvCgroup dv)"

definition verifyDeletion :: "codec \<Rightarrow> runtime_view \<Rightarrow> deletion_view \<Rightarrow> StartResultRequest \<Rightarrow> receipt_dir \<Rightarrow> unit result" where
  "verifyDeletion cd v dv q dir =
     bindR (failIf (\<not> validName (sqName q) \<or> sqInstanceID q = [] \<or> (sqRequestID q = []) \<noteq> (sqHostBootID q = []))
       (ErrMsg ''complete incarnation and optional complete attempt required'')) (\<lambda>_.
     bindR (dvMark dv) (\<lambda>mark.
     bindR (failIf (mark \<noteq> sqInstanceID q) (ErrMsg ''exact incarnation deletion fence required'')) (\<lambda>_.
     bindR (if sqRequestID q \<noteq> [] then
         bindR (readReceipt cd q dir) (\<lambda>r.
         failIf (case r of None \<Rightarrow> True | Some r \<Rightarrow> rcState r \<noteq> ''closed'') (ErrMsg ''exact attempt not closed''))
       else Inr ()) (\<lambda>_.
     bindR (failIf (dvCold dv) (ErrMsg ''cold disk journal must be settled before runtime cleanup proof'')) (\<lambda>_.
     storageIdleLocked cd v dv (sqName q) dir)))))"

subsection \<open>The host of a deletion\<close>

record 'h delete_ops =
  dxHost :: "'h host_ops"
  dxGateways :: "Instance \<Rightarrow> 'h \<Rightarrow> unit result \<times> 'h"
  dxCold :: "Instance \<Rightarrow> 'h \<Rightarrow> unit result \<times> 'h"
  dxAbsent :: "StartResultRequest \<Rightarrow> 'h \<Rightarrow> unit result \<times> 'h"
  dxPayload :: "'h \<Rightarrow> unit result \<times> 'h"
  dxOutbound :: "'h \<Rightarrow> string \<times> 'h"
  dxFinalize :: "FinalizeRequest \<Rightarrow> 'h \<Rightarrow> unit result \<times> 'h"
  dxDeleteDevice :: "string \<Rightarrow> 'h \<Rightarrow> unit result \<times> 'h"
  dxRemoveTree :: "string \<Rightarrow> 'h \<Rightarrow> unit result \<times> 'h"
  dxSync :: "string \<Rightarrow> 'h \<Rightarrow> unit result \<times> 'h"
  dxLstat :: "string \<Rightarrow> 'h \<Rightarrow> unit result \<times> 'h"
  dxDeleteID :: "string \<Rightarrow> string"
  dxEncode :: "string list \<Rightarrow> string"
  dxDecode :: "string \<Rightarrow> string list result"

definition absentPath :: "'h delete_ops \<Rightarrow> string \<Rightarrow> (unit, 'h) action" where
  "absentPath xs path =
     bindA (tryA (hostA (dxLstat xs path))) (\<lambda>r.
     if (case r of Inl e \<Rightarrow> errors_is e ErrNotExist | Inr _ \<Rightarrow> False) then retA ()
     else failA (ErrMsg ''cleanup path present or unreadable''))"

definition directChildPath :: "string \<Rightarrow> string \<Rightarrow> string result" where
  "directChildPath base name =
     (let name = TrimSpace name in
      bindR (failIf (name = []) (ErrMsg ''name is empty'')) (\<lambda>_.
      bindR (failIf (name = ''.'' \<or> name = ''..'' \<or> CHR ''/'' \<in> set name) (ErrMsg ''name must be a single path segment'')) (\<lambda>_.
      Inr (base @ ''/'' @ name))))"

definition instanceDir :: "Config \<Rightarrow> string \<Rightarrow> string result" where
  "instanceDir c name = wrapE ''resolve instance directory'' (directChildPath (InstancesDir c) name)"

definition BackupsDir :: "Config \<Rightarrow> string" where
  "BackupsDir c = cfgDataDirAbs c @ ''/backups''"

definition instanceBackupsDir :: "Config \<Rightarrow> string \<Rightarrow> string result" where
  "instanceBackupsDir c name = wrapE ''resolve backups directory'' (directChildPath (BackupsDir c) name)"

text \<open>A row that may be missing.\<close>

definition maybeA :: "'h host_ops \<Rightarrow> (db \<Rightarrow> 'a result) \<Rightarrow> ('a option, 'h) action" where
  "maybeA ho f =
     bindA (tryA (queryA ho f)) (\<lambda>r. case r of
       Inr x \<Rightarrow> retA (Some x)
     | Inl e \<Rightarrow> if errors_is e ErrNoRows then retA None else failA e)"

subsection \<open>The engine\<close>

text \<open>Whether the instance has moved to another host or was never completely imported: then its tailnet
  identity belongs elsewhere.\<close>

definition identity_elsewhere :: "'h host_ops \<Rightarrow> Instance \<Rightarrow> (bool, 'h) action" where
  "identity_elsewhere ho inst =
     bindA (maybeA ho (GetMigration (iID inst))) (\<lambda>migration.
     let moved = (case migration of Some m \<Rightarrow> mgPhase m = Completed | None \<Rightarrow> False) in
     bindA (liftR (failIf (case migration of Some m \<Rightarrow> \<not> moved \<and> mgPhase m \<noteq> Aborted | None \<Rightarrow> False)
       (ErrMsg ''active migration excludes deletion''))) (\<lambda>_.
     bindA (maybeA ho (GetImportReceipt (iID inst))) (\<lambda>receipt.
     retA (moved \<or> (case receipt of Some r \<Rightarrow> irPhase r = Importing | None \<Rightarrow> False)))))"

definition orb_never_enrolled :: "'h host_ops \<Rightarrow> Instance \<Rightarrow> (unit, 'h) action" where
  "orb_never_enrolled ho inst =
     (if KindName inst = KindOrb then
        bindA (tryA (queryA ho (EnrollmentKey (iID inst)))) (\<lambda>r.
        liftR (failIf (\<not> (case r of Inl e \<Rightarrow> errors_is e ErrNoRows | Inr _ \<Rightarrow> False) \<or> iTailnetNodeID inst \<noteq> [])
          (ErrMsg ''native orb enrollment history is not empty'')))
      else retA ())"

definition settle_runtime :: "'h delete_ops \<Rightarrow> Instance \<Rightarrow> (unit, 'h) action" where
  "settle_runtime xs inst =
     bindA (if iStartRequestID inst \<noteq> [] then
         bindA (checkedResult (dxHost xs) inst) (\<lambda>result.
         if spOutcome result \<noteq> StartAbsent \<and> spOutcome result \<noteq> StartRunning
         then failA (ErrWrap (ErrMsg ''runtime outcome remains uncertain'') (ErrMsg (spReason result))) else retA ())
       else retA ()) (\<lambda>_.
     bindA (stopFirecrackerWithState (dxHost xs) inst False) (\<lambda>_.
     bindA (hostA (dxCold xs inst)) (\<lambda>_.
     hostA (dxAbsent xs (attempt_of inst)))))"

fun delete_devices :: "'h delete_ops \<Rightarrow> string \<Rightarrow> tailnet_device list \<Rightarrow> (unit, 'h) action" where
  "delete_devices xs node [] = retA ()"
| "delete_devices xs node (dev # devs) =
     bindA (if tdNodeID dev = node then hostA (dxDeleteDevice xs (deviceIdentifier dev)) else retA ()) (\<lambda>_.
     delete_devices xs node devs)"

definition drop_identity :: "'h delete_ops \<Rightarrow> Instance \<Rightarrow> bool \<Rightarrow> (string, 'h) action" where
  "drop_identity xs inst elsewhere =
     (if iTailnetNodeID inst = [] then retA ''absent''
      else if elsewhere then retA ''retained''
      else if \<not> hoTailnetAPI (dxHost xs) then failA (ErrMsg ''tailnet API required to delete this instance's identity'')
      else bindA (hostA (hoDevices (dxHost xs))) (\<lambda>devices.
        bindA (delete_devices xs (iTailnetNodeID inst) devices) (\<lambda>_. retA ''removed'')))"

definition remove_storage :: "'h delete_ops \<Rightarrow> Instance \<Rightarrow> string \<Rightarrow> (unit, 'h) action" where
  "remove_storage xs inst dir =
     bindA (wrapA (ErrMsg ''remove instance directory'') (hostA (dxRemoveTree xs dir))) (\<lambda>_.
     bindA (hostA (dxSync xs dir)) (\<lambda>_.
     bindA (absentPath xs dir) (\<lambda>_.
     absentPath xs (iRootFSPath inst))))"

definition receipt_for ::
  "Instance \<Rightarrow> string \<Rightarrow> string \<Rightarrow> string \<Rightarrow> string \<Rightarrow> string \<Rightarrow> string \<Rightarrow> time \<Rightarrow> CleanupReceipt" where
  "receipt_for inst requestID actor backendID disposition dir backups now =
     \<lparr>crVersion = 5, crBackendID = backendID, crKind = KindName inst, crImage = ImageName inst, crRequestID = requestID,
      crActor = actor, crInstanceID = iID inst, crName = iName inst, crCreatedAt = iCreatedAt inst,
      crCreatedByUser = iCreatedByUser inst, crCreatedByNode = iCreatedByNode inst,
      crAuthKeyDisposition = (if KindName inst = KindOrb then ''never-minted'' else ''not-asserted''),
      crTailnetNodeID = iTailnetNodeID inst, crTailnetDisposition = disposition, crRetainedTemplates = None,
      crIngressClosed = True, crGatewaysAbsent = True, crRuntimeAbsent = True, crJailerAbsent = True, crCgroupAbsent = True,
      crNetworkAbsent = True, crTapDevice = iTapDevice inst, crNetworkCIDR = iNetworkCIDR inst, crInstanceDir = dir,
      crRootFSPath = iRootFSPath inst, crBackupsDir = backups, crStorageAbsent = True, crBackupsAbsent = False,
      crSnapshotsAbsent = False, crDeletedAt = now\<rparr>"

definition finalize_request :: "Instance \<Rightarrow> string \<Rightarrow> string \<Rightarrow> FinalizeRequest" where
  "finalize_request inst requestID outbound =
     \<lparr>nrInstanceID = iID inst, nrTapDevice = iTapDevice inst, nrNetworkCIDR = iNetworkCIDR inst,
      nrOutboundInterface = outbound, nrRequestID = requestID\<rparr>"

text \<open>Everything after the fence.\<close>

definition delete_fenced ::
  "'h delete_ops \<Rightarrow> Instance \<Rightarrow> string \<Rightarrow> string \<Rightarrow> string \<Rightarrow> bool \<Rightarrow> string \<Rightarrow> string \<Rightarrow> (CleanupReceipt, 'h) action" where
  "delete_fenced xs inst requestID actor backendID elsewhere dir backups =
     bindA (hostA (dxGateways xs inst)) (\<lambda>_.
     bindA (settle_runtime xs inst) (\<lambda>_.
     bindA (hostA (dxPayload xs)) (\<lambda>_.
     bindA (seeA (dxOutbound xs)) (\<lambda>outbound.
     bindA (hostA (dxFinalize xs (finalize_request inst requestID outbound))) (\<lambda>_.
     bindA (drop_identity xs inst elsewhere) (\<lambda>disposition.
     bindA (remove_storage xs inst dir) (\<lambda>_.
     bindA (seeA (hoNow (dxHost xs))) (\<lambda>now.
     let r = receipt_for inst requestID actor backendID disposition dir backups now in
     bindA (execA (dxHost xs) (\<lambda>now. CommitCleanup now r)) (\<lambda>_. retA r)))))))))"

definition DeleteWithProof ::
  "'h delete_ops \<Rightarrow> Config \<Rightarrow> Instance \<Rightarrow> string \<Rightarrow> string \<Rightarrow> string \<Rightarrow> (CleanupReceipt, 'h) action" where
  "DeleteWithProof xs c inst requestID actor backendID =
     bindA (liftR (failIf ((KindName inst \<noteq> KindOrb \<and> KindName inst \<noteq> KindVM) \<or> backendID = [])
       (ErrMsg ''cleanup requires a supported instance and backend identity''))) (\<lambda>_.
     bindA (identity_elsewhere (dxHost xs) inst) (\<lambda>elsewhere.
     bindA (orb_never_enrolled (dxHost xs) inst) (\<lambda>_.
     bindA (liftR (instanceBackupsDir c (iName inst))) (\<lambda>backups.
     bindA (liftR (instanceDir c (iName inst))) (\<lambda>dir.
     bindA (execA (dxHost xs) (\<lambda>now. BeginCleanup now requestID actor inst)) (\<lambda>_.
     delete_fenced xs inst requestID actor backendID elsewhere dir backups))))))"

subsection \<open>Delete\<close>

definition admit_delete :: "'h delete_ops \<Rightarrow> string \<Rightarrow> Instance \<Rightarrow> (LifecycleRequest, 'h) action" where
  "admit_delete xs backendID inst =
     bindA (maybeA (dxHost xs) (CleanupRequest (iID inst))) (\<lambda>found. case found of
       Some request \<Rightarrow> retA request
     | None \<Rightarrow>
       let request = \<lparr>rqID = dxDeleteID xs (iID inst), rqActor = iCreatedByUser inst, rqCommand = ''delete'', rqName = iName inst,
             rqArguments = dxEncode xs [iID inst, iName inst, format_time (iCreatedAt inst), backendID, ImageName inst],
             rqPhase = PhAdmitted, rqExitCode = 0\<rparr> in
       bindA (execA (dxHost xs) (\<lambda>_ d. bindR (AdmitLifecycleRequest request d) (\<lambda>(_, d). Inr d))) (\<lambda>_. retA request))"

definition delete_binding :: "'h delete_ops \<Rightarrow> string \<Rightarrow> Instance \<Rightarrow> LifecycleRequest \<Rightarrow> unit result" where
  "delete_binding xs backendID inst request =
     bindR (dxDecode xs (rqArguments request)) (\<lambda>args.
     bindR (if rqCommand request = ''delete-proof'' then
         (case args of
           [cmd, rid, name, i, created, backend, img] \<Rightarrow>
             bindR (failIf (cmd \<noteq> rqCommand request \<or> rid \<noteq> rqID request \<or> name \<noteq> iName inst)
               (ErrMsg ''cleanup request binding changed'')) (\<lambda>_. Inr [i, name, created, backend, img])
         | _ \<Rightarrow> Inl (ErrMsg ''cleanup request binding changed''))
       else Inr args) (\<lambda>args.
     (case args of
       [i, name, created, backend, img] \<Rightarrow>
         bindR (failIf (rqName request \<noteq> iName inst \<or> i \<noteq> iID inst \<or> name \<noteq> iName inst \<or> backend \<noteq> backendID \<or> img \<noteq> ImageName inst)
           (ErrMsg ''cleanup incarnation or backend binding changed'')) (\<lambda>_.
         failIf (case parseTime created of Inl _ \<Rightarrow> True | Inr t \<Rightarrow> t \<noteq> iCreatedAt inst)
           (ErrMsg ''cleanup creation binding changed''))
     | _ \<Rightarrow> Inl (ErrMsg ''cleanup incarnation or backend binding changed''))))"

text \<open>After the engine: the row is read again, and the error of an interrupted deletion is stored in it.\<close>

definition delete_report :: "'h delete_ops \<Rightarrow> string \<Rightarrow> error option \<Rightarrow> (Instance, 'h) action" where
  "delete_report xs name err =
     bindA (tryA (queryA (dxHost xs) (GetInstance name))) (\<lambda>r. case r of
       Inl e \<Rightarrow> failA (case err of None \<Rightarrow> e | Some e' \<Rightarrow> ErrWrap e' e)
     | Inr inst \<Rightarrow>
       (case err of
         None \<Rightarrow> retA inst
       | Some e \<Rightarrow>
         if iState inst = StateDeleting then
           bindA (touchA (dxHost xs) (inst\<lparr>iLastError := ''delete failed: '' @ error_text e\<rparr>)) (\<lambda>inst.
           bindA (tryA (persistInstance (dxHost xs) inst)) (\<lambda>r. case r of
             Inl e' \<Rightarrow> failA (ErrWrap e e')
           | Inr _ \<Rightarrow> failA e))
         else failA e))"

definition Delete :: "'h delete_ops \<Rightarrow> Config \<Rightarrow> string \<Rightarrow> string \<Rightarrow> (Instance, 'h) action" where
  "Delete xs c backendID name =
     bindA (queryA (dxHost xs) (GetInstance name)) (\<lambda>inst.
     bindA (liftR (failIf (iState inst = StateDeleted) (ErrMsg ''instance is already deleted''))) (\<lambda>_.
     bindA (admit_delete xs backendID inst) (\<lambda>request.
     bindA (liftR (delete_binding xs backendID inst request)) (\<lambda>_.
     bindA (tryA (DeleteWithProof xs c inst (rqID request) (rqActor request) backendID)) (\<lambda>r.
     delete_report xs name (case r of Inl e \<Rightarrow> Some e | Inr _ \<Rightarrow> None))))))"

text \<open>\<open>ReconcileInstance\<close> resumes what is intended: a deletion, a stop, or waiting for the guest.\<close>

definition ReconcileInstance :: "'h delete_ops \<Rightarrow> Config \<Rightarrow> string \<Rightarrow> string \<Rightarrow> (Instance, 'h) action" where
  "ReconcileInstance xs c backendID name =
     bindA (queryA (dxHost xs) (GetInstance name)) (\<lambda>inst.
     if iState inst = StateDeleting then Delete xs c backendID name
     else
       bindA (ReconcileInstanceRuntime (dxHost xs) name) (\<lambda>inst.
       if iState inst = StateStopping then StopWithOptions (dxHost xs) name False
       else if iState inst = StateAwaitingTailnet then
         bindA (reconcileLateTailnetJoin (dxHost xs) inst) (\<lambda>(_, inst). retA inst)
       else if iState inst = StateAwaitingGuest then waitForOrb (dxHost xs) inst
       else retA inst))"

subsection \<open>The host, the runner and the network helper joined\<close>

text \<open>The durable state that a deletion meets outside the database: that of the runner, that of the network
  helper, and the paths that exist. The calls are numbered by the counter of the runner's host.\<close>

record deletion_host =
  dhRun :: runner_host
  dhNet :: net_state
  dhPaths :: "string list"

record deletion_answer =
  daView :: deletion_view
  daCall :: "unit result"
  daOutbound :: string
  daKept :: "string \<Rightarrow> bool"
  daUnreadable :: "string option"

definition on_run :: "(runner_host \<Rightarrow> 'a \<times> runner_host) \<Rightarrow> deletion_host \<Rightarrow> 'a \<times> deletion_host" where
  "on_run f h = (case f (dhRun h) of (x, r) \<Rightarrow> (x, h\<lparr>dhRun := r\<rparr>))"

definition host_on_run :: "runner_host host_ops \<Rightarrow> deletion_host host_ops" where
  "host_on_run ho =
     \<lparr>hoFault = on_run (hoFault ho), hoNow = on_run (hoNow ho), hoNewID = on_run (hoNewID ho), hoEnv = on_run (hoEnv ho),
      hoSerial = (\<lambda>path. on_run (hoSerial ho path)), hoBootID = on_run (hoBootID ho),
      hoStart = (\<lambda>r. on_run (hoStart ho r)), hoResolve = (\<lambda>q. on_run (hoResolve ho q)), hoStop = (\<lambda>r. on_run (hoStop ho r)),
      hoCleanNet = (\<lambda>i tap cidr. on_run (hoCleanNet ho i tap cidr)),
      hoSetupNet = (\<lambda>i tap addr cidr. on_run (hoSetupNet ho i tap addr cidr)),
      hoHydrate = (\<lambda>i. on_run (hoHydrate ho i)), hoDiskLayout = (\<lambda>i. on_run (hoDiskLayout ho i)),
      hoLayoutDone = (\<lambda>i. on_run (hoLayoutDone ho i)), hoPermissions = (\<lambda>i. on_run (hoPermissions ho i)),
      hoTailnetAPI = hoTailnetAPI ho, hoDevices = on_run (hoDevices ho),
      hoVerifyPeer = (\<lambda>dev name. on_run (hoVerifyPeer ho dev name)), hoEnrollment = (\<lambda>i. on_run (hoEnrollment ho i)),
      hoLegacyIdentity = (\<lambda>i. on_run (hoLegacyIdentity ho i)), hoPing = (\<lambda>name. on_run (hoPing ho name)),
      hoTurns = on_run (hoTurns ho), hoJSON = hoJSON ho\<rparr>"

definition host_step :: "deletion_host \<Rightarrow> nat" where
  "host_step h = rhStep (dhRun h)"

definition next_call :: "deletion_host \<Rightarrow> deletion_host" where
  "next_call h = h\<lparr>dhRun := tick (dhRun h)\<rparr>"

definition ask :: "(nat \<Rightarrow> deletion_answer) \<Rightarrow> (deletion_answer \<Rightarrow> 'a) \<Rightarrow> deletion_host \<Rightarrow> 'a \<times> deletion_host" where
  "ask da sel h = (sel (da (host_step h)), next_call h)"

definition VerifyInstanceAbsent ::
  "codec \<Rightarrow> answers \<Rightarrow> (nat \<Rightarrow> deletion_answer) \<Rightarrow> StartResultRequest \<Rightarrow> deletion_host \<Rightarrow> unit result \<times> deletion_host" where
  "VerifyInstanceAbsent cd ora da q h =
     (let a = ora (host_step h) in
      (case haPost a of
         Delivered \<Rightarrow> verifyDeletion cd (haView a) (daView (da (host_step h))) q (rhDirs (dhRun h) (sqName q))
       | LostRequest e \<Rightarrow> Inl e | LostReply e \<Rightarrow> Inl e, next_call h))"

definition FinalizeInstanceNetwork ::
  "net_codec \<Rightarrow> net_world \<Rightarrow> answers \<Rightarrow> FinalizeRequest \<Rightarrow> deletion_host \<Rightarrow> unit result \<times> deletion_host" where
  "FinalizeInstanceNetwork nc w ora q h =
     (case FinalizeRequest_Validate nc q of
       Inl e \<Rightarrow> (Inl e, next_call h)
     | Inr _ \<Rightarrow>
       (case handleFinalize nc w q (dhNet h) of (r, s) \<Rightarrow>
         (case haPost (ora (host_step h)) of
           Delivered \<Rightarrow> (r, next_call (h\<lparr>dhNet := s\<rparr>))
         | LostRequest e \<Rightarrow> (Inl e, next_call h)
         | LostReply e \<Rightarrow> (Inl e, next_call (h\<lparr>dhNet := s\<rparr>)))))"

text \<open>A removal that fails may have removed some of the paths.\<close>

definition remove_tree :: "(nat \<Rightarrow> deletion_answer) \<Rightarrow> string \<Rightarrow> deletion_host \<Rightarrow> unit result \<times> deletion_host" where
  "remove_tree da path h =
     (let a = da (host_step h); under = (\<lambda>p. p = path \<or> HasPrefix p (path @ ''/'')) in
      (daCall a, next_call (h\<lparr>dhPaths :=
         filter (\<lambda>p. \<not> under p \<or> isl (daCall a) \<and> daKept a p) (dhPaths h)\<rparr>)))"

definition lstat :: "(nat \<Rightarrow> deletion_answer) \<Rightarrow> string \<Rightarrow> deletion_host \<Rightarrow> unit result \<times> deletion_host" where
  "lstat da path h =
     (case daUnreadable (da (host_step h)) of
       Some why \<Rightarrow> Inl (ErrMsg why)
     | None \<Rightarrow> if path \<in> set (dhPaths h) then Inr () else Inl ErrNotExist, next_call h)"

definition deletion_ops ::
  "codec \<Rightarrow> answers \<Rightarrow> net_codec \<Rightarrow> net_world \<Rightarrow> (nat \<Rightarrow> deletion_answer) \<Rightarrow>
    (string \<Rightarrow> string) \<Rightarrow> (string list \<Rightarrow> string) \<Rightarrow> (string \<Rightarrow> string list result) \<Rightarrow> deletion_host delete_ops" where
  "deletion_ops cd ora nc w da newID enc dec =
     \<lparr>dxHost = host_on_run (runner_ops cd ora), dxGateways = (\<lambda>_. ask da daCall), dxCold = (\<lambda>_. ask da daCall),
      dxAbsent = VerifyInstanceAbsent cd ora da, dxPayload = ask da daCall, dxOutbound = ask da daOutbound,
      dxFinalize = FinalizeInstanceNetwork nc w ora, dxDeleteDevice = (\<lambda>_. ask da daCall), dxRemoveTree = remove_tree da,
      dxSync = (\<lambda>_. ask da daCall), dxLstat = lstat da, dxDeleteID = newID, dxEncode = enc, dxDecode = dec\<rparr>"

end
