(* ===== verification/Commands.thy ===== *)
theory Commands
  imports Deletion Service
begin

section \<open>Lifecycle commands\<close>

text \<open>
  The commands of src/internal/service that start, stop, restart and delete an instance, the bound
  operations of src/internal/service/orb_operation.go and src/internal/service/cleanup.go, the bootstrap
  of an orb (src/internal/service/orb.go), and the loops that restore and reconcile all instances.

  A command runs under the lock of its instance (theory \<open>Gate\<close>), so its calls follow each other without
  another command on the instance in between. What it prints is the value \<open>reply\<close>, which stands for the
  text and for the JSON object; standard error repeats the error. \<open>app\<close> holds what the commands use besides
  the provisioner.
\<close>

datatype reply = NoReply | Said string | Receipt CleanupReceipt | Operation LifecycleRequest | Acted string Instance

type_synonym command_result = "reply \<times> int \<times> error option"

record 'h app =
  apOps :: "'h delete_ops"
  apConfig :: Config
  apBackendID :: string
  apUUID :: "string \<Rightarrow> bool"
  apSync :: "'h \<Rightarrow> unit \<times> 'h"
  apColdDisk :: "string \<Rightarrow> string \<Rightarrow> 'h \<Rightarrow> string result \<times> 'h"
  apExchange :: "string \<Rightarrow> int64 \<Rightarrow> 'h \<Rightarrow> unit result \<times> 'h"
  apCancelled :: "'h \<Rightarrow> bool \<times> 'h"
  apLease :: "'h \<Rightarrow> bool \<times> 'h"
  apFree :: "string \<Rightarrow> 'h \<Rightarrow> bool \<times> 'h"

abbreviation apHost :: "'h app \<Rightarrow> 'h host_ops" where
  "apHost ap \<equiv> dxHost (apOps ap)"

definition cleanupError :: "error \<Rightarrow> command_result" where
  "cleanupError e = (NoReply, 75, Some e)"

definition usage_error :: "string \<Rightarrow> command_result" where
  "usage_error msg = (NoReply, 2, Some (ErrMsg msg))"

definition failed :: "error \<Rightarrow> command_result" where
  "failed e = (NoReply, 1, Some e)"

definition acted :: "string \<Rightarrow> Instance \<Rightarrow> command_result" where
  "acted what inst = (Acted what inst, 0, None)"

definition existing_instance :: "error \<Rightarrow> error" where
  "existing_instance e = (if errors_is e ErrNoRows then ErrMsg ''instance does not exist'' else e)"

definition missingInstanceResult :: "error \<Rightarrow> command_result" where
  "missingInstanceResult e = failed (existing_instance e)"

text \<open>\<open>if err != nil { return report(err) }\<close>.\<close>

definition callC ::
  "('a, 'h) action \<Rightarrow> (error \<Rightarrow> command_result) \<Rightarrow> ('a \<Rightarrow> (command_result, 'h) action) \<Rightarrow> (command_result, 'h) action" where
  "callC m report k = bindA (tryA m) (\<lambda>r. case r of Inl e \<Rightarrow> retA (report e) | Inr x \<Rightarrow> k x)"

text \<open>\<open>defer a.syncManagedGatewaysBestEffort()\<close>.\<close>

definition synced :: "'h app \<Rightarrow> (command_result, 'h) action \<Rightarrow> (command_result, 'h) action" where
  "synced ap m = bindA m (\<lambda>r. bindA (seeA (apSync ap)) (\<lambda>_. retA r))"

subsection \<open>Operations bound to an incarnation\<close>

definition checkInstanceBinding :: "string \<Rightarrow> Instance \<Rightarrow> string list \<Rightarrow> unit result" where
  "checkInstanceBinding backendID inst identity =
     (case identity of
       [i, created, backend, img] \<Rightarrow>
         bindR (parseTime created) (\<lambda>t.
         failIf (iID inst \<noteq> i \<or> iCreatedAt inst \<noteq> t \<or> backendID = [] \<or> backendID \<noteq> backend \<or> ImageName inst \<noteq> img)
           (ErrMsg ''instance incarnation or backend identity mismatch''))
     | _ \<Rightarrow> Inl (ErrMsg ''expected UUID CREATED_AT BACKEND_ID IMAGE''))"

definition checkOrbBinding :: "'h app \<Rightarrow> Instance \<Rightarrow> string list \<Rightarrow> (unit, 'h) action" where
  "checkOrbBinding ap inst identity =
     bindA (liftR (checkInstanceBinding (apBackendID ap) inst identity)) (\<lambda>_.
     bindA (liftR (failIf (KindName inst \<noteq> KindOrb) (ErrMsg ''orb incarnation required''))) (\<lambda>_.
     bindA (maybeA (apHost ap) (GetMigration (iID inst))) (\<lambda>m.
     bindA (liftR (failIf (case m of Some m \<Rightarrow> mgPhase m \<noteq> Aborted | None \<Rightarrow> False)
       (ErrMsg ''migration excludes bound orb operations''))) (\<lambda>_.
     bindA (tryA (queryA (apHost ap) (GetImportReceipt (iID inst)))) (\<lambda>r.
     liftR (failIf (\<not> (case r of Inl e \<Rightarrow> errors_is e ErrNoRows | Inr _ \<Rightarrow> False))
       (ErrMsg ''import history excludes bound orb operations'')))))))"

definition checkOrbIdentity :: "'h app \<Rightarrow> Instance \<Rightarrow> string list \<Rightarrow> (unit, 'h) action" where
  "checkOrbIdentity ap inst identity =
     bindA (checkOrbBinding ap inst identity) (\<lambda>_. queryA (apHost ap) (CheckCleanupFence (iID inst)))"

definition orbOperationRequest :: "'h app \<Rightarrow> Actor \<Rightarrow> string \<Rightarrow> string \<Rightarrow> string \<Rightarrow> string list \<Rightarrow> LifecycleRequest" where
  "orbOperationRequest ap actor operation name i identity =
     \<lparr>rqID = i, rqActor = UserLogin actor, rqCommand = operation, rqName = name,
      rqArguments = dxEncode (apOps ap) (operation # name # identity), rqPhase = PhAdmitted, rqExitCode = 0\<rparr>"

text \<open>A store call that gives a value besides the new database.\<close>

definition updateA :: "'h host_ops \<Rightarrow> (db \<Rightarrow> ('a \<times> db) result) \<Rightarrow> ('a, 'h) action" where
  "updateA ho f = stmtA ho (\<lambda>(d, h). case f d of Inl e \<Rightarrow> (Inl e, d, h) | Inr (x, d') \<Rightarrow> (Inr x, d', h))"

definition beginOrbOperation ::
  "'h app \<Rightarrow> Actor \<Rightarrow> Instance \<Rightarrow> string \<Rightarrow> string list \<Rightarrow> (unit, 'h) action" where
  "beginOrbOperation ap actor inst operation args =
     (if args = [] then retA ()
      else if length args \<noteq> 6 \<or> args ! 0 \<noteq> ''--expect''
      then failA (ErrMsg ''expected --expect REQUEST_ID UUID CREATED_AT BACKEND_ID IMAGE'')
      else if \<not> apUUID ap (args ! 1) then failA (ErrMsg ''invalid UUID'')
      else
        bindA (checkOrbIdentity ap inst (drop 2 args)) (\<lambda>_.
        let r = orbOperationRequest ap actor operation (iName inst) (args ! 1) (drop 2 args) in
        bindA (updateA (apHost ap) (AdmitLifecycleRequest r)) (\<lambda>admitted.
        if \<not> admitted then failA (ErrMsg ''operation already admitted; query operation-result, never replay'')
        else execA (apHost ap) (\<lambda>_. BeginLifecycleRequest (rqID r) (rqActor r)))))"

definition finishOrbOperation :: "'h app \<Rightarrow> Actor \<Rightarrow> string list \<Rightarrow> (unit, 'h) action" where
  "finishOrbOperation ap actor args =
     (if args = [] then retA ()
      else
        bindA (updateA (apHost ap) (FinishLifecycleRequest (args ! 1) (UserLogin actor) 0)) (\<lambda>found.
        if found then retA () else failA (ErrMsg ''operation no longer executing'')))"

text \<open>Cancelling stays when the comparison of the binding then fails.\<close>

definition cancelA :: "'h host_ops \<Rightarrow> LifecycleRequest \<Rightarrow> (unit, 'h) action" where
  "cancelA ho r = stmtA ho (\<lambda>(d, h). case CancelLifecycleRequest r d of (x, d') \<Rightarrow> (x, d', h))"

definition orb_operation :: "string \<Rightarrow> bool" where
  "orb_operation cmd \<longleftrightarrow> cmd \<in> {''start'', ''stop'', ''bootstrap''}"

definition operation_result :: "'h app \<Rightarrow> Actor \<Rightarrow> string \<Rightarrow> (command_result, 'h) action" where
  "operation_result ap actor i =
     callC (queryA (apHost ap) (GetLifecycleRequest i (UserLogin actor))) cleanupError (\<lambda>r.
     if \<not> orb_operation (rqCommand r) then retA (cleanupError (ErrMsg ''not an orb operation''))
     else retA (Operation r, 0, None))"

definition cmdOperationResult :: "'h app \<Rightarrow> Actor \<Rightarrow> string list \<Rightarrow> (command_result, 'h) action" where
  "cmdOperationResult ap actor args =
     (if length args = 8 \<and> args ! 0 = ''operation-cancel'' then
        if args ! 3 \<noteq> ''start'' \<and> args ! 3 \<noteq> ''stop'' then retA (cleanupError (ErrMsg ''unsupported cancellable operation''))
        else if \<not> apUUID ap (args ! 1) then retA (cleanupError (ErrMsg ''invalid UUID''))
        else
          callC (queryA (apHost ap) (lookupVisibleInstance (apConfig ap) actor (args ! 2))) cleanupError (\<lambda>inst.
          callC (checkOrbIdentity ap inst (drop 4 args)) cleanupError (\<lambda>_.
          callC (cancelA (apHost ap) (orbOperationRequest ap actor (args ! 3) (args ! 2) (args ! 1) (drop 4 args))) cleanupError (\<lambda>_.
          operation_result ap actor (args ! 1))))
      else if length args \<noteq> 2 \<or> args ! 0 \<noteq> ''operation-result'' then
        retA (cleanupError (ErrMsg
          ''usage: operation-result REQUEST_ID | operation-cancel REQUEST_ID NAME OPERATION UUID CREATED_AT BACKEND_ID IMAGE''))
      else operation_result ap actor (args ! 1))"

subsection \<open>Starting, stopping and restarting\<close>

text \<open>The flag after the name, and the arguments without it.\<close>

definition option_flag :: "string \<Rightarrow> string list \<Rightarrow> bool \<times> string list" where
  "option_flag flag args =
     (if length args > 2 \<and> args ! 2 = flag then (True, take 2 args @ drop 3 args) else (False, args))"

definition start_bound :: "'h app \<Rightarrow> Actor \<Rightarrow> string list \<Rightarrow> bool \<Rightarrow> Instance \<Rightarrow> (command_result, 'h) action" where
  "start_bound ap actor args discard current =
     callC (beginOrbOperation ap actor current ''start'' (drop 2 args)) cleanupError (\<lambda>_.
     bindA (tryA (StartWithOptions (apHost ap) (apConfig ap) (args ! 1) discard)) (\<lambda>r. case r of
       Inl e \<Rightarrow>
         if length args = 8 \<and> errors_is e ErrStartRejected then
           callC (execA (apHost ap) (\<lambda>_. RejectLifecycleStart (args ! 3) (UserLogin actor))) cleanupError (\<lambda>_. retA (failed e))
         else retA (failed e)
     | Inr inst \<Rightarrow>
         callC (finishOrbOperation ap actor (drop 2 args)) cleanupError (\<lambda>_. retA (acted ''started'' inst))))"

definition cmdStart :: "'h app \<Rightarrow> Actor \<Rightarrow> string list \<Rightarrow> (command_result, 'h) action" where
  "cmdStart ap actor args =
     (case option_flag ''--discard-state'' args of (discard, args) \<Rightarrow>
      if length args \<noteq> 2 \<and> length args \<noteq> 8 then retA (usage_error ''usage: start <name> [--discard-state]'')
      else synced ap
        (callC (queryA (apHost ap) (lookupVisibleInstance (apConfig ap) actor (args ! 1))) missingInstanceResult (\<lambda>current.
         start_bound ap actor args discard current)))"

text \<open>The disk of a stopped instance is moved to the cold store on the way out; a failure is only logged.\<close>

definition offload_after_stop :: "'h app \<Rightarrow> bool \<Rightarrow> Instance \<Rightarrow> (unit, 'h) action" where
  "offload_after_stop ap save inst =
     (if \<not> save \<and> cfgColdStorageAfterStop (apConfig ap) \<and> cfgColdStorageHost (apConfig ap) \<noteq> []
      then ignoreA (hostA (apColdDisk ap (iName inst) ''offload'')) else retA ())"

definition stop_bound :: "'h app \<Rightarrow> Actor \<Rightarrow> string list \<Rightarrow> bool \<Rightarrow> Instance \<Rightarrow> (command_result, 'h) action" where
  "stop_bound ap actor args save current =
     callC (beginOrbOperation ap actor current ''stop'' (drop 2 args)) cleanupError (\<lambda>_.
     callC (StopWithOptions (apHost ap) (args ! 1) save) missingInstanceResult (\<lambda>inst.
     callC (finishOrbOperation ap actor (drop 2 args)) cleanupError (\<lambda>_.
     bindA (offload_after_stop ap save inst) (\<lambda>_. retA (acted ''stopped'' inst)))))"

definition cmdStop :: "'h app \<Rightarrow> Actor \<Rightarrow> string list \<Rightarrow> (command_result, 'h) action" where
  "cmdStop ap actor args =
     (case option_flag ''--save-state'' args of (save, args) \<Rightarrow>
      if length args \<noteq> 2 \<and> length args \<noteq> 8 then retA (usage_error ''usage: stop <name> [--save-state]'')
      else synced ap
        (callC (queryA (apHost ap) (lookupVisibleInstance (apConfig ap) actor (args ! 1))) missingInstanceResult (\<lambda>current.
         stop_bound ap actor args save current)))"

definition cmdRestart :: "'h app \<Rightarrow> Actor \<Rightarrow> string list \<Rightarrow> (command_result, 'h) action" where
  "cmdRestart ap actor args =
     (if length args \<noteq> 2 then retA (usage_error ''usage: restart <name>'')
      else synced ap
        (callC (queryA (apHost ap) (lookupVisibleInstance (apConfig ap) actor (args ! 1))) missingInstanceResult (\<lambda>_.
         bindA (tryA (StopWithOptions (apHost ap) (args ! 1) False)) (\<lambda>r. case r of
           Inl e \<Rightarrow>
             if Contains (error_text e) ''already stopped''
             then callC (StartWithOptions (apHost ap) (apConfig ap) (args ! 1) False) failed (\<lambda>inst. retA (acted ''restarted'' inst))
             else retA (missingInstanceResult e)
         | Inr _ \<Rightarrow>
             callC (StartWithOptions (apHost ap) (apConfig ap) (args ! 1) False) failed (\<lambda>inst. retA (acted ''restarted'' inst))))))"

subsection \<open>Deleting\<close>

definition closed_request :: "'h app \<Rightarrow> LifecycleRequest \<Rightarrow> error \<Rightarrow> (command_result, 'h) action" where
  "closed_request ap request e =
     bindA (tryA (queryA (apHost ap) (GetLifecycleRequest (rqID request) (rqActor request)))) (\<lambda>r. case r of
       Inr current \<Rightarrow>
         if rqPhase current = PhAdmitted
         then callC (updateA (apHost ap) (FinishLifecycleRequest (rqID request) (rqActor request) 75)) cleanupError
           (\<lambda>_. retA (cleanupError e))
         else retA (cleanupError e)
     | Inl _ \<Rightarrow> retA (cleanupError e))"

definition delete_new :: "'h app \<Rightarrow> Actor \<Rightarrow> LifecycleRequest \<Rightarrow> string list \<Rightarrow> (command_result, 'h) action" where
  "delete_new ap actor request identity =
     callC (queryA (apHost ap) (lookupVisibleInstance (apConfig ap) actor (rqName request))) cleanupError (\<lambda>inst.
     callC (liftR (checkInstanceBinding (apBackendID ap) inst identity)) cleanupError (\<lambda>_.
     callC (updateA (apHost ap) (AdmitLifecycleRequest request)) cleanupError (\<lambda>_.
     bindA (tryA (DeleteWithProof (apOps ap) (apConfig ap) inst (rqID request) (rqActor request) (apBackendID ap))) (\<lambda>r. case r of
       Inl e \<Rightarrow> closed_request ap request e
     | Inr p \<Rightarrow> retA (Receipt p, 0, None)))))"

definition cmdDeleteExpected :: "'h app \<Rightarrow> Actor \<Rightarrow> string list \<Rightarrow> (command_result, 'h) action" where
  "cmdDeleteExpected ap actor args =
     (if length args \<noteq> 8 \<or> args ! 2 \<noteq> ''--expect''
      then retA (cleanupError (ErrMsg ''usage: delete NAME --expect REQUEST_ID UUID CREATED_AT BACKEND_ID IMAGE''))
      else if \<not> apUUID ap (args ! 3) \<or> \<not> apUUID ap (args ! 4) then retA (cleanupError (ErrMsg ''invalid UUID''))
      else
        let request = \<lparr>rqID = args ! 3, rqActor = UserLogin actor, rqCommand = ''delete-proof'', rqName = args ! 1,
              rqArguments = dxEncode (apOps ap) (''delete-proof'' # (args ! 3) # (args ! 1) # drop 4 args),
              rqPhase = PhAdmitted, rqExitCode = 0\<rparr> in
        callC (maybeA (apHost ap) (GetLifecycleRequest (rqID request) (rqActor request))) cleanupError (\<lambda>old. case old of
          Some old \<Rightarrow>
            if \<not> same_binding old request then retA (cleanupError (ErrMsg ''request binding mismatch''))
            else
              callC (maybeA (apHost ap) (GetCleanupReceipt (rqID request) (rqActor request))) cleanupError (\<lambda>found. case found of
                Some p \<Rightarrow> retA (Receipt p, 0, None)
              | None \<Rightarrow> delete_new ap actor request (drop 4 args))
        | None \<Rightarrow> delete_new ap actor request (drop 4 args)))"

definition cmdDelete :: "'h app \<Rightarrow> Actor \<Rightarrow> string list \<Rightarrow> (command_result, 'h) action" where
  "cmdDelete ap actor args =
     (if length args > 2 then cmdDeleteExpected ap actor args
      else if length args \<noteq> 2
      then retA (usage_error ''usage: delete NAME [--expect REQUEST_ID UUID CREATED_AT BACKEND_ID IMAGE]'')
      else synced ap
        (callC (queryA (apHost ap) (lookupVisibleInstance (apConfig ap) actor (args ! 1))) missingInstanceResult (\<lambda>_.
         callC (Delete (apOps ap) (apConfig ap) (apBackendID ap) (args ! 1)) missingInstanceResult (\<lambda>inst.
         retA (acted ''deleted'' inst)))))"

definition cmdCleanupReceipt :: "'h app \<Rightarrow> Actor \<Rightarrow> string list \<Rightarrow> (command_result, 'h) action" where
  "cmdCleanupReceipt ap actor args =
     (if length args = 3 \<and> args ! 1 = ''--instance'' then
        if \<not> apUUID ap (args ! 2) then retA (cleanupError (ErrMsg ''invalid UUID''))
        else
          callC (queryA (apHost ap) (CleanupReceiptForInstance (args ! 2))) cleanupError (\<lambda>r.
          if \<not> canAccessInstance (apConfig ap) actor (empty_instance\<lparr>iCreatedByUser := crCreatedByUser r\<rparr>)
          then retA (cleanupError ErrNoRows) else retA (Receipt r, 0, None))
      else if length args \<noteq> 2
      then retA (cleanupError (ErrMsg ''usage: cleanup-receipt REQUEST_ID | cleanup-receipt --instance UUID''))
      else
        bindA (tryA (queryA (apHost ap) (GetCleanupReceipt (args ! 1) (UserLogin actor)))) (\<lambda>r. case r of
          Inr r \<Rightarrow> retA (Receipt r, 0, None)
        | Inl e \<Rightarrow>
          bindA (tryA (queryA (apHost ap) (GetLifecycleRequest (args ! 1) (UserLogin actor)))) (\<lambda>q. case q of
            Inr _ \<Rightarrow> retA (cleanupError (ErrMsg ''cleanup request; no committed receipt''))
          | Inl _ \<Rightarrow> retA (cleanupError e))))"

subsection \<open>Disks and the bootstrap of an orb\<close>

definition cmdDisk :: "'h app \<Rightarrow> Actor \<Rightarrow> string list \<Rightarrow> (command_result, 'h) action" where
  "cmdDisk ap actor args =
     (if length args \<noteq> 3 \<or> args ! 1 \<notin> {''status'', ''offload'', ''hydrate'', ''purge''}
      then retA (usage_error ''usage: disk <status|offload|hydrate|purge> <name>'')
      else
        callC (queryA (apHost ap) (lookupVisibleInstance (apConfig ap) actor (args ! 2))) missingInstanceResult (\<lambda>inst.
        if KindName inst = KindOrb \<and> args ! 1 \<noteq> ''status'' \<and> \<not> isAdmin (apConfig ap) actor
        then retA (failed (ErrMsg ''explicit disk mutations for native orbs require an admin''))
        else callC (hostA (apColdDisk ap (iName inst) (args ! 1))) failed (\<lambda>phase. retA (Said phase, 0, None))))"

text \<open>\<open>strconv.FormatInt\<close> in base ten.\<close>

definition FormatInt :: "int64 \<Rightarrow> string" where
  "FormatInt n = (if n < 0 then CHR ''-'' # decimal (nat (- n)) else decimal (nat n))"

text \<open>The request comes decoded: its generation, or \<open>None\<close> when the text on standard input is not a request.\<close>

definition orb_bootstrap_guest :: "'h app \<Rightarrow> string \<Rightarrow> int64 \<Rightarrow> (unit, 'h) action" where
  "orb_bootstrap_guest ap name generation =
     (if generation \<le> 0 then failA (ErrMsg ''positive bootstrap generation required'')
      else hostA (apExchange ap (InstancesDir (apConfig ap) @ ''/'' @ name @ ''/orb.vsock'') generation))"

definition handleOrbBootstrap ::
  "'h app \<Rightarrow> Actor \<Rightarrow> string list \<Rightarrow> int64 option \<Rightarrow> (command_result, 'h) action" where
  "handleOrbBootstrap ap actor args body =
     (if length args \<noteq> 9 \<or> args ! 3 \<noteq> ''--expect''
      then retA (failed (ErrMsg ''usage: orb bootstrap NAME --expect REQUEST_ID UUID CREATED_AT BACKEND_ID IMAGE''))
      else if \<not> apUUID ap (args ! 4) then retA (failed (ErrMsg ''invalid bootstrap request ID''))
      else
        callC (queryA (apHost ap) (lookupVisibleInstance (apConfig ap) actor (args ! 2))) failed (\<lambda>inst.
        if KindName inst \<noteq> KindOrb \<or> iState inst \<noteq> StateReady
        then retA (failed (ErrMsg ''bootstrap requires a ready orb''))
        else case body of
          None \<Rightarrow> retA (failed (ErrMsg ''invalid orb bootstrap request''))
        | Some generation \<Rightarrow>
          callC (checkOrbIdentity ap inst (drop 5 args)) failed (\<lambda>_.
          let r = orbOperationRequest ap actor ''bootstrap'' (iName inst) (args ! 4) (drop 5 args @ [FormatInt generation]) in
          callC (execA (apHost ap) (\<lambda>now. AdmitBootstrap now r (iID inst) (iCreatedAt inst) generation)) failed (\<lambda>_.
          callC (orb_bootstrap_guest ap (iName inst) generation)
            (\<lambda>_. failed (ErrMsg ''orb bootstrap failed; inspect the guest bootstrap service'')) (\<lambda>_.
          callC (finishOrbOperation ap actor (drop 3 args)) failed (\<lambda>_.
          retA (Said ''orb bootstrap started'', 0, None)))))))"

subsection \<open>All instances\<close>

fun restore_each :: "'h app \<Rightarrow> Instance list \<Rightarrow> (unit, 'h) action" where
  "restore_each ap [] = retA ()"
| "restore_each ap (inst # insts) =
     bindA (seeA (apCancelled ap)) (\<lambda>cancelled.
     if cancelled then retA ()
     else bindA (ignoreA (RestoreInstance (apHost ap) (apConfig ap) (iName inst))) (\<lambda>_. restore_each ap insts))"

definition restoreInstances :: "'h app \<Rightarrow> (unit, 'h) action" where
  "restoreInstances ap =
     bindA (tryA (queryA (apHost ap) (ListInstances False))) (\<lambda>r.
     bindA (case r of Inl _ \<Rightarrow> retA () | Inr insts \<Rightarrow> restore_each ap insts) (\<lambda>_.
     seeA (apSync ap)))"

text \<open>The loop ends when the context is cancelled or a snapshot holds the gate, and passes over an instance
  whose lock is taken. The result tells whether it came to the end.\<close>

fun reconcile_each :: "'h app \<Rightarrow> Instance list \<Rightarrow> (bool, 'h) action" where
  "reconcile_each ap [] = retA True"
| "reconcile_each ap (inst # insts) =
     bindA (seeA (apCancelled ap)) (\<lambda>cancelled.
     if cancelled then retA False
     else bindA (seeA (apLease ap)) (\<lambda>lease.
     if \<not> lease then retA False
     else bindA (seeA (apFree ap (iName inst))) (\<lambda>free.
     if \<not> free then reconcile_each ap insts
     else bindA (ignoreA (ReconcileInstance (apOps ap) (apConfig ap) (apBackendID ap) (iName inst))) (\<lambda>_.
       reconcile_each ap insts))))"

definition reconcileInstances :: "'h app \<Rightarrow> (unit, 'h) action" where
  "reconcileInstances ap =
     bindA (tryA (queryA (apHost ap) (ListInstances False))) (\<lambda>r. case r of
       Inl _ \<Rightarrow> retA ()
     | Inr insts \<Rightarrow> bindA (reconcile_each ap insts) (\<lambda>finished. if finished then seeA (apSync ap) else retA ()))"

end
