(* ===== verification/DeletionProofs.thy ===== *)
theory DeletionProofs
  imports Deletion RunnerContract NetHelperProofs StoreProps
begin

section \<open>What a deletion guarantees\<close>

text \<open>
  Whatever the host answers, the database is left as it was, fenced to the deletion, or with the
  deletion committed; and a deletion is only committed after every part of the instance was proved to
  be gone. The second part is stated against a contract of the host (\<open>deletion_contract\<close>), which the
  receipts of the runner, the network helper and the file system meet.
\<close>

subsection \<open>The database\<close>

lemma dwp_maybe: "(\<And>x. Q x d) \<Longrightarrow> (\<And>e. E e d) \<Longrightarrow> dwp (maybeA ho f) Q E d"
  unfolding maybeA_def by (intro dwp_bind dwp_try dwp_query dwp_sum dwp_if dwp_ret dwp_fail)

lemma dwp_absentPath: "Q () d \<Longrightarrow> (\<And>e. E e d) \<Longrightarrow> dwp (absentPath xs path) Q E d"
  unfolding absentPath_def by (intro dwp_rules dwp_if)

lemma dwp_elsewhere: "(\<And>x. Q x d) \<Longrightarrow> (\<And>e. E e d) \<Longrightarrow> dwp (identity_elsewhere ho inst) Q E d"
  unfolding identity_elsewhere_def Let_def by (intro dwp_bind dwp_maybe dwp_lift dwp_ret)

lemma dwp_never_enrolled: "Q () d \<Longrightarrow> (\<And>e. E e d) \<Longrightarrow> dwp (orb_never_enrolled ho inst) Q E d"
  unfolding orb_never_enrolled_def by (intro dwp_if dwp_rules dwp_lift) simp_all

lemma dwp_settle: "Q () d \<Longrightarrow> (\<And>e. E e d) \<Longrightarrow> dwp (settle_runtime xs inst) Q E d"
  unfolding settle_runtime_def stopFirecrackerWithState_def by (intro dwp_rules dwp_if) simp_all

lemma dwp_devices: "Q () d \<Longrightarrow> (\<And>e. E e d) \<Longrightarrow> dwp (delete_devices xs node devs) Q E d"
proof (induction devs)
  case (Cons dev devs)
  show ?case unfolding delete_devices.simps by (intro dwp_rules dwp_if Cons)
qed (simp add: dwp_ret)

lemma dwp_identity_dropped: "(\<And>x. Q x d) \<Longrightarrow> (\<And>e. E e d) \<Longrightarrow> dwp (drop_identity xs inst b) Q E d"
  unfolding drop_identity_def by (intro dwp_if dwp_rules dwp_devices)

lemma dwp_storage: "Q () d \<Longrightarrow> (\<And>e. E e d) \<Longrightarrow> dwp (remove_storage xs inst dir) Q E d"
  unfolding remove_storage_def by (intro dwp_rules dwp_absentPath)

definition receipt_bound :: "Instance \<Rightarrow> string \<Rightarrow> string \<Rightarrow> CleanupReceipt \<Rightarrow> bool" where
  "receipt_bound inst requestID actor r \<longleftrightarrow>
     crRequestID r = requestID \<and> crActor r = actor \<and> crInstanceID r = iID inst \<and> crName r = iName inst"

lemma dwp_delete_fenced:
  "dwp (delete_fenced xs inst requestID actor backendID elsewhere dir backups)
    (\<lambda>r d'. receipt_bound inst requestID actor r \<and> (\<exists>t. CommitCleanup t r d = Inr d')) (\<lambda>_ d'. d' = d) d"
  unfolding delete_fenced_def Let_def
  by (intro dwp_rules dwp_settle dwp_identity_dropped dwp_storage dwp_exec)
    (auto simp: receipt_bound_def receipt_for_def)

lemma dwp_delete:
  "dwp (DeleteWithProof xs c inst requestID actor backendID)
    (\<lambda>r d'. receipt_bound inst requestID actor r \<and>
       (\<exists>t t' d1. BeginCleanup t requestID actor inst d = Inr d1 \<and> CommitCleanup t' r d1 = Inr d'))
    (\<lambda>_ d'. d' = d \<or> (\<exists>t. BeginCleanup t requestID actor inst d = Inr d')) d"
  unfolding DeleteWithProof_def
  by (intro dwp_bind dwp_lift dwp_elsewhere dwp_never_enrolled dwp_exec dwp_mono [OF dwp_delete_fenced]) auto

text \<open>An instance whose deletion has begun under a request and is not over: its row is in deletion, the request is
  executing and holds the fence.\<close>

definition in_deletion :: "string \<Rightarrow> string \<Rightarrow> Instance \<Rightarrow> db \<Rightarrow> bool" where
  "in_deletion q a inst d \<longleftrightarrow>
     \<lparr>fnInstanceID = iID inst, fnRequestID = q\<rparr> \<in> set (cleanup_fences d) \<and>
     (\<exists>x \<in> set (lifecycle_requests d). deletion_row q a (iName inst) {PhExecuting} x) \<and>
     (\<exists>r \<in> set (instances d). \<forall>t. incarnation_row t inst {StateDeleting} r)"

lemma begun_in_deletion:
  assumes "BeginCleanup t q a inst d = Inr d'" "\<not> IsZero (iCreatedAt inst)"
  shows "in_deletion q a inst d'"
  using assms(1)
proof (rule BeginCleanup_InrE)
  fix resume cmd fences
  assume d': "d' = begun t q a inst resume cmd fences d"
    and rows: "row_count (deletion_row q a (iName inst) (begin_phases resume)) (lifecycle_requests d) = 1"
      "row_count (incarnation_row t inst (begin_states resume cmd)) (instances d) = 1"
    and fence: "if resume then fences = cleanup_fences d \<and> \<lparr>fnInstanceID = iID inst, fnRequestID = q\<rparr> \<in> set fences
     else fences = cleanup_fences d @ [\<lparr>fnInstanceID = iID inst, fnRequestID = q\<rparr>] \<and>
       (\<forall>f \<in> set (cleanup_fences d). fnInstanceID f \<noteq> iID inst \<and> fnRequestID f \<noteq> q)"
  obtain x where x: "x \<in> set (lifecycle_requests d)" "deletion_row q a (iName inst) (begin_phases resume) x"
    using rows(1) by (rule row_count_oneE)
  obtain r where r: "r \<in> set (instances d)" "incarnation_row t inst (begin_states resume cmd) r"
    using rows(2) by (rule row_count_oneE)
  have "\<forall>t'. incarnation_row t' inst {StateDeleting} (stopped_update r (r\<lparr>iState := StateDeleting, iUpdatedAt := timeString t t\<rparr>))"
    using r(2) assms(2) by (auto simp: incarnation_row_def timeString_def stopped_update_def)
  moreover have "deletion_row q a (iName inst) {PhExecuting} (x\<lparr>rqPhase := PhExecuting, rqExitCode := 0\<rparr>)"
    using x(2) by (simp add: deletion_row_def owned_by_def)
  moreover have "\<lparr>fnInstanceID = iID inst, fnRequestID = q\<rparr> \<in> set fences"
    using fence by (auto split: if_splits)
  moreover have "x\<lparr>rqPhase := PhExecuting, rqExitCode := 0\<rparr> \<in> set (lifecycle_requests d')"
    using row_update_mem [where p = "deletion_row q a (iName inst) (begin_phases resume)", OF x] by (simp add: d' begun_def)
  moreover have "stopped_update r (r\<lparr>iState := StateDeleting, iUpdatedAt := timeString t t\<rparr>) \<in> set (instances d')"
    using row_update_mem [where p = "incarnation_row t inst (begin_states resume cmd)", OF r] by (simp add: d' begun_def)
  moreover have "cleanup_fences d' = fences" by (simp add: d' begun_def)
  ultimately show ?thesis unfolding in_deletion_def by blast
qed

lemma in_deletion_resumes:
  assumes "store_inv d" "in_deletion q a inst d"
  shows "\<exists>d'. BeginCleanup t q a inst d = Inr d'"
proof -
  have keys: "is_key rqID (lifecycle_requests d)" "is_key fnInstanceID (cleanup_fences d)" "is_key iID (instances d)"
    using assms(1) by (simp_all add: store_inv_def keys_ok_def instances_ok_def)
  from assms(2) obtain x r where x: "x \<in> set (lifecycle_requests d)" "deletion_row q a (iName inst) {PhExecuting} x"
    and r: "r \<in> set (instances d)" "incarnation_row t inst {StateDeleting} r"
    and f: "\<lparr>fnInstanceID = iID inst, fnRequestID = q\<rparr> \<in> set (cleanup_fences d)"
    by (auto simp: in_deletion_def)
  have owner: "row_find (\<lambda>f. fnInstanceID f = iID inst) (cleanup_fences d) = Some \<lparr>fnInstanceID = iID inst, fnRequestID = q\<rparr>"
    using row_find_key [OF keys(2) f] by simp
  have "row_count (deletion_row q a (iName inst) {PhExecuting, PhInterrupted}) (lifecycle_requests d) = 1"
    using row_count_key_le1 [OF keys(1), of "deletion_row q a (iName inst) {PhExecuting, PhInterrupted}" q]
      row_count_pos [of "deletion_row q a (iName inst) {PhExecuting, PhInterrupted}" "lifecycle_requests d"] x
    by (fastforce simp: deletion_row_def owned_by_def)
  moreover have "row_count (incarnation_row t inst {StateDeleting}) (instances d) = 1"
    using row_count_key_le1 [OF keys(3), of "incarnation_row t inst {StateDeleting}" "iID inst"]
      row_count_pos [of "incarnation_row t inst {StateDeleting}" "instances d"] r
    by (fastforce simp: incarnation_row_def)
  moreover have "\<exists>y. GetLifecycleRequest q a d = Inr y"
    using x by (cases "row_find (owned_by q a) (lifecycle_requests d)")
      (auto simp: GetLifecycleRequest_def table_simps deletion_row_def)
  ultimately show ?thesis
    by (auto simp: BeginCleanup_def owner Let_def begin_phases_def begin_states_def failIf_def)
qed

lemma store_inv_begin: "store_inv d \<Longrightarrow> BeginCleanup t q a i d = Inr d' \<Longrightarrow> store_inv d'"
  using store_inv_exec [of t "CBeginCleanup q a i" d d'] by simp

lemma store_inv_commit: "store_inv d \<Longrightarrow> CommitCleanup t r d = Inr d' \<Longrightarrow> store_inv d'"
  using store_inv_exec [of t "CCommitCleanup r" d d'] by simp

text \<open>An instance whose deletion is over: the receipt can be read, no fence is left and the row has neither a
  runtime nor a state but deleted.\<close>

definition deleted_by :: "CleanupReceipt \<Rightarrow> db \<Rightarrow> bool" where
  "deleted_by r d \<longleftrightarrow> GetCleanupReceipt (crRequestID r) (crActor r) d = Inr r \<and> CheckCleanupFence (crInstanceID r) d = Inr () \<and>
     (\<exists>i. row_find (\<lambda>x. iID x = crInstanceID r) (instances d) = Some i \<and> iState i = StateDeleted \<and> iFirecrackerPID i = 0)"

lemma committed_deleted:
  assumes "store_inv d" "CommitCleanup t r d = Inr d'"
  shows "deleted_by r d'"
  using assms
proof (rule CommitCleanup_instances)
  fix i assume i: "\<And>v. row_find (\<lambda>x. iID x = v) (instances d') = (if v = crInstanceID r
      then Some (stopped_update i (tombstone t (crDeletedAt r) i)) else row_find (\<lambda>x. iID x = v) (instances d))"
  show ?thesis
    using CommitCleanup_receipt [OF assms(2)] CommitCleanup_fence [OF assms] i [of "crInstanceID r"]
    by (simp add: deleted_by_def stopped_update_def tombstone_def)
qed

lemma dwp_deletion:
  assumes "store_inv d" "\<not> IsZero (iCreatedAt inst)"
  shows "dwp (DeleteWithProof xs c inst q a backendID)
    (\<lambda>r d'. store_inv d' \<and> receipt_bound inst q a r \<and> deleted_by r d')
    (\<lambda>_ d'. store_inv d' \<and> (d' = d \<or> in_deletion q a inst d')) d"
  by (rule dwp_mono [OF dwp_delete])
    (use assms store_inv_begin store_inv_commit begun_in_deletion committed_deleted in blast)+

end
