(* ===== verification/DeletionContract.thy ===== *)
theory DeletionContract
  imports DeletionProofs
begin

section \<open>A deletion receipt and the host\<close>

text \<open>
  \<open>deletion_contract\<close> states what the deletion engine of src/internal/provision/cleanup.go relies on: each
  proof it asks for holds when it is given, and the calls after it do not undo it. The interpretation joins
  the runner's receipts (src/internal/vmrunner), the network helper (src/internal/nethelper) and the paths of
  the file system.
\<close>

subsection \<open>What the engine relies on\<close>

definition keeps :: "('h \<Rightarrow> bool) \<Rightarrow> ('h \<Rightarrow> 'x \<times> 'h) \<Rightarrow> bool" where
  "keeps P f \<longleftrightarrow> (\<forall>h x h'. f h = (x, h') \<longrightarrow> P h \<longrightarrow> P h')"

lemma keepsD: "keeps P f \<Longrightarrow> f h = (x, h') \<Longrightarrow> P h \<Longrightarrow> P h'"
  by (simp add: keeps_def)

lemma keeps_conj: "keeps P f \<Longrightarrow> keeps R f \<Longrightarrow> keeps (\<lambda>h. P h \<and> R h) f"
  unfolding keeps_def by blast

text \<open>Success-only triples over the host, in continuation form.\<close>

definition gives :: "('a, 'h) action \<Rightarrow> ('a \<Rightarrow> 'h \<Rightarrow> bool) \<Rightarrow> 'h \<Rightarrow> bool" where
  "gives m Q h \<longleftrightarrow> (\<forall>d x d' h'. m (d, h) = (Inr x, d', h') \<longrightarrow> Q x h')"

lemma gives_result: "gives m Q h \<Longrightarrow> m (d, h) = (Inr x, d', h') \<Longrightarrow> Q x h'"
  by (simp add: gives_def)

lemma gives_ret: "Q x h \<Longrightarrow> gives (retA x) Q h"
  and gives_fail: "gives (failA e) Q h"
  by (simp_all add: gives_def retA_def failA_def)

lemma gives_lift: "(\<And>x. r = Inr x \<Longrightarrow> Q x h) \<Longrightarrow> gives (liftR r) Q h"
  by (simp add: gives_def liftR_def)

lemma gives_bind: "gives m (\<lambda>x. gives (k x) Q) h \<Longrightarrow> gives (bindA m k) Q h"
  unfolding gives_def bindA_def by (auto split: prod.splits sum.splits)

lemma gives_if: "(b \<Longrightarrow> gives m Q h) \<Longrightarrow> (\<not> b \<Longrightarrow> gives n Q h) \<Longrightarrow> gives (if b then m else n) Q h"
  by simp

lemma gives_sum:
  "(\<And>e. z = Inl e \<Longrightarrow> gives (m e) Q h) \<Longrightarrow> (\<And>x. z = Inr x \<Longrightarrow> gives (k x) Q h) \<Longrightarrow>
    gives (case z of Inl e \<Rightarrow> m e | Inr x \<Rightarrow> k x) Q h"
  by (cases z) simp_all

lemma gives_option:
  "(z = None \<Longrightarrow> gives m Q h) \<Longrightarrow> (\<And>x. z = Some x \<Longrightarrow> gives (k x) Q h) \<Longrightarrow>
    gives (case z of None \<Rightarrow> m | Some x \<Rightarrow> k x) Q h"
  by (cases z) simp_all

lemma gives_prod: "(\<And>x y. z = (x, y) \<Longrightarrow> gives (k x y) Q h) \<Longrightarrow> gives (case z of (x, y) \<Rightarrow> k x y) Q h"
  by (cases z) simp

lemma gives_host: "(\<And>x h'. f h = (Inr x, h') \<Longrightarrow> Q x h') \<Longrightarrow> gives (hostA f) Q h"
  by (auto simp: gives_def hostA_def split: prod.splits sum.splits)

lemma gives_see: "(\<And>x h'. f h = (x, h') \<Longrightarrow> Q x h') \<Longrightarrow> gives (seeA f) Q h"
  by (auto simp: gives_def seeA_def split: prod.splits)

lemma gives_try_host: "(\<And>r h'. f h = (r, h') \<Longrightarrow> Q r h') \<Longrightarrow> gives (tryA (hostA f)) Q h"
  by (auto simp: gives_def tryA_def hostA_def split: prod.splits sum.splits)

lemma gives_wrap: "gives m Q h \<Longrightarrow> gives (wrapA e m) Q h"
  by (auto simp: gives_def wrapA_def split: prod.splits sum.splits)

lemma gives_read: "(\<And>x. Q x h) \<Longrightarrow> gives (readA f) Q h"
  and gives_write: "Q () h \<Longrightarrow> gives (writeA g) Q h"
  by (auto simp: gives_def readA_def writeA_def split: prod.splits sum.splits)

lemma gives_keep_host: "keeps P f \<Longrightarrow> P h \<Longrightarrow> (\<And>x h'. P h' \<Longrightarrow> Q x h') \<Longrightarrow> gives (hostA f) Q h"
  by (rule gives_host) (auto dest: keepsD)

lemma gives_keep_see: "keeps P f \<Longrightarrow> P h \<Longrightarrow> (\<And>x h'. P h' \<Longrightarrow> Q x h') \<Longrightarrow> gives (seeA f) Q h"
  by (rule gives_see) (auto dest: keepsD)

lemma gives_try_query:
  assumes "keeps P (hoFault ho)" "P h" "\<And>x h'. P h' \<Longrightarrow> Q x h'"
  shows "gives (tryA (queryA ho f)) Q h"
  unfolding gives_def tryA_def queryA_def stmtA_def bindA_def seeA_def failA_def readA_def
  by (auto split: prod.splits sum.splits option.splits intro!: assms(3) dest: keepsD [OF assms(1)] simp: assms(2))

lemma gives_exec:
  assumes "keeps P (hoFault ho)" "keeps P (hoNow ho)" "P h" "\<And>h'. P h' \<Longrightarrow> Q () h'"
  shows "gives (execA ho f) Q h"
  unfolding execA_def stmtA_def
  by (intro gives_bind gives_option gives_fail gives_write gives_keep_see [OF assms(2) assms(3)]
      gives_keep_see [OF assms(1)] assms(4))

locale deletion_contract =
  fixes xs :: "'h delete_ops"
    and ok :: "'h \<Rightarrow> bool"
    and absent :: "StartResultRequest \<Rightarrow> 'h \<Rightarrow> bool"
    and network_gone :: "FinalizeRequest \<Rightarrow> 'h \<Rightarrow> bool"
    and no_path :: "string \<Rightarrow> 'h \<Rightarrow> bool"
  assumes ok_kept: "keeps ok (hoFault (dxHost xs))" "keeps ok (hoNow (dxHost xs))" "keeps ok (dxGateways xs inst)"
      "keeps ok (hoResolve (dxHost xs) q)" "keeps ok (hoStop (dxHost xs) req)" "keeps ok (dxCold xs inst)"
      "keeps ok (dxAbsent xs q)" "keeps ok (dxPayload xs)" "keeps ok (dxOutbound xs)"
    and absent_kept: "keeps (absent q) (hoFault (dxHost xs))" "keeps (absent q) (hoNow (dxHost xs))"
      "keeps (absent q) (dxPayload xs)" "keeps (absent q) (dxOutbound xs)" "keeps (absent q) (dxFinalize xs fin)"
      "keeps (absent q) (hoDevices (dxHost xs))" "keeps (absent q) (dxDeleteDevice xs dev)"
      "keeps (absent q) (dxRemoveTree xs path)" "keeps (absent q) (dxSync xs path)" "keeps (absent q) (dxLstat xs path)"
    and network_kept: "keeps (network_gone fin) (hoFault (dxHost xs))" "keeps (network_gone fin) (hoNow (dxHost xs))"
      "keeps (network_gone fin) (hoDevices (dxHost xs))" "keeps (network_gone fin) (dxDeleteDevice xs dev)"
      "keeps (network_gone fin) (dxRemoveTree xs path)" "keeps (network_gone fin) (dxSync xs path)"
      "keeps (network_gone fin) (dxLstat xs path)"
    and path_kept: "keeps (no_path p) (hoFault (dxHost xs))" "keeps (no_path p) (hoNow (dxHost xs))"
      "keeps (no_path p) (dxLstat xs path)"
    and absent_proved: "ok h \<Longrightarrow> dxAbsent xs q h = (Inr u, h') \<Longrightarrow> absent q h'"
    and network_proved: "ok h \<Longrightarrow> dxFinalize xs fin h = (Inr u, h') \<Longrightarrow> network_gone fin h'"
    and path_proved: "dxLstat xs p h = (Inl e, h') \<Longrightarrow> errors_is e ErrNotExist \<Longrightarrow> no_path p h'"
begin

lemma gives_maybe: "ok h \<Longrightarrow> (\<And>x h'. ok h' \<Longrightarrow> Q x h') \<Longrightarrow> gives (maybeA (dxHost xs) f) Q h"
  unfolding maybeA_def
  by (intro gives_bind gives_try_query [OF ok_kept(1)] gives_sum gives_if gives_ret gives_fail) auto

lemma gives_elsewhere: "ok h \<Longrightarrow> (\<And>x h'. ok h' \<Longrightarrow> Q x h') \<Longrightarrow> gives (identity_elsewhere (dxHost xs) inst) Q h"
  unfolding identity_elsewhere_def Let_def by (intro gives_bind gives_maybe gives_lift gives_ret) auto

lemma gives_never_enrolled: "ok h \<Longrightarrow> (\<And>x h'. ok h' \<Longrightarrow> Q x h') \<Longrightarrow> gives (orb_never_enrolled (dxHost xs) inst) Q h"
  unfolding orb_never_enrolled_def
  by (intro gives_if gives_bind gives_try_query [OF ok_kept(1)] gives_lift gives_ret) auto

lemma gives_checked: "ok h \<Longrightarrow> (\<And>x h'. ok h' \<Longrightarrow> Q x h') \<Longrightarrow> gives (checkedResult (dxHost xs) inst) Q h"
  unfolding checkedResult_def startResult_def
  by (intro gives_bind gives_keep_see [OF ok_kept(4)] gives_prod gives_option gives_ret gives_fail) auto

lemma gives_settled:
  assumes "ok h" "\<And>h'. ok h' \<Longrightarrow> absent (attempt_of inst) h' \<Longrightarrow> Q () h'"
  shows "gives (settle_runtime xs inst) Q h"
proof -
  have proof_call: "gives (hostA (dxAbsent xs (attempt_of inst))) Q h" if "ok h" for h
    by (rule gives_host) (auto intro!: assms(2) intro: absent_proved that dest: keepsD [OF ok_kept(7) _ that])
  show ?thesis
    unfolding settle_runtime_def stopFirecrackerWithState_def
    by (intro gives_bind gives_if gives_wrap gives_checked gives_ret gives_fail gives_keep_host [OF ok_kept(5)]
        gives_keep_host [OF ok_kept(6)] proof_call) (use assms(1) in auto)
qed

lemma gives_devices:
  "(\<And>dev. keeps P (dxDeleteDevice xs dev)) \<Longrightarrow> P h \<Longrightarrow> (\<And>h'. P h' \<Longrightarrow> Q () h') \<Longrightarrow> gives (delete_devices xs node devs) Q h"
proof (induction devs arbitrary: h)
  case (Cons dev devs)
  show ?case
    unfolding delete_devices.simps
    by (intro gives_bind gives_if gives_ret gives_keep_host [OF Cons.prems(1) Cons.prems(2)] Cons.IH Cons.prems)
qed (auto intro: gives_ret)

lemma gives_absentPath:
  assumes "\<And>p. keeps P (dxLstat xs p)" "P h" "\<And>h'. P h' \<Longrightarrow> no_path path h' \<Longrightarrow> Q () h'"
  shows "gives (absentPath xs path) Q h"
  unfolding absentPath_def
proof (intro gives_bind gives_try_host gives_if gives_ret gives_fail assms(3))
  fix r h' assume "dxLstat xs path h = (r, h')" "case r of Inl e \<Rightarrow> errors_is e ErrNotExist | Inr _ \<Rightarrow> False"
  then show "P h'" "no_path path h'"
    using keepsD [OF assms(1)] assms(2) path_proved by (auto split: sum.splits)
qed

text \<open>The part of the engine after the proof of the runner.\<close>

definition proved :: "Instance \<Rightarrow> FinalizeRequest \<Rightarrow> 'h \<Rightarrow> bool" where
  "proved inst fin h \<longleftrightarrow> absent (attempt_of inst) h \<and> network_gone fin h"

lemma proved_kept:
  "keeps (proved inst fin) (hoFault (dxHost xs))" "keeps (proved inst fin) (hoNow (dxHost xs))"
  "keeps (proved inst fin) (hoDevices (dxHost xs))" "keeps (proved inst fin) (dxDeleteDevice xs dev)"
  "keeps (proved inst fin) (dxRemoveTree xs path)" "keeps (proved inst fin) (dxSync xs path)"
  "keeps (proved inst fin) (dxLstat xs path)"
  unfolding proved_def [abs_def] by (intro keeps_conj absent_kept network_kept)+

lemma gives_identity_dropped:
  "proved inst fin h \<Longrightarrow> (\<And>x h'. proved inst fin h' \<Longrightarrow> Q x h') \<Longrightarrow> gives (drop_identity xs inst b) Q h"
  unfolding drop_identity_def
  by (intro gives_if gives_ret gives_fail gives_bind gives_keep_host [OF proved_kept(3)] gives_devices [OF proved_kept(4)]) auto

lemma gives_removed:
  assumes "proved inst fin h"
    "\<And>h'. proved inst fin h' \<Longrightarrow> no_path dir h' \<Longrightarrow> no_path (iRootFSPath inst) h' \<Longrightarrow> Q () h'"
  shows "gives (remove_storage xs inst dir) Q h"
proof -
  have kept: "keeps (\<lambda>h. proved inst fin h \<and> no_path dir h) (dxLstat xs p)" for p
    by (intro keeps_conj proved_kept path_kept)
  show ?thesis
    unfolding remove_storage_def
    by (intro gives_bind gives_wrap gives_keep_host [OF proved_kept(5) assms(1)] gives_keep_host [OF proved_kept(6)]
        gives_absentPath [OF proved_kept(7)] gives_absentPath [OF kept]) (auto intro: assms(2))
qed

definition all_proved :: "Instance \<Rightarrow> string \<Rightarrow> CleanupReceipt \<Rightarrow> 'h \<Rightarrow> bool" where
  "all_proved inst requestID r h \<longleftrightarrow> absent (attempt_of inst) h \<and>
     (\<exists>outbound. network_gone (finalize_request inst requestID outbound) h) \<and>
     no_path (crInstanceDir r) h \<and> no_path (crRootFSPath r) h"

lemma gives_delete_fenced:
  assumes "ok h"
  shows "gives (delete_fenced xs inst requestID actor backendID elsewhere dir backups) (all_proved inst requestID) h"
proof -
  have both: "keeps (\<lambda>h. ok h \<and> absent (attempt_of inst) h) (dxPayload xs)"
    "keeps (\<lambda>h. ok h \<and> absent (attempt_of inst) h) (dxOutbound xs)"
    by (intro keeps_conj ok_kept absent_kept)+
  let ?P = "\<lambda>outbound h. proved inst (finalize_request inst requestID outbound) h \<and> no_path dir h \<and> no_path (iRootFSPath inst) h"
  have kept: "keeps (?P outbound) (hoFault (dxHost xs))" "keeps (?P outbound) (hoNow (dxHost xs))" for outbound
    by (intro keeps_conj proved_kept path_kept)+
  have committed: "gives (bindA (execA (dxHost xs) f) (\<lambda>_. retA (receipt_for inst requestID actor backendID dispo dir backups now)))
      (all_proved inst requestID) h" if "?P outbound h" for f now dispo outbound h
    by (intro gives_bind gives_exec [OF kept that] gives_ret) (auto simp: all_proved_def proved_def receipt_for_def)
  have removed: "gives (bindA (remove_storage xs inst dir) (\<lambda>_. bindA (seeA (hoNow (dxHost xs))) (\<lambda>now.
       let r = receipt_for inst requestID actor backendID dispo dir backups now in
       bindA (execA (dxHost xs) (\<lambda>now. CommitCleanup now r)) (\<lambda>_. retA r)))) (all_proved inst requestID) h"
    if "proved inst (finalize_request inst requestID outbound) h" for dispo outbound h
    unfolding Let_def
    by (intro gives_bind [OF gives_removed [OF that]] gives_bind [OF gives_keep_see [OF kept(2)]] committed) auto
  have network: "gives (hostA (dxFinalize xs (finalize_request inst requestID outbound))) Q h"
    if "ok h \<and> absent (attempt_of inst) h" "\<And>h'. proved inst (finalize_request inst requestID outbound) h' \<Longrightarrow> Q () h'" for outbound h Q
    by (rule gives_host) (use that network_proved keepsD [OF absent_kept(5)] in \<open>auto simp: proved_def\<close>)
  show ?thesis
    unfolding delete_fenced_def
    by (intro gives_bind [OF gives_keep_host [OF ok_kept(3) assms]] gives_bind [OF gives_settled]
        gives_bind [OF gives_keep_host [OF both(1)]] gives_bind [OF gives_keep_see [OF both(2)]] gives_bind [OF network]
        gives_bind [OF gives_identity_dropped] removed) auto
qed

lemma gives_deletion:
  assumes "ok h"
  shows "gives (DeleteWithProof xs c inst requestID actor backendID) (all_proved inst requestID) h"
  unfolding DeleteWithProof_def
  by (intro gives_bind gives_lift gives_elsewhere gives_never_enrolled gives_exec [OF ok_kept(1,2)] gives_delete_fenced)
    (use assms in auto)

end

subsection \<open>The runner, the network helper and the file system deliver it\<close>

definition deletion_ok :: "codec \<Rightarrow> net_state \<Rightarrow> deletion_host \<Rightarrow> bool" where
  "deletion_ok cd s h \<longleftrightarrow> dirs_ok cd (dhRun h) \<and> dhNet h = s"

definition runtime_absent :: "StartResultRequest \<Rightarrow> deletion_host \<Rightarrow> bool" where
  "runtime_absent q h \<longleftrightarrow> all_closed (rhDirs (dhRun h) (sqName q))"

definition network_absent :: "net_world \<Rightarrow> net_state \<Rightarrow> FinalizeRequest \<Rightarrow> deletion_host \<Rightarrow> bool" where
  "network_absent w s fin h \<longleftrightarrow> (TrimSpace (nrTapDevice fin) = nrTapDevice fin \<longrightarrow> finalized w fin s (dhNet h))"

definition path_gone :: "string \<Rightarrow> deletion_host \<Rightarrow> bool" where
  "path_gone p h \<longleftrightarrow> p \<notin> set (dhPaths h)"

lemma next_call_same [simp]:
  "deletion_ok cd s (next_call h) = deletion_ok cd s h" "runtime_absent q (next_call h) = runtime_absent q h"
  "network_absent w s fin (next_call h) = network_absent w s fin h" "path_gone p (next_call h) = path_gone p h"
  "dhNet (next_call h) = dhNet h" "dhPaths (next_call h) = dhPaths h" "rhDirs (dhRun (next_call h)) = rhDirs (dhRun h)"
  by (simp_all add: next_call_def tick_def deletion_ok_def dirs_ok_def runtime_absent_def network_absent_def path_gone_def)

text \<open>Most calls change neither the receipts nor the record of the network nor the paths.\<close>

definition inert :: "(deletion_host \<Rightarrow> 'x \<times> deletion_host) \<Rightarrow> bool" where
  "inert f \<longleftrightarrow> (\<forall>h x h'. f h = (x, h') \<longrightarrow>
     rhDirs (dhRun h') = rhDirs (dhRun h) \<and> dhNet h' = dhNet h \<and> dhPaths h' = dhPaths h)"

lemma inert_keeps:
  assumes "inert f"
  shows "keeps (deletion_ok cd s) f" "keeps (runtime_absent q) f" "keeps (network_absent w s fin) f" "keeps (path_gone p) f"
  using assms unfolding inert_def keeps_def
  by (fastforce simp: deletion_ok_def dirs_ok_def runtime_absent_def network_absent_def path_gone_def)+

lemma inert_calls:
  "inert (on_run (observe ora sel))" "inert (ask da sel')" "inert (VerifyInstanceAbsent cd ora da q)" "inert (lstat da path)"
  by (auto simp: inert_def on_run_def observe_def tick_def ask_def VerifyInstanceAbsent_def lstat_def Let_def)

lemma removal_keeps:
  "keeps (runtime_absent q) (remove_tree da path)" "keeps (network_absent w s fin) (remove_tree da path)"
  by (auto simp: keeps_def remove_tree_def Let_def runtime_absent_def network_absent_def)

lemma runner_keeps:
  assumes "\<And>h x h'. f h = (x, h') \<Longrightarrow> undisturbed (dirs_ok cd) name_vacant name_only h h'"
  shows "keeps (deletion_ok cd s) (on_run f)"
  unfolding keeps_def on_run_def
  using assms by (auto simp: deletion_ok_def undisturbed_def split: prod.splits)

lemma finalize_keeps: "keeps (runtime_absent q) (FinalizeInstanceNetwork nc w ora fin)"
  by (auto simp: keeps_def FinalizeInstanceNetwork_def runtime_absent_def split: prod.splits sum.splits post_fate.splits)

lemma verified_absent:
  assumes "dir_inv cd (sqName q) dir" "verifyDeletion cd v dv q dir = Inr ()"
  shows "all_closed dir"
proof -
  have "activeReceipt cd (sqName q) dir = Inr None"
    using assms(2) by (auto simp: verifyDeletion_def storageIdleLocked_def nameVacantLocked_def bindR_Inr_iff failIf_def split: if_splits)
  then show ?thesis by (rule active_none_closed [OF assms(1)])
qed

lemma finalize_verified:
  assumes "handleFinalize nc w q s = (Inr u, s')" "TrimSpace (nrTapDevice q) = nrTapDevice q"
  shows "finalized w q s s'"
proof -
  have v: "FinalizeRequest_Validate nc q = Inr ()" "finalize nc w q s = (Inr (), s')"
    using assms(1) by (auto simp: handleFinalize_def bindA_def liftR_def split: sum.splits)
  then have "ifaceName (nrTapDevice q)"
    using assms(2) by (auto simp: FinalizeRequest_Validate_def CleanupRequest_Validate_def validateInterfaceName_def
        bindR_Inr_iff failIf_def split: if_splits)
  then show ?thesis using wp_result [OF wp_finalize v(2)] ifaceName_word by blast
qed

lemma deletion_ops_sel:
  "hoFault (dxHost (deletion_ops cd ora nc w da newID enc dec)) = on_run (observe ora haFault)"
  "hoNow (dxHost (deletion_ops cd ora nc w da newID enc dec)) = on_run (observe ora haNow)"
  "hoDevices (dxHost (deletion_ops cd ora nc w da newID enc dec)) = on_run (observe ora haDevices)"
  "hoResolve (dxHost (deletion_ops cd ora nc w da newID enc dec)) q = on_run (hoResolve (runner_ops cd ora) q)"
  "hoStop (dxHost (deletion_ops cd ora nc w da newID enc dec)) req = on_run (hoStop (runner_ops cd ora) req)"
  "dxGateways (deletion_ops cd ora nc w da newID enc dec) inst = ask da daCall"
  "dxCold (deletion_ops cd ora nc w da newID enc dec) inst = ask da daCall"
  "dxAbsent (deletion_ops cd ora nc w da newID enc dec) q = VerifyInstanceAbsent cd ora da q"
  "dxPayload (deletion_ops cd ora nc w da newID enc dec) = ask da daCall"
  "dxOutbound (deletion_ops cd ora nc w da newID enc dec) = ask da daOutbound"
  "dxFinalize (deletion_ops cd ora nc w da newID enc dec) fin = FinalizeInstanceNetwork nc w ora fin"
  "dxDeleteDevice (deletion_ops cd ora nc w da newID enc dec) dev = ask da daCall"
  "dxRemoveTree (deletion_ops cd ora nc w da newID enc dec) path = remove_tree da path"
  "dxSync (deletion_ops cd ora nc w da newID enc dec) path = ask da daCall"
  "dxLstat (deletion_ops cd ora nc w da newID enc dec) path = lstat da path"
  by (simp_all add: deletion_ops_def host_on_run_def runner_ops_def)

interpretation deletion: deletion_contract "deletion_ops cd ora nc w da newID enc dec" "deletion_ok cd s" runtime_absent
  "network_absent w s" path_gone for cd ora nc w da newID enc dec s
proof (unfold_locales, goal_cases)
  case (4 q)
  show ?case unfolding deletion_ops_sel by (rule runner_keeps) (use runner.resolve_quiet in blast)
next
  case (5 req)
  show ?case unfolding deletion_ops_sel by (rule runner_keeps) (use runner.stop_quiet in blast)
next
  case (30 h q u h')
  then show ?case
    by (auto simp: deletion_ops_sel VerifyInstanceAbsent_def Let_def deletion_ok_def dirs_ok_def runtime_absent_def
        split: post_fate.splits dest: verified_absent [rotated])
next
  case (31 h fin u h')
  then show ?case
    by (auto simp: deletion_ops_sel FinalizeInstanceNetwork_def deletion_ok_def network_absent_def
        split: post_fate.splits sum.splits prod.splits intro: finalize_verified)
next
  case (32 p h e h')
  then show ?case by (auto simp: deletion_ops_sel lstat_def path_gone_def split: option.splits if_splits)
qed (simp_all add: deletion_ops_sel inert_keeps inert_calls removal_keeps finalize_keeps)

end
