(* ===== verification/CommandProofs.thy ===== *)
theory CommandProofs
  imports Commands DeletionContract
begin

section \<open>Commands that are sent again\<close>

text \<open>
  A client that has lost the answer to a bound command sends it again. A start or a stop is then refused
  without any effect, and a deletion goes on where it was or repeats the receipt.
\<close>

subsection \<open>Rules for the building blocks\<close>

lemma dwp_call:
  "dwp m (\<lambda>x. dwp (k x) Q E) (\<lambda>e. Q (report e)) d \<Longrightarrow> dwp (callC m report k) Q E d"
  unfolding callC_def by (intro dwp_bind dwp_try) (erule dwp_mono; simp add: dwp_ret)

lemma dwp_synced: "dwp m Q E d \<Longrightarrow> dwp (synced ap m) Q E d"
  unfolding synced_def by (intro dwp_bind) (erule dwp_mono; auto intro: dwp_bind dwp_see dwp_ret)

lemma dwp_update:
  "(\<And>x d'. f d = Inr (x, d') \<Longrightarrow> Q x d') \<Longrightarrow> (\<And>e. E e d) \<Longrightarrow> dwp (updateA ho f) Q E d"
  unfolding updateA_def by (rule dwp_stmt) (auto simp: dwp_def wp_def split: sum.splits prod.splits)

lemma dwp_identity_checked:
  "Q () d \<Longrightarrow> (\<And>e. E e d) \<Longrightarrow> dwp (checkOrbIdentity ap inst identity) Q E d"
  unfolding checkOrbIdentity_def checkOrbBinding_def by (intro dwp_rules dwp_lift dwp_maybe) simp_all

definition request_known :: "string \<Rightarrow> db \<Rightarrow> bool" where
  "request_known i d \<longleftrightarrow> (\<exists>r \<in> set (lifecycle_requests d). rqID r = i)"

lemma known_admit:
  assumes "AdmitLifecycleRequest r d = Inr (fresh, d')"
  shows "request_known (rqID r) d'" "\<not> fresh \<Longrightarrow> d' = d" "fresh \<Longrightarrow> \<not> request_known (rqID r) d \<and> d' = insert_request r PhAdmitted d"
  using assms by (auto simp: AdmitLifecycleRequest_def request_known_def insert_request_def row_exists_iff bindR_Inr_iff
      split: if_splits)

lemma known_rest: "rest d' = rest d \<Longrightarrow> lifecycle_requests d' = lifecycle_requests d"
  by (cases d; cases d') (simp add: rest_def)

lemma known_update:
  "(\<And>r. rqID (f r) = rqID r) \<Longrightarrow>
    request_known j (d\<lparr>lifecycle_requests := row_update p f (lifecycle_requests d)\<rparr>) = request_known j d"
  by (auto simp: request_known_def table_simps)

lemma known_begin: "BeginLifecycleRequest i a d = Inr d' \<Longrightarrow> request_known j d' = request_known j d"
  and known_reject: "RejectLifecycleStart i a d = Inr d' \<Longrightarrow> request_known j d' = request_known j d"
  by (auto simp: BeginLifecycleRequest_def RejectLifecycleStart_def Let_def bindR_Inr_iff known_update split: if_splits)

lemma known_finish: "FinishLifecycleRequest i a code d = Inr (b, d') \<Longrightarrow> request_known j d' = request_known j d"
  by (auto simp: FinishLifecycleRequest_def Let_def known_update)

subsection \<open>A start or a stop under a request\<close>

datatype bound_op = BoundStart | BoundStop

fun bound_run :: "'h app \<Rightarrow> bound_op \<Rightarrow> Actor \<Rightarrow> string list \<Rightarrow> (command_result, 'h) action" where
  "bound_run ap BoundStart = cmdStart ap"
| "bound_run ap BoundStop = cmdStop ap"

fun bound_args :: "bound_op \<Rightarrow> string list \<Rightarrow> string list" where
  "bound_args BoundStart args = snd (option_flag ''--discard-state'' args)"
| "bound_args BoundStop args = snd (option_flag ''--save-state'' args)"

text \<open>The journal keeps the request, and its identifiers stay a key.\<close>

definition journaled :: "string \<Rightarrow> db \<Rightarrow> bool" where
  "journaled i d \<longleftrightarrow> request_known i d \<and> is_key rqID (lifecycle_requests d)"

lemma key_admit:
  "AdmitLifecycleRequest r d = Inr (fresh, d') \<Longrightarrow> is_key rqID (lifecycle_requests d) \<Longrightarrow> is_key rqID (lifecycle_requests d')"
  by (auto simp: AdmitLifecycleRequest_def insert_request_def row_exists_iff bindR_Inr_iff table_simps split: if_splits)

lemma key_begin:
  "BeginLifecycleRequest i a d = Inr d' \<Longrightarrow> is_key rqID (lifecycle_requests d) \<Longrightarrow> is_key rqID (lifecycle_requests d')"
  by (auto simp: BeginLifecycleRequest_def Let_def bindR_Inr_iff intro!: is_key_update split: if_splits)

lemma begin_known:
  assumes "length args = 6" "args ! 1 = i" "is_key rqID (lifecycle_requests d)"
    "\<And>d'. journaled i d' \<Longrightarrow> Q () d'" "\<And>e d'. d' = d \<or> request_known i d' \<Longrightarrow> E e d'"
  shows "dwp (beginOrbOperation ap actor inst op args) Q E d"
  unfolding beginOrbOperation_def Let_def
  by (intro dwp_if dwp_bind dwp_identity_checked dwp_update dwp_exec dwp_ret dwp_fail assms(4,5))
    (use assms(1,2,3) in \<open>auto simp: orbOperationRequest_def journaled_def known_begin dest: known_admit intro: key_begin key_admit\<close>)

lemma conf_journal: "conf name d d' \<Longrightarrow> journaled i d \<Longrightarrow> journaled i d'"
  unfolding conf_def journaled_def request_known_def using known_rest [of d' d] by simp

lemma start_journaled:
  assumes "journaled i d" "\<And>x d'. journaled i d' \<Longrightarrow> Q x d'" "\<And>e d'. journaled i d' \<Longrightarrow> E e d'"
  shows "dwp (StartWithOptions ho c name discard) Q E d"
  by (rule dwp_start [OF conf_refl refl]) (use assms conf_journal in blast)+

lemma stop_journaled:
  assumes "journaled i d" "\<And>x d'. journaled i d' \<Longrightarrow> Q x d'" "\<And>e d'. journaled i d' \<Longrightarrow> E e d'"
  shows "dwp (StopWithOptions ho name save) Q E d"
  by (rule dwp_stop [OF conf_refl refl]) (use assms conf_journal in blast)+

definition request_done :: "string \<Rightarrow> string \<Rightarrow> db \<Rightarrow> bool" where
  "request_done i a d \<longleftrightarrow> (\<exists>x. GetLifecycleRequest i a d = Inr x \<and> rqPhase x = PhDone)"

lemma finish_done:
  assumes "FinishLifecycleRequest i a 0 d = Inr (True, d')" "is_key rqID (lifecycle_requests d)"
  shows "request_done i a d'"
proof -
  let ?p = "\<lambda>r. owned_by i a r \<and> rqPhase r = PhExecuting"
  have d': "lifecycle_requests d' = row_update ?p (\<lambda>r. r\<lparr>rqPhase := PhDone, rqExitCode := 0\<rparr>) (lifecycle_requests d)"
    and "row_count ?p (lifecycle_requests d) = 1"
    using assms(1) by (auto simp: FinishLifecycleRequest_def Let_def)
  then obtain r where r: "r \<in> set (lifecycle_requests d)" "?p r" by (elim row_count_oneE)
  let ?f = "\<lambda>r::LifecycleRequest. r\<lparr>rqPhase := PhDone, rqExitCode := 0\<rparr>"
  have "row_find (owned_by i a) (lifecycle_requests d') = Some (?f r)"
    unfolding d'
  proof (rule row_find_unique)
    show "?f r \<in> set (row_update ?p ?f (lifecycle_requests d))"
      using row_update_mem [where p = ?p and f = ?f, OF r] .
    fix x assume x: "x \<in> set (row_update ?p ?f (lifecycle_requests d))" "owned_by i a x"
    then obtain y where y: "y \<in> set (lifecycle_requests d)" "x = (if ?p y then ?f y else y)"
      by (auto simp: set_row_update)
    then have "rqID y = rqID r" using x(2) r(2) by (auto simp: owned_by_def split: if_splits)
    then have "y = r" using is_key_eq [OF assms(2) y(1) r(1)] by simp
    then show "x = ?f r" using y(2) r(2) by simp
  qed (use r in \<open>simp add: owned_by_def\<close>)
  then show ?thesis by (simp add: request_done_def GetLifecycleRequest_def)
qed

lemma finish_known:
  assumes "journaled i d" "args \<noteq> []" "args ! 1 = i" "\<And>d'. request_known i d' \<Longrightarrow> request_done i (UserLogin actor) d' \<Longrightarrow> Q () d'"
    "\<And>e d'. request_known i d' \<Longrightarrow> E e d'"
  shows "dwp (finishOrbOperation ap actor args) Q E d"
  unfolding finishOrbOperation_def
  by (intro dwp_if dwp_bind dwp_update dwp_ret dwp_fail assms(4,5))
    (use assms(1,2,3) in \<open>auto simp: known_finish journaled_def intro: finish_done\<close>)

text \<open>How a bound command ends.\<close>

definition bound_end :: "string \<Rightarrow> string \<Rightarrow> db \<Rightarrow> command_result \<Rightarrow> db \<Rightarrow> bool" where
  "bound_end i a d r d' \<longleftrightarrow> (d' = d \<or> request_known i d') \<and> (fst (snd r) = 0 \<longrightarrow> request_done i a d')"

lemma bound_end_error:
  "bound_end i a d (cleanupError e) d' \<longleftrightarrow> d' = d \<or> request_known i d'"
  "bound_end i a d (failed e) d' \<longleftrightarrow> d' = d \<or> request_known i d'"
  "bound_end i a d (missingInstanceResult e) d' \<longleftrightarrow> d' = d \<or> request_known i d'"
  "bound_end i a d (acted what inst) d' \<longleftrightarrow> (d' = d \<or> request_known i d') \<and> request_done i a d'"
  by (simp_all add: bound_end_def cleanupError_def failed_def missingInstanceResult_def acted_def)

lemma bound_ends:
  assumes "length (bound_args op args) = 8" "bound_args op args ! 3 = i" "is_key rqID (lifecycle_requests d)"
  shows "dwp (bound_run ap op actor args) (bound_end i (UserLogin actor) d) (\<lambda>_ _. False) d"
proof (cases op)
  case BoundStart
  show ?thesis
    using assms unfolding BoundStart bound_run.simps bound_args.simps cmdStart_def start_bound_def
    by (intro dwp_prod dwp_if dwp_ret dwp_synced dwp_call dwp_query)
      (auto intro!: begin_known [where i = i] dwp_call dwp_bind dwp_try dwp_sum dwp_ret dwp_exec
        start_journaled [where i = i] finish_known [where i = i] simp: known_reject bound_end_error journaled_def)
next
  case BoundStop
  show ?thesis
    using assms unfolding BoundStop bound_run.simps bound_args.simps cmdStop_def stop_bound_def offload_after_stop_def
    by (intro dwp_prod dwp_if dwp_ret dwp_synced dwp_call dwp_query)
      (auto intro!: begin_known [where i = i] dwp_call dwp_bind dwp_ret dwp_ignore dwp_host
        stop_journaled [where i = i] finish_known [where i = i] simp: bound_end_error journaled_def)
qed

subsection \<open>A request that is known is not executed again\<close>

text \<open>The state of a run that has left the database alone and has only made calls that keep \<open>P\<close>.\<close>

definition untouched :: "('h \<Rightarrow> bool) \<Rightarrow> db \<Rightarrow> db \<times> 'h \<Rightarrow> bool" where
  "untouched P d w \<longleftrightarrow> fst w = d \<and> P (snd w)"

definition uwp :: "('h \<Rightarrow> bool) \<Rightarrow> db \<Rightarrow> ('a, 'h) action \<Rightarrow> ('a \<Rightarrow> bool) \<Rightarrow> (error \<Rightarrow> bool) \<Rightarrow> bool" where
  "uwp P d m Q E \<longleftrightarrow> (\<forall>w. untouched P d w \<longrightarrow>
     wp m (\<lambda>x w'. untouched P d w' \<and> Q x) (\<lambda>e w'. untouched P d w' \<and> E e) w)"

lemma uwp_ret: "Q x \<Longrightarrow> uwp P d (retA x) Q E"
  and uwp_fail: "E e \<Longrightarrow> uwp P d (failA e) Q E"
  by (simp_all add: uwp_def wp_simps)

lemma uwp_lift: "(\<And>x. r = Inr x \<Longrightarrow> Q x) \<Longrightarrow> (\<And>e. r = Inl e \<Longrightarrow> E e) \<Longrightarrow> uwp P d (liftR r) Q E"
  by (simp add: uwp_def wp_simps split: sum.split)

lemma uwp_bind: "uwp P d m (\<lambda>x. uwp P d (k x) Q E) E \<Longrightarrow> uwp P d (bindA m k) Q E"
  unfolding uwp_def wp_bind by (fastforce elim: wp_mono)

lemma uwp_try: "uwp P d m (\<lambda>x. Q (Inr x)) (\<lambda>e. Q (Inl e)) \<Longrightarrow> uwp P d (tryA m) Q E"
  by (simp add: uwp_def wp_simps)

lemma uwp_if: "(b \<Longrightarrow> uwp P d m Q E) \<Longrightarrow> (\<not> b \<Longrightarrow> uwp P d n Q E) \<Longrightarrow> uwp P d (if b then m else n) Q E"
  by simp

lemma uwp_sum:
  "(\<And>e. z = Inl e \<Longrightarrow> uwp P d (m e) Q E) \<Longrightarrow> (\<And>x. z = Inr x \<Longrightarrow> uwp P d (k x) Q E) \<Longrightarrow>
    uwp P d (case z of Inl e \<Rightarrow> m e | Inr x \<Rightarrow> k x) Q E"
  by (cases z) simp_all

lemma uwp_option:
  "(z = None \<Longrightarrow> uwp P d m Q E) \<Longrightarrow> (\<And>x. z = Some x \<Longrightarrow> uwp P d (k x) Q E) \<Longrightarrow>
    uwp P d (case z of None \<Rightarrow> m | Some x \<Rightarrow> k x) Q E"
  by (cases z) simp_all

lemma uwp_see: "keeps P f \<Longrightarrow> (\<And>x. Q x) \<Longrightarrow> uwp P d (seeA f) Q E"
  by (auto simp: uwp_def wp_def seeA_def untouched_def split: prod.split dest: keepsD)

lemma uwp_stmt: "keeps P (hoFault ho) \<Longrightarrow> (\<And>e. E e) \<Longrightarrow> uwp P d m Q E \<Longrightarrow> uwp P d (stmtA ho m) Q E"
  unfolding stmtA_def by (intro uwp_bind uwp_see uwp_option uwp_fail)

lemma uwp_query:
  "keeps P (hoFault ho) \<Longrightarrow> (\<And>x. f d = Inr x \<Longrightarrow> Q x) \<Longrightarrow> (\<And>e. E e) \<Longrightarrow> uwp P d (queryA ho f) Q E"
  unfolding queryA_def
  by (rule uwp_stmt) (auto simp: uwp_def wp_def readA_def untouched_def split: prod.split sum.split)

lemma uwp_update:
  "keeps P (hoFault ho) \<Longrightarrow> (\<And>x d'. f d = Inr (x, d') \<Longrightarrow> d' = d \<and> Q x) \<Longrightarrow> (\<And>e. E e) \<Longrightarrow> uwp P d (updateA ho f) Q E"
  unfolding updateA_def
  by (rule uwp_stmt) (auto simp: uwp_def wp_def untouched_def split: prod.split sum.split)

lemma uwp_mono: "uwp P d m Q E \<Longrightarrow> (\<And>x. Q x \<Longrightarrow> Q' x) \<Longrightarrow> (\<And>e. E e \<Longrightarrow> E' e) \<Longrightarrow> uwp P d m Q' E'"
  unfolding uwp_def by (blast intro: wp_mono)

lemma uwp_call: "uwp P d m (\<lambda>x. uwp P d (k x) Q E) (\<lambda>e. Q (report e)) \<Longrightarrow> uwp P d (callC m report k) Q E"
  unfolding callC_def by (intro uwp_bind uwp_try) (erule uwp_mono; simp add: uwp_ret)

lemma uwp_exec:
  "keeps P (hoFault ho) \<Longrightarrow> keeps P (hoNow ho) \<Longrightarrow> (\<And>now d'. f now d \<noteq> Inr d') \<Longrightarrow> (\<And>e. E e) \<Longrightarrow> uwp P d (execA ho f) Q E"
  unfolding execA_def
  by (intro uwp_bind uwp_see uwp_stmt) (auto simp: uwp_def wp_def writeA_def untouched_def split: prod.split sum.split)

lemma uwp_maybe:
  "keeps P (hoFault ho) \<Longrightarrow> (\<And>y. f d = Inr y \<Longrightarrow> Q (Some y)) \<Longrightarrow> Q None \<Longrightarrow> (\<And>e. E e) \<Longrightarrow> uwp P d (maybeA ho f) Q E"
  unfolding maybeA_def
  by (intro uwp_bind uwp_try uwp_query uwp_sum uwp_if uwp_ret uwp_fail) simp_all

lemma uwp_identity: "keeps P (hoFault (apHost ap)) \<Longrightarrow> Q () \<Longrightarrow> (\<And>e. E e) \<Longrightarrow> uwp P d (checkOrbIdentity ap inst identity) Q E"
  unfolding checkOrbIdentity_def checkOrbBinding_def
  by (intro uwp_bind uwp_lift uwp_maybe uwp_try uwp_query) simp_all

lemma uwp_begin:
  assumes "keeps P (hoFault (apHost ap))" "request_known (args ! 1) d" "length args = 6" "\<And>e. E e"
  shows "uwp P d (beginOrbOperation ap actor inst op args) Q E"
proof -
  have known: "\<not> fresh \<and> d' = d"
    if "AdmitLifecycleRequest (orbOperationRequest ap actor op name (args ! 1) rest) d = Inr (fresh, d')" for fresh d' name rest
    using known_admit [OF that] assms(2) by (cases fresh) (simp_all add: orbOperationRequest_def)
  show ?thesis
    unfolding beginOrbOperation_def Let_def
    by (intro uwp_if uwp_bind uwp_identity uwp_update uwp_fail uwp_ret assms(1,4))
      (use assms(3) known in \<open>auto intro: uwp_fail assms(4)\<close>)
qed

lemma uwp_synced: "keeps P (apSync ap) \<Longrightarrow> uwp P d m Q E \<Longrightarrow> uwp P d (synced ap m) Q E"
  unfolding synced_def by (intro uwp_bind) (erule uwp_mono; auto intro: uwp_bind uwp_see uwp_ret)

lemma uwp_bound:
  assumes "length (bound_args op args) = 8" "request_known (bound_args op args ! 3) d"
    "keeps P (hoFault (apHost ap))" "keeps P (apSync ap)"
  shows "uwp P d (bound_run ap op actor args) (\<lambda>r. fst (snd r) \<noteq> 0) (\<lambda>_. False)"
proof -
  have known: "request_known (drop 2 (bound_args op args) ! 1) d" "length (drop 2 (bound_args op args)) = 6"
    using assms(1,2) by (simp_all add: numeral_3_eq_3)
  show ?thesis
  proof (cases op)
    case BoundStart
    show ?thesis
      using assms(1) known unfolding BoundStart bound_run.simps bound_args.simps cmdStart_def start_bound_def
      by (cases "option_flag ''--discard-state'' args")
        (auto intro!: uwp_synced uwp_call uwp_query uwp_begin assms(3,4)
          simp: failed_def missingInstanceResult_def cleanupError_def)
  next
    case BoundStop
    show ?thesis
      using assms(1) known unfolding BoundStop bound_run.simps bound_args.simps cmdStop_def stop_bound_def
      by (cases "option_flag ''--save-state'' args")
        (auto intro!: uwp_synced uwp_call uwp_query uwp_begin assms(3,4)
          simp: failed_def missingInstanceResult_def cleanupError_def)
  qed
qed

lemma uwp_final:
  assumes "uwp P d m Q (\<lambda>_. False)" "m (d, h) = (res, d', h')" "P h"
  obtains x where "res = Inr x" "d' = d" "P h'" "Q x"
  using assms unfolding uwp_def untouched_def
  by (cases res) (auto simp: wp_def dest!: spec [of _ "(d, h)"])

subsection \<open>A deletion that is sent again\<close>

lemma admit_inv:
  assumes "AdmitLifecycleRequest r d = Inr (b, d')" "store_inv d"
  shows "store_inv d'" "instances d' = instances d"
proof -
  show "store_inv d'" using store_inv_exec [of _ "CAdmit r" d d'] assms by simp
  show "instances d' = instances d" using known_admit(2,3) [OF assms(1)] by (cases b) (auto simp: insert_request_def)
qed

lemma finish_inv:
  assumes "FinishLifecycleRequest q a code d = Inr (b, d')" "store_inv d"
  shows "store_inv d'" "instances d' = instances d"
proof -
  show "store_inv d'" using store_inv_exec [of _ "CFinish q a code" d d'] assms by simp
  show "instances d' = instances d" using assms(1) by (auto simp: FinishLifecycleRequest_def Let_def)
qed

text \<open>Where the deletion under the request \<open>q\<close> has left the database.\<close>

definition delete_end :: "string \<Rightarrow> string \<Rightarrow> string \<Rightarrow> db \<Rightarrow> command_result \<Rightarrow> db \<Rightarrow> bool" where
  "delete_end name q a d r d' \<longleftrightarrow> store_inv d' \<and>
     (if fst (snd r) = 0 then \<exists>p. fst r = Receipt p \<and> GetCleanupReceipt q a d' = Inr p
      else instances d' = instances d \<or> (\<exists>inst. iName inst = name \<and> in_deletion q a inst d'))"

lemma in_deletion_executing:
  assumes "store_inv d" "in_deletion q a inst d" "GetLifecycleRequest q a d = Inr x"
  shows "rqPhase x = PhExecuting"
proof -
  have key: "is_key rqID (lifecycle_requests d)" using assms(1) by (simp add: store_inv_def keys_ok_def)
  obtain y where y: "y \<in> set (lifecycle_requests d)" "owned_by q a y" "rqPhase y = PhExecuting"
    using assms(2) by (auto simp: in_deletion_def deletion_row_def)
  have "x \<in> set (lifecycle_requests d)" "owned_by q a x"
    using assms(3) row_find_Some [of "owned_by q a" "lifecycle_requests d" x]
    by (auto simp: GetLifecycleRequest_def split: option.splits)
  then show ?thesis using is_key_eq [OF key _ y(1)] y by (auto simp: owned_by_def)
qed

lemma closed_end:
  assumes "store_inv d'" "instances d' = instances d \<or> (\<exists>inst. iName inst = name \<and> in_deletion (rqID r) (rqActor r) inst d')"
  shows "dwp (closed_request ap r e) (delete_end name (rqID r) (rqActor r) d) (\<lambda>_ _. False) d'"
  unfolding closed_request_def
  by (intro dwp_bind dwp_try dwp_query dwp_sum dwp_if dwp_call dwp_update dwp_ret)
    (use assms finish_inv in \<open>auto simp: delete_end_def cleanupError_def dest: in_deletion_executing\<close>)

lemma delete_new_end:
  assumes "store_inv d" "\<And>inst. GetInstance (rqName r) d = Inr inst \<Longrightarrow> \<not> IsZero (iCreatedAt inst)"
  shows "dwp (delete_new ap actor r identity) (delete_end (rqName r) (rqID r) (rqActor r) d) (\<lambda>_ _. False) d"
proof -
  have error: "delete_end (rqName r) (rqID r) (rqActor r) d (cleanupError e) d'" if "store_inv d'" "instances d' = instances d" for e d'
    using that by (simp add: delete_end_def cleanupError_def)
  have got: "iName inst = rqName r \<and> \<not> IsZero (iCreatedAt inst)"
    if "lookupVisibleInstance (apConfig ap) actor (rqName r) d = Inr inst" for inst
    using that assms(2) GetInstance_look by (auto simp: lookupVisibleInstance_def bindR_Inr_iff split: if_splits)
  have engine: "dwp (bindA (tryA (DeleteWithProof (apOps ap) (apConfig ap) inst (rqID r) (rqActor r) (apBackendID ap)))
      (\<lambda>x. case x of Inl e \<Rightarrow> closed_request ap r e | Inr p \<Rightarrow> retA (Receipt p, 0, None)))
      (delete_end (rqName r) (rqID r) (rqActor r) d) (\<lambda>_ _. False) d1"
    if "store_inv d1" "instances d1 = instances d" "iName inst = rqName r" "\<not> IsZero (iCreatedAt inst)" for inst d1
    by (intro dwp_bind dwp_try dwp_mono [OF dwp_deletion [OF that(1,4)]])
      (use that in \<open>auto intro!: closed_end dwp_ret simp: delete_end_def deleted_by_def receipt_bound_def\<close>)
  show ?thesis
    unfolding delete_new_def
    by (intro dwp_call dwp_query dwp_lift dwp_update engine error)
      (use assms(1) got admit_inv in auto)
qed

lemma delete_expected_end:
  assumes "store_inv d" "\<And>inst. GetInstance (args ! 1) d = Inr inst \<Longrightarrow> \<not> IsZero (iCreatedAt inst)"
  shows "dwp (cmdDeleteExpected ap actor args) (delete_end (args ! 1) (args ! 3) (UserLogin actor) d) (\<lambda>_ _. False) d"
proof -
  have refused: "delete_end name q a d (cleanupError e) d" for name q a e
    using assms(1) by (simp add: delete_end_def cleanupError_def)
  have found: "dwp (maybeA ho f) Q E d" if "\<And>x. f d = Inr x \<Longrightarrow> Q (Some x) d" "Q None d" "\<And>e. E e d"
    for ho :: "'a host_ops" and f :: "db \<Rightarrow> 'b result" and Q E
    unfolding maybeA_def by (intro dwp_bind dwp_try dwp_query dwp_sum dwp_if dwp_ret dwp_fail) (use that in auto)
  have again: "dwp (delete_new ap actor q identity) (delete_end (args ! 1) (args ! 3) (UserLogin actor) d) (\<lambda>_ _. False) d"
    if "rqName q = args ! 1" "rqID q = args ! 3" "rqActor q = UserLogin actor" for q identity
    using delete_new_end [OF assms(1), of q ap actor identity] assms(2) that by simp
  have receipt: "delete_end (args ! 1) (args ! 3) (UserLogin actor) d (Receipt p, 0, None) d"
    if "GetCleanupReceipt (args ! 3) (UserLogin actor) d = Inr p" for p
    using that assms(1) by (simp add: delete_end_def)
  show ?thesis
    unfolding cmdDeleteExpected_def Let_def
    by (intro dwp_if dwp_ret dwp_call found dwp_option again refused receipt) simp_all
qed

lemma uwp_deletion:
  assumes "keeps P (hoFault (dxHost xs))" "keeps P (hoNow (dxHost xs))" "\<And>now d'. BeginCleanup now q a inst d \<noteq> Inr d'"
    "\<And>e. E e"
  shows "uwp P d (DeleteWithProof xs c inst q a backendID) Q E"
  unfolding DeleteWithProof_def identity_elsewhere_def orb_never_enrolled_def Let_def
  by (intro uwp_bind uwp_lift uwp_maybe uwp_if uwp_try uwp_query uwp_ret uwp_exec assms)

lemma uwp_receipt:
  assumes "store_inv d" "GetCleanupReceipt (args ! 3) (UserLogin actor) d = Inr r"
    "keeps P (hoFault (apHost ap))" "keeps P (hoNow (apHost ap))"
  shows "uwp P d (cmdDeleteExpected ap actor args) (\<lambda>x. fst (snd x) = 0 \<longrightarrow> fst x = Receipt r) (\<lambda>_. False)"
proof -
  obtain x where x: "GetLifecycleRequest (args ! 3) (UserLogin actor) d = Inr x" "rqPhase x = PhDone"
    using receipt_found [OF assms(1,2)] by blast
  have refused: "BeginCleanup now (args ! 3) (UserLogin actor) inst d \<noteq> Inr d'" for now inst d'
    using done_not_begun [OF assms(1) x, of now inst] by auto
  have known: "request_known (args ! 3) d"
    using x(1) row_find_Some [of "owned_by (args ! 3) (UserLogin actor)" "lifecycle_requests d" x]
    by (auto simp: GetLifecycleRequest_def request_known_def owned_by_def split: option.splits)
  let ?Q = "\<lambda>x. fst (snd x) = 0 \<longrightarrow> fst x = Receipt r"
  have closed: "uwp P d (closed_request ap q e) ?Q (\<lambda>_. False)"
    if "rqID q = args ! 3" "rqActor q = UserLogin actor" for q e
    unfolding closed_request_def that
    by (intro uwp_bind uwp_try uwp_query assms(3)) (use x in \<open>auto intro!: uwp_ret simp: cleanupError_def\<close>)
  have again: "uwp P d (delete_new ap actor q identity) ?Q (\<lambda>_. False)"
    if "rqID q = args ! 3" "rqActor q = UserLogin actor" for q identity
  proof -
    have admitted: "d' = d" if "AdmitLifecycleRequest q d = Inr (fresh, d')" for fresh d'
      using known_admit [OF that] known \<open>rqID q = args ! 3\<close> by (cases fresh) simp_all
    have engine: "uwp P d (bindA (tryA (DeleteWithProof (apOps ap) (apConfig ap) inst (rqID q) (rqActor q) (apBackendID ap)))
      (\<lambda>x. case x of Inl e \<Rightarrow> closed_request ap q e | Inr p \<Rightarrow> retA (Receipt p, 0, None))) ?Q (\<lambda>_. False)" for inst
      unfolding that by (intro uwp_bind uwp_try uwp_deletion assms(3,4) refused) (simp add: closed that)
    show ?thesis
      unfolding delete_new_def
      by (intro uwp_call uwp_query uwp_lift uwp_update assms(3)) (use admitted engine in \<open>auto simp: cleanupError_def\<close>)
  qed
  show ?thesis
    unfolding cmdDeleteExpected_def Let_def
    by (intro uwp_if uwp_ret uwp_call uwp_maybe uwp_option assms(3) again)
      (use assms(2) in \<open>auto intro!: uwp_ret uwp_call uwp_maybe uwp_option assms(3) again simp: cleanupError_def\<close>)
qed

end
