(* ===== verification/CommandProps.thy ===== *)
theory CommandProps
  imports CommandProofs RuntimeProps
begin

section \<open>Properties of deletions and of bound commands\<close>

text \<open>
  What a deletion and the commands bound to a request guarantee, over the models of the control plane,
  the runner, the network helper and the database (\<open>Deletion\<close>, \<open>Commands\<close>).
\<close>

subsection \<open>A concrete world\<close>

text \<open>A stopped virtual machine \<open>web\<close> whose network was already taken down by an attempt to delete it that
  was interrupted, and the command that deletes it.\<close>

definition cm_instance :: Instance where
  "cm_instance = empty_instance\<lparr>iID := net_id, iName := ''web'', iKind := KindVM, iImage := ''arch'', iState := StateStopped,
     iCreatedAt := rt_now, iUpdatedAt := rt_now, iCreatedByUser := ''ada'', iCreatedByNode := ''laptop'', iTapDevice := ''tap0'', iNetworkCIDR := ''172.28.0.4/30'',
     iRootFSPath := ''/d/instances/web/rootfs.img''\<rparr>"

definition cm_db :: db where
  "cm_db = empty_db\<lparr>instances := [stopped_insert (instance_to_row rt_now cm_instance)]\<rparr>"

definition cm_view :: deletion_answer where
  "cm_view = \<lparr>daView = \<lparr>dvMark = Inr net_id, dvCold = False, dvCgroup = Inr ()\<rparr>, daCall = Inr (), daOutbound = ''eth0'',
     daKept = (\<lambda>_. True), daUnreadable = None\<rparr>"

definition cm_ops :: "deletion_host delete_ops" where
  "cm_ops = deletion_ops rc_codec (\<lambda>_. rt_answer) net_ex_codec net_ex_world (\<lambda>_. cm_view) id 
     (\<lambda>l. concat (map (\<lambda>s. s @ ''|'') l)) (\<lambda>_. Inr [])"

definition cm_host :: deletion_host where
  "cm_host = \<lparr>dhRun = quiet_host,
     dhNet = \<lparr>nsFiles = [net_id \<mapsto> Record \<lparr>ndRequest = net_ex_request, ndDone = True\<rparr>], nsLog = [], nsStep = 0\<rparr>,
     dhPaths = [''/d/instances'', ''/d/instances/web'', ''/d/instances/web/rootfs.img'']\<rparr>"

definition cm_app :: "deletion_host app" where
  "cm_app = \<lparr>apOps = cm_ops, apConfig = example_config, apBackendID = ''b1'', apUUID = (\<lambda>s. length s = 36),
     apSync = (\<lambda>h. ((), h)), apColdDisk = (\<lambda>_ _ h. (Inr ''hot'', h)), apExchange = (\<lambda>_ _ h. (Inr (), h)),
     apCancelled = (\<lambda>h. (False, h)), apLease = (\<lambda>h. (True, h)), apFree = (\<lambda>_ h. (True, h))\<rparr>"

definition cm_actor :: Actor where
  "cm_actor = \<lparr>UserLogin = ''ada'', DisplayName = [], NodeName = [], RemoteAddr = [], SSHUser = []\<rparr>"

definition cm_args :: "string list" where
  "cm_args = [''delete'', ''web'', ''--expect'', net_id, net_id, format_time rt_now, ''b1'', ''arch'']"

text \<open>The deletion of \<open>web\<close> by its engine, call by call.\<close>

definition cm_request :: LifecycleRequest where
  "cm_request = \<lparr>rqID = net_id, rqActor = ''ada'', rqCommand = ''delete-proof'', rqName = ''web'', rqArguments = [],
     rqPhase = PhAdmitted, rqExitCode = 0\<rparr>"

definition cm_w0 :: "db \<times> deletion_host" where
  "cm_w0 = (cm_db\<lparr>lifecycle_requests := [cm_request]\<rparr>, cm_host)"

definition cm_w1 :: "db \<times> deletion_host" where
  "cm_w1 = snd (identity_elsewhere (dxHost cm_ops) cm_instance cm_w0)"

definition cm_w2 :: "db \<times> deletion_host" where
  "cm_w2 = snd (execA (dxHost cm_ops) (\<lambda>now. BeginCleanup now net_id ''ada'' cm_instance) cm_w1)"

definition cm_w3 :: "db \<times> deletion_host" where
  "cm_w3 = snd (hostA (dxGateways cm_ops cm_instance) cm_w2)"

definition cm_w4 :: "db \<times> deletion_host" where
  "cm_w4 = snd (settle_runtime cm_ops cm_instance cm_w3)"

definition cm_w5 :: "db \<times> deletion_host" where
  "cm_w5 = snd (hostA (dxPayload cm_ops) cm_w4)"

definition cm_w6 :: "db \<times> deletion_host" where
  "cm_w6 = snd (seeA (dxOutbound cm_ops) cm_w5)"

definition cm_w7 :: "db \<times> deletion_host" where
  "cm_w7 = snd (hostA (dxFinalize cm_ops (finalize_request cm_instance net_id ''eth0'')) cm_w6)"

definition cm_w8 :: "db \<times> deletion_host" where
  "cm_w8 = snd (remove_storage cm_ops cm_instance ''/d/instances/web'' cm_w7)"

definition cm_w9 :: "db \<times> deletion_host" where
  "cm_w9 = snd (seeA (hoNow (dxHost cm_ops)) cm_w8)"

definition cm_receipt :: CleanupReceipt where
  "cm_receipt = receipt_for cm_instance net_id ''ada'' ''b1'' ''absent'' ''/d/instances/web'' ''/d/backups/web'' rt_now"

lemma cm_steps1:
  "fst (identity_elsewhere (dxHost cm_ops) cm_instance cm_w0) = Inr False"
  "fst (execA (dxHost cm_ops) (\<lambda>now. BeginCleanup now net_id ''ada'' cm_instance) cm_w1) = Inr ()"
  "fst (hostA (dxGateways cm_ops cm_instance) cm_w2) = Inr ()"
  "fst (settle_runtime cm_ops cm_instance cm_w3) = Inr ()"
  by code_simp+

lemma cm_steps2:
  "fst (hostA (dxPayload cm_ops) cm_w4) = Inr ()"
  "fst (seeA (dxOutbound cm_ops) cm_w5) = Inr ''eth0''"
  by code_simp+

lemma cm_steps3:
  "fst (hostA (dxFinalize cm_ops (finalize_request cm_instance net_id ''eth0'')) cm_w6) = Inr ()"
  by code_simp+

lemma cm_steps4:
  "fst (remove_storage cm_ops cm_instance ''/d/instances/web'' cm_w7) = Inr ()"
  by code_simp+

lemma cm_steps5:
  "fst (seeA (hoNow (dxHost cm_ops)) cm_w8) = Inr rt_now"
  by code_simp+

lemma cm_steps6:
  "fst (execA (dxHost cm_ops) (\<lambda>now. CommitCleanup now cm_receipt) cm_w9) = Inr ()"
  by code_simp+

lemmas cm_steps = cm_steps1 cm_steps2 cm_steps3 cm_steps4 cm_steps5 cm_steps6

lemma cm_calls:
  "identity_elsewhere (dxHost cm_ops) cm_instance cm_w0 = (Inr False, cm_w1)"
  "execA (dxHost cm_ops) (\<lambda>now. BeginCleanup now net_id ''ada'' cm_instance) cm_w1 = (Inr (), cm_w2)"
  "hostA (dxGateways cm_ops cm_instance) cm_w2 = (Inr (), cm_w3)"
  "settle_runtime cm_ops cm_instance cm_w3 = (Inr (), cm_w4)"
  "hostA (dxPayload cm_ops) cm_w4 = (Inr (), cm_w5)"
  "seeA (dxOutbound cm_ops) cm_w5 = (Inr ''eth0'', cm_w6)"
  "hostA (dxFinalize cm_ops (finalize_request cm_instance net_id ''eth0'')) cm_w6 = (Inr (), cm_w7)"
  "remove_storage cm_ops cm_instance ''/d/instances/web'' cm_w7 = (Inr (), cm_w8)"
  "seeA (hoNow (dxHost cm_ops)) cm_w8 = (Inr rt_now, cm_w9)"
  using cm_steps
  by (simp_all only: prod_eq_iff fst_conv snd_conv cm_w1_def cm_w2_def cm_w3_def cm_w4_def cm_w5_def cm_w6_def cm_w7_def
      cm_w8_def cm_w9_def simp_thms)

lemma cm_dirs: "instanceBackupsDir example_config ''web'' = Inr ''/d/backups/web''" "instanceDir example_config ''web'' = Inr ''/d/instances/web''"
  by code_simp+

lemma cm_deleted:
  "fst (DeleteWithProof cm_ops example_config cm_instance net_id ''ada'' ''b1'' cm_w0) = Inr cm_receipt"
proof -
  have fields: "iName cm_instance = ''web''" "KindName cm_instance = KindVM" "iTailnetNodeID cm_instance = []" "KindVM \<noteq> KindOrb"
    by code_simp+
  have "fst (delete_fenced cm_ops cm_instance net_id ''ada'' ''b1'' False ''/d/instances/web'' ''/d/backups/web'' cm_w2) = Inr cm_receipt"
    using cm_steps(10)
    by (auto simp: delete_fenced_def bindA_def cm_calls drop_identity_def fields retA_def Let_def simp flip: cm_receipt_def split: prod.splits sum.splits)
  then show ?thesis
    by (simp add: DeleteWithProof_def bindA_def liftR_def failIf_def fields cm_calls orb_never_enrolled_def retA_def cm_dirs)
qed

lemma cm_created: "\<not> IsZero (iCreatedAt cm_instance)"
  by code_simp

lemma cm_w0_inv: "store_inv (fst cm_w0)"
  by (simp add: cm_w0_def cm_db_def empty_db_def store_inv_def keys_ok_def instances_ok_def cleanup_ok_def is_key_def stopped_ok_def
      instance_to_row_def cm_instance_def stopped_insert_def)

subsection \<open>The properties\<close>

text \<open>C11: a deletion is committed or can be taken up again. Whatever the host answers, a deletion that
  reports success has stored its receipt, released the fence and left the row deleted and without a
  process; one that fails has left the database as it was, or the instance in deletion with the request
  executing and holding the fence, and the same request can always begin again from there.\<close>

theorem deletion_committed_or_resumable:
  assumes "store_inv d" "\<not> IsZero (iCreatedAt inst)"
    "DeleteWithProof xs c inst q a backendID (d, h) = (res, d', h')"
  shows "store_inv d' \<and> (case res of
      Inr r \<Rightarrow> receipt_bound inst q a r \<and> deleted_by r d'
    | Inl _ \<Rightarrow> d' = d \<or> in_deletion q a inst d' \<and> (\<forall>t. \<exists>d''. BeginCleanup t q a inst d' = Inr d''))"
proof (cases res)
  case (Inl e)
  then show ?thesis
    using dwp_error [OF dwp_deletion [OF assms(1,2)] assms(3) [unfolded Inl]] in_deletion_resumes by auto
next
  case (Inr r)
  then show ?thesis using dwp_result [OF dwp_deletion [OF assms(1,2)] assms(3) [unfolded Inr]] by simp
qed

theorem deletion_committed_or_resumable_witness:
  "deleted_by cm_receipt (fst (snd (DeleteWithProof cm_ops example_config cm_instance net_id ''ada'' ''b1'' cm_w0)))"
proof -
  obtain d' h' where run: "DeleteWithProof cm_ops example_config cm_instance net_id ''ada'' ''b1'' cm_w0 = (Inr cm_receipt, d', h')"
    using cm_deleted by (metis prod.collapse)
  then have "DeleteWithProof cm_ops example_config cm_instance net_id ''ada'' ''b1'' (fst cm_w0, snd cm_w0) = (Inr cm_receipt, d', h')"
    by simp
  from deletion_committed_or_resumable [OF cm_w0_inv cm_created this] show ?thesis unfolding run by simp
qed

text \<open>C15: a receipt of a deletion is backed by the host. When a deletion returns a receipt, no attempt
  to run the instance is open at the runner, the network helper has recorded its network as deleted
  under this request and had proved it, and neither the directory named by the receipt nor the disk of
  the instance exists.\<close>

theorem deletion_receipt_proved:
  assumes "dirs_ok cd (dhRun h)" "TrimSpace (iTapDevice inst) = iTapDevice inst"
    "DeleteWithProof (deletion_ops cd ora nc w da newID enc dec) c inst q a backendID (d, h) = (Inr r, d', h')"
  shows "all_closed (rhDirs (dhRun h') (iName inst)) \<and>
    (\<exists>outbound. finalized w (finalize_request inst q outbound) (dhNet h) (dhNet h')) \<and>
    crInstanceDir r \<notin> set (dhPaths h') \<and> iRootFSPath inst \<notin> set (dhPaths h') \<and>
    instanceDir c (iName inst) = Inr (crInstanceDir r)"
proof -
  have "deletion_ok cd (dhNet h) h" using assms(1) by (simp add: deletion_ok_def)
  then have "deletion.all_proved w (dhNet h) inst q r h'"
    using gives_result [OF deletion.gives_deletion assms(3)] by blast
  moreover have bound: "dwp (DeleteWithProof (deletion_ops cd ora nc w da newID enc dec) c inst q a backendID)
      (\<lambda>r _. crRootFSPath r = iRootFSPath inst \<and> instanceDir c (iName inst) = Inr (crInstanceDir r)) (\<lambda>_ _. True) d"
    unfolding DeleteWithProof_def delete_fenced_def Let_def
    by (intro dwp_bind dwp_rules dwp_lift dwp_elsewhere dwp_never_enrolled dwp_settle dwp_identity_dropped dwp_storage dwp_exec)
      (simp_all add: receipt_for_def)
  ultimately show ?thesis
    using dwp_result [OF bound assms(3)] assms(2)
    by (auto simp: deletion.all_proved_def runtime_absent_def network_absent_def path_gone_def attempt_of_def finalize_request_def)
qed

theorem deletion_receipt_proved_witness:
  "''/d/instances/web'' \<in> set (dhPaths cm_host) \<and>
   ''/d/instances/web'' \<notin> set (dhPaths (snd (snd (DeleteWithProof cm_ops example_config cm_instance net_id ''ada'' ''b1'' cm_w0))))"
proof -
  obtain d' h' where run: "DeleteWithProof cm_ops example_config cm_instance net_id ''ada'' ''b1'' cm_w0 = (Inr cm_receipt, d', h')"
    using cm_deleted by (metis prod.collapse)
  then have ops: "DeleteWithProof (deletion_ops rc_codec (\<lambda>_. rt_answer) net_ex_codec net_ex_world (\<lambda>_. cm_view) id
      (\<lambda>l. concat (map (\<lambda>s. s @ ''|'') l)) (\<lambda>_. Inr [])) example_config cm_instance net_id ''ada'' ''b1'' (fst cm_w0, cm_host) =
      (Inr cm_receipt, d', h')"
    by (simp add: cm_ops_def cm_w0_def)
  have "dirs_ok rc_codec (dhRun cm_host)" by (simp add: cm_host_def quiet_host_def dirs_ok_def dir_inv_def)
  moreover have "TrimSpace (iTapDevice cm_instance) = iTapDevice cm_instance" by code_simp
  ultimately have "crInstanceDir cm_receipt \<notin> set (dhPaths h')" using deletion_receipt_proved [OF _ _ ops] by blast
  then show ?thesis unfolding run by (simp add: cm_receipt_def receipt_for_def cm_host_def)
qed

text \<open>C18: a start or a stop under a request is executed at most once. A command that changes the database
  has its request in the journal, one that reports success has it marked done, and a command whose
  request is already in the journal is refused, leaves the database alone and makes no call to the host
  but for failing statements and the gateways.\<close>

theorem bound_operation_at_most_once:
  assumes "is_key rqID (lifecycle_requests d)" "length (bound_args op args) = 8" "bound_args op args ! 3 = i"
    "bound_run ap op actor args (d, h) = (res, d', h')"
  shows "(d' = d \<or> request_known i d') \<and>
    (\<exists>reply code err. res = Inr (reply, code, err) \<and> (code = 0 \<longrightarrow> request_done i (UserLogin actor) d') \<and>
      (request_known i d \<longrightarrow> code \<noteq> 0 \<and> d' = d \<and>
        (\<forall>P. keeps P (hoFault (apHost ap)) \<and> keeps P (apSync ap) \<and> P h \<longrightarrow> P h')))"
proof -
  have ends: "dwp (bound_run ap op actor args) (bound_end i (UserLogin actor) d) (\<lambda>_ _. False) d"
    using assms(2,3,1) by (rule bound_ends)
  obtain r where r: "res = Inr r"
    using dwp_error [OF ends] assms(4) by (cases res) auto
  have "bound_end i (UserLogin actor) d r d'" using dwp_result [OF ends assms(4) [unfolded r]] .
  moreover have "fst (snd r) \<noteq> 0 \<and> d' = d \<and> (\<forall>P. keeps P (hoFault (apHost ap)) \<and> keeps P (apSync ap) \<and> P h \<longrightarrow> P h')"
    if "request_known i d"
  proof -
    have quiet: "uwp P d (bound_run ap op actor args) (\<lambda>r. fst (snd r) \<noteq> 0) (\<lambda>_. False)"
      if "keeps P (hoFault (apHost ap))" "keeps P (apSync ap)" for P
      using assms(2) \<open>request_known i d\<close> that unfolding assms(3) [symmetric] by (rule uwp_bound)
    have "keeps (\<lambda>_. True) (hoFault (apHost ap))" "keeps (\<lambda>_. True) (apSync ap)" by (simp_all add: keeps_def)
    then have "fst (snd r) \<noteq> 0 \<and> d' = d"
      by (rule uwp_final [OF quiet assms(4)]) (use r in auto)
    then show ?thesis using uwp_final [OF quiet assms(4)] by blast
  qed
  ultimately show ?thesis
    using r by (cases r) (auto simp: bound_end_def)
qed

definition cm_stop :: "string list" where
  "cm_stop = [''stop'', ''web'', ''--expect'', net_id, net_id, format_time rt_now, ''b1'', ''arch'']"

theorem bound_operation_at_most_once_witness:
  "fst (snd (cmdStop cm_app cm_actor cm_stop cm_w0)) = fst cm_w0"
proof -
  obtain res d' h' where run: "bound_run cm_app BoundStop cm_actor cm_stop (fst cm_w0, snd cm_w0) = (res, d', h')"
    by (metis prod.exhaust)
  have "is_key rqID (lifecycle_requests (fst cm_w0))" "request_known net_id (fst cm_w0)"
    by (simp_all add: cm_w0_def is_key_def request_known_def cm_request_def)
  moreover have "length (bound_args BoundStop cm_stop) = 8" "bound_args BoundStop cm_stop ! 3 = net_id"
    by (simp_all add: cm_stop_def option_flag_def numeral_2_eq_2 numeral_3_eq_3)
  ultimately have "d' = fst cm_w0" using bound_operation_at_most_once [OF _ _ _ run] by blast
  then show ?thesis using run by simp
qed


definition cm_done :: db where
  "cm_done = empty_db\<lparr>lifecycle_requests := [cm_request\<lparr>rqPhase := PhDone\<rparr>],
     cleanup_receipts := [\<lparr>rcRequestID = net_id, rcActor = ''ada'', rcReceipt = cm_receipt\<rparr>]\<rparr>"


end
