(* ===== verification/Triples.thy ===== *)
theory Triples
  imports Effects
begin

section \<open>Triples for actions\<close>

text \<open>
  Checks and looks that the models of the runner share, triples with one postcondition for results and one for
  failures, predicates that an action keeps, and rules that evaluate an action in a known state.
\<close>

definition lookK :: "('w \<Rightarrow> 'a) \<Rightarrow> ('a, 'w) act" where
  "lookK f s = (Inr (f s), s)"

definition checkK :: "bool \<Rightarrow> string \<Rightarrow> (unit, 'w) act" where
  "checkK bad msg = liftR (failIf bad (ErrMsg msg))"

definition foundK :: "('w \<Rightarrow> 'a option) \<Rightarrow> ('a, 'w) act" where
  "foundK f s = ((case f s of None \<Rightarrow> Inl ErrNotExist | Some x \<Rightarrow> Inr x), s)"

subsection \<open>Triples\<close>

text \<open>\<open>tr P m Q I\<close>: from a state with \<open>P\<close> the action ends with \<open>Q\<close> for its result or fails with \<open>I\<close>.\<close>

definition tr :: "('w \<Rightarrow> bool) \<Rightarrow> ('a, 'w) act \<Rightarrow> ('a \<Rightarrow> 'w \<Rightarrow> bool) \<Rightarrow> ('w \<Rightarrow> bool) \<Rightarrow> bool" where
  "tr P m Q I \<longleftrightarrow> (\<forall>s. P s \<longrightarrow> wp m Q (\<lambda>_. I) s)"

lemma tr_bind: "tr P m Q I \<Longrightarrow> (\<And>x. tr (Q x) (k x) R I) \<Longrightarrow> tr P (bindA m k) R I"
  unfolding tr_def wp_bind by (blast intro: wp_mono)

lemma tr_conseq:
  "tr P m Q I \<Longrightarrow> (\<And>s. P' s \<Longrightarrow> P s) \<Longrightarrow> (\<And>x s. Q x s \<Longrightarrow> Q' x s) \<Longrightarrow> (\<And>s. I s \<Longrightarrow> I' s) \<Longrightarrow> tr P' m Q' I'"
  unfolding tr_def by (blast intro: wp_mono)

lemma tr_pre: "tr P m Q I \<Longrightarrow> (\<And>s. P' s \<Longrightarrow> P s) \<Longrightarrow> tr P' m Q I"
  and tr_post: "tr P m Q I \<Longrightarrow> (\<And>x s. Q x s \<Longrightarrow> Q' x s) \<Longrightarrow> tr P m Q' I"
  by (auto intro: tr_conseq)

lemma tr_ret: "(\<And>s. P s \<Longrightarrow> Q x s) \<Longrightarrow> tr P (retA x) Q I"
  and tr_fail: "(\<And>s. P s \<Longrightarrow> I s) \<Longrightarrow> tr P (failA e) Q I"
  by (simp_all add: tr_def wp_simps)

lemma tr_lift: "(\<And>s. P s \<Longrightarrow> I s) \<Longrightarrow> tr P (liftR r) (\<lambda>x s. P s \<and> r = Inr x) I"
  by (simp add: tr_def wp_simps split: sum.split)

lemma tr_check: "(\<And>s. P s \<Longrightarrow> I s) \<Longrightarrow> tr P (checkK bad msg) (\<lambda>_ s. P s \<and> \<not> bad) I"
  unfolding checkK_def by (rule tr_post [OF tr_lift]) (auto simp: failIf_def split: if_splits)

lemma tr_look: "tr P (lookK f) (\<lambda>x s. P s \<and> x = f s) I"
  by (simp add: tr_def wp_def lookK_def)

lemma tr_found: "(\<And>s. P s \<Longrightarrow> I s) \<Longrightarrow> tr P (foundK f) (\<lambda>x s. P s \<and> f s = Some x) I"
  by (simp add: tr_def wp_def foundK_def split: option.split)

lemma tr_try: "tr P m (\<lambda>x. Q (Inr x)) I \<Longrightarrow> (\<And>e s. I s \<Longrightarrow> Q (Inl e) s) \<Longrightarrow> tr P (tryA m) Q I'"
  unfolding tr_def wp_try by (blast intro: wp_mono)

lemma tr_if: "(b \<Longrightarrow> tr P m Q I) \<Longrightarrow> (\<not> b \<Longrightarrow> tr P n Q I) \<Longrightarrow> tr P (if b then m else n) Q I"
  by simp

lemma tr_option:
  "(z = None \<Longrightarrow> tr P m Q I) \<Longrightarrow> (\<And>x. z = Some x \<Longrightarrow> tr P (k x) Q I) \<Longrightarrow>
    tr P (case z of None \<Rightarrow> m | Some x \<Rightarrow> k x) Q I"
  by (cases z) simp_all

lemma tr_sum:
  "(\<And>e. z = Inl e \<Longrightarrow> tr P (m e) Q I) \<Longrightarrow> (\<And>x. z = Inr x \<Longrightarrow> tr P (k x) Q I) \<Longrightarrow>
    tr P (case z of Inl e \<Rightarrow> m e | Inr x \<Rightarrow> k x) Q I"
  by (cases z) simp_all

lemma tr_prod: "(\<And>x y. z = (x, y) \<Longrightarrow> tr P (k x y) Q I) \<Longrightarrow> tr P (case z of (x, y) \<Rightarrow> k x y) Q I"
  by (cases z) simp

lemma tr_fact: "(\<And>s. P s \<Longrightarrow> b) \<Longrightarrow> (b \<Longrightarrow> tr P m Q I) \<Longrightarrow> tr P m Q I"
  by (auto simp: tr_def)

text \<open>An action that keeps a predicate, whether it fails or not.\<close>

definition keep :: "('w \<Rightarrow> bool) \<Rightarrow> ('a, 'w) act \<Rightarrow> bool" where
  "keep P m \<longleftrightarrow> tr P m (\<lambda>_. P) P"

lemma keep_ret: "keep P (retA x)" and keep_fail: "keep P (failA e)" and keep_lift: "keep P (liftR r)"
  and keep_check: "keep P (checkK bad msg)" and keep_look: "keep P (lookK f)" and keep_found: "keep P (foundK g)"
  by (auto simp: keep_def checkK_def tr_def wp_simps wp_def lookK_def foundK_def split: sum.split option.split)

lemma keep_bind: "keep P m \<Longrightarrow> (\<And>x. keep P (k x)) \<Longrightarrow> keep P (bindA m k)"
  unfolding keep_def by (rule tr_bind)

lemma keep_bind_lift: "(\<And>x. r = Inr x \<Longrightarrow> keep P (k x)) \<Longrightarrow> keep P (bindA (liftR r) k)"
  by (cases r) (auto simp: keep_def tr_def wp_simps)

lemma keep_try: "keep P m \<Longrightarrow> keep P (tryA m)"
  unfolding keep_def by (rule tr_try)

lemma keep_if: "(b \<Longrightarrow> keep P m) \<Longrightarrow> (\<not> b \<Longrightarrow> keep P n) \<Longrightarrow> keep P (if b then m else n)"
  by simp

lemma keep_option:
  "(z = None \<Longrightarrow> keep P m) \<Longrightarrow> (\<And>x. z = Some x \<Longrightarrow> keep P (k x)) \<Longrightarrow> keep P (case z of None \<Rightarrow> m | Some x \<Rightarrow> k x)"
  by (cases z) simp_all

lemma keep_sum:
  "(\<And>e. z = Inl e \<Longrightarrow> keep P (m e)) \<Longrightarrow> (\<And>x. z = Inr x \<Longrightarrow> keep P (k x)) \<Longrightarrow> keep P (case z of Inl e \<Rightarrow> m e | Inr x \<Rightarrow> k x)"
  by (cases z) simp_all

lemma keep_prod: "(\<And>x y. keep P (k x y)) \<Longrightarrow> keep P (case z of (x, y) \<Rightarrow> k x y)"
  by (cases z) simp

lemmas keep_basic = keep_ret keep_fail keep_lift keep_check keep_look keep_found keep_bind_lift keep_bind keep_try keep_if
  keep_option keep_sum keep_prod

lemma keep_tr: "keep P m \<Longrightarrow> (\<And>s. P s \<Longrightarrow> I s) \<Longrightarrow> tr P m (\<lambda>_. P) I"
  unfolding keep_def by (erule tr_conseq) auto

lemma tr_conj: "tr P m Q I \<Longrightarrow> tr P' m Q' I' \<Longrightarrow> tr (\<lambda>s. P s \<and> P' s) m (\<lambda>x s. Q x s \<and> Q' x s) (\<lambda>s. I s \<and> I' s)"
  unfolding tr_def by (auto intro: wp_mono [OF wp_conj])

lemma tr_disj: "tr P m Q I \<Longrightarrow> tr P' m Q I \<Longrightarrow> tr (\<lambda>s. P s \<or> P' s) m Q I"
  by (auto simp: tr_def)

lemma bind_assoc: "bindA (bindA m f) g = bindA m (\<lambda>x. bindA (f x) g)"
  by (auto simp: fun_eq_iff bindA_def split: sum.split prod.split)

lemma tr_run: "tr P m (\<lambda>_. Q) Q \<Longrightarrow> P s \<Longrightarrow> m s = (r, s') \<Longrightarrow> Q s'"
  by (metis tr_def wp_final)

lemma tr_run_result: "tr P m Q I \<Longrightarrow> P s \<Longrightarrow> m s = (Inr x, s') \<Longrightarrow> Q x s'"
  unfolding tr_def by (blast dest: wp_result)

lemma keep_final: "keep P m \<Longrightarrow> P s \<Longrightarrow> P (snd (m s))"
  unfolding keep_def by (metis tr_run surjective_pairing)

subsection \<open>Evaluation\<close>

text \<open>Evaluation of an action in a known state: only the state is rewritten, then the first action runs.\<close>

lemma bind_weak: "s = s' \<Longrightarrow> bindA m k s = bindA m k s'"
  and try_weak: "s = s' \<Longrightarrow> tryA m s = tryA m s'"
  by simp_all

lemma bind_eval: "m s = (Inr x, s') \<Longrightarrow> bindA m k s = k x s'"
  and bind_fail: "m s = (Inl e, s') \<Longrightarrow> bindA m k s = (Inl e, s')"
  and try_eval: "n s = (r, s'') \<Longrightarrow> tryA n s = (Inr r, s'')"
  by (simp_all add: bindA_def tryA_def)

end
