(* ===== verification/ColdStore.thy ===== *)
theory ColdStore
  imports DiskLayout Triples
begin

section \<open>The cold store\<close>

text \<open>
  src/internal/coldstore: the store that keeps the disks of stopped instances on another host, its server
  (server.go) and the client the runner uses (client.go). An object is immutable, is verified when it is
  received, and is deleted for good by a permanent record of its identifier.

  The state is what survives an interruption on both hosts; the part of the runner
  (src/internal/vmrunner/cold_disk.go) is in the same record because the two share the calls. Every call of
  the operating system or of the connection takes an answer from an arbitrary sequence: it may fail before its
  effect or after it, a stream may arrive damaged, and identities and new identifiers are what the answer
  says. A process that is killed is one all whose later calls fail.
\<close>

subsection \<open>State\<close>

record Object =
  obID :: string
  obUUID :: string
  obSHA256 :: string
  obSize :: int
  obParent :: string

text \<open>A subvolume with one file \<open>rootfs.img\<close>.\<close>

record cold_volume =
  vlIdentity :: SubvolumeIdentity
  vlContent :: string
  vlReadonly :: bool

record stored_object =
  soManifest :: Object
  soVolume :: cold_volume

record coldDiskRecord =
  cdVersion :: int
  cdInstanceID :: string
  cdPhase :: string
  cdRemote :: bool
  cdHost :: string
  cdDisk :: SubvolumeIdentity
  cdCandidate :: SubvolumeIdentity
  cdObject :: Object
  cdBase :: SubvolumeIdentity
  cdBaseName :: string

record cold_marker =
  cmInstanceID :: string
  cmPhase :: string
  cmRemote :: bool

text \<open>On the host of the runner: the journal, the public marker, the tombstones of deleted incarnations, the
  incarnation whose memory is saved, the disk, the three stages and the bases of images; \<open>kRec\<close> is the record in
  memory that the code passes by reference. On the host of the store: the objects, the permanent records of
  deletions and the deletions under way.\<close>

record cold_state =
  kJournal :: "coldDiskRecord option"
  kMarker :: "cold_marker option"
  kTombstones :: "string list"
  kRAM :: "string option"
  kDisk :: "cold_volume option"
  kSend :: "cold_volume option"
  kReceived :: "(string \<times> cold_volume) option"
  kCandidate :: "cold_volume option"
  kBases :: "(string \<times> cold_volume) list"
  kRec :: coldDiskRecord
  kObjects :: "(string \<times> stored_object) list"
  kRemoved :: "string list"
  kDeleting :: "string list"
  kStep :: nat

record cold_answer =
  kwErr :: "error option"
  kwLate :: "error option"
  kwID :: string
  kwIdentity :: SubvolumeIdentity
  kwStream :: "string option"

type_synonym cold_world = "nat \<Rightarrow> cold_answer"
type_synonym 'a cold_act = "('a, cold_state) act"

text \<open>SHA-256, the test for a canonical identifier of the \<open>uuid\<close> package, and the configured host.\<close>

record cold_env =
  ceHash :: "string \<Rightarrow> string"
  ceValidID :: "string \<Rightarrow> bool"
  ceHost :: string

subsection \<open>Calls\<close>

definition askK :: "cold_world \<Rightarrow> cold_answer cold_act" where
  "askK w s = (Inr (w (kStep s)), s\<lparr>kStep := Suc (kStep s)\<rparr>)"

definition callK :: "cold_world \<Rightarrow> cold_answer cold_act" where
  "callK w = bindA (askK w) (\<lambda>a. case kwErr a of Some e \<Rightarrow> failA e | None \<Rightarrow> retA a)"

definition effectK :: "cold_world \<Rightarrow> (cold_answer \<Rightarrow> cold_state \<Rightarrow> cold_state) \<Rightarrow> unit cold_act" where
  "effectK w f = bindA (callK w) (\<lambda>a s. ((case kwLate a of Some e \<Rightarrow> Inl e | None \<Rightarrow> Inr ()), f a s))"

subsection \<open>Objects\<close>

definition hex_digit :: "char \<Rightarrow> bool" where
  "hex_digit c \<longleftrightarrow> c \<in> set ''0123456789abcdef''"

definition Object_validate :: "cold_env \<Rightarrow> Object \<Rightarrow> unit result" where
  "Object_validate env ob =
     bindR (failIf (\<not> ceValidID env (obID ob) \<or> \<not> ceValidID env (obUUID ob) \<or> obSize ob \<le> 0 \<or>
       (obParent ob \<noteq> [] \<and> (\<not> ceValidID env (obParent ob) \<or> obParent ob = obID ob)))
       (ErrMsg ''invalid cold object identity, parent, or size'')) (\<lambda>_.
     failIf (length (obSHA256 ob) \<noteq> 64 \<or> \<not> list_all hex_digit (obSHA256 ob)) (ErrMsg ''invalid SHA256''))"

text \<open>A volume that is looked at: the structure of the subvolume is read by calls that may fail.\<close>

definition verifyDiskIdentity :: "cold_world \<Rightarrow> cold_volume \<Rightarrow> Object \<Rightarrow> bool \<Rightarrow> unit cold_act" where
  "verifyDiskIdentity w v ob received =
     bindA (callK w) (\<lambda>_.
     bindA (checkK (\<not> vlReadonly v) ''disk subvolume is not read-only'') (\<lambda>_.
     checkK ((if received then siReceivedUUID (vlIdentity v) else siUUID (vlIdentity v)) \<noteq> obUUID ob)
       ''disk subvolume UUID mismatch''))"

definition verifyDisk :: "cold_env \<Rightarrow> cold_world \<Rightarrow> cold_volume \<Rightarrow> Object \<Rightarrow> bool \<Rightarrow> unit cold_act" where
  "verifyDisk env w v ob received =
     bindA (verifyDiskIdentity w v ob received) (\<lambda>_.
     bindA (callK w) (\<lambda>_.
     bindA (checkK (int (length (vlContent v)) \<noteq> obSize ob) ''rootfs size mismatch'') (\<lambda>_.
     bindA (callK w) (\<lambda>_.
     checkK (ceHash env (vlContent v) \<noteq> obSHA256 ob) ''rootfs checksum mismatch''))))"

subsection \<open>Requests\<close>

record cold_request =
  crOperation :: string
  crObject :: Object
  crParent :: string
  crCompression :: string

definition bare_object :: "string \<Rightarrow> Object" where
  "bare_object i = \<lparr>obID = i, obUUID = [], obSHA256 = [], obSize = 0, obParent = []\<rparr>"

definition cold_request_validate :: "cold_env \<Rightarrow> cold_request \<Rightarrow> unit result" where
  "cold_request_validate env r =
     bindR (failIf (crCompression r \<noteq> [] \<and> (crCompression r \<noteq> ''zstd'' \<or> (crOperation r \<noteq> ''put'' \<and> crOperation r \<noteq> ''get'')))
       (ErrMsg ''unsupported transfer compression'')) (\<lambda>_.
     bindR (failIf (\<not> ceValidID env (obID (crObject r))) (ErrMsg ''invalid object ID'')) (\<lambda>_.
     if crOperation r = ''put'' then
       bindR (failIf (crParent r \<noteq> []) (ErrMsg ''unexpected parent'')) (\<lambda>_. Object_validate env (crObject r))
     else
       bindR (if crOperation r = ''get'' then
           failIf (crParent r \<noteq> [] \<and> (\<not> ceValidID env (crParent r) \<or> crParent r = obID (crObject r))) (ErrMsg ''invalid get parent'')
         else if crOperation r = ''stat'' \<or> crOperation r = ''delete'' then failIf (crParent r \<noteq> []) (ErrMsg ''unexpected parent'')
         else Inl (ErrMsg ''unknown operation'')) (\<lambda>_.
       failIf (crObject r \<noteq> bare_object (obID (crObject r))) (ErrMsg ''unexpected object metadata''))))"

subsection \<open>The server\<close>

definition errObjectDeleted :: error where
  "errObjectDeleted = ErrMsg ''object ID is permanently deleted''"

definition manifest :: "cold_env \<Rightarrow> cold_world \<Rightarrow> string \<Rightarrow> stored_object cold_act" where
  "manifest env w i =
     bindA (callK w) (\<lambda>_.
     bindA (foundK (\<lambda>s. map_of (kObjects s) i)) (\<lambda>so.
     bindA (liftR (Object_validate env (soManifest so))) (\<lambda>_.
     bindA (checkK (obID (soManifest so) \<noteq> i) ''manifest ID mismatch'') (\<lambda>_. retA so))))"

definition not_deleted :: "cold_world \<Rightarrow> string \<Rightarrow> unit cold_act" where
  "not_deleted w i =
     bindA (callK w) (\<lambda>_.
     bindA (lookK kRemoved) (\<lambda>removed. if i \<in> set removed then failA errObjectDeleted else retA ()))"

definition server_stat :: "cold_env \<Rightarrow> cold_world \<Rightarrow> string \<Rightarrow> Object cold_act" where
  "server_stat env w i =
     bindA (not_deleted w i) (\<lambda>_.
     bindA (manifest env w i) (\<lambda>so.
     bindA (verifyDiskIdentity w (soVolume so) (soManifest so) True) (\<lambda>_. retA (soManifest so))))"

text \<open>The record of a deletion is created exclusively and synced; an existing one is synced again.\<close>

definition deletionRecord :: "cold_world \<Rightarrow> string \<Rightarrow> unit cold_act" where
  "deletionRecord w i = effectK w (\<lambda>_ s. s\<lparr>kRemoved := List.insert i (kRemoved s)\<rparr>)"

fun recover_each :: "cold_world \<Rightarrow> string list \<Rightarrow> unit cold_act" where
  "recover_each w [] = retA ()"
| "recover_each w (i # ids) =
     bindA (deletionRecord w i) (\<lambda>_.
     bindA (effectK w (\<lambda>_ s. s\<lparr>kDeleting := removeAll i (kDeleting s)\<rparr>)) (\<lambda>_. recover_each w ids))"

text \<open>All stages are validated first; the stages of interrupted uploads hold nothing and are removed with the calls.\<close>

definition recoverStages :: "cold_env \<Rightarrow> cold_world \<Rightarrow> unit cold_act" where
  "recoverStages env w =
     bindA (callK w) (\<lambda>_.
     bindA (lookK kDeleting) (\<lambda>ids.
     bindA (checkK (list_ex (\<lambda>i. \<not> ceValidID env i) ids) ''foreign staging namespace entry'') (\<lambda>_.
     bindA (callK w) (\<lambda>_.
     bindA (recover_each w ids) (\<lambda>_.
     bindA (callK w) (\<lambda>_. retA ()))))))"

text \<open>What \<open>btrfs receive\<close> makes of a stream that was sent with the content \<open>c\<close>.\<close>

definition receive_volume :: "cold_answer \<Rightarrow> string \<Rightarrow> cold_volume" where
  "receive_volume a c =
     \<lparr>vlIdentity = kwIdentity a, vlContent = (case kwStream a of None \<Rightarrow> c | Some damaged \<Rightarrow> damaged), vlReadonly = True\<rparr>"

text \<open>The stage is verified, synced and renamed to its place, which must not exist.\<close>

definition publish_object :: "cold_env \<Rightarrow> cold_world \<Rightarrow> Object \<Rightarrow> cold_volume \<Rightarrow> unit cold_act" where
  "publish_object env w ob v =
     bindA (verifyDisk env w v ob True) (\<lambda>_.
     bindA (callK w) (\<lambda>_.
     effectK w (\<lambda>_ s. if map_of (kObjects s) (obID ob) = None
       then s\<lparr>kObjects := (obID ob, \<lparr>soManifest = ob, soVolume = v\<rparr>) # kObjects s\<rparr> else s)))"

definition server_put :: "cold_env \<Rightarrow> cold_world \<Rightarrow> Object \<Rightarrow> string \<Rightarrow> unit cold_act" where
  "server_put env w ob c =
     bindA (not_deleted w (obID ob)) (\<lambda>_.
     bindA (callK w) (\<lambda>_.
     bindA (lookK (\<lambda>s. map_of (kObjects s) (obID ob))) (\<lambda>old.
     bindA (checkK (old \<noteq> None) ''object exists or cannot be inspected; refusing overwrite'') (\<lambda>_.
     bindA (if obParent ob \<noteq> [] then bindA (server_stat env w (obParent ob)) (\<lambda>_. retA ()) else retA ()) (\<lambda>_.
     bindA (callK w) (\<lambda>a. publish_object env w ob (receive_volume a c)))))))"

text \<open>The content that is streamed out; the parent only makes the stream shorter.\<close>

definition server_get :: "cold_env \<Rightarrow> cold_world \<Rightarrow> string \<Rightarrow> string \<Rightarrow> string cold_act" where
  "server_get env w i parent =
     bindA (server_stat env w i) (\<lambda>_.
     bindA (if parent \<noteq> [] then
         bindA (tryA (server_stat env w parent)) (\<lambda>r.
         case r of Inl e \<Rightarrow> if errors_is e ErrNotExist then retA () else failA e | Inr _ \<Rightarrow> retA ())
       else retA ()) (\<lambda>_.
     bindA (callK w) (\<lambda>_.
     bindA (foundK (\<lambda>s. map_of (kObjects s) i)) (\<lambda>so. retA (vlContent (soVolume so))))))"

text \<open>No object of the directory may name \<open>i\<close> as its parent.\<close>

fun unreferenced :: "cold_env \<Rightarrow> cold_world \<Rightarrow> string \<Rightarrow> string list \<Rightarrow> unit cold_act" where
  "unreferenced env w i [] = retA ()"
| "unreferenced env w i (name # names) =
     bindA (checkK (\<not> ceValidID env name) ''unexpected object namespace entry'') (\<lambda>_.
     bindA (manifest env w name) (\<lambda>so.
     bindA (checkK (obParent (soManifest so) = i) ''object is referenced by a child'') (\<lambda>_.
     unreferenced env w i names)))"

definition rename_deleting :: "cold_world \<Rightarrow> string \<Rightarrow> unit cold_act" where
  "rename_deleting w i =
     effectK w (\<lambda>_ s. s\<lparr>kObjects := filter (\<lambda>e. fst e \<noteq> i) (kObjects s), kDeleting := List.insert i (kDeleting s)\<rparr>)"

definition server_delete :: "cold_env \<Rightarrow> cold_world \<Rightarrow> string \<Rightarrow> unit cold_act" where
  "server_delete env w i =
     bindA (recoverStages env w) (\<lambda>_.
     bindA (callK w) (\<lambda>_.
     bindA (lookK (\<lambda>s. map_of (kObjects s) i)) (\<lambda>old.
     case old of
       None \<Rightarrow> deletionRecord w i
     | Some _ \<Rightarrow>
       bindA (manifest env w i) (\<lambda>so.
       bindA (verifyDiskIdentity w (soVolume so) (soManifest so) True) (\<lambda>_.
       bindA (callK w) (\<lambda>_.
       bindA (lookK (\<lambda>s. map fst (kObjects s))) (\<lambda>names.
       bindA (unreferenced env w i names) (\<lambda>_.
       bindA (callK w) (\<lambda>_.
       bindA (deletionRecord w i) (\<lambda>_.
       bindA (rename_deleting w i) (\<lambda>_.
       recoverStages env w)))))))))))"

text \<open>Every operation holds the lock of the store and recovers interrupted stages first.\<close>

definition withServer :: "cold_env \<Rightarrow> cold_world \<Rightarrow> 'a cold_act \<Rightarrow> 'a cold_act" where
  "withServer env w m = bindA (callK w) (\<lambda>_. bindA (recoverStages env w) (\<lambda>_. m))"

datatype cold_reply = Manifest Object | Content string | Done

definition Serve :: "cold_env \<Rightarrow> cold_world \<Rightarrow> cold_request \<Rightarrow> string \<Rightarrow> cold_reply cold_act" where
  "Serve env w r c =
     bindA (liftR (cold_request_validate env r)) (\<lambda>_.
     withServer env w
       (if crOperation r = ''stat'' then bindA (server_stat env w (obID (crObject r))) (\<lambda>ob. retA (Manifest ob))
        else if crOperation r = ''put'' then bindA (server_put env w (crObject r) c) (\<lambda>_. retA Done)
        else if crOperation r = ''get'' then bindA (server_get env w (obID (crObject r)) (crParent r)) (\<lambda>x. retA (Content x))
        else if crOperation r = ''delete'' then bindA (server_delete env w (obID (crObject r))) (\<lambda>_. retA Done)
        else failA (ErrMsg ''invalid operation'')))"

subsection \<open>Local operations\<close>

definition Receive :: "cold_env \<Rightarrow> cold_world \<Rightarrow> Object \<Rightarrow> string \<Rightarrow> unit cold_act" where
  "Receive env w ob c =
     bindA (liftR (Object_validate env ob)) (\<lambda>_.
     withServer env w
       (bindA (tryA (server_stat env w (obID ob))) (\<lambda>r. case r of
         Inr actual \<Rightarrow> bindA (checkK (actual \<noteq> ob) ''immutable object already exists with different metadata'') (\<lambda>_.
           bindA (callK w) (\<lambda>_. retA ()))
       | Inl e \<Rightarrow> if errors_is e ErrNotExist then server_put env w ob c else failA e)))"

definition LocalStat :: "cold_env \<Rightarrow> cold_world \<Rightarrow> string \<Rightarrow> Object cold_act" where
  "LocalStat env w i =
     bindA (checkK (\<not> ceValidID env i) ''invalid object ID'') (\<lambda>_. withServer env w (server_stat env w i))"

definition Remove :: "cold_env \<Rightarrow> cold_world \<Rightarrow> string \<Rightarrow> unit cold_act" where
  "Remove env w i =
     bindA (checkK (\<not> ceValidID env i) ''invalid object ID'') (\<lambda>_. withServer env w (server_delete env w i))"

text \<open>The objects of a discarded set that are there; every other object must be intact and independent of the set.\<close>

fun discard_present :: "cold_env \<Rightarrow> cold_world \<Rightarrow> string list \<Rightarrow> string list \<Rightarrow> string list cold_act" where
  "discard_present env w ids [] = retA []"
| "discard_present env w ids (name # names) =
     bindA (checkK (\<not> ceValidID env name) ''unexpected object namespace entry'') (\<lambda>_.
     if name \<notin> set ids then
       bindA (manifest env w name) (\<lambda>so.
       bindA (checkK (obParent (soManifest so) \<in> set ids) ''retained object depends on discard set'') (\<lambda>_.
       discard_present env w ids names))
     else
       bindA (callK w) (\<lambda>_.
       bindA (foundK (\<lambda>s. map_of (kObjects s) name)) (\<lambda>so.
       bindA (checkK (\<not> vlReadonly (soVolume so)) ''disk subvolume is not read-only'') (\<lambda>_.
       bindA (discard_present env w ids names) (\<lambda>present. retA (name # present))))))"

fun each_id :: "(string \<Rightarrow> unit cold_act) \<Rightarrow> string list \<Rightarrow> unit cold_act" where
  "each_id f [] = retA ()"
| "each_id f (i # ids) = bindA (f i) (\<lambda>_. each_id f ids)"

definition DiscardObjects :: "cold_env \<Rightarrow> cold_world \<Rightarrow> string list \<Rightarrow> unit cold_act" where
  "DiscardObjects env w ids =
     bindA (checkK (ids = []) ''explicit nonempty discard set required'') (\<lambda>_.
     bindA (checkK (list_ex (\<lambda>i. \<not> ceValidID env i) ids \<or> \<not> distinct ids) ''discard IDs must be unique canonical UUIDs'') (\<lambda>_.
     withServer env w
       (bindA (callK w) (\<lambda>_.
       bindA (lookK (\<lambda>s. map fst (kObjects s))) (\<lambda>names.
       bindA (discard_present env w ids names) (\<lambda>present.
       bindA (each_id (deletionRecord w) ids) (\<lambda>_.
       bindA (each_id (rename_deleting w) present) (\<lambda>_.
       recoverStages env w))))))))"

subsection \<open>The client\<close>

text \<open>A command over the connection: the request is validated before it is sent; it may be lost, and the reply.\<close>

definition encodeRequest :: "cold_env \<Rightarrow> cold_world \<Rightarrow> cold_request \<Rightarrow> unit cold_act" where
  "encodeRequest env w r = bindA (callK w) (\<lambda>_. liftR (cold_request_validate env r))"

definition remoteK :: "cold_world \<Rightarrow> 'a cold_act \<Rightarrow> 'a cold_act" where
  "remoteK w m = bindA (callK w) (\<lambda>_. bindA m (\<lambda>x. bindA (callK w) (\<lambda>_. retA x)))"

definition client_stat :: "cold_env \<Rightarrow> cold_world \<Rightarrow> string \<Rightarrow> Object cold_act" where
  "client_stat env w i =
     (let r = \<lparr>crOperation = ''stat'', crObject = bare_object i, crParent = [], crCompression = []\<rparr> in
     bindA (encodeRequest env w r) (\<lambda>_.
     bindA (remoteK w (Serve env w r [])) (\<lambda>reply. case reply of
       Manifest ob \<Rightarrow>
         bindA (liftR (Object_validate env ob)) (\<lambda>_.
         bindA (checkK (obID ob \<noteq> i) ''stat returned wrong object ID'') (\<lambda>_. retA ob))
     | _ \<Rightarrow> failA (ErrMsg ''invalid stat response''))))"

definition client_Put :: "cold_env \<Rightarrow> cold_world \<Rightarrow> Object \<Rightarrow> cold_volume \<Rightarrow> cold_volume option \<Rightarrow> unit cold_act" where
  "client_Put env w ob v parent =
     (let r = \<lparr>crOperation = ''put'', crObject = ob, crParent = [], crCompression = ''zstd''\<rparr> in
     bindA (liftR (Object_validate env ob)) (\<lambda>_.
     bindA (checkK ((parent = None) \<noteq> (obParent ob = [])) ''parent path and object parent must be supplied together'') (\<lambda>_.
     bindA (verifyDiskIdentity w v ob False) (\<lambda>_.
     bindA (encodeRequest env w r) (\<lambda>_.
     bindA (tryA (client_stat env w (obID ob))) (\<lambda>x.
     case x of
       Inr existing \<Rightarrow> checkK (existing \<noteq> ob) ''immutable object already exists with different metadata''
     | Inl _ \<Rightarrow>
       bindA (case parent of
           None \<Rightarrow> retA ()
         | Some p \<Rightarrow> bindA (client_stat env w (obParent ob)) (\<lambda>po. verifyDiskIdentity w p po False)) (\<lambda>_.
       bindA (remoteK w (Serve env w r (vlContent v))) (\<lambda>_.
       bindA (client_stat env w (obID ob)) (\<lambda>actual.
       checkK (actual \<noteq> ob) ''uploaded object metadata mismatch'')))))))))"

text \<open>The received subvolume is kept under the identifier of the object.\<close>

definition client_Get :: "cold_env \<Rightarrow> cold_world \<Rightarrow> Object \<Rightarrow> string \<Rightarrow> unit cold_act" where
  "client_Get env w ob parent =
     (let r = \<lparr>crOperation = ''get'', crObject = bare_object (obID ob), crParent = parent, crCompression = ''zstd''\<rparr> in
     bindA (liftR (Object_validate env ob)) (\<lambda>_.
     bindA (encodeRequest env w r) (\<lambda>_.
     bindA (client_stat env w (obID ob)) (\<lambda>actual.
     bindA (checkK (actual \<noteq> ob) ''remote object metadata mismatch'') (\<lambda>_.
     bindA (callK w) (\<lambda>_.
     bindA (remoteK w (Serve env w r [])) (\<lambda>reply. case reply of
       Content c \<Rightarrow>
         bindA (callK w) (\<lambda>a.
         let v = receive_volume a c in
         bindA (verifyDisk env w v ob True) (\<lambda>_.
         bindA (callK w) (\<lambda>_.
         effectK w (\<lambda>_ s. s\<lparr>kReceived := Some (obID ob, v)\<rparr>))))
     | _ \<Rightarrow> failA (ErrMsg ''invalid stream''))))))))"

definition client_Delete :: "cold_env \<Rightarrow> cold_world \<Rightarrow> string \<Rightarrow> unit cold_act" where
  "client_Delete env w i =
     (let r = \<lparr>crOperation = ''delete'', crObject = bare_object i, crParent = [], crCompression = []\<rparr> in
     bindA (encodeRequest env w r) (\<lambda>_.
     bindA (remoteK w (Serve env w r [])) (\<lambda>_. retA ())))"

end
