(* ===== verification/ColdDisk.thy ===== *)
theory ColdDisk
  imports ColdStore
begin

section \<open>Moving disks to the cold store and back\<close>

text \<open>
  src/internal/vmrunner/cold_disk.go: the runner sends the disk of a stopped instance to the cold store and
  deletes it locally (offload), fetches it again (hydrate), drops the remote copy (purge) or everything
  (delete). A journal makes each of these continue after an interruption; the marker in the instance
  directory is only a fence for others.

  The checks of the environment that have no state here (paths, permissions of the staging directory, the
  file system of the stages, loop devices, the idleness of the runtime of theory \<open>Receipts\<close>) are calls that
  may fail.
\<close>

subsection \<open>The journal\<close>

record ColdRequest =
  cqName :: string
  cqInstanceID :: string
  cqAction :: string
  cqExpectedDisk :: SubvolumeIdentity

record ColdStatus =
  ctPhase :: string
  ctRemote :: bool
  ctJournalPresent :: bool

definition no_identity :: SubvolumeIdentity where
  "no_identity = \<lparr>siUUID = [], siID = [], siParentUUID = [], siReceivedUUID = []\<rparr>"

definition no_object :: Object where
  "no_object = \<lparr>obID = [], obUUID = [], obSHA256 = [], obSize = 0, obParent = []\<rparr>"

definition cold_phases :: "string list" where
  "cold_phases = [''offloading'', ''evicting'', ''cold'', ''restoring'', ''hot'', ''purged'']"

definition readCold :: "cold_world \<Rightarrow> ColdRequest \<Rightarrow> coldDiskRecord option cold_act" where
  "readCold w q =
     bindA (callK w) (\<lambda>_.
     bindA (lookK kJournal) (\<lambda>j. case j of
       None \<Rightarrow> retA None
     | Some r \<Rightarrow>
       bindA (checkK (cdVersion r \<noteq> 1 \<or> cdInstanceID r \<noteq> cqInstanceID q \<or> siUUID (cdDisk r) = [])
         ''cold disk identity mismatch; operator inspection required'') (\<lambda>_.
       bindA (checkK (cdPhase r \<notin> set cold_phases) ''unknown cold disk phase'') (\<lambda>_. retA (Some r)))))"

definition setR :: "(coldDiskRecord \<Rightarrow> coldDiskRecord) \<Rightarrow> unit cold_act" where
  "setR f s = (Inr (), s\<lparr>kRec := f (kRec s)\<rparr>)"

text \<open>The journal is replaced by the record in memory, then the marker.\<close>

definition writeCold :: "cold_world \<Rightarrow> unit cold_act" where
  "writeCold w =
     bindA (effectK w (\<lambda>_ s. s\<lparr>kJournal := Some (kRec s)\<rparr>)) (\<lambda>_.
     effectK w (\<lambda>_ s. s\<lparr>kMarker :=
       Some \<lparr>cmInstanceID = cdInstanceID (kRec s), cmPhase = cdPhase (kRec s), cmRemote = cdRemote (kRec s)\<rparr>\<rparr>))"

definition status_of :: "coldDiskRecord \<Rightarrow> ColdStatus" where
  "status_of r = \<lparr>ctPhase = cdPhase r, ctRemote = cdRemote r, ctJournalPresent = True\<rparr>"

definition hot_status :: ColdStatus where
  "hot_status = \<lparr>ctPhase = ''hot'', ctRemote = False, ctJournalPresent = False\<rparr>"

definition current_status :: "ColdStatus cold_act" where
  "current_status = bindA (lookK kRec) (\<lambda>r. retA (status_of r))"

subsection \<open>Volumes\<close>

definition ValidateVolume :: "cold_world \<Rightarrow> (cold_state \<Rightarrow> cold_volume option) \<Rightarrow> SubvolumeIdentity cold_act" where
  "ValidateVolume w f =
     bindA (callK w) (\<lambda>_.
     bindA (foundK f) (\<lambda>v.
     bindA (checkK (vlContent v = []) ''disk rootfs must be a nonempty regular file'') (\<lambda>_. retA (vlIdentity v))))"

definition RequireReadonly :: "cold_world \<Rightarrow> (cold_state \<Rightarrow> cold_volume option) \<Rightarrow> unit cold_act" where
  "RequireReadonly w f =
     bindA (callK w) (\<lambda>_. bindA (foundK f) (\<lambda>v. checkK (\<not> vlReadonly v) ''immutable disk subvolume is not read-only''))"

definition snapshot_of :: "cold_answer \<Rightarrow> bool \<Rightarrow> cold_volume \<Rightarrow> cold_volume" where
  "snapshot_of a readonly v = \<lparr>vlIdentity = kwIdentity a, vlContent = vlContent v, vlReadonly = readonly\<rparr>"

text \<open>Snapshots for sending and of what was received; the destination must not exist.\<close>

definition snapshot_send :: "cold_world \<Rightarrow> unit cold_act" where
  "snapshot_send w =
     bindA (foundK kDisk) (\<lambda>v.
     bindA (lookK kSend) (\<lambda>old.
     bindA (checkK (old \<noteq> None) ''snapshot destination exists or cannot be inspected'') (\<lambda>_.
     effectK w (\<lambda>a s. s\<lparr>kSend := Some (snapshot_of a True v)\<rparr>))))"

definition snapshot_candidate :: "cold_world \<Rightarrow> cold_volume \<Rightarrow> unit cold_act" where
  "snapshot_candidate w v =
     bindA (lookK kCandidate) (\<lambda>old.
     bindA (checkK (old \<noteq> None) ''snapshot destination exists or cannot be inspected'') (\<lambda>_.
     effectK w (\<lambda>a s. s\<lparr>kCandidate := Some (snapshot_of a False v)\<rparr>)))"

text \<open>The runner is root, so a read-only subvolume need not be thawed first.\<close>

definition delete_disk :: "cold_world \<Rightarrow> SubvolumeIdentity \<Rightarrow> unit cold_act" where
  "delete_disk w expected =
     bindA (callK w) (\<lambda>_.
     bindA (foundK kDisk) (\<lambda>v.
     bindA (checkK (siUUID expected = [] \<or> siUUID (vlIdentity v) \<noteq> siUUID expected \<or> siID (vlIdentity v) \<noteq> siID expected)
       ''subvolume identity changed; refusing deletion'') (\<lambda>_.
     effectK w (\<lambda>_ s. s\<lparr>kDisk := None\<rparr>))))"

definition remove_send :: "cold_world \<Rightarrow> unit cold_act" where
  "remove_send w = effectK w (\<lambda>_ s. s\<lparr>kSend := None\<rparr>)"

definition cleanColdStages :: "cold_world \<Rightarrow> unit cold_act" where
  "cleanColdStages w =
     bindA (remove_send w) (\<lambda>_.
     bindA (effectK w (\<lambda>_ s. s\<lparr>kReceived := None\<rparr>)) (\<lambda>_.
     bindA (effectK w (\<lambda>_ s. s\<lparr>kCandidate := None\<rparr>)) (\<lambda>_.
     bindA (callK w) (\<lambda>_. retA ()))))"

definition coldObject :: "cold_env \<Rightarrow> cold_world \<Rightarrow> string \<Rightarrow> (cold_state \<Rightarrow> cold_volume option) \<Rightarrow> Object cold_act" where
  "coldObject env w i f =
     bindA (ValidateVolume w f) (\<lambda>identity.
     bindA (RequireReadonly w f) (\<lambda>_.
     bindA (callK w) (\<lambda>_.
     bindA (foundK f) (\<lambda>v.
     retA \<lparr>obID = i, obUUID = siUUID identity, obSHA256 = ceHash env (vlContent v), obSize = int (length (vlContent v)), obParent = []\<rparr>))))"

definition basePath :: "string \<Rightarrow> cold_state \<Rightarrow> cold_volume option" where
  "basePath name s = map_of (kBases s) name"

text \<open>The first usable base with the wanted identity, in the order of the directory; bases are optional.\<close>

fun find_base :: "cold_world \<Rightarrow> string \<Rightarrow> string list \<Rightarrow> (string \<times> SubvolumeIdentity) cold_act" where
  "find_base w parentUUID [] = retA ([], no_identity)"
| "find_base w parentUUID (name # names) =
     (if length name \<noteq> 64 \<or> \<not> list_all hex_digit name then find_base w parentUUID names
      else
        bindA (tryA (ValidateVolume w (basePath name))) (\<lambda>x. case x of
          Inl _ \<Rightarrow> bindA (callK w) (\<lambda>_. find_base w parentUUID names)
        | Inr i \<Rightarrow>
          if siUUID i \<noteq> parentUUID then find_base w parentUUID names
          else bindA (tryA (RequireReadonly w (basePath name))) (\<lambda>y.
            if isl y then find_base w parentUUID names else retA (name, i))))"

definition findColdBase :: "cold_world \<Rightarrow> string \<Rightarrow> (string \<times> SubvolumeIdentity) cold_act" where
  "findColdBase w parentUUID =
     bindA (callK w) (\<lambda>_.
     bindA (lookK (\<lambda>s. map fst (kBases s))) (find_base w parentUUID))"

subsection \<open>Offloading\<close>

definition coldRemote :: "cold_env \<Rightarrow> unit cold_act" where
  "coldRemote env =
     bindA (lookK kRec) (\<lambda>r.
     checkK (ceHost env = [] \<or> cdHost r \<noteq> ceHost env)
       ''restore the original cold-storage destination configuration before accessing this generation'')"

definition base_usable :: "cold_world \<Rightarrow> bool cold_act" where
  "base_usable w =
     bindA (lookK kRec) (\<lambda>r.
     bindA (tryA (ValidateVolume w (basePath (cdBaseName r)))) (\<lambda>i. case i of
       Inl _ \<Rightarrow> retA False
     | Inr i \<Rightarrow>
       if i \<noteq> cdBase r then retA False
       else bindA (tryA (RequireReadonly w (basePath (cdBaseName r)))) (\<lambda>x. retA (\<not> isl x))))"

definition choose_base :: "cold_world \<Rightarrow> unit cold_act" where
  "choose_base w =
     bindA (lookK kRec) (\<lambda>r.
     bindA (if cdBaseName r \<noteq> [] then
         bindA (base_usable w) (\<lambda>usable.
         if usable then retA () else setR (\<lambda>r. r\<lparr>cdBaseName := [], cdBase := no_identity\<rparr>))
       else retA ()) (\<lambda>_.
     bindA (lookK kRec) (\<lambda>r.
     if cdBaseName r = [] then
       bindA (findColdBase w (siParentUUID (cdDisk r))) (\<lambda>(name, i). setR (\<lambda>r. r\<lparr>cdBaseName := name, cdBase := i\<rparr>))
     else retA ())))"

text \<open>The base is uploaded first; the object names it as its parent.\<close>

definition upload_base :: "cold_env \<Rightarrow> cold_world \<Rightarrow> cold_volume option cold_act" where
  "upload_base env w =
     bindA (lookK kRec) (\<lambda>r.
     if cdBaseName r \<noteq> [] then
       bindA (coldObject env w (siUUID (cdBase r)) (basePath (cdBaseName r))) (\<lambda>base.
       bindA (foundK (basePath (cdBaseName r))) (\<lambda>v.
       bindA (client_Put env w base v None) (\<lambda>_.
       bindA (setR (\<lambda>r. r\<lparr>cdObject := (cdObject r)\<lparr>obParent := obID base\<rparr>\<rparr>)) (\<lambda>_. retA (Some v)))))
     else retA None)"

definition evict :: "cold_world \<Rightarrow> unit cold_act" where
  "evict w =
     bindA (setR (\<lambda>r. r\<lparr>cdPhase := ''evicting''\<rparr>)) (\<lambda>_.
     bindA (writeCold w) (\<lambda>_.
     bindA (lookK kRec) (\<lambda>r.
     bindA (delete_disk w (cdDisk r)) (\<lambda>_.
     bindA (remove_send w) (\<lambda>_.
     bindA (setR (\<lambda>r. r\<lparr>cdPhase := ''cold''\<rparr>)) (\<lambda>_. writeCold w))))))"

definition set_object :: "cold_env \<Rightarrow> cold_world \<Rightarrow> unit cold_act" where
  "set_object env w =
     bindA (lookK kRec) (\<lambda>r.
     bindA (tryA (coldObject env w (obID (cdObject r)) kSend)) (\<lambda>x. case x of
       Inl e \<Rightarrow> bindA (setR (\<lambda>r. r\<lparr>cdObject := no_object\<rparr>)) (\<lambda>_. failA e)
     | Inr ob \<Rightarrow> setR (\<lambda>r. r\<lparr>cdObject := ob\<rparr>)))"

definition upload :: "cold_env \<Rightarrow> cold_world \<Rightarrow> unit cold_act" where
  "upload env w =
     bindA (upload_base env w) (\<lambda>parent.
     bindA (setR (\<lambda>r. r\<lparr>cdRemote := True\<rparr>)) (\<lambda>_.
     bindA (writeCold w) (\<lambda>_.
     bindA (foundK kSend) (\<lambda>v.
     bindA (lookK kRec) (\<lambda>r. client_Put env w (cdObject r) v parent)))))"

definition offloadCold :: "cold_env \<Rightarrow> cold_world \<Rightarrow> unit cold_act" where
  "offloadCold env w =
     bindA (coldRemote env) (\<lambda>_.
     bindA (tryA (ValidateVolume w kDisk)) (\<lambda>actual.
     bindA (lookK kRec) (\<lambda>r.
     bindA (checkK (actual \<noteq> Inr (cdDisk r)) ''local disk identity changed before offload'') (\<lambda>_.
     bindA (checkK (cdRemote r) ''previous upload outcome requires hydrate and purge before retry'') (\<lambda>_.
     bindA (remove_send w) (\<lambda>_.
     bindA (snapshot_send w) (\<lambda>_.
     bindA (set_object env w) (\<lambda>_.
     bindA (choose_base w) (\<lambda>_.
     bindA (upload env w) (\<lambda>_.
     evict w))))))))))"

subsection \<open>Recovery, hydration and purging\<close>

definition recoverLocalCold :: "cold_world \<Rightarrow> unit cold_act" where
  "recoverLocalCold w =
     bindA (ValidateVolume w kDisk) (\<lambda>i.
     bindA (lookK kRec) (\<lambda>r.
     bindA (checkK (i \<noteq> cdDisk r \<and> (siUUID (cdCandidate r) = [] \<or> i \<noteq> cdCandidate r))
       ''unrecognized local disk during cold recovery'') (\<lambda>_.
     bindA (setR (\<lambda>r. r\<lparr>cdDisk := i, cdPhase := ''hot''\<rparr>)) (\<lambda>_.
     bindA (writeCold w) (\<lambda>_.
     cleanColdStages w)))))"

definition parent_for_get :: "cold_world \<Rightarrow> string cold_act" where
  "parent_for_get w =
     bindA (lookK kRec) (\<lambda>r.
     if cdBaseName r \<noteq> [] then
       bindA (base_usable w) (\<lambda>usable. retA (if usable then obParent (cdObject r) else []))
     else retA [])"

definition fetch_candidate :: "cold_env \<Rightarrow> cold_world \<Rightarrow> unit cold_act" where
  "fetch_candidate env w =
     bindA (callK w) (\<lambda>_.
     bindA (setR (\<lambda>r. r\<lparr>cdPhase := ''restoring''\<rparr>)) (\<lambda>_.
     bindA (writeCold w) (\<lambda>_.
     bindA (cleanColdStages w) (\<lambda>_.
     bindA (callK w) (\<lambda>_.
     bindA (parent_for_get w) (\<lambda>parent.
     bindA (lookK kRec) (\<lambda>r.
     bindA (client_Get env w (cdObject r) parent) (\<lambda>_.
     bindA (foundK kReceived) (\<lambda>(dir, v).
     bindA (checkK (dir \<noteq> obID (cdObject r)) ''received disk escaped private staging directory'') (\<lambda>_.
     bindA (snapshot_candidate w v) (\<lambda>_.
     bindA (ValidateVolume w kCandidate) (\<lambda>i.
     bindA (setR (\<lambda>r. r\<lparr>cdCandidate := i\<rparr>)) (\<lambda>_.
     writeCold w)))))))))))))"

text \<open>\<open>Renameat2\<close> with \<open>RENAME_NOREPLACE\<close>.\<close>

definition rename_candidate :: "cold_world \<Rightarrow> unit cold_act" where
  "rename_candidate w =
     bindA (foundK kCandidate) (\<lambda>v.
     bindA (lookK kDisk) (\<lambda>d.
     bindA (checkK (d \<noteq> None) ''file exists'') (\<lambda>_.
     effectK w (\<lambda>_ s. s\<lparr>kDisk := Some v, kCandidate := None\<rparr>))))"

definition hydrate_missing :: "cold_env \<Rightarrow> cold_world \<Rightarrow> unit cold_act" where
  "hydrate_missing env w =
     bindA (lookK kRec) (\<lambda>r.
     bindA (checkK (cdPhase r = ''hot'' \<or> cdPhase r = ''offloading'' \<or> \<not> cdRemote r)
       ''authoritative local disk is missing; refusing stale remote fallback'') (\<lambda>_.
     bindA (coldRemote env) (\<lambda>_.
     bindA (if siUUID (cdCandidate r) \<noteq> [] then
         bindA (tryA (ValidateVolume w kCandidate)) (\<lambda>i.
         checkK (i \<noteq> Inr (cdCandidate r)) ''cold restore candidate identity mismatch'')
       else fetch_candidate env w) (\<lambda>_.
     bindA (rename_candidate w) (\<lambda>_.
     bindA (callK w) (\<lambda>_.
     recoverLocalCold w))))))"

definition hydrateCold :: "cold_env \<Rightarrow> cold_world \<Rightarrow> unit cold_act" where
  "hydrateCold env w =
     bindA (callK w) (\<lambda>_.
     bindA (lookK kDisk) (\<lambda>d.
     if d \<noteq> None then
       bindA (lookK kRec) (\<lambda>r.
       bindA (checkK (cdPhase r = ''cold'') ''unexpected disk alongside cold generation'') (\<lambda>_.
       recoverLocalCold w))
     else hydrate_missing env w))"

definition finishColdPurge :: "cold_world \<Rightarrow> unit cold_act" where
  "finishColdPurge w =
     bindA (callK w) (\<lambda>_.
     bindA (callK w) (\<lambda>_.
     bindA (effectK w (\<lambda>_ s. s\<lparr>kMarker := None\<rparr>)) (\<lambda>_.
     bindA (callK w) (\<lambda>_.
     bindA (effectK w (\<lambda>_ s. s\<lparr>kJournal := None\<rparr>)) (\<lambda>_.
     bindA (callK w) (\<lambda>_. retA ()))))))"

definition purgeCold :: "cold_env \<Rightarrow> cold_world \<Rightarrow> unit cold_act" where
  "purgeCold env w =
     bindA (lookK kRec) (\<lambda>r.
     bindA (if cdRemote r then
         bindA (coldRemote env) (\<lambda>_.
         bindA (client_Delete env w (obID (cdObject r))) (\<lambda>_.
         bindA (setR (\<lambda>r. r\<lparr>cdRemote := False\<rparr>)) (\<lambda>_. writeCold w)))
       else retA ()) (\<lambda>_.
     bindA (cleanColdStages w) (\<lambda>_.
     bindA (setR (\<lambda>r. r\<lparr>cdPhase := ''purged''\<rparr>)) (\<lambda>_.
     bindA (writeCold w) (\<lambda>_.
     finishColdPurge w)))))"

subsection \<open>Requests\<close>

definition coldDeletionFence :: "cold_world \<Rightarrow> ColdRequest \<Rightarrow> unit cold_act" where
  "coldDeletionFence w q =
     bindA (callK w) (\<lambda>_.
     bindA (lookK kTombstones) (\<lambda>ids.
     checkK (cqInstanceID q \<in> set ids) ''disk incarnation has deletion intent; retry delete, not offload or start''))"

definition coldStartFence :: "cold_world \<Rightarrow> ColdRequest \<Rightarrow> unit cold_act" where
  "coldStartFence w q =
     bindA (coldDeletionFence w q) (\<lambda>_.
     bindA (readCold w q) (\<lambda>r. case r of
       None \<Rightarrow> retA ()
     | Some r \<Rightarrow>
       bindA (checkK (cdPhase r \<noteq> ''hot'' \<and> cdPhase r \<noteq> ''purged'') ''disk requires hydration before start'') (\<lambda>_.
       bindA (tryA (ValidateVolume w kDisk)) (\<lambda>i.
       checkK (i \<noteq> Inr (cdDisk r)) ''authoritative hot disk is missing or changed''))))"

text \<open>What every request but \<open>status\<close> checks first, and the tombstone of a deletion.\<close>

definition cold_admit :: "cold_world \<Rightarrow> ColdRequest \<Rightarrow> coldDiskRecord option \<Rightarrow> unit cold_act" where
  "cold_admit w q r =
     bindA (checkK (cqAction q \<notin> {''offload'', ''hydrate'', ''purge'', ''delete'', ''fence-delete''}) ''unknown cold disk action'') (\<lambda>_.
     bindA (callK w) (\<lambda>_.
     bindA (checkK (cqAction q = ''fence-delete'' \<and> r \<noteq> None)
       ''cleanup proof refuses retained cold disk state; hydrate and purge first'') (\<lambda>_.
     bindA (if cqAction q \<noteq> ''delete'' \<and> cqAction q \<noteq> ''fence-delete'' then
         bindA (coldDeletionFence w q) (\<lambda>_.
         bindA (callK w) (\<lambda>_.
         bindA (lookK kRAM) (\<lambda>ram.
         checkK (ram \<noteq> None) ''cold disk operation would invalidate saved RAM; resume or discard it first'')))
       else retA ()) (\<lambda>_.
     bindA (callK w) (\<lambda>_.
     bindA (if cqAction q = ''delete'' \<or> cqAction q = ''fence-delete'' then
         bindA (callK w) (\<lambda>_.
         bindA (lookK kRAM) (\<lambda>ram.
         bindA (checkK (case ram of None \<Rightarrow> False | Some i \<Rightarrow> i \<noteq> cqInstanceID q) ''saved RAM belongs to another incarnation'') (\<lambda>_.
         bindA (effectK w (\<lambda>_ s. s\<lparr>kTombstones := List.insert (cqInstanceID q) (kTombstones s)\<rparr>)) (\<lambda>_.
         effectK w (\<lambda>_ s. s\<lparr>kRAM := None\<rparr>)))))
       else retA ()) (\<lambda>_.
     bindA (callK w) (\<lambda>_.
     bindA (callK w) (\<lambda>_. retA ()))))))))"

definition expected_disk :: "cold_world \<Rightarrow> ColdRequest \<Rightarrow> coldDiskRecord option \<Rightarrow> unit cold_act" where
  "expected_disk w q r =
     (if cqAction q = ''offload'' \<and> (case r of None \<Rightarrow> True | Some r \<Rightarrow> cdPhase r = ''hot'' \<or> cdPhase r = ''purged'') then
        bindA (tryA (ValidateVolume w kDisk)) (\<lambda>i.
        checkK (case i of Inl _ \<Rightarrow> True
          | Inr i \<Rightarrow> siUUID (cqExpectedDisk q) = [] \<or> siUUID i \<noteq> siUUID (cqExpectedDisk q) \<or> siID i \<noteq> siID (cqExpectedDisk q))
          ''offload disk no longer matches the requested incarnation'')
      else retA ())"

text \<open>An old generation is finished first; the result says whether a generation is left.\<close>

definition finish_old :: "cold_env \<Rightarrow> cold_world \<Rightarrow> ColdRequest \<Rightarrow> coldDiskRecord option \<Rightarrow> (bool \<times> SubvolumeIdentity \<times> string) cold_act" where
  "finish_old env w q r =
     (case r of
       None \<Rightarrow> retA (False, no_identity, [])
     | Some r \<Rightarrow>
       if cqAction q = ''offload'' \<and> cdPhase r = ''hot'' then
         bindA (recoverLocalCold w) (\<lambda>_.
         bindA (lookK kRec) (\<lambda>r.
         bindA (purgeCold env w) (\<lambda>_. retA (False, cdBase r, cdBaseName r))))
       else if cdPhase r = ''purged'' then
         bindA (if cqAction q \<noteq> ''delete'' then
             bindA (tryA (ValidateVolume w kDisk)) (\<lambda>i.
             checkK (i \<noteq> Inr (cdDisk r)) ''purged generation has no valid local disk'')
           else retA ()) (\<lambda>_.
         bindA (finishColdPurge w) (\<lambda>_. retA (False, no_identity, [])))
       else retA (True, no_identity, []))"

definition new_generation :: "cold_env \<Rightarrow> cold_world \<Rightarrow> ColdRequest \<Rightarrow> SubvolumeIdentity \<Rightarrow> string \<Rightarrow> unit cold_act" where
  "new_generation env w q base baseName =
     bindA (checkK (ceHost env = []) ''cold storage is disabled'') (\<lambda>_.
     bindA (callK w) (\<lambda>_.
     bindA (ValidateVolume w kDisk) (\<lambda>i.
     bindA (callK w) (\<lambda>a.
     bindA (setR (\<lambda>_. \<lparr>cdVersion = 1, cdInstanceID = cqInstanceID q, cdPhase = ''offloading'', cdRemote = False, cdHost = ceHost env,
       cdDisk = i, cdCandidate = no_identity, cdObject = no_object\<lparr>obID := kwID a\<rparr>, cdBase = base, cdBaseName = baseName\<rparr>)) (\<lambda>_.
     writeCold w)))))"

text \<open>A failed upload must not strand the local disk: the runner goes back to it at once.\<close>

definition offload_action :: "cold_env \<Rightarrow> cold_world \<Rightarrow> ColdStatus cold_act" where
  "offload_action env w =
     bindA (lookK kRec) (\<lambda>r.
     if cdPhase r = ''cold'' then retA (status_of r)
     else if cdPhase r \<noteq> ''offloading'' then failA (ErrMsg ''hydrate and purge previous cold generation before offloading again'')
     else bindA (tryA (offloadCold env w)) (\<lambda>x. case x of
       Inr _ \<Rightarrow> current_status
     | Inl e \<Rightarrow>
       bindA (tryA (recoverLocalCold w)) (\<lambda>y. failA (case y of Inl e' \<Rightarrow> ErrWrap e e' | Inr _ \<Rightarrow> e))))"

definition cold_action :: "cold_env \<Rightarrow> cold_world \<Rightarrow> ColdRequest \<Rightarrow> ColdStatus cold_act" where
  "cold_action env w q =
     (if cqAction q = ''offload'' then offload_action env w
      else if cqAction q = ''hydrate'' then bindA (hydrateCold env w) (\<lambda>_. current_status)
      else if cqAction q = ''purge'' then
        bindA (tryA (recoverLocalCold w)) (\<lambda>x. case x of
          Inl _ \<Rightarrow> failA (ErrMsg ''hydrate the cold disk before purging its remote copy'')
        | Inr _ \<Rightarrow> bindA (purgeCold env w) (\<lambda>_. retA hot_status))
      else if cqAction q = ''delete'' then bindA (purgeCold env w) (\<lambda>_. retA hot_status)
      else current_status)"

definition no_generation :: "cold_env \<Rightarrow> cold_world \<Rightarrow> ColdRequest \<Rightarrow> SubvolumeIdentity \<Rightarrow> string \<Rightarrow> ColdStatus cold_act" where
  "no_generation env w q base baseName =
     bindA (callK w) (\<lambda>_.
     bindA (lookK kMarker) (\<lambda>m.
     bindA (checkK (m \<noteq> None) ''cold marker without authoritative runner journal; operator inspection required'') (\<lambda>_.
     if cqAction q \<noteq> ''offload'' then bindA (callK w) (\<lambda>_. retA hot_status)
     else bindA (new_generation env w q base baseName) (\<lambda>_. cold_action env w q))))"

definition coldDiskLocked :: "cold_env \<Rightarrow> cold_world \<Rightarrow> ColdRequest \<Rightarrow> ColdStatus cold_act" where
  "coldDiskLocked env w q =
     bindA (callK w) (\<lambda>_.
     bindA (readCold w q) (\<lambda>r.
     if cqAction q = ''status'' then retA (case r of None \<Rightarrow> hot_status | Some r \<Rightarrow> status_of r)
     else
       bindA (cold_admit w q r) (\<lambda>_.
       bindA (case r of None \<Rightarrow> retA () | Some r \<Rightarrow> setR (\<lambda>_. r)) (\<lambda>_.
       bindA (expected_disk w q r) (\<lambda>_.
       bindA (finish_old env w q r) (\<lambda>(present, base, baseName).
       if present then cold_action env w q else no_generation env w q base baseName))))))"

end
