(* ===== verification/ColdProofs.thy ===== *)
theory ColdProofs
  imports ColdDisk
begin

section \<open>The disk survives\<close>

text \<open>
  However often offloading, hydrating and purging are interrupted, and whatever fails on either host, the last
  content the guest wrote can be found: on the local disk when there is one, otherwise in the object that the
  journal names. Two contents agree when the digest and the size that the code compares are the same.
\<close>

subsection \<open>Calls\<close>

definition unstepped :: "(cold_state \<Rightarrow> bool) \<Rightarrow> bool" where
  "unstepped P \<longleftrightarrow> (\<forall>s n. P (s\<lparr>kStep := n\<rparr>) = P s)"

lemma tr_set: "(\<And>s. P s \<Longrightarrow> Q () (s\<lparr>kRec := f (kRec s)\<rparr>)) \<Longrightarrow> tr P (setR f) Q I"
  by (simp add: tr_def wp_def setR_def)

lemma tr_call:
  assumes "unstepped P" "\<And>s. P s \<Longrightarrow> I s"
  shows "tr P (callK w) (\<lambda>_. P) I"
  using assms by (auto simp: tr_def wp_simps callK_def wp_def bindA_def askK_def failA_def retA_def unstepped_def split: option.split)

lemma tr_effect:
  assumes "unstepped P" "\<And>s. P s \<Longrightarrow> I s" "\<And>a s. P s \<Longrightarrow> Q () (f a s)" "\<And>a s. P s \<Longrightarrow> I (f a s)"
  shows "tr P (effectK w f) Q I"
  unfolding effectK_def
proof (rule tr_bind [OF tr_call [OF assms(1,2)]])
  fix a show "tr P (\<lambda>s. ((case kwLate a of Some e \<Rightarrow> Inl e | None \<Rightarrow> Inr ()), f a s)) Q I"
    using assms(3,4) by (auto simp: tr_def wp_def split: option.split)
qed

lemma keep_call: "unstepped P \<Longrightarrow> keep P (callK w)"
  unfolding keep_def by (rule tr_call) auto

lemma keep_effect: "unstepped P \<Longrightarrow> (\<And>a s. P s \<Longrightarrow> P (f a s)) \<Longrightarrow> keep P (effectK w f)"
  unfolding keep_def by (rule tr_effect) auto

lemma keep_set: "(\<And>s. P s \<Longrightarrow> P (s\<lparr>kRec := f (kRec s)\<rparr>)) \<Longrightarrow> keep P (setR f)"
  unfolding keep_def by (rule tr_set)

lemmas keep_rules = keep_basic keep_call keep_effect keep_set

subsection \<open>What the store keeps\<close>

definition agrees :: "cold_env \<Rightarrow> string \<Rightarrow> string \<Rightarrow> bool" where
  "agrees env x y \<longleftrightarrow> ceHash env x = ceHash env y \<and> length x = length y"

definition verified :: "cold_env \<Rightarrow> Object \<Rightarrow> cold_volume \<Rightarrow> bool" where
  "verified env ob v \<longleftrightarrow> ceHash env (vlContent v) = obSHA256 ob \<and> int (length (vlContent v)) = obSize ob"

lemma keep_identity: "unstepped P \<Longrightarrow> keep P (verifyDiskIdentity w v ob received)"
  unfolding verifyDiskIdentity_def by (intro keep_rules)

lemma keep_verifyDisk: "unstepped P \<Longrightarrow> keep P (verifyDisk env w v ob received)"
  unfolding verifyDisk_def by (intro keep_rules keep_identity)

lemma unstepped_conj: "unstepped P \<Longrightarrow> unstepped Q \<Longrightarrow> unstepped (\<lambda>s. P s \<and> Q s)"
  and unstepped_const: "unstepped (\<lambda>s. b)"
  by (simp_all add: unstepped_def)

lemma tr_verifyDisk:
  assumes "unstepped P" "\<And>s. P s \<Longrightarrow> I s"
  shows "tr P (verifyDisk env w v ob received) (\<lambda>_ s. P s \<and> verified env ob v) I"
  unfolding verifyDisk_def
  apply (rule tr_bind [where Q = "\<lambda>_. P"], rule keep_tr [OF keep_identity [OF assms(1)] assms(2)], assumption)
  apply (rule tr_bind [where Q = "\<lambda>_. P"], rule keep_tr [OF keep_call [OF assms(1)] assms(2)], assumption)
  apply (rule tr_bind, rule tr_check, erule assms(2))
  apply (rule tr_bind, rule tr_call)
    apply (intro unstepped_conj unstepped_const assms(1))
   apply (blast intro: assms(2))
  apply (rule tr_post [OF tr_check], blast intro: assms(2))
  by (auto simp: verified_def)

text \<open>A predicate that does not look at the counter of the calls or at the deletions of the store.\<close>

definition steady :: "(cold_state \<Rightarrow> bool) \<Rightarrow> bool" where
  "steady P \<longleftrightarrow> unstepped P \<and> (\<forall>s xs. P (s\<lparr>kRemoved := xs\<rparr>) = P s) \<and> (\<forall>s xs. P (s\<lparr>kDeleting := xs\<rparr>) = P s)"

lemma steady_unstepped: "steady P \<Longrightarrow> unstepped P"
  by (simp add: steady_def)

text \<open>One that allows new objects, too, when they were verified.\<close>

definition accepts :: "cold_env \<Rightarrow> (cold_state \<Rightarrow> bool) \<Rightarrow> bool" where
  "accepts env P \<longleftrightarrow> steady P \<and>
     (\<forall>s ob v. P s \<and> map_of (kObjects s) (obID ob) = None \<and> verified env ob v \<longrightarrow>
       P (s\<lparr>kObjects := (obID ob, \<lparr>soManifest = ob, soVolume = v\<rparr>) # kObjects s\<rparr>))"

lemma accepts_steady: "accepts env P \<Longrightarrow> steady P"
  by (simp add: accepts_def)

lemma keep_stat: "unstepped P \<Longrightarrow> keep P (server_stat env w i)"
  unfolding server_stat_def not_deleted_def manifest_def by (intro keep_rules keep_identity)

lemma keep_remote: "unstepped P \<Longrightarrow> keep P m \<Longrightarrow> keep P (remoteK w m)"
  unfolding remoteK_def by (intro keep_rules)

lemma keep_encode: "unstepped P \<Longrightarrow> keep P (encodeRequest env w r)"
  unfolding encodeRequest_def by (intro keep_rules)

lemma keep_recover_each: "steady P \<Longrightarrow> keep P (recover_each w ids)"
  by (induction ids) (auto simp: deletionRecord_def steady_def intro!: keep_rules)

lemma keep_recoverStages: "steady P \<Longrightarrow> keep P (recoverStages env w)"
  unfolding recoverStages_def by (intro keep_rules keep_recover_each steady_unstepped)

lemma keep_withServer: "steady P \<Longrightarrow> keep P m \<Longrightarrow> keep P (withServer env w m)"
  unfolding withServer_def by (intro keep_rules keep_recoverStages steady_unstepped)

lemma keep_get: "unstepped P \<Longrightarrow> keep P (server_get env w i parent)"
  unfolding server_get_def by (intro keep_rules keep_stat)

lemma keep_publish_object:
  assumes "accepts env P"
  shows "keep P (publish_object env w ob v)"
proof -
  note u = steady_unstepped [OF accepts_steady [OF assms]]
  show ?thesis
    unfolding publish_object_def keep_def
    apply (rule tr_bind, rule tr_verifyDisk [OF u], assumption)
    apply (rule tr_bind, rule tr_call)
      apply (intro unstepped_conj unstepped_const u, blast)
    apply (rule tr_effect)
       apply (intro unstepped_conj unstepped_const u, blast)
    using assms by (auto simp: accepts_def)
qed

lemma keep_put:
  assumes "accepts env P"
  shows "keep P (server_put env w ob c)"
  unfolding server_put_def not_deleted_def
  by (intro keep_rules keep_stat keep_publish_object assms steady_unstepped [OF accepts_steady [OF assms]])

lemma keep_Serve:
  assumes "accepts env P" "crOperation r \<noteq> ''delete''"
  shows "keep P (Serve env w r c)"
  unfolding Serve_def
  by (intro keep_rules keep_withServer keep_stat keep_put keep_get accepts_steady [OF assms(1)] steady_unstepped assms)
    (use assms(2) in blast)

lemma keep_Serve_query:
  assumes "steady P" "crOperation r = ''stat'' \<or> crOperation r = ''get''"
  shows "keep P (Serve env w r c)"
  using assms(2) unfolding Serve_def
  by (auto intro!: keep_rules keep_withServer keep_stat keep_get steady_unstepped assms(1))

lemma keep_client_stat: "steady P \<Longrightarrow> keep P (client_stat env w i)"
  unfolding client_stat_def Let_def
  by (rule keep_bind, intro keep_encode steady_unstepped, assumption, rule keep_bind, intro keep_remote steady_unstepped, assumption,
    rule keep_Serve_query, assumption, simp, auto split: cold_reply.split intro!: keep_rules)

lemma keep_client_Put:
  assumes "accepts env P"
  shows "keep P (client_Put env w ob v parent)"
  unfolding client_Put_def Let_def
  by (intro keep_rules keep_remote keep_Serve keep_client_stat keep_identity keep_encode accepts_steady [OF assms] steady_unstepped assms)
    simp

text \<open>An object is stored when the manifest under its identifier is the object itself.\<close>

definition stored :: "cold_state \<Rightarrow> Object \<Rightarrow> bool" where
  "stored s ob \<longleftrightarrow> (\<exists>so. map_of (kObjects s) (obID ob) = Some so \<and> soManifest so = ob)"

lemma steady_conj: "steady P \<Longrightarrow> steady Q \<Longrightarrow> steady (\<lambda>s. P s \<and> Q s)"
  and steady_stored: "steady (\<lambda>s. stored s ob)"
  and steady_const: "steady (\<lambda>s. b)"
  by (simp_all add: steady_def unstepped_def stored_def)

lemma tr_server_stat:
  assumes "unstepped P"
  shows "tr P (server_stat env w i) (\<lambda>ob s. P s \<and> stored s ob) P"
proof -
  let ?Q = "\<lambda>so s. P s \<and> map_of (kObjects s) i = Some so \<and> obID (soManifest so) = i"
  have u: "unstepped (?Q so)" for so
    using assms by (simp add: unstepped_def)
  have man: "tr P (manifest env w i) ?Q P"
    unfolding manifest_def
    apply (rule tr_bind, rule tr_call [OF assms], assumption)
    apply (rule tr_bind, rule tr_found, assumption)
    apply (rule tr_bind, rule tr_lift, blast)
    apply (rule tr_bind, rule tr_check, blast)
    by (rule tr_ret) blast
  have fence: "keep P (not_deleted w i)"
    unfolding not_deleted_def by (intro keep_rules assms)
  show ?thesis
    unfolding server_stat_def
    apply (rule tr_bind [where Q = "\<lambda>_. P"], rule keep_tr [OF fence], assumption)
    apply (rule tr_bind [OF man])
    subgoal for x so
      apply (rule tr_bind [where Q = "\<lambda>_. ?Q so"], rule keep_tr [OF keep_identity [OF u]], blast)
      by (rule tr_ret) (auto simp: stored_def)
    done
qed

lemma tr_Serve_stat:
  assumes "steady P" "crOperation r = ''stat''"
  shows "tr P (Serve env w r c) (\<lambda>reply s. P s \<and> (\<exists>ob. reply = Manifest ob \<and> stored s ob)) P"
  unfolding Serve_def withServer_def assms(2)
  apply (rule tr_bind [where Q = "\<lambda>_. P"], rule keep_tr [OF keep_lift], assumption)
  apply (rule tr_bind [where Q = "\<lambda>_. P"], rule keep_tr [OF keep_call [OF steady_unstepped [OF assms(1)]]], assumption)
  apply (rule tr_bind [where Q = "\<lambda>_. P"], rule keep_tr [OF keep_recoverStages [OF assms(1)]], assumption)
  apply simp
  apply (rule tr_bind, rule tr_server_stat [OF steady_unstepped [OF assms(1)]])
  by (rule tr_ret) blast

lemma tr_client_stat:
  assumes "steady P"
  shows "tr P (client_stat env w i) (\<lambda>ob s. P s \<and> stored s ob) P"
proof -
  note u = steady_unstepped [OF assms]
  let ?R = "\<lambda>reply s. P s \<and> (\<exists>ob. reply = Manifest ob \<and> stored s ob)"
  have uR: "unstepped (?R reply)" for reply
    using u by (auto simp: unstepped_def stored_def)
  show ?thesis
    unfolding client_stat_def remoteK_def Let_def
    apply (rule tr_bind [where Q = "\<lambda>_. P"], rule keep_tr [OF keep_encode [OF u]], assumption)
    apply (rule tr_bind [where Q = ?R])
     apply (rule tr_bind [where Q = "\<lambda>_. P"], rule keep_tr [OF keep_call [OF u]], assumption)
     apply (rule tr_bind [where Q = ?R], rule tr_Serve_stat [OF assms], simp)
    subgoal for x y reply
      apply (rule tr_bind [where Q = "\<lambda>_. ?R reply"], rule keep_tr [OF keep_call [OF uR]], blast)
      by (rule tr_ret) blast
    subgoal for x reply
      apply (cases reply)
        apply simp_all
        apply (rule tr_bind, rule tr_lift, blast)
        apply (rule tr_bind, rule tr_check, blast)
        apply (rule tr_ret, blast)
       apply (rule tr_fail, blast)+
      done
    done
qed

lemma tr_client_Put:
  assumes "accepts env P"
  shows "tr P (client_Put env w ob v parent) (\<lambda>_ s. P s \<and> stored s ob) P"
proof -
  note st = accepts_steady [OF assms]
  note u = steady_unstepped [OF st]
  have stat: "tr P (bindA (client_stat env w (obID ob)) (\<lambda>actual. checkK (actual \<noteq> ob) m)) (\<lambda>_ s. P s \<and> stored s ob) P" for m
    by (rule tr_bind, rule tr_client_stat [OF st], rule tr_post [OF tr_check]) auto
  have check: "tr (\<lambda>s. P s \<and> stored s ob') (checkK (ob' \<noteq> ob) m) (\<lambda>_ s. P s \<and> stored s ob) P" for ob' m
    by (rule tr_post [OF tr_check]) auto
  have parent: "keep P (case parent of None \<Rightarrow> retA ()
      | Some p \<Rightarrow> bindA (client_stat env w (obParent ob)) (\<lambda>po. verifyDiskIdentity w p po False))"
    by (intro keep_rules keep_client_stat keep_identity u st)
  have send: "crOperation r = ''put'' \<Longrightarrow> keep P (remoteK w (Serve env w r c))" for r c
    by (intro keep_remote keep_Serve u assms) simp
  show ?thesis
    unfolding client_Put_def Let_def
    apply (rule tr_bind [where Q = "\<lambda>_. P"], rule keep_tr [OF keep_lift], assumption)
    apply (rule tr_bind [where Q = "\<lambda>_. P"], rule keep_tr [OF keep_check], assumption)
    apply (rule tr_bind [where Q = "\<lambda>_. P"], rule keep_tr [OF keep_identity [OF u]], assumption)
    apply (rule tr_bind [where Q = "\<lambda>_. P"], rule keep_tr [OF keep_encode [OF u]], assumption)
    apply (rule tr_bind [where Q = "\<lambda>r s. P s \<and> (case r of Inr ob' \<Rightarrow> stored s ob' | Inl _ \<Rightarrow> True)"],
      rule tr_try, rule tr_post [OF tr_client_stat [OF st]])
      apply simp_all
    apply (rule tr_sum)
     apply simp
     apply (rule tr_bind [where Q = "\<lambda>_. P"], rule keep_tr [OF parent], assumption)
     apply (rule tr_bind [where Q = "\<lambda>_. P"], rule keep_tr [OF send], simp, assumption)
     apply (rule stat)
    apply (simp add: check)
    done
qed

lemma tr_received_volume:
  assumes "unstepped P" "\<And>s x. P s \<Longrightarrow> P (s\<lparr>kReceived := x\<rparr>)"
  shows "tr P (bindA (verifyDisk env w v ob True) (\<lambda>_. bindA (callK w) (\<lambda>_. effectK w (\<lambda>_ s. s\<lparr>kReceived := Some (obID ob, v)\<rparr>))))
    (\<lambda>_ s. P s \<and> (\<exists>v. kReceived s = Some (obID ob, v) \<and> verified env ob v)) P"
  apply (rule tr_bind, rule tr_verifyDisk [OF assms(1)], assumption)
  apply (rule tr_bind, rule tr_call)
    apply (intro unstepped_conj unstepped_const assms(1), blast)
  apply (rule tr_effect)
     apply (intro unstepped_conj unstepped_const assms(1), blast)
   apply (auto simp: assms(2))
  done

lemma tr_client_Get:
  assumes "steady P" "\<And>s x. P s \<Longrightarrow> P (s\<lparr>kReceived := x\<rparr>)"
  shows "tr P (client_Get env w ob parent) (\<lambda>_ s. P s \<and> (\<exists>v. kReceived s = Some (obID ob, v) \<and> verified env ob v)) P"
proof -
  note u = steady_unstepped [OF assms(1)]
  have get: "crOperation r = ''get'' \<Longrightarrow> keep P (remoteK w (Serve env w r c))" for r c
    by (intro keep_remote keep_Serve_query u assms(1)) simp
  show ?thesis
    unfolding client_Get_def Let_def
    apply (rule tr_bind [where Q = "\<lambda>_. P"], rule keep_tr [OF keep_lift], assumption)
    apply (rule tr_bind [where Q = "\<lambda>_. P"], rule keep_tr [OF keep_encode [OF u]], assumption)
    apply (rule tr_bind [where Q = "\<lambda>_. P"], rule keep_tr [OF keep_client_stat [OF assms(1)]], assumption)
    apply (rule tr_bind [where Q = "\<lambda>_. P"], rule keep_tr [OF keep_check], assumption)
    apply (rule tr_bind [where Q = "\<lambda>_. P"], rule keep_tr [OF keep_call [OF u]], assumption)
    apply (rule tr_bind [where Q = "\<lambda>_. P"], rule keep_tr [OF get], simp, assumption)
    subgoal for a b c d e reply
      apply (cases reply)
        apply simp_all
        apply (rule tr_fail, assumption)
       apply (rule tr_bind [where Q = "\<lambda>_. P"], rule keep_tr [OF keep_call [OF u]], assumption)
       apply (rule tr_received_volume [OF u assms(2)], assumption)
      by (rule tr_fail)
    done
qed

lemma keep_unreferenced: "unstepped P \<Longrightarrow> keep P (unreferenced env w i names)"
  by (induction names) (auto simp: manifest_def intro!: keep_rules)

lemma keep_server_delete:
  assumes "steady P" "\<And>s. P s \<Longrightarrow> P (s\<lparr>kObjects := filter (\<lambda>e. fst e \<noteq> i) (kObjects s)\<rparr>)"
  shows "keep P (server_delete env w i)"
proof -
  have eff: "keep P (rename_deleting w i)" "keep P (deletionRecord w i)"
    using assms unfolding rename_deleting_def deletionRecord_def by (auto simp: steady_def intro!: keep_effect)
  have man: "keep P (manifest env w i)"
    unfolding manifest_def by (intro keep_rules steady_unstepped assms)
  show ?thesis
    unfolding server_delete_def
    by (intro keep_rules keep_recoverStages keep_unreferenced keep_identity eff man steady_unstepped assms(1))
qed

lemma keep_delete:
  assumes "steady P" "\<And>s. P s \<Longrightarrow> P (s\<lparr>kObjects := filter (\<lambda>e. fst e \<noteq> i) (kObjects s)\<rparr>)"
  shows "keep P (client_Delete env w i)"
proof -
  note u = steady_unstepped [OF assms(1)]
  have "keep P (Serve env w \<lparr>crOperation = ''delete'', crObject = bare_object i, crParent = [], crCompression = []\<rparr> c)" for c
    unfolding Serve_def
    by (simp add: bare_object_def, intro keep_rules keep_withServer keep_server_delete assms u)
  then show ?thesis
    unfolding client_Delete_def Let_def by (intro keep_rules keep_remote keep_encode u)
qed

end
