(* ===== verification/ColdSafety.thy ===== *)
theory ColdSafety
  imports ColdProofs
begin

section \<open>Offloading, hydrating and purging keep the disk\<close>

text \<open>
  The states that the steps of src/internal/vmrunner/cold_disk.go pass through, and the triples of the steps.
  \<open>disk_here\<close>: the local disk has the content. \<open>disk_away\<close>: there is no local disk and the journal names an
  object of the store that has it. \<open>a\<close> is what the guest wrote last.
\<close>

subsection \<open>States\<close>

definition store_ok :: "cold_env \<Rightarrow> cold_state \<Rightarrow> bool" where
  "store_ok env s \<longleftrightarrow> (\<forall>i so. map_of (kObjects s) i = Some so \<longrightarrow>
     obID (soManifest so) = i \<and> verified env (soManifest so) (soVolume so))"

definition idle_record :: "coldDiskRecord \<Rightarrow> bool" where
  "idle_record r \<longleftrightarrow> (cdPhase r = ''offloading'' \<longrightarrow> siUUID (cdCandidate r) = [])"

definition disk_here :: "cold_env \<Rightarrow> string \<Rightarrow> cold_state \<Rightarrow> bool" where
  "disk_here env a s \<longleftrightarrow> store_ok env s \<and> (\<forall>r. kJournal s = Some r \<longrightarrow> idle_record r) \<and>
     (\<exists>v. kDisk s = Some v \<and> agrees env (vlContent v) a)"

definition here_rec :: "cold_env \<Rightarrow> string \<Rightarrow> cold_state \<Rightarrow> bool" where
  "here_rec env a s \<longleftrightarrow> disk_here env a s \<and> idle_record (kRec s)"

definition describes :: "cold_env \<Rightarrow> string \<Rightarrow> Object \<Rightarrow> bool" where
  "describes env a ob \<longleftrightarrow> obSHA256 ob = ceHash env a \<and> obSize ob = int (length a)"

definition backed :: "cold_env \<Rightarrow> string \<Rightarrow> coldDiskRecord \<Rightarrow> cold_state \<Rightarrow> bool" where
  "backed env a r s \<longleftrightarrow> cdPhase r \<in> {''evicting'', ''cold'', ''restoring''} \<and> cdRemote r \<and>
     describes env a (cdObject r) \<and> stored s (cdObject r) \<and>
     (\<forall>v. kCandidate s = Some v \<and> siUUID (cdCandidate r) \<noteq> [] \<and> vlIdentity v = cdCandidate r \<longrightarrow>
       agrees env (vlContent v) a)"

definition disk_away :: "cold_env \<Rightarrow> string \<Rightarrow> cold_state \<Rightarrow> bool" where
  "disk_away env a s \<longleftrightarrow> store_ok env s \<and> kDisk s = None \<and> (\<exists>r. kJournal s = Some r \<and> backed env a r s)"

definition disk_safe :: "cold_env \<Rightarrow> string \<Rightarrow> cold_state \<Rightarrow> bool" where
  "disk_safe env a s \<longleftrightarrow> disk_here env a s \<or> disk_away env a s"

definition safe_rec :: "cold_env \<Rightarrow> string \<Rightarrow> cold_state \<Rightarrow> bool" where
  "safe_rec env a s \<longleftrightarrow> here_rec env a s \<or> disk_away env a s"

lemmas cold_states = idle_record_def disk_here_def here_rec_def backed_def disk_away_def stored_def

lemma store_ok_updates [simp]:
  "store_ok env (s\<lparr>kRemoved := xs\<rparr>) = store_ok env s" "store_ok env (s\<lparr>kDeleting := xs\<rparr>) = store_ok env s"
  "store_ok env (s\<lparr>kRec := r\<rparr>) = store_ok env s" "store_ok env (s\<lparr>kJournal := j\<rparr>) = store_ok env s"
  "store_ok env (s\<lparr>kMarker := m\<rparr>) = store_ok env s" "store_ok env (s\<lparr>kSend := v\<rparr>) = store_ok env s"
  "store_ok env (s\<lparr>kReceived := x\<rparr>) = store_ok env s" "store_ok env (s\<lparr>kCandidate := v\<rparr>) = store_ok env s"
  "store_ok env (s\<lparr>kDisk := v\<rparr>) = store_ok env s" "store_ok env (s\<lparr>kStep := n\<rparr>) = store_ok env s"
  "store_ok env (s\<lparr>kTombstones := ids\<rparr>) = store_ok env s" "store_ok env (s\<lparr>kRAM := ram\<rparr>) = store_ok env s"
  by (simp_all add: store_ok_def)

lemma steady_cold:
  "steady (store_ok env)" "steady (disk_here env a)" "steady (here_rec env a)" "steady (disk_away env a)"
  "steady (disk_safe env a)" "steady (safe_rec env a)"
  by (simp_all add: steady_def unstepped_def cold_states disk_safe_def safe_rec_def)

lemmas unstepped_cold = steady_cold [THEN steady_unstepped]

lemma agrees_trans: "agrees env x y \<Longrightarrow> agrees env y z \<Longrightarrow> agrees env x z"
  and agrees_refl [simp]: "agrees env x x"
  by (simp_all add: agrees_def)

lemma verified_describes: "verified env ob v \<Longrightarrow> describes env a ob \<Longrightarrow> agrees env (vlContent v) a"
  by (simp add: verified_def describes_def agrees_def)

lemma here_rec_safe: "here_rec env a s \<Longrightarrow> safe_rec env a s"
  and safe_rec_safe: "safe_rec env a s \<Longrightarrow> disk_safe env a s"
  and away_safe_rec: "disk_away env a s \<Longrightarrow> safe_rec env a s"
  by (auto simp: safe_rec_def disk_safe_def here_rec_def)

subsection \<open>Steps that only look\<close>

lemma keep_ValidateVolume: "unstepped P \<Longrightarrow> keep P (ValidateVolume w f)"
  and keep_RequireReadonly: "unstepped P \<Longrightarrow> keep P (RequireReadonly w f)"
  unfolding ValidateVolume_def RequireReadonly_def by (intro keep_rules; assumption)+

lemma tr_ValidateVolume:
  assumes "unstepped P" "\<And>s. P s \<Longrightarrow> I s" "unstepped I"
  shows "tr P (ValidateVolume w f) (\<lambda>i s. P s \<and> (\<exists>v. f s = Some v \<and> vlIdentity v = i)) I"
  unfolding ValidateVolume_def
  apply (rule tr_bind, rule tr_call [OF assms(1,2)], assumption)
  apply (rule tr_bind, rule tr_found, erule assms(2))
  apply (rule tr_bind, rule tr_check, blast intro: assms(2))
  by (rule tr_ret) auto

lemma keep_coldObject: "unstepped P \<Longrightarrow> keep P (coldObject env w i f)"
  unfolding coldObject_def by (intro keep_rules keep_ValidateVolume keep_RequireReadonly)

lemma keep_coldRemote: "keep P (coldRemote env)"
  unfolding coldRemote_def by (intro keep_rules)

lemma keep_base_usable: "unstepped P \<Longrightarrow> keep P (base_usable w)"
  unfolding base_usable_def by (intro keep_rules keep_ValidateVolume keep_RequireReadonly)

lemma keep_parent_for_get: "unstepped P \<Longrightarrow> keep P (parent_for_get w)"
  unfolding parent_for_get_def by (intro keep_rules keep_base_usable)

lemma keep_find_base: "unstepped P \<Longrightarrow> keep P (find_base w p names)"
  by (induction names) (auto intro!: keep_rules keep_ValidateVolume keep_RequireReadonly)

lemma keep_findColdBase: "unstepped P \<Longrightarrow> keep P (findColdBase w p)"
  unfolding findColdBase_def by (intro keep_rules keep_find_base)

lemma keep_fence: "unstepped P \<Longrightarrow> keep P (coldDeletionFence w q)"
  unfolding coldDeletionFence_def by (intro keep_rules)

subsection \<open>With the disk present\<close>

lemma here_objects: "store_ok env s \<Longrightarrow> store_ok env (s\<lparr>kObjects := filter (\<lambda>e. fst e \<noteq> i) (kObjects s)\<rparr>)"
proof -
  have "map_of (filter (\<lambda>e. fst e \<noteq> i) xs) j = (if j = i then None else map_of xs j)" for j and xs :: "(string \<times> stored_object) list"
    by (induction xs) auto
  then show "store_ok env s \<Longrightarrow> ?thesis"
    by (auto simp: store_ok_def split: if_splits)
qed

lemma accepts_here: "accepts env (here_rec env a)"
  by (auto simp: accepts_def steady_cold cold_states store_ok_def)

lemma keep_writeCold: "keep (here_rec env a) (writeCold w)"
  unfolding writeCold_def by (intro keep_rules unstepped_cold) (auto simp: cold_states)

lemma keep_cleanColdStages: "keep (here_rec env a) (cleanColdStages w)"
  unfolding cleanColdStages_def remove_send_def by (intro keep_rules unstepped_cold) (auto simp: cold_states)

lemma keep_recoverLocalCold: "keep (here_rec env a) (recoverLocalCold w)"
  unfolding recoverLocalCold_def
  by (intro keep_rules keep_ValidateVolume keep_writeCold keep_cleanColdStages unstepped_cold) (auto simp: cold_states)

lemma keep_finishColdPurge: "keep (here_rec env a) (finishColdPurge w)"
  unfolding finishColdPurge_def by (intro keep_rules unstepped_cold) (auto simp: cold_states)

lemma keep_purgeCold: "keep (here_rec env a) (purgeCold env w)"
proof -
  have "keep (here_rec env a) (client_Delete env w i)" for i
    by (rule keep_delete [OF steady_cold(3)]) (simp add: here_rec_def disk_here_def here_objects)
  then show ?thesis
    unfolding purgeCold_def
    by (intro keep_rules keep_coldRemote keep_writeCold keep_cleanColdStages keep_finishColdPurge)
      (auto simp: here_rec_def disk_here_def idle_record_def)
qed

text \<open>Without a disk the recovery ends at once.\<close>

lemma tr_recoverLocalCold: "tr (safe_rec env a) (recoverLocalCold w) (\<lambda>_. here_rec env a) (safe_rec env a)"
proof -
  have here: "tr (here_rec env a) (recoverLocalCold w) (\<lambda>_. here_rec env a) (safe_rec env a)"
    by (rule keep_tr [OF keep_recoverLocalCold]) (rule here_rec_safe)
  have away: "tr (disk_away env a) (recoverLocalCold w) (\<lambda>_. here_rec env a) (safe_rec env a)"
    unfolding recoverLocalCold_def
    apply (rule tr_bind, rule tr_ValidateVolume)
       apply (rule unstepped_cold | erule away_safe_rec)+
    by (auto simp: tr_def disk_away_def)
  show ?thesis
    using tr_disj [OF here away] by (simp add: safe_rec_def [abs_def])
qed

subsection \<open>Offloading\<close>

definition starting :: "cold_env \<Rightarrow> string \<Rightarrow> cold_state \<Rightarrow> bool" where
  "starting env a s \<longleftrightarrow> disk_here env a s \<and> cdPhase (kRec s) = ''offloading'' \<and> siUUID (cdCandidate (kRec s)) = []"

definition described :: "cold_env \<Rightarrow> string \<Rightarrow> cold_state \<Rightarrow> bool" where
  "described env a s \<longleftrightarrow> starting env a s \<and> describes env a (cdObject (kRec s))"

definition uploaded :: "cold_env \<Rightarrow> string \<Rightarrow> cold_state \<Rightarrow> bool" where
  "uploaded env a s \<longleftrightarrow> described env a s \<and> cdRemote (kRec s) \<and> stored s (cdObject (kRec s))"

lemma steady_starting: "steady (starting env a)" "steady (described env a)" "steady (uploaded env a)"
  by (simp_all add: steady_def unstepped_def cold_states starting_def described_def uploaded_def)

lemmas unstepped_starting = steady_starting [THEN steady_unstepped]

lemma starting_safe: "starting env a s \<Longrightarrow> safe_rec env a s"
  and described_safe: "described env a s \<Longrightarrow> safe_rec env a s"
  by (simp_all add: starting_def described_def safe_rec_def here_rec_def idle_record_def)

lemma described_starting: "described env a s \<Longrightarrow> starting env a s"
  by (simp add: described_def)

lemma accepts_described: "accepts env (described env a)"
  by (auto simp: accepts_def steady_starting cold_states store_ok_def described_def starting_def)

lemma keep_remove_send: "keep (starting env a) (remove_send w)"
  unfolding remove_send_def by (intro keep_rules unstepped_starting) (auto simp: cold_states starting_def)

lemma tr_snapshot_send:
  "tr (starting env a) (snapshot_send w)
     (\<lambda>_ s. starting env a s \<and> (\<exists>v. kSend s = Some v \<and> agrees env (vlContent v) a)) (safe_rec env a)"
  unfolding snapshot_send_def
  apply (rule tr_bind, rule tr_found, erule starting_safe)
  apply (rule tr_bind, rule tr_look)
  apply (rule tr_bind, rule tr_check, blast intro: starting_safe)
  apply (rule tr_effect)
     apply (simp add: unstepped_def starting_def disk_here_def)
    apply (blast intro: starting_safe)
   apply (auto simp: starting_def disk_here_def snapshot_of_def safe_rec_def here_rec_def idle_record_def)
  done

lemma tr_coldObject:
  assumes "unstepped P" "\<And>s. P s \<Longrightarrow> I s" "unstepped I" "\<And>s. P s \<Longrightarrow> \<exists>v. f s = Some v \<and> agrees env (vlContent v) a"
  shows "tr P (coldObject env w i f) (\<lambda>ob s. P s \<and> describes env a ob) I"
  unfolding coldObject_def
  apply (rule tr_bind [where Q = "\<lambda>_. P"], rule keep_tr [OF keep_ValidateVolume [OF assms(1)] assms(2)], assumption)
  apply (rule tr_bind [where Q = "\<lambda>_. P"], rule keep_tr [OF keep_RequireReadonly [OF assms(1)] assms(2)], assumption)
  apply (rule tr_bind [where Q = "\<lambda>_. P"], rule keep_tr [OF keep_call [OF assms(1)] assms(2)], assumption)
  apply (rule tr_bind, rule tr_found, erule assms(2))
  apply (rule tr_ret)
  using assms(4) by (fastforce simp: describes_def agrees_def)

lemma tr_set_object:
  "tr (\<lambda>s. starting env a s \<and> (\<exists>v. kSend s = Some v \<and> agrees env (vlContent v) a)) (set_object env w)
     (\<lambda>_. described env a) (safe_rec env a)" (is "tr ?P _ _ _")
proof -
  have u: "unstepped ?P"
    by (simp add: unstepped_def starting_def disk_here_def)
  have obj: "tr ?P (coldObject env w i kSend) (\<lambda>ob s. starting env a s \<and> describes env a ob) (starting env a)" for i
    by (rule tr_conseq [OF tr_coldObject [where P = ?P and I = ?P and a = a, OF u _ u]]) auto
  show ?thesis
    unfolding set_object_def
    apply (rule tr_bind, rule tr_look)
    apply (rule tr_bind [where Q = "\<lambda>x s. starting env a s \<and> (case x of Inr ob \<Rightarrow> describes env a ob | Inl _ \<Rightarrow> True)"])
     apply (rule tr_try, rule tr_pre, rule tr_post [OF obj])
       apply simp_all
    apply (rule tr_sum)
     apply (rule tr_bind [where Q = "\<lambda>_. starting env a"], rule tr_set)
      apply (simp add: starting_def disk_here_def)
     apply (rule tr_fail, erule starting_safe)
    apply (rule tr_set)
    apply (simp add: starting_def disk_here_def described_def)
    done
qed

lemma keep_choose_base: "keep (described env a) (choose_base w)"
  unfolding choose_base_def
  by (intro keep_rules keep_base_usable keep_findColdBase unstepped_starting)
    (auto simp: described_def starting_def disk_here_def)

lemma keep_upload_base: "keep (described env a) (upload_base env w)"
  unfolding upload_base_def
  by (intro keep_rules keep_coldObject keep_client_Put accepts_described unstepped_starting)
    (auto simp: described_def starting_def disk_here_def describes_def)

lemma keep_writeCold_described: "keep (\<lambda>s. described env a s \<and> cdRemote (kRec s)) (writeCold w)"
  unfolding writeCold_def
  by (intro keep_rules) (auto simp: unstepped_def described_def starting_def disk_here_def idle_record_def)

lemma tr_upload: "tr (described env a) (upload env w) (\<lambda>_. uploaded env a) (safe_rec env a)"
proof -
  have put: "tr (\<lambda>s. described env a s \<and> cdRemote (kRec s) \<and> ob = cdObject (kRec s)) (client_Put env w ob v parent)
      (\<lambda>_. uploaded env a) (safe_rec env a)" for ob v parent
  proof (rule tr_conseq, rule tr_client_Put [of env "\<lambda>s. described env a s \<and> cdRemote (kRec s) \<and> ob = cdObject (kRec s)"])
    show "accepts env (\<lambda>s. described env a s \<and> cdRemote (kRec s) \<and> ob = cdObject (kRec s))"
      using accepts_described [of env a] by (auto simp: accepts_def steady_def unstepped_def)
  qed (auto simp: uploaded_def dest: described_safe)
  show ?thesis
    unfolding upload_def
    apply (rule tr_bind [where Q = "\<lambda>_. described env a"], rule keep_tr [OF keep_upload_base described_safe], assumption)
    apply (rule tr_bind [where Q = "\<lambda>_ s. described env a s \<and> cdRemote (kRec s)"], rule tr_set)
     apply (simp add: described_def starting_def disk_here_def)
    apply (rule tr_bind [where Q = "\<lambda>_ s. described env a s \<and> cdRemote (kRec s)"], rule keep_tr [OF keep_writeCold_described])
     apply (blast intro: described_safe)
    apply (rule tr_bind, rule tr_found, blast intro: described_safe)
    apply (rule tr_bind, rule tr_look)
    apply (rule tr_pre [OF put]) by auto
qed

text \<open>The record in memory is ready for the deletion of the disk: it says \<open>evicting\<close> and the object is stored.\<close>

definition evicting :: "cold_env \<Rightarrow> string \<Rightarrow> cold_state \<Rightarrow> bool" where
  "evicting env a s \<longleftrightarrow> disk_here env a s \<and> backed env a (kRec s) s \<and> siUUID (cdCandidate (kRec s)) = []"

lemma evicting_safe: "evicting env a s \<Longrightarrow> safe_rec env a s"
  by (auto simp: evicting_def safe_rec_def here_rec_def idle_record_def backed_def)

lemma tr_evict: "tr (uploaded env a) (evict w) (\<lambda>_. disk_away env a) (safe_rec env a)"
proof -
  let ?E = "\<lambda>s. evicting env a s \<and> kJournal s = Some (kRec s)"
  let ?A = "\<lambda>s. disk_away env a s \<and> backed env a (kRec s) s"
  have u: "unstepped ?E" "unstepped ?A" "unstepped (evicting env a)"
    by (simp_all add: unstepped_def evicting_def cold_states)
  have wrote: "tr (evicting env a) (writeCold w) (\<lambda>_. ?E) (safe_rec env a)"
    unfolding writeCold_def
    apply (rule tr_bind [where Q = "\<lambda>_. ?E"], rule tr_effect [OF u(3) evicting_safe], assumption)
    subgoal by (simp add: evicting_def disk_here_def backed_def stored_def idle_record_def)
    subgoal by (rule evicting_safe) (auto simp: evicting_def disk_here_def backed_def stored_def idle_record_def)
    apply (rule tr_effect [OF u(1)])
    subgoal by (blast intro: evicting_safe)
    subgoal by (simp add: evicting_def disk_here_def backed_def stored_def)
    subgoal by (rule evicting_safe) (simp add: evicting_def disk_here_def backed_def stored_def)
    done
  have away: "?A (s\<lparr>kDisk := None\<rparr>)" if "?E s" for s
    using that by (auto simp: evicting_def disk_away_def disk_here_def backed_def stored_def)
  have del: "tr ?E (delete_disk w i) (\<lambda>_. ?A) (safe_rec env a)" for i
    unfolding delete_disk_def
    apply (rule tr_bind, rule tr_call [OF u(1)], blast intro: evicting_safe)
    apply (rule tr_bind, rule tr_found, blast intro: evicting_safe)
    apply (rule tr_bind, rule tr_check, blast intro: evicting_safe)
    apply (rule tr_effect)
    using u(1) apply (simp add: unstepped_def)
    using away by (blast intro: evicting_safe away_safe_rec)+
  have fin: "keep ?A (writeCold w)" "keep ?A (remove_send w)"
    unfolding writeCold_def remove_send_def
    by (intro keep_rules u; auto simp: disk_away_def backed_def stored_def)+
  show ?thesis
    unfolding evict_def
    apply (rule tr_bind [where Q = "\<lambda>_. evicting env a"], rule tr_set)
    subgoal by (simp add: uploaded_def described_def starting_def evicting_def disk_here_def backed_def stored_def)
    apply (rule tr_bind [OF wrote])
    apply (rule tr_bind, rule tr_look)
    apply (rule tr_bind [where Q = "\<lambda>_. ?A"], rule tr_pre [OF del], blast)
    apply (rule tr_bind [where Q = "\<lambda>_. ?A"], rule keep_tr [OF fin(2)], blast intro: away_safe_rec)
    apply (rule tr_bind [where Q = "\<lambda>_. ?A"], rule tr_set)
    subgoal by (auto simp: disk_away_def backed_def stored_def)
    apply (rule tr_conseq [OF fin(1) [unfolded keep_def]])
    by (auto intro: away_safe_rec)
qed

lemma tr_offloadCold: "tr (starting env a) (offloadCold env w) (\<lambda>_. disk_away env a) (safe_rec env a)"
  unfolding offloadCold_def
  apply (rule tr_bind [where Q = "\<lambda>_. starting env a"], rule keep_tr [OF keep_coldRemote starting_safe], assumption)
  apply (rule tr_bind [where Q = "\<lambda>_. starting env a"],
    rule keep_tr [OF keep_try [OF keep_ValidateVolume [OF unstepped_starting(1)]] starting_safe], assumption)
  apply (rule tr_bind [where Q = "\<lambda>_. starting env a"], rule keep_tr [OF keep_look starting_safe], assumption)
  apply (rule tr_bind [where Q = "\<lambda>_. starting env a"], rule keep_tr [OF keep_check starting_safe], assumption)
  apply (rule tr_bind [where Q = "\<lambda>_. starting env a"], rule keep_tr [OF keep_check starting_safe], assumption)
  apply (rule tr_bind [where Q = "\<lambda>_. starting env a"], rule keep_tr [OF keep_remove_send starting_safe], assumption)
  apply (rule tr_bind [OF tr_snapshot_send])
  apply (rule tr_bind [OF tr_set_object])
  apply (rule tr_bind [where Q = "\<lambda>_. described env a"], rule keep_tr [OF keep_choose_base described_safe], assumption)
  by (rule tr_bind [OF tr_upload tr_evict])

subsection \<open>Hydrating\<close>

definition restoring :: "cold_env \<Rightarrow> string \<Rightarrow> cold_state \<Rightarrow> bool" where
  "restoring env a s \<longleftrightarrow> disk_away env a s \<and> backed env a (kRec s) s"

definition candidate_ok :: "cold_env \<Rightarrow> string \<Rightarrow> cold_state \<Rightarrow> bool" where
  "candidate_ok env a s \<longleftrightarrow> restoring env a s \<and> (\<exists>v. kCandidate s = Some v \<and> agrees env (vlContent v) a)"

lemma steady_restoring: "steady (restoring env a)" "steady (candidate_ok env a)"
  by (simp_all add: steady_def unstepped_def restoring_def candidate_ok_def cold_states)

lemmas unstepped_restoring = steady_restoring [THEN steady_unstepped]

lemma restoring_safe: "restoring env a s \<Longrightarrow> safe_rec env a s"
  and candidate_safe: "candidate_ok env a s \<Longrightarrow> safe_rec env a s"
  by (auto simp: restoring_def candidate_ok_def intro: away_safe_rec)

lemmas restoring_states = restoring_def candidate_ok_def disk_away_def backed_def stored_def

lemma restoring_received: "restoring env a (s\<lparr>kReceived := x\<rparr>) = restoring env a s"
  by (simp add: restoring_states)

lemma keep_writeCold_restoring: "keep (restoring env a) (writeCold w)" "keep (candidate_ok env a) (writeCold w)"
  unfolding writeCold_def by (intro keep_rules unstepped_restoring; auto simp: restoring_states)+

lemma keep_clean_restoring: "keep (restoring env a) (cleanColdStages w)"
  unfolding cleanColdStages_def remove_send_def
  by (intro keep_rules unstepped_restoring) (auto simp: restoring_states)

lemma tr_snapshot_candidate:
  "agrees env (vlContent v) a \<Longrightarrow> tr (restoring env a) (snapshot_candidate w v) (\<lambda>_. candidate_ok env a) (safe_rec env a)"
  unfolding snapshot_candidate_def
  apply (rule tr_bind, rule tr_look)
  apply (rule tr_bind [where Q = "\<lambda>_. restoring env a"], rule tr_conseq [OF tr_check [where P = "restoring env a" and I = "restoring env a"]])
      apply (auto intro: restoring_safe)[4]
  apply (rule tr_effect [OF unstepped_restoring(1) restoring_safe])
    apply assumption
  subgoal by (auto simp: restoring_states snapshot_of_def)
  subgoal by (rule candidate_safe) (auto simp: restoring_states snapshot_of_def)
  done

lemma tr_received:
  assumes "describes env a ob"
  shows "tr (restoring env a) (bindA (client_Get env w ob parent) (\<lambda>_. bindA (foundK kReceived) (\<lambda>(dir, v).
      bindA (checkK (dir \<noteq> obID ob) m) (\<lambda>_. snapshot_candidate w v)))) (\<lambda>_. candidate_ok env a) (safe_rec env a)"
proof (rule tr_bind)
  show "tr (restoring env a) (client_Get env w ob parent)
      (\<lambda>_ s. restoring env a s \<and> (\<exists>v. kReceived s = Some (obID ob, v) \<and> verified env ob v)) (safe_rec env a)"
    by (rule tr_conseq [OF tr_client_Get [where P = "restoring env a"]])
      (auto simp: steady_restoring restoring_received intro: restoring_safe)
  show "tr (\<lambda>s. restoring env a s \<and> (\<exists>v. kReceived s = Some (obID ob, v) \<and> verified env ob v))
      (bindA (foundK kReceived) (\<lambda>(dir, v). bindA (checkK (dir \<noteq> obID ob) m) (\<lambda>_. snapshot_candidate w v)))
      (\<lambda>_. candidate_ok env a) (safe_rec env a)" for x
    apply (rule tr_bind, rule tr_found, blast intro: restoring_safe)
    apply (rule tr_prod)
    subgoal for x dir v
      apply (rule tr_fact [where b = "agrees env (vlContent v) a"])
       apply (auto dest: verified_describes [OF _ assms])[1]
      apply (rule tr_bind, rule tr_check, blast intro: restoring_safe)
      by (rule tr_pre [OF tr_snapshot_candidate]) auto
    done
qed

lemma tr_candidate_identity:
  "tr (candidate_ok env a) (bindA (ValidateVolume w kCandidate) (\<lambda>i. bindA (setR (\<lambda>r. r\<lparr>cdCandidate := i\<rparr>)) (\<lambda>_. writeCold w)))
     (\<lambda>_. candidate_ok env a) (safe_rec env a)"
  apply (rule tr_bind [where Q = "\<lambda>_. candidate_ok env a"],
    rule keep_tr [OF keep_ValidateVolume [OF unstepped_restoring(2)] candidate_safe], assumption)
  apply (rule tr_bind [where Q = "\<lambda>_. candidate_ok env a"], rule tr_set)
   apply (auto simp: restoring_states)[1]
  by (rule keep_tr [OF keep_writeCold_restoring(2) candidate_safe])

lemma fetch_candidate_parts:
  "fetch_candidate env w =
     bindA (callK w) (\<lambda>_.
     bindA (setR (\<lambda>r. r\<lparr>cdPhase := ''restoring''\<rparr>)) (\<lambda>_.
     bindA (writeCold w) (\<lambda>_.
     bindA (cleanColdStages w) (\<lambda>_.
     bindA (callK w) (\<lambda>_.
     bindA (parent_for_get w) (\<lambda>parent.
     bindA (lookK kRec) (\<lambda>r.
     bindA (bindA (client_Get env w (cdObject r) parent) (\<lambda>_. bindA (foundK kReceived) (\<lambda>(dir, v).
       bindA (checkK (dir \<noteq> obID (cdObject r)) ''received disk escaped private staging directory'') (\<lambda>_. snapshot_candidate w v)))) (\<lambda>_.
     bindA (ValidateVolume w kCandidate) (\<lambda>i. bindA (setR (\<lambda>r. r\<lparr>cdCandidate := i\<rparr>)) (\<lambda>_. writeCold w))))))))))"
  by (simp add: fetch_candidate_def bind_assoc split_def)

lemma tr_fetch_candidate: "tr (restoring env a) (fetch_candidate env w) (\<lambda>_. candidate_ok env a) (safe_rec env a)"
  unfolding fetch_candidate_parts
  apply (rule tr_bind [where Q = "\<lambda>_. restoring env a"], rule keep_tr [OF keep_call [OF unstepped_restoring(1)] restoring_safe], assumption)
  apply (rule tr_bind [where Q = "\<lambda>_. restoring env a"], rule tr_set)
   apply (auto simp: restoring_states)[1]
  apply (rule tr_bind [where Q = "\<lambda>_. restoring env a"], rule keep_tr [OF keep_writeCold_restoring(1) restoring_safe], assumption)
  apply (rule tr_bind [where Q = "\<lambda>_. restoring env a"], rule keep_tr [OF keep_clean_restoring restoring_safe], assumption)
  apply (rule tr_bind [where Q = "\<lambda>_. restoring env a"], rule keep_tr [OF keep_call [OF unstepped_restoring(1)] restoring_safe], assumption)
  apply (rule tr_bind [where Q = "\<lambda>_. restoring env a"], rule keep_tr [OF keep_parent_for_get [OF unstepped_restoring(1)] restoring_safe], assumption)
  apply (rule tr_bind, rule tr_look)
  subgoal for x xa xb xc xd parent r
    apply (rule tr_fact [where b = "describes env a (cdObject r)"])
     apply (simp add: restoring_def backed_def)
    apply (rule tr_bind [where Q = "\<lambda>_. candidate_ok env a"])
     apply (rule tr_pre [OF tr_received], assumption, blast)
    by (rule tr_candidate_identity)
  done

lemma tr_rename_candidate: "tr (candidate_ok env a) (rename_candidate w) (\<lambda>_. here_rec env a) (safe_rec env a)"
  unfolding rename_candidate_def
  apply (rule tr_bind, rule tr_found, erule candidate_safe)
  apply (rule tr_bind, rule tr_look)
  apply (rule tr_bind, rule tr_check, blast intro: candidate_safe)
  apply (rule tr_effect)
     apply (simp add: unstepped_def restoring_states)
    apply (blast intro: candidate_safe)
  subgoal by (auto simp: restoring_states here_rec_def disk_here_def idle_record_def)
  subgoal by (rule here_rec_safe) (auto simp: restoring_states here_rec_def disk_here_def idle_record_def)
  done

lemma tr_existing_candidate:
  "siUUID (cdCandidate r) \<noteq> [] \<Longrightarrow>
   tr (\<lambda>s. restoring env a s \<and> r = kRec s) (bindA (tryA (ValidateVolume w kCandidate)) (\<lambda>i. checkK (i \<noteq> Inr (cdCandidate r)) m))
     (\<lambda>_. candidate_ok env a) (safe_rec env a)"
  apply (rule tr_bind [where Q = "\<lambda>i s. restoring env a s \<and> r = kRec s \<and> (\<forall>i'. i = Inr i' \<longrightarrow> (\<exists>v. kCandidate s = Some v \<and> vlIdentity v = i'))"])
   apply (rule tr_try)
    apply (rule tr_post, rule tr_ValidateVolume [where I = "\<lambda>s. restoring env a s \<and> r = kRec s"])
       apply (auto simp: unstepped_def restoring_states)[4]
   apply simp
  apply (rule tr_post [OF tr_check])
   apply (blast intro: restoring_safe)
  by (auto simp: restoring_states)

lemma tr_hydrateCold:
  "tr (\<lambda>s. here_rec env a s \<or> restoring env a s) (hydrateCold env w) (\<lambda>_. here_rec env a) (safe_rec env a)"
proof -
  let ?P = "\<lambda>s. here_rec env a s \<or> restoring env a s"
  have u: "unstepped ?P" and safe: "\<And>s. ?P s \<Longrightarrow> safe_rec env a s"
    using unstepped_cold unstepped_restoring by (auto simp: unstepped_def intro: here_rec_safe restoring_safe)
  have missing: "tr (restoring env a) (hydrate_missing env w) (\<lambda>_. here_rec env a) (safe_rec env a)"
    unfolding hydrate_missing_def
    apply (rule tr_bind, rule tr_look)
    subgoal for r
      apply (rule tr_bind, rule tr_check, blast intro: restoring_safe)
      apply (rule tr_bind [where Q = "\<lambda>_ s. restoring env a s \<and> r = kRec s"], rule tr_conseq [OF keep_coldRemote [unfolded keep_def]])
         apply (assumption | blast intro: restoring_safe)+
      apply (rule tr_bind [where Q = "\<lambda>_. candidate_ok env a"])
       apply (rule tr_if, erule tr_existing_candidate)
       apply (rule tr_pre [OF tr_fetch_candidate], blast)
      apply (rule tr_bind [OF tr_rename_candidate])
      apply (rule tr_bind [where Q = "\<lambda>_. here_rec env a"], rule keep_tr [OF keep_call [OF unstepped_cold(3)] here_rec_safe], assumption)
      by (rule tr_pre [OF tr_recoverLocalCold here_rec_safe])
    done
  show ?thesis
    unfolding hydrateCold_def
    apply (rule tr_bind [where Q = "\<lambda>_. ?P"], rule keep_tr [OF keep_call [OF u] safe], assumption)
    apply (rule tr_bind, rule tr_look)
    apply (rule tr_if)
     apply (rule tr_bind [where Q = "\<lambda>_. ?P"], rule tr_post [OF tr_look], blast)
     apply (rule tr_bind [where Q = "\<lambda>_. ?P"], rule keep_tr [OF keep_check safe], assumption)
     apply (rule tr_pre [OF tr_recoverLocalCold], erule safe)
    apply (rule tr_pre [OF missing])
    by (auto simp: here_rec_def disk_here_def)
qed

end
