(* ===== verification/ColdProps.thy ===== *)
theory ColdProps
  imports ColdSafety
begin

section \<open>The cold disk is never lost\<close>

text \<open>
  The requests to the runner as a whole, and the runs in which they are mixed with restarts of the runner,
  with other hosts that use the store and with guests that write their disk.
\<close>

subsection \<open>Requests\<close>

lemma disk_safe_updates [simp]:
  "disk_safe env a (s\<lparr>kTombstones := ids\<rparr>) = disk_safe env a s" "disk_safe env a (s\<lparr>kRAM := ram\<rparr>) = disk_safe env a s"
  "disk_safe env a (s\<lparr>kRec := r\<rparr>) = disk_safe env a s" "disk_safe env a (s\<lparr>kStep := n\<rparr>) = disk_safe env a s"
  by (simp_all add: disk_safe_def disk_here_def disk_away_def backed_def stored_def)

lemma keep_readCold: "unstepped P \<Longrightarrow> keep P (readCold w q)"
  unfolding readCold_def by (intro keep_rules)

lemma tr_readCold:
  assumes "unstepped P" "\<And>s. P s \<Longrightarrow> I s"
  shows "tr P (readCold w q) (\<lambda>r s. P s \<and> r = kJournal s) I"
  unfolding readCold_def
  apply (rule tr_bind, rule tr_call [OF assms], assumption)
  apply (rule tr_bind, rule tr_look)
  apply (rule tr_option)
   apply (rule tr_ret, blast)
  apply (rule tr_bind, rule tr_check, blast intro: assms(2))
  apply (rule tr_bind, rule tr_check, blast intro: assms(2))
  by (rule tr_ret) blast

text \<open>The disk is here unless the journal is in a phase in which it may be away.\<close>

lemma safe_here:
  assumes "disk_safe env a s" "\<And>r. kJournal s = Some r \<Longrightarrow> cdPhase r \<notin> {''evicting'', ''cold'', ''restoring''}"
  shows "disk_here env a s"
  using assms by (auto simp: disk_safe_def disk_away_def backed_def)

lemma tr_coldStartFence: "tr (disk_safe env a) (coldStartFence w q) (\<lambda>_. disk_here env a) (disk_safe env a)"
  unfolding coldStartFence_def
  apply (rule tr_bind [where Q = "\<lambda>_. disk_safe env a"], rule keep_tr [OF keep_fence [OF unstepped_cold(5)]], assumption)
  apply (rule tr_bind, rule tr_readCold [OF unstepped_cold(5)], assumption)
  apply (rule tr_option)
   apply (rule tr_ret, rule safe_here, blast, force)
  subgoal for x r r'
    apply (rule tr_bind, rule tr_check, blast)
    apply (rule tr_pre [where P = "disk_here env a"])
     apply (rule keep_tr)
      apply (intro keep_rules keep_ValidateVolume unstepped_cold)
     apply (simp add: disk_safe_def)
    by (rule safe_here) auto
  done

text \<open>What is left after a request that succeeded: after \<open>hydrate\<close> and \<open>purge\<close> the disk is here.\<close>

definition settled :: "cold_env \<Rightarrow> string \<Rightarrow> ColdRequest \<Rightarrow> cold_state \<Rightarrow> bool" where
  "settled env a q s \<longleftrightarrow> (if cqAction q = ''hydrate'' \<or> cqAction q = ''purge'' then disk_here env a s else disk_safe env a s)"

lemma here_settled: "here_rec env a s \<Longrightarrow> settled env a q s"
  and here_settled': "disk_here env a s \<Longrightarrow> settled env a q s"
  by (simp_all add: settled_def here_rec_def disk_safe_def)

lemma tr_status: "(\<And>s. P s \<Longrightarrow> Q s) \<Longrightarrow> tr P current_status (\<lambda>_. Q) I"
  unfolding current_status_def by (rule tr_bind [OF tr_look], rule tr_ret) blast

lemma tr_offload_action:
  assumes "cqAction q = ''offload''"
  shows "tr (\<lambda>s. here_rec env a s \<or> restoring env a s) (offload_action env w) (\<lambda>_. settled env a q) (disk_safe env a)"
proof -
  let ?P = "\<lambda>s. here_rec env a s \<or> restoring env a s"
  have safe: "disk_safe env a s" if "?P s" for s
    using that by (auto simp: here_rec_def restoring_def disk_safe_def)
  have settled: "settled env a q s = disk_safe env a s" for s
    using assms by (simp add: settled_def)
  have start: "starting env a s" if "?P s" "cdPhase (kRec s) = ''offloading''" for s
    using that by (auto simp: here_rec_def restoring_def starting_def idle_record_def backed_def)
  show ?thesis
    unfolding offload_action_def
    apply (rule tr_bind, rule tr_look)
    apply (rule tr_if, rule tr_ret)
     apply (use safe settled in blast)
    apply (rule tr_if, rule tr_fail)
     apply (use safe in blast)
    apply (rule tr_bind [where Q = "\<lambda>x s. (isl x \<longrightarrow> safe_rec env a s) \<and> (\<not> isl x \<longrightarrow> disk_away env a s)"])
     apply (rule tr_try [where I = "safe_rec env a"], rule tr_conseq [OF tr_offloadCold])
        apply (use start in auto)[4]
    apply (rule tr_sum)
     apply (rule tr_bind [where Q = "\<lambda>_. safe_rec env a"])
      apply (rule tr_try [where I = "safe_rec env a"], rule tr_conseq [OF tr_recoverLocalCold])
         apply (auto intro: here_rec_safe)[4]
     apply (rule tr_fail, erule safe_rec_safe)
    apply (rule tr_status)
    by (simp add: settled disk_safe_def)
qed

lemma tr_cold_action:
  assumes "cqAction q \<noteq> ''delete''"
  shows "tr (\<lambda>s. here_rec env a s \<or> restoring env a s) (cold_action env w q) (\<lambda>_. settled env a q) (disk_safe env a)"
proof -
  let ?P = "\<lambda>s. here_rec env a s \<or> restoring env a s"
  have safe: "?P s \<Longrightarrow> safe_rec env a s" for s
    by (auto intro: here_rec_safe restoring_safe)
  show ?thesis
    unfolding cold_action_def
    apply (rule tr_if, erule tr_offload_action)
    apply (rule tr_if, rule tr_bind [where Q = "\<lambda>_. here_rec env a"], rule tr_conseq [OF tr_hydrateCold])
        apply (assumption | erule safe_rec_safe)+
     apply (rule tr_status, erule here_settled)
    apply (rule tr_if, rule tr_bind [where Q = "\<lambda>x s. safe_rec env a s \<and> (\<not> isl x \<longrightarrow> here_rec env a s)"])
      apply (rule tr_try [where I = "safe_rec env a"], rule tr_conseq [OF tr_recoverLocalCold])
         apply (auto intro: safe here_rec_safe)[4]
     apply (rule tr_sum, rule tr_fail, blast intro: safe_rec_safe)
     apply (rule tr_bind [where Q = "\<lambda>_. here_rec env a"], rule tr_conseq [OF keep_purgeCold [unfolded keep_def]])
        apply (auto intro: safe_rec_safe here_rec_safe)[3]
     apply (rule tr_ret, erule here_settled)
    apply (rule tr_if, use assms in blast)
    apply (rule tr_status)
    by (auto simp: settled_def intro: safe safe_rec_safe)
qed

lemma keep_cold_admit: "keep (\<lambda>s. disk_safe env a s \<and> kJournal s = j) (cold_admit w q r)"
proof -
  have u: "unstepped (\<lambda>s. disk_safe env a s \<and> kJournal s = j)"
    using unstepped_cold(5) [of env a] by (simp add: unstepped_def)
  show ?thesis
    unfolding cold_admit_def coldDeletionFence_def
    by (intro keep_rules u) simp_all
qed

lemma keep_expected_disk: "unstepped P \<Longrightarrow> keep P (expected_disk w q r)"
  unfolding expected_disk_def by (intro keep_rules keep_ValidateVolume)

lemma tr_finish_old:
  "tr (\<lambda>s. disk_safe env a s \<and> kJournal s = r \<and> (\<forall>r'. r = Some r' \<longrightarrow> kRec s = r')) (finish_old env w q r)
     (\<lambda>(present, _) s. if present then here_rec env a s \<or> restoring env a s else disk_here env a s) (disk_safe env a)"
  (is "tr ?P _ ?Q _")
proof (cases r)
  case None
  then show ?thesis
    unfolding finish_old_def by (auto intro!: tr_ret safe_here)
next
  case (Some r')
  have here: "here_rec env a s" if "?P s" "cdPhase r' = ''hot'' \<or> cdPhase r' = ''purged''" for s
  proof -
    have "disk_here env a s"
      using that Some by (auto intro!: safe_here)
    with that Some show ?thesis
      by (auto simp: here_rec_def idle_record_def)
  qed
  have kept: "here_rec env a s \<or> restoring env a s" if "?P s" for s
    using that Some by (auto simp: disk_safe_def here_rec_def disk_here_def restoring_def disk_away_def)
  have hot: "tr (here_rec env a) (bindA (recoverLocalCold w) (\<lambda>_. bindA (lookK kRec) (\<lambda>r. bindA (purgeCold env w) (\<lambda>_.
      retA (False, cdBase r, cdBaseName r))))) ?Q (disk_safe env a)"
    apply (rule tr_conseq [OF tr_bind [where Q = "\<lambda>_. here_rec env a" and R = ?Q and I = "here_rec env a"]])
        apply (rule keep_recoverLocalCold [unfolded keep_def])
       apply (rule tr_bind [where Q = "\<lambda>_. here_rec env a"], rule keep_look [unfolded keep_def])
       apply (rule tr_bind [where Q = "\<lambda>_. here_rec env a"], rule keep_purgeCold [unfolded keep_def])
       apply (rule tr_ret)
       apply (auto simp: here_rec_def disk_safe_def)
    done
  have purged: "tr (here_rec env a) (bindA (if cqAction q \<noteq> ''delete'' then
      bindA (tryA (ValidateVolume w kDisk)) (\<lambda>i. checkK (i \<noteq> Inr (cdDisk r')) ''purged generation has no valid local disk'')
      else retA ()) (\<lambda>_. bindA (finishColdPurge w) (\<lambda>_. retA (False, no_identity, [])))) ?Q (disk_safe env a)"
    apply (rule tr_conseq [OF tr_bind [where Q = "\<lambda>_. here_rec env a" and R = ?Q and I = "here_rec env a"]])
        apply (rule keep_if [unfolded keep_def])
         apply (intro keep_rules [unfolded keep_def] keep_ValidateVolume [unfolded keep_def] unstepped_cold keep_rules keep_ValidateVolume
          | (simp only: keep_def [symmetric], intro keep_rules keep_ValidateVolume unstepped_cold))+
       apply (rule tr_bind [where Q = "\<lambda>_. here_rec env a"], rule keep_finishColdPurge [unfolded keep_def])
       apply (rule tr_ret)
       apply (auto simp: here_rec_def disk_safe_def)
    done
  show ?thesis
    unfolding finish_old_def Some option.case
    apply (rule tr_if, rule tr_pre [OF hot])
     apply (use here Some in blast)
    apply (rule tr_if, rule tr_pre [OF purged])
     apply (use here Some in blast)
    apply (rule tr_ret)
    using kept Some by auto
qed

lemma tr_no_generation:
  assumes "cqAction q \<noteq> ''delete''"
  shows "tr (disk_here env a) (no_generation env w q base baseName) (\<lambda>_. settled env a q) (disk_safe env a)"
proof -
  note u = unstepped_cold(2) [of env a]
  have safe: "disk_here env a s \<Longrightarrow> disk_safe env a s" for s
    by (simp add: disk_safe_def)
  have fresh: "tr (disk_here env a) (new_generation env w q base baseName) (\<lambda>_. here_rec env a) (disk_safe env a)"
    unfolding new_generation_def
    apply (rule tr_bind [where Q = "\<lambda>_. disk_here env a"], rule keep_tr [OF keep_check safe], assumption)
    apply (rule tr_bind [where Q = "\<lambda>_. disk_here env a"], rule keep_tr [OF keep_call [OF u] safe], assumption)
    apply (rule tr_bind [where Q = "\<lambda>_. disk_here env a"], rule keep_tr [OF keep_ValidateVolume [OF u] safe], assumption)
    apply (rule tr_bind [where Q = "\<lambda>_. disk_here env a"], rule keep_tr [OF keep_call [OF u] safe], assumption)
    apply (rule tr_bind [where Q = "\<lambda>_. here_rec env a"], rule tr_set)
     apply (simp add: here_rec_def disk_here_def idle_record_def no_identity_def)
    by (rule keep_tr [OF keep_writeCold]) (blast intro: here_rec_safe safe_rec_safe)
  show ?thesis
    unfolding no_generation_def
    apply (rule tr_bind [where Q = "\<lambda>_. disk_here env a"], rule keep_tr [OF keep_call [OF u] safe], assumption)
    apply (rule tr_bind [where Q = "\<lambda>_. disk_here env a"], rule keep_tr [OF keep_look safe], assumption)
    apply (rule tr_bind [where Q = "\<lambda>_. disk_here env a"], rule keep_tr [OF keep_check safe], assumption)
    apply (rule tr_if, rule tr_bind [where Q = "\<lambda>_. disk_here env a"], rule keep_tr [OF keep_call [OF u] safe], assumption)
     apply (rule tr_ret, erule here_settled')
    apply (rule tr_bind [OF fresh])
    by (rule tr_pre [OF tr_cold_action [OF assms]]) blast
qed

lemma tr_coldDiskLocked:
  assumes "cqAction q \<noteq> ''delete''"
  shows "tr (disk_safe env a) (coldDiskLocked env w q) (\<lambda>_. settled env a q) (disk_safe env a)"
proof -
  note u = unstepped_cold(5) [of env a]
  have u': "unstepped (\<lambda>s. disk_safe env a s \<and> kJournal s = r \<and> (\<forall>r'. r = Some r' \<longrightarrow> kRec s = r'))" for r
    using u by (simp add: unstepped_def)
  show ?thesis
    unfolding coldDiskLocked_def
    apply (rule tr_bind [where Q = "\<lambda>_. disk_safe env a"], rule keep_tr [OF keep_call [OF u]], assumption)
    apply (rule tr_bind, rule tr_readCold [OF u], assumption)
    apply (rule tr_if, rule tr_ret)
     apply (simp add: settled_def)
    subgoal for x r
      apply (rule tr_bind [where Q = "\<lambda>_ s. disk_safe env a s \<and> kJournal s = r"])
       apply (rule tr_conseq [OF keep_cold_admit [where j = r, unfolded keep_def]])
         apply (auto)[3]
      apply (rule tr_bind [where Q = "\<lambda>_ s. disk_safe env a s \<and> kJournal s = r \<and> (\<forall>r'. r = Some r' \<longrightarrow> kRec s = r')"])
       apply (rule tr_option, rule tr_ret, simp)
       apply (rule tr_set)
       apply simp
      apply (rule tr_bind [where Q = "\<lambda>_ s. disk_safe env a s \<and> kJournal s = r \<and> (\<forall>r'. r = Some r' \<longrightarrow> kRec s = r')"])
       apply (rule keep_tr [OF keep_expected_disk [OF u']], blast)
      apply (rule tr_bind [OF tr_finish_old])
      apply (rule tr_prod)+
      apply simp
      apply (rule conjI; rule impI)
       apply (simp, rule tr_cold_action [OF assms])
      by (simp, rule tr_no_generation [OF assms])
    done
qed

subsection \<open>Runs\<close>

text \<open>\<open>cold_run env a s\<close>: the state \<open>s\<close> is reached and \<open>a\<close> is what the guest wrote last. An instance starts with its disk
  and no journal, and the store is empty. Then come requests to the runner with any outcome of its calls (all but
  \<open>delete\<close>, which gives the disk up), restarts of the runner, which lose the record in memory, requests of other
  hosts to the store that do not delete the object of this disk, and guests that were let through by the fence of a start and write
  their disk.\<close>

inductive cold_run :: "cold_env \<Rightarrow> string \<Rightarrow> cold_state \<Rightarrow> bool" for env where
  created: "kJournal s = None \<Longrightarrow> kObjects s = [] \<Longrightarrow> kDisk s = Some v \<Longrightarrow> cold_run env (vlContent v) s"
| request: "cold_run env a s \<Longrightarrow> cqAction q \<noteq> ''delete'' \<Longrightarrow> coldDiskLocked env w q s = (r, s') \<Longrightarrow> cold_run env a s'"
| restart: "cold_run env a s \<Longrightarrow> cold_run env a (s\<lparr>kRec := r\<rparr>)"
| peer: "cold_run env a s \<Longrightarrow> Serve env w req c s = (r, s') \<Longrightarrow>
    (\<And>j. kJournal s = Some j \<Longrightarrow> \<not> (crOperation req = ''delete'' \<and> obID (crObject req) = obID (cdObject j))) \<Longrightarrow> cold_run env a s'"
| guest: "cold_run env a s \<Longrightarrow> coldStartFence w q s = (Inr (), s') \<Longrightarrow> kDisk s' = Some v \<Longrightarrow>
    cold_run env b (s'\<lparr>kDisk := Some (v\<lparr>vlContent := b\<rparr>)\<rparr>)"

lemma settled_safe: "settled env a q s \<Longrightarrow> disk_safe env a s"
  by (simp add: settled_def disk_safe_def split: if_splits)

lemma accepts_safe: "accepts env (disk_safe env a)"
  by (auto simp: accepts_def steady_cold disk_safe_def disk_here_def disk_away_def backed_def stored_def store_ok_def)

lemma keep_other_removal:
  "keep (\<lambda>s. disk_safe env a s \<and> (\<forall>r. kJournal s = Some r \<longrightarrow> obID (cdObject r) \<noteq> i)) (server_delete env w i)"
proof (rule keep_server_delete)
  have other: "map_of (filter (\<lambda>e. fst e \<noteq> i) xs) j = map_of xs j" if "j \<noteq> i" for j and xs :: "(string \<times> stored_object) list"
    using that by (induction xs) auto
  show "steady (\<lambda>s. disk_safe env a s \<and> (\<forall>r. kJournal s = Some r \<longrightarrow> obID (cdObject r) \<noteq> i))"
    using steady_cold(5) [of env a] by (simp add: steady_def unstepped_def)
  show "disk_safe env a s \<and> (\<forall>r. kJournal s = Some r \<longrightarrow> obID (cdObject r) \<noteq> i) \<Longrightarrow>
      disk_safe env a (s\<lparr>kObjects := filter (\<lambda>e. fst e \<noteq> i) (kObjects s)\<rparr>) \<and>
      (\<forall>r. kJournal (s\<lparr>kObjects := filter (\<lambda>e. fst e \<noteq> i) (kObjects s)\<rparr>) = Some r \<longrightarrow> obID (cdObject r) \<noteq> i)" for s
    by (auto simp: disk_safe_def disk_here_def disk_away_def backed_def stored_def here_objects other)
qed

text \<open>What other hosts ask of the store leaves the disk of this one alone, when they do not delete its object.\<close>

lemma peer_safe:
  assumes "disk_safe env a s" "Serve env w req c s = (r, s')"
    and "\<And>j. kJournal s = Some j \<Longrightarrow> \<not> (crOperation req = ''delete'' \<and> obID (crObject req) = obID (cdObject j))"
  shows "disk_safe env a s'"
proof (cases "crOperation req = ''delete''")
  case True
  let ?P = "\<lambda>s. disk_safe env a s \<and> (\<forall>r. kJournal s = Some r \<longrightarrow> obID (cdObject r) \<noteq> obID (crObject req))"
  have st: "steady ?P"
    using steady_cold(5) [of env a] by (simp add: steady_def unstepped_def)
  have "keep ?P (Serve env w req c)"
    unfolding Serve_def True by simp (intro keep_rules keep_withServer keep_other_removal st)
  moreover have "?P s"
    using assms(1,3) True by auto
  ultimately have "?P s'"
    using assms(2) unfolding keep_def by (rule tr_run)
  then show ?thesis by blast
next
  case False
  from tr_run [OF keep_Serve [OF accepts_safe False, unfolded keep_def] assms(1,2)] show ?thesis .
qed

lemma cold_run_safe: "cold_run env a s \<Longrightarrow> disk_safe env a s"
proof (induction rule: cold_run.induct)
  case (created s v)
  then show ?case
    by (auto simp: disk_safe_def disk_here_def store_ok_def)
next
  case (request a s q w r s')
  have "tr (disk_safe env a) (coldDiskLocked env w q) (\<lambda>_. disk_safe env a) (disk_safe env a)"
    by (rule tr_post [OF tr_coldDiskLocked [OF request.hyps(2)]]) (rule settled_safe)
  from tr_run [OF this request.IH request.hyps(3)] show ?case .
next
  case (peer a s w req c r s')
  show ?case
    by (rule peer_safe [OF peer.IH peer.hyps(2)]) (rule peer.hyps(3))
next
  case (guest a s w q s' v b)
  then have "disk_here env a s'"
    using tr_run_result [OF tr_coldStartFence] by blast
  with guest show ?case
    by (simp add: disk_safe_def disk_here_def)
qed simp

lemma here_disk: "disk_here env a s \<Longrightarrow> \<exists>v. kDisk s = Some v \<and> agrees env (vlContent v) a"
  by (simp add: disk_here_def)

lemma store_content:
  "store_ok env s \<Longrightarrow> map_of (kObjects s) i = Some so \<Longrightarrow> describes env a (soManifest so) \<Longrightarrow>
    agrees env (vlContent (soVolume so)) a"
  by (auto simp: store_ok_def intro: verified_describes)

lemma safe_disk:
  "disk_safe env a s \<Longrightarrow> (case kDisk s of
     Some v \<Rightarrow> agrees env (vlContent v) a
   | None \<Rightarrow> \<exists>r so. kJournal s = Some r \<and> cdRemote r \<and> map_of (kObjects s) (obID (cdObject r)) = Some so \<and>
       soManifest so = cdObject r \<and> agrees env (vlContent (soVolume so)) a)"
  by (auto simp: disk_safe_def disk_here_def disk_away_def backed_def stored_def store_content)

subsection \<open>The property\<close>

text \<open>C13. However requests, failures and restarts are mixed, what the guest wrote last is on the local disk, or,
  when there is none, in the stored object that the journal names. A start is let through only when the disk is
  there with that content, and so it is after a hydration or a purge that succeeded.\<close>

theorem cold_disk_never_lost:
  assumes "cold_run env a s"
  shows "(case kDisk s of
      Some v \<Rightarrow> agrees env (vlContent v) a
    | None \<Rightarrow> \<exists>r so. kJournal s = Some r \<and> cdRemote r \<and> map_of (kObjects s) (obID (cdObject r)) = Some so \<and>
        soManifest so = cdObject r \<and> agrees env (vlContent (soVolume so)) a) \<and>
    (\<forall>w q s'. coldStartFence w q s = (Inr (), s') \<longrightarrow> (\<exists>v. kDisk s' = Some v \<and> agrees env (vlContent v) a)) \<and>
    (\<forall>w q st s'. (cqAction q = ''hydrate'' \<or> cqAction q = ''purge'') \<and> coldDiskLocked env w q s = (Inr st, s') \<longrightarrow>
      (\<exists>v. kDisk s' = Some v \<and> agrees env (vlContent v) a))"
proof (intro conjI allI impI)
  note safe = cold_run_safe [OF assms]
  show "case kDisk s of
      Some v \<Rightarrow> agrees env (vlContent v) a
    | None \<Rightarrow> \<exists>r so. kJournal s = Some r \<and> cdRemote r \<and> map_of (kObjects s) (obID (cdObject r)) = Some so \<and>
        soManifest so = cdObject r \<and> agrees env (vlContent (soVolume so)) a"
    by (rule safe_disk [OF safe])
  show "\<exists>v. kDisk s' = Some v \<and> agrees env (vlContent v) a" if "coldStartFence w q s = (Inr (), s')" for w q s'
    by (rule here_disk [OF tr_run_result [OF tr_coldStartFence safe that]])
  show "\<exists>v. kDisk s' = Some v \<and> agrees env (vlContent v) a"
    if "(cqAction q = ''hydrate'' \<or> cqAction q = ''purge'') \<and> coldDiskLocked env w q s = (Inr st, s')" for w q st s'
  proof -
    have "cqAction q \<noteq> ''delete''"
      using that by auto
    from tr_run_result [OF tr_coldDiskLocked [OF this] safe] that show ?thesis
      by (auto simp: settled_def intro: here_disk)
  qed
qed

text \<open>A disk that is offloaded and fetched again.\<close>

definition cx_identity :: SubvolumeIdentity where
  "cx_identity = \<lparr>siUUID = ''u'', siID = ''7'', siParentUUID = [], siReceivedUUID = ''u''\<rparr>"

definition cx_env :: cold_env where
  "cx_env = \<lparr>ceHash = (\<lambda>c. take 64 (c @ replicate 64 (CHR ''0''))), ceValidID = (\<lambda>i. i \<noteq> []), ceHost = ''store''\<rparr>"

definition cx_world :: cold_world where
  "cx_world _ = (\<lparr>kwErr = None, kwLate = None, kwID = ''o'', kwIdentity = cx_identity, kwStream = None\<rparr>)"

definition cx_request :: "string \<Rightarrow> ColdRequest" where
  "cx_request action = \<lparr>cqName = ''vm'', cqInstanceID = ''i'', cqAction = action, cqExpectedDisk = cx_identity\<rparr>"

definition cx_start :: cold_state where
  "cx_start = \<lparr>kJournal = None, kMarker = None, kTombstones = [], kRAM = None,
     kDisk = Some \<lparr>vlIdentity = cx_identity, vlContent = ''abc'', vlReadonly = False\<rparr>, kSend = None, kReceived = None,
     kCandidate = None, kBases = [], kRec = \<lparr>cdVersion = 0, cdInstanceID = [], cdPhase = [], cdRemote = False, cdHost = [],
       cdDisk = no_identity, cdCandidate = no_identity, cdObject = no_object, cdBase = no_identity, cdBaseName = []\<rparr>,
     kObjects = [], kRemoved = [], kDeleting = [], kStep = 0\<rparr>"

lemma remote_weak: "s = s' \<Longrightarrow> remoteK w m s = remoteK w m s'"
  by simp

lemma cx_call: "callK cx_world s = (Inr (cx_world 0), s\<lparr>kStep := Suc (kStep s)\<rparr>)"
  and cx_effect: "effectK cx_world f s = (Inr (), f (cx_world 0) (s\<lparr>kStep := Suc (kStep s)\<rparr>))"
  by (simp_all add: effectK_def callK_def bindA_def askK_def cx_world_def retA_def)

lemmas cold_eval = bind_eval bind_fail try_eval cx_call cx_effect retA_def failA_def liftR_def lookK_def foundK_def checkK_def failIf_def
  bindR_def setR_def remoteK_def readCold_def writeCold_def cold_admit_def coldDeletionFence_def expected_disk_def finish_old_def
  ValidateVolume_def RequireReadonly_def no_generation_def new_generation_def cold_action_def offload_action_def offloadCold_def
  coldRemote_def remove_send_def snapshot_send_def snapshot_of_def set_object_def coldObject_def choose_base_def findColdBase_def
  basePath_def upload_def upload_base_def client_Put_def client_stat_def server_stat_def server_put_def not_deleted_def manifest_def
  Object_validate_def verifyDiskIdentity_def verifyDisk_def receive_volume_def publish_object_def Serve_def withServer_def recoverStages_def
  encodeRequest_def cold_request_validate_def bare_object_def evict_def delete_disk_def current_status_def status_of_def
  hydrateCold_def hydrate_missing_def fetch_candidate_def cleanColdStages_def parent_for_get_def client_Get_def server_get_def
  snapshot_candidate_def rename_candidate_def recoverLocalCold_def cold_phases_def

lemmas cold_weak = bind_weak try_weak remote_weak if_weak_cong

lemma cx_values: "ceHost cx_env = ''store''" "ceValidID cx_env i = (i \<noteq> [])"
  by (simp_all add: cx_env_def)

lemma cx_hash: "ceHash cx_env ''abc'' = ''abc'' @ replicate 61 (CHR ''0'')"
  by (simp add: cx_env_def numeral_eq_Suc)

lemma cx_hex: "list_all hex_digit (''abc'' @ replicate 61 (CHR ''0''))" "length (''abc'' @ replicate 61 (CHR ''0'')) = 64"
  by (simp_all add: hex_digit_def list_all_iff)

lemmas cx_eval = coldDiskLocked_def cold_eval cx_request_def cx_identity_def cx_world_def cx_values cx_hash cx_hex [simplified]
  no_identity_def no_object_def

definition cx_record :: coldDiskRecord where
  "cx_record = \<lparr>cdVersion = 1, cdInstanceID = ''i'', cdPhase = ''cold'', cdRemote = True, cdHost = ''store'', cdDisk = cx_identity,
     cdCandidate = no_identity, cdObject = \<lparr>obID = ''o'', obUUID = ''u'', obSHA256 = ''abc'' @ replicate 61 (CHR ''0''), obSize = 3, obParent = []\<rparr>,
     cdBase = no_identity, cdBaseName = []\<rparr>"

definition cx_cold :: cold_state where
  "cx_cold = cx_start\<lparr>kJournal := Some cx_record, kMarker := Some \<lparr>cmInstanceID = ''i'', cmPhase = ''cold'', cmRemote = True\<rparr>,
     kDisk := None, kRec := cx_record,
     kObjects := [(''o'', \<lparr>soManifest = cdObject cx_record,
       soVolume = \<lparr>vlIdentity = cx_identity, vlContent = ''abc'', vlReadonly = True\<rparr>\<rparr>)], kStep := 65\<rparr>"

lemma cx_offload: "coldDiskLocked cx_env cx_world (cx_request ''offload'') cx_start = (Inr (status_of cx_record), cx_cold)"
  by (simp add: cx_eval cx_start_def cx_cold_def cx_record_def cong: cold_weak)

lemma cx_hydrate: "\<exists>st s. coldDiskLocked cx_env cx_world (cx_request ''hydrate'') cx_cold = (Inr st, s)"
  by (simp add: cx_eval cx_start_def cx_cold_def cx_record_def cong: cold_weak)

lemma cx_run: "cold_run cx_env ''abc'' cx_cold"
proof -
  have "cold_run cx_env ''abc'' cx_start"
    using created [of cx_start "\<lparr>vlIdentity = cx_identity, vlContent = ''abc'', vlReadonly = False\<rparr>" cx_env] by (simp add: cx_start_def)
  then show ?thesis
    by (rule request [OF _ _ cx_offload]) (simp add: cx_request_def)
qed

theorem cold_disk_never_lost_witness:
  "cold_run cx_env ''abc'' cx_cold \<and> kDisk cx_cold = None \<and>
   (\<exists>r so. kJournal cx_cold = Some r \<and> map_of (kObjects cx_cold) (obID (cdObject r)) = Some so \<and>
     agrees cx_env (vlContent (soVolume so)) ''abc'') \<and>
   (\<exists>st s v. coldDiskLocked cx_env cx_world (cx_request ''hydrate'') cx_cold = (Inr st, s) \<and> kDisk s = Some v \<and>
     agrees cx_env (vlContent v) ''abc'')"
proof -
  note lost = cold_disk_never_lost [OF cx_run]
  have away: "kDisk cx_cold = None"
    by (simp add: cx_cold_def)
  obtain st s where h: "coldDiskLocked cx_env cx_world (cx_request ''hydrate'') cx_cold = (Inr st, s)"
    using cx_hydrate by blast
  have "\<exists>v. kDisk s = Some v \<and> agrees cx_env (vlContent v) ''abc''"
    using lost [THEN conjunct2, THEN conjunct2, rule_format, of "cx_request ''hydrate''" cx_world st s] h by (simp add: cx_request_def)
  with lost [THEN conjunct1] away h cx_run show ?thesis
    by auto
qed

end
