(* ===== verification/ColdStoreProofs.thy ===== *)
theory ColdStoreProofs
  imports ColdProps
begin

section \<open>Objects of the cold store\<close>

text \<open>
  The store on its own, under any sequence of requests over the connection and of local operations, with any
  outcome of their calls: an object never changes, what can be fetched has its parent, and an identifier that
  was deleted is never used again.
\<close>

datatype store_call =
    ServeCall cold_request string
  | ReceiveCall Object string
  | LocalStatCall string
  | RemoveCall string
  | DiscardCall "string list"

fun store_step :: "cold_env \<Rightarrow> cold_world \<times> store_call \<Rightarrow> cold_state \<Rightarrow> cold_state" where
  "store_step env (w, ServeCall r c) s = snd (Serve env w r c s)"
| "store_step env (w, ReceiveCall ob c) s = snd (Receive env w ob c s)"
| "store_step env (w, LocalStatCall i) s = snd (LocalStat env w i s)"
| "store_step env (w, RemoveCall i) s = snd (Remove env w i s)"
| "store_step env (w, DiscardCall ids) s = snd (DiscardObjects env w ids s)"

definition store_runs :: "cold_env \<Rightarrow> (cold_world \<times> store_call) list \<Rightarrow> cold_state \<Rightarrow> cold_state" where
  "store_runs env calls s = fold (store_step env) calls s"

subsection \<open>The invariant\<close>

definition intact :: "cold_env \<Rightarrow> cold_state \<Rightarrow> bool" where
  "intact env s \<longleftrightarrow> (\<forall>i so. map_of (kObjects s) i = Some so \<longrightarrow>
     obID (soManifest so) = i \<and> verified env (soManifest so) (soVolume so) \<and>
     (i \<notin> set (kRemoved s) \<longrightarrow> obParent (soManifest so) = [] \<or> map_of (kObjects s) (obParent (soManifest so)) \<noteq> None))"

definition evolves :: "cold_state \<Rightarrow> cold_state \<Rightarrow> bool" where
  "evolves s0 s \<longleftrightarrow> set (kRemoved s0) \<subseteq> set (kRemoved s) \<and>
     (\<forall>i so. map_of (kObjects s0) i = Some so \<longrightarrow>
       map_of (kObjects s) i = Some so \<or> map_of (kObjects s) i = None \<and> i \<in> set (kRemoved s)) \<and>
     (\<forall>i. i \<in> set (kRemoved s0) \<and> map_of (kObjects s0) i = None \<longrightarrow> map_of (kObjects s) i = None)"

definition store_inv :: "cold_env \<Rightarrow> cold_state \<Rightarrow> cold_state \<Rightarrow> bool" where
  "store_inv env s0 s \<longleftrightarrow> intact env s \<and> evolves s0 s"

lemma unstepped_store: "unstepped (store_inv env s0)"
  by (simp add: unstepped_def store_inv_def intact_def evolves_def)

lemma map_of_without: "map_of (filter (\<lambda>e. fst e \<noteq> i) xs) j = (if j = i then None else map_of xs j)"
  by (induction xs) auto

text \<open>The set that is given up: it is fenced and what is kept does not depend on it.\<close>

definition given_up :: "string set \<Rightarrow> cold_state \<Rightarrow> bool" where
  "given_up ids s \<longleftrightarrow> ids \<subseteq> set (kRemoved s) \<and>
     (\<forall>j so. map_of (kObjects s) j = Some so \<and> j \<notin> ids \<longrightarrow> obParent (soManifest so) \<notin> ids)"

lemma given_up_rename:
  assumes "store_inv env s0 s" "given_up ids s" "i \<in> ids"
  shows "store_inv env s0 (s\<lparr>kObjects := filter (\<lambda>e. fst e \<noteq> i) (kObjects s)\<rparr>)"
    and "given_up ids (s\<lparr>kObjects := filter (\<lambda>e. fst e \<noteq> i) (kObjects s)\<rparr>)"
proof -
  have "intact env (s\<lparr>kObjects := filter (\<lambda>e. fst e \<noteq> i) (kObjects s)\<rparr>)"
    using assms unfolding store_inv_def intact_def given_up_def by (auto simp: map_of_without) blast
  moreover have "evolves s0 (s\<lparr>kObjects := filter (\<lambda>e. fst e \<noteq> i) (kObjects s)\<rparr>)"
    using assms unfolding store_inv_def evolves_def given_up_def by (auto simp: map_of_without)
  ultimately show "store_inv env s0 (s\<lparr>kObjects := filter (\<lambda>e. fst e \<noteq> i) (kObjects s)\<rparr>)"
    by (simp add: store_inv_def)
  show "given_up ids (s\<lparr>kObjects := filter (\<lambda>e. fst e \<noteq> i) (kObjects s)\<rparr>)"
    using assms(2) by (auto simp: given_up_def map_of_without)
qed

lemma store_record: "store_inv env s0 s \<Longrightarrow> store_inv env s0 (s\<lparr>kRemoved := List.insert i (kRemoved s)\<rparr>)"
  by (auto simp: store_inv_def intact_def evolves_def)

lemma store_deleting [simp]: "store_inv env s0 (s\<lparr>kDeleting := xs\<rparr>) = store_inv env s0 s"
  by (simp add: store_inv_def intact_def evolves_def)

lemma given_up_deleting [simp]: "given_up ids (s\<lparr>kDeleting := xs\<rparr>) = given_up ids s"
  by (simp add: given_up_def)

lemma store_publish:
  assumes "store_inv env s0 s" "obID ob \<notin> set (kRemoved s)" "map_of (kObjects s) (obID ob) = None" "verified env ob v"
    and "obParent ob = [] \<or> map_of (kObjects s) (obParent ob) \<noteq> None"
  shows "store_inv env s0 (s\<lparr>kObjects := (obID ob, \<lparr>soManifest = ob, soVolume = v\<rparr>) # kObjects s\<rparr>)"
proof -
  have "map_of (kObjects s0) (obID ob) = None"
    using assms(1-3) by (metis evolves_def not_None_eq store_inv_def)
  moreover have "obID ob \<notin> set (kRemoved s0)"
    using assms(1,2) by (auto simp: store_inv_def evolves_def)
  ultimately show ?thesis
    using assms unfolding store_inv_def intact_def evolves_def by auto
qed

subsection \<open>Operations\<close>

lemma keep_record: "keep (store_inv env s0) (deletionRecord w i)"
  unfolding deletionRecord_def by (intro keep_effect unstepped_store store_record)

lemma keep_recover: "keep (store_inv env s0) (recoverStages env' w)"
proof -
  have "keep (store_inv env s0) (recover_each w ids)" for ids
    by (induction ids) (auto intro!: keep_rules keep_record unstepped_store)
  then show ?thesis
    unfolding recoverStages_def by (intro keep_rules unstepped_store)
qed

lemma tr_not_deleted:
  assumes "unstepped P"
  shows "tr P (not_deleted w i) (\<lambda>_ s. P s \<and> i \<notin> set (kRemoved s)) P"
  unfolding not_deleted_def
  apply (rule tr_bind, rule tr_call [OF assms], assumption)
  apply (rule tr_bind, rule tr_look)
  apply (rule tr_if)
   apply (rule tr_fail, blast)
  by (rule tr_ret) blast

lemma tr_manifest:
  assumes "unstepped P"
  shows "tr P (manifest env w i) (\<lambda>so s. P s \<and> map_of (kObjects s) i = Some so) P"
  unfolding manifest_def
  apply (rule tr_bind, rule tr_call [OF assms], assumption)
  apply (rule tr_bind, rule tr_found, assumption)
  apply (rule tr_bind, rule tr_lift, blast)
  apply (rule tr_bind, rule tr_check, blast)
  by (rule tr_ret) blast

lemma tr_parent:
  assumes "unstepped P"
  shows "tr P (server_stat env w i) (\<lambda>_ s. P s \<and> map_of (kObjects s) i \<noteq> None) P"
proof -
  let ?Q = "\<lambda>so s. P s \<and> map_of (kObjects s) i = Some so"
  have u: "unstepped (?Q so)" for so
    using assms by (simp add: unstepped_def)
  show ?thesis
    unfolding server_stat_def
    apply (rule tr_bind [where Q = "\<lambda>_. P"], rule tr_post [OF tr_not_deleted [OF assms]], blast)
    apply (rule tr_bind [OF tr_manifest [OF assms]])
    subgoal for x so
      apply (rule tr_bind [where Q = "\<lambda>_. ?Q so"], rule keep_tr [OF keep_identity [OF u]], blast)
      by (rule tr_ret) auto
    done
qed

lemma keep_server_put: "keep (store_inv env s0) (server_put env w ob c)"
proof -
  let ?P = "\<lambda>s. store_inv env s0 s \<and> obID ob \<notin> set (kRemoved s)"
  let ?R = "\<lambda>s. ?P s \<and> (obParent ob = [] \<or> map_of (kObjects s) (obParent ob) \<noteq> None)"
  have u: "unstepped ?P" "unstepped ?R" "unstepped (store_inv env s0)"
    using unstepped_store [of env s0] by (simp_all add: unstepped_def)
  have parent: "tr ?P (if obParent ob \<noteq> [] then bindA (server_stat env w (obParent ob)) (\<lambda>_. retA ()) else retA ()) (\<lambda>_. ?R) (store_inv env s0)"
    apply (rule tr_if)
     apply (rule tr_bind [where Q = "\<lambda>_. ?R"], rule tr_conseq [OF tr_parent [OF u(1)]])
        apply (assumption | blast)+
     apply (rule tr_ret, blast)
    by (rule tr_ret) blast
  have publish: "tr ?R (publish_object env w ob v) (\<lambda>_. store_inv env s0) (store_inv env s0)" for v
    unfolding publish_object_def
    apply (rule tr_bind, rule tr_verifyDisk [OF u(2)], blast)
    apply (rule tr_bind, rule tr_call)
      apply (intro unstepped_conj unstepped_const u(2), blast)
    apply (rule tr_effect)
       apply (intro unstepped_conj unstepped_const u(2), blast)
    by (auto intro!: store_publish)
  show ?thesis
    unfolding keep_def server_put_def
    apply (rule tr_bind [OF tr_not_deleted [OF u(3)]])
    apply (rule tr_bind [where Q = "\<lambda>_. ?P"], rule keep_tr [OF keep_call [OF u(1)]], blast)
    apply (rule tr_bind [where Q = "\<lambda>_. ?P"], rule keep_tr [OF keep_look], blast)
    apply (rule tr_bind [where Q = "\<lambda>_. ?P"], rule keep_tr [OF keep_check], blast)
    apply (rule tr_bind [OF parent])
    apply (rule tr_bind [where Q = "\<lambda>_. ?R"], rule keep_tr [OF keep_call [OF u(2)]], blast)
    by (rule publish)
qed

text \<open>The objects under the names do not depend on the set, except those of the set itself.\<close>

definition independent :: "string set \<Rightarrow> string list \<Rightarrow> cold_state \<Rightarrow> bool" where
  "independent ids names s \<longleftrightarrow>
     (\<forall>j so. j \<in> set names \<and> map_of (kObjects s) j = Some so \<and> j \<notin> ids \<longrightarrow> obParent (soManifest so) \<notin> ids)"

lemma tr_unreferenced:
  "unstepped P \<Longrightarrow> tr P (unreferenced env w i names) (\<lambda>_ s. P s \<and> independent {i} names s) P"
proof (induction names arbitrary: P)
  case Nil
  then show ?case by (auto simp: independent_def intro!: tr_ret)
next
  case (Cons name names)
  let ?Q = "\<lambda>s. P s \<and> (\<forall>so. map_of (kObjects s) name = Some so \<longrightarrow> obParent (soManifest so) \<noteq> i)"
  have u: "unstepped ?Q"
    using Cons.prems by (simp add: unstepped_def)
  show ?case
    apply simp
    apply (rule tr_bind [where Q = "\<lambda>_. P"], rule keep_tr [OF keep_check], assumption)
    apply (rule tr_bind [OF tr_manifest [OF Cons.prems]])
    apply (rule tr_bind [where Q = "\<lambda>_. ?Q"], rule tr_post [OF tr_check], blast, force)
    by (rule tr_conseq [OF Cons.IH [OF u]]) (auto simp: independent_def)
qed

lemma tr_discard_present:
  "unstepped P \<Longrightarrow> tr P (discard_present env w ids names)
     (\<lambda>present s. P s \<and> set present \<subseteq> set ids \<and> independent (set ids) names s) P"
proof (induction names arbitrary: P)
  case Nil
  then show ?case by (auto simp: independent_def intro!: tr_ret)
next
  case (Cons name names)
  let ?Q = "\<lambda>s. P s \<and> (\<forall>so. map_of (kObjects s) name = Some so \<longrightarrow> obParent (soManifest so) \<notin> set ids)"
  have u: "unstepped ?Q"
    using Cons.prems by (simp add: unstepped_def)
  have kept: "tr P (bindA (manifest env w name) (\<lambda>so. bindA (checkK (obParent (soManifest so) \<in> set ids) m) (\<lambda>_.
      discard_present env w ids names))) (\<lambda>present s. P s \<and> set present \<subseteq> set ids \<and> independent (set ids) (name # names) s) P" for m
    apply (rule tr_bind [OF tr_manifest [OF Cons.prems]])
    apply (rule tr_bind [where Q = "\<lambda>_. ?Q"], rule tr_post [OF tr_check], blast, force)
    by (rule tr_conseq [OF Cons.IH [OF u]]) (auto simp: independent_def)
  have dropped: "name \<in> set ids \<Longrightarrow> tr P (bindA (callK w) (\<lambda>_. bindA (foundK (\<lambda>s. map_of (kObjects s) name)) (\<lambda>so.
      bindA (checkK (\<not> vlReadonly (soVolume so)) m) (\<lambda>_.
      bindA (discard_present env w ids names) (\<lambda>present. retA (name # present))))))
      (\<lambda>present s. P s \<and> set present \<subseteq> set ids \<and> independent (set ids) (name # names) s) P" for m
    apply (rule tr_bind [where Q = "\<lambda>_. P"], rule keep_tr [OF keep_call [OF Cons.prems]], assumption)
    apply (rule tr_bind [where Q = "\<lambda>_. P"], rule keep_tr [OF keep_found], assumption)
    apply (rule tr_bind [where Q = "\<lambda>_. P"], rule keep_tr [OF keep_check], assumption)
    apply (rule tr_bind [OF Cons.IH [OF Cons.prems]])
    by (rule tr_ret) (auto simp: independent_def)
  show ?case
    apply (simp only: discard_present.simps)
    apply (rule tr_bind [where Q = "\<lambda>_. P"], rule keep_tr [OF keep_check], assumption)
    apply (rule tr_if, rule kept)
    by (rule dropped) simp
qed

lemma independent_given_up:
  "independent ids (map fst (kObjects s)) s \<Longrightarrow> ids \<subseteq> set (kRemoved s) \<Longrightarrow> given_up ids s"
  unfolding independent_def given_up_def by (metis map_of_eq_None_iff image_set option.distinct(1))

definition fenced :: "cold_env \<Rightarrow> cold_state \<Rightarrow> string set \<Rightarrow> cold_state \<Rightarrow> bool" where
  "fenced env s0 ids s \<longleftrightarrow> store_inv env s0 s \<and> given_up ids s"

lemma unstepped_fenced: "unstepped (fenced env s0 ids)"
  using unstepped_store [of env s0] by (simp add: unstepped_def fenced_def given_up_def)

lemma tr_rename_deleting:
  "i \<in> ids \<Longrightarrow> tr (fenced env s0 ids) (rename_deleting w i)
     (\<lambda>_ s. fenced env s0 ids s \<and> map_of (kObjects s) i = None) (store_inv env s0)"
  unfolding rename_deleting_def
  by (rule tr_effect [OF unstepped_fenced]) (auto simp: fenced_def map_of_without given_up_rename)

lemma keep_fenced_recover: "keep (fenced env s0 ids) (recoverStages env' w)"
proof -
  have rec: "keep (fenced env s0 ids) (deletionRecord w i)" for i
    unfolding deletionRecord_def
    by (intro keep_effect unstepped_fenced) (auto simp: fenced_def given_up_def store_record)
  have "keep (fenced env s0 ids) (recover_each w is)" for "is"
    by (induction "is") (auto simp: fenced_def intro!: keep_rules rec [unfolded fenced_def] unstepped_fenced [unfolded fenced_def])
  then show ?thesis
    unfolding recoverStages_def by (intro keep_rules unstepped_fenced)
qed

text \<open>A deletion that succeeds has fenced the identifier and removed the object.\<close>

definition removed :: "string \<Rightarrow> cold_state \<Rightarrow> bool" where
  "removed i s \<longleftrightarrow> i \<in> set (kRemoved s) \<and> map_of (kObjects s) i = None"

lemma keep_removed: "keep (removed i) (recoverStages env w)"
proof -
  have u: "unstepped (removed i)"
    by (simp add: unstepped_def removed_def)
  have "keep (removed i) (recover_each w is)" for "is"
    by (induction "is") (auto simp: deletionRecord_def removed_def [abs_def] unstepped_def intro!: keep_rules)
  then show ?thesis
    unfolding recoverStages_def by (intro keep_rules u)
qed

lemma tr_server_delete:
  "tr (store_inv env s0) (server_delete env w i) (\<lambda>_ s. store_inv env s0 s \<and> removed i s) (store_inv env s0)"
proof -
  let ?S = "store_inv env s0"
  let ?N = "\<lambda>names s. ?S s \<and> map fst (kObjects s) = names"
  note u = unstepped_store [of env s0]
  have uN: "unstepped (?N names)" for names
    using u by (simp add: unstepped_def)
  have fencing: "tr (\<lambda>s. ?N names s \<and> independent {i} names s) (deletionRecord w i) (\<lambda>_. fenced env s0 {i}) ?S" for names
    unfolding deletionRecord_def
    apply (rule tr_effect)
    using u apply (simp add: unstepped_def independent_def)
      apply blast
    subgoal for a s
      using independent_given_up [of "{i}" "s\<lparr>kRemoved := List.insert i (kRemoved s)\<rparr>"]
      by (simp add: fenced_def store_record independent_def)
    by (blast intro: store_record)
  have absent: "tr (\<lambda>s. ?S s \<and> map_of (kObjects s) i = None) (deletionRecord w i) (\<lambda>_ s. ?S s \<and> removed i s) ?S"
    unfolding deletionRecord_def
    by (rule tr_effect) (use u in \<open>auto simp: unstepped_def removed_def intro: store_record\<close>)
  have finish: "tr (\<lambda>s. fenced env s0 {i} s \<and> map_of (kObjects s) i = None) (recoverStages env w) (\<lambda>_ s. ?S s \<and> removed i s) ?S"
    by (rule tr_conseq [OF tr_conj [OF keep_fenced_recover [unfolded keep_def] keep_removed [unfolded keep_def]]])
      (auto simp: fenced_def given_up_def removed_def)
  show ?thesis
    unfolding server_delete_def
    apply (rule tr_bind [where Q = "\<lambda>_. ?S"], rule keep_tr [OF keep_recover], assumption)
    apply (rule tr_bind [where Q = "\<lambda>_. ?S"], rule keep_tr [OF keep_call [OF u]], assumption)
    apply (rule tr_bind, rule tr_look)
    apply (rule tr_option)
     apply (rule tr_pre [OF absent], force)
    apply (rule tr_bind [where Q = "\<lambda>_. ?S"], rule tr_conseq [OF tr_manifest [OF u]])
       apply (assumption | blast)+
    apply (rule tr_bind [where Q = "\<lambda>_. ?S"], rule keep_tr [OF keep_identity [OF u]], assumption)
    apply (rule tr_bind [where Q = "\<lambda>_. ?S"], rule keep_tr [OF keep_call [OF u]], assumption)
    apply (rule tr_bind, rule tr_look)
    subgoal for a b c so d e f names
      apply (rule tr_bind [where Q = "\<lambda>_ s. ?N names s \<and> independent {i} names s"])
       apply (rule tr_conseq [OF tr_unreferenced [OF uN, of names]])
         apply (auto)[3]
      apply (rule tr_bind [where Q = "\<lambda>_ s. ?N names s \<and> independent {i} names s"], rule keep_tr [OF keep_call])
      using u apply (simp add: unstepped_def independent_def)
       apply blast
      apply (rule tr_bind [OF fencing])
      apply (rule tr_bind [OF tr_rename_deleting], simp)
      by (rule finish)
    done
qed

lemma keep_store_delete: "keep (store_inv env s0) (server_delete env w i)"
  unfolding keep_def by (rule tr_post [OF tr_server_delete]) blast

lemma keep_each: "(\<And>i. i \<in> set ids \<Longrightarrow> keep P (f i)) \<Longrightarrow> keep P (each_id f ids)"
  by (induction ids) (auto intro!: keep_rules)

lemma keep_store_with: "keep (store_inv env s0) m \<Longrightarrow> keep (store_inv env s0) (withServer env' w m)"
  unfolding withServer_def by (intro keep_rules keep_recover unstepped_store)

lemmas keep_store = keep_rules keep_store_with keep_stat keep_server_put keep_get keep_store_delete keep_recover unstepped_store

lemma keep_store_serve: "keep (store_inv env s0) (Serve env w r c)"
  unfolding Serve_def by (intro keep_store)

lemma keep_discard: "keep (store_inv env s0) (DiscardObjects env w ids)"
proof -
  let ?S = "store_inv env s0"
  let ?N = "\<lambda>names s. ?S s \<and> map fst (kObjects s) = names"
  note u = unstepped_store [of env s0]
  have uN: "unstepped (?N names)" for names
    using u by (simp add: unstepped_def)
  have fence: "tr (\<lambda>s. ?N names s \<and> independent (set ids) names s \<and> set done' \<subseteq> set (kRemoved s)) (each_id (deletionRecord w) is)
      (\<lambda>_ s. ?N names s \<and> independent (set ids) names s \<and> set (done' @ is) \<subseteq> set (kRemoved s)) ?S" for names done' "is"
  proof (induction "is" arbitrary: done')
    case Nil
    then show ?case by (auto intro: tr_ret)
  next
    case (Cons i "is")
    show ?case
      apply simp
      apply (rule tr_bind [where Q = "\<lambda>_ s. ?N names s \<and> independent (set ids) names s \<and> set (done' @ [i]) \<subseteq> set (kRemoved s)"])
      unfolding deletionRecord_def
       apply (rule tr_effect)
      using u apply (simp add: unstepped_def independent_def)
         apply blast
        apply (auto simp: store_record independent_def)[2]
      by (rule tr_conseq [OF Cons.IH [of "done' @ [i]", unfolded deletionRecord_def]]) auto
  qed
  have rename: "set present \<subseteq> set ids \<Longrightarrow> tr (fenced env s0 (set ids)) (each_id (rename_deleting w) present)
      (\<lambda>_. fenced env s0 (set ids)) ?S" for present
  proof (induction present)
    case (Cons i present)
    then show ?case
      by (auto intro!: tr_bind [where Q = "\<lambda>_. fenced env s0 (set ids)"] tr_post [OF tr_rename_deleting])
  qed (auto simp: fenced_def intro: tr_ret)
  have "tr ?S (bindA (callK w) (\<lambda>_. bindA (lookK (\<lambda>s. map fst (kObjects s))) (\<lambda>names.
      bindA (discard_present env w ids names) (\<lambda>present. bindA (each_id (deletionRecord w) ids) (\<lambda>_.
      bindA (each_id (rename_deleting w) present) (\<lambda>_. recoverStages env w)))))) (\<lambda>_. ?S) ?S"
    apply (rule tr_bind [where Q = "\<lambda>_. ?S"], rule keep_tr [OF keep_call [OF u]], assumption)
    apply (rule tr_bind, rule tr_look)
    subgoal for a names
      apply (rule tr_bind [where Q = "\<lambda>present s. ?N names s \<and> set present \<subseteq> set ids \<and> independent (set ids) names s"])
       apply (rule tr_conseq [OF tr_discard_present [OF uN, of names]])
         apply (auto)[3]
      subgoal for present
        apply (rule tr_fact [where b = "set present \<subseteq> set ids"], blast)
        apply (rule tr_bind [where Q = "\<lambda>_. fenced env s0 (set ids)"], rule tr_conseq [OF fence [of names "[]" ids]])
           apply (auto simp: fenced_def intro: independent_given_up)[3]
        apply (rule tr_bind [OF rename], assumption)
        by (rule tr_conseq [OF keep_fenced_recover [unfolded keep_def]]) (auto simp: fenced_def)
      done
    done
  then show ?thesis
    unfolding DiscardObjects_def
    by (intro keep_bind [OF keep_check] keep_store_with) (simp add: keep_def)
qed

lemma store_step_inv: "store_inv env s0 s \<Longrightarrow> store_inv env s0 (store_step env call s)"
proof (cases call)
  case (Pair w c)
  show "store_inv env s0 s \<Longrightarrow> store_inv env s0 (store_step env call s)"
  proof (cases c)
    case (ReceiveCall ob d)
    have "keep (store_inv env s0) (Receive env w ob d)"
      unfolding Receive_def by (intro keep_store)
    with Pair ReceiveCall show "store_inv env s0 s \<Longrightarrow> ?thesis"
      by (simp add: keep_final)
  next
    case (LocalStatCall i)
    have "keep (store_inv env s0) (LocalStat env w i)"
      unfolding LocalStat_def by (intro keep_store)
    with Pair LocalStatCall show "store_inv env s0 s \<Longrightarrow> ?thesis"
      by (simp add: keep_final)
  next
    case (RemoveCall i)
    have "keep (store_inv env s0) (Remove env w i)"
      unfolding Remove_def by (intro keep_store)
    with Pair RemoveCall show "store_inv env s0 s \<Longrightarrow> ?thesis"
      by (simp add: keep_final)
  qed (simp_all add: Pair keep_final keep_store_serve keep_discard)
qed

lemma store_runs_inv: "store_inv env s0 s \<Longrightarrow> store_inv env s0 (store_runs env calls s)"
  unfolding store_runs_def by (induction calls arbitrary: s) (simp_all add: store_step_inv)

lemma evolves_refl: "intact env s \<Longrightarrow> store_inv env s s"
  by (auto simp: store_inv_def evolves_def)

lemma store_runs_intact: "intact env (store_runs env calls (s\<lparr>kObjects := []\<rparr>))"
  using store_runs_inv [OF evolves_refl, of env "s\<lparr>kObjects := []\<rparr>" calls] by (simp add: store_inv_def intact_def)

lemma delete_removes:
  assumes "intact env s" "crOperation r = ''delete''" "Serve env w r c s = (Inr reply, s')"
  shows "removed (obID (crObject r)) s'"
proof -
  have "tr (store_inv env s) (Serve env w r c) (\<lambda>_. removed (obID (crObject r))) (store_inv env s)"
    unfolding Serve_def withServer_def assms(2)
    apply (rule tr_bind [where Q = "\<lambda>_. store_inv env s"], rule keep_tr [OF keep_lift], assumption)
    apply (rule tr_bind [where Q = "\<lambda>_. store_inv env s"], rule keep_tr [OF keep_call [OF unstepped_store]], assumption)
    apply (rule tr_bind [where Q = "\<lambda>_. store_inv env s"], rule keep_tr [OF keep_recover], assumption)
    apply simp
    apply (rule tr_bind [OF tr_server_delete])
    by (rule tr_ret) blast
  from tr_run_result [OF this evolves_refl [OF assms(1)] assms(3)] show ?thesis .
qed

subsection \<open>The property\<close>

text \<open>C10. A store that starts empty, after any requests and local operations with any failures: every object is stored
  under its identifier with the size and the digest of its manifest, and one that can be fetched has its parent
  in the store. Whatever comes later, an object stays as it is until it is removed and its identifier fenced; a
  deletion that succeeds removes and fences; and a fenced identifier that is gone never comes back.\<close>

theorem cold_store_immutable:
  assumes "s0 = store_runs env before (s\<lparr>kObjects := []\<rparr>)" and "s1 = store_runs env later s0"
  shows "(\<forall>i so. map_of (kObjects s0) i = Some so \<longrightarrow>
      obID (soManifest so) = i \<and> verified env (soManifest so) (soVolume so) \<and>
      (i \<notin> set (kRemoved s0) \<longrightarrow> obParent (soManifest so) = [] \<or> map_of (kObjects s0) (obParent (soManifest so)) \<noteq> None) \<and>
      (map_of (kObjects s1) i = Some so \<or> map_of (kObjects s1) i = None \<and> i \<in> set (kRemoved s1))) \<and>
    (\<forall>w r c reply s'. crOperation r = ''delete'' \<and> Serve env w r c s0 = (Inr reply, s') \<longrightarrow>
      map_of (kObjects s') (obID (crObject r)) = None \<and> obID (crObject r) \<in> set (kRemoved s')) \<and>
    (\<forall>i. i \<in> set (kRemoved s0) \<and> map_of (kObjects s0) i = None \<longrightarrow>
      i \<in> set (kRemoved s1) \<and> map_of (kObjects s1) i = None)"
proof -
  have intact: "intact env s0"
    unfolding assms(1) by (rule store_runs_intact)
  then have "evolves s0 s1"
    unfolding assms(2) using store_runs_inv [OF evolves_refl [OF intact]] by (simp add: store_inv_def)
  moreover have "removed (obID (crObject r)) s'" if "crOperation r = ''delete''" "Serve env w r c s0 = (Inr reply, s')" for w r c reply s'
    by (rule delete_removes [OF intact that])
  ultimately show ?thesis
    using intact unfolding intact_def evolves_def removed_def by blast
qed

definition cx_object :: Object where
  "cx_object = \<lparr>obID = ''o'', obUUID = ''u'', obSHA256 = ''abc'' @ replicate 61 (CHR ''0''), obSize = 3, obParent = []\<rparr>"

definition cx_put :: "cold_world \<times> store_call" where
  "cx_put = (cx_world, ServeCall \<lparr>crOperation = ''put'', crObject = cx_object, crParent = [], crCompression = ''zstd''\<rparr> ''abc'')"

definition cx_delete :: "cold_world \<times> store_call" where
  "cx_delete = (cx_world, ServeCall \<lparr>crOperation = ''delete'', crObject = bare_object ''o'', crParent = [], crCompression = []\<rparr> [])"

lemmas cx_store_eval = cold_eval cx_identity_def cx_world_def cx_values cx_hash cx_hex [simplified] cx_put_def cx_delete_def cx_object_def
  cx_start_def server_delete_def deletionRecord_def rename_deleting_def

lemma cx_stored:
  "kObjects (store_runs cx_env [cx_put] cx_start) = [(''o'', \<lparr>soManifest = cx_object,
     soVolume = \<lparr>vlIdentity = cx_identity, vlContent = ''abc'', vlReadonly = True\<rparr>\<rparr>)]"
  by (simp add: store_runs_def cx_store_eval cong: cold_weak)

lemma cx_deleted:
  "kObjects (store_runs cx_env [cx_put, cx_delete] cx_start) = []" "kRemoved (store_runs cx_env [cx_put, cx_delete] cx_start) = [''o'']"
  by (simp_all add: store_runs_def cx_store_eval cong: cold_weak)

theorem cold_store_immutable_witness:
  "map_of (kObjects (store_runs cx_env [cx_put] cx_start)) ''o'' \<noteq> None \<and>
   map_of (kObjects (store_runs cx_env [cx_put] (store_runs cx_env [cx_put, cx_delete] cx_start))) ''o'' = None"
proof -
  have start: "cx_start = cx_start\<lparr>kObjects := []\<rparr>"
    by (simp add: cx_start_def)
  show ?thesis
    using cold_store_immutable [of "store_runs cx_env [cx_put, cx_delete] cx_start" cx_env "[cx_put, cx_delete]" cx_start
        "store_runs cx_env [cx_put] (store_runs cx_env [cx_put, cx_delete] cx_start)" "[cx_put]"] start
    by (simp add: cx_stored cx_deleted)
qed

end
