(* ===== verification/RamState.thy ===== *)
theory RamState
  imports Receipts Triples
begin

section \<open>Saved memory of suspended machines\<close>

text \<open>
  src/internal/vmrunner/ram_state.go: a stop can save the memory of a machine, and the next start resumes it.
  An image belongs to one incarnation and one stopped attempt and to the disk as it was when the machine was
  paused; it is used at most once.

  The state is what is on the host under one name: the published image with its manifest, the two stages inside
  the jail, the process, the disk, which is a version that every change replaces by a later one, and the receipts
  of theory \<open>Receipts\<close>. Captures are numbered; \<open>rhCaptures\<close> and \<open>rhLoads\<close> record for the proofs which version of the
  disk a capture saw and which captures were loaded with which version. Every call takes an answer from an
  arbitrary sequence and may fail before its effect or after it.
\<close>

record ram_host =
  rhImage :: "(ramState \<times> nat) option"
  rhSave :: "(nat option \<times> ramState option) option"
  rhResume :: "nat option"
  rhPaused :: bool
  rhDisk :: nat
  rhReceipts :: receipt_dir
  rhCaptures :: "nat list"
  rhLoads :: "(nat \<times> nat) list"
  rhStep :: nat

record ram_answer =
  raErr :: "error option"
  raLate :: "error option"
  raOutput :: string
  raMemoryMiB :: int64
  raBavail :: nat
  raBsize :: int64

type_synonym ram_world = "nat \<Rightarrow> ram_answer"
type_synonym 'a ram_act = "('a, ram_host) act"

text \<open>\<open>reStamp\<close>: inode, size and modification time of a version of the disk.\<close>

record ram_env =
  reCodec :: codec
  reStamp :: "nat \<Rightarrow> string"

subsection \<open>Calls\<close>

definition callM :: "ram_world \<Rightarrow> ram_answer ram_act" where
  "callM w s =
     (let a = w (rhStep s); s' = s\<lparr>rhStep := Suc (rhStep s)\<rparr> in
      case raErr a of Some e \<Rightarrow> (Inl e, s') | None \<Rightarrow> (Inr a, s'))"

definition effectM :: "ram_world \<Rightarrow> (ram_host \<Rightarrow> ram_host) \<Rightarrow> unit ram_act" where
  "effectM w f = bindA (callM w) (\<lambda>a s. ((case raLate a of Some e \<Rightarrow> Inl e | None \<Rightarrow> Inr ()), f s))"

subsection \<open>The manifest\<close>

definition readRAMState :: "ram_world \<Rightarrow> string \<Rightarrow> (ramState \<times> nat) option ram_act" where
  "readRAMState w name =
     bindA (callM w) (\<lambda>_.
     bindA (lookK rhImage) (\<lambda>image. case image of
       None \<Rightarrow> retA None
     | Some (state, n) \<Rightarrow>
       bindA (checkK (sqName (rsAttempt state) \<noteq> name \<or> isl (StartResultRequest_Validate (rsAttempt state)) \<or> rsConfig state = [])
         ''invalid RAM state identity'') (\<lambda>_. retA (Some (state, n)))))"

definition discardRAMState :: "ram_world \<Rightarrow> unit ram_act" where
  "discardRAMState w =
     bindA (callM w) (\<lambda>_.
     bindA (lookK rhImage) (\<lambda>image. case image of
       None \<Rightarrow> retA ()
     | Some _ \<Rightarrow> bindA (callM w) (\<lambda>_. effectM w (\<lambda>s. s\<lparr>rhImage := None\<rparr>))))"

definition stampFile :: "ram_env \<Rightarrow> ram_world \<Rightarrow> string ram_act" where
  "stampFile re w = bindA (callM w) (\<lambda>_. bindA (lookK rhDisk) (\<lambda>d. retA (reStamp re d)))"

text \<open>The output of \<open>--snapshot-version\<close>: the first line is \<open>v<number>.<number>.<number>\<close>.\<close>

definition version_part :: "string \<Rightarrow> bool" where
  "version_part s \<longleftrightarrow> s \<noteq> [] \<and> list_all is_digit s"

definition snapshotVersionOutput :: "string \<Rightarrow> bool" where
  "snapshotVersionOutput s =
     (case s of
       [] \<Rightarrow> False
     | c # rest \<Rightarrow> c = CHR ''v'' \<and>
       (let a = takeWhile (\<lambda>c. c \<noteq> CHR ''.'') rest; r1 = dropWhile (\<lambda>c. c \<noteq> CHR ''.'') rest;
            b = takeWhile (\<lambda>c. c \<noteq> CHR ''.'') (tl r1); r2 = dropWhile (\<lambda>c. c \<noteq> CHR ''.'') (tl r1)
        in r1 \<noteq> [] \<and> r2 \<noteq> [] \<and> version_part a \<and> version_part b \<and> version_part (tl r2)))"

definition ramSnapshotVersion :: "ram_world \<Rightarrow> string ram_act" where
  "ramSnapshotVersion w =
     bindA (callM w) (\<lambda>a.
     let version = TrimSpace (takeWhile (\<lambda>c. c \<noteq> CHR ''\<newline>'') (raOutput a)) in
     bindA (checkK (\<not> snapshotVersionOutput version) ''invalid Firecracker snapshot format output'') (\<lambda>_. retA version))"

subsection \<open>Saving\<close>

definition miBBytes :: nat where "miBBytes = 1048576"

text \<open>The memory and 256 MiB must fit; the products are computed in 64 bits.\<close>

definition enough_space :: "ram_answer \<Rightarrow> ram_answer \<Rightarrow> bool" where
  "enough_space m a \<longleftrightarrow> \<not> (raMemoryMiB m \<le> 0 \<or>
     (raMemoryMiB m + 256) mod 2 ^ 64 * int miBBytes mod 2 ^ 64 > int (raBavail a) * (raBsize a mod 2 ^ 64) mod 2 ^ 64)"

definition capture :: "ram_world \<Rightarrow> unit ram_act" where
  "capture w =
     effectM w (\<lambda>s. s\<lparr>rhSave := Some (Some (length (rhCaptures s)), None), rhCaptures := rhCaptures s @ [rhDisk s]\<rparr>)"

definition write_manifest :: "ram_world \<Rightarrow> ramState \<Rightarrow> unit ram_act" where
  "write_manifest w state =
     effectM w (\<lambda>s. s\<lparr>rhSave := (case rhSave s of None \<Rightarrow> None | Some (n, _) \<Rightarrow> Some (n, Some state))\<rparr>)"

text \<open>The rename of the stage; the image is published only with its capture and its manifest.\<close>

definition publish_image :: "ram_world \<Rightarrow> unit ram_act" where
  "publish_image w =
     bindA (foundK rhSave) (\<lambda>_.
     effectM w (\<lambda>s. case (rhImage s, rhSave s) of
       (None, Some (Some n, Some state)) \<Rightarrow> s\<lparr>rhImage := Some (state, n), rhSave := None\<rparr>
     | _ \<Rightarrow> s))"

definition new_image :: "ram_env \<Rightarrow> ram_world \<Rightarrow> startReceipt \<Rightarrow> unit ram_act" where
  "new_image re w r =
     bindA (callM w) (\<lambda>_.
     bindA (callM w) (\<lambda>m.
     bindA (effectM w (\<lambda>s. s\<lparr>rhSave := None\<rparr>)) (\<lambda>_.
     bindA (effectM w (\<lambda>s. s\<lparr>rhSave := Some (None, None)\<rparr>)) (\<lambda>_.
     bindA (callM w) (\<lambda>_.
     bindA (callM w) (\<lambda>a.
     bindA (checkK (\<not> enough_space m a) ''insufficient disk space for full RAM state plus 256 MiB headroom'') (\<lambda>_.
     bindA (callM w) (\<lambda>_.
     bindA (ramSnapshotVersion w) (\<lambda>version.
     bindA (callM w) (\<lambda>_.
     bindA (effectM w (\<lambda>s. s\<lparr>rhPaused := True\<rparr>)) (\<lambda>_.
     bindA (capture w) (\<lambda>_.
     bindA (stampFile re w) (\<lambda>disk.
     bindA (callM w) (\<lambda>_.
     bindA (write_manifest w \<lparr>rsAttempt = rcAttempt r, rsConfig = rcResumeConfig r, rsDisk = disk, rsSnapshotVersion = version\<rparr>) (\<lambda>_.
     bindA (publish_image w) (\<lambda>_.
     bindA (callM w) (\<lambda>_. retA ())))))))))))))))))"

definition saveRAMState :: "ram_env \<Rightarrow> ram_world \<Rightarrow> startReceipt \<Rightarrow> unit ram_act" where
  "saveRAMState re w r =
     bindA (checkK (rcResumeConfig r = []) ''VM predates RAM-state support; cold-start it before suspending'') (\<lambda>_.
     bindA (readRAMState w (sqName (rcAttempt r))) (\<lambda>image. case image of
       Some (state, _) \<Rightarrow>
         bindA (checkK (rsAttempt state \<noteq> rcAttempt r) ''RAM state belongs to another attempt'') (\<lambda>_.
         bindA (callM w) (\<lambda>_. retA ()))
     | None \<Rightarrow> new_image re w r))"

subsection \<open>Resuming\<close>

definition check_saved :: "ram_env \<Rightarrow> ram_world \<Rightarrow> StartRequest \<Rightarrow> ramState option ram_act" where
  "check_saved re w req =
     (let discard = bindA (discardRAMState w) (\<lambda>_. retA None) in
      if srqDiscardState req then discard
      else
        bindA (readRAMState w (srqName req)) (\<lambda>image. case image of
          None \<Rightarrow> retA None
        | Some (state, _) \<Rightarrow>
          bindA (checkK (sqInstanceID (rsAttempt state) \<noteq> srqInstanceID req \<or> rsConfig state \<noteq> resumeConfig (reCodec re) req)
            ''RAM state does not match VM configuration; use start --discard-state'') (\<lambda>_.
          bindA (callM w) (\<lambda>_.
          bindA (lookK rhReceipts) (\<lambda>dir.
          bindA (liftR (readReceipt (reCodec re) (rsAttempt state) dir)) (\<lambda>r.
          bindA (checkK (case r of None \<Rightarrow> True | Some r \<Rightarrow> rcState r \<noteq> ''closed'' \<or> \<not> rcSaveState r)
            ''RAM state source has not finished stopping'') (\<lambda>_.
          bindA (stampFile re w) (\<lambda>disk.
          bindA (checkK (disk \<noteq> rsDisk state) ''disk changed since suspend; use start --discard-state'') (\<lambda>_.
          if rsSnapshotVersion state = [] then discard
          else
            bindA (callM w) (\<lambda>_.
            bindA (ramSnapshotVersion w) (\<lambda>version.
            if version \<noteq> rsSnapshotVersion state then discard else retA (Some state))))))))))))"

text \<open>The image is moved into the jail before the machine exists; then the load, and the stage is removed.\<close>

definition configureRAMRestore :: "ram_world \<Rightarrow> unit ram_act" where
  "configureRAMRestore w =
     bindA (callM w) (\<lambda>_.
     bindA (foundK rhImage) (\<lambda>_.
     bindA (lookK rhResume) (\<lambda>old.
     bindA (checkK (old \<noteq> None) ''file exists'') (\<lambda>_.
     bindA (effectM w (\<lambda>s. case rhImage s of None \<Rightarrow> s | Some (_, n) \<Rightarrow> s\<lparr>rhResume := Some n, rhImage := None\<rparr>)) (\<lambda>_.
     bindA (callM w) (\<lambda>_. retA ()))))))"

definition LoadRAMState :: "ram_world \<Rightarrow> unit ram_act" where
  "LoadRAMState w =
     bindA (foundK rhResume) (\<lambda>n.
     bindA (effectM w (\<lambda>s. s\<lparr>rhLoads := (n, rhDisk s) # rhLoads s\<rparr>)) (\<lambda>_.
     bindA (effectM w (\<lambda>s. s\<lparr>rhResume := None\<rparr>)) (\<lambda>_.
     bindA (callM w) (\<lambda>_. retA ()))))"

text \<open>What a start does with the image: the check, the removal of the old jail, the restore and the load while the
  machine starts. A start that fails before the machine is launched removes the jail again.\<close>

definition clear_jail :: "ram_world \<Rightarrow> unit ram_act" where
  "clear_jail w = effectM w (\<lambda>s. s\<lparr>rhSave := None, rhResume := None\<rparr>)"

definition launch_machine :: "ram_world \<Rightarrow> ramState option \<Rightarrow> unit ram_act" where
  "launch_machine w resume =
     bindA (callM w) (\<lambda>_.
     bindA (if resume \<noteq> None then LoadRAMState w else retA ()) (\<lambda>_.
     effectM w (\<lambda>s. s\<lparr>rhPaused := False\<rparr>)))"

definition startVM_saved :: "ram_env \<Rightarrow> ram_world \<Rightarrow> StartRequest \<Rightarrow> unit ram_act" where
  "startVM_saved re w req =
     bindA (callM w) (\<lambda>_.
     bindA (check_saved re w req) (\<lambda>resume.
     bindA (clear_jail w) (\<lambda>_.
     bindA (tryA (bindA (callM w) (\<lambda>_. if resume \<noteq> None then configureRAMRestore w else retA ()))) (\<lambda>x. case x of
       Inl e \<Rightarrow> bindA (tryA (clear_jail w)) (\<lambda>_. failA e)
     | Inr _ \<Rightarrow> launch_machine w resume))))"

end
