(* ===== verification/RamProofs.thy ===== *)
theory RamProofs
  imports RamState
begin

section \<open>Saved memory is used once and with its own disk\<close>

text \<open>
  However saving and starting are interrupted and repeated, no capture of a machine's memory is loaded twice, and
  each is loaded with the version of the disk that it was captured with.
\<close>

subsection \<open>Calls\<close>

definition unmoved :: "(ram_host \<Rightarrow> bool) \<Rightarrow> bool" where
  "unmoved P \<longleftrightarrow> (\<forall>s n. P (s\<lparr>rhStep := n\<rparr>) = P s)"

lemma tr_callM: "unmoved P \<Longrightarrow> (\<And>s. P s \<Longrightarrow> I s) \<Longrightarrow> tr P (callM w) (\<lambda>_. P) I"
  by (auto simp: tr_def wp_def callM_def Let_def unmoved_def split: option.split)

lemma tr_effectM:
  assumes "unmoved P" "\<And>s. P s \<Longrightarrow> I s" "\<And>s. P s \<Longrightarrow> Q () (f s)" "\<And>s. P s \<Longrightarrow> I (f s)"
  shows "tr P (effectM w f) Q I"
  unfolding effectM_def
proof (rule tr_bind [OF tr_callM [OF assms(1,2)]])
  fix a show "tr P (\<lambda>s. ((case raLate a of Some e \<Rightarrow> Inl e | None \<Rightarrow> Inr ()), f s)) Q I"
    using assms(3,4) by (auto simp: tr_def wp_def split: option.split)
qed

lemma keep_callM: "unmoved P \<Longrightarrow> keep P (callM w)"
  unfolding keep_def by (rule tr_callM)

lemma keep_effectM: "unmoved P \<Longrightarrow> (\<And>s. P s \<Longrightarrow> P (f s)) \<Longrightarrow> keep P (effectM w f)"
  unfolding keep_def by (rule tr_effectM)

lemmas keep_ram = keep_basic keep_callM keep_effectM

subsection \<open>The invariant\<close>

text \<open>The numbers of the captures that are on the host, the published one first.\<close>

definition held :: "ram_host \<Rightarrow> nat list" where
  "held s = (case rhImage s of None \<Rightarrow> [] | Some (_, n) \<Rightarrow> [n]) @
     (case rhSave s of Some (Some n, _) \<Rightarrow> [n] | _ \<Rightarrow> []) @ (case rhResume s of None \<Rightarrow> [] | Some n \<Rightarrow> [n])"

definition loads_ok :: "nat list \<Rightarrow> (nat \<times> nat) list \<Rightarrow> bool" where
  "loads_ok caps loads \<longleftrightarrow> distinct (map fst loads) \<and> (\<forall>x \<in> set loads. fst x < length caps \<and> snd x = caps ! fst x)"

definition usable :: "ram_env \<Rightarrow> nat list \<Rightarrow> (nat \<times> nat) list \<Rightarrow> nat \<Rightarrow> ramState option \<Rightarrow> bool" where
  "usable re caps loads n m \<longleftrightarrow> n < length caps \<and> n \<notin> fst ` set loads \<and>
     (case m of None \<Rightarrow> True | Some st \<Rightarrow> rsDisk st = reStamp re (caps ! n))"

definition ram_inv :: "ram_env \<Rightarrow> ram_host \<Rightarrow> bool" where
  "ram_inv re s \<longleftrightarrow> loads_ok (rhCaptures s) (rhLoads s) \<and> distinct (held s) \<and> (\<forall>n \<in> set (held s). n < length (rhCaptures s)) \<and>
     (case rhImage s of None \<Rightarrow> True | Some (st, n) \<Rightarrow> usable re (rhCaptures s) (rhLoads s) n (Some st)) \<and>
     (case rhSave s of Some (Some n, m) \<Rightarrow> usable re (rhCaptures s) (rhLoads s) n m | _ \<Rightarrow> True)"

lemma unmoved_inv: "unmoved (ram_inv re)"
  by (auto simp: unmoved_def ram_inv_def held_def split: option.splits)

lemma unmoved_conj: "unmoved P \<Longrightarrow> unmoved Q \<Longrightarrow> unmoved (\<lambda>s. P s \<and> Q s)"
  by (simp add: unmoved_def)

lemma inv_drop:
  "ram_inv re s \<Longrightarrow> ram_inv re (s\<lparr>rhImage := None\<rparr>)" "ram_inv re s \<Longrightarrow> ram_inv re (s\<lparr>rhSave := None\<rparr>)"
  "ram_inv re s \<Longrightarrow> ram_inv re (s\<lparr>rhSave := Some (None, m)\<rparr>)" "ram_inv re s \<Longrightarrow> ram_inv re (s\<lparr>rhResume := None\<rparr>)"
  "ram_inv re s \<Longrightarrow> ram_inv re (s\<lparr>rhSave := None, rhResume := None\<rparr>)" "ram_inv re s \<Longrightarrow> ram_inv re (s\<lparr>rhPaused := b\<rparr>)"
  "ram_inv re s \<Longrightarrow> ram_inv re (s\<lparr>rhDisk := d\<rparr>)" "ram_inv re s \<Longrightarrow> ram_inv re (s\<lparr>rhReceipts := dir\<rparr>)"
  by (auto simp: ram_inv_def held_def split: option.splits)

subsection \<open>Saving\<close>

definition captured :: "ram_env \<Rightarrow> ram_host \<Rightarrow> bool" where
  "captured re s \<longleftrightarrow> ram_inv re s \<and> (\<exists>n m. rhSave s = Some (Some n, m) \<and> rhCaptures s ! n = rhDisk s)"

lemma unmoved_captured: "unmoved (captured re)"
  using unmoved_inv [of re] by (simp add: unmoved_def captured_def)

lemma captured_inv: "captured re s \<Longrightarrow> ram_inv re s"
  by (simp add: captured_def)

lemma capture_step:
  "ram_inv re s \<Longrightarrow> captured re (s\<lparr>rhSave := Some (Some (length (rhCaptures s)), None), rhCaptures := rhCaptures s @ [rhDisk s]\<rparr>)"
  by (auto simp: captured_def ram_inv_def held_def loads_ok_def usable_def nth_append split: option.splits)

lemma manifest_step:
  "captured re s \<Longrightarrow> rsDisk state = reStamp re (rhDisk s) \<Longrightarrow>
    ram_inv re (s\<lparr>rhSave := (case rhSave s of None \<Rightarrow> None | Some (n, _) \<Rightarrow> Some (n, Some state))\<rparr>)"
  by (auto simp: captured_def ram_inv_def held_def usable_def split: option.splits)

lemma publish_step:
  "ram_inv re s \<Longrightarrow> ram_inv re (case (rhImage s, rhSave s) of
     (None, Some (Some n, Some state)) \<Rightarrow> s\<lparr>rhImage := Some (state, n), rhSave := None\<rparr> | _ \<Rightarrow> s)"
  by (auto simp: ram_inv_def held_def split: option.splits)

lemma keep_version: "unmoved P \<Longrightarrow> keep P (ramSnapshotVersion w)"
  unfolding ramSnapshotVersion_def Let_def by (intro keep_ram)

lemma keep_read: "unmoved P \<Longrightarrow> keep P (readRAMState w name)"
  unfolding readRAMState_def by (intro keep_ram)

lemma tr_stamp: "unmoved P \<Longrightarrow> (\<And>s. P s \<Longrightarrow> I s) \<Longrightarrow> tr P (stampFile re w) (\<lambda>x s. P s \<and> x = reStamp re (rhDisk s)) I"
  unfolding stampFile_def
  apply (rule tr_bind, rule tr_callM, assumption, assumption)
  apply (rule tr_bind, rule tr_look)
  by (rule tr_ret) blast

lemma keep_new_image: "keep (ram_inv re) (new_image re w r)"
proof -
  note u = unmoved_inv [of re]
  have finish: "tr (ram_inv re) (bindA (publish_image w) (\<lambda>_. bindA (callM w) (\<lambda>_. retA ()))) (\<lambda>_. ram_inv re) (ram_inv re)"
    unfolding keep_def [symmetric] publish_image_def by (intro keep_ram u publish_step)
  have manifest: "tr (\<lambda>s. captured re s \<and> rsDisk state = reStamp re (rhDisk s)) (write_manifest w state) (\<lambda>_. ram_inv re) (ram_inv re)" for state
    unfolding write_manifest_def
    apply (rule tr_effectM)
    using unmoved_captured [of re] apply (simp add: unmoved_def)
    by (blast intro: captured_inv manifest_step)+
  have snap: "tr (ram_inv re) (capture w) (\<lambda>_. captured re) (ram_inv re)"
    unfolding capture_def by (rule tr_effectM [OF u]) (blast intro: capture_step captured_inv)+
  show ?thesis
    unfolding keep_def new_image_def
    apply (rule tr_bind [where Q = "\<lambda>_. ram_inv re"], rule keep_tr [OF keep_callM [OF u]], assumption)
    apply (rule tr_bind [where Q = "\<lambda>_. ram_inv re"], rule keep_tr [OF keep_callM [OF u]], assumption)
    apply (rule tr_bind [where Q = "\<lambda>_. ram_inv re"], rule tr_effectM [OF u], assumption, (erule inv_drop)+)
    apply (rule tr_bind [where Q = "\<lambda>_. ram_inv re"], rule tr_effectM [OF u], assumption, (erule inv_drop)+)
    apply (rule tr_bind [where Q = "\<lambda>_. ram_inv re"], rule keep_tr [OF keep_callM [OF u]], assumption)
    apply (rule tr_bind [where Q = "\<lambda>_. ram_inv re"], rule keep_tr [OF keep_callM [OF u]], assumption)
    apply (rule tr_bind [where Q = "\<lambda>_. ram_inv re"], rule keep_tr [OF keep_check], assumption)
    apply (rule tr_bind [where Q = "\<lambda>_. ram_inv re"], rule keep_tr [OF keep_callM [OF u]], assumption)
    apply (rule tr_bind [where Q = "\<lambda>_. ram_inv re"], rule keep_tr [OF keep_version [OF u]], assumption)
    apply (rule tr_bind [where Q = "\<lambda>_. ram_inv re"], rule keep_tr [OF keep_callM [OF u]], assumption)
    apply (rule tr_bind [where Q = "\<lambda>_. ram_inv re"], rule tr_effectM [OF u], assumption, (erule inv_drop)+)
    apply (rule tr_bind [OF snap])
    apply (rule tr_bind, rule tr_stamp [OF unmoved_captured captured_inv], assumption)
    subgoal for a m b c d space e f version g h i disk
      apply (rule tr_bind [where Q = "\<lambda>_ s. captured re s \<and> disk = reStamp re (rhDisk s)"], rule keep_tr [OF keep_callM])
      using unmoved_captured [of re] apply (simp add: unmoved_def)
       apply (blast intro: captured_inv)
      apply (rule tr_bind [where Q = "\<lambda>_. ram_inv re"], rule tr_pre [OF manifest], simp)
      by (rule finish)
    done
qed

lemma keep_saveRAMState: "keep (ram_inv re) (saveRAMState re w r)"
  unfolding saveRAMState_def by (intro keep_ram keep_read keep_new_image unmoved_inv)

lemma keep_discardRAMState: "keep (ram_inv re) (discardRAMState w)"
  unfolding discardRAMState_def by (intro keep_ram unmoved_inv inv_drop)

subsection \<open>Starting\<close>

text \<open>The image that a start may resume, seen from the state in which the start began.\<close>

definition resumable :: "ram_env \<Rightarrow> StartRequest \<Rightarrow> ram_host \<Rightarrow> ramState \<Rightarrow> bool" where
  "resumable re req s st \<longleftrightarrow> \<not> srqDiscardState req \<and> sqInstanceID (rsAttempt st) = srqInstanceID req \<and>
     rsConfig st = resumeConfig (reCodec re) req \<and> rsDisk st = reStamp re (rhDisk s) \<and>
     (\<exists>r. readReceipt (reCodec re) (rsAttempt st) (rhReceipts s) = Inr (Some r) \<and> rcState r = ''closed'' \<and> rcSaveState r)"

definition since :: "ram_env \<Rightarrow> ram_host \<Rightarrow> ram_host \<Rightarrow> bool" where
  "since re s0 s \<longleftrightarrow> ram_inv re s \<and> rhLoads s = rhLoads s0 \<and> rhDisk s = rhDisk s0"

definition unchanged :: "ram_env \<Rightarrow> ram_host \<Rightarrow> ram_host \<Rightarrow> bool" where
  "unchanged re s0 s \<longleftrightarrow> since re s0 s \<and> rhReceipts s = rhReceipts s0 \<and> rhImage s = rhImage s0"

definition chosen :: "ram_env \<Rightarrow> StartRequest \<Rightarrow> ram_host \<Rightarrow> ramState option \<Rightarrow> ram_host \<Rightarrow> bool" where
  "chosen re req s0 resume s \<longleftrightarrow> since re s0 s \<and>
     (\<forall>st. resume = Some st \<longrightarrow> (\<exists>n. rhImage s0 = Some (st, n) \<and> rhImage s = Some (st, n)) \<and> resumable re req s0 st)"

lemma unmoved_start: "unmoved (since re s0)" "unmoved (unchanged re s0)" "unmoved (chosen re req s0 resume)"
  using unmoved_inv [of re] by (simp_all add: unmoved_def since_def unchanged_def chosen_def)

lemma unchanged_since: "unchanged re s0 s \<Longrightarrow> since re s0 s"
  and chosen_since: "chosen re req s0 resume s \<Longrightarrow> since re s0 s"
  by (simp_all add: unchanged_def chosen_def)

lemma keep_discard_since: "keep (since re s0) (discardRAMState w)"
  unfolding discardRAMState_def by (intro keep_ram unmoved_start) (simp add: since_def inv_drop)

lemma tr_read:
  assumes "unmoved P" "\<And>s. P s \<Longrightarrow> I s"
  shows "tr P (readRAMState w name) (\<lambda>x s. P s \<and> rhImage s = x) I"
  unfolding readRAMState_def
  apply (rule tr_bind, rule tr_callM [OF assms], assumption)
  apply (rule tr_bind, rule tr_look)
  apply (rule tr_option)
   apply (rule tr_ret, force)
  apply (rule tr_prod)
  apply (rule tr_bind, rule tr_check, blast intro: assms(2))
  by (rule tr_ret) force

lemma tr_check_saved: "tr (unchanged re s0) (check_saved re w req) (chosen re req s0) (since re s0)"
proof -
  have discard: "tr (unchanged re s0) (bindA (discardRAMState w) (\<lambda>_. retA None)) (chosen re req s0) (since re s0)"
    apply (rule tr_bind [where Q = "\<lambda>_. since re s0"], rule tr_pre [OF keep_discard_since [unfolded keep_def] unchanged_since], assumption)
    by (rule tr_ret) (simp add: chosen_def)
  let ?P = "\<lambda>st n s. unchanged re s0 s \<and> rhImage s = Some (st, n)"
  have u: "unmoved (?P st n)" for st n
    using unmoved_start(2) [of re s0] by (simp add: unmoved_def)
  have drop: "tr (?P st n) (bindA (discardRAMState w) (\<lambda>_. retA None)) (chosen re req s0) (since re s0)" for st n
    by (rule tr_pre [OF discard]) blast
  have found: "\<not> srqDiscardState req \<Longrightarrow> tr (?P st n)
      (bindA (checkK (sqInstanceID (rsAttempt st) \<noteq> srqInstanceID req \<or> rsConfig st \<noteq> resumeConfig (reCodec re) req) m1) (\<lambda>_.
       bindA (callM w) (\<lambda>_. bindA (lookK rhReceipts) (\<lambda>dir.
       bindA (liftR (readReceipt (reCodec re) (rsAttempt st) dir)) (\<lambda>r.
       bindA (checkK (case r of None \<Rightarrow> True | Some r \<Rightarrow> rcState r \<noteq> ''closed'' \<or> \<not> rcSaveState r) m2) (\<lambda>_.
       bindA (stampFile re w) (\<lambda>disk. bindA (checkK (disk \<noteq> rsDisk st) m3) (\<lambda>_.
       if rsSnapshotVersion st = [] then bindA (discardRAMState w) (\<lambda>_. retA None)
       else bindA (callM w) (\<lambda>_. bindA (ramSnapshotVersion w) (\<lambda>version.
         if version \<noteq> rsSnapshotVersion st then bindA (discardRAMState w) (\<lambda>_. retA None) else retA (Some st)))))))))))
      (chosen re req s0) (since re s0)" for st n m1 m2 m3
    apply (rule tr_bind, rule tr_check, blast intro: unchanged_since)
    apply (rule tr_fact [where b = "sqInstanceID (rsAttempt st) = srqInstanceID req \<and> rsConfig st = resumeConfig (reCodec re) req"], blast)
    apply (rule tr_bind [where Q = "\<lambda>_. ?P st n"], rule tr_conseq [OF keep_callM [OF u, unfolded keep_def]])
       apply (blast | blast intro: unchanged_since)+
    apply (rule tr_bind [where Q = "\<lambda>dir s. ?P st n s \<and> dir = rhReceipts s0"], rule tr_post [OF tr_look])
     apply (auto simp: unchanged_def)[1]
    apply (rule tr_bind, rule tr_lift, blast intro: unchanged_since)
    apply (rule tr_bind, rule tr_check, blast intro: unchanged_since)
    subgoal for x a dir r z
      apply (rule tr_fact [where b = "\<exists>r. readReceipt (reCodec re) (rsAttempt st) (rhReceipts s0) = Inr (Some r) \<and> rcState r = ''closed'' \<and> rcSaveState r"])
       apply (auto split: option.splits)[1]
      apply (rule tr_bind [where Q = "\<lambda>disk s. ?P st n s \<and> disk = reStamp re (rhDisk s0)"])
       apply (rule tr_conseq [OF tr_stamp [OF u]])
          apply (auto simp: unchanged_def since_def)[4]
      apply (rule tr_bind, rule tr_check, blast intro: unchanged_since)
      subgoal for disk z'
        apply (rule tr_fact [where b = "rsDisk st = reStamp re (rhDisk s0)"], elim conjE, simp)
        apply (rule tr_pre [where P = "?P st n"])
         apply (rule tr_if, rule drop)
         apply (rule tr_bind [where Q = "\<lambda>_. ?P st n"], rule keep_tr [OF keep_callM [OF u]], blast intro: unchanged_since)
         apply (rule tr_bind [where Q = "\<lambda>_. ?P st n"], rule keep_tr [OF keep_version [OF u]], blast intro: unchanged_since)
         apply (rule tr_if, rule drop)
         apply (rule tr_ret)
         apply (simp add: chosen_def resumable_def unchanged_def, metis)
        by blast
      done
    done
  show ?thesis
    unfolding check_saved_def Let_def
    apply (rule tr_if, rule discard)
    apply (rule tr_bind, rule tr_read [OF unmoved_start(2) unchanged_since], assumption)
    apply (rule tr_option)
     apply (rule tr_ret, simp add: chosen_def unchanged_def)
    apply (rule tr_prod)
    apply (rule tr_pre [OF found], assumption)
    by simp
qed

text \<open>After the start: nothing was loaded, or the image that the start found, which is gone.\<close>

definition consumed :: "ram_env \<Rightarrow> StartRequest \<Rightarrow> ram_host \<Rightarrow> ram_host \<Rightarrow> bool" where
  "consumed re req s0 s \<longleftrightarrow> ram_inv re s \<and> (rhLoads s = rhLoads s0 \<or>
     (\<exists>st n. rhImage s0 = Some (st, n) \<and> resumable re req s0 st \<and> rhLoads s = (n, rhDisk s0) # rhLoads s0 \<and> rhImage s = None))"

lemma unmoved_consumed: "unmoved (consumed re req s0)"
  using unmoved_inv [of re] by (simp add: unmoved_def consumed_def)

lemma since_consumed: "since re s0 s \<Longrightarrow> consumed re req s0 s"
  by (simp add: since_def consumed_def)

text \<open>The image is in the jail: it has not been loaded and belongs to the disk.\<close>

definition staged :: "ram_env \<Rightarrow> StartRequest \<Rightarrow> ram_host \<Rightarrow> ram_host \<Rightarrow> bool" where
  "staged re req s0 s \<longleftrightarrow> since re s0 s \<and> rhImage s = None \<and>
     (\<exists>st n. rhImage s0 = Some (st, n) \<and> resumable re req s0 st \<and> rhResume s = Some n \<and>
       usable re (rhCaptures s) (rhLoads s) n (Some st))"

lemma unmoved_staged: "unmoved (staged re req s0)"
  using unmoved_start(1) [of re s0] by (simp add: unmoved_def staged_def)

lemma staged_since: "staged re req s0 s \<Longrightarrow> since re s0 s"
  by (simp add: staged_def)

lemma keep_clear_jail: "keep (chosen re req s0 resume) (clear_jail w)" "keep (since re s0) (clear_jail w)" "keep (ram_inv re) (clear_jail w)"
  unfolding clear_jail_def
  by (intro keep_ram unmoved_start unmoved_inv; simp add: chosen_def since_def inv_drop)+

lemma stage_step:
  "chosen re req s0 (Some st) s \<Longrightarrow> rhResume s = None \<Longrightarrow>
    staged re req s0 (case rhImage s of None \<Rightarrow> s | Some (_, n) \<Rightarrow> s\<lparr>rhResume := Some n, rhImage := None\<rparr>)"
  by (auto simp: chosen_def staged_def since_def ram_inv_def held_def split: option.splits)

lemma tr_configure:
  "tr (chosen re req s0 (Some st)) (configureRAMRestore w) (\<lambda>_. staged re req s0) (since re s0)"
  unfolding configureRAMRestore_def
  apply (rule tr_bind [where Q = "\<lambda>_. chosen re req s0 (Some st)"], rule keep_tr [OF keep_callM [OF unmoved_start(3)] chosen_since], assumption)
  apply (rule tr_bind [where Q = "\<lambda>_. chosen re req s0 (Some st)"], rule keep_tr [OF keep_found chosen_since], assumption)
  apply (rule tr_bind, rule tr_look)
  apply (rule tr_bind [where Q = "\<lambda>_ s. chosen re req s0 (Some st) s \<and> rhResume s = None"], rule tr_post [OF tr_check])
    apply (blast intro: chosen_since)
   apply force
  apply (rule tr_bind [where Q = "\<lambda>_. staged re req s0"], rule tr_effectM)
  using unmoved_start(3) [of re req s0 "Some st"] apply (simp add: unmoved_def)
     apply (blast intro: chosen_since)
    apply (blast intro: stage_step)
   apply (blast intro: stage_step staged_since)
  apply (rule tr_bind [where Q = "\<lambda>_. staged re req s0"], rule keep_tr [OF keep_callM [OF unmoved_staged] staged_since], assumption)
  by (rule tr_ret)

lemma load_step:
  assumes "inj (reStamp re)" "staged re req s0 s" "rhResume s = Some n"
  shows "consumed re req s0 (s\<lparr>rhLoads := (n, rhDisk s) # rhLoads s\<rparr>)"
proof -
  obtain st where st: "rhImage s0 = Some (st, n)" "resumable re req s0 st" "usable re (rhCaptures s) (rhLoads s) n (Some st)"
    using assms(2,3) by (auto simp: staged_def)
  then have "reStamp re (rhDisk s0) = reStamp re (rhCaptures s ! n)"
    by (simp add: resumable_def usable_def)
  then have disk: "rhDisk s0 = rhCaptures s ! n"
    using assms(1) by (simp add: inj_eq)
  have "ram_inv re (s\<lparr>rhLoads := (n, rhDisk s) # rhLoads s\<rparr>)"
    using assms(2,3) st(3) disk
    by (auto simp: staged_def since_def ram_inv_def loads_ok_def held_def usable_def split: option.splits)
  with st assms(2) show ?thesis
    by (auto simp: consumed_def staged_def since_def)
qed

lemma tr_launch:
  assumes "inj (reStamp re)"
  shows "tr (if resume = None then since re s0 else staged re req s0) (launch_machine w resume) (\<lambda>_. consumed re req s0) (consumed re req s0)"
proof -
  note u = unmoved_consumed [of re req s0]
  let ?S = "if resume = None then since re s0 else staged re req s0"
  have uS: "unmoved ?S"
    by (simp add: unmoved_start unmoved_staged)
  have safe: "consumed re req s0 s" if "?S s" for s
    using that by (auto intro: since_consumed staged_since split: if_splits)
  have load: "tr (staged re req s0) (LoadRAMState w) (\<lambda>_. consumed re req s0) (consumed re req s0)"
    unfolding LoadRAMState_def
    apply (rule tr_bind, rule tr_found, blast intro: since_consumed staged_since)
    subgoal for n
      apply (rule tr_bind [where Q = "\<lambda>_. consumed re req s0"], rule tr_effectM)
      using unmoved_staged [of re req s0] apply (simp add: unmoved_def)
         apply (blast intro: since_consumed staged_since)
        apply (blast intro: load_step [OF assms])
       apply (blast intro: load_step [OF assms])
      unfolding keep_def [symmetric]
      by (intro keep_ram u) (auto simp: consumed_def inv_drop)
    done
  have resume: "tr (consumed re req s0) (effectM w (\<lambda>s. s\<lparr>rhPaused := False\<rparr>)) (\<lambda>_. consumed re req s0) (consumed re req s0)"
    unfolding keep_def [symmetric] by (intro keep_ram u) (auto simp: consumed_def inv_drop)
  show ?thesis
    unfolding launch_machine_def
    apply (rule tr_bind [where Q = "\<lambda>_. ?S"], rule keep_tr [OF keep_callM [OF uS] safe], assumption)
    apply (rule tr_bind [where Q = "\<lambda>_. consumed re req s0"])
     apply (rule tr_if, rule tr_pre [OF load], force)
     apply (rule tr_ret, erule safe)
    by (rule resume)
qed

lemma tr_startVM:
  assumes "inj (reStamp re)"
  shows "tr (unchanged re s0) (startVM_saved re w req) (\<lambda>_. consumed re req s0) (consumed re req s0)"
proof -
  have weak: "since re s0 s \<Longrightarrow> consumed re req s0 s" "chosen re req s0 r s \<Longrightarrow> consumed re req s0 s"
      "unchanged re s0 s \<Longrightarrow> consumed re req s0 s" for s r
    by (blast intro: since_consumed chosen_since unchanged_since)+
  have prepare: "tr (chosen re req s0 resume) (tryA (bindA (callM w) (\<lambda>_. if resume \<noteq> None then configureRAMRestore w else retA ())))
      (\<lambda>x. if isl x then since re s0 else if resume = None then since re s0 else staged re req s0) (consumed re req s0)" for resume
    apply (rule tr_try [where I = "since re s0"])
     apply (rule tr_bind [where Q = "\<lambda>_. chosen re req s0 resume"], rule keep_tr [OF keep_callM [OF unmoved_start(3)] chosen_since], assumption)
     apply (cases resume)
      apply (simp, rule tr_ret, erule chosen_since)
     apply (simp, rule tr_configure)
    by simp
  show ?thesis
    unfolding startVM_saved_def
    apply (rule tr_bind [where Q = "\<lambda>_. unchanged re s0"], rule keep_tr [OF keep_callM [OF unmoved_start(2)] weak(3)], assumption)
    apply (rule tr_bind, rule tr_conseq [OF tr_check_saved])
       apply (assumption | erule weak)+
    apply (rule tr_bind [where Q = "\<lambda>_. chosen re req s0 _"], rule keep_tr [OF keep_clear_jail(1) weak(2)], assumption)
    apply (rule tr_bind [OF prepare])
    subgoal for a resume b x
      apply (rule tr_sum)
       apply simp
       apply (rule tr_bind [where Q = "\<lambda>_. since re s0"], rule tr_try [where I = "since re s0"])
         apply (rule keep_clear_jail(2) [unfolded keep_def], assumption)
       apply (rule tr_fail, erule weak)
      by (simp add: tr_launch [OF assms])
    done
qed

subsection \<open>Runs\<close>

text \<open>Saves, starts, discards, the removal of the jail at a stop, changes of the disk by anyone and changes of the
  receipts, in any order and with any outcome of the calls.\<close>

inductive ram_run :: "ram_env \<Rightarrow> ram_host \<Rightarrow> bool" for re where
  created: "rhImage s = None \<Longrightarrow> rhSave s = None \<Longrightarrow> rhResume s = None \<Longrightarrow> rhCaptures s = [] \<Longrightarrow> rhLoads s = [] \<Longrightarrow> ram_run re s"
| saved: "ram_run re s \<Longrightarrow> saveRAMState re w r s = (x, s') \<Longrightarrow> ram_run re s'"
| started: "ram_run re s \<Longrightarrow> startVM_saved re w req s = (x, s') \<Longrightarrow> ram_run re s'"
| discarded: "ram_run re s \<Longrightarrow> discardRAMState w s = (x, s') \<Longrightarrow> ram_run re s'"
| cleaned: "ram_run re s \<Longrightarrow> clear_jail w s = (x, s') \<Longrightarrow> ram_run re s'"
| written: "ram_run re s \<Longrightarrow> rhDisk s < d \<Longrightarrow> ram_run re (s\<lparr>rhDisk := d\<rparr>)"
| receipts: "ram_run re s \<Longrightarrow> ram_run re (s\<lparr>rhReceipts := dir\<rparr>)"

lemma start_consumed:
  assumes "inj (reStamp re)" "ram_inv re s" "startVM_saved re w req s = (x, s')"
  shows "consumed re req s s'"
  by (rule tr_run [OF tr_startVM [OF assms(1)] _ assms(3)]) (simp add: unchanged_def since_def assms(2))

lemma ram_run_inv:
  assumes "inj (reStamp re)"
  shows "ram_run re s \<Longrightarrow> ram_inv re s"
proof (induction rule: ram_run.induct)
  case (saved s w r x s')
  then show ?case
    using tr_run [OF keep_saveRAMState [unfolded keep_def]] by blast
next
  case (started s w req x s')
  then show ?case
    using start_consumed [OF assms] by (auto simp: consumed_def)
next
  case (discarded s w x s')
  then show ?case
    using tr_run [OF keep_discardRAMState [unfolded keep_def]] by blast
next
  case (cleaned s w x s')
  then show ?case
    using tr_run [OF keep_clear_jail(3) [unfolded keep_def]] by blast
next
  case (created s)
  then show ?case
    by (simp add: ram_inv_def held_def loads_ok_def)
qed (rule inv_drop, assumption)+

subsection \<open>The property\<close>

text \<open>C16. When a change of the disk changes its stamp, no capture of the memory of a machine is ever loaded twice, and
  each is loaded with the disk it was captured with. A start loads memory only when it found an image of the
  same incarnation and configuration whose source was stopped for good, and the image is gone afterwards.\<close>

theorem saved_memory_used_once:
  assumes "inj (reStamp re)" "ram_run re s"
  shows "distinct (map fst (rhLoads s)) \<and>
    (\<forall>n d. (n, d) \<in> set (rhLoads s) \<longrightarrow> n < length (rhCaptures s) \<and> d = rhCaptures s ! n) \<and>
    (\<forall>w req x s'. startVM_saved re w req s = (x, s') \<and> rhLoads s' \<noteq> rhLoads s \<longrightarrow>
      (\<exists>st n r. rhImage s = Some (st, n) \<and> rhLoads s' = (n, rhDisk s) # rhLoads s \<and> rhImage s' = None \<and>
        \<not> srqDiscardState req \<and> sqInstanceID (rsAttempt st) = srqInstanceID req \<and> rsConfig st = resumeConfig (reCodec re) req \<and>
        readReceipt (reCodec re) (rsAttempt st) (rhReceipts s) = Inr (Some r) \<and> rcState r = ''closed'' \<and> rcSaveState r))"
proof -
  note inv = ram_run_inv [OF assms]
  moreover have "\<exists>st n. rhImage s = Some (st, n) \<and> rhLoads s' = (n, rhDisk s) # rhLoads s \<and> rhImage s' = None \<and> resumable re req s st"
    if "startVM_saved re w req s = (x, s')" "rhLoads s' \<noteq> rhLoads s" for w req x s'
    using start_consumed [OF assms(1) inv that(1)] that(2) by (auto simp: consumed_def)
  ultimately show ?thesis
    unfolding ram_inv_def loads_ok_def resumable_def by fastforce
qed

text \<open>A machine that is suspended and resumed.\<close>

definition rx_codec :: codec where
  "rx_codec = \<lparr>cdKey = (\<lambda>x. x), cdEncode = (\<lambda>_. ''c'')\<rparr>"

definition rx_env :: ram_env where
  "rx_env = \<lparr>reCodec = rx_codec, reStamp = (\<lambda>n. replicate n (CHR ''x''))\<rparr>"

definition rx_world :: ram_world where
  "rx_world _ = \<lparr>raErr = None, raLate = None, raOutput = ''v1.2.3'', raMemoryMiB = 512, raBavail = 1000000, raBsize = 4096\<rparr>"

definition rx_attempt :: StartResultRequest where
  "rx_attempt = \<lparr>sqName = ''vm'', sqInstanceID = ''i'', sqRequestID = ''r'', sqHostBootID = ''b''\<rparr>"

definition rx_receipt :: startReceipt where
  "rx_receipt = \<lparr>rcAttempt = rx_attempt, rcDigest = [], rcState = ''closed'', rcPID = 7, rcTicks = 1, rcResumeConfig = ''c'', rcSaveState = True\<rparr>"

definition rx_request :: StartRequest where
  "rx_request = \<lparr>srqDiscardState = False, srqKind = ''vm'', srqKernelPath = [], srqInitrdPath = [], srqInstanceID = ''i'', srqRequestID = ''r2'',
     srqHostBootID = ''b'', srqName = ''vm'', srqTapDevice = [], srqGuestMAC = [], srqGuestAddr = [], srqGatewayAddr = [], srqNameservers = [],
     srqVCPUCount = 1, srqMemoryMiB = 512, srqMemoryMode = [], srqMemoryPoolName = [], srqMemoryPoolSizeBytes = 0, srqKernelArgs = [],
     srqBootstrap = empty_bootstrap\<rparr>"

definition rx_start :: ram_host where
  "rx_start = \<lparr>rhImage = None, rhSave = None, rhResume = None, rhPaused = False, rhDisk = 3, rhReceipts = [(''r'', rx_receipt)],
     rhCaptures = [], rhLoads = [], rhStep = 0\<rparr>"

definition rx_saved :: ram_host where
  "rx_saved = snd (saveRAMState rx_env rx_world rx_receipt rx_start)"

definition rx_resumed :: ram_host where
  "rx_resumed = snd (startVM_saved rx_env rx_world rx_request rx_saved)"

lemma rx_call: "callM rx_world s = (Inr (rx_world 0), s\<lparr>rhStep := Suc (rhStep s)\<rparr>)"
  and rx_effect: "effectM rx_world f s = (Inr (), f (s\<lparr>rhStep := Suc (rhStep s)\<rparr>))"
  by (simp_all add: effectM_def callM_def bindA_def rx_world_def)

lemma rx_output: "raOutput (rx_world 0) = ''v1.2.3''"
  by (simp add: rx_world_def)

lemma rx_checks: "validName ''vm''" "snapshotVersionOutput ''v1.2.3''" "TrimSpace ''v1.2.3'' = ''v1.2.3''" "enough_space (rx_world 0) (rx_world 0)"
  by (code_simp, code_simp, code_simp, simp add: enough_space_def rx_world_def miBBytes_def)

lemmas rx_eval = bind_eval bind_fail try_eval rx_call rx_effect retA_def failA_def liftR_def lookK_def foundK_def checkK_def failIf_def bindR_def
  readRAMState_def new_image_def saveRAMState_def ramSnapshotVersion_def rx_output rx_checks Let_def capture_def stampFile_def write_manifest_def publish_image_def
  startVM_saved_def check_saved_def clear_jail_def configureRAMRestore_def launch_machine_def LoadRAMState_def resumeConfig_def readReceipt_def
  StartResultRequest_Validate_def

lemma rx_saved_eq:
  "rx_saved = rx_start\<lparr>rhImage := Some (\<lparr>rsAttempt = rx_attempt, rsConfig = ''c'', rsDisk = replicate 3 (CHR ''x''),
     rsSnapshotVersion = ''v1.2.3''\<rparr>, 0), rhPaused := True, rhCaptures := [3], rhStep := 17\<rparr>"
  by (simp add: rx_saved_def rx_eval rx_start_def rx_receipt_def rx_attempt_def rx_env_def rx_codec_def cong: bind_weak try_weak if_weak_cong)

lemma rx_resumed_loads: "rhLoads rx_resumed = [(0, 3)]"
  by (simp add: rx_resumed_def rx_saved_eq rx_eval rx_start_def rx_receipt_def rx_attempt_def rx_env_def rx_codec_def rx_request_def
    cong: bind_weak try_weak if_weak_cong)

lemma rx_inj: "inj (reStamp rx_env)"
  by (auto simp: rx_env_def inj_def dest: arg_cong [where f = length])

lemma rx_run: "ram_run rx_env rx_saved" "ram_run rx_env rx_resumed"
proof -
  have "ram_run rx_env rx_start"
    by (rule created) (simp_all add: rx_start_def)
  then show saved: "ram_run rx_env rx_saved"
    by (rule ram_run.saved [where w = rx_world and r = rx_receipt and x = "fst (saveRAMState rx_env rx_world rx_receipt rx_start)"])
      (simp add: rx_saved_def)
  show "ram_run rx_env rx_resumed"
    using saved
    by (rule ram_run.started [where w = rx_world and req = rx_request and x = "fst (startVM_saved rx_env rx_world rx_request rx_saved)"])
      (simp add: rx_resumed_def)
qed

theorem saved_memory_used_once_witness:
  "inj (reStamp rx_env) \<and> ram_run rx_env rx_resumed \<and> rhLoads rx_resumed = [(0, 3)] \<and> rhCaptures rx_resumed ! 0 = 3 \<and>
   rhImage rx_saved \<noteq> None \<and> rhImage rx_resumed = None"
proof -
  have "startVM_saved rx_env rx_world rx_request rx_saved = (fst (startVM_saved rx_env rx_world rx_request rx_saved), rx_resumed)"
    by (simp add: rx_resumed_def)
  moreover have "rhLoads rx_resumed \<noteq> rhLoads rx_saved"
    by (simp add: rx_resumed_loads rx_saved_eq rx_start_def)
  ultimately have "rhImage rx_resumed = None \<and> rhImage rx_saved \<noteq> None"
    using saved_memory_used_once [OF rx_inj rx_run(1)] by blast
  moreover have "rhCaptures rx_resumed ! 0 = 3"
    using saved_memory_used_once [OF rx_inj rx_run(2)] by (simp add: rx_resumed_loads)
  ultimately show ?thesis
    using rx_inj rx_run(2) rx_resumed_loads by blast
qed

end
