(* ===== verification/Balloon.thy ===== *)
theory Balloon
  imports Capacity "HOL-Library.AList"
begin

section \<open>Balloons of pooled machines\<close>

text \<open>
  src/internal/vmrunner/balloon_pool.go and the balloon functions of vmrunner.go: every five seconds the runner looks
  at the machines of each memory pool and moves memory between the guests and the pool with their balloons.

  A sweep prepares the pools, runs one worker for each machine at the same time and reports. The workers of a pool
  share its record; a worker enters two critical sections, \<open>identify_balloon\<close> and \<open>plan_balloon\<close>, and reads the
  statistics of the machine in between. What it reads from the host is an argument of the section. Files are compared
  by their identity (\<open>os.SameFile\<close>), a number. Times are nanoseconds of the monotonic clock.
\<close>

definition mebibyte :: int64 where "mebibyte = 1048576"
definition balloonSettleTime :: int where "balloonSettleTime = 10000000000"
definition balloonStallTime :: int where "balloonStallTime = 30000000000"
definition balloonTargetStepMiB :: int64 where "balloonTargetStepMiB = 64"
definition balloonMaxTargetChangeMiB :: int64 where "balloonMaxTargetChangeMiB = 512"
definition balloonGuestHeadroomFloorMiB :: int64 where "balloonGuestHeadroomFloorMiB = 256"
definition balloonGuestHeadroomDivisor :: int64 where "balloonGuestHeadroomDivisor = 8"
definition balloonMaxTargetDivisor :: int64 where "balloonMaxTargetDivisor = 2"

lemmas balloon_consts = mebibyte_def balloonSettleTime_def balloonStallTime_def balloonTargetStepMiB_def
  balloonMaxTargetChangeMiB_def balloonGuestHeadroomFloorMiB_def balloonGuestHeadroomDivisor_def balloonMaxTargetDivisor_def

record balloonVM =
  bvName :: string
  bvUseTarget :: bool
  bvPoolPath :: string

record firecrackerBalloonStats =
  bsActualMiB :: "int64 option"
  bsAvailableMemory :: "int64 option"
  bsTargetMiB :: "int64 option"
  bsTotalMemory :: int64

record balloonObservation =
  boSocket :: nat
  boCgroup :: nat
  boTarget :: int64
  boActual :: int64
  boChanged :: int
  boProgress :: int

record balloonPool =
  bpIdentity :: nat
  bpLimit :: int64
  bpMembers :: "(string \<times> balloonObservation option) list"
  bpInflated :: int64
  bpReturned :: int64
  bpSaturated :: bool

type_synonym balloonPools = "(string \<times> balloonPool) list"

subsection \<open>Arithmetic\<close>

definition bytesToMiBFloor :: "int64 \<Rightarrow> int64" where
  "bytesToMiBFloor b = (if b \<le> 0 then 0 else b sdiv mebibyte)"

definition guest_MiBCeil :: "int64 \<Rightarrow> int64" where
  "guest_MiBCeil b = (if b \<le> 0 then 0 else wrap64 (wrap64 (b + mebibyte) - 1) sdiv mebibyte)"

definition roundDownToMultiple :: "int64 \<Rightarrow> int64 \<Rightarrow> int64" where
  "roundDownToMultiple v k = (if v \<le> 0 \<or> k \<le> 1 then max v 0 else wrap64 (v - v smod k))"

definition roundUpToMultiple :: "int64 \<Rightarrow> int64 \<Rightarrow> int64" where
  "roundUpToMultiple v k =
     (if v \<le> 0 \<or> k \<le> 1 then max v 0
      else let r = v smod k in if r = 0 then v else wrap64 (wrap64 (v + k) - r))"

definition absInt64 :: "int64 \<Rightarrow> int64" where
  "absInt64 v = (if v < 0 then wrap64 (- v) else v)"

definition balloonAdjustmentStepMiB :: "int64 \<Rightarrow> int64" where
  "balloonAdjustmentStepMiB whole = max 1 (min balloonTargetStepMiB (max (whole sdiv 8) 1))"

text \<open>The largest balloon that leaves the guest its headroom, the step of its changes and whether the statistics
  say it at all.\<close>

definition desiredBalloonTargetMiB :: "firecrackerBalloonStats \<Rightarrow> int64 \<times> int64 \<times> bool" where
  "desiredBalloonTargetMiB st =
     (case (bsTargetMiB st, bsActualMiB st, bsAvailableMemory st) of
       (Some target, Some actual, Some available) \<Rightarrow>
         if bsTotalMemory st < 1 \<or> target < 0 \<or> actual < 0 \<or> available < 0 \<or> available > bsTotalMemory st then (0, 0, False)
         else
           let whole = guest_MiBCeil (bsTotalMemory st) in
           if actual > whole \<or> target > whole then (0, 0, False)
           else
             let headroom = max balloonGuestHeadroomFloorMiB (whole sdiv balloonGuestHeadroomDivisor);
                 desired = max 0 (wrap64 (wrap64 (actual + bytesToMiBFloor available) - headroom));
                 most = max (whole sdiv balloonMaxTargetDivisor) 1;
                 desired = min desired most;
                 desired = (if actual \<noteq> target then min desired target else desired)
             in (desired, balloonAdjustmentStepMiB whole, True)
     | _ \<Rightarrow> (0, 0, False))"

definition nextBalloonTargetMiB :: "int64 \<Rightarrow> int64 \<Rightarrow> int64 \<Rightarrow> int64" where
  "nextBalloonTargetMiB current0 desired0 step0 =
     (let step = (if step0 < 1 then 1 else step0); current = (if current0 < 0 then 0 else current0);
          desired = (if desired0 < 0 then 0 else desired0)
      in if current = desired then current
         else if current smod step \<noteq> 0 then
           (if desired < current then roundDownToMultiple current step
            else min (roundUpToMultiple current step) desired)
         else
           let delta = wrap64 (desired - current) in
           if absInt64 delta < step then current
           else
             let most = max step (roundDownToMultiple balloonMaxTargetChangeMiB step) in
             if delta > 0 then wrap64 (current + min delta most) else wrap64 (current - min (wrap64 (- delta)) most))"

text \<open>A machine by itself: \<open>None\<close> is no change. Only pooled machines have a target, and the pool sets it.\<close>

definition reconcileBalloon :: "balloonVM \<Rightarrow> int64 result \<Rightarrow> firecrackerBalloonStats result \<Rightarrow> int64 option result" where
  "reconcileBalloon vm resident stats =
     bindR resident (\<lambda>_.
     bindR stats (\<lambda>st.
     let (desired, step, usable) = (if bvUseTarget vm then desiredBalloonTargetMiB st else (0, 1, bsTargetMiB st \<noteq> None)) in
     case (usable, bsTargetMiB st) of
       (True, Some current) \<Rightarrow>
         let desired = (if bvUseTarget vm then nextBalloonTargetMiB current desired step else desired) in
         Inr (if desired = current then None else Some desired)
     | _ \<Rightarrow> Inr None))"

subsection \<open>Preparing a sweep\<close>

definition memberOf :: "string \<Rightarrow> balloonPool \<Rightarrow> balloonObservation option" where
  "memberOf n p = (case map_of (bpMembers p) n of Some (Some obs) \<Rightarrow> Some obs | _ \<Rightarrow> None)"

text \<open>The identity of the control group of a pool and its limit, as read for one machine.\<close>

type_synonym pool_reader = "balloonVM \<Rightarrow> nat result \<times> int64 result"

definition open_pool :: "pool_reader \<Rightarrow> balloonPools \<Rightarrow> balloonVM \<Rightarrow> balloonPools \<Rightarrow> balloonPools" where
  "open_pool rd old vm pools =
     (if \<not> bvUseTarget vm \<or> map_of pools (bvPoolPath vm) \<noteq> None then pools
      else case rd vm of
        (Inr info, Inr limit) \<Rightarrow>
          if limit \<le> 0 then pools
          else
            let fresh = \<lparr>bpIdentity = info, bpLimit = limit, bpMembers = [], bpInflated = 0, bpReturned = 0, bpSaturated = False\<rparr>;
                p = (case map_of old (bvPoolPath vm) of
                       None \<Rightarrow> fresh
                     | Some p \<Rightarrow> if bpIdentity p \<noteq> info \<or> bpLimit p \<noteq> limit then fresh else p)
            in AList.update (bvPoolPath vm) (p\<lparr>bpInflated := 0, bpReturned := 0\<rparr>) pools
      | _ \<Rightarrow> pools)"

definition retain_members :: "balloonVM list \<Rightarrow> string \<Rightarrow> balloonPool \<Rightarrow> balloonPool" where
  "retain_members vms path p =
     p\<lparr>bpMembers := map (\<lambda>n. (n, memberOf n p)) (remdups (map bvName (filter (\<lambda>vm. bvPoolPath vm = path) vms)))\<rparr>"

definition prepareBalloonPools :: "pool_reader \<Rightarrow> balloonVM list \<Rightarrow> balloonPools \<Rightarrow> balloonPools" where
  "prepareBalloonPools rd vms old = map (\<lambda>(path, p). (path, retain_members vms path p)) (fold (open_pool rd old) vms [])"

subsection \<open>The critical sections of a worker\<close>

definition identify_balloon :: "string \<Rightarrow> nat \<Rightarrow> nat \<Rightarrow> balloonPool \<Rightarrow> balloonPool" where
  "identify_balloon n socket cgroup p =
     (case memberOf n p of
       Some obs \<Rightarrow> if boSocket obs = socket \<and> boCgroup obs = cgroup then p else p\<lparr>bpMembers := AList.update n None (bpMembers p)\<rparr>
     | None \<Rightarrow> p\<lparr>bpMembers := AList.update n None (bpMembers p)\<rparr>)"

definition observe_balloon ::
  "nat \<Rightarrow> nat \<Rightarrow> int \<Rightarrow> int64 \<Rightarrow> int64 \<Rightarrow> balloonObservation option \<Rightarrow> balloonObservation \<times> bool" where
  "observe_balloon socket cgroup now actual target previous =
     (case previous of
       None \<Rightarrow> (\<lparr>boSocket = socket, boCgroup = cgroup, boTarget = target, boActual = actual, boChanged = now, boProgress = now\<rparr>, False)
     | Some obs \<Rightarrow>
         let fallen = (actual < boActual obs \<and> target \<ge> boTarget obs);
             obs1 = (if actual \<noteq> boActual obs then obs\<lparr>boProgress := now, boChanged := now\<rparr> else obs);
             obs2 = (if target \<noteq> boTarget obs then obs1\<lparr>boChanged := now, boProgress := now\<rparr> else obs1)
         in (obs2\<lparr>boActual := actual, boTarget := target\<rparr>, fallen))"

fun outstanding_inflation :: "string \<times> balloonObservation option \<Rightarrow> int64" where
  "outstanding_inflation (n, None) = 0"
| "outstanding_inflation (n, Some m) = max (wrap64 (boTarget m - boActual m)) 0"

fun outstanding_return :: "string \<times> balloonObservation option \<Rightarrow> int64" where
  "outstanding_return (n, None) = 0"
| "outstanding_return (n, Some m) = max (wrap64 (boActual m - boTarget m)) 0"

definition pendingInflate :: "balloonPool \<Rightarrow> int64" where
  "pendingInflate p = sum64 0 (map outstanding_inflation (bpMembers p))"

definition pendingReturn :: "balloonPool \<Rightarrow> int64" where
  "pendingReturn p = sum64 0 (map outstanding_return (bpMembers p))"

definition allObserved :: "balloonPool \<Rightarrow> bool" where
  "allObserved p \<longleftrightarrow> list_all (\<lambda>m. snd m \<noteq> None) (bpMembers p)"

definition roundBudget :: "int64 \<Rightarrow> int64" where
  "roundBudget limit = min balloonMaxTargetChangeMiB (bytesToMiBFloor limit sdiv 20)"

text \<open>What a guest gets back: measured space below nine tenths of the limit that is not being returned already.\<close>

definition balloon_grant :: "balloonPool \<Rightarrow> balloonObservation \<Rightarrow> int \<Rightarrow> int64 \<Rightarrow> int64 \<Rightarrow> int64 \<Rightarrow> int64" where
  "balloon_grant p obs now used safe step =
     (let limit = bpLimit p; actual = boActual obs; target = boTarget obs;
          g1 = max 0 (wrap64 (bytesToMiBFloor (wrap64 (wrap64 (limit - limit sdiv 10) - used)) - pendingReturn p));
          g2 = min g1 (max 0 (wrap64 (roundBudget limit - bpReturned p)));
          g3 = (if \<not> allObserved p \<or> now - boChanged obs < balloonSettleTime \<or> actual \<noteq> target then 0 else g2);
          g4 = min g3 (max (wrap64 (actual - safe)) 0)
      in if g4 \<noteq> wrap64 (actual - safe) then roundDownToMultiple g4 step else g4)"

text \<open>What a guest gives: the usage above three quarters of the limit that is not being collected already.\<close>

definition balloon_take :: "balloonPool \<Rightarrow> balloonObservation \<Rightarrow> int64 \<Rightarrow> int64 \<Rightarrow> int64 \<Rightarrow> int64" where
  "balloon_take p obs used safe step =
     (let limit = bpLimit p;
          b1 = max 0 (wrap64 (bytesToMiBFloor (wrap64 (used - wrap64 (limit - limit sdiv 4))) - pendingInflate p));
          b2 = min b1 (max 0 (wrap64 (roundBudget limit - bpInflated p)))
      in roundDownToMultiple (min b2 (wrap64 (safe - boTarget obs))) step)"

definition decide_balloon ::
  "balloonPool \<Rightarrow> balloonObservation \<Rightarrow> bool \<Rightarrow> int \<Rightarrow> int64 \<Rightarrow> int64 \<Rightarrow> int64 \<Rightarrow> int64 \<times> balloonPool" where
  "decide_balloon p obs cancel now used safe step0 =
     (let limit = bpLimit p; actual = boActual obs; target = boTarget obs;
          step = min step0 (max 1 (roundBudget limit));
          settled = (actual = target \<and> now - boChanged obs \<ge> balloonSettleTime)
      in if cancel then (actual, p)
         else if safe < target then
           let grant = balloon_grant p obs now used safe step in
           (min target (wrap64 (actual - grant)), p\<lparr>bpReturned := wrap64 (bpReturned p + grant)\<rparr>)
         else if allObserved p \<and> settled \<and> used > wrap64 (limit - limit sdiv 5) \<and> safe > target then
           let delta = balloon_take p obs used safe step in
           (wrap64 (target + delta), p\<lparr>bpInflated := wrap64 (bpInflated p + delta)\<rparr>)
         else (target, p))"

text \<open>The second section; the result is the target to set, or \<open>None\<close> for no change.\<close>

definition plan_balloon ::
  "string \<Rightarrow> nat \<Rightarrow> nat \<Rightarrow> firecrackerBalloonStats \<Rightarrow> int64 result \<Rightarrow> int64 result \<Rightarrow> int \<Rightarrow> balloonPool \<Rightarrow>
   int64 option result \<times> balloonPool" where
  "plan_balloon n socket cgroup st limit used now p =
     (let (safe, step, usable) = desiredBalloonTargetMiB st in
      case (bsTargetMiB st, bsActualMiB st) of
        (Some target, Some actual) \<Rightarrow>
          if target < 0 \<or> actual < 0 then (Inr None, p)
          else (case limit of
            Inl e \<Rightarrow> (Inl e, p)
          | Inr limit \<Rightarrow>
            if limit \<noteq> bpLimit p then (Inr None, p)
            else (case used of
              Inl _ \<Rightarrow> (Inl (ErrMsg ''read balloon pool usage''), p)
            | Inr used \<Rightarrow>
              if used < 0 then (Inl (ErrMsg ''read balloon pool usage''), p)
              else
                let (obs, fallen) = observe_balloon socket cgroup now actual target (memberOf n p);
                    p1 = p\<lparr>bpMembers := AList.update n (Some obs) (bpMembers p)\<rparr>;
                    cancel = (target > actual \<and> (fallen \<or> now - boProgress obs \<ge> balloonStallTime))
                in if \<not> usable \<and> \<not> cancel then (Inr None, p1)
                   else
                     let (desired, p2) = decide_balloon p1 obs cancel now used safe step in
                     if desired = target then (Inr None, p2)
                     else (Inr (Some desired),
                       p2\<lparr>bpMembers := AList.update n (Some (obs\<lparr>boTarget := desired, boChanged := now, boProgress := now\<rparr>)) (bpMembers p2)\<rparr>)))
      | _ \<Rightarrow> (Inr None, p))"

text \<open>A worker with nothing in between: the two sections and the request to the machine, whose failure leaves the
  reservation in place.\<close>

definition reconcilePoolBalloon ::
  "balloonVM \<Rightarrow> nat result \<Rightarrow> nat result \<Rightarrow> firecrackerBalloonStats result \<Rightarrow> int64 result \<Rightarrow> int64 result \<Rightarrow> unit result \<Rightarrow> int \<Rightarrow>
   balloonPool \<Rightarrow> int64 option result \<times> balloonPool" where
  "reconcilePoolBalloon vm socket cgroup stats limit used patch now p =
     (case (socket, cgroup) of
       (Inl e, _) \<Rightarrow> (Inl e, p)
     | (Inr _, Inl e) \<Rightarrow> (Inl e, p)
     | (Inr socket, Inr cgroup) \<Rightarrow>
         let p1 = identify_balloon (bvName vm) socket cgroup p in
         case stats of
           Inl e \<Rightarrow> (Inl e, p1)
         | Inr st \<Rightarrow>
           (case plan_balloon (bvName vm) socket cgroup st limit used now p1 of
             (Inr (Some desired), p2) \<Rightarrow> ((case patch of Inl e \<Rightarrow> Inl e | Inr _ \<Rightarrow> Inr (Some desired)), p2)
           | (r, p2) \<Rightarrow> (r, p2)))"

subsection \<open>Reporting\<close>

definition balloon_waiting :: "int \<Rightarrow> balloonPool \<Rightarrow> bool" where
  "balloon_waiting now p \<longleftrightarrow> list_ex (\<lambda>(n, m). case m of None \<Rightarrow> False
     | Some obs \<Rightarrow> boTarget obs \<noteq> boActual obs \<or> now - boChanged obs < balloonSettleTime) (bpMembers p)"

definition report_pool :: "(string \<Rightarrow> int64 result) \<Rightarrow> int \<Rightarrow> string \<times> balloonPool \<Rightarrow> string \<times> balloonPool" where
  "report_pool current now e =
     (case e of (path, p) \<Rightarrow>
      case current path of
        Inl _ \<Rightarrow> (path, p)
      | Inr used \<Rightarrow>
        if used < 0 then (path, p)
        else (path, p\<lparr>bpSaturated := used > wrap64 (bpLimit p - bpLimit p sdiv 5) \<and> bpInflated p = 0 \<and> \<not> balloon_waiting now p\<rparr>))"

definition reportBalloonPools :: "(string \<Rightarrow> int64 result) \<Rightarrow> int \<Rightarrow> balloonPools \<Rightarrow> balloonPools" where
  "reportBalloonPools current now pools = map (report_pool current now) pools"

subsection \<open>A sweep with its workers in any order\<close>

record balloon_command =
  bcPool :: string
  bcName :: string
  bcActual :: int64
  bcTarget :: int64
  bcDesired :: int64

text \<open>\<open>balloon_sweep rd vms old pools cmds\<close>: after a sweep over \<open>vms\<close> has begun with the pools \<open>old\<close> the sections of its
  workers have left \<open>pools\<close> and \<open>cmds\<close>, the latest first. Firecracker's amounts
  have 32 bits, and no machine has more than \<open>2 ^ 52\<close> bytes.\<close>

definition machine_stats :: "firecrackerBalloonStats \<Rightarrow> bool" where
  "machine_stats st \<longleftrightarrow> bsTotalMemory st \<le> 2 ^ 52 \<and>
     pred_option (\<lambda>a. a < 4294967296) (bsActualMiB st) \<and> pred_option (\<lambda>a. a < 4294967296) (bsTargetMiB st)"

inductive balloon_sweep :: "pool_reader \<Rightarrow> balloonVM list \<Rightarrow> int \<Rightarrow> balloonPools \<Rightarrow> balloonPools \<Rightarrow> balloon_command list \<Rightarrow> bool"
  for rd :: pool_reader and vms :: "balloonVM list" and now :: int and old :: balloonPools
where
  prepared: "balloon_sweep rd vms now old (prepareBalloonPools rd vms old) []"
| identified: "balloon_sweep rd vms now old pools cmds \<Longrightarrow> vm \<in> set vms \<Longrightarrow> map_of pools (bvPoolPath vm) = Some p \<Longrightarrow>
    balloon_sweep rd vms now old (AList.update (bvPoolPath vm) (identify_balloon (bvName vm) socket cgroup p) pools) cmds"
| planned: "balloon_sweep rd vms now old pools cmds \<Longrightarrow> vm \<in> set vms \<Longrightarrow> map_of pools (bvPoolPath vm) = Some p \<Longrightarrow>
    machine_stats st \<Longrightarrow> (\<forall>u. used = Inr u \<longrightarrow> in64 u) \<Longrightarrow>
    plan_balloon (bvName vm) socket cgroup st limit used now p = (r, p') \<Longrightarrow>
    balloon_sweep rd vms now old (AList.update (bvPoolPath vm) p' pools)
      (case r of Inr (Some desired) \<Rightarrow>
         \<lparr>bcPool = bvPoolPath vm, bcName = bvName vm, bcActual = the (bsActualMiB st), bcTarget = the (bsTargetMiB st), bcDesired = desired\<rparr> # cmds
       | _ \<Rightarrow> cmds)"

text \<open>Sweeps one after the other; the control group file is a 64-bit number.\<close>

definition reads64 :: "pool_reader \<Rightarrow> bool" where
  "reads64 rd \<longleftrightarrow> (\<forall>vm l. snd (rd vm) = Inr l \<longrightarrow> in64 l)"

inductive balloon_run :: "balloonPools \<Rightarrow> bool" where
  idle: "balloon_run []"
| swept: "balloon_run old \<Longrightarrow> length vms < 1073741824 \<Longrightarrow> reads64 rd \<Longrightarrow>
    balloon_sweep rd vms now old pools cmds \<Longrightarrow> balloon_run (reportBalloonPools current now pools)"

end
