(* ===== verification/BalloonProofs.thy ===== *)
theory BalloonProofs
  imports Balloon
begin

section \<open>What a balloon sweep may ask for\<close>

text \<open>
  In range none of the sums of the sweep wraps around. Each command leaves a guest its headroom or returns only memory
  that was measured free, and all commands of a sweep together stay within the budget of the round.
\<close>

subsection \<open>Arithmetic\<close>

lemma bytesToMiBFloor_div: "bytesToMiBFloor b = max b 0 div 1048576"
  by (simp add: bytesToMiBFloor_def mebibyte_def sdiv_pos max_def)

lemma roundDown_bounds: "in64 v \<Longrightarrow> 0 \<le> roundDownToMultiple v k \<and> roundDownToMultiple v k \<le> max v 0"
proof -
  assume r: "in64 v"
  have "0 \<le> v - v mod k \<and> v - v mod k \<le> v \<and> wrap64 (v - v mod k) = v - v mod k" if "0 < v" "1 < k"
    using r that zmod_le_nonneg_dividend [of v k] pos_mod_sign [of k v] by (simp add: wrap64_id in64_def del: pos_mod_sign)
  then show ?thesis
    by (auto simp: roundDownToMultiple_def smod_pos max_def)
qed

lemma sum64_in_range:
  "list_all (\<lambda>x. 0 \<le> x \<and> x < 4294967296) xs \<Longrightarrow> 0 \<le> a \<Longrightarrow> a + int (length xs) * 4294967296 \<le> 9223372036854775807 \<Longrightarrow>
    sum64 a xs = a + sum_list xs"
  by (induction xs arbitrary: a) (auto simp: wrap64_id in64_def algebra_simps)

text \<open>Replacing one entry of an association list changes a sum by the difference.\<close>

lemma sum_update:
  "distinct (map fst ms) \<Longrightarrow> sum_list (map f (AList.update n v ms)) =
     sum_list (map f ms) - (case map_of ms n of None \<Rightarrow> 0 | Some w \<Rightarrow> f (n, w)) + (f (n, v) :: int)"
  by (induction ms) auto

lemma map_of_update: "map_of (AList.update k v ms) = (map_of ms)(k \<mapsto> v)"
  by (simp add: fun_eq_iff update_conv)

lemma keys_update: "k \<in> fst ` set ms \<Longrightarrow> map fst (AList.update k v ms) = map fst ms"
  by (induction ms) auto

lemma length_update: "k \<in> fst ` set ms \<Longrightarrow> length (AList.update k v ms) = length ms"
  by (metis keys_update length_map)

lemma all_update: "list_all P ms \<Longrightarrow> P (k, v) \<Longrightarrow> list_all P (AList.update k v ms)"
  by (induction ms) auto

subsection \<open>Pools in range\<close>

fun member_ok :: "string \<times> balloonObservation option \<Rightarrow> bool" where
  "member_ok (n, None) = True"
| "member_ok (n, Some m) = (0 \<le> boActual m \<and> boActual m < 4294967296 \<and> 0 \<le> boTarget m \<and> boTarget m < 4294967296)"

definition pool_ok :: "balloonPool \<Rightarrow> bool" where
  "pool_ok p \<longleftrightarrow> 0 < bpLimit p \<and> in64 (bpLimit p) \<and> distinct (map fst (bpMembers p)) \<and> length (bpMembers p) < 1073741824 \<and>
     list_all member_ok (bpMembers p) \<and> 0 \<le> bpInflated p \<and> bpInflated p \<le> roundBudget (bpLimit p) \<and>
     0 \<le> bpReturned p \<and> bpReturned p \<le> roundBudget (bpLimit p)"

fun inflating :: "string \<times> balloonObservation option \<Rightarrow> int" where
  "inflating (n, None) = 0"
| "inflating (n, Some m) = max (boTarget m - boActual m) 0"

fun returning :: "string \<times> balloonObservation option \<Rightarrow> int" where
  "returning (n, None) = 0"
| "returning (n, Some m) = max (boActual m - boTarget m) 0"

definition inflating_sum :: "balloonPool \<Rightarrow> int" where
  "inflating_sum p = sum_list (map inflating (bpMembers p))"

definition returning_sum :: "balloonPool \<Rightarrow> int" where
  "returning_sum p = sum_list (map returning (bpMembers p))"

lemma member_exact:
  "member_ok m \<Longrightarrow> outstanding_inflation m = inflating m \<and> outstanding_return m = returning m \<and>
     0 \<le> inflating m \<and> inflating m < 4294967296 \<and> 0 \<le> returning m \<and> returning m < 4294967296"
  by (cases m rule: member_ok.cases) (auto simp: wrap64_id in64_def)

lemma members_exact:
  assumes "list_all member_ok ms"
  shows "map outstanding_inflation ms = map inflating ms" "map outstanding_return ms = map returning ms"
    "list_all (\<lambda>x. 0 \<le> x \<and> x < 4294967296) (map inflating ms)" "list_all (\<lambda>x. 0 \<le> x \<and> x < 4294967296) (map returning ms)"
  using assms member_exact by (auto simp: list_all_iff)

lemma pending_exact:
  assumes "pool_ok p"
  shows "pendingInflate p = inflating_sum p" "pendingReturn p = returning_sum p"
    "0 \<le> inflating_sum p" "0 \<le> returning_sum p" "inflating_sum p < 9223372036854775808" "returning_sum p < 9223372036854775808"
proof -
  have ok: "list_all member_ok (bpMembers p)" and l: "length (bpMembers p) < 1073741824"
    using assms by (simp_all add: pool_ok_def)
  note m = members_exact [OF ok]
  have e: "sum64 0 (map f (bpMembers p)) = sum_list (map f (bpMembers p)) \<and> 0 \<le> sum_list (map f (bpMembers p)) \<and>
      sum_list (map f (bpMembers p)) < 9223372036854775808"
    if "list_all (\<lambda>x. 0 \<le> x \<and> x < 4294967296) (map f (bpMembers p))" for f :: "_ \<Rightarrow> int"
  proof -
    have "sum_list xs \<le> int (length xs) * 4294967296" if "list_all (\<lambda>x. 0 \<le> x \<and> x < 4294967296) xs" for xs :: "int list"
      using that by (induction xs) auto
    from this [OF that] show ?thesis
      using that l by (auto simp: sum64_in_range list_all_iff intro!: sum_list_nonneg)
  qed
  show "pendingInflate p = inflating_sum p" "pendingReturn p = returning_sum p" "0 \<le> inflating_sum p" "0 \<le> returning_sum p"
    "inflating_sum p < 9223372036854775808" "returning_sum p < 9223372036854775808"
    unfolding pendingInflate_def pendingReturn_def inflating_sum_def returning_sum_def m(1, 2)
    using e [OF m(3)] e [OF m(4)] by simp_all
qed

lemma roundBudget_range: "0 \<le> roundBudget l \<and> roundBudget l \<le> 512"
  by (simp add: roundBudget_def balloonMaxTargetChangeMiB_def bytesToMiBFloor_div sdiv_pos)

subsection \<open>Grants and takes\<close>

lemma tenth: "0 < l \<Longrightarrow> in64 l \<Longrightarrow> 0 < k \<Longrightarrow> wrap64 (l - l sdiv k) = l - l div k \<and> 0 \<le> l - l div k \<and> l - l div k \<le> l" for l k :: int
proof -
  assume a: "0 < l" "in64 l" "0 < k"
  have "0 \<le> l div k" "l div k \<le> l"
    using a by (simp_all add: pos_imp_zdiv_nonneg_iff zdiv_mono2 [of l 1 k, simplified])
  then show ?thesis
    using a by (simp add: sdiv_pos wrap64_id in64_def)
qed

lemma grant_bounds:
  assumes "pool_ok p" "in64 used" "0 \<le> used" "member_ok (n, Some obs)" "0 \<le> safe" "safe < 4294967296" "g = balloon_grant p obs now used safe step"
  shows "0 \<le> g \<and> bpReturned p + g \<le> roundBudget (bpLimit p) \<and> g \<le> max (boActual obs - safe) 0 \<and>
    (0 < g \<longrightarrow> allObserved p \<and> boActual obs = boTarget obs \<and> balloonSettleTime \<le> now - boChanged obs \<and>
      returning_sum p + g \<le> (bpLimit p - bpLimit p div 10 - used) div 1048576)"
proof -
  let ?l = "bpLimit p"
  have l: "0 < ?l" "in64 ?l" and ret: "0 \<le> bpReturned p" "bpReturned p \<le> roundBudget ?l"
    using assms(1) by (simp_all add: pool_ok_def)
  note t = tenth [OF l, of 10, simplified]
  have u: "wrap64 (?l - ?l div 10 - used) = ?l - ?l div 10 - used"
    using t l assms(2, 3) by (intro wrap64_id) (auto simp: in64_def)
  define F where "F = bytesToMiBFloor (?l - ?l div 10 - used)"
  have F: "0 \<le> F" "F < 9223372036854775808" "0 < F \<Longrightarrow> F = (?l - ?l div 10 - used) div 1048576"
    using t l assms(3) by (auto simp: F_def bytesToMiBFloor_div max_def in64_def split: if_splits)
  note pe = pending_exact [OF assms(1)]
  have w1: "wrap64 (F - returning_sum p) = F - returning_sum p"
    using F pe by (intro wrap64_id) (simp add: in64_def)
  have w2: "wrap64 (roundBudget ?l - bpReturned p) = roundBudget ?l - bpReturned p"
    using ret roundBudget_range [of ?l] by (intro wrap64_id) (simp add: in64_def)
  have w3: "wrap64 (boActual obs - safe) = boActual obs - safe"
    using assms(4, 5, 6) by (intro wrap64_id) (simp add: in64_def)
  define g4 where "g4 = min (if \<not> allObserved p \<or> now - boChanged obs < balloonSettleTime \<or> boActual obs \<noteq> boTarget obs then 0
     else min (max 0 (F - returning_sum p)) (max 0 (roundBudget ?l - bpReturned p))) (max (boActual obs - safe) 0)"
  have g: "g = (if g4 \<noteq> boActual obs - safe then roundDownToMultiple g4 step else g4)"
    unfolding assms(7) balloon_grant_def Let_def by (simp only: t u F_def [symmetric] pe(2) w1 w2 w3 g4_def)
  have g4: "0 \<le> g4" "g4 \<le> max 0 (roundBudget ?l - bpReturned p)" "g4 \<le> max (boActual obs - safe) 0"
    "0 < g4 \<Longrightarrow> allObserved p \<and> boActual obs = boTarget obs \<and> balloonSettleTime \<le> now - boChanged obs \<and> g4 \<le> F - returning_sum p"
    by (auto simp: g4_def)
  have "in64 g4"
    using g4 roundBudget_range [of ?l] ret by (auto simp: in64_def)
  then have gb: "0 \<le> g" "g \<le> g4"
    using g roundDown_bounds [of g4 step] g4(1) by auto
  have "returning_sum p + g \<le> (?l - ?l div 10 - used) div 1048576" if "0 < g"
    using that gb g4(4) F(3) pe(4) by linarith
  with gb g4 ret show ?thesis
    by auto
qed

lemma take_bounds:
  assumes "pool_ok p" "in64 used" "0 \<le> used" "member_ok (n, Some obs)" "0 \<le> safe" "safe < 4294967296" "boTarget obs < safe"
    "d = balloon_take p obs used safe step"
  shows "0 \<le> d \<and> bpInflated p + d \<le> roundBudget (bpLimit p) \<and> d \<le> safe - boTarget obs \<and>
    (0 < d \<longrightarrow> inflating_sum p + d \<le> (used - (bpLimit p - bpLimit p div 4)) div 1048576)"
proof -
  let ?l = "bpLimit p"
  have l: "0 < ?l" "in64 ?l" and inf: "0 \<le> bpInflated p" "bpInflated p \<le> roundBudget ?l"
    using assms(1) by (simp_all add: pool_ok_def)
  note t = tenth [OF l, of 4, simplified]
  have u: "wrap64 (used - (?l - ?l div 4)) = used - (?l - ?l div 4)"
    using t l assms(2, 3) by (intro wrap64_id) (auto simp: in64_def)
  define F where "F = bytesToMiBFloor (used - (?l - ?l div 4))"
  have F: "0 \<le> F" "F < 9223372036854775808" "0 < F \<Longrightarrow> F = (used - (?l - ?l div 4)) div 1048576"
    using t l assms(2, 3) by (auto simp: F_def bytesToMiBFloor_div max_def in64_def split: if_splits)
  note pe = pending_exact [OF assms(1)]
  have w1: "wrap64 (F - inflating_sum p) = F - inflating_sum p"
    using F pe by (intro wrap64_id) (simp add: in64_def)
  have w2: "wrap64 (roundBudget ?l - bpInflated p) = roundBudget ?l - bpInflated p"
    using inf roundBudget_range [of ?l] by (intro wrap64_id) (simp add: in64_def)
  have w3: "wrap64 (safe - boTarget obs) = safe - boTarget obs"
    using assms(4, 5, 6) by (intro wrap64_id) (simp add: in64_def)
  define b where "b = min (min (max 0 (F - inflating_sum p)) (max 0 (roundBudget ?l - bpInflated p))) (safe - boTarget obs)"
  have d: "d = roundDownToMultiple b step"
    unfolding assms(8) balloon_take_def Let_def by (simp only: t u F_def [symmetric] pe(1) w1 w2 w3 b_def)
  have b: "0 \<le> b" "b \<le> max 0 (roundBudget ?l - bpInflated p)" "b \<le> safe - boTarget obs" "0 < b \<Longrightarrow> b \<le> F - inflating_sum p"
    using assms(7) by (auto simp: b_def)
  have "in64 b"
    using b roundBudget_range [of ?l] inf by (auto simp: in64_def)
  then have db: "0 \<le> d" "d \<le> b"
    using d roundDown_bounds [of b step] b(1) by auto
  have "inflating_sum p + d \<le> (used - (?l - ?l div 4)) div 1048576" if "0 < d"
    using that db b(4) F(3) pe(3) by linarith
  with db b inf show ?thesis
    by auto
qed

subsection \<open>Decisions\<close>

lemma decide_bounds:
  assumes "pool_ok p" "in64 used" "0 \<le> used" "member_ok (n, Some obs)" "cancel \<Longrightarrow> boActual obs < boTarget obs"
    "0 \<le> safe" "safe \<le> 2147483648" "decide_balloon p obs cancel now used safe step0 = (d, p')"
  shows "p' = p\<lparr>bpInflated := bpInflated p + max 0 (d - boTarget obs),
      bpReturned := bpReturned p + (if d = boTarget obs then 0 else max 0 (boActual obs - d))\<rparr> \<and> 0 \<le> d \<and> d < 4294967296 \<and>
    bpInflated p' \<le> roundBudget (bpLimit p) \<and> bpReturned p' \<le> roundBudget (bpLimit p) \<and>
    (boActual obs \<le> d \<and> d < boTarget obs \<longrightarrow> d = boActual obs) \<and>
    (d > boTarget obs \<longrightarrow> allObserved p \<and> boActual obs = boTarget obs \<and> balloonSettleTime \<le> now - boChanged obs \<and>
      bpLimit p - bpLimit p div 5 < used \<and> d \<le> safe \<and>
      inflating_sum p + (d - boTarget obs) \<le> (used - (bpLimit p - bpLimit p div 4)) div 1048576) \<and>
    (d < boActual obs \<and> d \<noteq> boTarget obs \<longrightarrow> allObserved p \<and> boActual obs = boTarget obs \<and>
      balloonSettleTime \<le> now - boChanged obs \<and> safe \<le> d \<and>
      returning_sum p + (boActual obs - d) \<le> (bpLimit p - bpLimit p div 10 - used) div 1048576)"
proof -
  have l: "0 < bpLimit p" "in64 (bpLimit p)" and c: "0 \<le> bpInflated p" "bpInflated p \<le> roundBudget (bpLimit p)"
    "0 \<le> bpReturned p" "bpReturned p \<le> roundBudget (bpLimit p)"
    using assms(1) by (simp_all add: pool_ok_def)
  have r: "0 \<le> boActual obs" "boActual obs < 4294967296" "0 \<le> boTarget obs" "boTarget obs < 4294967296"
    using assms(4) by simp_all
  have s: "safe < 4294967296"
    using assms(7) by simp
  consider (cancel) cancel | (grant) "\<not> cancel" "safe < boTarget obs"
    | (take) "\<not> cancel" "boTarget obs < safe" "allObserved p" "boActual obs = boTarget obs"
        "balloonSettleTime \<le> now - boChanged obs" "wrap64 (bpLimit p - bpLimit p sdiv 5) < used"
    | (hold) "\<not> cancel" "\<not> safe < boTarget obs" "d = boTarget obs" "p' = p"
    using assms(8) by (force simp: decide_balloon_def Let_def split: if_splits)
  then show ?thesis
  proof cases
    case cancel
    then have "d = boActual obs" "p' = p"
      using assms(8) by (simp_all add: decide_balloon_def Let_def)
    then show ?thesis
      using cancel assms(5) c r by simp
  next
    case grant
    define step where "step = min step0 (max 1 (roundBudget (bpLimit p)))"
    define g where "g = balloon_grant p obs now used safe step"
    note b = grant_bounds [OF assms(1-4, 6) s g_def]
    have w: "wrap64 (boActual obs - g) = boActual obs - g" "wrap64 (bpReturned p + g) = bpReturned p + g"
      using b r c roundBudget_range [of "bpLimit p"] by (auto intro!: wrap64_id simp: in64_def)
    have d: "d = min (boTarget obs) (boActual obs - g)" "p' = p\<lparr>bpReturned := bpReturned p + g\<rparr>"
      using grant assms(8) w by (auto simp: decide_balloon_def Let_def step_def g_def)
    show ?thesis
    proof (cases "0 < g")
      case True
      with b have "boActual obs = boTarget obs" by blast
      with d True have "d = boActual obs - g" by simp
      with True b d r c assms(6) grant show ?thesis by auto
    next
      case False
      with b have "g = 0" by auto
      then show ?thesis using d c r by (auto simp: min_def)
    qed
  next
    case take
    define step where "step = min step0 (max 1 (roundBudget (bpLimit p)))"
    define g where "g = balloon_take p obs used safe step"
    note b = take_bounds [OF assms(1-4, 6) s take(2) g_def]
    have w: "wrap64 (boTarget obs + g) = boTarget obs + g" "wrap64 (bpInflated p + g) = bpInflated p + g"
      using b r c roundBudget_range [of "bpLimit p"] by (auto intro!: wrap64_id simp: in64_def)
    have d: "d = boTarget obs + g" "p' = p\<lparr>bpInflated := bpInflated p + g\<rparr>"
      using take assms(8) w by (auto simp: decide_balloon_def Let_def step_def g_def)
    then show ?thesis
      using b take tenth [OF l, of 5] c s r by (auto simp: max_def)
  next
    case hold
    then show ?thesis using c r by simp
  qed
qed

subsection \<open>Plans\<close>

definition guest_MiB :: "firecrackerBalloonStats \<Rightarrow> int" where
  "guest_MiB st = (bsTotalMemory st + 1048575) div 1048576"

lemma desired_safe:
  assumes "machine_stats st" "desiredBalloonTargetMiB st = (safe, step, usable)"
  shows "0 \<le> safe \<and> safe \<le> 2147483648 \<and> (0 < safe \<longrightarrow> (\<exists>actual available. bsActualMiB st = Some actual \<and>
    bsAvailableMemory st = Some available \<and> safe + max 256 (guest_MiB st div 8) \<le> actual + available div 1048576 \<and>
    2 * safe \<le> guest_MiB st))"
proof (cases "usable")
  case True
  let ?w = "guest_MiB st"
  obtain target actual available where o: "bsTargetMiB st = Some target" "bsActualMiB st = Some actual"
    "bsAvailableMemory st = Some available" and r: "1 \<le> bsTotalMemory st" "0 \<le> target" "0 \<le> actual" "0 \<le> available"
      "available \<le> bsTotalMemory st" "\<not> (actual > guest_MiBCeil (bsTotalMemory st) \<or> target > guest_MiBCeil (bsTotalMemory st))"
    using assms(2) True by (auto simp: desiredBalloonTargetMiB_def Let_def split: option.splits if_splits)
  have m: "bsTotalMemory st \<le> 4503599627370496" "actual < 4294967296"
    using assms(1) o by (auto simp: machine_stats_def)
  have c: "guest_MiBCeil (bsTotalMemory st) = ?w"
    using r m by (simp add: guest_MiBCeil_def guest_MiB_def mebibyte_def wrap64_id in64_def sdiv_pos)
  have w: "1 \<le> ?w" "?w \<le> 4294967296"
    using r m by (simp_all add: guest_MiB_def)
  have a: "bytesToMiBFloor available = available div 1048576" "0 \<le> available div 1048576" "available div 1048576 \<le> ?w"
    using r by (simp_all add: bytesToMiBFloor_div max_def guest_MiB_def zdiv_mono1)
  define h where "h = max 256 (?w div 8)"
  have h: "256 \<le> h" "h \<le> 536870912"
    using w by (simp_all add: h_def)
  have w1: "wrap64 (wrap64 (actual + available div 1048576) - h) = actual + available div 1048576 - h"
    using r m a w h by (simp add: wrap64_id in64_def)
  define m1 where "m1 = min (max 0 (actual + available div 1048576 - h)) (max (?w div 2) 1)"
  have k: "\<not> (bsTotalMemory st < 1 \<or> target < 0 \<or> actual < 0 \<or> available < 0 \<or> available > bsTotalMemory st)"
    and v: "?w sdiv 8 = ?w div 8" "?w sdiv 2 = ?w div 2"
    using r w by (auto simp: sdiv_pos)
  have "desiredBalloonTargetMiB st = (if actual \<noteq> target then min m1 target else m1, balloonAdjustmentStepMiB ?w, True)"
    unfolding desiredBalloonTargetMiB_def o prod.case option.case Let_def if_not_P [OF k] if_not_P [OF r(6)]
    by (simp only: c a balloonGuestHeadroomFloorMiB_def balloonGuestHeadroomDivisor_def balloonMaxTargetDivisor_def v h_def [symmetric] w1 m1_def)
  then have s: "safe = (if actual \<noteq> target then min m1 target else m1)"
    using assms(2) by simp
  have m1: "0 \<le> m1" "m1 \<le> 2147483648" "0 < m1 \<Longrightarrow> m1 + h \<le> actual + available div 1048576" "m1 \<le> max (?w div 2) 1"
    using w by (auto simp: m1_def)
  have "safe \<le> m1" "0 \<le> safe"
    using s m1 r by auto
  moreover have "2 * safe \<le> ?w" if "0 < safe"
    using that calculation m1 h a r c w by (cases "2 \<le> ?w") auto
  ultimately show ?thesis
    using m1 o by (auto simp: h_def)
next
  case False
  then show ?thesis
    using assms(2) by (auto simp: desiredBalloonTargetMiB_def Let_def split: option.splits if_splits)
qed

lemma observe_values:
  "observe_balloon socket cgroup now actual target previous = (obs, fallen) \<Longrightarrow> boActual obs = actual \<and> boTarget obs = target"
  by (auto simp: observe_balloon_def Let_def split: option.splits)

lemma pool_ok_member:
  "pool_ok p \<Longrightarrow> n \<in> fst ` set (bpMembers p) \<Longrightarrow> member_ok (n, v) \<Longrightarrow> pool_ok (p\<lparr>bpMembers := AList.update n v (bpMembers p)\<rparr>)"
  by (simp add: pool_ok_def keys_update length_update all_update)

text \<open>What a section does to its pool, with the command it may issue.\<close>

definition commanded :: "firecrackerBalloonStats \<Rightarrow> int64 \<Rightarrow> int64 \<Rightarrow> balloonPool \<Rightarrow> balloonPool \<Rightarrow> bool" where
  "commanded st u d p p' \<longleftrightarrow> (\<exists>actual target. bsActualMiB st = Some actual \<and> bsTargetMiB st = Some target \<and> d \<noteq> target \<and>
     0 \<le> d \<and> d < 4294967296 \<and> bpInflated p' = bpInflated p + max 0 (d - target) \<and> bpReturned p' = bpReturned p + max 0 (actual - d) \<and>
     (actual \<le> d \<and> d < target \<longrightarrow> d = actual) \<and>
     (target < d \<longrightarrow> actual = target \<and> bpLimit p - bpLimit p div 5 < u \<and> (\<exists>available. bsAvailableMemory st = Some available \<and>
        d + max 256 (guest_MiB st div 8) \<le> actual + available div 1048576) \<and> 2 * d \<le> guest_MiB st \<and>
        inflating_sum p' \<le> (u - (bpLimit p - bpLimit p div 4)) div 1048576) \<and>
     (d < actual \<longrightarrow> actual = target \<and> returning_sum p' \<le> (bpLimit p - bpLimit p div 10 - u) div 1048576))"

lemma plan_result:
  assumes "pool_ok p" "n \<in> fst ` set (bpMembers p)" "machine_stats st" "\<forall>u. used = Inr u \<longrightarrow> in64 u"
    "plan_balloon n socket cgroup st limit used now p = (r, p')"
  shows "pool_ok p' \<and> map fst (bpMembers p') = map fst (bpMembers p) \<and> bpLimit p' = bpLimit p \<and>
    ((\<exists>d u. r = Inr (Some d) \<and> used = Inr u \<and> commanded st u d p p') \<or>
     (\<forall>d. r \<noteq> Inr (Some d)) \<and> bpInflated p' = bpInflated p \<and> bpReturned p' = bpReturned p)"
proof (cases "p' = p \<and> (\<forall>d. r \<noteq> Inr (Some d))")
  case True
  then show ?thesis using assms(1) by simp
next
  case False
  obtain safe step usable where s: "desiredBalloonTargetMiB st = (safe, step, usable)"
    by (cases "desiredBalloonTargetMiB st") auto
  obtain target actual u where o: "bsTargetMiB st = Some target" "bsActualMiB st = Some actual" "0 \<le> target" "0 \<le> actual"
    "limit = Inr (bpLimit p)" "used = Inr u" "0 \<le> u"
    using False assms(5) s by (auto simp: plan_balloon_def split: option.splits if_splits sum.splits)
  obtain obs fallen where ob: "observe_balloon socket cgroup now actual target (memberOf n p) = (obs, fallen)"
    by fastforce
  note v = observe_values [OF ob]
  have m: "actual < 4294967296" "target < 4294967296"
    using assms(3) o by (simp_all add: machine_stats_def)
  then have ok: "member_ok (n, Some obs)" using v o by simp
  define p1 where "p1 = p\<lparr>bpMembers := AList.update n (Some obs) (bpMembers p)\<rparr>"
  define cancel where "cancel = (target > actual \<and> (fallen \<or> now - boProgress obs \<ge> balloonStallTime))"
  have p1: "pool_ok p1" and k1: "map fst (bpMembers p1) = map fst (bpMembers p)"
    using pool_ok_member [OF assms(1, 2) ok] assms(2) by (simp_all add: p1_def keys_update)
  obtain d p2 where dec: "decide_balloon p1 obs cancel now u safe step = (d, p2)"
    by fastforce
  have "plan_balloon n socket cgroup st limit used now p = (if \<not> usable \<and> \<not> cancel then (Inr None, p1) else if d = target then (Inr None, p2)
      else (Inr (Some d), p2\<lparr>bpMembers := AList.update n (Some (obs\<lparr>boTarget := d, boChanged := now, boProgress := now\<rparr>)) (bpMembers p2)\<rparr>))"
    using dec o(3, 4, 7) unfolding plan_balloon_def s o(1, 2, 5, 6)
    by (simp add: ob Let_def p1_def cancel_def split del: if_split cong del: if_weak_cong)
  note e = this [unfolded assms(5)]
  note ds = desired_safe [OF assms(3) s]
  have u64: "in64 u"
    using assms(4) o(6) by simp
  have cn: "cancel \<Longrightarrow> boActual obs < boTarget obs"
    using v by (simp add: cancel_def)
  note b = decide_bounds [OF p1 u64 o(7) ok cn conjunct1 [OF ds] conjunct1 [OF conjunct2 [OF ds]] dec]
  have c1: "bpInflated p1 = bpInflated p" "bpReturned p1 = bpReturned p" "bpLimit p1 = bpLimit p"
    by (simp_all add: p1_def)
  have m2: "bpMembers p2 = bpMembers p1" "bpLimit p2 = bpLimit p" and ok2: "pool_ok p2"
  proof -
    obtain x y where p2: "p2 = p1\<lparr>bpInflated := x, bpReturned := y\<rparr>" "bpInflated p1 \<le> x" "bpReturned p1 \<le> y"
      "x \<le> roundBudget (bpLimit p1)" "y \<le> roundBudget (bpLimit p1)"
    proof
      show "p2 = p1\<lparr>bpInflated := bpInflated p2, bpReturned := bpReturned p2\<rparr>"
        using conjunct1 [OF b] by simp
      show "bpInflated p1 \<le> bpInflated p2" "bpReturned p1 \<le> bpReturned p2"
        using conjunct1 [OF b] by simp_all
    qed (use b in blast)+
    then show "bpMembers p2 = bpMembers p1" "bpLimit p2 = bpLimit p" "pool_ok p2"
      using p1 c1 by (simp_all add: pool_ok_def)
  qed
  consider (none) "r = Inr None" "p' = p1" | (hold) "r = Inr None" "p' = p2" "d = target"
    | (set) "r = Inr (Some d)" "d \<noteq> target"
        "p' = p2\<lparr>bpMembers := AList.update n (Some (obs\<lparr>boTarget := d, boChanged := now, boProgress := now\<rparr>)) (bpMembers p2)\<rparr>"
    using e by (auto split: if_splits)
  then show ?thesis
  proof cases
    case none
    then show ?thesis using p1 k1 c1 by simp
  next
    case hold
    then show ?thesis using ok2 m2 k1 c1 b v by simp
  next
    case set
    let ?new = "obs\<lparr>boTarget := d, boChanged := now, boProgress := now\<rparr>"
    have n2: "n \<in> fst ` set (bpMembers p2)"
      using assms(2) m2 k1 by (metis list.set_map)
    have newok: "member_ok (n, Some ?new)"
      using ok b by simp
    have sums: "inflating_sum p' = inflating_sum p1 - inflating (n, Some obs) + inflating (n, Some ?new)"
      "returning_sum p' = returning_sum p1 - returning (n, Some obs) + returning (n, Some ?new)"
      using assms(1) m2 set(3) by (simp_all add: inflating_sum_def returning_sum_def p1_def sum_update pool_ok_def)
    have up: "actual = target \<and> bpLimit p - bpLimit p div 5 < u \<and> d \<le> safe \<and>
        inflating_sum p1 + (d - target) \<le> (u - (bpLimit p - bpLimit p div 4)) div 1048576" if "target < d"
      using b v c1 that by simp
    have down: "actual = target \<and> returning_sum p1 + (actual - d) \<le> (bpLimit p - bpLimit p div 10 - u) div 1048576" if "d < actual"
      using b v c1 that set(2) by simp
    have counts: "0 \<le> d" "d < 4294967296" "bpInflated p' = bpInflated p + max 0 (d - target)"
      "bpReturned p' = bpReturned p + max 0 (actual - d)" "actual \<le> d \<and> d < target \<longrightarrow> d = actual"
      using b v c1 set(2, 3) by simp_all
    have "inflating_sum p' \<le> (u - (bpLimit p - bpLimit p div 4)) div 1048576" if "target < d"
      using up [OF that] that sums(1) v by simp
    moreover have "returning_sum p' \<le> (bpLimit p - bpLimit p div 10 - u) div 1048576" if "d < actual"
      using down [OF that] that sums(2) v by simp
    moreover have "\<exists>available. bsAvailableMemory st = Some available \<and> d + max 256 (guest_MiB st div 8) \<le> actual + available div 1048576"
      "2 * d \<le> guest_MiB st" if "target < d"
    proof -
      have "0 < safe" "d \<le> safe"
        using up [OF that] that o by simp_all
      with ds o show "\<exists>available. bsAvailableMemory st = Some available \<and> d + max 256 (guest_MiB st div 8) \<le> actual + available div 1048576"
        "2 * d \<le> guest_MiB st"
        by force+
    qed
    ultimately have "commanded st u d p p'"
      unfolding commanded_def using o(1, 2) set(2) counts up down by blast
    then show ?thesis
      using pool_ok_member [OF ok2 n2 newok] set o m2 k1 n2 by (simp add: keys_update)
  qed
qed

subsection \<open>Sweeps\<close>

definition old_ok :: "balloonPools \<Rightarrow> bool" where
  "old_ok old \<longleftrightarrow> (\<forall>path p. map_of old path = Some p \<longrightarrow> list_all member_ok (bpMembers p))"

definition opened_ok :: "balloonPool \<Rightarrow> bool" where
  "opened_ok p \<longleftrightarrow> 0 < bpLimit p \<and> in64 (bpLimit p) \<and> bpInflated p = 0 \<and> bpReturned p = 0 \<and> list_all member_ok (bpMembers p)"

lemma open_pool_ok:
  assumes "old_ok old" "reads64 rd" "\<forall>path p. map_of pools path = Some p \<longrightarrow> opened_ok p"
  shows "\<forall>path p. map_of (open_pool rd old vm pools) path = Some p \<longrightarrow> opened_ok p"
proof -
  have l: "in64 l" if "rd vm = (x, Inr l)" for x l
    using assms(2) that by (auto simp: reads64_def dest: spec [of _ vm])
  show ?thesis
    using assms(1, 3) l
    by (auto simp: open_pool_def Let_def map_of_update old_ok_def opened_ok_def split: prod.splits sum.splits option.splits if_splits)
qed

lemma opened_pools:
  assumes "old_ok old" "reads64 rd"
  shows "\<forall>path p. map_of pools path = Some p \<longrightarrow> opened_ok p \<Longrightarrow>
    \<forall>path p. map_of (fold (open_pool rd old) vms pools) path = Some p \<longrightarrow> opened_ok p"
proof (induction vms arbitrary: pools)
  case (Cons vm vms)
  then show ?case
    using open_pool_ok [OF assms Cons.prems, where vm = vm] by simp
qed simp

definition members_of :: "balloonVM list \<Rightarrow> string \<Rightarrow> string list" where
  "members_of vms path = remdups (map bvName (filter (\<lambda>vm. bvPoolPath vm = path) vms))"

lemma memberOf_ok: "list_all member_ok (bpMembers p) \<Longrightarrow> member_ok (n, memberOf n p)"
  by (auto simp: memberOf_def list_all_iff split: option.splits dest!: map_of_SomeD)

lemma members_of_short: "length (members_of vms path) \<le> length vms"
  unfolding members_of_def by (metis length_filter_le length_map length_remdups_leq order_trans)

lemma map_of_entries: "map_of (map (\<lambda>(k, v). (k, f k v)) xs) k = map_option (f k) (map_of xs k)"
  by (induction xs) auto

lemma prepared_pool:
  assumes "old_ok old" "reads64 rd" "length vms < 1073741824"
    "map_of (prepareBalloonPools rd vms old) path = Some p"
  shows "pool_ok p \<and> map fst (bpMembers p) = members_of vms path \<and> bpInflated p = 0 \<and> bpReturned p = 0"
proof -
  obtain q where q: "map_of (fold (open_pool rd old) vms []) path = Some q" "p = retain_members vms path q"
    using assms(4) by (auto simp: prepareBalloonPools_def map_of_entries)
  have "opened_ok q"
    using opened_pools [OF assms(1, 2), of "[]" vms] q by simp
  then show ?thesis
    using q(2) members_of_short [of vms path] assms(3) memberOf_ok [of q] roundBudget_range [of "bpLimit q"]
    by (auto simp: opened_ok_def pool_ok_def retain_members_def members_of_def comp_def list_all_iff)
qed

lemma identify_ok:
  assumes "pool_ok p" "n \<in> fst ` set (bpMembers p)" "p' = identify_balloon n socket cgroup p"
  shows "pool_ok p' \<and> map fst (bpMembers p') = map fst (bpMembers p) \<and> bpLimit p' = bpLimit p \<and>
    bpInflated p' = bpInflated p \<and> bpReturned p' = bpReturned p"
  using assms pool_ok_member [OF assms(1, 2), of None]
  by (auto simp: identify_balloon_def keys_update split: option.splits if_splits)

text \<open>The counters of a pool are what its commands of the sweep add up to.\<close>

definition raised :: "string \<Rightarrow> balloon_command list \<Rightarrow> int" where
  "raised path cmds = (\<Sum>c\<leftarrow>filter (\<lambda>c. bcPool c = path) cmds. max 0 (bcDesired c - bcTarget c))"

definition given_back :: "string \<Rightarrow> balloon_command list \<Rightarrow> int" where
  "given_back path cmds = (\<Sum>c\<leftarrow>filter (\<lambda>c. bcPool c = path) cmds. max 0 (bcActual c - bcDesired c))"

definition command_moderate :: "balloon_command \<Rightarrow> bool" where
  "command_moderate c \<longleftrightarrow> 0 \<le> bcDesired c \<and> bcDesired c < 4294967296 \<and>
     (if bcActual c = bcTarget c then bcDesired c \<noteq> bcTarget c else bcActual c < bcTarget c \<and> bcDesired c = bcActual c)"

definition sweep_inv :: "balloonVM list \<Rightarrow> balloonPools \<Rightarrow> balloon_command list \<Rightarrow> bool" where
  "sweep_inv vms pools cmds \<longleftrightarrow> (\<forall>c\<in>set cmds. command_moderate c) \<and>
     (\<forall>path p. map_of pools path = Some p \<longrightarrow> pool_ok p \<and> map fst (bpMembers p) = members_of vms path \<and>
        bpInflated p = raised path cmds \<and> bpReturned p = given_back path cmds)"

lemma member_key:
  "map fst (bpMembers p) = members_of vms (bvPoolPath vm) \<Longrightarrow> vm \<in> set vms \<Longrightarrow> bvName vm \<in> fst ` set (bpMembers p)"
proof -
  assume a: "map fst (bpMembers p) = members_of vms (bvPoolPath vm)" "vm \<in> set vms"
  have "bvName vm \<in> set (members_of vms (bvPoolPath vm))"
    using a(2) by (auto simp: members_of_def)
  then show ?thesis
    using a(1) by (metis list.set_map)
qed

lemma commanded_moderate:
  "commanded st u d p p' \<Longrightarrow> command_moderate \<lparr>bcPool = path, bcName = n, bcActual = the (bsActualMiB st), bcTarget = the (bsTargetMiB st), bcDesired = d\<rparr>"
  unfolding commanded_def command_moderate_def
  by (elim exE conjE, simp only: balloon_command.simps option.sel) (metis linorder_less_linear order_less_imp_le)

lemma sweep_inv_step:
  assumes "sweep_inv vms pools cmds" "map_of pools path = Some p" "pool_ok p'" "map fst (bpMembers p') = map fst (bpMembers p)"
    "\<forall>c\<in>set new. bcPool c = path \<and> command_moderate c" "bpInflated p' = bpInflated p + raised path new"
    "bpReturned p' = bpReturned p + given_back path new"
  shows "sweep_inv vms (AList.update path p' pools) (new @ cmds)"
proof -
  have "raised q (new @ cmds) = raised q cmds \<and> given_back q (new @ cmds) = given_back q cmds" if "q \<noteq> path" for q
    using assms(5) that by (simp add: raised_def given_back_def filter_empty_conv)
  moreover have "raised path (new @ cmds) = raised path cmds + raised path new \<and>
      given_back path (new @ cmds) = given_back path cmds + given_back path new"
    by (simp add: raised_def given_back_def)
  ultimately show ?thesis
    using assms by (auto simp: sweep_inv_def map_of_update)
qed

lemma sweep_invariant:
  assumes "balloon_sweep rd vms now old pools cmds" "old_ok old" "reads64 rd" "length vms < 1073741824"
  shows "sweep_inv vms pools cmds"
  using assms(1)
proof induction
  case prepared
  show ?case
    using prepared_pool [OF assms(2-4)] by (simp add: sweep_inv_def raised_def given_back_def)
next
  case (identified pools cmds vm p socket cgroup)
  then have "pool_ok p" "bvName vm \<in> fst ` set (bpMembers p)"
    by (auto simp: sweep_inv_def intro: member_key)
  from identify_ok [OF this refl, of socket cgroup] show ?case
    using sweep_inv_step [OF identified.IH identified.hyps(3), where new = "[]"] by (simp add: raised_def given_back_def)
next
  case (planned pools cmds vm p st used socket cgroup limit r p')
  then have p: "pool_ok p" "bvName vm \<in> fst ` set (bpMembers p)"
    by (auto simp: sweep_inv_def intro: member_key)
  note res = plan_result [OF p planned.hyps(4, 5, 6)]
  show ?case
  proof (cases "\<exists>d. r = Inr (Some d)")
    case True
    then obtain d u where d: "r = Inr (Some d)" "commanded st u d p p'"
      using res by auto
    have "bpInflated p' = bpInflated p + max 0 (d - the (bsTargetMiB st))" "bpReturned p' = bpReturned p + max 0 (the (bsActualMiB st) - d)"
      using d(2) unfolding commanded_def by (elim exE conjE, simp only: option.sel)+
    then show ?thesis
      using sweep_inv_step [OF planned.IH planned.hyps(3), where p' = p' and new = "[\<lparr>bcPool = bvPoolPath vm, bcName = bvName vm,
        bcActual = the (bsActualMiB st), bcTarget = the (bsTargetMiB st), bcDesired = d\<rparr>]"] res d commanded_moderate [OF d(2)]
      by (simp add: raised_def given_back_def)
  next
    case False
    then have "(case r of Inr (Some d) \<Rightarrow> f d | _ \<Rightarrow> cmds) = cmds" for f
      by (auto split: sum.split option.split)
    moreover have "bpInflated p' = bpInflated p" "bpReturned p' = bpReturned p"
      using res False by auto
    ultimately show ?thesis
      using sweep_inv_step [OF planned.IH planned.hyps(3), where p' = p' and new = "[]"] res
      by (simp add: raised_def given_back_def)
  qed
qed


lemma run_ok: "balloon_run pools \<Longrightarrow> old_ok pools"
proof (induction rule: balloon_run.induct)
  case (swept old vms rd now pools cmds current)
  have "sweep_inv vms pools cmds"
    by (rule sweep_invariant [OF swept(4) swept(5) swept(3) swept(2)])
  moreover have "map_of (reportBalloonPools current now pools) path = map_option (\<lambda>p. snd (report_pool current now (path, p))) (map_of pools path)" for path
    by (induction pools) (auto simp: reportBalloonPools_def report_pool_def split: sum.splits)
  moreover have "bpMembers (snd (report_pool current now (path, p))) = bpMembers p" for path p
    by (simp add: report_pool_def split: sum.split)
  ultimately show ?case
    by (auto simp: old_ok_def sweep_inv_def pool_ok_def)
qed (simp add: old_ok_def)

subsection \<open>The properties\<close>

text \<open>C9. However the workers of a sweep interleave and after any earlier sweeps, all the commands of one sweep for one
  pool together raise balloons by at most 512 MiB and a twentieth of the limit of the pool, and give at most as much back;
  a command only moves a balloon that has reached its target, or ends an inflation at the size it has reached. The
  recorded sizes keep to 32 bits and no counter wraps around.\<close>

theorem balloon_sweep_bounded:
  assumes "balloon_run old" "length vms < 1073741824" "reads64 rd" "balloon_sweep rd vms now old pools cmds"
    "map_of pools path = Some p"
  shows "raised path cmds \<le> min 512 (bpLimit p div 1048576 div 20) \<and> given_back path cmds \<le> min 512 (bpLimit p div 1048576 div 20) \<and>
    bpInflated p = raised path cmds \<and> bpReturned p = given_back path cmds \<and> pool_ok p \<and> list_all command_moderate cmds"
proof -
  have i: "sweep_inv vms pools cmds"
    by (rule sweep_invariant [OF assms(4) run_ok [OF assms(1)] assms(3, 2)])
  then have p: "pool_ok p" "bpInflated p = raised path cmds" "bpReturned p = given_back path cmds" "list_all command_moderate cmds"
    using assms(5) by (auto simp: sweep_inv_def list_all_iff)
  moreover have "roundBudget (bpLimit p) = min 512 (bpLimit p div 1048576 div 20)"
  proof -
    have "0 < bpLimit p" using p(1) by (simp add: pool_ok_def)
    then show ?thesis
      by (simp add: roundBudget_def balloonMaxTargetChangeMiB_def bytesToMiBFloor_div sdiv_pos pos_imp_zdiv_nonneg_iff)
  qed
  ultimately show ?thesis
    by (simp add: pool_ok_def)
qed

text \<open>C19. A command raises a balloon only when the pool uses more than four fifths of its limit, leaves the guest half its
  memory and a headroom of 256 MiB and an eighth of its memory, and with everything that is still being collected asks for
  no more than the usage above three quarters; it lowers a balloon only by memory that was measured free below nine
  tenths of the limit, less everything that is still being given back.\<close>

theorem balloon_command_safe:
  assumes "pool_ok p" "n \<in> fst ` set (bpMembers p)" "machine_stats st" "in64 u"
    "bsActualMiB st = Some actual" "bsTargetMiB st = Some target"
    "plan_balloon n socket cgroup st limit (Inr u) now p = (Inr (Some d), p')"
  shows "(target < d \<longrightarrow> actual = target \<and> bpLimit p - bpLimit p div 5 < u \<and> 2 * d \<le> guest_MiB st \<and>
      (\<exists>available. bsAvailableMemory st = Some available \<and> d + max 256 (guest_MiB st div 8) \<le> actual + available div 1048576) \<and>
      inflating_sum p' \<le> (u - (bpLimit p - bpLimit p div 4)) div 1048576) \<and>
    (d < actual \<longrightarrow> actual = target \<and> returning_sum p' \<le> (bpLimit p - bpLimit p div 10 - u) div 1048576) \<and>
    (actual \<le> d \<and> d \<le> target \<longrightarrow> d = actual) \<and> pool_ok p'"
proof -
  have "\<forall>v. Inr u = (Inr v :: int64 result) \<longrightarrow> in64 v"
    using assms(4) by simp
  from plan_result [OF assms(1-3) this assms(7)] have c: "commanded st u d p p'" and "pool_ok p'"
    by auto
  moreover from c have "d \<noteq> target"
    using assms(6) by (auto simp only: commanded_def option.inject)
  ultimately show ?thesis
    unfolding commanded_def assms(5, 6) option.inject by (metis order_le_less)
qed

subsection \<open>A pool under pressure\<close>

text \<open>A pool of 4 GiB with one machine of 2 GiB. The first sweep observes it; ten seconds later the pool uses 3.5 GiB and
  the balloon is raised by 192 MiB, a multiple of its step within the budget of 204 MiB.\<close>

definition bx_vm :: balloonVM where
  "bx_vm = \<lparr>bvName = ''a'', bvUseTarget = True, bvPoolPath = ''p''\<rparr>"

definition bx_read :: pool_reader where
  "bx_read vm = (Inr 7, Inr 4294967296)"

definition bx_stats :: firecrackerBalloonStats where
  "bx_stats = \<lparr>bsActualMiB = Some 0, bsAvailableMemory = Some 1610612736, bsTargetMiB = Some 0, bsTotalMemory = 2147483648\<rparr>"

definition bx_pool :: "(string \<times> balloonObservation option) list \<Rightarrow> int \<Rightarrow> balloonPool" where
  "bx_pool ms n = \<lparr>bpIdentity = 7, bpLimit = 4294967296, bpMembers = ms, bpInflated = n, bpReturned = 0, bpSaturated = False\<rparr>"

definition bx_obs :: "int \<Rightarrow> int \<Rightarrow> balloonObservation" where
  "bx_obs target now = \<lparr>boSocket = 3, boCgroup = 4, boTarget = target, boActual = 0, boChanged = now, boProgress = now\<rparr>"

lemma bx_prepare:
  "prepareBalloonPools bx_read [bx_vm] [] = [(''p'', bx_pool [(''a'', None)] 0)]"
  "prepareBalloonPools bx_read [bx_vm] [(''p'', bx_pool [(''a'', Some (bx_obs 0 0))] 0)] = [(''p'', bx_pool [(''a'', Some (bx_obs 0 0))] 0)]"
  by code_simp+

lemma bx_plan:
  "plan_balloon ''a'' 3 4 bx_stats (Inr 4294967296) (Inr 3758096384) 0 (bx_pool [(''a'', None)] 0) =
     (Inr None, bx_pool [(''a'', Some (bx_obs 0 0))] 0)"
  "plan_balloon ''a'' 3 4 bx_stats (Inr 4294967296) (Inr 3758096384) 10000000000 (bx_pool [(''a'', Some (bx_obs 0 0))] 0) =
     (Inr (Some 192), bx_pool [(''a'', Some (bx_obs 192 10000000000))] 192)"
  by code_simp+

lemma bx_stats_ok: "machine_stats bx_stats"
  by (simp add: machine_stats_def bx_stats_def)

lemma bx_stats_simps: "bsActualMiB bx_stats = Some 0" "bsTargetMiB bx_stats = Some 0" "bsAvailableMemory bx_stats = Some 1610612736"
  by (simp_all add: bx_stats_def)

lemma bx_vm_simps: "bvName bx_vm = ''a''" "bvPoolPath bx_vm = ''p''"
  by (simp_all add: bx_vm_def)

lemma bx_reads: "reads64 bx_read"
  by (simp add: reads64_def bx_read_def in64_def)

lemma bx_run: "balloon_run [(''p'', bx_pool [(''a'', Some (bx_obs 0 0))] 0)]"
proof -
  have "balloon_sweep bx_read [bx_vm] 0 [] [(''p'', bx_pool [(''a'', Some (bx_obs 0 0))] 0)] []"
    using balloon_sweep.planned [OF balloon_sweep.prepared [of bx_read "[bx_vm]" 0 "[]"], of bx_vm "bx_pool [(''a'', None)] 0" bx_stats
      "Inr 3758096384" 3 4 "Inr 4294967296" "Inr None" "bx_pool [(''a'', Some (bx_obs 0 0))] 0"]
    by (simp add: bx_prepare bx_plan bx_stats_ok bx_vm_simps in64_def)
  from swept [OF idle _ bx_reads this, of "\<lambda>_. Inl ErrNotExist"] show ?thesis
    by (simp add: reportBalloonPools_def report_pool_def)
qed

lemma bx_sweep:
  "balloon_sweep bx_read [bx_vm] 10000000000 [(''p'', bx_pool [(''a'', Some (bx_obs 0 0))] 0)]
     [(''p'', bx_pool [(''a'', Some (bx_obs 192 10000000000))] 192)]
     [\<lparr>bcPool = ''p'', bcName = ''a'', bcActual = 0, bcTarget = 0, bcDesired = 192\<rparr>]"
  using balloon_sweep.planned [OF balloon_sweep.prepared [of bx_read "[bx_vm]" 10000000000 "[(''p'', bx_pool [(''a'', Some (bx_obs 0 0))] 0)]"],
    of bx_vm "bx_pool [(''a'', Some (bx_obs 0 0))] 0" bx_stats "Inr 3758096384" 3 4 "Inr 4294967296" "Inr (Some 192)"
      "bx_pool [(''a'', Some (bx_obs 192 10000000000))] 192"]
  by (simp add: bx_prepare bx_plan bx_stats_ok bx_vm_simps in64_def bx_stats_simps)

theorem balloon_sweep_bounded_witness:
  "bpInflated (bx_pool [(''a'', Some (bx_obs 192 10000000000))] 192) = 192 \<and>
   raised ''p'' [\<lparr>bcPool = ''p'', bcName = ''a'', bcActual = 0, bcTarget = 0, bcDesired = 192\<rparr>] \<le> min 512 (4294967296 div 1048576 div 20)"
  using balloon_sweep_bounded [OF bx_run _ bx_reads bx_sweep, of "''p''" "bx_pool [(''a'', Some (bx_obs 192 10000000000))] 192"]
  by (simp add: bx_pool_def)

theorem balloon_command_safe_witness:
  "192 + max 256 (guest_MiB bx_stats div 8) \<le> 0 + (1610612736 :: int) div 1048576 \<and>
   inflating_sum (bx_pool [(''a'', Some (bx_obs 192 10000000000))] 192) \<le> (3758096384 - (4294967296 - 4294967296 div 4)) div 1048576"
proof -
  have "pool_ok (bx_pool [(''a'', Some (bx_obs 0 0))] 0)"
    by code_simp
  from balloon_command_safe [OF this _ bx_stats_ok _ _ _ bx_plan(2), of 0 0] show ?thesis
    by (simp add: bx_pool_def bx_stats_simps in64_def)
qed

end
