(* ===== verification/Migration.thy ===== *)
theory Migration
  imports Commands
begin

section \<open>Migration of an instance to another host\<close>

text \<open>
  src/internal/provision/migration.go and src/internal/service/migration.go: the source side of a migration. A prepared
  source is stopped, its disk is local and it stays fenced until an administrator aborts the migration; a completed
  migration is final. The frontend drives the steps and may repeat them, so each carries the token of its migration.

  The calls run under the lock of the instance. What they ask of the runner about the disk (\<open>MigrationDisk\<close>) and of the
  file system is an argument.
\<close>

subsection \<open>Preparing\<close>

text \<open>A new record of a migration: the fence is durable before the source is stopped.\<close>

definition begin_migration ::
  "'h host_ops \<Rightarrow> string \<Rightarrow> string \<Rightarrow> string \<Rightarrow> ImportOptions \<Rightarrow> Instance \<Rightarrow> (Migration, 'h) action" where
  "begin_migration ho name target token opts inst =
     bindA (envA ho (\<lambda>env. migrationFence env name)) (\<lambda>_.
     bindA (queryA ho (ListInstanceIntegrations (iID inst))) (\<lambda>bindings.
     bindA (liftR (failIf (bindings \<noteq> []) (ErrMsg ''migration of integrations is not supported''))) (\<lambda>_.
     bindA (seeA (hoEnv ho)) (\<lambda>env.
     let m = \<lparr>mgInstanceID = iID inst, mgToken = token, mgTarget = target,
              mgWasRunning = (iState inst = StateReady \<or> iState inst = StateAwaitingTailnet \<or> instanceHasActiveRuntime env inst),
              mgPhase = Preparing, mgMemoryPoolName = ioMemoryPoolName opts, mgFixedMemory = ioFixedMemory opts\<rparr> in
     bindA (execA ho (\<lambda>_. PutMigration m)) (\<lambda>_. retA m)))))"

definition settle_source :: "'h host_ops \<Rightarrow> string \<Rightarrow> Instance \<Rightarrow> Migration \<Rightarrow> (Migration, 'h) action" where
  "settle_source ho name inst m =
     bindA (resolveRuntime ho inst) (\<lambda>inst.
     bindA (if iState inst \<noteq> StateStopped \<or> iFirecrackerPID inst \<noteq> 0 then StopWithOptions ho name False else retA inst) (\<lambda>inst.
     bindA (hostA (hoHydrate ho inst)) (\<lambda>_.
     let m = m\<lparr>mgPhase := Prepared\<rparr> in
     bindA (execA ho (\<lambda>_. PutMigration m)) (\<lambda>_. retA m))))"

definition PrepareMigration ::
  "'h host_ops \<Rightarrow> string \<Rightarrow> string \<Rightarrow> string \<Rightarrow> ImportOptions \<Rightarrow> (Migration, 'h) action" where
  "PrepareMigration ho name target token opts =
     bindA (queryA ho (GetInstance name)) (\<lambda>inst.
     bindA (liftR (failIf (target = [] \<or> token = [] \<or> iState inst = StateDeleted \<or> iState inst = StateDeleting)
       (ErrMsg ''invalid migration source, target or token''))) (\<lambda>_.
     bindA (liftR (ImportOptions_Validate opts (UsesMemoryPool inst))) (\<lambda>_.
     bindA (maybeA ho (GetMigration (iID inst))) (\<lambda>found.
     let start = bindA (begin_migration ho name target token opts inst) (settle_source ho name inst) in
     case found of
       None \<Rightarrow> start
     | Some m \<Rightarrow>
         if mgPhase m = Aborted then
           (if mgToken m = token then failA (ErrMsg ''recovered migration requires a fresh token'') else start)
         else if mgToken m \<noteq> token \<or> mgTarget m \<noteq> target \<or> mgMemoryPoolName m \<noteq> ioMemoryPoolName opts \<or>
             mgFixedMemory m \<noteq> ioFixedMemory opts
           then failA (ErrMsg ''migration already exists with different token, target or recovery outcome'')
         else if mgPhase m = Prepared \<or> mgPhase m = Completed then retA m
         else settle_source ho name inst m))))"

subsection \<open>Completing and aborting\<close>

definition FinishMigration :: "'h host_ops \<Rightarrow> string \<Rightarrow> string \<Rightarrow> bool \<Rightarrow> (Migration, 'h) action" where
  "FinishMigration ho name token recoverSource =
     bindA (queryA ho (MigrationStatus name)) (\<lambda>m.
     bindA (liftR (failIf (mgToken m \<noteq> token) (ErrMsg ''migration token mismatch''))) (\<lambda>_.
     bindA (if recoverSource then
         (if mgPhase m = Completed then failA (ErrMsg ''completed migration cannot be aborted; delete the source instead'')
          else retA (m\<lparr>mgPhase := Aborted\<rparr>))
       else if mgPhase m \<noteq> Prepared \<and> mgPhase m \<noteq> Completed then failA (ErrMsg ''migration is not prepared'')
       else retA (m\<lparr>mgPhase := Completed\<rparr>)) (\<lambda>m.
     bindA (execA ho (\<lambda>_. PutMigration m)) (\<lambda>_. retA m))))"

subsection \<open>The transfer of the disk\<close>

record MigrationDiskRequest =
  mdAction :: string
  mdName :: string
  mdInstanceID :: string
  mdToken :: string
  mdExpectedDisk :: string

text \<open>The checks of the file system and the call of the runner: the fence of a saved memory, the fence of a cold disk,
  the identity of the disk and \<open>MigrationDisk\<close> with its answer.\<close>

record 'h transfer_ops =
  toRAMFence :: "string \<Rightarrow> 'h \<Rightarrow> unit result \<times> 'h"
  toColdFence :: "Instance \<Rightarrow> 'h \<Rightarrow> unit result \<times> 'h"
  toDiskIdentity :: "string \<Rightarrow> 'h \<Rightarrow> string result \<times> 'h"
  toRunner :: "MigrationDiskRequest \<Rightarrow> 'h \<Rightarrow> string result \<times> 'h"

definition requireExistingInstance :: "'h host_ops \<Rightarrow> 'h transfer_ops \<Rightarrow> string \<Rightarrow> (Instance, 'h) action" where
  "requireExistingInstance ho ts name =
     bindA (envA ho (\<lambda>env _. upgradeFence env name)) (\<lambda>_.
     bindA (ReconcileInstanceRuntime ho name) (\<lambda>inst.
     bindA (liftR (failIf (iState inst = StateDeleted) (ErrMsg ''instance is deleted''))) (\<lambda>_.
     bindA (liftR (failIf (iState inst = StateStopping \<or> iState inst = StateDeleting)
       (ErrMsg ''instance has unfinished lifecycle cleanup''))) (\<lambda>_.
     bindA (if iState inst = StateStopped \<and> iFirecrackerPID inst = 0 then hostA (hoHydrate ho inst) else hostA (toColdFence ts inst)) (\<lambda>_.
     bindA (liftR (failIf (iRootFSPath inst = []) (ErrMsg ''instance is missing a rootfs path''))) (\<lambda>_.
     bindA (wrapA (ErrMsg ''stat rootfs'') (envA ho (\<lambda>env _. heStat env (iRootFSPath inst)))) (\<lambda>_.
     retA inst)))))))"

definition requireStoppedInstance :: "'h host_ops \<Rightarrow> 'h transfer_ops \<Rightarrow> string \<Rightarrow> (Instance, 'h) action" where
  "requireStoppedInstance ho ts name =
     bindA (hostA (toRAMFence ts name)) (\<lambda>_.
     bindA (requireExistingInstance ho ts name) (\<lambda>inst.
     bindA (maybeA ho (GetImportReceipt (iID inst))) (\<lambda>receipt.
     bindA (liftR (failIf (case receipt of Some r \<Rightarrow> irPhase r \<noteq> Imported | None \<Rightarrow> False)
       (ErrMsg ''instance is fenced by incomplete import''))) (\<lambda>_.
     bindA (liftR (failIf (iFirecrackerPID inst > 0) (ErrMsg ''instance must be stopped before backup or restore''))) (\<lambda>_.
     bindA (liftR (failIf (iState inst \<noteq> StateStopped) (ErrMsg ''instance must be stopped before backup or restore''))) (\<lambda>_.
     retA inst))))))"

definition source_actions :: "string list" where
  "source_actions = [''prepare'', ''send-base'', ''send-disk'', ''cleanup'']"

definition target_actions :: "string list" where
  "target_actions = [''check'', ''base-present'', ''receive-base'', ''receive-disk'']"

definition transfer_admit :: "'h host_ops \<Rightarrow> 'h transfer_ops \<Rightarrow> MigrationDiskRequest \<Rightarrow> (MigrationDiskRequest, 'h) action" where
  "transfer_admit ho ts q =
     bindA (requireStoppedInstance ho ts (mdName q)) (\<lambda>inst.
     bindA (queryA ho (GetMigration (iID inst))) (\<lambda>m.
     bindA (liftR (failIf (mgToken m \<noteq> mdToken q \<or>
         (mgPhase m \<noteq> Prepared \<and> \<not> (mdAction q = ''cleanup'' \<and> mgPhase m = Completed)))
       (ErrMsg ''native transfer requires the matching prepared migration''))) (\<lambda>_.
     let q = q\<lparr>mdInstanceID := iID inst\<rparr> in
     if mdAction q = ''prepare'' then
       bindA (hostA (toDiskIdentity ts (iRootFSPath inst))) (\<lambda>disk. retA (q\<lparr>mdExpectedDisk := disk\<rparr>))
     else retA q)))"

definition TransferMigrationDisk :: "'h host_ops \<Rightarrow> 'h transfer_ops \<Rightarrow> MigrationDiskRequest \<Rightarrow> (string, 'h) action" where
  "TransferMigrationDisk ho ts q =
     bindA (if mdAction q \<in> set source_actions then transfer_admit ho ts q
            else if mdAction q \<in> set target_actions then retA q
            else failA (ErrMsg ''unsupported native transfer action'')) (\<lambda>q.
     hostA (toRunner ts q))"

subsection \<open>The command\<close>

datatype migration_reply = MigrationState Migration | ImportState ImportReceipt | MigrationError error

definition reported :: "('a, 'h) action \<Rightarrow> ('a \<Rightarrow> migration_reply) \<Rightarrow> (migration_reply \<times> int, 'h) action" where
  "reported m f = bindA (tryA m) (\<lambda>r. case r of Inl e \<Rightarrow> retA (MigrationError e, 1) | Inr x \<Rightarrow> retA (f x, 0))"

definition migration_step :: "'h app \<Rightarrow> Actor \<Rightarrow> string list \<Rightarrow> (migration_reply \<times> int, 'h) action" where
  "migration_step ap actor args =
     (let ho = apHost ap; refuse = (\<lambda>e. retA (MigrationError (ErrMsg e), 1)) in
      if args ! 1 = ''prepare'' \<and> length args \<ge> 5 then
        (case parseImportOptions (''import'' # drop 5 args) of
           Inl e \<Rightarrow> retA (MigrationError e, 1)
         | Inr opts \<Rightarrow> reported (PrepareMigration ho (args ! 2) (args ! 3) (args ! 4) opts) MigrationState)
      else if args ! 1 = ''complete'' \<and> length args = 4 then reported (FinishMigration ho (args ! 2) (args ! 3) False) MigrationState
      else if args ! 1 = ''status'' \<and> length args = 3 then reported (queryA ho (MigrationStatus (args ! 2))) MigrationState
      else if args ! 1 = ''receipt'' \<and> length args = 3 then
        reported (bindA (queryA ho (lookupVisibleInstance (apConfig ap) actor (args ! 2))) (\<lambda>inst.
          queryA ho (GetImportReceipt (iID inst)))) ImportState
      else if args ! 1 = ''abort'' \<and> length args = 5 \<and> args ! 4 = ''--confirm-destination-destroyed'' then
        (if \<not> isAdmin (apConfig ap) actor then refuse ''migration recovery requires admin access''
         else reported (FinishMigration ho (args ! 2) (args ! 3) True) MigrationState)
      else refuse ''invalid migration command; abort requires admin and --confirm-destination-destroyed'')"

definition cmdMigration :: "'h app \<Rightarrow> Actor \<Rightarrow> string list \<Rightarrow> (migration_reply \<times> int, 'h) action" where
  "cmdMigration ap actor args =
     (if length args < 3 then retA (MigrationError (ErrMsg ''usage: migration''), 1)
      else
        bindA (bindA (tryA (queryA (apHost ap) (lookupVisibleInstance (apConfig ap) actor (args ! 2)))) (\<lambda>r. case r of
            Inl e \<Rightarrow> retA (MigrationError e, 1)
          | Inr _ \<Rightarrow> migration_step ap actor args)) (\<lambda>r.
        bindA (seeA (apSync ap)) (\<lambda>_. retA r)))"

end
