(* ===== verification/MigrationProofs.thy ===== *)
theory MigrationProofs
  imports Migration RuntimeProps
begin

section \<open>A migrated source does not come back\<close>

text \<open>
  After a migration has been prepared the instance is stopped, no attempt under its name can be running, and this
  stays so whatever is done with it until the migration is aborted. \<open>migration_runner\<close> adds to the contract of the
  runner that fetching a disk launches nothing.
\<close>

subsection \<open>Rows\<close>

definition offline :: "string \<Rightarrow> db \<Rightarrow> bool" where
  "offline name d \<longleftrightarrow> (case row_find (\<lambda>r. iName r = name) (instances d) of
     None \<Rightarrow> False | Some r \<Rightarrow> iState r = StateStopped \<and> iFirecrackerPID r = 0)"

definition row_id :: "string \<Rightarrow> db \<Rightarrow> string option" where
  "row_id name d = map_option iID (row_find (\<lambda>r. iName r = name) (instances d))"

text \<open>The migration of the instance of a name.\<close>

definition migration_of :: "string \<Rightarrow> db \<Rightarrow> Migration option" where
  "migration_of name d = (case row_id name d of None \<Rightarrow> None | Some i \<Rightarrow> row_find (\<lambda>m. mgInstanceID m = i) (migrations d))"

lemma row_events [simp]:
  "offline name (d\<lparr>event_sequence := n, instance_events := evs\<rparr>) = offline name d"
  "row_id name (d\<lparr>event_sequence := n, instance_events := evs\<rparr>) = row_id name d"
  by (simp_all add: offline_def row_id_def)

lemma stopped_row_offline: "stopped_row name d \<Longrightarrow> offline name d"
  by (auto simp: stopped_row_def offline_def split: option.splits)

lemma GetInstance_row:
  "GetInstance name d = Inr inst \<Longrightarrow> row_id name d = Some (iID inst) \<and> iName inst = name \<and>
    (iState inst = StateStopped \<and> iFirecrackerPID inst = 0 \<longleftrightarrow> offline name d)"
  by (auto simp: GetInstance_def row_id_def offline_def dest: scanInstance_fields row_find_Some split: option.splits)

lemma UpdateInstance_row_id:
  assumes "UpdateInstance now inst d = Inr d'"
  shows "row_id name d' = row_id name d" "migrations d' = migrations d"
proof -
  define f where "f r = stopped_update r (update_columns now (normalizeInstanceMemory inst) r)" for r
  have d': "instances d' = row_update (\<lambda>r. iName r = iName inst) f (instances d)" "migrations d' = migrations d"
    using assms by (auto simp: UpdateInstance_def Let_def bindR_Inr_iff f_def [abs_def])
  have same: "iName (f r) = iName r" "iID (f r) = iID r" for r
    by (simp_all add: f_def update_columns_def stopped_update_def)
  show "row_id name d' = row_id name d"
    unfolding row_id_def d' by (subst row_find_update_key) (simp_all add: same option.map_comp comp_def if_distrib cong: if_cong)
  show "migrations d' = migrations d" by (rule d')
qed

lemma UpdateRuntime_row:
  assumes "UpdateInstanceRuntime now observed updated d = Inr d'"
  shows "row_id name d' = row_id name d" "migrations d' = migrations d"
    "is_key iName (instances d) \<Longrightarrow> iState updated = StateStopped \<Longrightarrow> iFirecrackerPID updated = 0 \<Longrightarrow> offline (iName observed) d'"
proof -
  define f where "f r = stopped_update r (r\<lparr>iState := iState updated, iTailscaleName := iTailscaleName updated,
           iTailscaleIP := iTailscaleIP updated, iLastError := iLastError updated,
           iUpdatedAt := timeString now (iUpdatedAt updated), iTailnetNodeID := iTailnetNodeID updated,
           iFirecrackerPID := iFirecrackerPID updated\<rparr>)" for r :: instance_row
  have d': "instances d' = row_update (runtime_match now observed) f (instances d)" "migrations d' = migrations d"
    and one: "row_count (runtime_match now observed) (instances d) = 1"
    using assms by (auto simp: UpdateInstanceRuntime_def Let_def f_def [abs_def] split: if_split_asm)
  have "row_find (\<lambda>r. iName r = n) (instances d') =
      map_option (\<lambda>r. if runtime_match now observed r then f r else r) (row_find (\<lambda>r. iName r = n) (instances d))" for n
    unfolding d' by (rule row_find_update_key) (simp add: f_def)
  note rows = this
  have same: "iID (f r) = iID r" for r by (simp add: f_def stopped_update_def)
  show "row_id name d' = row_id name d"
    using same by (simp add: row_id_def rows option.map_comp comp_def if_distrib cong: if_cong)
  show "migrations d' = migrations d" by (rule d')
  show "offline (iName observed) d'" if "is_key iName (instances d)" "iState updated = StateStopped" "iFirecrackerPID updated = 0"
  proof -
    obtain r where r: "r \<in> set (instances d)" "runtime_match now observed r"
      using one by (rule row_count_oneE)
    then have "row_find (\<lambda>x. iName x = iName observed) (instances d) = Some r"
      using that(1) row_find_key [of iName "instances d" r] by (simp add: runtime_match_def)
    then show ?thesis
      using r that(2, 3) by (simp add: offline_def rows f_def)
  qed
qed

lemma upsert_find: "row_find (\<lambda>r. k r = k x) (row_upsert (\<lambda>r. k r = k x) x t) = Some x"
proof (cases "row_exists (\<lambda>r. k r = k x) t")
  case True
  then show ?thesis
    unfolding row_upsert_def by (induction t) (auto simp: row_exists_def row_update_def row_find_def)
next
  case False
  then show ?thesis
    unfolding row_upsert_def by (induction t) (auto simp: row_exists_def row_find_def)
qed

lemma PutMigration_of:
  assumes "PutMigration m d = Inr d'"
  shows "row_id name d' = row_id name d" "offline name d' = offline name d" "instances d' = instances d"
    "row_id name d = Some (mgInstanceID m) \<Longrightarrow> migration_of name d' = Some m"
  using assms upsert_find [of mgInstanceID m "migrations d"]
  by (auto simp: PutMigration_def row_id_def offline_def migration_of_def split: option.splits)

subsection \<open>What a stop keeps of the database\<close>

definition same_source :: "string \<Rightarrow> db \<Rightarrow> db \<Rightarrow> bool" where
  "same_source name d0 d \<longleftrightarrow> row_id name d = row_id name d0 \<and> migrations d = migrations d0"

lemma same_source_events [simp]:
  "same_source name d0 (d\<lparr>event_sequence := n, instance_events := evs\<rparr>) = same_source name d0 d"
  by (simp add: same_source_def)

lemma dwp_persist_source:
  "same_source name d0 d \<Longrightarrow> (\<And>d'. same_source name d0 d' \<Longrightarrow> Q () d') \<Longrightarrow> (\<And>e. E e d) \<Longrightarrow> dwp (persistInstance ho inst) Q E d"
  unfolding persistInstance_def by (rule dwp_exec) (auto simp: same_source_def UpdateInstance_row_id)

lemma dwp_resolve_source:
  assumes "same_source name d0 d" "\<And>i d'. same_source name d0 d' \<Longrightarrow> Q i d'" "\<And>e d'. same_source name d0 d' \<Longrightarrow> E e d'"
  shows "dwp (resolveRuntime ho inst) Q E d"
proof -
  have store: "dwp (updateRuntime ho inst i) (\<lambda>_. dwp (retA i) Q E) E d" for i
    unfolding updateRuntime_def by (rule dwp_exec) (use assms in \<open>auto simp: same_source_def UpdateRuntime_row(1, 2) intro: dwp_ret\<close>)
  show ?thesis
    unfolding resolveRuntime_def observe_outcome_def
    by (intro dwp_if dwp_rules store) (use assms in \<open>auto intro: dwp_ret dwp_bind dwp_touch store\<close>)
qed

lemma dwp_stop_source:
  "dwp (StopWithOptions ho name' save) (\<lambda>_. same_source name d) (\<lambda>_. same_source name d) d"
  unfolding StopWithOptions_def stopFirecrackerWithState_def
  by (intro dwp_rules dwp_lift dwp_persist_source [where name = name and ?d0.0 = d]
      dwp_resolve_source [where name = name and ?d0.0 = d]) (auto simp: same_source_def)

subsection \<open>Operations on an instance\<close>

datatype migration_op = MLife lifecycle_op | MPrepare string string ImportOptions | MFinish string bool

fun migration_run :: "'h host_ops \<Rightarrow> migration_op \<Rightarrow> string \<Rightarrow> (unit, 'h) action" where
  "migration_run ho (MLife op) name = lifecycle_run ho op name"
| "migration_run ho (MPrepare target token opts) name = bindA (PrepareMigration ho name target token opts) (\<lambda>_. retA ())"
| "migration_run ho (MFinish token recoverSource) name = bindA (FinishMigration ho name token recoverSource) (\<lambda>_. retA ())"

text \<open>A migration that a fence refers to: prepared or completed, and completed when \<open>c\<close> is set.\<close>

definition fences :: "string \<Rightarrow> string \<Rightarrow> string \<Rightarrow> bool \<Rightarrow> db \<Rightarrow> bool" where
  "fences name token target c d \<longleftrightarrow> (\<exists>m. migration_of name d = Some m \<and> mgToken m = token \<and> mgTarget m = target \<and>
     (mgPhase m = Completed \<or> \<not> c \<and> mgPhase m = Prepared))"

lemma GetMigration_of: "GetInstance name d = Inr inst \<Longrightarrow> GetMigration (iID inst) d = (case migration_of name d of None \<Rightarrow> Inl ErrNoRows | Some m \<Rightarrow> Inr m)"
  by (auto simp: migration_of_def GetMigration_def dest: GetInstance_row)

lemma MigrationStatus_of:
  assumes "MigrationStatus name d = Inr m"
  shows "migration_of name d = Some m" "row_id name d = Some (mgInstanceID m)"
proof -
  obtain i where i: "GetInstance name d = Inr i" "GetMigration (iID i) d = Inr m"
    using assms by (auto simp: MigrationStatus_def bindR_Inr_iff)
  then have f: "row_find (\<lambda>m. mgInstanceID m = iID i) (migrations d) = Some m"
    by (simp add: GetMigration_def split: option.splits)
  show "migration_of name d = Some m" "row_id name d = Some (mgInstanceID m)"
    using GetInstance_row [OF i(1)] f row_find_Some [OF f] by (simp_all add: migration_of_def)
qed

lemma fence_refuses: "fences name token target c d \<Longrightarrow> migrationFence env name d \<noteq> Inr u"
  by (auto simp: fences_def migrationFence_def migrationOnlyFence_def MigrationStatus_def bindR_Inr_iff GetMigration_of split: sum.splits)

subsection \<open>The runner\<close>

locale migration_runner = runner_contract ho ok vacant only net
  for ho :: "'h host_ops" and ok vacant only net +
  assumes hydrate_quiet: "hoHydrate ho inst h = (u, h') \<Longrightarrow> undisturbed ok vacant only h h' \<and> net i h' = net i h"
begin

lemma stable_vacant: "stable (\<lambda>h. ok h \<and> vacant name h)"
  unfolding stable_def undisturbed_def by blast

lemma harmless_more: "harmless (hoHydrate ho inst)" "harmless (hoResolve ho q)"
  using hydrate_quiet resolve_quiet by (simp_all add: harmless_def)

lemma st_query:
  assumes "stable P" "P (snd w)" "\<And>x w'. P (snd w') \<Longrightarrow> fst w' = fst w \<Longrightarrow> f (fst w) = Inr x \<Longrightarrow> Q x w'"
    "\<And>e w'. P (snd w') \<Longrightarrow> fst w' = fst w \<Longrightarrow> E e w'"
  shows "wp (queryA ho f) Q E w"
  unfolding queryA_def stmtA_def wp_bind
  by (rule st_see [OF assms(1, 2) harmless_ops(1)])
    (use assms(3, 4) in \<open>auto simp: wp_def failA_def readA_def split: option.split sum.split\<close>)

lemma st_env:
  assumes "stable P" "P (snd w)" "\<And>env x w'. P (snd w') \<Longrightarrow> fst w' = fst w \<Longrightarrow> f env (fst w) = Inr x \<Longrightarrow> Q x w'"
    "\<And>e w'. P (snd w') \<Longrightarrow> fst w' = fst w \<Longrightarrow> E e w'"
  shows "wp (envA ho f) Q E w"
  unfolding envA_def wp_bind
proof (rule st_see [OF assms(1, 2) harmless_ops(4)], goal_cases)
  case (1 env w')
  show ?case
    by (rule st_query [OF assms(1) 1(1)]) (use 1(2) assms(3, 4) in auto)
qed

text \<open>A stop that succeeds leaves the name vacant.\<close>

definition quiet_at :: "string \<Rightarrow> db \<times> 'h \<Rightarrow> bool" where
  "quiet_at name w \<longleftrightarrow> ok (snd w) \<and> vacant name (snd w)"

lemma clean_quiet_at:
  "quiet_at name w \<Longrightarrow> (\<And>x w'. quiet_at name w' \<Longrightarrow> fst w' = fst w \<Longrightarrow> Q x w') \<Longrightarrow> (\<And>e w'. quiet_at name w' \<Longrightarrow> fst w' = fst w \<Longrightarrow> E e w') \<Longrightarrow>
    wp (cleanupNetworking ho inst) Q E w"
  using clean_quiet unfolding quiet_at_def undisturbed_def cleanupNetworking_def hostA_def wp_def
  by (auto split: prod.split sum.split)

lemma touch_quiet_at:
  "quiet_at name w \<Longrightarrow> (\<And>now w'. quiet_at name w' \<Longrightarrow> fst w' = fst w \<Longrightarrow> Q (inst\<lparr>iUpdatedAt := now\<rparr>) w') \<Longrightarrow> wp (touchA ho inst) Q E w"
  unfolding touchA_def wp_bind quiet_at_def
  by (rule st_see [OF stable_vacant [of name] _ harmless_ops(2)]) (auto simp: wp_ret)

lemma exec_quiet_at:
  "quiet_at name w \<Longrightarrow> (\<And>now d' w'. quiet_at name w' \<Longrightarrow> f now (fst w) = Inr d' \<Longrightarrow> fst w' = d' \<Longrightarrow> Q () w') \<Longrightarrow>
    (\<And>e w'. quiet_at name w' \<Longrightarrow> fst w' = fst w \<Longrightarrow> E e w') \<Longrightarrow> wp (execA ho f) Q E w"
  unfolding quiet_at_def by (rule st_exec [OF stable_vacant [of name]]) auto

lemma event_quiet_at:
  assumes "quiet_at name w" "\<And>w'. quiet_at name w' \<Longrightarrow> Q () w'"
  shows "wp (recordEvent ho i t m p) Q E w"
  unfolding recordEvent_def wp_simps
  by (rule st_see [OF stable_vacant [of name] _ harmless_ops(2)])
    (use assms in \<open>auto simp: quiet_at_def intro!: st_exec [OF stable_vacant [of name]]\<close>)

lemma stop_vacant:
  assumes w: "at name h0 b q w"
  shows "wp (StopWithOptions ho name save) (\<lambda>_. quiet_at name) (\<lambda>_ _. True) w"
proof -
  have finish: "wp (bindA (stopFirecrackerWithState ho i save) (\<lambda>_.
     bindA (cleanupNetworking ho i) (\<lambda>_.
     bindA (touchA ho (i\<lparr>iState := StateStopped, iFirecrackerPID := 0, iLastError := []\<rparr>)) (\<lambda>i.
     bindA (persistInstance ho i) (\<lambda>_.
     bindA (recordEvent ho (iID i) ''stop'' ''instance stopped'' None) (\<lambda>_. retA i)))))) (\<lambda>_. quiet_at name) (\<lambda>_ _. True) w'"
    if i: "at name h0 True (attempt_of i) w'" "iName i = name" "iStartRequestID i \<noteq> []" for i w'
    unfolding wp_bind wp_ret persistInstance_def
  proof (rule at_stopVM [OF i], goal_cases)
    case (1 w')
    then have "quiet_at name w'" by (simp add: quiet_at_def at_def kept_def)
    then show ?case
      by (rule clean_quiet_at) (auto intro!: touch_quiet_at exec_quiet_at event_quiet_at)
  qed simp
  have resolved: "wp (resolveRuntime ho inst) (\<lambda>i. wp (bindA (stopFirecrackerWithState ho i save) (\<lambda>_.
     bindA (cleanupNetworking ho i) (\<lambda>_.
     bindA (touchA ho (i\<lparr>iState := StateStopped, iFirecrackerPID := 0, iLastError := []\<rparr>)) (\<lambda>i.
     bindA (persistInstance ho i) (\<lambda>_.
     bindA (recordEvent ho (iID i) ''stop'' ''instance stopped'' None) (\<lambda>_. retA i)))))) (\<lambda>_. quiet_at name) (\<lambda>_ _. True)) (\<lambda>_ _. True) w'"
    if i: "at name h0 b q w'" "iName inst = name" "iStartRequestID inst \<noteq> []" "iState inst = StateStopping" for inst w'
  proof (rule at_resolve [OF i(1-3)], goal_cases)
    case (2 j w'')
    then have "attempt_of j = attempt_of inst" "iName j = name" "iStartRequestID j \<noteq> []"
      using i(2, 3) by (simp_all add: same_attempt_def attempt_of_def)
    then show ?case using finish [of j w''] 2(1) by simp
  qed (simp_all add: i(4))
  show ?thesis
    unfolding StopWithOptions_def wp_bind
  proof (rule at_query [OF w], goal_cases)
    case (1 inst w')
    then have inst: "iStartRequestID inst \<noteq> []" "iName inst = name" using managed_get w by (auto simp: at_def)
    show ?case
      unfolding wp_lift
      by (auto simp: inst intro!: at_touch [OF 1(1)] at_persist at_event resolved [unfolded wp_bind] split: sum.split)
  qed simp
qed

text \<open>What resolving the runtime says when it finds the instance stopped.\<close>

definition stopped_means :: "string \<Rightarrow> Instance \<Rightarrow> db \<times> 'h \<Rightarrow> bool" where
  "stopped_means name i w \<longleftrightarrow> (iState i = StateStopped \<and> iFirecrackerPID i = 0 \<longrightarrow> quiet_at name w \<and> offline name (fst w))"

lemma resolve_stopped:
  assumes "ok (snd w)" "GetInstance name (fst w) = Inr inst" "iStartRequestID inst \<noteq> []" "iState inst \<noteq> StateDeleted"
    "is_key iName (instances (fst w))"
  shows "wp (resolveRuntime ho inst) (stopped_means name) (\<lambda>_ _. True) w"
proof -
  obtain d h where dh: "w = (d, h)" by fastforce
  obtain resp e h' where r: "hoResolve ho (attempt_of inst) h = ((resp, e), h')" by (metis prod.exhaust)
  have name: "iName inst = name" and off: "iState inst = StateStopped \<and> iFirecrackerPID inst = 0 \<Longrightarrow> offline name d"
    using GetInstance_row [OF assms(2)] by (simp_all add: dh)
  have ok': "ok h'"
    using resolve_quiet [OF r] assms(1) by (simp add: undisturbed_def dh)
  define store where "store i = (if iState inst = iState i \<and> iFirecrackerPID inst = iFirecrackerPID i then retA i
      else bindA (touchA ho i) (\<lambda>i. bindA (updateRuntime ho inst i) (\<lambda>_. retA i)))" for i
  have running: "wp (store i) (stopped_means name) (\<lambda>_ _. True) w'" if "0 < iFirecrackerPID i" for i w'
    using that unfolding store_def touchA_def by (auto simp: wp_simps stopped_means_def intro!: wp_mono [OF wp_true])
  have absent: "wp (store i) (stopped_means name) (\<lambda>_ _. True) w'" if q: "quiet_at name w'" "fst w' = d" for i w'
  proof (cases "iState inst = iState i \<and> iFirecrackerPID inst = iFirecrackerPID i")
    case True
    then show ?thesis using q off by (auto simp: store_def wp_ret stopped_means_def)
  next
    case False
    have "stopped_means name (i\<lparr>iUpdatedAt := now\<rparr>) w2" if "quiet_at name w2" "UpdateInstanceRuntime t inst (i\<lparr>iUpdatedAt := now\<rparr>) d = Inr (fst w2)" for now t w2
      using that UpdateRuntime_row(3) [OF that(2)] assms(5) name by (simp add: stopped_means_def dh)
    with False q show ?thesis
      by (simp only: store_def if_False simp_thms wp_bind updateRuntime_def)
        (rule touch_quiet_at [OF q(1)], rule exec_quiet_at, assumption, auto simp: wp_ret)
  qed
  have "wp (observe_outcome ho inst resp) (\<lambda>i. wp (store i) (stopped_means name) (\<lambda>_ _. True)) (\<lambda>_ _. True) (d, h')"
  proof (cases "spOutcome resp = StartAbsent")
    case True
    then have "quiet_at name (d, h')"
      using resolve_absent [of h "attempt_of inst" resp e h'] r assms(1) ok' name by (simp add: quiet_at_def dh attempt_of_def)
    with True show ?thesis
      unfolding observe_outcome_def
      by (auto simp: wp_bind wp_ret simp del: split_paired_All intro!: absent clean_quiet_at)
  next
    case False
    then show ?thesis
      unfolding observe_outcome_def by (auto simp: wp_simps(1, 2) intro!: running)
  qed
  then have "wp (checkedResult ho inst) (\<lambda>x. wp (observe_outcome ho inst x) (\<lambda>i. wp (store i) (stopped_means name) (\<lambda>_ _. True)) (\<lambda>_ _. True))
      (\<lambda>_ _. True) w"
    by (cases e) (simp_all add: checkedResult_def startResult_def wp_def seeA_def bindA_def retA_def failA_def dh r)
  then show ?thesis
    unfolding resolveRuntime_def store_def [symmetric] using assms(3, 4) by (simp add: wp_bind wp_wrap)
qed

subsection \<open>Preparing\<close>

lemma dwp_wp: "dwp m Q E (fst w) \<Longrightarrow> wp m (\<lambda>x w. Q x (fst w)) (\<lambda>e w. E e (fst w)) w"
  by (cases w) (simp add: dwp_def)

definition settled_source :: "string \<Rightarrow> db \<times> 'h \<Rightarrow> db \<times> 'h \<Rightarrow> bool" where
  "settled_source name w w' \<longleftrightarrow> quiet_at name w' \<and> offline name (fst w') \<and> same_source name (fst w) (fst w')"

lemma stop_settles:
  assumes "at name h0 b q w"
  shows "wp (StopWithOptions ho name save) (\<lambda>_. settled_source name w) (\<lambda>_ _. True) w"
  by (rule wp_mono [OF wp_conj [OF stop_vacant [OF assms] wp_conj [OF dwp_wp [OF stop_durable] dwp_wp [OF dwp_stop_source]]]])
    (auto simp: settled_source_def stopped_row_offline)

lemma settle_prepares:
  assumes w: "at name h0 b q w" and inst: "GetInstance name (fst w) = Inr inst" "iState inst \<noteq> StateDeleted"
    and key: "is_key iName (instances (fst w))" and m: "mgInstanceID m = iID inst"
  shows "wp (settle_source ho name inst m) (\<lambda>m' w'. m' = m\<lparr>mgPhase := Prepared\<rparr> \<and> quiet_at name w' \<and> offline name (fst w') \<and>
    migration_of name (fst w') = Some m') (\<lambda>_ _. True) w"
proof -
  have n: "iName inst = name" "iStartRequestID inst \<noteq> []" "row_id name (fst w) = Some (iID inst)"
    using GetInstance_row [OF inst(1)] managed_get [of name "fst w" inst] w inst(1) by (auto simp: at_def)
  have ok: "ok (snd w)" using w by (simp add: at_def kept_def)
  have src: "dwp (resolveRuntime ho inst) (\<lambda>_. same_source name (fst w)) (\<lambda>_. same_source name (fst w)) (fst w)"
    by (rule dwp_resolve_source [where name = name and ?d0.0 = "fst w"]) (auto simp: same_source_def)
  have "wp (resolveRuntime ho inst) (\<lambda>i w'. at name h0 True (attempt_of inst) w') (\<lambda>_ _. True) w"
    by (rule at_resolve [OF w n(1, 2) inst(2)]) simp_all
  from wp_conj [OF this wp_conj [OF resolve_stopped [OF ok inst(1) n(2) inst(2) key] dwp_wp [OF src]]]
  have resolved: "wp (resolveRuntime ho inst) (\<lambda>i w'. at name h0 True (attempt_of inst) w' \<and> stopped_means name i w' \<and>
      same_source name (fst w) (fst w')) (\<lambda>_ _. True) w"
    by (rule wp_mono) auto
  have stopped: "wp (if iState i \<noteq> StateStopped \<or> iFirecrackerPID i \<noteq> 0 then StopWithOptions ho name False else retA i)
      (\<lambda>_. settled_source name w) (\<lambda>_ _. True) w'"
    if "at name h0 True (attempt_of inst) w'" "stopped_means name i w'" "same_source name (fst w) (fst w')" for i w'
  proof (cases "iState i \<noteq> StateStopped \<or> iFirecrackerPID i \<noteq> 0")
    case True
    then show ?thesis
      using that(3) by (simp only: if_True) (rule wp_mono [OF stop_settles [OF that(1)]], auto simp: settled_source_def same_source_def)
  qed (use that in \<open>auto simp: wp_ret settled_source_def stopped_means_def\<close>)
  have finish: "wp (hostA (hoHydrate ho i)) (\<lambda>_. wp (execA ho (\<lambda>_. PutMigration (m\<lparr>mgPhase := Prepared\<rparr>)))
      (\<lambda>_ w'. quiet_at name w' \<and> offline name (fst w') \<and> migration_of name (fst w') = Some (m\<lparr>mgPhase := Prepared\<rparr>)) (\<lambda>_ _. True))
      (\<lambda>_ _. True) w'" if s: "settled_source name w w'" for i w'
  proof (rule st_host [OF stable_vacant [of name] _ harmless_more(1)], goal_cases)
    case 1
    show ?case using s by (simp add: settled_source_def quiet_at_def)
  next
    case (2 x w2)
    show ?case
    proof (rule exec_quiet_at [of name])
      show "quiet_at name w2" using 2 by (simp add: quiet_at_def)
      show "quiet_at name w3 \<and> offline name (fst w3) \<and> migration_of name (fst w3) = Some (m\<lparr>mgPhase := Prepared\<rparr>)"
        if "quiet_at name w3" "PutMigration (m\<lparr>mgPhase := Prepared\<rparr>) (fst w2) = Inr d'" "fst w3 = d'" for d' w3
        using that(1, 3) PutMigration_of [OF that(2)] s 2(2) n(3) m by (simp add: settled_source_def same_source_def)
    qed simp
  qed simp
  show ?thesis
    unfolding settle_source_def Let_def wp_bind wp_ret
    by (rule wp_mono [OF resolved], elim conjE, rule wp_mono [OF stopped], assumption, assumption, assumption, rule wp_mono [OF finish],
        assumption) (auto elim!: wp_mono)
qed

definition held :: "string \<Rightarrow> string \<Rightarrow> string \<Rightarrow> bool \<Rightarrow> db \<times> 'h \<Rightarrow> bool" where
  "held name token target c w \<longleftrightarrow> quiet_at name w \<and> offline name (fst w) \<and> fences name token target c (fst w)"

lemma begin_at:
  assumes "at name h0 b q w"
  shows "wp (begin_migration ho name target token opts inst) (\<lambda>m w'. at name h0 b q w' \<and> instances (fst w') = instances (fst w) \<and>
    mgInstanceID m = iID inst \<and> mgToken m = token \<and> mgTarget m = target) (\<lambda>_ _. True) w"
  unfolding begin_migration_def envA_def wp_bind Let_def wp_lift wp_ret
proof (rule at_see [OF assms harmless_ops(4)], rule at_query, assumption, rule at_query, assumption, goal_cases)
  case (1 env w1 u w2 bindings w3)
  have put: "wp (execA ho (\<lambda>_. PutMigration m)) (\<lambda>_ w'. at name h0 b q w' \<and> instances (fst w') = instances (fst w))
      (\<lambda>_ _. True) w4"
    if "at name h0 b q w4" "fst w4 = fst w" for m w4
    by (rule st_exec [OF stable_at [of name h0 b q]]) (use that in \<open>auto simp: at_def PutMigration_def managed_def\<close>)
  show ?case
    by (cases "bindings = []") (use 1 in \<open>auto simp: failIf_def intro!: at_see [OF _ harmless_ops(4)] put\<close>)
qed simp_all

lemma st_maybe:
  assumes "stable P" "P (snd w)" "\<And>x w'. P (snd w') \<Longrightarrow> fst w' = fst w \<Longrightarrow> f (fst w) = Inr x \<Longrightarrow> Q (Some x) w'"
    "\<And>w'. P (snd w') \<Longrightarrow> fst w' = fst w \<Longrightarrow> Q None w'" "\<And>e w'. P (snd w') \<Longrightarrow> fst w' = fst w \<Longrightarrow> E e w'"
  shows "wp (maybeA ho f) Q E w"
  unfolding maybeA_def wp_bind wp_try by (rule st_query [OF assms(1, 2)]) (use assms(3-5) in \<open>auto simp: wp_simps(1, 2)\<close>)

lemma prepare_held:
  assumes w: "at name h0 b q w" and key: "is_key iName (instances (fst w))"
    and new: "\<And>m. migration_of name (fst w) = Some m \<Longrightarrow> mgPhase m \<noteq> Prepared \<and> mgPhase m \<noteq> Completed"
  shows "wp (PrepareMigration ho name target token opts) (\<lambda>m w'. mgPhase m = Prepared \<and> held name token target False w') (\<lambda>_ _. True) w"
proof -
  have settle: "wp (settle_source ho name inst m) (\<lambda>m w'. mgPhase m = Prepared \<and> held name token target False w') (\<lambda>_ _. True) w'"
    if "at name h0 b q w'" "instances (fst w') = instances (fst w)" "GetInstance name (fst w) = Inr inst" "iState inst \<noteq> StateDeleted"
      "mgInstanceID m = iID inst" "mgToken m = token" "mgTarget m = target" for inst m w'
  proof (rule wp_mono [OF settle_prepares [OF that(1) _ that(4)]], goal_cases)
    case 1
    show ?case using that(2, 3) by (simp add: GetInstance_def)
  next
    case 2
    show ?case using key that(2) by simp
  qed (use that in \<open>auto simp: held_def fences_def\<close>)
  have start: "wp (bindA (begin_migration ho name target token opts inst) (settle_source ho name inst))
      (\<lambda>m w'. mgPhase m = Prepared \<and> held name token target False w') (\<lambda>_ _. True) w'"
    if "at name h0 b q w'" "fst w' = fst w" "GetInstance name (fst w) = Inr inst" "iState inst \<noteq> StateDeleted" for inst w'
    unfolding wp_bind by (rule wp_mono [OF begin_at [OF that(1)]], elim conjE, rule settle) (use that in simp_all)
  show ?thesis
    unfolding PrepareMigration_def wp_bind Let_def
  proof (rule at_query [OF w], goal_cases)
    case (1 inst w1)
    have found: "mgInstanceID m = iID inst \<and> mgPhase m \<noteq> Prepared \<and> mgPhase m \<noteq> Completed" if "GetMigration (iID inst) (fst w) = Inr m" for m
      using that new [of m] GetMigration_of [OF 1(3)]
      by (auto simp: GetMigration_def dest: row_find_Some split: option.splits)
    have "wp (maybeA ho (GetMigration (iID inst))) (\<lambda>found. wp (case found of None \<Rightarrow> bindA (begin_migration ho name target token opts inst) (settle_source ho name inst)
      | Some m \<Rightarrow> if mgPhase m = Aborted then if mgToken m = token then failA (ErrMsg ''recovered migration requires a fresh token'')
            else bindA (begin_migration ho name target token opts inst) (settle_source ho name inst)
          else if mgToken m \<noteq> token \<or> mgTarget m \<noteq> target \<or> mgMemoryPoolName m \<noteq> ioMemoryPoolName opts \<or> mgFixedMemory m \<noteq> ioFixedMemory opts
          then failA (ErrMsg ''migration already exists with different token, target or recovery outcome'')
          else if mgPhase m = Prepared \<or> mgPhase m = Completed then retA m else settle_source ho name inst m)
        (\<lambda>m w'. mgPhase m = Prepared \<and> held name token target False w') (\<lambda>_ _. True)) (\<lambda>_ _. True) w1"
      if "iState inst \<noteq> StateDeleted"
    proof (rule st_maybe [OF stable_at [of name h0 b q]], goal_cases)
      case 1
      show ?case using \<open>at name h0 b q w1\<close> by (simp add: at_def)
    next
      case (2 m w2)
      then have "at name h0 b q w2" "fst w2 = fst w" using 1(1, 2) by (simp_all add: at_def)
      then show ?case using found [of m] 2(3) 1(2, 3) that by (simp add: wp_simps(1, 2) start settle)
    next
      case (3 w2)
      then have "at name h0 b q w2" "fst w2 = fst w" using 1(1, 2) by (simp_all add: at_def)
      then show ?case using 1(3) that by (auto intro!: start)
    qed simp
    then show ?case
      by (auto simp: wp_lift failIf_def split: sum.split)
  qed simp
qed

subsection \<open>The fence holds\<close>

lemma held_keep: "held name token target c w \<Longrightarrow> ok (snd w') \<and> vacant name (snd w') \<Longrightarrow> fst w' = fst w \<Longrightarrow> held name token target c w'"
  by (simp add: held_def quiet_at_def)

lemma held_query:
  assumes "held name token target c w" "\<And>x w'. held name token target c w' \<Longrightarrow> fst w' = fst w \<Longrightarrow> f (fst w) = Inr x \<Longrightarrow> Q x w'"
    "\<And>e w'. held name token target c w' \<Longrightarrow> E e w'"
  shows "wp (queryA ho f) Q E w"
  by (rule st_query [OF stable_vacant [of name]])
    (use assms held_keep [OF assms(1)] in \<open>auto simp: held_def quiet_at_def\<close>)

lemma held_fence:
  assumes "held name token target c w" "\<And>e w'. held name token target c w' \<Longrightarrow> E e w'"
  shows "wp (envA ho (\<lambda>env. migrationFence env name)) Q E w"
  by (rule st_env [OF stable_vacant [of name]])
    (use assms held_keep [OF assms(1)] fence_refuses [of name token target c "fst w"] in \<open>auto simp: held_def quiet_at_def\<close>)

lemma held_instance:
  "held name token target c w \<Longrightarrow> GetInstance name (fst w) = Inr inst \<Longrightarrow>
    iState inst = StateStopped \<and> iFirecrackerPID inst = 0 \<and> iName inst = name"
  using GetInstance_row [of name "fst w" inst] by (simp add: held_def)

lemma held_resolve:
  assumes "held name token target c w" "iState inst = StateStopped" "iFirecrackerPID inst = 0"
    "\<And>w'. held name token target c w' \<Longrightarrow> Q inst w'" "\<And>e w'. held name token target c w' \<Longrightarrow> E e w'"
  shows "wp (resolveRuntime ho inst) Q E w"
proof -
  obtain d h where dh: "w = (d, h)" by fastforce
  obtain resp e h' where r: "hoResolve ho (attempt_of inst) h = ((resp, e), h')" by (metis prod.exhaust)
  have here: "held name token target c (d, h')"
    using resolve_quiet [OF r] assms(1) by (auto simp: undisturbed_def dh held_def quiet_at_def)
  define store where "store i = (if iState inst = iState i \<and> iFirecrackerPID inst = iFirecrackerPID i then retA i
      else bindA (touchA ho i) (\<lambda>i. bindA (updateRuntime ho inst i) (\<lambda>_. retA i)))" for i
  have "wp (store inst) Q E (d, h')"
    using assms(4) here by (simp add: store_def wp_ret)
  then have "wp (observe_outcome ho inst resp) (\<lambda>i. wp (store i) Q E) E (d, h')"
    using assms(2, 3, 5) here by (auto simp: observe_outcome_def wp_simps(1, 2))
  then have "wp (checkedResult ho inst) (\<lambda>x. wp (observe_outcome ho inst x) (\<lambda>i. wp (store i) Q E) E)
      (\<lambda>e. E (ErrWrap ErrStartUncertain e)) w"
    using assms(5) [OF here]
    by (cases e) (simp_all add: checkedResult_def startResult_def wp_def seeA_def bindA_def retA_def failA_def dh r)
  then show ?thesis
    unfolding resolveRuntime_def store_def [symmetric] using assms(1, 2, 4) by (auto simp: wp_bind wp_wrap wp_ret)
qed

lemma held_lifecycle:
  assumes w: "held name token target c w"
  shows "wp (lifecycle_run ho op name) (\<lambda>_. held name token target c) (\<lambda>_. held name token target c) w"
proof (cases op)
  case (OpStart cfg discard)
  then show ?thesis
    by (simp add: StartWithOptions_def wp_bind) (rule held_fence [OF w], assumption)
next
  case (OpStop save)
  have "wp (StopWithOptions ho name save) Q (\<lambda>_. held name token target c) w" for Q
    unfolding StopWithOptions_def wp_bind wp_lift
    by (rule held_query [OF w]) (use held_instance [OF w] in \<open>auto simp: stop_refused_def failIf_def\<close>)
  with OpStop show ?thesis by (simp add: wp_bind)
next
  case OpReconcile
  have "wp (ReconcileInstanceRuntime ho name) (\<lambda>_. held name token target c) (\<lambda>_. held name token target c) w"
    unfolding ReconcileInstanceRuntime_def reconcileRuntime_def wp_bind
  proof (rule held_query [OF w], goal_cases)
    case (1 inst w1)
    note i = held_instance [OF w 1(3)]
    have last: "wp (queryA ho (GetInstance name)) (\<lambda>_. held name token target c) (\<lambda>_. held name token target c) w'"
      if "held name token target c w'" for w'
      by (rule held_query [OF that])
    show ?case
      by (rule held_query [OF 1(1)])
        (auto simp: i wp_ret intro!: held_resolve [where name = name and token = token and target = target and c = c] last)
  qed
  with OpReconcile show ?thesis by (simp add: wp_bind wp_ret)
next
  case (OpRestore cfg)
  have "wp (RestoreInstance ho cfg name) (\<lambda>_. held name token target c) (\<lambda>_. held name token target c) w"
    unfolding RestoreInstance_def restoreInstance_def wp_bind
  proof (rule held_query [OF w], goal_cases)
    case (1 inst w1)
    then show ?case
      using held_instance [OF w 1(3)] by (simp del: Let_def) (rule held_fence, assumption, assumption)
  qed
  with OpRestore show ?thesis by simp
qed

lemma held_start:
  "held name token target c w \<Longrightarrow> wp (StartWithOptions ho cfg name discard) (\<lambda>_ _. False) (\<lambda>_. held name token target c) w"
  unfolding StartWithOptions_def wp_bind by (rule held_fence)

lemma held_prepare:
  assumes w: "held name token target c w"
  shows "wp (PrepareMigration ho name target' token' opts) (\<lambda>_. held name token target c) (\<lambda>_. held name token target c) w"
  unfolding PrepareMigration_def wp_bind Let_def
proof (rule held_query [OF w], goal_cases)
  case (1 inst w1)
  have refused: "wp (bindA (begin_migration ho name target' token' opts inst) (settle_source ho name inst)) Q (\<lambda>_. held name token target c) w'"
    if "held name token target c w'" for Q w'
    unfolding begin_migration_def wp_bind by (rule held_fence [OF that])
  have found: "mgPhase m = Prepared \<or> mgPhase m = Completed" if "GetMigration (iID inst) (fst w1) = Inr m" for m
    using that w GetMigration_of [OF 1(3)] 1(2) by (auto simp: held_def fences_def split: option.splits)
  define body where "body found = (let start = bindA (begin_migration ho name target' token' opts inst) (settle_source ho name inst) in
     case found of
       None \<Rightarrow> start
     | Some m \<Rightarrow>
         if mgPhase m = Aborted then
           (if mgToken m = token' then failA (ErrMsg ''recovered migration requires a fresh token'') else start)
         else if mgToken m \<noteq> token' \<or> mgTarget m \<noteq> target' \<or> mgMemoryPoolName m \<noteq> ioMemoryPoolName opts \<or>
             mgFixedMemory m \<noteq> ioFixedMemory opts
           then failA (ErrMsg ''migration already exists with different token, target or recovery outcome'')
         else if mgPhase m = Prepared \<or> mgPhase m = Completed then retA m
         else settle_source ho name inst m)" for found
  have "wp (maybeA ho (GetMigration (iID inst))) (\<lambda>found. wp (body found) (\<lambda>_. held name token target c) (\<lambda>_. held name token target c))
      (\<lambda>_. held name token target c) w1"
  proof (rule st_maybe [OF stable_vacant [of name]], goal_cases)
    case 1
    show ?case using w \<open>held name token target c w1\<close> by (simp add: held_def quiet_at_def)
  next
    case (2 m w2)
    then show ?case using found [OF 2(3)] held_keep [OF 1(1) 2(1, 2)] by (auto simp: body_def wp_simps(1, 2))
  next
    case (3 w2)
    then show ?case using refused held_keep [OF 1(1) 3(1, 2)] by (simp add: body_def)
  next
    case (4 e w2)
    then show ?case using held_keep [OF 1(1)] by simp
  qed
  then show ?case
    unfolding body_def [symmetric, unfolded Let_def] wp_lift using 1(1) by (simp split: sum.split)
qed

lemma held_finish:
  assumes w: "held name token target c w" and no_abort: "token' \<noteq> token \<or> \<not> recoverSource \<or> c"
  shows "wp (FinishMigration ho name token' recoverSource) (\<lambda>_. held name token target c) (\<lambda>_. held name token target c) w"
  unfolding FinishMigration_def wp_bind wp_lift
proof (rule held_query [OF w], goal_cases)
  case (1 m w1)
  note m = MigrationStatus_of [OF 1(3)]
  have ph: "mgToken m = token" "mgTarget m = target" "mgPhase m = Completed \<or> \<not> c \<and> mgPhase m = Prepared"
    using w m(1) by (auto simp: held_def fences_def)
  have put: "wp (execA ho (\<lambda>_. PutMigration (m\<lparr>mgPhase := Completed\<rparr>))) (\<lambda>_. held name token target c) (\<lambda>_. held name token target c) w1"
  proof (rule exec_quiet_at [of name])
    show "quiet_at name w1" using 1(1) by (simp add: held_def)
    show "held name token target c w'"
      if "quiet_at name w'" "PutMigration (m\<lparr>mgPhase := Completed\<rparr>) (fst w1) = Inr d'" "fst w' = d'" for d' w'
      using that(1, 3) PutMigration_of [OF that(2)] m(2) 1(1, 2) ph by (simp add: held_def fences_def)
    show "held name token target c w'" if "quiet_at name w'" "fst w' = fst w1" for w'
      using that 1(1) by (simp add: held_def)
  qed
  show ?case
    using ph no_abort 1(1) put by (auto simp: failIf_def wp_simps(1, 2))
qed simp

lemma held_step:
  assumes "held name token target c w" "op \<noteq> MFinish token True \<or> c"
  shows "wp (migration_run ho op name) (\<lambda>_. held name token target c) (\<lambda>_. held name token target c) w"
proof (cases op)
  case (MFinish token' recoverSource)
  then show ?thesis
    using held_finish [OF assms(1), of token' recoverSource] assms(2) by (auto simp: wp_bind wp_ret)
qed (use held_lifecycle [OF assms(1)] held_prepare [OF assms(1)] in \<open>auto simp: wp_bind wp_ret\<close>)

end

subsection \<open>The model of the runner\<close>

interpretation mig: migration_runner "runner_ops cd ora" "dirs_ok cd" name_vacant name_only net_present for cd ora
  by unfold_locales (auto simp: runner_ops_def dest: observe_quiet)

text \<open>Operations on the instance one after the other, none of which aborts the migration.\<close>

inductive fenced_run :: "codec \<Rightarrow> string \<Rightarrow> string \<Rightarrow> db \<times> runner_host \<Rightarrow> db \<times> runner_host \<Rightarrow> bool"
  for cd :: codec and name token :: string and w :: "db \<times> runner_host"
where
  stay: "fenced_run cd name token w w"
| operate: "fenced_run cd name token w w1 \<Longrightarrow> op \<noteq> MFinish token True \<Longrightarrow>
    migration_run (runner_ops cd ora) op name w1 = (r, w2) \<Longrightarrow> fenced_run cd name token w w2"

abbreviation source_held :: "codec \<Rightarrow> string \<Rightarrow> string \<Rightarrow> string \<Rightarrow> bool \<Rightarrow> db \<times> runner_host \<Rightarrow> bool" where
  "source_held cd \<equiv> mig.held cd"

lemma step_held:
  assumes "source_held cd name token target c w" "op \<noteq> MFinish token True \<or> c"
    "migration_run (runner_ops cd ora) op name w = (r, w')"
  shows "source_held cd name token target c w'"
  using mig.held_step [OF assms(1, 2), of ora] assms(3) by (cases r) (simp_all add: wp_def)

lemma run_held: "fenced_run cd name token w w' \<Longrightarrow> source_held cd name token target c w \<Longrightarrow> source_held cd name token target c w'"
  by (induction rule: fenced_run.induct) (auto intro: step_held)


subsection \<open>A migration of the example\<close>

definition mx_opts :: ImportOptions where
  "mx_opts = \<lparr>ioMemoryPoolName = [], ioFixedMemory = False\<rparr>"

definition mx_prepared :: "Migration result \<times> db \<times> runner_host" where
  "mx_prepared = PrepareMigration rt_ops ''web'' ''host2'' ''t1'' mx_opts (rt_db, rt_host)"

lemma mx_prepares: "\<not> isl (fst mx_prepared)"
  by code_simp

lemma mx_new: "migration_of ''web'' rt_db = None" "is_key iName (instances rt_db)"
  by code_simp+


end
