(* ===== verification/Spec2Isabelle.thy ===== *)
theory Spec2Isabelle
  imports StoreProps PoolProofs CapacityProofs ServiceProofs Logs Gate RuntimeProps NetHelperProofs DiskLayoutProofs CommandProps ColdStoreProofs RamProofs BalloonProofs MigrationProofs
begin

text \<open>
  srv: a daemon that runs Firecracker virtual machines for the users of a tailnet, driven by SSH
  commands. This development models its durable state and the rules around it.
\<close>

end
